(* ===== verification/Prelude.thy ===== *)
theory Prelude
  imports Main "HOL-Library.Word"
begin

text \<open>
  Shared vocabulary of the development.  A Go \<open>error\<close> result is a value of type
  \<open>'e option\<close> (\<open>None\<close> is the nil error).  A Go \<open>map\<close> is an association list with
  distinct keys: lookup is \<^const>\<open>map_of\<close>, assignment is \<open>go_map_set\<close>, and the order in which
  \<open>range\<close> visits the entries is the order of the list, so that a statement about
  all association lists covers every iteration order.  Pointers to heap objects are
  indices (\<open>ref\<close>) into a list of objects.  The collections below carry the
  component proofs.
\<close>

named_theorems gate_simps \<open>rewrite rules of the gate operations\<close>
named_theorems op_defs \<open>definitions of the operations of a component, unfolded by its proofs\<close>
named_theorems inv_intros \<open>preservation lemmas of the component invariants\<close>

type_synonym 'e result_err = "'e option"
type_synonym ref = nat
type_synonym tid = nat
type_synonym ns = int

text \<open>A Go call returns, waits, or panics.\<close>

datatype 'a outcome = Ret 'a | Blocks | Panics string

fun outcome_bind :: "'a outcome \<Rightarrow> ('a \<Rightarrow> 'b outcome) \<Rightarrow> 'b outcome" where
  "outcome_bind (Ret a) f = f a"
| "outcome_bind Blocks f = Blocks"
| "outcome_bind (Panics m) f = Panics m"

lemma outcome_bind_Ret: "outcome_bind x f = Ret y \<longleftrightarrow> (\<exists>a. x = Ret a \<and> f a = Ret y)"
  by (cases x) auto

section \<open>Go maps\<close>

fun go_map_set :: "'k \<Rightarrow> 'v \<Rightarrow> ('k \<times> 'v) list \<Rightarrow> ('k \<times> 'v) list" where
  "go_map_set k v [] = [(k, v)]"
| "go_map_set k v ((k', v') # m) = (if k = k' then (k, v) # m else (k', v') # go_map_set k v m)"

fun go_map_delete :: "'k \<Rightarrow> ('k \<times> 'v) list \<Rightarrow> ('k \<times> 'v) list" where
  "go_map_delete k [] = []"
| "go_map_delete k ((k', v') # m) = (if k = k' then go_map_delete k m else (k', v') # go_map_delete k m)"

definition go_map_ok :: "('k \<times> 'v) list \<Rightarrow> bool" where
  "go_map_ok m = distinct (map fst m)"

lemma map_of_go_map_set [simp]: "map_of (go_map_set k v m) = (map_of m)(k \<mapsto> v)"
  by (induction m) (auto simp: fun_eq_iff)

lemma keys_go_map_set [simp]: "fst ` set (go_map_set k v m) = insert k (fst ` set m)"
proof (induction m)
  case (Cons p m)
  then show ?case by (cases p) (simp add: insert_commute)
qed simp

lemma map_fst_go_map_set:
  "map fst (go_map_set k v m) = (if k \<in> fst ` set m then map fst m else map fst m @ [k])"
  by (induction m) force+

lemma go_map_set_fresh: "k \<notin> fst ` set m \<Longrightarrow> go_map_set k v m = m @ [(k, v)]"
  by (induction m) auto

lemma go_map_ok_set [simp, intro]: "go_map_ok m \<Longrightarrow> go_map_ok (go_map_set k v m)"
  by (simp add: go_map_ok_def map_fst_go_map_set)

lemma go_map_ok_Nil [simp]: "go_map_ok []"
  by (simp add: go_map_ok_def)

lemma length_go_map_set:
  "length (go_map_set k v m) = (if k \<in> fst ` set m then length m else Suc (length m))"
  by (induction m) force+

lemma map_of_go_map_delete [simp]: "map_of (go_map_delete k m) = (map_of m)(k := None)"
  by (induction m) (auto simp: fun_eq_iff)

lemma keys_go_map_delete [simp]: "fst ` set (go_map_delete k m) = fst ` set m - {k}"
proof (induction m)
  case (Cons p m)
  then show ?case by (cases p) (simp add: insert_Diff_if)
qed simp

lemma go_map_ok_delete [simp, intro]: "go_map_ok m \<Longrightarrow> go_map_ok (go_map_delete k m)"
proof (induction m)
  case (Cons p m)
  then show ?case
    using keys_go_map_delete [of k m] by (cases p) (auto simp: go_map_ok_def)
qed simp

lemma go_map_ok_snoc [simp]: "go_map_ok (m @ [(k, v)]) \<longleftrightarrow> go_map_ok m \<and> k \<notin> fst ` set m"
  by (auto simp: go_map_ok_def)

lemma set_go_map_set: "set (go_map_set k v m) \<subseteq> insert (k, v) (set m)"
  by (induction m) (auto split: if_splits)

lemma set_go_map_delete: "set (go_map_delete k m) \<subseteq> set m"
  by (induction m) (auto split: if_splits)

lemma set_go_map_delete_eq: "set (go_map_delete k m) = {(j, v). (j, v) \<in> set m \<and> j \<noteq> k}"
  by (induction m) (auto split: if_splits)

lemma go_map_delete_fresh: "k \<notin> fst ` set m \<Longrightarrow> go_map_delete k m = m"
  by (induction m) force+

lemma map_of_Some_iff_mem: "go_map_ok m \<Longrightarrow> map_of m k = Some v \<longleftrightarrow> (k, v) \<in> set m"
  by (simp add: go_map_ok_def)

lemma map_of_None_iff_mem: "map_of m k = None \<longleftrightarrow> k \<notin> fst ` set m"
  by (rule map_of_eq_None_iff)

section \<open>Integers\<close>

text \<open>Go's integer division truncates towards zero.\<close>

definition go_quot :: "int \<Rightarrow> int \<Rightarrow> int" where
  "go_quot a b = sgn a * sgn b * (\<bar>a\<bar> div \<bar>b\<bar>)"

lemma go_quot_nonneg: "0 \<le> a \<Longrightarrow> 0 < b \<Longrightarrow> go_quot a b = a div b"
  by (cases "a = 0") (simp_all add: go_quot_def)

text \<open>Arithmetic of Go's \<open>int64\<close> wraps around.\<close>

definition wrap64 :: "int \<Rightarrow> int" where
  "wrap64 x = (x + 2 ^ 63) mod 2 ^ 64 - 2 ^ 63"

lemma wrap64_id: "- (2 ^ 63) \<le> x \<Longrightarrow> x < 2 ^ 63 \<Longrightarrow> wrap64 x = x"
  by (simp add: wrap64_def)

lemma wrap64_range: "- (2 ^ 63) \<le> wrap64 x \<and> wrap64 x < 2 ^ 63"
  using pos_mod_sign [of "2 ^ 64" "x + 2 ^ 63"] pos_mod_bound [of "2 ^ 64" "x + 2 ^ 63"]
  by (simp add: wrap64_def)

lemma unat_minus_eq_zero: "unat (a - b) = 0 \<longleftrightarrow> a = (b :: 'a::len word)"
  by (simp add: unat_eq_0)

lemma unat_pred: "a \<noteq> 0 \<Longrightarrow> unat (a - 1) = unat (a :: 'a::len word) - 1"
  by (rule unat_minus_one)

section \<open>Paths\<close>

text \<open>\<open>path.Base\<close>: the last element of a slash-separated path.\<close>

definition path_Base :: "string \<Rightarrow> string" where
  "path_Base p =
    (if p = [] then ''.''
     else let q = rev (dropWhile (\<lambda>x. x = CHR ''/'') (rev p))
          in if q = [] then ''/'' else rev (takeWhile (\<lambda>x. x \<noteq> CHR ''/'') (rev q)))"

section \<open>Decimal notation\<close>

definition digit_char :: "nat \<Rightarrow> char" where
  "digit_char d = char_of (48 + d)"

fun nat_dec :: "nat \<Rightarrow> string" where
  "nat_dec n = (if n < 10 then [digit_char n] else nat_dec (n div 10) @ [digit_char (n mod 10)])"

declare nat_dec.simps [simp del]

definition int_dec :: "int \<Rightarrow> string" where
  "int_dec i = (if i < 0 then ''-'' @ nat_dec (nat (- i)) else nat_dec (nat i))"

definition char_digit :: "char \<Rightarrow> nat option" where
  "char_digit c = (let n = (of_char c :: nat) in if 48 \<le> n \<and> n \<le> 57 then Some (n - 48) else None)"

fun parse_digits :: "nat \<Rightarrow> string \<Rightarrow> nat option" where
  "parse_digits acc [] = Some acc"
| "parse_digits acc (c # cs) = (case char_digit c of None \<Rightarrow> None | Some d \<Rightarrow> parse_digits (acc * 10 + d) cs)"

text \<open>\<open>strconv.ParseInt(s, 10, 64)\<close>: an optional sign and at least one digit, in the range of
  \<open>int64\<close>.\<close>

definition parse_int64 :: "string \<Rightarrow> int option" where
  "parse_int64 s =
    (let neg = (case s of c # _ \<Rightarrow> c = CHR ''-'' | [] \<Rightarrow> False);
         ds = (case s of c # cs \<Rightarrow> if c = CHR ''-'' \<or> c = CHR ''+'' then cs else s | [] \<Rightarrow> s)
     in if ds = [] then None
        else case parse_digits 0 ds of
               None \<Rightarrow> None
             | Some n \<Rightarrow> let v = (if neg then - int n else int n)
                        in if - (2 ^ 63) \<le> v \<and> v < 2 ^ 63 then Some v else None)"

lemma char_digit_digit_char: "d < 10 \<Longrightarrow> char_digit (digit_char d) = Some d"
  by (simp add: char_digit_def digit_char_def of_char_of)

lemma parse_digits_append:
  "parse_digits acc (xs @ ys) = (case parse_digits acc xs of None \<Rightarrow> None | Some a \<Rightarrow> parse_digits a ys)"
  by (induction xs arbitrary: acc) (auto split: option.splits)

lemma parse_nat_dec: "parse_digits 0 (nat_dec n) = Some n"
proof (induction n rule: nat_dec.induct)
  case (1 n)
  then show ?case
    by (subst nat_dec.simps) (auto simp: parse_digits_append char_digit_digit_char)
qed

lemma nat_dec_nonempty [simp]: "nat_dec n \<noteq> []"
  by (subst nat_dec.simps) simp

lemma digit_char_not_sign: "d < 10 \<Longrightarrow> digit_char d \<noteq> CHR ''-'' \<and> digit_char d \<noteq> CHR ''+''"
  using char_digit_digit_char [of d] by (auto simp: char_digit_def)

lemma nat_dec_head: "\<exists>d ds. nat_dec n = digit_char d # ds \<and> d < 10"
proof (induction n rule: nat_dec.induct)
  case (1 n)
  show ?case
  proof (cases "n < 10")
    case True
    then show ?thesis by (subst nat_dec.simps) auto
  next
    case False
    then obtain d ds where "nat_dec (n div 10) = digit_char d # ds" "d < 10" using 1 by blast
    then show ?thesis using False by (subst nat_dec.simps) fastforce
  qed
qed

lemma parse_int64_dec:
  assumes "- (2 ^ 63) \<le> i" "i < 2 ^ 63"
  shows "parse_int64 (int_dec i) = Some i"
proof -
  obtain d ds where h: "nat_dec (nat \<bar>i\<bar>) = digit_char d # ds" "d < 10" using nat_dec_head by blast
  show ?thesis
    using assms h digit_char_not_sign [OF h(2)] parse_nat_dec [of "nat \<bar>i\<bar>"]
    by (cases "i < 0") (auto simp: parse_int64_def int_dec_def Let_def)
qed

section \<open>Lists\<close>

lemma foldl_fixed:
  assumes "\<And>x. x \<in> set xs \<Longrightarrow> f a x = a"
  shows "foldl f a xs = a"
  using assms by (induction xs) auto

lemma map_of_map_snd: "map_of (map (\<lambda>(k, v). (k, f v)) m) k = map_option f (map_of m k)"
  by (induction m) auto

end
