(* ===== verification/Errors.thy ===== *)
theory Errors
  imports Prelude
begin

text \<open>
  Errors as values.  \<open>ErrorType\<close> and its constants are those of
  \<open>internal/lambda/fatalerror/fatalerror.go\<close>; \<open>go_error\<close> has one constructor for each
  sentinel error the modelled packages return, in the words of the source, plus
  \<open>ErrText\<close> for errors built with \<open>fmt.Errorf\<close>.  The last section models the scrubbing
  of the error type a runtime reports, \<open>GetValidRuntimeOrFunctionErrorType\<close>.
\<close>

type_synonym ErrorType = string

definition AgentInitError :: ErrorType where "AgentInitError = ''Extension.InitError''"
definition AgentExitError :: ErrorType where "AgentExitError = ''Extension.ExitError''"
definition AgentCrash :: ErrorType where "AgentCrash = ''Extension.Crash''"
definition AgentLaunchError :: ErrorType where "AgentLaunchError = ''Extension.LaunchError''"
definition RuntimeExit :: ErrorType where "RuntimeExit = ''Runtime.ExitError''"
definition InvalidEntrypoint :: ErrorType where "InvalidEntrypoint = ''Runtime.InvalidEntrypoint''"
definition InvalidWorkingDir :: ErrorType where "InvalidWorkingDir = ''Runtime.InvalidWorkingDir''"
definition InvalidTaskConfig :: ErrorType where "InvalidTaskConfig = ''Runtime.InvalidTaskConfig''"
definition TruncatedResponse :: ErrorType where "TruncatedResponse = ''Runtime.TruncatedResponse''"
definition RuntimeInvalidResponseModeHeader :: ErrorType where "RuntimeInvalidResponseModeHeader = ''Runtime.InvalidResponseModeHeader''"
definition RuntimeUnknown :: ErrorType where "RuntimeUnknown = ''Runtime.Unknown''"
definition FunctionOversizedResponse :: ErrorType where "FunctionOversizedResponse = ''Function.ResponseSizeTooLarge''"
definition FunctionUnknown :: ErrorType where "FunctionUnknown = ''Function.Unknown''"
definition SandboxFailure :: ErrorType where "SandboxFailure = ''Sandbox.Failure''"
definition SandboxTimeout :: ErrorType where "SandboxTimeout = ''Sandbox.Timeout''"

definition validRuntimeAndFunctionErrors :: "ErrorType list" where
  "validRuntimeAndFunctionErrors =
    [RuntimeExit, InvalidEntrypoint, InvalidWorkingDir, InvalidTaskConfig, TruncatedResponse,
     RuntimeInvalidResponseModeHeader, RuntimeUnknown, FunctionOversizedResponse, FunctionUnknown]"

lemmas error_type_defs =
  AgentInitError_def AgentExitError_def AgentCrash_def AgentLaunchError_def RuntimeExit_def
  InvalidEntrypoint_def InvalidWorkingDir_def InvalidTaskConfig_def TruncatedResponse_def
  RuntimeInvalidResponseModeHeader_def RuntimeUnknown_def FunctionOversizedResponse_def
  FunctionUnknown_def SandboxFailure_def SandboxTimeout_def

record FunctionError =
  fe_Type :: ErrorType
  fe_Message :: string

datatype go_error =
    ErrGateIntegrity
  | ErrGateCanceled
  | ErrNotAllowed
  | ErrConcurrentStateModification
  | ErrRestoreHookTimeout
  | ErrTimeout
  | ErrRestoreHookUserError FunctionError
  | ErrInvalidEventType
  | ErrEventNotSupportedForInternalAgent
  | ErrAgentNameCollision
  | ErrAgentIDCollision
  | ErrRegistrationServiceOff
  | ErrTooManyExtensions
  | ErrPermission
  | ErrCredentialsNotFound
  | ErrInvalidFunctionResponseMode
  | ErrInvalidInvokeID
  | ErrInvalidReservationToken
  | ErrInvalidFunctionVersion
  | ErrInvalidInvokeResponseMode
  | ErrInvalidMaxPayloadSize
  | ErrInvalidResponseBandwidthRate
  | ErrInvalidResponseBandwidthBurstSize
  | ErrMalformedCustomerHeaders
  | ErrResponseSent
  | ErrReservationExpired
  | ErrInternalPlatformError
  | ErrTruncatedResponse
  | ErrorResponseTooLarge int int
  | ErrorResponseTooLargeDI int int
  | ErrText string

section \<open>Scrubbing of the error type reported by a runtime\<close>

definition is_upper :: "char \<Rightarrow> bool" where
  "is_upper c = (65 \<le> (of_char c :: nat) \<and> (of_char c :: nat) \<le> 90)"

definition is_letter :: "char \<Rightarrow> bool" where
  "is_letter c = (is_upper c \<or> 97 \<le> (of_char c :: nat) \<and> (of_char c :: nat) \<le> 122)"

fun strip_prefix :: "string \<Rightarrow> string \<Rightarrow> string option" where
  "strip_prefix [] s = Some s"
| "strip_prefix (p # ps) [] = None"
| "strip_prefix (p # ps) (c # s) = (if p = c then strip_prefix ps s else None)"

definition hasPrefix :: "string \<Rightarrow> string \<Rightarrow> bool" where
  "hasPrefix s p = (strip_prefix p s \<noteq> None)"

text \<open>\<open>strings.Split\<close> at a character and \<open>strings.Contains\<close>.\<close>

fun split_on :: "char \<Rightarrow> string \<Rightarrow> string list" where
  "split_on c [] = [[]]"
| "split_on c (x # xs) =
    (if x = c then [] # split_on c xs else case split_on c xs of f # fs \<Rightarrow> (x # f) # fs | [] \<Rightarrow> [[x]])"

fun str_contains :: "string \<Rightarrow> string \<Rightarrow> bool" where
  "str_contains [] p = hasPrefix [] p"
| "str_contains (c # cs) p = (hasPrefix (c # cs) p \<or> str_contains cs p)"

text \<open>The part \<open>[A-Z][a-zA-Z]+\<close> of the pattern matches a prefix of the string exactly when
  the first character is upper case and the second is a letter.\<close>

fun error_name_here :: "string \<Rightarrow> bool" where
  "error_name_here (c # d # s) = (is_upper c \<and> is_letter d)"
| "error_name_here s = False"

definition error_type_here :: "string \<Rightarrow> bool" where
  "error_type_here s =
    ((case strip_prefix ''Runtime.'' s of Some r \<Rightarrow> error_name_here r | None \<Rightarrow> False) \<or>
     (case strip_prefix ''Function.'' s of Some r \<Rightarrow> error_name_here r | None \<Rightarrow> False))"

text \<open>\<open>regexp.MatchString\<close> looks for the pattern at every position of the input.\<close>

fun match_error_type :: "string \<Rightarrow> bool" where
  "match_error_type [] = error_type_here []"
| "match_error_type (c # s) = (error_type_here (c # s) \<or> match_error_type s)"

definition GetValidRuntimeOrFunctionErrorType :: "string \<Rightarrow> ErrorType" where
  "GetValidRuntimeOrFunctionErrorType errorType =
    (if match_error_type errorType then errorType
     else if hasPrefix errorType ''Function.'' then FunctionUnknown
     else RuntimeUnknown)"

lemma strip_prefix_iff: "strip_prefix p s = Some r \<longleftrightarrow> s = p @ r"
  by (induction p s rule: strip_prefix.induct) auto

lemma hasPrefix_iff: "hasPrefix s p \<longleftrightarrow> (\<exists>r. s = p @ r)"
  by (auto simp: hasPrefix_def strip_prefix_iff)

lemma match_error_type_append: "match_error_type s \<Longrightarrow> match_error_type (p @ s)"
  by (induction p) auto

lemma error_type_here_match: "error_type_here s \<Longrightarrow> match_error_type s"
  by (cases s) auto

lemma error_type_here_iff:
  "error_type_here s \<longleftrightarrow>
    (\<exists>k \<in> {''Runtime.'', ''Function.''}. \<exists>c d r. s = k @ c # d # r \<and> is_upper c \<and> is_letter d)"
proof -
  have name: "error_name_here r \<longleftrightarrow> (\<exists>c d t. r = c # d # t \<and> is_upper c \<and> is_letter d)" for r
    by (cases r rule: error_name_here.cases) auto
  show ?thesis
    by (auto simp: error_type_here_def name strip_prefix_iff split: option.splits)
qed

lemma match_error_type_iff: "match_error_type s \<longleftrightarrow> (\<exists>p t. s = p @ t \<and> error_type_here t)"
proof (induction s)
  case Nil
  then show ?case by simp
next
  case (Cons c s)
  then show ?case
    by (auto simp: Cons_eq_append_conv)
qed

lemma match_error_type_unknown: "match_error_type RuntimeUnknown" "match_error_type FunctionUnknown"
  by (simp_all add: RuntimeUnknown_def FunctionUnknown_def error_type_here_def is_upper_def is_letter_def)

text \<open>The error type a runtime reports is scrubbed.  Whatever string it sends, the
  result contains a \<open>Runtime.\<close> or \<open>Function.\<close> prefix followed by an upper-case letter and a
  letter; a well-formed type is returned unchanged (so scrubbing twice is scrubbing once) and
  anything else becomes the \<open>Unknown\<close> type of the group it claims to be in.\<close>

theorem error_type_scrubbed:
  "match_error_type (GetValidRuntimeOrFunctionErrorType s) \<and>
   GetValidRuntimeOrFunctionErrorType (GetValidRuntimeOrFunctionErrorType s)
     = GetValidRuntimeOrFunctionErrorType s \<and>
   (GetValidRuntimeOrFunctionErrorType s = s \<longleftrightarrow> match_error_type s) \<and>
   (GetValidRuntimeOrFunctionErrorType s
     \<in> {s, if \<exists>r. s = ''Function.'' @ r then FunctionUnknown else RuntimeUnknown})"
  using match_error_type_unknown
  by (auto simp: GetValidRuntimeOrFunctionErrorType_def hasPrefix_iff)

end
