(* ===== verification/Gates.thy ===== *)
theory Gates
  imports Errors
begin

text \<open>
  The synchronization gate of \<open>internal/lambda/core/gates.go\<close>: a 16-bit counter of
  arrivals against an expected count, with cancellation.  \<open>AwaitGateCondition\<close> is modelled by
  what the waiting thread sees when it holds the gate's mutex: it returns an error value or
  it waits (\<open>AwaitBlocks\<close>).  The interface other components rely on is the locale
  \<open>gate_interface\<close>, stated over the number of arrivals still missing; it is interpreted on
  the implementation at the end.
\<close>

definition maxAgentsLimit :: "16 word" where
  "maxAgentsLimit = 65535"

record gateImpl =
  count :: "16 word"
  arrived :: "16 word"
  canceled :: bool
  err :: "go_error option"

datatype await_result = AwaitReturns "go_error option" | AwaitBlocks

definition NewGate :: "16 word \<Rightarrow> gateImpl" where
  "NewGate n = \<lparr>count = n, arrived = 0, canceled = False, err = None\<rparr>"

definition Register :: "16 word \<Rightarrow> gateImpl \<Rightarrow> gateImpl" where
  "Register n g = g\<lparr>count := count g + n\<rparr>"

definition SetCount :: "16 word \<Rightarrow> gateImpl \<Rightarrow> gateImpl \<times> go_error option" where
  "SetCount n g =
    (if n > maxAgentsLimit \<or> n < arrived g then (g, Some ErrGateIntegrity)
     else (g\<lparr>count := n\<rparr>, None))"

definition Reset :: "gateImpl \<Rightarrow> gateImpl" where
  "Reset g = (if \<not> canceled g then g\<lparr>arrived := 0\<rparr> else g)"

definition WalkThrough :: "gateImpl \<Rightarrow> gateImpl \<times> go_error option" where
  "WalkThrough g =
    (if arrived g = count g then (g, Some ErrGateIntegrity)
     else (g\<lparr>arrived := arrived g + 1\<rparr>, None))"

definition AwaitGateCondition :: "gateImpl \<Rightarrow> await_result" where
  "AwaitGateCondition g =
    (if arrived g \<noteq> count g \<and> \<not> canceled g then AwaitBlocks
     else if canceled g
     then AwaitReturns (case err g of Some e \<Rightarrow> Some e | None \<Rightarrow> Some ErrGateCanceled)
     else AwaitReturns None)"

definition CancelWithError :: "go_error option \<Rightarrow> gateImpl \<Rightarrow> gateImpl" where
  "CancelWithError e g = g\<lparr>canceled := True, err := e\<rparr>"

definition Clear :: "gateImpl \<Rightarrow> gateImpl" where
  "Clear g = g\<lparr>canceled := False, arrived := 0, err := None\<rparr>"

section \<open>Abstraction: arrivals still missing and the pending cancellation\<close>

definition missing :: "gateImpl \<Rightarrow> nat" where
  "missing g = unat (count g - arrived g)"

definition cancellation :: "gateImpl \<Rightarrow> go_error option" where
  "cancellation g = (if canceled g then Some (case err g of Some e \<Rightarrow> e | None \<Rightarrow> ErrGateCanceled) else None)"

lemmas gate_op_defs = NewGate_def Register_def SetCount_def Reset_def WalkThrough_def
  AwaitGateCondition_def CancelWithError_def Clear_def

lemma missing_eq_0: "missing g = 0 \<longleftrightarrow> arrived g = count g"
  by (auto simp: missing_def unat_minus_eq_zero)

lemma missing_NewGate [simp]: "missing (NewGate n) = unat n"
  by (simp add: missing_def NewGate_def)

lemma missing_Clear [simp]: "missing (Clear g) = unat (count g)"
  by (simp add: missing_def Clear_def)

lemma missing_CancelWithError [simp]: "missing (CancelWithError e g) = missing g"
  by (simp add: missing_def CancelWithError_def)

lemma cancellation_simps [simp]:
  "cancellation (NewGate n) = None"
  "cancellation (Clear g) = None"
  "cancellation (CancelWithError e g) = Some (case e of Some e \<Rightarrow> e | None \<Rightarrow> ErrGateCanceled)"
  by (simp_all add: cancellation_def NewGate_def Clear_def CancelWithError_def)

lemma await_by_abstraction:
  "AwaitGateCondition g =
    (case cancellation g of
       Some e \<Rightarrow> AwaitReturns (Some e)
     | None \<Rightarrow> if missing g = 0 then AwaitReturns None else AwaitBlocks)"
  by (simp add: AwaitGateCondition_def cancellation_def missing_eq_0 split: option.splits)

lemma walk_open: "missing g = 0 \<Longrightarrow> WalkThrough g = (g, Some ErrGateIntegrity)"
  by (simp add: missing_eq_0 WalkThrough_def)

lemma walk_missing:
  assumes "missing g = Suc k"
  shows "snd (WalkThrough g) = None \<and> missing (fst (WalkThrough g)) = k
    \<and> cancellation (fst (WalkThrough g)) = cancellation g
    \<and> count (fst (WalkThrough g)) = count g"
proof -
  have ne: "arrived g \<noteq> count g" using assms missing_eq_0 [of g] by simp
  have "unat (count g - arrived g - 1) = unat (count g - arrived g) - 1"
    using ne by (intro unat_pred) auto
  then show ?thesis
    using ne assms by (simp add: WalkThrough_def missing_def cancellation_def algebra_simps)
qed

section \<open>The gate interface\<close>

locale gate_interface =
  fixes walk :: "'g \<Rightarrow> 'g \<times> go_error option"
    and await :: "'g \<Rightarrow> await_result"
    and cancel :: "go_error option \<Rightarrow> 'g \<Rightarrow> 'g"
    and left :: "'g \<Rightarrow> nat"
    and pending :: "'g \<Rightarrow> go_error option"
  assumes walk_at_open: "left g = 0 \<Longrightarrow> walk g = (g, Some ErrGateIntegrity)"
    and walk_when_missing: "left g = Suc k \<Longrightarrow>
      snd (walk g) = None \<and> left (fst (walk g)) = k \<and> pending (fst (walk g)) = pending g"
    and await_by_state: "await g =
      (case pending g of Some e \<Rightarrow> AwaitReturns (Some e)
       | None \<Rightarrow> if left g = 0 then AwaitReturns None else AwaitBlocks)"
    and pending_cancel: "pending (cancel (Some e) g) = Some e"
    and left_cancel: "left (cancel ce g) = left g"
begin

definition walks :: "nat \<Rightarrow> 'g \<Rightarrow> 'g" where
  "walks n = ((\<lambda>g. fst (walk g)) ^^ n)"

lemma walks_Suc: "walks (Suc n) g = fst (walk (walks n g))"
  by (simp add: walks_def)

lemma walks_left: "n \<le> left g \<Longrightarrow> left (walks n g) = left g - n \<and> pending (walks n g) = pending g"
proof (induction n)
  case 0
  then show ?case by (simp add: walks_def)
next
  case (Suc n)
  then have IH: "left (walks n g) = Suc (left g - Suc n)" "pending (walks n g) = pending g" by simp_all
  show ?case using walk_when_missing [OF IH(1)] IH(2) by (simp add: walks_Suc)
qed

lemma walk_succeeds: "n < left g \<Longrightarrow> snd (walk (walks n g)) = None"
proof -
  assume "n < left g"
  then have "left (walks n g) = Suc (left g - n - 1)" using walks_left [of n g] by simp
  then show ?thesis using walk_when_missing by blast
qed

lemma closed_before: "n < left g \<Longrightarrow> pending g = None \<Longrightarrow> await (walks n g) = AwaitBlocks"
  using walks_left [of n g] by (simp add: await_by_state)

lemma open_after: "pending g = None \<Longrightarrow> await (walks (left g) g) = AwaitReturns None"
  using walks_left [of "left g" g] by (simp add: await_by_state)

lemma integrity_after: "snd (walk (walks (left g) g)) = Some ErrGateIntegrity"
  using walks_left [of "left g" g] by (simp add: walk_at_open)

lemma walk_keeps_pending: "pending (fst (walk g)) = pending g"
  by (cases "left g") (simp_all add: walk_at_open walk_when_missing)

lemma canceled_always_returns: "pending g = Some e \<Longrightarrow> await (walks n g) = AwaitReturns (Some e)"
proof -
  assume "pending g = Some e"
  then have "pending (walks n g) = Some e"
    by (induction n) (simp_all add: walks_def walk_keeps_pending)
  then show ?thesis by (simp add: await_by_state)
qed

lemma await_cancelled: "await (walks n (cancel (Some e) g)) = AwaitReturns (Some e)"
  by (rule canceled_always_returns) (rule pending_cancel)

end

interpretation gate: gate_interface WalkThrough AwaitGateCondition CancelWithError missing cancellation
proof unfold_locales
  show "missing g = 0 \<Longrightarrow> WalkThrough g = (g, Some ErrGateIntegrity)" for g
    by (rule walk_open)
  show "missing g = Suc k \<Longrightarrow> snd (WalkThrough g) = None \<and> missing (fst (WalkThrough g)) = k
      \<and> cancellation (fst (WalkThrough g)) = cancellation g" for g k
    using walk_missing by blast
qed (simp_all add: await_by_abstraction)

section \<open>Correctness of the gate\<close>

fun walk_n :: "nat \<Rightarrow> gateImpl \<Rightarrow> gateImpl" where
  "walk_n 0 g = g"
| "walk_n (Suc n) g = walk_n n (fst (WalkThrough g))"

lemma walk_n_walks: "walk_n n g = gate.walks n g"
  by (induction n arbitrary: g) (simp_all add: gate.walks_def funpow_swap1 [of "\<lambda>g. fst (WalkThrough g)"])

text \<open>A gate created for \<open>n\<close> arrivals (any 16-bit \<open>n\<close>) stays closed for every smaller
  number of arrivals, each of which succeeds, opens at the \<open>n\<close>-th, and rejects any further
  arrival with \<open>ErrGateIntegrity\<close>.\<close>

theorem gate_opens_exactly_at_count:
  assumes "k < unat n"
  shows "AwaitGateCondition (walk_n k (NewGate n)) = AwaitBlocks \<and>
    snd (WalkThrough (walk_n k (NewGate n))) = None \<and>
    AwaitGateCondition (walk_n (unat n) (NewGate n)) = AwaitReturns None \<and>
    snd (WalkThrough (walk_n (unat n) (NewGate n))) = Some ErrGateIntegrity"
  using assms gate.closed_before [of k "NewGate n"] gate.walk_succeeds [of k "NewGate n"]
    gate.open_after [of "NewGate n"] gate.integrity_after [of "NewGate n"]
  by (simp add: walk_n_walks)

theorem gate_opens_exactly_at_count_witness:
  "AwaitGateCondition (walk_n 1 (NewGate 2)) = AwaitBlocks \<and>
    snd (WalkThrough (walk_n 1 (NewGate 2))) = None \<and>
    AwaitGateCondition (walk_n 2 (NewGate 2)) = AwaitReturns None \<and>
    snd (WalkThrough (walk_n 2 (NewGate 2))) = Some ErrGateIntegrity"
  using gate_opens_exactly_at_count [of 1 2] by simp

text \<open>A cancelled gate never blocks a waiter: whatever the number of arrivals before
  and after the cancellation, the waiter gets the cancelling error, or
  \<open>ErrGateCanceled\<close> when the gate was cancelled without one.\<close>

theorem gate_cancel_wins:
  "AwaitGateCondition (walk_n m (CancelWithError e (walk_n k g)))
    = AwaitReturns (Some (case e of Some e' \<Rightarrow> e' | None \<Rightarrow> ErrGateCanceled))"
  unfolding walk_n_walks by (rule gate.canceled_always_returns) simp

text \<open>The count invariant \<open>arrived \<le> count\<close>: established by \<open>NewGate\<close> and kept by every
  operation but \<open>Register\<close>, whose addition wraps.\<close>

definition gate_ok :: "gateImpl \<Rightarrow> bool" where
  "gate_ok g = (arrived g \<le> count g)"

lemma gate_ok_NewGate [simp, inv_intros]: "gate_ok (NewGate n)"
  by (simp add: gate_ok_def NewGate_def)

lemma gate_ok_WalkThrough [inv_intros]: "gate_ok g \<Longrightarrow> gate_ok (fst (WalkThrough g))"
  by (auto simp: gate_ok_def WalkThrough_def intro: inc_le)

lemma gate_ok_SetCount [inv_intros]: "gate_ok g \<Longrightarrow> gate_ok (fst (SetCount n g))"
  by (auto simp: gate_ok_def SetCount_def)

lemma gate_ok_Reset [inv_intros]: "gate_ok g \<Longrightarrow> gate_ok (Reset g)"
  by (simp add: gate_ok_def Reset_def)

lemma gate_ok_CancelWithError [inv_intros]: "gate_ok g \<Longrightarrow> gate_ok (CancelWithError e g)"
  by (simp add: gate_ok_def CancelWithError_def)

lemma gate_ok_Clear [inv_intros]: "gate_ok (Clear g)"
  by (simp add: gate_ok_def Clear_def)

lemma gate_ok_missing: "gate_ok g \<Longrightarrow> missing g = unat (count g) - unat (arrived g)"
  by (simp add: gate_ok_def missing_def unat_sub)

lemma le_maxAgentsLimit: "n \<le> maxAgentsLimit"
proof -
  have "maxAgentsLimit = - 1" by (simp add: maxAgentsLimit_def)
  then show ?thesis using word_n1_ge [of n] by metis
qed

lemma SetCount_missing:
  "arrived g \<le> n \<Longrightarrow> SetCount n g = (g\<lparr>count := n\<rparr>, None) \<and>
    missing (g\<lparr>count := n\<rparr>) = unat n - unat (arrived g)"
  using le_maxAgentsLimit [of n] by (auto simp: SetCount_def missing_def unat_sub not_less)

end
