(* ===== verification/Flow.thy ===== *)
theory Flow
  imports Gates
begin

text \<open>
  The barriers of the init and invoke phases, \<open>internal/lambda/core/flow.go\<close>: each flow is a
  record of gates, and each method of the flow forwards to one gate or to all of them.
  The context deadline of \<open>AwaitRuntimeReadyWithDeadline\<close> is a parameter saying whether the
  context is done and which branch \<open>select\<close> takes when both are ready.  The contract both
  flows give their clients, that a cancelled flow releases every waiter with the
  cancelling error whatever arrives afterwards, is the locale \<open>cancellable_flow\<close>.
\<close>

section \<open>Init flow\<close>

record initFlowSynchronizationImpl =
  externalAgentsRegisteredGate :: gateImpl
  init_runtimeReadyGate :: gateImpl
  init_agentReadyGate :: gateImpl
  runtimeRestoreReadyGate :: gateImpl

type_synonym init_flow = initFlowSynchronizationImpl

definition NewInitFlowSynchronization :: init_flow where
  "NewInitFlowSynchronization =
    \<lparr>externalAgentsRegisteredGate = NewGate 0,
     init_runtimeReadyGate = NewGate 1,
     init_agentReadyGate = NewGate maxAgentsLimit,
     runtimeRestoreReadyGate = NewGate 1\<rparr>"

definition SetExternalAgentsRegisterCount :: "16 word \<Rightarrow> init_flow \<Rightarrow> init_flow \<times> go_error option" where
  "SetExternalAgentsRegisterCount n s =
    (case SetCount n (externalAgentsRegisteredGate s) of
       (g, e) \<Rightarrow> (s\<lparr>externalAgentsRegisteredGate := g\<rparr>, e))"

definition init_SetAgentsReadyCount :: "16 word \<Rightarrow> init_flow \<Rightarrow> init_flow \<times> go_error option" where
  "init_SetAgentsReadyCount n s =
    (case SetCount n (init_agentReadyGate s) of (g, e) \<Rightarrow> (s\<lparr>init_agentReadyGate := g\<rparr>, e))"

definition init_AwaitRuntimeReady :: "init_flow \<Rightarrow> await_result" where
  "init_AwaitRuntimeReady s = AwaitGateCondition (init_runtimeReadyGate s)"

definition AwaitRuntimeRestoreReady :: "init_flow \<Rightarrow> await_result" where
  "AwaitRuntimeRestoreReady s = AwaitGateCondition (runtimeRestoreReadyGate s)"

definition AwaitExternalAgentsRegistered :: "init_flow \<Rightarrow> await_result" where
  "AwaitExternalAgentsRegistered s = AwaitGateCondition (externalAgentsRegisteredGate s)"

definition init_AwaitAgentsReady :: "init_flow \<Rightarrow> await_result" where
  "init_AwaitAgentsReady s = AwaitGateCondition (init_agentReadyGate s)"

definition init_RuntimeReady :: "init_flow \<Rightarrow> init_flow \<times> go_error option" where
  "init_RuntimeReady s =
    (case WalkThrough (init_runtimeReadyGate s) of (g, e) \<Rightarrow> (s\<lparr>init_runtimeReadyGate := g\<rparr>, e))"

definition RuntimeRestoreReady :: "init_flow \<Rightarrow> init_flow \<times> go_error option" where
  "RuntimeRestoreReady s =
    (case WalkThrough (runtimeRestoreReadyGate s) of (g, e) \<Rightarrow> (s\<lparr>runtimeRestoreReadyGate := g\<rparr>, e))"

definition init_AgentReady :: "init_flow \<Rightarrow> init_flow \<times> go_error option" where
  "init_AgentReady s =
    (case WalkThrough (init_agentReadyGate s) of (g, e) \<Rightarrow> (s\<lparr>init_agentReadyGate := g\<rparr>, e))"

definition ExternalAgentRegistered :: "init_flow \<Rightarrow> init_flow \<times> go_error option" where
  "ExternalAgentRegistered s =
    (case WalkThrough (externalAgentsRegisteredGate s) of
       (g, e) \<Rightarrow> (s\<lparr>externalAgentsRegisteredGate := g\<rparr>, e))"

definition init_CancelWithError :: "go_error option \<Rightarrow> init_flow \<Rightarrow> init_flow" where
  "init_CancelWithError e s =
    \<lparr>externalAgentsRegisteredGate = CancelWithError e (externalAgentsRegisteredGate s),
     init_runtimeReadyGate = CancelWithError e (init_runtimeReadyGate s),
     init_agentReadyGate = CancelWithError e (init_agentReadyGate s),
     runtimeRestoreReadyGate = CancelWithError e (runtimeRestoreReadyGate s)\<rparr>"

definition init_Clear :: "init_flow \<Rightarrow> init_flow" where
  "init_Clear s =
    \<lparr>externalAgentsRegisteredGate = Clear (externalAgentsRegisteredGate s),
     init_runtimeReadyGate = Clear (init_runtimeReadyGate s),
     init_agentReadyGate = Clear (init_agentReadyGate s),
     runtimeRestoreReadyGate = Clear (runtimeRestoreReadyGate s)\<rparr>"

definition AwaitRuntimeReadyWithDeadline ::
  "bool \<Rightarrow> bool \<Rightarrow> init_flow \<Rightarrow> init_flow \<times> await_result" where
  "AwaitRuntimeReadyWithDeadline ctxDone selectCtx s =
    (let timeout = (init_CancelWithError (Some ErrRestoreHookTimeout) s,
                    AwaitReturns (Some ErrRestoreHookTimeout))
     in case AwaitGateCondition (init_runtimeReadyGate s) of
          AwaitReturns e \<Rightarrow> if ctxDone \<and> selectCtx then timeout else (s, AwaitReturns e)
        | AwaitBlocks \<Rightarrow> if ctxDone then timeout else (s, AwaitBlocks))"

section \<open>Invoke flow\<close>

record invokeFlowSynchronizationImpl =
  invoke_runtimeReadyGate :: gateImpl
  runtimeResponseGate :: gateImpl
  invoke_agentReadyGate :: gateImpl

type_synonym invoke_flow = invokeFlowSynchronizationImpl

definition NewInvokeFlowSynchronization :: invoke_flow where
  "NewInvokeFlowSynchronization =
    \<lparr>invoke_runtimeReadyGate = NewGate 1,
     runtimeResponseGate = NewGate 1,
     invoke_agentReadyGate = NewGate maxAgentsLimit\<rparr>"

definition InitializeBarriers :: "invoke_flow \<Rightarrow> invoke_flow \<times> go_error option" where
  "InitializeBarriers s =
    (\<lparr>invoke_runtimeReadyGate = Reset (invoke_runtimeReadyGate s),
      runtimeResponseGate = Reset (runtimeResponseGate s),
      invoke_agentReadyGate = Reset (invoke_agentReadyGate s)\<rparr>, None)"

definition invoke_Clear :: "invoke_flow \<Rightarrow> invoke_flow" where
  "invoke_Clear s =
    \<lparr>invoke_runtimeReadyGate = Clear (invoke_runtimeReadyGate s),
     runtimeResponseGate = Clear (runtimeResponseGate s),
     invoke_agentReadyGate = Clear (invoke_agentReadyGate s)\<rparr>"

definition AwaitRuntimeResponse :: "invoke_flow \<Rightarrow> await_result" where
  "AwaitRuntimeResponse s = AwaitGateCondition (runtimeResponseGate s)"

definition invoke_AwaitRuntimeReady :: "invoke_flow \<Rightarrow> await_result" where
  "invoke_AwaitRuntimeReady s = AwaitGateCondition (invoke_runtimeReadyGate s)"

definition RuntimeResponse :: "invoke_flow \<Rightarrow> invoke_flow \<times> go_error option" where
  "RuntimeResponse s =
    (case WalkThrough (runtimeResponseGate s) of (g, e) \<Rightarrow> (s\<lparr>runtimeResponseGate := g\<rparr>, e))"

definition invoke_RuntimeReady :: "invoke_flow \<Rightarrow> invoke_flow \<times> go_error option" where
  "invoke_RuntimeReady s =
    (case WalkThrough (invoke_runtimeReadyGate s) of (g, e) \<Rightarrow> (s\<lparr>invoke_runtimeReadyGate := g\<rparr>, e))"

definition invoke_CancelWithError :: "go_error option \<Rightarrow> invoke_flow \<Rightarrow> invoke_flow" where
  "invoke_CancelWithError e s =
    \<lparr>invoke_runtimeReadyGate = CancelWithError e (invoke_runtimeReadyGate s),
     runtimeResponseGate = CancelWithError e (runtimeResponseGate s),
     invoke_agentReadyGate = CancelWithError e (invoke_agentReadyGate s)\<rparr>"

definition invoke_SetAgentsReadyCount :: "16 word \<Rightarrow> invoke_flow \<Rightarrow> invoke_flow \<times> go_error option" where
  "invoke_SetAgentsReadyCount n s =
    (case SetCount n (invoke_agentReadyGate s) of (g, e) \<Rightarrow> (s\<lparr>invoke_agentReadyGate := g\<rparr>, e))"

definition invoke_AgentReady :: "invoke_flow \<Rightarrow> invoke_flow \<times> go_error option" where
  "invoke_AgentReady s =
    (case WalkThrough (invoke_agentReadyGate s) of (g, e) \<Rightarrow> (s\<lparr>invoke_agentReadyGate := g\<rparr>, e))"

definition invoke_AwaitAgentsReady :: "invoke_flow \<Rightarrow> await_result" where
  "invoke_AwaitAgentsReady s = AwaitGateCondition (invoke_agentReadyGate s)"

lemmas init_arrival_defs =
  SetExternalAgentsRegisterCount_def init_SetAgentsReadyCount_def init_RuntimeReady_def
  RuntimeRestoreReady_def init_AgentReady_def ExternalAgentRegistered_def

lemmas init_await_defs =
  init_AwaitRuntimeReady_def AwaitRuntimeRestoreReady_def AwaitExternalAgentsRegistered_def
  init_AwaitAgentsReady_def

lemmas invoke_arrival_defs =
  InitializeBarriers_def RuntimeResponse_def invoke_RuntimeReady_def
  invoke_SetAgentsReadyCount_def invoke_AgentReady_def

lemmas invoke_await_defs =
  AwaitRuntimeResponse_def invoke_AwaitRuntimeReady_def invoke_AwaitAgentsReady_def

section \<open>The cancellation contract\<close>

text \<open>The operations a flow's parties call, as data, so that a run is a list of them.\<close>

datatype init_op =
    IOpSetExternalCount "16 word" | IOpSetAgentsCount "16 word" | IOpRuntimeReady
  | IOpRestoreReady | IOpAgentReady | IOpExternalRegistered

fun init_exec :: "init_op \<Rightarrow> init_flow \<Rightarrow> init_flow \<times> go_error option" where
  "init_exec (IOpSetExternalCount n) s = SetExternalAgentsRegisterCount n s"
| "init_exec (IOpSetAgentsCount n) s = init_SetAgentsReadyCount n s"
| "init_exec IOpRuntimeReady s = init_RuntimeReady s"
| "init_exec IOpRestoreReady s = RuntimeRestoreReady s"
| "init_exec IOpAgentReady s = init_AgentReady s"
| "init_exec IOpExternalRegistered s = ExternalAgentRegistered s"

datatype invoke_op =
    VOpInitializeBarriers | VOpResponse | VOpRuntimeReady | VOpSetAgentsCount "16 word" | VOpAgentReady

fun invoke_exec :: "invoke_op \<Rightarrow> invoke_flow \<Rightarrow> invoke_flow \<times> go_error option" where
  "invoke_exec VOpInitializeBarriers s = InitializeBarriers s"
| "invoke_exec VOpResponse s = RuntimeResponse s"
| "invoke_exec VOpRuntimeReady s = invoke_RuntimeReady s"
| "invoke_exec (VOpSetAgentsCount n) s = invoke_SetAgentsReadyCount n s"
| "invoke_exec VOpAgentReady s = invoke_AgentReady s"

definition init_run :: "init_op list \<Rightarrow> init_flow \<Rightarrow> init_flow" where
  "init_run ops s = foldl (\<lambda>s q. fst (init_exec q s)) s ops"

definition invoke_run :: "invoke_op list \<Rightarrow> invoke_flow \<Rightarrow> invoke_flow" where
  "invoke_run ops s = foldl (\<lambda>s q. fst (invoke_exec q s)) s ops"

locale cancellable_flow =
  fixes exec :: "'q \<Rightarrow> 'f \<Rightarrow> 'f \<times> go_error option"
    and awaits :: "('f \<Rightarrow> await_result) set"
    and cancel :: "go_error option \<Rightarrow> 'f \<Rightarrow> 'f"
    and cancelled :: "go_error \<Rightarrow> 'f \<Rightarrow> bool"
  assumes cancelled_cancel: "cancelled e (cancel (Some e) f)"
    and cancelled_exec: "cancelled e f \<Longrightarrow> cancelled e (fst (exec q f))"
    and cancelled_await: "cancelled e f \<Longrightarrow> aw \<in> awaits \<Longrightarrow> aw f = AwaitReturns (Some e)"
begin

lemma cancelled_run: "cancelled e f \<Longrightarrow> cancelled e (foldl (\<lambda>f q. fst (exec q f)) f qs)"
  by (induction qs arbitrary: f) (auto intro: cancelled_exec)

lemma await_after_cancel:
  "aw \<in> awaits \<Longrightarrow> aw (foldl (\<lambda>f q. fst (exec q f)) (cancel (Some e) f) qs) = AwaitReturns (Some e)"
  by (rule cancelled_await [OF cancelled_run [OF cancelled_cancel]])

end

definition init_awaits :: "(init_flow \<Rightarrow> await_result) list" where
  "init_awaits = [init_AwaitRuntimeReady, AwaitRuntimeRestoreReady, AwaitExternalAgentsRegistered,
    init_AwaitAgentsReady]"

definition invoke_awaits :: "(invoke_flow \<Rightarrow> await_result) list" where
  "invoke_awaits = [AwaitRuntimeResponse, invoke_AwaitRuntimeReady, invoke_AwaitAgentsReady]"

definition init_cancelled :: "go_error \<Rightarrow> init_flow \<Rightarrow> bool" where
  "init_cancelled e s =
    (\<forall>g \<in> {externalAgentsRegisteredGate s, init_runtimeReadyGate s, init_agentReadyGate s,
      runtimeRestoreReadyGate s}. cancellation g = Some e)"

definition invoke_cancelled :: "go_error \<Rightarrow> invoke_flow \<Rightarrow> bool" where
  "invoke_cancelled e s =
    (\<forall>g \<in> {invoke_runtimeReadyGate s, runtimeResponseGate s, invoke_agentReadyGate s}.
      cancellation g = Some e)"

lemma cancellation_WalkThrough: "cancellation (fst (WalkThrough g)) = cancellation g"
  by (rule gate.walk_keeps_pending)

lemma cancellation_SetCount: "cancellation (fst (SetCount n g)) = cancellation g"
  by (simp add: SetCount_def cancellation_def)

lemma cancellation_Reset: "cancellation (Reset g) = cancellation g"
  by (simp add: Reset_def cancellation_def)

lemmas cancellation_ops = cancellation_WalkThrough cancellation_SetCount cancellation_Reset

interpretation init_cf: cancellable_flow init_exec "set init_awaits" init_CancelWithError init_cancelled
proof unfold_locales
  show "init_cancelled e (init_CancelWithError (Some e) f)" for e f
    by (simp add: init_cancelled_def init_CancelWithError_def)
  show "init_cancelled e f \<Longrightarrow> init_cancelled e (fst (init_exec q f))" for e f q
    by (cases q) (simp_all add: init_cancelled_def init_arrival_defs case_prod_beta cancellation_ops)
  show "init_cancelled e f \<Longrightarrow> aw \<in> set init_awaits \<Longrightarrow> aw f = AwaitReturns (Some e)" for e f aw
    by (auto simp: init_cancelled_def init_awaits_def init_await_defs await_by_abstraction)
qed

interpretation invoke_cf: cancellable_flow invoke_exec "set invoke_awaits" invoke_CancelWithError
  invoke_cancelled
proof unfold_locales
  show "invoke_cancelled e (invoke_CancelWithError (Some e) f)" for e f
    by (simp add: invoke_cancelled_def invoke_CancelWithError_def)
  show "invoke_cancelled e f \<Longrightarrow> invoke_cancelled e (fst (invoke_exec q f))" for e f q
    by (cases q) (simp_all add: invoke_cancelled_def invoke_arrival_defs case_prod_beta cancellation_ops)
  show "invoke_cancelled e f \<Longrightarrow> aw \<in> set invoke_awaits \<Longrightarrow> aw f = AwaitReturns (Some e)" for e f aw
    by (auto simp: invoke_cancelled_def invoke_awaits_def invoke_await_defs await_by_abstraction)
qed

section \<open>Properties of the flows\<close>

text \<open>Cancelling a flow releases every waiter of it with the cancelling error, and no
  later sequence of arrivals, count changes or barrier resets takes the error back or
  makes a waiter block again.\<close>

theorem flow_cancel_releases_waiters:
  "map (\<lambda>aw. aw (init_run qs (init_CancelWithError (Some e) s))) init_awaits
     = replicate 4 (AwaitReturns (Some e)) \<and>
   map (\<lambda>aw. aw (invoke_run vs (invoke_CancelWithError (Some e) t))) invoke_awaits
     = replicate 3 (AwaitReturns (Some e))"
proof
  show "map (\<lambda>aw. aw (init_run qs (init_CancelWithError (Some e) s))) init_awaits
     = replicate 4 (AwaitReturns (Some e))"
    unfolding init_run_def
    using init_cf.await_after_cancel [of _ e s qs]
    by (simp add: init_awaits_def numeral_eq_Suc)
  show "map (\<lambda>aw. aw (invoke_run vs (invoke_CancelWithError (Some e) t))) invoke_awaits
     = replicate 3 (AwaitReturns (Some e))"
    unfolding invoke_run_def
    using invoke_cf.await_after_cancel [of _ e t vs]
    by (simp add: invoke_awaits_def numeral_eq_Suc)
qed

text \<open>The counts of the runtime gates are fixed: no operation of the invoke flow changes them.\<close>

definition invoke_flow_ok :: "invoke_flow \<Rightarrow> bool" where
  "invoke_flow_ok s =
    (count (runtimeResponseGate s) = 1 \<and> arrived (runtimeResponseGate s) \<in> {0, 1} \<and>
     count (invoke_runtimeReadyGate s) = 1 \<and> arrived (invoke_runtimeReadyGate s) \<in> {0, 1} \<and>
     gate_ok (invoke_agentReadyGate s))"

lemma one_shot_walk:
  assumes "count g = 1" "arrived g \<in> {0, 1}"
  shows "count (fst (WalkThrough g)) = 1 \<and> arrived (fst (WalkThrough g)) = 1 \<and>
    (snd (WalkThrough g) = None \<longleftrightarrow> arrived g = 0)"
  using assms by (auto simp: WalkThrough_def)

lemma invoke_flow_ok_New [simp, inv_intros]: "invoke_flow_ok NewInvokeFlowSynchronization"
  by (simp add: invoke_flow_ok_def NewInvokeFlowSynchronization_def NewGate_def gate_ok_def)

lemma invoke_flow_ok_Clear [inv_intros]: "invoke_flow_ok s \<Longrightarrow> invoke_flow_ok (invoke_Clear s)"
  by (simp add: invoke_flow_ok_def invoke_Clear_def Clear_def gate_ok_def)

lemma invoke_flow_ok_Cancel [inv_intros]:
  "invoke_flow_ok s \<Longrightarrow> invoke_flow_ok (invoke_CancelWithError e s)"
  by (simp add: invoke_flow_ok_def invoke_CancelWithError_def CancelWithError_def gate_ok_def)

lemma invoke_flow_ok_exec [inv_intros]: "invoke_flow_ok s \<Longrightarrow> invoke_flow_ok (fst (invoke_exec q s))"
proof (cases q)
  case VOpInitializeBarriers
  assume "invoke_flow_ok s"
  with VOpInitializeBarriers show ?thesis
    by (auto simp: invoke_flow_ok_def InitializeBarriers_def Reset_def gate_ok_def)
qed (auto simp: invoke_flow_ok_def invoke_arrival_defs case_prod_beta one_shot_walk
      gate_ok_WalkThrough gate_ok_SetCount)

lemma invoke_flow_ok_run [inv_intros]: "invoke_flow_ok s \<Longrightarrow> invoke_flow_ok (invoke_run qs s)"
  by (induction qs arbitrary: s) (auto simp: invoke_run_def intro: invoke_flow_ok_exec)

text \<open>Number of calls of operation \<open>q\<close> in a run that return no error.\<close>

fun invoke_successes :: "invoke_op \<Rightarrow> invoke_op list \<Rightarrow> invoke_flow \<Rightarrow> nat" where
  "invoke_successes q [] s = 0"
| "invoke_successes q (p # ps) s =
    (if p = q \<and> snd (invoke_exec p s) = None then 1 else 0) + invoke_successes q ps (fst (invoke_exec p s))"

lemma response_gate_exec:
  assumes "invoke_flow_ok s" "q \<noteq> VOpInitializeBarriers"
  shows "arrived (runtimeResponseGate (fst (invoke_exec q s)))
    = (if q = VOpResponse then 1 else arrived (runtimeResponseGate s))"
  using assms
  by (cases q) (auto simp: invoke_arrival_defs case_prod_beta invoke_flow_ok_def WalkThrough_def)

lemma no_response_after_first:
  assumes "invoke_flow_ok s" "arrived (runtimeResponseGate s) = 1" "VOpInitializeBarriers \<notin> set qs"
  shows "invoke_successes VOpResponse qs s = 0"
  using assms
proof (induction qs arbitrary: s)
  case (Cons q qs)
  have "arrived (runtimeResponseGate (fst (invoke_exec q s))) = 1"
    using Cons.prems response_gate_exec [of s q] by auto
  moreover have "q = VOpResponse \<Longrightarrow> snd (invoke_exec q s) \<noteq> None"
    using Cons.prems by (simp add: RuntimeResponse_def WalkThrough_def invoke_flow_ok_def)
  ultimately show ?case
    using Cons by (auto simp: invoke_flow_ok_exec)
qed simp

lemma response_gate_canceled_exec:
  "canceled (runtimeResponseGate (fst (invoke_exec q s))) = canceled (runtimeResponseGate s)"
  by (cases q) (auto simp: invoke_arrival_defs case_prod_beta WalkThrough_def Reset_def)

lemma invoke_run_simps [simp]:
  "invoke_run [] s = s" "invoke_run (q # qs) s = invoke_run qs (fst (invoke_exec q s))"
  by (simp_all add: invoke_run_def)

lemma response_gate_run:
  assumes "invoke_flow_ok s" "arrived (runtimeResponseGate s) = 1" "VOpInitializeBarriers \<notin> set qs"
    "\<not> canceled (runtimeResponseGate s)"
  shows "AwaitRuntimeResponse (invoke_run qs s) = AwaitReturns None"
  using assms
proof (induction qs arbitrary: s)
  case Nil
  then show ?case
    by (simp add: AwaitRuntimeResponse_def AwaitGateCondition_def invoke_flow_ok_def)
next
  case (Cons q qs)
  then show ?case
    using response_gate_exec [of s q] invoke_flow_ok_exec [of s q] response_gate_canceled_exec [of q s]
    by auto
qed

text \<open>Between two resets of the barriers at most one runtime response is accepted,
  however calls of the runtime, the agents and the platform interleave, and after the
  accepted one the platform's wait for the response returns.\<close>

theorem at_most_one_response_per_invoke:
  assumes "invoke_flow_ok s" "VOpInitializeBarriers \<notin> set qs"
  shows "invoke_successes VOpResponse qs s \<le> 1 \<and>
    (invoke_successes VOpResponse qs s = 1 \<and> \<not> canceled (runtimeResponseGate s) \<longrightarrow>
      AwaitRuntimeResponse (invoke_run qs s) = AwaitReturns None)"
  using assms
proof (induction qs arbitrary: s)
  case (Cons q qs)
  let ?t = "fst (invoke_exec q s)"
  have ok: "invoke_flow_ok ?t" using Cons.prems by (auto intro: invoke_flow_ok_exec)
  show ?case
  proof (cases "q = VOpResponse \<and> snd (invoke_exec q s) = None")
    case False
    then show ?thesis
      using Cons ok by (auto simp: response_gate_canceled_exec)
  next
    case True
    then have "arrived (runtimeResponseGate ?t) = 1"
      using Cons.prems response_gate_exec [of s q] by simp
    then show ?thesis
      using Cons.prems True ok no_response_after_first [of ?t qs] response_gate_run [of ?t qs]
        response_gate_canceled_exec [of q s]
      by auto
  qed
qed simp

theorem at_most_one_response_per_invoke_witness:
  "invoke_successes VOpResponse [VOpResponse, VOpRuntimeReady, VOpResponse] NewInvokeFlowSynchronization \<le> 1 \<and>
   AwaitRuntimeResponse (invoke_run [VOpResponse, VOpRuntimeReady, VOpResponse] NewInvokeFlowSynchronization)
     = AwaitReturns None"
proof -
  have "invoke_successes VOpResponse [VOpResponse, VOpRuntimeReady, VOpResponse] NewInvokeFlowSynchronization = 1"
    by (simp add: NewInvokeFlowSynchronization_def NewGate_def RuntimeResponse_def
        invoke_RuntimeReady_def WalkThrough_def)
  moreover have "\<not> canceled (runtimeResponseGate NewInvokeFlowSynchronization)"
    by (simp add: NewInvokeFlowSynchronization_def NewGate_def)
  ultimately show ?thesis
    using at_most_one_response_per_invoke
      [of NewInvokeFlowSynchronization "[VOpResponse, VOpRuntimeReady, VOpResponse]"] by simp
qed

section \<open>The agents' barrier\<close>

lemma walk_n_arrived: "k \<le> missing g \<Longrightarrow> arrived (walk_n k g) = arrived g + of_nat k \<and> count (walk_n k g) = count g"
proof (induction k arbitrary: g)
  case (Suc k)
  then obtain m where m: "missing g = Suc m" by (cases "missing g") auto
  then show ?case
    using Suc walk_missing [OF m] missing_eq_0 [of g] by (simp add: WalkThrough_def)
qed simp

lemma init_AgentReady_n:
  "((\<lambda>s. fst (init_AgentReady s)) ^^ k) s = s\<lparr>init_agentReadyGate := walk_n k (init_agentReadyGate s)\<rparr>"
proof (induction k arbitrary: s)
  case (Suc k)
  then show ?case
    by (simp add: funpow_Suc_right init_AgentReady_def case_prod_beta del: funpow.simps)
qed simp

definition agents_arrive :: "nat \<Rightarrow> init_flow \<Rightarrow> init_flow" where
  "agents_arrive k s = ((\<lambda>s. fst (init_AgentReady s)) ^^ k) s"

lemma agents_arrive_gate [simp]:
  "init_agentReadyGate (agents_arrive k s) = walk_n k (init_agentReadyGate s)"
  by (simp add: agents_arrive_def init_AgentReady_n)

lemma walk_n_cancellation [simp]: "cancellation (walk_n k g) = cancellation g"
  by (induction k arbitrary: g) (simp_all add: cancellation_WalkThrough)

lemma cancellation_count [simp]: "cancellation (g\<lparr>count := n\<rparr>) = cancellation g"
  by (simp add: cancellation_def)

lemma missing_walk_n: "k \<le> missing g \<Longrightarrow> missing (walk_n k g) = missing g - k"
  using gate.walks_left [of k g] by (simp add: walk_n_walks)

lemma init_agent_gate_simps:
  "snd (init_AgentReady s) = snd (WalkThrough (init_agentReadyGate s))"
  "init_agentReadyGate (fst (init_SetAgentsReadyCount n s)) = fst (SetCount n (init_agentReadyGate s))"
  "snd (init_SetAgentsReadyCount n s) = snd (SetCount n (init_agentReadyGate s))"
  "init_agentReadyGate (init_Clear s) = Clear (init_agentReadyGate s)"
  "init_agentReadyGate NewInitFlowSynchronization = NewGate maxAgentsLimit"
  by (simp_all add: init_AgentReady_def init_SetAgentsReadyCount_def init_Clear_def
      NewInitFlowSynchronization_def case_prod_beta)

text \<open>The agents' barrier of a fresh init flow accepts agents that are ready before
  their number is known.  When \<open>k\<close> of them have arrived and the number is then set to
  \<open>n \<ge> k\<close>, the wait is open exactly after \<open>n - k\<close> further arrivals; a number below the
  arrivals is refused with \<open>ErrGateIntegrity\<close>.\<close>

theorem agents_barrier_counts_early_arrivals:
  assumes "k \<le> unat n"
  shows "(case init_SetAgentsReadyCount n (agents_arrive k NewInitFlowSynchronization) of
     (s, e) \<Rightarrow> e = None \<and> (\<forall>j \<le> unat n - k.
        init_AwaitAgentsReady (agents_arrive j s) = (if j = unat n - k then AwaitReturns None else AwaitBlocks)))
   \<and> (m < of_nat k \<longrightarrow>
      snd (init_SetAgentsReadyCount m (agents_arrive k NewInitFlowSynchronization)) = Some ErrGateIntegrity)"
proof -
  let ?g = "walk_n k (NewGate maxAgentsLimit)"
  have "unat n \<le> 65535" using le_maxAgentsLimit [of n]
    by (simp add: maxAgentsLimit_def word_le_nat_alt)
  then have arr: "arrived ?g = of_nat k"
    using assms walk_n_arrived [of k "NewGate maxAgentsLimit"]
    by (simp add: maxAgentsLimit_def NewGate_def missing_def)
  have unat_k: "unat (of_nat k :: 16 word) = k"
    using assms \<open>unat n \<le> 65535\<close> by (simp add: unat_of_nat)
  have gate: "init_agentReadyGate NewInitFlowSynchronization = NewGate maxAgentsLimit"
    by (simp add: NewInitFlowSynchronization_def)
  have le: "arrived ?g \<le> n" using assms by (simp add: arr word_le_nat_alt unat_k)
  have "init_AwaitAgentsReady (agents_arrive j (fst (init_SetAgentsReadyCount n
      (agents_arrive k NewInitFlowSynchronization)))) =
      (if j = unat n - k then AwaitReturns None else AwaitBlocks)" if "j \<le> unat n - k" for j
    using that SetCount_missing [OF le]
    by (auto simp: init_AwaitAgentsReady_def init_SetAgentsReadyCount_def gate await_by_abstraction
        missing_walk_n arr unat_k)
  moreover have "snd (init_SetAgentsReadyCount n (agents_arrive k NewInitFlowSynchronization)) = None"
    using SetCount_missing [OF le] by (simp add: init_SetAgentsReadyCount_def gate)
  ultimately show ?thesis
    by (auto simp: case_prod_beta init_SetAgentsReadyCount_def gate SetCount_def arr)
qed

theorem agents_barrier_counts_early_arrivals_witness:
  "(case init_SetAgentsReadyCount 2 (agents_arrive 1 NewInitFlowSynchronization) of
     (s, e) \<Rightarrow> e = None \<and> init_AwaitAgentsReady s = AwaitBlocks \<and>
        init_AwaitAgentsReady (agents_arrive 1 s) = AwaitReturns None)
   \<and> snd (init_SetAgentsReadyCount 0 (agents_arrive 1 NewInitFlowSynchronization)) = Some ErrGateIntegrity"
proof -
  have zero: "agents_arrive 0 s = s" for s by (simp add: agents_arrive_def)
  obtain s e where se: "init_SetAgentsReadyCount 2 (agents_arrive 1 NewInitFlowSynchronization) = (s, e)"
    by (cases "init_SetAgentsReadyCount 2 (agents_arrive 1 NewInitFlowSynchronization)")
  note * = agents_barrier_counts_early_arrivals [of 1 2 0, unfolded se]
  have "e = None" and all: "\<forall>j \<le> 1. init_AwaitAgentsReady (agents_arrive j s)
      = (if j = 1 then AwaitReturns None else AwaitBlocks)"
    using * by simp_all
  then show ?thesis
    unfolding se using * zero [of s] all [rule_format, of 0] all [rule_format, of 1] by simp
qed

text \<open>Clearing the flow between two init phases keeps the number of agents of the previous phase.
  If it was \<open>n\<close> and the next phase has \<open>n + 1\<close> agents that are all ready before their number
  is set, the last arrival is dropped with \<open>ErrGateIntegrity\<close> (which the agents ignore) and
  the platform's wait for the agents blocks although all of them arrived.\<close>

theorem agents_barrier_stale_after_clear:
  assumes "unat n < 65535"
  shows "(let s = init_Clear (fst (init_SetAgentsReadyCount n NewInitFlowSynchronization));
              t = agents_arrive (unat n + 1) s
          in snd (init_AgentReady (agents_arrive (unat n) s)) = Some ErrGateIntegrity \<and>
             snd (init_SetAgentsReadyCount (n + 1) t) = None \<and>
             init_AwaitAgentsReady (fst (init_SetAgentsReadyCount (n + 1) t)) = AwaitBlocks)"
proof -
  define s where "s = init_Clear (fst (init_SetAgentsReadyCount n NewInitFlowSynchronization))"
  let ?g = "\<lparr>count = n, arrived = 0, canceled = False, err = None\<rparr>"
  let ?h = "walk_n (unat n) ?g"
  have g: "init_agentReadyGate s = ?g"
    using SetCount_missing [of "NewGate maxAgentsLimit" n]
    by (simp add: s_def init_agent_gate_simps NewGate_def Clear_def)
  have m: "missing ?g = unat n" by (simp add: missing_def)
  have walk: "WalkThrough ?h = (?h, Some ErrGateIntegrity)"
    using missing_walk_n [of "unat n" ?g] by (intro walk_open) (simp add: m)
  have last: "walk_n (Suc (unat n)) ?g = ?h"
    using walk by (simp only: walk_n_walks gate.walks_Suc fst_conv)
  have h: "arrived ?h = n" using walk_n_arrived [of "unat n" ?g] by (simp add: m)
  have succ: "unat (n + 1) = Suc (unat n)"
    using assms by (simp add: unat_word_ariths)
  have le: "arrived ?h \<le> n + 1" using succ by (simp add: h word_le_nat_alt)
  have "cancellation ?h = None" by (simp add: cancellation_def [of ?g])
  then show ?thesis
    using SetCount_missing [OF le] succ unfolding s_def [symmetric] Let_def
    by (simp add: init_AwaitAgentsReady_def init_agent_gate_simps g last walk h await_by_abstraction
        del: walk_n.simps)
qed

theorem agents_barrier_stale_after_clear_witness:
  "(let s = init_Clear (fst (init_SetAgentsReadyCount 1 NewInitFlowSynchronization));
        t = agents_arrive 2 s
    in snd (init_AgentReady (agents_arrive 1 s)) = Some ErrGateIntegrity \<and>
       snd (init_SetAgentsReadyCount 2 t) = None \<and>
       init_AwaitAgentsReady (fst (init_SetAgentsReadyCount 2 t)) = AwaitBlocks)"
  using agents_barrier_stale_after_clear [of 1] by (simp add: numeral_2_eq_2)

end
