(* ===== verification/Managed_Thread.thy ===== *)
theory Managed_Thread
  imports Prelude
begin

text \<open>
  \<open>ManagedThread\<close> of \<open>internal/lambda/core/states.go\<close>: the condition on which a request
  thread of the runtime or of an agent is suspended until the platform releases it.  A
  suspended thread is kept with the point \<open>'k\<close> at which it continues.  \<open>Signal\<close> wakes one
  parked thread; which one is left open (the argument \<open>pick\<close>).
\<close>

record 'k ManagedThread =
  operatorConditionValue :: bool
  mt_parked :: "(tid \<times> 'k) list"
  mt_woken :: "(tid \<times> 'k) list"

definition NewManagedThread :: "'k ManagedThread" where
  "NewManagedThread = \<lparr>operatorConditionValue = False, mt_parked = [], mt_woken = []\<rparr>"

text \<open>\<open>SuspendUnsafe\<close> returns at once when the condition was released before, else it parks the
  calling thread.  The flag in the result says whether the caller goes on.\<close>

definition SuspendUnsafe :: "tid \<Rightarrow> 'k \<Rightarrow> 'k ManagedThread \<Rightarrow> 'k ManagedThread \<times> bool" where
  "SuspendUnsafe t k s =
    (if operatorConditionValue s then (s\<lparr>operatorConditionValue := False\<rparr>, True)
     else (s\<lparr>mt_parked := mt_parked s @ [(t, k)]\<rparr>, False))"

definition mt_signal :: "nat \<Rightarrow> 'k ManagedThread \<Rightarrow> 'k ManagedThread" where
  "mt_signal pick s =
    (if mt_parked s = [] then s
     else let i = pick mod length (mt_parked s)
          in s\<lparr>mt_parked := take i (mt_parked s) @ drop (Suc i) (mt_parked s),
               mt_woken := mt_woken s @ [mt_parked s ! i]\<rparr>)"

definition Release :: "nat \<Rightarrow> 'k ManagedThread \<Rightarrow> 'k ManagedThread" where
  "Release pick s = mt_signal pick (s\<lparr>operatorConditionValue := True\<rparr>)"

text \<open>A woken thread gets the mutex: it re-evaluates the loop condition of
  \<open>SuspendUnsafe\<close> and either continues at its point or parks again.\<close>

definition mt_wake :: "tid \<Rightarrow> 'k ManagedThread \<Rightarrow> 'k ManagedThread \<times> 'k option" where
  "mt_wake t s =
    (case map_of (mt_woken s) t of
       None \<Rightarrow> (s, None)
     | Some k \<Rightarrow>
        (case SuspendUnsafe t k (s\<lparr>mt_woken := remove1 (t, k) (mt_woken s)\<rparr>) of
           (s', True) \<Rightarrow> (s', Some k)
         | (s', False) \<Rightarrow> (s', None)))"

datatype mt_event = MPass tid | MPark tid | MRelease

inductive mt_run :: "'k ManagedThread \<Rightarrow> mt_event list \<Rightarrow> bool" where
  start: "mt_run NewManagedThread []"
| call: "mt_run s es \<Longrightarrow> SuspendUnsafe t k s = (s', b) \<Longrightarrow>
    mt_run s' (es @ [if b then MPass t else MPark t])"
| release: "mt_run s es \<Longrightarrow> mt_run (Release pick s) (es @ [MRelease])"
| wake: "mt_run s es \<Longrightarrow> t \<in> fst ` set (mt_woken s) \<Longrightarrow> mt_wake t s = (s', r) \<Longrightarrow>
    mt_run s' (es @ [case r of Some _ \<Rightarrow> MPass t | None \<Rightarrow> MPark t])"

definition mt_passes :: "mt_event list \<Rightarrow> nat" where
  "mt_passes es = length (filter (\<lambda>e. case e of MPass _ \<Rightarrow> True | _ \<Rightarrow> False) es)"

definition mt_releases :: "mt_event list \<Rightarrow> nat" where
  "mt_releases es = length (filter (\<lambda>e. e = MRelease) es)"

lemma mt_counts_append [simp]:
  "mt_passes (es @ [e]) = mt_passes es + (case e of MPass _ \<Rightarrow> 1 | _ \<Rightarrow> 0)"
  "mt_releases (es @ [e]) = mt_releases es + (if e = MRelease then 1 else 0)"
  by (auto simp: mt_passes_def mt_releases_def split: mt_event.splits)

lemma mt_counts_Nil [simp]: "mt_passes [] = 0" "mt_releases [] = 0"
  by (simp_all add: mt_passes_def mt_releases_def)

definition mt_inv :: "'k ManagedThread \<Rightarrow> mt_event list \<Rightarrow> bool" where
  "mt_inv s es =
    ((operatorConditionValue s \<and> mt_parked s \<noteq> [] \<longrightarrow> mt_woken s \<noteq> []) \<and>
     mt_passes es + (if operatorConditionValue s then 1 else 0) \<le> mt_releases es)"

lemma mt_inv_suspend:
  assumes "mt_inv s es" "SuspendUnsafe t k s' = (s'', b)"
    "operatorConditionValue s' = operatorConditionValue s"
  shows "mt_inv s'' (es @ [if b then MPass t else MPark t])"
  using assms by (auto simp: mt_inv_def SuspendUnsafe_def split: if_splits)

lemma mt_inv_release: "mt_inv s es \<Longrightarrow> mt_inv (Release pick s) (es @ [MRelease])"
  by (auto simp: mt_inv_def Release_def mt_signal_def Let_def split: if_splits)

lemma mt_run_inv: "mt_run s es \<Longrightarrow> mt_inv s es"
proof (induction rule: mt_run.induct)
  case start
  then show ?case by (simp add: mt_inv_def NewManagedThread_def)
next
  case (call s es t k s' b)
  show ?case by (rule mt_inv_suspend [OF call.IH call.hyps(2) refl])
next
  case (release s es pick)
  show ?case by (rule mt_inv_release [OF release.IH])
next
  case (wake s es t s' r)
  then obtain k where k: "map_of (mt_woken s) t = Some k"
    using map_of_None_iff_mem [of "mt_woken s" t] by (cases "map_of (mt_woken s) t") auto
  obtain s'' b where b: "SuspendUnsafe t k (s\<lparr>mt_woken := remove1 (t, k) (mt_woken s)\<rparr>) = (s'', b)"
    by fastforce
  have "s' = s''" "r = (if b then Some k else None)"
    using wake.hyps b by (auto simp: mt_wake_def k split: bool.splits)
  with mt_inv_suspend [OF wake.IH b] show ?case by (cases b) simp_all
qed

text \<open>The suspension of request threads loses no release and invents none: in every
  interleaving of suspensions, releases and wake-ups, threads pass at most as often
  as the platform released, and when a release is pending while some thread is
  parked, a woken thread exists and passes when it runs.\<close>

theorem release_neither_lost_nor_duplicated:
  assumes "mt_run s es"
  shows "mt_passes es \<le> mt_releases es \<and>
    (operatorConditionValue s \<and> mt_parked s \<noteq> [] \<longrightarrow>
      mt_woken s \<noteq> [] \<and> snd (mt_wake (fst (hd (mt_woken s))) s) \<noteq> None)"
proof -
  have "mt_woken s \<noteq> [] \<Longrightarrow> map_of (mt_woken s) (fst (hd (mt_woken s))) = Some (snd (hd (mt_woken s)))"
    by (cases "mt_woken s") auto
  then show ?thesis
    using mt_run_inv [OF assms]
    by (auto simp: mt_inv_def mt_wake_def SuspendUnsafe_def split: if_splits)
qed

theorem release_neither_lost_nor_duplicated_witness:
  "mt_passes [MPark 1, MRelease] \<le> mt_releases [MPark 1, MRelease] \<and>
   snd (mt_wake 1 (Release 0 (fst (SuspendUnsafe 1 () NewManagedThread)))) = Some ()"
proof -
  let ?s = "fst (SuspendUnsafe 1 () NewManagedThread)"
  have "mt_run ?s ([] @ [MPark 1])"
    using mt_run.call [OF mt_run.start, of 1 "()" ?s False]
    by (simp add: SuspendUnsafe_def NewManagedThread_def)
  then have "mt_run (Release 0 ?s) [MPark 1, MRelease]"
    using mt_run.release [of ?s "[MPark 1]" 0] by simp
  from release_neither_lost_nor_duplicated [OF this] show ?thesis
    by (simp add: mt_wake_def Release_def mt_signal_def SuspendUnsafe_def NewManagedThread_def)
qed

end
