(* ===== verification/Runtime_States.thy ===== *)
theory Runtime_States
  imports Flow Managed_Thread
begin

text \<open>
  The state machine of the language runtime, \<open>internal/lambda/core/states.go\<close>.  The state
  objects of the source become the datatype \<open>RuntimeState\<close>; each method a state overrides
  is a definition named after it, the methods it does not override are
  \<open>disallowEveryTransitionByDefault\<close>, and the methods of \<open>Runtime\<close> dispatch on the
  current state.  A method that calls \<open>SuspendUnsafe\<close> is split there: it either goes on at once
  (the release came first) or ends in \<open>Suspended\<close> with its continuation kept in the thread
  record, and \<open>Runtime_resume\<close> runs the rest.  Readings of the clock are arguments:
  \<open>now\<close> for the part before the suspension, \<open>now'\<close> for the part after it.
\<close>

datatype RuntimeState =
    RuntimeStartedState | RuntimeInitErrorState | RuntimeReadyState | RuntimeRunningState
  | RuntimeRestoreReadyState | RuntimeRestoringState | RuntimeInvocationResponseState
  | RuntimeInvocationErrorResponseState | RuntimeResponseSentState | RuntimeRestoreErrorState

fun RuntimeState_Name :: "RuntimeState \<Rightarrow> string" where
  "RuntimeState_Name RuntimeStartedState = ''Started''"
| "RuntimeState_Name RuntimeInitErrorState = ''InitError''"
| "RuntimeState_Name RuntimeReadyState = ''Ready''"
| "RuntimeState_Name RuntimeRunningState = ''Running''"
| "RuntimeState_Name RuntimeRestoreReadyState = ''RestoreReady''"
| "RuntimeState_Name RuntimeRestoringState = ''Restoring''"
| "RuntimeState_Name RuntimeInvocationResponseState = ''InvocationResponse''"
| "RuntimeState_Name RuntimeInvocationErrorResponseState = ''InvocationErrorResponse''"
| "RuntimeState_Name RuntimeResponseSentState = ''RuntimeResponseSentState''"
| "RuntimeState_Name RuntimeRestoreErrorState = ''RuntimeRestoreErrorState''"

datatype runtime_point = AfterReadySuspend | AfterRestoreSuspend

record Runtime =
  rt_ManagedThread :: "runtime_point ManagedThread"
  currentState :: RuntimeState
  stateLastModified :: ns
  responseTime :: "ns option"

record flows =
  initFlow :: init_flow
  invokeFlow :: invoke_flow

definition new_flows :: flows where
  "new_flows = \<lparr>initFlow = NewInitFlowSynchronization, invokeFlow = NewInvokeFlowSynchronization\<rparr>"

datatype call_result = Returned "go_error option" | Suspended

definition setStateUnsafe :: "RuntimeState \<Rightarrow> ns \<Rightarrow> Runtime \<Rightarrow> Runtime" where
  "setStateUnsafe st now r = r\<lparr>currentState := st, stateLastModified := now\<rparr>"

definition Runtime_SetState :: "RuntimeState \<Rightarrow> ns \<Rightarrow> Runtime \<Rightarrow> Runtime" where
  "Runtime_SetState st now r = setStateUnsafe st now r"

definition Runtime_GetState :: "Runtime \<Rightarrow> RuntimeState" where
  "Runtime_GetState r = currentState r"

definition Runtime_Release :: "nat \<Rightarrow> Runtime \<Rightarrow> Runtime" where
  "Runtime_Release pick r = r\<lparr>rt_ManagedThread := Release pick (rt_ManagedThread r)\<rparr>"

definition NewRuntime :: "ns \<Rightarrow> Runtime" where
  "NewRuntime now = setStateUnsafe RuntimeStartedState now
    \<lparr>rt_ManagedThread = NewManagedThread, currentState = RuntimeStartedState,
     stateLastModified = 0, responseTime = None\<rparr>"

text \<open>The default of every method: no transition.\<close>

definition disallowEveryTransitionByDefault :: "flows \<Rightarrow> Runtime \<Rightarrow> (flows \<times> Runtime) \<times> call_result" where
  "disallowEveryTransitionByDefault f r = ((f, r), Returned (Some ErrNotAllowed))"

text \<open>The code after \<open>SuspendUnsafe\<close> in the \<open>Ready\<close> and \<open>RestoreReady\<close> methods.\<close>

definition ready_after_suspend :: "ns \<Rightarrow> Runtime \<Rightarrow> Runtime \<times> go_error option" where
  "ready_after_suspend now r =
    (if currentState r \<noteq> RuntimeReadyState \<and> currentState r \<noteq> RuntimeRunningState
     then (r, Some ErrConcurrentStateModification)
     else (setStateUnsafe RuntimeRunningState now r, None))"

definition restore_after_suspend :: "ns \<Rightarrow> Runtime \<Rightarrow> Runtime \<times> go_error option" where
  "restore_after_suspend now r =
    (if currentState r \<noteq> RuntimeRestoreReadyState \<and> currentState r \<noteq> RuntimeRestoringState
     then (r, Some ErrConcurrentStateModification)
     else (setStateUnsafe RuntimeRestoringState now r, None))"

fun runtime_continue :: "runtime_point \<Rightarrow> ns \<Rightarrow> Runtime \<Rightarrow> Runtime \<times> go_error option" where
  "runtime_continue AfterReadySuspend now r = ready_after_suspend now r"
| "runtime_continue AfterRestoreSuspend now r = restore_after_suspend now r"

definition runtime_suspend ::
  "tid \<Rightarrow> runtime_point \<Rightarrow> ns \<Rightarrow> flows \<Rightarrow> Runtime \<Rightarrow> (flows \<times> Runtime) \<times> call_result" where
  "runtime_suspend t k now' f r =
    (case SuspendUnsafe t k (rt_ManagedThread r) of
       (mt, True) \<Rightarrow> (case runtime_continue k now' (r\<lparr>rt_ManagedThread := mt\<rparr>) of
          (r', e) \<Rightarrow> ((f, r'), Returned e))
     | (mt, False) \<Rightarrow> ((f, r\<lparr>rt_ManagedThread := mt\<rparr>), Suspended))"

section \<open>Methods of the states\<close>

definition RuntimeStartedState_Ready ::
  "tid \<Rightarrow> ns \<Rightarrow> ns \<Rightarrow> flows \<Rightarrow> Runtime \<Rightarrow> (flows \<times> Runtime) \<times> call_result" where
  "RuntimeStartedState_Ready t now now' f r =
    (let r = setStateUnsafe RuntimeReadyState now r
     in case RuntimeRestoreReady (initFlow f) of
          (i, Some e) \<Rightarrow> ((f\<lparr>initFlow := i\<rparr>, r), Returned (Some e))
        | (i, None) \<Rightarrow>
           (case init_RuntimeReady i of
              (i, Some e) \<Rightarrow> ((f\<lparr>initFlow := i\<rparr>, r), Returned (Some e))
            | (i, None) \<Rightarrow> runtime_suspend t AfterReadySuspend now' (f\<lparr>initFlow := i\<rparr>) r))"

definition RuntimeStartedState_RestoreReady ::
  "tid \<Rightarrow> ns \<Rightarrow> ns \<Rightarrow> flows \<Rightarrow> Runtime \<Rightarrow> (flows \<times> Runtime) \<times> call_result" where
  "RuntimeStartedState_RestoreReady t now now' f r =
    (let r = setStateUnsafe RuntimeRestoreReadyState now r
     in case RuntimeRestoreReady (initFlow f) of
          (i, Some e) \<Rightarrow> ((f\<lparr>initFlow := i\<rparr>, r), Returned (Some e))
        | (i, None) \<Rightarrow> runtime_suspend t AfterRestoreSuspend now' (f\<lparr>initFlow := i\<rparr>) r)"

definition RuntimeStartedState_InitError :: "ns \<Rightarrow> flows \<Rightarrow> Runtime \<Rightarrow> (flows \<times> Runtime) \<times> call_result" where
  "RuntimeStartedState_InitError now f r =
    ((f, setStateUnsafe RuntimeInitErrorState now r), Returned None)"

definition RuntimeRestoringState_Ready ::
  "tid \<Rightarrow> ns \<Rightarrow> ns \<Rightarrow> flows \<Rightarrow> Runtime \<Rightarrow> (flows \<times> Runtime) \<times> call_result" where
  "RuntimeRestoringState_Ready t now now' f r =
    (let r = setStateUnsafe RuntimeReadyState now r
     in case init_RuntimeReady (initFlow f) of
          (i, Some e) \<Rightarrow> ((f\<lparr>initFlow := i\<rparr>, r), Returned (Some e))
        | (i, None) \<Rightarrow> runtime_suspend t AfterReadySuspend now' (f\<lparr>initFlow := i\<rparr>) r)"

definition RuntimeRestoringState_RestoreError ::
  "FunctionError \<Rightarrow> ns \<Rightarrow> flows \<Rightarrow> Runtime \<Rightarrow> (flows \<times> Runtime) \<times> call_result" where
  "RuntimeRestoringState_RestoreError userError now f r =
    ((f\<lparr>initFlow := init_CancelWithError (Some (ErrRestoreHookUserError userError)) (initFlow f)\<rparr>,
      setStateUnsafe RuntimeRestoreErrorState now r), Returned None)"

definition RuntimeReadyState_Ready ::
  "tid \<Rightarrow> ns \<Rightarrow> flows \<Rightarrow> Runtime \<Rightarrow> (flows \<times> Runtime) \<times> call_result" where
  "RuntimeReadyState_Ready t now' f r = runtime_suspend t AfterReadySuspend now' f r"

definition RuntimeRunningState_Ready :: "flows \<Rightarrow> Runtime \<Rightarrow> (flows \<times> Runtime) \<times> call_result" where
  "RuntimeRunningState_Ready f r = ((f, r), Returned None)"

definition RuntimeRunningState_InvocationResponse ::
  "ns \<Rightarrow> flows \<Rightarrow> Runtime \<Rightarrow> (flows \<times> Runtime) \<times> call_result" where
  "RuntimeRunningState_InvocationResponse now f r =
    ((f, setStateUnsafe RuntimeInvocationResponseState now r), Returned None)"

definition RuntimeRunningState_InvocationErrorResponse ::
  "ns \<Rightarrow> flows \<Rightarrow> Runtime \<Rightarrow> (flows \<times> Runtime) \<times> call_result" where
  "RuntimeRunningState_InvocationErrorResponse now f r =
    ((f, setStateUnsafe RuntimeInvocationErrorResponseState now r), Returned None)"

definition RuntimeInvocationResponseState_ResponseSent ::
  "ns \<Rightarrow> flows \<Rightarrow> Runtime \<Rightarrow> (flows \<times> Runtime) \<times> call_result" where
  "RuntimeInvocationResponseState_ResponseSent now f r =
    (case RuntimeResponse (invokeFlow f) of
       (v, e) \<Rightarrow> ((f\<lparr>invokeFlow := v\<rparr>, setStateUnsafe RuntimeResponseSentState now r), Returned e))"

definition RuntimeInvocationErrorResponseState_ResponseSent ::
  "ns \<Rightarrow> flows \<Rightarrow> Runtime \<Rightarrow> (flows \<times> Runtime) \<times> call_result" where
  "RuntimeInvocationErrorResponseState_ResponseSent now f r =
    (case RuntimeResponse (invokeFlow f) of
       (v, e) \<Rightarrow> ((f\<lparr>invokeFlow := v\<rparr>, setStateUnsafe RuntimeResponseSentState now r), Returned e))"

definition RuntimeResponseSentState_Ready ::
  "tid \<Rightarrow> ns \<Rightarrow> ns \<Rightarrow> flows \<Rightarrow> Runtime \<Rightarrow> (flows \<times> Runtime) \<times> call_result" where
  "RuntimeResponseSentState_Ready t now now' f r =
    (let r = setStateUnsafe RuntimeReadyState now r
     in case invoke_RuntimeReady (invokeFlow f) of
          (v, Some e) \<Rightarrow> ((f\<lparr>invokeFlow := v\<rparr>, r), Returned (Some e))
        | (v, None) \<Rightarrow> runtime_suspend t AfterReadySuspend now' (f\<lparr>invokeFlow := v\<rparr>) r)"

section \<open>Methods of the runtime: dispatch on the current state\<close>

definition Runtime_Ready ::
  "tid \<Rightarrow> ns \<Rightarrow> ns \<Rightarrow> flows \<Rightarrow> Runtime \<Rightarrow> (flows \<times> Runtime) \<times> call_result" where
  "Runtime_Ready t now now' f r =
    (case currentState r of
       RuntimeStartedState \<Rightarrow> RuntimeStartedState_Ready t now now' f r
     | RuntimeRestoringState \<Rightarrow> RuntimeRestoringState_Ready t now now' f r
     | RuntimeReadyState \<Rightarrow> RuntimeReadyState_Ready t now' f r
     | RuntimeRunningState \<Rightarrow> RuntimeRunningState_Ready f r
     | RuntimeResponseSentState \<Rightarrow> RuntimeResponseSentState_Ready t now now' f r
     | _ \<Rightarrow> disallowEveryTransitionByDefault f r)"

definition Runtime_RestoreReady ::
  "tid \<Rightarrow> ns \<Rightarrow> ns \<Rightarrow> flows \<Rightarrow> Runtime \<Rightarrow> (flows \<times> Runtime) \<times> call_result" where
  "Runtime_RestoreReady t now now' f r =
    (case currentState r of
       RuntimeStartedState \<Rightarrow> RuntimeStartedState_RestoreReady t now now' f r
     | _ \<Rightarrow> disallowEveryTransitionByDefault f r)"

definition Runtime_InvocationResponse :: "ns \<Rightarrow> flows \<Rightarrow> Runtime \<Rightarrow> (flows \<times> Runtime) \<times> call_result" where
  "Runtime_InvocationResponse now f r =
    (case currentState r of
       RuntimeRunningState \<Rightarrow> RuntimeRunningState_InvocationResponse now f r
     | _ \<Rightarrow> disallowEveryTransitionByDefault f r)"

definition Runtime_InvocationErrorResponse :: "ns \<Rightarrow> flows \<Rightarrow> Runtime \<Rightarrow> (flows \<times> Runtime) \<times> call_result" where
  "Runtime_InvocationErrorResponse now f r =
    (case currentState r of
       RuntimeRunningState \<Rightarrow> RuntimeRunningState_InvocationErrorResponse now f r
     | _ \<Rightarrow> disallowEveryTransitionByDefault f r)"

definition Runtime_InitError :: "ns \<Rightarrow> flows \<Rightarrow> Runtime \<Rightarrow> (flows \<times> Runtime) \<times> call_result" where
  "Runtime_InitError now f r =
    (case currentState r of
       RuntimeStartedState \<Rightarrow> RuntimeStartedState_InitError now f r
     | _ \<Rightarrow> disallowEveryTransitionByDefault f r)"

definition Runtime_ResponseSent :: "ns \<Rightarrow> ns \<Rightarrow> flows \<Rightarrow> Runtime \<Rightarrow> (flows \<times> Runtime) \<times> call_result" where
  "Runtime_ResponseSent now now' f r =
    (case (case currentState r of
             RuntimeInvocationResponseState \<Rightarrow> RuntimeInvocationResponseState_ResponseSent now f r
           | RuntimeInvocationErrorResponseState \<Rightarrow> RuntimeInvocationErrorResponseState_ResponseSent now f r
           | _ \<Rightarrow> disallowEveryTransitionByDefault f r) of
       ((f', r'), Returned None) \<Rightarrow> ((f', r'\<lparr>responseTime := Some now'\<rparr>), Returned None)
     | res \<Rightarrow> res)"

definition Runtime_RestoreError ::
  "FunctionError \<Rightarrow> ns \<Rightarrow> flows \<Rightarrow> Runtime \<Rightarrow> (flows \<times> Runtime) \<times> call_result" where
  "Runtime_RestoreError userError now f r =
    (case currentState r of
       RuntimeRestoringState \<Rightarrow> RuntimeRestoringState_RestoreError userError now f r
     | _ \<Rightarrow> disallowEveryTransitionByDefault f r)"

text \<open>A woken request thread runs on: the rest of its method, or parked again.\<close>

definition Runtime_resume :: "tid \<Rightarrow> ns \<Rightarrow> flows \<Rightarrow> Runtime \<Rightarrow> (flows \<times> Runtime) \<times> call_result" where
  "Runtime_resume t now' f r =
    (case mt_wake t (rt_ManagedThread r) of
       (mt, Some k) \<Rightarrow> (case runtime_continue k now' (r\<lparr>rt_ManagedThread := mt\<rparr>) of
          (r', e) \<Rightarrow> ((f, r'), Returned e))
     | (mt, None) \<Rightarrow> ((f, r\<lparr>rt_ManagedThread := mt\<rparr>), Suspended))"

record StateDescription =
  sd_Name :: string
  sd_LastModified :: int
  sd_ResponseTimeNs :: int

record RuntimeDescription =
  rd_State :: StateDescription

definition GetRuntimeDescription :: "Runtime \<Rightarrow> RuntimeDescription" where
  "GetRuntimeDescription r =
    \<lparr>rd_State = \<lparr>sd_Name = RuntimeState_Name (currentState r),
       sd_LastModified = go_quot (stateLastModified r) 1000000,
       sd_ResponseTimeNs = (case responseTime r of None \<Rightarrow> 0 | Some ts \<Rightarrow> ts)\<rparr>\<rparr>"

lemmas runtime_state_method_defs =
  RuntimeStartedState_Ready_def RuntimeStartedState_RestoreReady_def RuntimeStartedState_InitError_def
  RuntimeRestoringState_Ready_def RuntimeRestoringState_RestoreError_def RuntimeReadyState_Ready_def
  RuntimeRunningState_Ready_def RuntimeRunningState_InvocationResponse_def
  RuntimeRunningState_InvocationErrorResponse_def RuntimeInvocationResponseState_ResponseSent_def
  RuntimeInvocationErrorResponseState_ResponseSent_def RuntimeResponseSentState_Ready_def
  disallowEveryTransitionByDefault_def

lemmas runtime_method_defs =
  Runtime_Ready_def Runtime_RestoreReady_def Runtime_InvocationResponse_def
  Runtime_InvocationErrorResponse_def Runtime_InitError_def Runtime_ResponseSent_def
  Runtime_RestoreError_def Runtime_resume_def

section \<open>Runs of a runtime\<close>

datatype rt_op =
    RReady tid | RRestoreReady tid | RInvocationResponse | RInvocationErrorResponse | RInitError
  | RResponseSent | RRestoreError FunctionError | RRelease nat | RResume tid

fun rt_exec :: "rt_op \<Rightarrow> ns \<Rightarrow> ns \<Rightarrow> flows \<Rightarrow> Runtime \<Rightarrow> (flows \<times> Runtime) \<times> call_result" where
  "rt_exec (RReady t) now now' f r = Runtime_Ready t now now' f r"
| "rt_exec (RRestoreReady t) now now' f r = Runtime_RestoreReady t now now' f r"
| "rt_exec RInvocationResponse now now' f r = Runtime_InvocationResponse now f r"
| "rt_exec RInvocationErrorResponse now now' f r = Runtime_InvocationErrorResponse now f r"
| "rt_exec RInitError now now' f r = Runtime_InitError now f r"
| "rt_exec RResponseSent now now' f r = Runtime_ResponseSent now now' f r"
| "rt_exec (RRestoreError u) now now' f r = Runtime_RestoreError u now f r"
| "rt_exec (RRelease pick) now now' f r = ((f, Runtime_Release pick r), Returned None)"
| "rt_exec (RResume t) now now' f r = Runtime_resume t now' f r"

text \<open>Between two operations of the runtime other parties may do anything to the flows, so a
  run carries the flows each operation finds.\<close>

type_synonym rt_call = "rt_op \<times> ns \<times> ns \<times> flows"

fun rt_run :: "rt_call list \<Rightarrow> Runtime \<Rightarrow> Runtime" where
  "rt_run [] r = r"
| "rt_run ((q, now, now', f) # cs) r = rt_run cs (snd (fst (rt_exec q now now' f r)))"

subsection \<open>The thread record under the operations\<close>

abbreviation rt_flag :: "Runtime \<Rightarrow> bool" where
  "rt_flag r \<equiv> operatorConditionValue (rt_ManagedThread r)"

lemma setStateUnsafe_simps [simp]:
  "currentState (setStateUnsafe st now r) = st"
  "rt_ManagedThread (setStateUnsafe st now r) = rt_ManagedThread r"
  "stateLastModified (setStateUnsafe st now r) = now"
  "responseTime (setStateUnsafe st now r) = responseTime r"
  by (simp_all add: setStateUnsafe_def)

lemma operatorConditionValue_Release [simp]: "operatorConditionValue (Release pick s)"
  by (simp add: Release_def mt_signal_def Let_def)

lemma mt_wake_cases:
  assumes "mt_wake t s = (s', r)"
  shows "(r \<noteq> None \<and> operatorConditionValue s \<and> \<not> operatorConditionValue s')
    \<or> (r = None \<and> operatorConditionValue s' = operatorConditionValue s)"
proof (cases "map_of (mt_woken s) t")
  case None
  then show ?thesis using assms by (auto simp: mt_wake_def)
next
  case (Some k)
  show ?thesis using assms
    by (auto simp: mt_wake_def SuspendUnsafe_def Some split: if_splits)
qed

section \<open>Refinement of the protocol of runtime states\<close>

text \<open>The abstract specification: which states may follow which.\<close>

inductive rt_protocol :: "RuntimeState \<Rightarrow> RuntimeState \<Rightarrow> bool" where
  "rt_protocol RuntimeStartedState RuntimeReadyState"
| "rt_protocol RuntimeStartedState RuntimeRestoreReadyState"
| "rt_protocol RuntimeStartedState RuntimeInitErrorState"
| "rt_protocol RuntimeRestoreReadyState RuntimeRestoringState"
| "rt_protocol RuntimeRestoringState RuntimeReadyState"
| "rt_protocol RuntimeRestoringState RuntimeRestoreErrorState"
| "rt_protocol RuntimeReadyState RuntimeRunningState"
| "rt_protocol RuntimeRunningState RuntimeInvocationResponseState"
| "rt_protocol RuntimeRunningState RuntimeInvocationErrorResponseState"
| "rt_protocol RuntimeInvocationResponseState RuntimeResponseSentState"
| "rt_protocol RuntimeInvocationErrorResponseState RuntimeResponseSentState"
| "rt_protocol RuntimeResponseSentState RuntimeReadyState"

inductive_cases rt_protocol_terminalE:
  "rt_protocol RuntimeInitErrorState s" "rt_protocol RuntimeRestoreErrorState s"

lemmas rt_protocol_steps = rt_protocol.intros [THEN r_into_rtranclp [of rt_protocol]]

lemmas rt_protocol_then = rt_protocol.intros [THEN converse_rtranclp_into_rtranclp [of rt_protocol]]

lemma rt_continue_protocol:
  "runtime_continue k now r = (r', e) \<Longrightarrow> rt_protocol\<^sup>*\<^sup>* (currentState r) (currentState r')"
  by (cases k)
    (auto simp: ready_after_suspend_def restore_after_suspend_def intro: rt_protocol_steps split: if_splits)

lemma rt_suspend_protocol:
  "runtime_suspend t k now f r = ((f', r'), c) \<Longrightarrow> rt_protocol\<^sup>*\<^sup>* (currentState r) (currentState r')"
  using rt_continue_protocol
  by (fastforce simp: runtime_suspend_def split: prod.splits bool.splits)

lemma rt_exec_protocol:
  assumes "rt_exec q now now' f r = ((f', r'), c)"
  shows "rt_protocol\<^sup>*\<^sup>* (currentState r) (currentState r')"
proof (cases q)
  case (RReady t)
  then show ?thesis
    using assms
    by (auto simp: Runtime_Ready_def runtime_state_method_defs Let_def
        split: RuntimeState.splits prod.splits option.splits
        dest!: rt_suspend_protocol intro: rt_protocol_steps rt_protocol_then)
next
  case (RRestoreReady t)
  then show ?thesis
    using assms
    by (auto simp: Runtime_RestoreReady_def runtime_state_method_defs Let_def
        split: RuntimeState.splits prod.splits option.splits
        dest!: rt_suspend_protocol intro: rt_protocol_steps rt_protocol_then)
next
  case (RResume t)
  then show ?thesis
    using assms rt_continue_protocol
    by (fastforce simp: Runtime_resume_def split: prod.splits option.splits)
qed (use assms in \<open>auto simp: runtime_method_defs runtime_state_method_defs Runtime_Release_def
      split: RuntimeState.splits prod.splits call_result.splits option.splits intro: rt_protocol_steps\<close>)

lemma rt_run_protocol: "rt_protocol\<^sup>*\<^sup>* (currentState r) (currentState (rt_run cs r))"
proof (induction cs arbitrary: r)
  case (Cons c cs)
  obtain q now now' f where c: "c = (q, now, now', f)" by (cases c)
  obtain f' r' a where e: "rt_exec q now now' f r = ((f', r'), a)"
    by (cases "rt_exec q now now' f r") auto
  show ?case using rt_exec_protocol [OF e] Cons [of r'] by (simp add: c e)
qed simp



section \<open>Which request is accepted in which state\<close>

fun rt_allowed :: "rt_op \<Rightarrow> RuntimeState \<Rightarrow> bool" where
  "rt_allowed (RReady t) st = (st \<in> {RuntimeStartedState, RuntimeRestoringState, RuntimeReadyState,
      RuntimeRunningState, RuntimeResponseSentState})"
| "rt_allowed (RRestoreReady t) st = (st = RuntimeStartedState)"
| "rt_allowed RInvocationResponse st = (st = RuntimeRunningState)"
| "rt_allowed RInvocationErrorResponse st = (st = RuntimeRunningState)"
| "rt_allowed RInitError st = (st = RuntimeStartedState)"
| "rt_allowed RResponseSent st = (st \<in> {RuntimeInvocationResponseState, RuntimeInvocationErrorResponseState})"
| "rt_allowed (RRestoreError u) st = (st = RuntimeRestoringState)"
| "rt_allowed (RRelease pick) st = True"
| "rt_allowed (RResume t) st = True"

lemma walk_error: "snd (WalkThrough g) \<noteq> Some ErrNotAllowed"
  by (simp add: WalkThrough_def)

lemma flow_walk_errors:
  "snd (RuntimeRestoreReady i) \<noteq> Some ErrNotAllowed"
  "snd (init_RuntimeReady i) \<noteq> Some ErrNotAllowed"
  "snd (RuntimeResponse v) \<noteq> Some ErrNotAllowed"
  "snd (invoke_RuntimeReady v) \<noteq> Some ErrNotAllowed"
  by (simp_all add: RuntimeRestoreReady_def init_RuntimeReady_def RuntimeResponse_def
      invoke_RuntimeReady_def case_prod_beta walk_error)

lemma continue_error: "snd (runtime_continue k now r) \<noteq> Some ErrNotAllowed"
  by (cases k) (simp_all add: ready_after_suspend_def restore_after_suspend_def)

lemma suspend_error: "snd (runtime_suspend t k now f r) \<noteq> Returned (Some ErrNotAllowed)"
  using continue_error [of k now]
  by (auto simp: runtime_suspend_def split: prod.splits bool.splits) (metis snd_conv)

lemma Ready_not_rejected:
  assumes "rt_allowed (RReady t) (currentState r)"
  shows "snd (Runtime_Ready t now now' f r) \<noteq> Returned (Some ErrNotAllowed)"
  using assms flow_walk_errors(1) [of "initFlow f"] flow_walk_errors(2) [of "initFlow f"]
    flow_walk_errors(2) [of "fst (RuntimeRestoreReady (initFlow f))"]
    flow_walk_errors(4) [of "invokeFlow f"]
  by (auto simp: Runtime_Ready_def runtime_state_method_defs Let_def suspend_error
      split: prod.splits option.splits)

lemma RestoreReady_not_rejected:
  assumes "rt_allowed (RRestoreReady t) (currentState r)"
  shows "snd (Runtime_RestoreReady t now now' f r) \<noteq> Returned (Some ErrNotAllowed)"
  using assms flow_walk_errors(1) [of "initFlow f"]
  by (auto simp: Runtime_RestoreReady_def runtime_state_method_defs Let_def suspend_error
      split: prod.splits option.splits)

lemma ResponseSent_not_rejected:
  assumes "rt_allowed RResponseSent (currentState r)"
  shows "snd (Runtime_ResponseSent now now' f r) \<noteq> Returned (Some ErrNotAllowed)"
  using assms flow_walk_errors(3) [of "invokeFlow f"]
  by (auto simp: Runtime_ResponseSent_def runtime_state_method_defs
      split: prod.splits option.splits)

lemma resume_not_rejected: "snd (Runtime_resume t now' f r) \<noteq> Returned (Some ErrNotAllowed)"
  using continue_error
  by (auto simp: Runtime_resume_def split: prod.splits option.splits) (metis snd_conv)

lemma allowed_not_rejected:
  assumes "rt_allowed q (currentState r)"
  shows "snd (rt_exec q now now' f r) \<noteq> Returned (Some ErrNotAllowed)"
  using assms Ready_not_rejected RestoreReady_not_rejected ResponseSent_not_rejected resume_not_rejected
  by (cases q)
    (auto simp: Runtime_InvocationResponse_def Runtime_InvocationErrorResponse_def Runtime_InitError_def
      Runtime_RestoreError_def runtime_state_method_defs)

lemma not_allowed_rejected:
  "\<not> rt_allowed q (currentState r) \<Longrightarrow>
    rt_exec q now now' f r = ((f, r), Returned (Some ErrNotAllowed))"
  by (cases q; cases "currentState r")
    (auto simp: runtime_method_defs disallowEveryTransitionByDefault_def)

text \<open>A request is refused with \<open>ErrNotAllowed\<close> exactly when the table
  \<open>rt_allowed\<close> does not list it for the current state, and a refused request changes neither
  the runtime nor the flows.\<close>

theorem runtime_rejections:
  "(snd (rt_exec q now now' f r) = Returned (Some ErrNotAllowed) \<longleftrightarrow> \<not> rt_allowed q (currentState r)) \<and>
   (rt_allowed q (currentState r) \<or> fst (rt_exec q now now' f r) = (f, r))"
  using allowed_not_rejected [of q r now now' f] not_allowed_rejected [of q r now now' f]
  by (cases "rt_allowed q (currentState r)") simp_all

section \<open>At most one response per release\<close>

definition rt_accepts_response :: "rt_op \<Rightarrow> Runtime \<Rightarrow> bool" where
  "rt_accepts_response q r =
    (q \<in> {RInvocationResponse, RInvocationErrorResponse} \<and> rt_allowed q (currentState r))"

fun rt_responses :: "rt_call list \<Rightarrow> Runtime \<Rightarrow> nat" where
  "rt_responses [] r = 0"
| "rt_responses ((q, now, now', f) # cs) r =
    (if rt_accepts_response q r then 1 else 0) + rt_responses cs (snd (fst (rt_exec q now now' f r)))"

fun rt_releases :: "rt_call list \<Rightarrow> nat" where
  "rt_releases [] = 0"
| "rt_releases ((q, rest) # cs) = (case q of RRelease _ \<Rightarrow> 1 | _ \<Rightarrow> 0) + rt_releases cs"

text \<open>The permissions to respond that are outstanding: a pending release and a running
  invocation.\<close>

definition rt_credit :: "Runtime \<Rightarrow> nat" where
  "rt_credit r = (if currentState r = RuntimeRunningState then 1 else 0) + (if rt_flag r then 1 else 0)"

lemma rt_credit_continue:
  assumes "runtime_continue k now (r\<lparr>rt_ManagedThread := mt\<rparr>) = (r', e)"
    "rt_flag r" "\<not> operatorConditionValue mt"
  shows "rt_credit r' \<le> rt_credit r"
  using assms
  by (cases k) (auto simp: rt_credit_def ready_after_suspend_def restore_after_suspend_def split: if_splits)

lemma rt_credit_suspend:
  assumes "runtime_suspend t k now f r = ((f', r'), c)"
  shows "rt_credit r' \<le> rt_credit r"
proof (cases "rt_flag r")
  case True
  then show ?thesis
    using assms rt_credit_continue [where k = k and now = now and r = r]
    by (fastforce simp: runtime_suspend_def SuspendUnsafe_def split: prod.splits)
next
  case False
  then show ?thesis
    using assms by (auto simp: runtime_suspend_def SuspendUnsafe_def rt_credit_def)
qed

lemma rt_credit_Ready:
  "Runtime_Ready t now now' f r = ((f', r'), c) \<Longrightarrow> rt_credit r' \<le> rt_credit r"
  by (auto simp: Runtime_Ready_def runtime_state_method_defs Let_def rt_credit_def
      split: RuntimeState.splits prod.splits option.splits if_splits
      dest!: rt_credit_suspend)

lemma rt_credit_RestoreReady:
  "Runtime_RestoreReady t now now' f r = ((f', r'), c) \<Longrightarrow> rt_credit r' \<le> rt_credit r"
  by (auto simp: Runtime_RestoreReady_def runtime_state_method_defs Let_def rt_credit_def
      split: RuntimeState.splits prod.splits option.splits if_splits
      dest!: rt_credit_suspend)

lemma rt_credit_resume:
  assumes "Runtime_resume t now' f r = ((f', r'), c)"
  shows "rt_credit r' \<le> rt_credit r"
proof -
  obtain mt k where w: "mt_wake t (rt_ManagedThread r) = (mt, k)" by fastforce
  show ?thesis
  proof (cases k)
    case None
    then show ?thesis
      using mt_wake_cases [OF w] assms by (auto simp: Runtime_resume_def w rt_credit_def)
  next
    case (Some p)
    then show ?thesis
      using mt_wake_cases [OF w] assms rt_credit_continue [where k = p and now = now' and r = r and mt = mt]
      by (auto simp: Runtime_resume_def w split: prod.splits)
  qed
qed

lemma rt_credit_exec:
  assumes "rt_exec q now now' f r = ((f', r'), c)"
  shows "(if rt_accepts_response q r then 1 else 0) + rt_credit r' \<le>
    rt_credit r + (case q of RRelease _ \<Rightarrow> 1 | _ \<Rightarrow> 0)"
proof (cases q)
  case (RReady t)
  then show ?thesis using assms rt_credit_Ready by (auto simp: rt_accepts_response_def)
next
  case (RRestoreReady t)
  then show ?thesis using assms rt_credit_RestoreReady by (auto simp: rt_accepts_response_def)
next
  case (RResume t)
  then show ?thesis using assms rt_credit_resume by (auto simp: rt_accepts_response_def)
qed (use assms in \<open>auto simp: rt_accepts_response_def runtime_method_defs runtime_state_method_defs
      Runtime_Release_def rt_credit_def split: RuntimeState.splits prod.splits option.splits\<close>)

lemma rt_responses_credit: "rt_responses cs r \<le> rt_credit r + rt_releases cs"
proof (induction cs arbitrary: r)
  case (Cons c cs)
  obtain q now now' f where c: "c = (q, now, now', f)" by (cases c)
  obtain f' r' a where e: "rt_exec q now now' f r = ((f', r'), a)"
    by (cases "rt_exec q now now' f r") auto
  show ?case using rt_credit_exec [OF e] Cons [of r'] by (simp add: c e)
qed simp


section \<open>One life of a runtime\<close>

lemmas rt_step_simps = runtime_method_defs runtime_state_method_defs runtime_suspend_def
  SuspendUnsafe_def ready_after_suspend_def restore_after_suspend_def Runtime_Release_def Release_def
  mt_signal_def mt_wake_def setStateUnsafe_def Let_def

lemmas flow_step_simps = init_arrival_defs init_await_defs invoke_arrival_defs invoke_await_defs
  gate_op_defs NewInitFlowSynchronization_def NewInvokeFlowSynchronization_def

text \<open>The life of a well-behaved runtime.  Its first \<open>/next\<close> opens the platform's wait for
  init and suspends the request; after a release the request returns with the runtime
  running; its response opens the platform's wait for the response, and its next
  \<open>/next\<close> opens the wait for readiness and is suspended again.\<close>

theorem runtime_life_cycle:
  "(case Runtime_Ready t n1 n1' new_flows (NewRuntime n0) of ((f1, r1), c1) \<Rightarrow>
    c1 = Suspended \<and> currentState r1 = RuntimeReadyState \<and>
    init_AwaitRuntimeReady (initFlow f1) = AwaitReturns None \<and>
    (case Runtime_resume t n2 f1 (Runtime_Release pick r1) of ((f2, r2), c2) \<Rightarrow>
      c2 = Returned None \<and> currentState r2 = RuntimeRunningState \<and>
      AwaitRuntimeResponse (invokeFlow f2) = AwaitBlocks \<and>
      (case Runtime_InvocationResponse n3 f2 r2 of ((f3, r3), c3) \<Rightarrow>
        c3 = Returned None \<and>
        (case Runtime_ResponseSent n4 n4' f3 r3 of ((f4, r4), c4) \<Rightarrow>
          c4 = Returned None \<and> responseTime r4 = Some n4' \<and>
          AwaitRuntimeResponse (invokeFlow f4) = AwaitReturns None \<and>
          invoke_AwaitRuntimeReady (invokeFlow f4) = AwaitBlocks \<and>
          (case Runtime_Ready u n5 n5' f4 r4 of ((f5, r5), c5) \<Rightarrow>
            c5 = Suspended \<and> currentState r5 = RuntimeReadyState \<and>
            invoke_AwaitRuntimeReady (invokeFlow f5) = AwaitReturns None)))))"
  by (simp add: new_flows_def NewRuntime_def NewManagedThread_def rt_step_simps flow_step_simps)

text \<open>A runtime that reports an error of its restore hook leaves the restore phase for good and
  every wait of the platform on the init flow returns with that error, whatever else
  arrives at the flow.\<close>

theorem restore_error_reaches_platform:
  assumes "currentState r = RuntimeRestoringState"
  shows "(case Runtime_RestoreError u now f r of ((f', r'), c) \<Rightarrow>
    c = Returned None \<and> currentState r' = RuntimeRestoreErrorState \<and>
    map (\<lambda>aw. aw (init_run qs (initFlow f'))) init_awaits
      = replicate 4 (AwaitReturns (Some (ErrRestoreHookUserError u))))"
proof -
  have "aw \<in> set init_awaits \<Longrightarrow> aw (init_run qs (init_CancelWithError (Some (ErrRestoreHookUserError u)) (initFlow f)))
      = AwaitReturns (Some (ErrRestoreHookUserError u))" for aw
    unfolding init_run_def by (rule init_cf.await_after_cancel)
  then show ?thesis
    using assms by (simp add: Runtime_RestoreError_def RuntimeRestoringState_RestoreError_def
        init_awaits_def numeral_eq_Suc)
qed

theorem restore_error_reaches_platform_witness:
  "(case Runtime_RestoreError \<lparr>fe_Type = RuntimeUnknown, fe_Message = []\<rparr> 3 new_flows
       (Runtime_SetState RuntimeRestoringState 1 (NewRuntime 0)) of ((f', r'), c) \<Rightarrow>
    c = Returned None \<and> currentState r' = RuntimeRestoreErrorState \<and>
    map (\<lambda>aw. aw (init_run [IOpRuntimeReady] (initFlow f'))) init_awaits
      = replicate 4 (AwaitReturns (Some (ErrRestoreHookUserError \<lparr>fe_Type = RuntimeUnknown, fe_Message = []\<rparr>))))"
  using restore_error_reaches_platform [of "Runtime_SetState RuntimeRestoringState 1 (NewRuntime 0)"]
  by (simp add: Runtime_SetState_def)

end
