(* ===== verification/Agents.thy ===== *)
theory Agents
  imports Runtime_States
begin

text \<open>
  External and internal agents (extensions) and their state machines:
  \<open>externalagent.go\<close>, \<open>externalagent_states.go\<close>, \<open>internalagent.go\<close>,
  \<open>internalagent_states.go\<close> and \<open>agentutil.go\<close> of \<open>internal/lambda/core\<close>.  As for the
  runtime, a method that suspends is split at \<open>SuspendUnsafe\<close>.  A \<open>uuid.UUID\<close> is its canonical
  string; the fresh identifier of \<open>uuid.New\<close> is an argument of the constructors.  What both
  kinds of agents promise (an error state is final and keeps the first error, at most
  one request is suspended) is the locale \<open>agent_machine\<close>, interpreted on both.
\<close>

type_synonym Event = string
type_synonym UUID = string

definition InvokeEvent :: string where "InvokeEvent = ''INVOKE''"
definition ShutdownEvent :: string where "ShutdownEvent = ''SHUTDOWN''"

definition PermissionDenied :: string where "PermissionDenied = ''PermissionDenied''"
definition TooManyExtensions :: string where "TooManyExtensions = ''TooManyExtensions''"
definition UnknownError :: string where "UnknownError = ''UnknownError''"

definition MapErrorToAgentInfoErrorType :: "go_error \<Rightarrow> string" where
  "MapErrorToAgentInfoErrorType e =
    (if e = ErrPermission then PermissionDenied
     else if e = ErrTooManyExtensions then TooManyExtensions
     else UnknownError)"

section \<open>External agents\<close>

datatype ExternalAgentState =
    ExternalAgentStartedState | ExternalAgentRegisteredState | ExternalAgentReadyState
  | ExternalAgentRunningState | ExternalAgentInitErrorState | ExternalAgentExitErrorState
  | ExternalAgentShutdownFailedState | ExternalAgentExitedState | ExternalAgentLaunchErrorState

fun ExternalAgentState_Name :: "ExternalAgentState \<Rightarrow> string" where
  "ExternalAgentState_Name ExternalAgentStartedState = ''Started''"
| "ExternalAgentState_Name ExternalAgentRegisteredState = ''Registered''"
| "ExternalAgentState_Name ExternalAgentReadyState = ''Ready''"
| "ExternalAgentState_Name ExternalAgentRunningState = ''Running''"
| "ExternalAgentState_Name ExternalAgentInitErrorState = ''InitError''"
| "ExternalAgentState_Name ExternalAgentExitErrorState = ''ExitError''"
| "ExternalAgentState_Name ExternalAgentShutdownFailedState = ''ShutdownFailed''"
| "ExternalAgentState_Name ExternalAgentExitedState = ''Exited''"
| "ExternalAgentState_Name ExternalAgentLaunchErrorState = ''LaunchError''"

record ExternalAgent =
  ea_Name :: string
  ea_ID :: UUID
  ea_events :: "(Event \<times> unit) list"
  ea_ManagedThread :: "unit ManagedThread"
  ea_currentState :: ExternalAgentState
  ea_stateLastModified :: ns
  ea_errorType :: string

definition ea_setStateUnsafe :: "ExternalAgentState \<Rightarrow> ns \<Rightarrow> ExternalAgent \<Rightarrow> ExternalAgent" where
  "ea_setStateUnsafe st now a = a\<lparr>ea_currentState := st, ea_stateLastModified := now\<rparr>"

definition NewExternalAgent :: "string \<Rightarrow> UUID \<Rightarrow> ns \<Rightarrow> ExternalAgent" where
  "NewExternalAgent name newID now = ea_setStateUnsafe ExternalAgentStartedState now
    \<lparr>ea_Name = name, ea_ID = newID, ea_events = [], ea_ManagedThread = NewManagedThread,
     ea_currentState = ExternalAgentStartedState, ea_stateLastModified = 0, ea_errorType = ''''\<rparr>"

definition ExternalAgent_String :: "ExternalAgent \<Rightarrow> string" where
  "ExternalAgent_String a = ea_Name a @ '' ('' @ ea_ID a @ '')''"

definition ExternalAgent_Release :: "nat \<Rightarrow> ExternalAgent \<Rightarrow> ExternalAgent" where
  "ExternalAgent_Release pick a = a\<lparr>ea_ManagedThread := Release pick (ea_ManagedThread a)\<rparr>"

definition ExternalAgent_SetState :: "ExternalAgentState \<Rightarrow> ns \<Rightarrow> ExternalAgent \<Rightarrow> ExternalAgent" where
  "ExternalAgent_SetState st now a = ea_setStateUnsafe st now a"

definition ValidateExternalAgentEvent :: "Event \<Rightarrow> go_error option" where
  "ValidateExternalAgentEvent e =
    (if e = InvokeEvent then None
     else if e = ShutdownEvent then None
     else Some ErrInvalidEventType)"

definition ea_subscribeUnsafe :: "Event \<Rightarrow> ExternalAgent \<Rightarrow> ExternalAgent \<times> go_error option" where
  "ea_subscribeUnsafe e a =
    (case ValidateExternalAgentEvent e of
       Some er \<Rightarrow> (a, Some er)
     | None \<Rightarrow> (a\<lparr>ea_events := go_map_set e () (ea_events a)\<rparr>, None))"

definition ExternalAgent_IsSubscribed :: "Event \<Rightarrow> ExternalAgent \<Rightarrow> bool" where
  "ExternalAgent_IsSubscribed e a = (map_of (ea_events a) e \<noteq> None)"

definition ExternalAgent_SubscribedEvents :: "ExternalAgent \<Rightarrow> string list" where
  "ExternalAgent_SubscribedEvents a = map fst (ea_events a)"

definition ExternalAgent_GetState :: "ExternalAgent \<Rightarrow> ExternalAgentState" where
  "ExternalAgent_GetState a = ea_currentState a"

definition ExternalAgent_ErrorType :: "ExternalAgent \<Rightarrow> string" where
  "ExternalAgent_ErrorType a = ea_errorType a"

text \<open>Every method of \<open>disallowEverything\<close> answers the same.\<close>

definition disallowEverything :: "flows \<Rightarrow> 'a \<Rightarrow> (flows \<times> 'a) \<times> call_result" where
  "disallowEverything f a = ((f, a), Returned (Some ErrNotAllowed))"

subsection \<open>Methods of the states\<close>

fun ea_subscribe_all :: "Event list \<Rightarrow> ExternalAgent \<Rightarrow> ExternalAgent \<times> go_error option" where
  "ea_subscribe_all [] a = (a, None)"
| "ea_subscribe_all (e # es) a =
    (case ea_subscribeUnsafe e a of
       (a, Some er) \<Rightarrow> (a, Some er)
     | (a, None) \<Rightarrow> ea_subscribe_all es a)"

definition ExternalAgentStartedState_Register ::
  "Event list \<Rightarrow> ns \<Rightarrow> flows \<Rightarrow> ExternalAgent \<Rightarrow> (flows \<times> ExternalAgent) \<times> call_result" where
  "ExternalAgentStartedState_Register es now f a =
    (case ea_subscribe_all es a of
       (a, Some er) \<Rightarrow> ((f, a), Returned (Some er))
     | (a, None) \<Rightarrow>
        ((f\<lparr>initFlow := fst (ExternalAgentRegistered (initFlow f))\<rparr>,
          ea_setStateUnsafe ExternalAgentRegisteredState now a), Returned None))"

definition ExternalAgentStartedState_LaunchError ::
  "go_error \<Rightarrow> ns \<Rightarrow> flows \<Rightarrow> ExternalAgent \<Rightarrow> (flows \<times> ExternalAgent) \<times> call_result" where
  "ExternalAgentStartedState_LaunchError e now f a =
    ((f, (ea_setStateUnsafe ExternalAgentLaunchErrorState now a)\<lparr>ea_errorType := MapErrorToAgentInfoErrorType e\<rparr>),
     Returned None)"

definition ea_after_suspend :: "ns \<Rightarrow> ExternalAgent \<Rightarrow> ExternalAgent \<times> go_error option" where
  "ea_after_suspend now a =
    (if ea_currentState a \<noteq> ExternalAgentReadyState then (a, Some ErrConcurrentStateModification)
     else (ea_setStateUnsafe ExternalAgentRunningState now a, None))"

definition ea_suspend :: "tid \<Rightarrow> ns \<Rightarrow> flows \<Rightarrow> ExternalAgent \<Rightarrow> (flows \<times> ExternalAgent) \<times> call_result" where
  "ea_suspend t now' f a =
    (case SuspendUnsafe t () (ea_ManagedThread a) of
       (mt, True) \<Rightarrow> (case ea_after_suspend now' (a\<lparr>ea_ManagedThread := mt\<rparr>) of (a', e) \<Rightarrow> ((f, a'), Returned e))
     | (mt, False) \<Rightarrow> ((f, a\<lparr>ea_ManagedThread := mt\<rparr>), Suspended))"

definition ExternalAgentRegisteredState_Ready ::
  "tid \<Rightarrow> ns \<Rightarrow> ns \<Rightarrow> flows \<Rightarrow> ExternalAgent \<Rightarrow> (flows \<times> ExternalAgent) \<times> call_result" where
  "ExternalAgentRegisteredState_Ready t now now' f a =
    ea_suspend t now' (f\<lparr>initFlow := fst (init_AgentReady (initFlow f))\<rparr>)
      (ea_setStateUnsafe ExternalAgentReadyState now a)"

definition ea_fail :: "ExternalAgentState \<Rightarrow> string \<Rightarrow> ns \<Rightarrow> flows \<Rightarrow> ExternalAgent \<Rightarrow> (flows \<times> ExternalAgent) \<times> call_result" where
  "ea_fail st errorType now f a =
    ((f, (ea_setStateUnsafe st now a)\<lparr>ea_errorType := errorType\<rparr>), Returned None)"

definition ExternalAgentRegisteredState_InitError ::
  "string \<Rightarrow> ns \<Rightarrow> flows \<Rightarrow> ExternalAgent \<Rightarrow> (flows \<times> ExternalAgent) \<times> call_result" where
  "ExternalAgentRegisteredState_InitError = ea_fail ExternalAgentInitErrorState"

definition ExternalAgentRegisteredState_ExitError ::
  "string \<Rightarrow> ns \<Rightarrow> flows \<Rightarrow> ExternalAgent \<Rightarrow> (flows \<times> ExternalAgent) \<times> call_result" where
  "ExternalAgentRegisteredState_ExitError = ea_fail ExternalAgentExitErrorState"

definition ExternalAgentReadyState_ExitError ::
  "string \<Rightarrow> ns \<Rightarrow> flows \<Rightarrow> ExternalAgent \<Rightarrow> (flows \<times> ExternalAgent) \<times> call_result" where
  "ExternalAgentReadyState_ExitError = ea_fail ExternalAgentExitErrorState"

definition ExternalAgentRunningState_ExitError ::
  "string \<Rightarrow> ns \<Rightarrow> flows \<Rightarrow> ExternalAgent \<Rightarrow> (flows \<times> ExternalAgent) \<times> call_result" where
  "ExternalAgentRunningState_ExitError = ea_fail ExternalAgentExitErrorState"


definition ExternalAgentRunningState_Ready ::
  "tid \<Rightarrow> ns \<Rightarrow> ns \<Rightarrow> flows \<Rightarrow> ExternalAgent \<Rightarrow> (flows \<times> ExternalAgent) \<times> call_result" where
  "ExternalAgentRunningState_Ready t now now' f a =
    ea_suspend t now' (f\<lparr>invokeFlow := fst (invoke_AgentReady (invokeFlow f))\<rparr>)
      (ea_setStateUnsafe ExternalAgentReadyState now a)"

definition ExternalAgentRunningState_ShutdownFailed ::
  "ns \<Rightarrow> flows \<Rightarrow> ExternalAgent \<Rightarrow> (flows \<times> ExternalAgent) \<times> call_result" where
  "ExternalAgentRunningState_ShutdownFailed now f a =
    ((f, ea_setStateUnsafe ExternalAgentShutdownFailedState now a), Returned None)"

definition ExternalAgentRunningState_Exited ::
  "ns \<Rightarrow> flows \<Rightarrow> ExternalAgent \<Rightarrow> (flows \<times> ExternalAgent) \<times> call_result" where
  "ExternalAgentRunningState_Exited now f a =
    ((f, ea_setStateUnsafe ExternalAgentExitedState now a), Returned None)"

definition ExternalAgentInitErrorState_InitError ::
  "flows \<Rightarrow> ExternalAgent \<Rightarrow> (flows \<times> ExternalAgent) \<times> call_result" where
  "ExternalAgentInitErrorState_InitError f a = ((f, a), Returned None)"

definition ExternalAgentExitErrorState_ExitError ::
  "flows \<Rightarrow> ExternalAgent \<Rightarrow> (flows \<times> ExternalAgent) \<times> call_result" where
  "ExternalAgentExitErrorState_ExitError f a = ((f, a), Returned None)"

subsection \<open>Methods of the agent: dispatch on the current state\<close>

definition ExternalAgent_Register ::
  "Event list \<Rightarrow> ns \<Rightarrow> flows \<Rightarrow> ExternalAgent \<Rightarrow> (flows \<times> ExternalAgent) \<times> call_result" where
  "ExternalAgent_Register es now f a =
    (case ea_currentState a of
       ExternalAgentStartedState \<Rightarrow> ExternalAgentStartedState_Register es now f a
     | _ \<Rightarrow> disallowEverything f a)"

definition ExternalAgent_Ready ::
  "tid \<Rightarrow> ns \<Rightarrow> ns \<Rightarrow> flows \<Rightarrow> ExternalAgent \<Rightarrow> (flows \<times> ExternalAgent) \<times> call_result" where
  "ExternalAgent_Ready t now now' f a =
    (case ea_currentState a of
       ExternalAgentRegisteredState \<Rightarrow> ExternalAgentRegisteredState_Ready t now now' f a
     | ExternalAgentRunningState \<Rightarrow> ExternalAgentRunningState_Ready t now now' f a
     | _ \<Rightarrow> disallowEverything f a)"

definition ExternalAgent_InitError ::
  "string \<Rightarrow> ns \<Rightarrow> flows \<Rightarrow> ExternalAgent \<Rightarrow> (flows \<times> ExternalAgent) \<times> call_result" where
  "ExternalAgent_InitError errorType now f a =
    (case ea_currentState a of
       ExternalAgentRegisteredState \<Rightarrow> ExternalAgentRegisteredState_InitError errorType now f a
     | ExternalAgentInitErrorState \<Rightarrow> ExternalAgentInitErrorState_InitError f a
     | _ \<Rightarrow> disallowEverything f a)"

definition ExternalAgent_ExitError ::
  "string \<Rightarrow> ns \<Rightarrow> flows \<Rightarrow> ExternalAgent \<Rightarrow> (flows \<times> ExternalAgent) \<times> call_result" where
  "ExternalAgent_ExitError errorType now f a =
    (case ea_currentState a of
       ExternalAgentRegisteredState \<Rightarrow> ExternalAgentRegisteredState_ExitError errorType now f a
     | ExternalAgentReadyState \<Rightarrow> ExternalAgentReadyState_ExitError errorType now f a
     | ExternalAgentRunningState \<Rightarrow> ExternalAgentRunningState_ExitError errorType now f a
     | ExternalAgentExitErrorState \<Rightarrow> ExternalAgentExitErrorState_ExitError f a
     | _ \<Rightarrow> disallowEverything f a)"

definition ExternalAgent_ShutdownFailed ::
  "ns \<Rightarrow> flows \<Rightarrow> ExternalAgent \<Rightarrow> (flows \<times> ExternalAgent) \<times> call_result" where
  "ExternalAgent_ShutdownFailed now f a =
    (case ea_currentState a of
       ExternalAgentRunningState \<Rightarrow> ExternalAgentRunningState_ShutdownFailed now f a
     | _ \<Rightarrow> disallowEverything f a)"

definition ExternalAgent_Exited ::
  "ns \<Rightarrow> flows \<Rightarrow> ExternalAgent \<Rightarrow> (flows \<times> ExternalAgent) \<times> call_result" where
  "ExternalAgent_Exited now f a =
    (case ea_currentState a of
       ExternalAgentRunningState \<Rightarrow> ExternalAgentRunningState_Exited now f a
     | _ \<Rightarrow> disallowEverything f a)"

definition ExternalAgent_LaunchError ::
  "go_error \<Rightarrow> ns \<Rightarrow> flows \<Rightarrow> ExternalAgent \<Rightarrow> (flows \<times> ExternalAgent) \<times> call_result" where
  "ExternalAgent_LaunchError e now f a =
    (case ea_currentState a of
       ExternalAgentStartedState \<Rightarrow> ExternalAgentStartedState_LaunchError e now f a
     | _ \<Rightarrow> disallowEverything f a)"

definition ExternalAgent_resume ::
  "tid \<Rightarrow> ns \<Rightarrow> flows \<Rightarrow> ExternalAgent \<Rightarrow> (flows \<times> ExternalAgent) \<times> call_result" where
  "ExternalAgent_resume t now' f a =
    (case mt_wake t (ea_ManagedThread a) of
       (mt, Some _) \<Rightarrow> (case ea_after_suspend now' (a\<lparr>ea_ManagedThread := mt\<rparr>) of (a', e) \<Rightarrow> ((f, a'), Returned e))
     | (mt, None) \<Rightarrow> ((f, a\<lparr>ea_ManagedThread := mt\<rparr>), Suspended))"

record ExtensionDescription =
  xd_Name :: string
  xd_ID :: string
  xd_State :: StateDescription
  xd_ErrorType :: string

definition ExternalAgent_GetAgentDescription :: "ExternalAgent \<Rightarrow> ExtensionDescription" where
  "ExternalAgent_GetAgentDescription a =
    \<lparr>xd_Name = ea_Name a, xd_ID = ea_ID a,
     xd_State = \<lparr>sd_Name = ExternalAgentState_Name (ea_currentState a),
       sd_LastModified = go_quot (ea_stateLastModified a) 1000000, sd_ResponseTimeNs = 0\<rparr>,
     xd_ErrorType = ea_errorType a\<rparr>"

section \<open>Internal agents\<close>

datatype InternalAgentState =
    InternalAgentStartedState | InternalAgentRegisteredState | InternalAgentReadyState
  | InternalAgentRunningState | InternalAgentInitErrorState | InternalAgentExitErrorState

fun InternalAgentState_Name :: "InternalAgentState \<Rightarrow> string" where
  "InternalAgentState_Name InternalAgentStartedState = ''Started''"
| "InternalAgentState_Name InternalAgentRegisteredState = ''Registered''"
| "InternalAgentState_Name InternalAgentReadyState = ''Ready''"
| "InternalAgentState_Name InternalAgentRunningState = ''Running''"
| "InternalAgentState_Name InternalAgentInitErrorState = ''InitError''"
| "InternalAgentState_Name InternalAgentExitErrorState = ''ExitError''"

record InternalAgent =
  ia_Name :: string
  ia_ID :: UUID
  ia_events :: "(Event \<times> unit) list"
  ia_ManagedThread :: "unit ManagedThread"
  ia_currentState :: InternalAgentState
  ia_stateLastModified :: ns
  ia_errorType :: string

definition ia_setStateUnsafe :: "InternalAgentState \<Rightarrow> ns \<Rightarrow> InternalAgent \<Rightarrow> InternalAgent" where
  "ia_setStateUnsafe st now a = a\<lparr>ia_currentState := st, ia_stateLastModified := now\<rparr>"

definition NewInternalAgent :: "string \<Rightarrow> UUID \<Rightarrow> ns \<Rightarrow> InternalAgent" where
  "NewInternalAgent name newID now = ia_setStateUnsafe InternalAgentStartedState now
    \<lparr>ia_Name = name, ia_ID = newID, ia_events = [], ia_ManagedThread = NewManagedThread,
     ia_currentState = InternalAgentStartedState, ia_stateLastModified = 0, ia_errorType = ''''\<rparr>"

definition InternalAgent_String :: "InternalAgent \<Rightarrow> string" where
  "InternalAgent_String a = ia_Name a @ '' ('' @ ia_ID a @ '')''"

definition InternalAgent_Release :: "nat \<Rightarrow> InternalAgent \<Rightarrow> InternalAgent" where
  "InternalAgent_Release pick a = a\<lparr>ia_ManagedThread := Release pick (ia_ManagedThread a)\<rparr>"

definition InternalAgent_SetState :: "InternalAgentState \<Rightarrow> ns \<Rightarrow> InternalAgent \<Rightarrow> InternalAgent" where
  "InternalAgent_SetState st now a = ia_setStateUnsafe st now a"

definition ValidateInternalAgentEvent :: "Event \<Rightarrow> go_error option" where
  "ValidateInternalAgentEvent e =
    (if e = InvokeEvent then None
     else if e = ShutdownEvent then Some ErrEventNotSupportedForInternalAgent
     else Some ErrInvalidEventType)"

definition ia_subscribeUnsafe :: "Event \<Rightarrow> InternalAgent \<Rightarrow> InternalAgent \<times> go_error option" where
  "ia_subscribeUnsafe e a =
    (case ValidateInternalAgentEvent e of
       Some er \<Rightarrow> (a, Some er)
     | None \<Rightarrow> (a\<lparr>ia_events := go_map_set e () (ia_events a)\<rparr>, None))"

definition InternalAgent_IsSubscribed :: "Event \<Rightarrow> InternalAgent \<Rightarrow> bool" where
  "InternalAgent_IsSubscribed e a = (map_of (ia_events a) e \<noteq> None)"

definition InternalAgent_SubscribedEvents :: "InternalAgent \<Rightarrow> string list" where
  "InternalAgent_SubscribedEvents a = map fst (ia_events a)"

definition InternalAgent_GetState :: "InternalAgent \<Rightarrow> InternalAgentState" where
  "InternalAgent_GetState a = ia_currentState a"

definition InternalAgent_ErrorType :: "InternalAgent \<Rightarrow> string" where
  "InternalAgent_ErrorType a = ia_errorType a"

subsection \<open>Methods of the states\<close>

fun ia_subscribe_all :: "Event list \<Rightarrow> InternalAgent \<Rightarrow> InternalAgent \<times> go_error option" where
  "ia_subscribe_all [] a = (a, None)"
| "ia_subscribe_all (e # es) a =
    (case ia_subscribeUnsafe e a of
       (a, Some er) \<Rightarrow> (a, Some er)
     | (a, None) \<Rightarrow> ia_subscribe_all es a)"

definition InternalAgentStartedState_Register ::
  "Event list \<Rightarrow> ns \<Rightarrow> flows \<Rightarrow> InternalAgent \<Rightarrow> (flows \<times> InternalAgent) \<times> call_result" where
  "InternalAgentStartedState_Register es now f a =
    (case ia_subscribe_all es a of
       (a, Some er) \<Rightarrow> ((f, a), Returned (Some er))
     | (a, None) \<Rightarrow> ((f, ia_setStateUnsafe InternalAgentRegisteredState now a), Returned None))"

definition ia_after_suspend :: "ns \<Rightarrow> InternalAgent \<Rightarrow> InternalAgent \<times> go_error option" where
  "ia_after_suspend now a =
    (if ia_currentState a \<noteq> InternalAgentReadyState then (a, Some ErrConcurrentStateModification)
     else (ia_setStateUnsafe InternalAgentRunningState now a, None))"

definition ia_suspend :: "tid \<Rightarrow> ns \<Rightarrow> flows \<Rightarrow> InternalAgent \<Rightarrow> (flows \<times> InternalAgent) \<times> call_result" where
  "ia_suspend t now' f a =
    (case SuspendUnsafe t () (ia_ManagedThread a) of
       (mt, True) \<Rightarrow> (case ia_after_suspend now' (a\<lparr>ia_ManagedThread := mt\<rparr>) of (a', e) \<Rightarrow> ((f, a'), Returned e))
     | (mt, False) \<Rightarrow> ((f, a\<lparr>ia_ManagedThread := mt\<rparr>), Suspended))"

definition InternalAgentRegisteredState_Ready ::
  "tid \<Rightarrow> ns \<Rightarrow> ns \<Rightarrow> flows \<Rightarrow> InternalAgent \<Rightarrow> (flows \<times> InternalAgent) \<times> call_result" where
  "InternalAgentRegisteredState_Ready t now now' f a =
    ia_suspend t now' (f\<lparr>initFlow := fst (init_AgentReady (initFlow f))\<rparr>)
      (ia_setStateUnsafe InternalAgentReadyState now a)"

definition ia_fail :: "InternalAgentState \<Rightarrow> string \<Rightarrow> ns \<Rightarrow> flows \<Rightarrow> InternalAgent \<Rightarrow> (flows \<times> InternalAgent) \<times> call_result" where
  "ia_fail st errorType now f a =
    ((f, (ia_setStateUnsafe st now a)\<lparr>ia_errorType := errorType\<rparr>), Returned None)"

definition InternalAgentRegisteredState_InitError ::
  "string \<Rightarrow> ns \<Rightarrow> flows \<Rightarrow> InternalAgent \<Rightarrow> (flows \<times> InternalAgent) \<times> call_result" where
  "InternalAgentRegisteredState_InitError = ia_fail InternalAgentInitErrorState"

definition InternalAgentRegisteredState_ExitError ::
  "string \<Rightarrow> ns \<Rightarrow> flows \<Rightarrow> InternalAgent \<Rightarrow> (flows \<times> InternalAgent) \<times> call_result" where
  "InternalAgentRegisteredState_ExitError = ia_fail InternalAgentExitErrorState"

definition InternalAgentReadyState_ExitError ::
  "string \<Rightarrow> ns \<Rightarrow> flows \<Rightarrow> InternalAgent \<Rightarrow> (flows \<times> InternalAgent) \<times> call_result" where
  "InternalAgentReadyState_ExitError = ia_fail InternalAgentExitErrorState"

definition InternalAgentRunningState_ExitError ::
  "string \<Rightarrow> ns \<Rightarrow> flows \<Rightarrow> InternalAgent \<Rightarrow> (flows \<times> InternalAgent) \<times> call_result" where
  "InternalAgentRunningState_ExitError = ia_fail InternalAgentExitErrorState"


definition InternalAgentRunningState_Ready ::
  "tid \<Rightarrow> ns \<Rightarrow> ns \<Rightarrow> flows \<Rightarrow> InternalAgent \<Rightarrow> (flows \<times> InternalAgent) \<times> call_result" where
  "InternalAgentRunningState_Ready t now now' f a =
    ia_suspend t now' (f\<lparr>invokeFlow := fst (invoke_AgentReady (invokeFlow f))\<rparr>)
      (ia_setStateUnsafe InternalAgentReadyState now a)"

definition InternalAgentInitErrorState_InitError ::
  "flows \<Rightarrow> InternalAgent \<Rightarrow> (flows \<times> InternalAgent) \<times> call_result" where
  "InternalAgentInitErrorState_InitError f a = ((f, a), Returned None)"

definition InternalAgentExitErrorState_ExitError ::
  "flows \<Rightarrow> InternalAgent \<Rightarrow> (flows \<times> InternalAgent) \<times> call_result" where
  "InternalAgentExitErrorState_ExitError f a = ((f, a), Returned None)"

subsection \<open>Methods of the agent\<close>

definition InternalAgent_Register ::
  "Event list \<Rightarrow> ns \<Rightarrow> flows \<Rightarrow> InternalAgent \<Rightarrow> (flows \<times> InternalAgent) \<times> call_result" where
  "InternalAgent_Register es now f a =
    (case ia_currentState a of
       InternalAgentStartedState \<Rightarrow> InternalAgentStartedState_Register es now f a
     | _ \<Rightarrow> disallowEverything f a)"

definition InternalAgent_Ready ::
  "tid \<Rightarrow> ns \<Rightarrow> ns \<Rightarrow> flows \<Rightarrow> InternalAgent \<Rightarrow> (flows \<times> InternalAgent) \<times> call_result" where
  "InternalAgent_Ready t now now' f a =
    (case ia_currentState a of
       InternalAgentRegisteredState \<Rightarrow> InternalAgentRegisteredState_Ready t now now' f a
     | InternalAgentRunningState \<Rightarrow> InternalAgentRunningState_Ready t now now' f a
     | _ \<Rightarrow> disallowEverything f a)"

definition InternalAgent_InitError ::
  "string \<Rightarrow> ns \<Rightarrow> flows \<Rightarrow> InternalAgent \<Rightarrow> (flows \<times> InternalAgent) \<times> call_result" where
  "InternalAgent_InitError errorType now f a =
    (case ia_currentState a of
       InternalAgentRegisteredState \<Rightarrow> InternalAgentRegisteredState_InitError errorType now f a
     | InternalAgentInitErrorState \<Rightarrow> InternalAgentInitErrorState_InitError f a
     | _ \<Rightarrow> disallowEverything f a)"

definition InternalAgent_ExitError ::
  "string \<Rightarrow> ns \<Rightarrow> flows \<Rightarrow> InternalAgent \<Rightarrow> (flows \<times> InternalAgent) \<times> call_result" where
  "InternalAgent_ExitError errorType now f a =
    (case ia_currentState a of
       InternalAgentRegisteredState \<Rightarrow> InternalAgentRegisteredState_ExitError errorType now f a
     | InternalAgentReadyState \<Rightarrow> InternalAgentReadyState_ExitError errorType now f a
     | InternalAgentRunningState \<Rightarrow> InternalAgentRunningState_ExitError errorType now f a
     | InternalAgentExitErrorState \<Rightarrow> InternalAgentExitErrorState_ExitError f a
     | _ \<Rightarrow> disallowEverything f a)"

definition InternalAgent_resume ::
  "tid \<Rightarrow> ns \<Rightarrow> flows \<Rightarrow> InternalAgent \<Rightarrow> (flows \<times> InternalAgent) \<times> call_result" where
  "InternalAgent_resume t now' f a =
    (case mt_wake t (ia_ManagedThread a) of
       (mt, Some _) \<Rightarrow> (case ia_after_suspend now' (a\<lparr>ia_ManagedThread := mt\<rparr>) of (a', e) \<Rightarrow> ((f, a'), Returned e))
     | (mt, None) \<Rightarrow> ((f, a\<lparr>ia_ManagedThread := mt\<rparr>), Suspended))"

definition InternalAgent_GetAgentDescription :: "InternalAgent \<Rightarrow> ExtensionDescription" where
  "InternalAgent_GetAgentDescription a =
    \<lparr>xd_Name = ia_Name a, xd_ID = ia_ID a,
     xd_State = \<lparr>sd_Name = InternalAgentState_Name (ia_currentState a),
       sd_LastModified = go_quot (ia_stateLastModified a) 1000000, sd_ResponseTimeNs = 0\<rparr>,
     xd_ErrorType = ia_errorType a\<rparr>"

end
