(* ===== verification/Agents_Map.thy ===== *)
theory Agents_Map
  imports Agents
begin

text \<open>
  The two-way index of agents, \<open>internal/lambda/core/agentsmap.go\<close>: \<open>byName\<close> and \<open>byID\<close> hold
  pointers to the same agent objects.  A pointer is an index into the list of agent
  objects \<open>h\<close> that the registration service owns, because agents are mutated through it
  after they were inserted.  The source has the structure twice, for external and for
  internal agents; the index contract is proved once, in the locale \<open>agent_index\<close>.
\<close>

record ExternalAgentsMap =
  eam_byName :: "(string \<times> ref) list"
  eam_byID :: "(string \<times> ref) list"

definition NewExternalAgentsMap :: ExternalAgentsMap where
  "NewExternalAgentsMap = \<lparr>eam_byName = [], eam_byID = []\<rparr>"

definition ExternalAgentsMap_FindByName :: "string \<Rightarrow> ExternalAgentsMap \<Rightarrow> ref option" where
  "ExternalAgentsMap_FindByName name m = map_of (eam_byName m) name"

definition ExternalAgentsMap_FindByID :: "UUID \<Rightarrow> ExternalAgentsMap \<Rightarrow> ref option" where
  "ExternalAgentsMap_FindByID i m = map_of (eam_byID m) i"

definition ExternalAgentsMap_Insert ::
  "ExternalAgent list \<Rightarrow> ref \<Rightarrow> ExternalAgentsMap \<Rightarrow> ExternalAgentsMap \<times> go_error option" where
  "ExternalAgentsMap_Insert h a m =
    (if ExternalAgentsMap_FindByName (ea_Name (h ! a)) m \<noteq> None then (m, Some ErrAgentNameCollision)
     else if ExternalAgentsMap_FindByID (ea_ID (h ! a)) m \<noteq> None then (m, Some ErrAgentIDCollision)
     else (m\<lparr>eam_byName := go_map_set (ea_Name (h ! a)) a (eam_byName m),
             eam_byID := go_map_set (ea_ID (h ! a)) a (eam_byID m)\<rparr>, None))"

text \<open>\<open>Visit\<close> calls its callback on the agents in the iteration order of \<open>byName\<close>; the
  callback folds over an accumulator.\<close>

definition ExternalAgentsMap_Visit :: "(ref \<Rightarrow> 'b \<Rightarrow> 'b) \<Rightarrow> ExternalAgentsMap \<Rightarrow> 'b \<Rightarrow> 'b" where
  "ExternalAgentsMap_Visit cb m acc = fold cb (map snd (eam_byName m)) acc"

definition ExternalAgentsMap_Size :: "ExternalAgentsMap \<Rightarrow> nat" where
  "ExternalAgentsMap_Size m = length (eam_byName m)"

definition ExternalAgentsMap_AsArray :: "ExternalAgentsMap \<Rightarrow> ref list" where
  "ExternalAgentsMap_AsArray m = ExternalAgentsMap_Visit (\<lambda>a agents. agents @ [a]) m []"

definition ExternalAgentsMap_Clear :: "ExternalAgentsMap \<Rightarrow> ExternalAgentsMap" where
  "ExternalAgentsMap_Clear m = m\<lparr>eam_byName := [], eam_byID := []\<rparr>"

record InternalAgentsMap =
  iam_byName :: "(string \<times> ref) list"
  iam_byID :: "(string \<times> ref) list"

definition NewInternalAgentsMap :: InternalAgentsMap where
  "NewInternalAgentsMap = \<lparr>iam_byName = [], iam_byID = []\<rparr>"

definition InternalAgentsMap_FindByName :: "string \<Rightarrow> InternalAgentsMap \<Rightarrow> ref option" where
  "InternalAgentsMap_FindByName name m = map_of (iam_byName m) name"

definition InternalAgentsMap_FindByID :: "UUID \<Rightarrow> InternalAgentsMap \<Rightarrow> ref option" where
  "InternalAgentsMap_FindByID i m = map_of (iam_byID m) i"

definition InternalAgentsMap_Insert ::
  "InternalAgent list \<Rightarrow> ref \<Rightarrow> InternalAgentsMap \<Rightarrow> InternalAgentsMap \<times> go_error option" where
  "InternalAgentsMap_Insert h a m =
    (if InternalAgentsMap_FindByName (ia_Name (h ! a)) m \<noteq> None then (m, Some ErrAgentNameCollision)
     else if InternalAgentsMap_FindByID (ia_ID (h ! a)) m \<noteq> None then (m, Some ErrAgentIDCollision)
     else (m\<lparr>iam_byName := go_map_set (ia_Name (h ! a)) a (iam_byName m),
             iam_byID := go_map_set (ia_ID (h ! a)) a (iam_byID m)\<rparr>, None))"

definition InternalAgentsMap_Visit :: "(ref \<Rightarrow> 'b \<Rightarrow> 'b) \<Rightarrow> InternalAgentsMap \<Rightarrow> 'b \<Rightarrow> 'b" where
  "InternalAgentsMap_Visit cb m acc = fold cb (map snd (iam_byName m)) acc"

definition InternalAgentsMap_Size :: "InternalAgentsMap \<Rightarrow> nat" where
  "InternalAgentsMap_Size m = length (iam_byName m)"

definition InternalAgentsMap_AsArray :: "InternalAgentsMap \<Rightarrow> ref list" where
  "InternalAgentsMap_AsArray m = InternalAgentsMap_Visit (\<lambda>a agents. agents @ [a]) m []"

definition InternalAgentsMap_Clear :: "InternalAgentsMap \<Rightarrow> InternalAgentsMap" where
  "InternalAgentsMap_Clear m = m\<lparr>iam_byName := [], iam_byID := []\<rparr>"

section \<open>The contract of the index\<close>

locale agent_index =
  fixes nm :: "'a \<Rightarrow> string"
    and ident :: "'a \<Rightarrow> string"
    and byName :: "'m \<Rightarrow> (string \<times> ref) list"
    and byID :: "'m \<Rightarrow> (string \<times> ref) list"
    and insert :: "'a list \<Rightarrow> ref \<Rightarrow> 'm \<Rightarrow> 'm \<times> go_error option"
  assumes insert_name_taken:
      "map_of (byName m) (nm (h ! a)) \<noteq> None \<Longrightarrow> insert h a m = (m, Some ErrAgentNameCollision)"
    and insert_id_taken:
      "map_of (byName m) (nm (h ! a)) = None \<Longrightarrow> map_of (byID m) (ident (h ! a)) \<noteq> None \<Longrightarrow>
        insert h a m = (m, Some ErrAgentIDCollision)"
    and insert_free:
      "map_of (byName m) (nm (h ! a)) = None \<Longrightarrow> map_of (byID m) (ident (h ! a)) = None \<Longrightarrow>
        snd (insert h a m) = None \<and>
        byName (fst (insert h a m)) = go_map_set (nm (h ! a)) a (byName m) \<and>
        byID (fst (insert h a m)) = go_map_set (ident (h ! a)) a (byID m)"
begin

text \<open>Both maps index the same objects, each under its own current name or identifier.\<close>

definition index_ok :: "'a list \<Rightarrow> 'm \<Rightarrow> bool" where
  "index_ok h m = (go_map_ok (byName m) \<and> go_map_ok (byID m) \<and>
    (\<forall>(n, a) \<in> set (byName m). a < length h \<and> nm (h ! a) = n \<and> (ident (h ! a), a) \<in> set (byID m)) \<and>
    (\<forall>(i, a) \<in> set (byID m). a < length h \<and> ident (h ! a) = i \<and> (nm (h ! a), a) \<in> set (byName m)))"

lemma insert_cases:
  "insert h a m = (m, Some ErrAgentNameCollision) \<or> insert h a m = (m, Some ErrAgentIDCollision) \<or>
    (map_of (byName m) (nm (h ! a)) = None \<and> map_of (byID m) (ident (h ! a)) = None \<and>
     snd (insert h a m) = None \<and>
     byName (fst (insert h a m)) = go_map_set (nm (h ! a)) a (byName m) \<and>
     byID (fst (insert h a m)) = go_map_set (ident (h ! a)) a (byID m))"
proof (cases "map_of (byName m) (nm (h ! a)) = None")
  case True
  then show ?thesis
    using insert_id_taken [of m h a] insert_free [of m h a]
    by (cases "map_of (byID m) (ident (h ! a)) = None") simp_all
next
  case False
  then show ?thesis using insert_name_taken [of m h a] by simp
qed

lemma index_ok_insert:
  assumes ok: "index_ok h m" and a: "a < length h"
  shows "index_ok h (fst (insert h a m))"
  using insert_cases [of h a m]
proof (elim disjE)
  assume free: "map_of (byName m) (nm (h ! a)) = None \<and> map_of (byID m) (ident (h ! a)) = None \<and>
     snd (insert h a m) = None \<and>
     byName (fst (insert h a m)) = go_map_set (nm (h ! a)) a (byName m) \<and>
     byID (fst (insert h a m)) = go_map_set (ident (h ! a)) a (byID m)"
  then have eqs: "byName (fst (insert h a m)) = byName m @ [(nm (h ! a), a)]"
    "byID (fst (insert h a m)) = byID m @ [(ident (h ! a), a)]"
    by (simp_all add: go_map_set_fresh map_of_None_iff_mem)
  have fresh: "nm (h ! a) \<notin> fst ` set (byName m)" "ident (h ! a) \<notin> fst ` set (byID m)"
    using free by (simp_all add: map_of_None_iff_mem)
  show ?thesis
    using ok a fresh unfolding index_ok_def eqs go_map_ok_def by auto
qed (use ok in auto)

lemma index_ok_frame:
  assumes "index_ok h m" "length h \<le> length h'"
    "\<And>a. a < length h \<Longrightarrow> nm (h' ! a) = nm (h ! a) \<and> ident (h' ! a) = ident (h ! a)"
  shows "index_ok h' m"
  using assms unfolding index_ok_def by (fastforce split: prod.splits)

lemma index_ok_empty: "byName m = [] \<Longrightarrow> byID m = [] \<Longrightarrow> index_ok h m"
  by (simp add: index_ok_def)

lemma index_agree:
  assumes ok: "index_ok h m" and a: "a < length h"
  shows "map_of (byName m) (nm (h ! a)) = Some a \<longleftrightarrow> map_of (byID m) (ident (h ! a)) = Some a"
proof -
  have "go_map_ok (byName m)" "go_map_ok (byID m)" using ok by (simp_all add: index_ok_def)
  then show ?thesis using ok by (auto simp: map_of_Some_iff_mem index_ok_def)
qed

lemma lookup_name_object:
  assumes "index_ok h m" "map_of (byName m) n = Some a"
  shows "a < length h \<and> nm (h ! a) = n"
  using assms map_of_SomeD [OF assms(2)] by (auto simp: index_ok_def)

lemma lookup_id_object:
  assumes "index_ok h m" "map_of (byID m) i = Some a"
  shows "a < length h \<and> ident (h ! a) = i"
  using assms map_of_SomeD [OF assms(2)] by (auto simp: index_ok_def)

lemma lookup_after_insert:
  assumes "snd (insert h a m) = None"
  shows "map_of (byName (fst (insert h a m))) n = (if n = nm (h ! a) then Some a else map_of (byName m) n)
    \<and> map_of (byID (fst (insert h a m))) i = (if i = ident (h ! a) then Some a else map_of (byID m) i)
    \<and> length (byName (fst (insert h a m))) = Suc (length (byName m))"
  using assms insert_cases [of h a m] by (auto simp: length_go_map_set map_of_None_iff_mem)

end

interpretation eam: agent_index ea_Name ea_ID eam_byName eam_byID ExternalAgentsMap_Insert
  by unfold_locales
    (simp_all add: ExternalAgentsMap_Insert_def ExternalAgentsMap_FindByName_def ExternalAgentsMap_FindByID_def)

interpretation iam: agent_index ia_Name ia_ID iam_byName iam_byID InternalAgentsMap_Insert
  by unfold_locales
    (simp_all add: InternalAgentsMap_Insert_def InternalAgentsMap_FindByName_def InternalAgentsMap_FindByID_def)

lemma fold_snoc: "fold (\<lambda>a agents. agents @ [a]) xs acc = acc @ xs"
  by (induction xs arbitrary: acc) auto

lemma fold_snoc_filter: "fold (\<lambda>a agents. if P a then agents @ [a] else agents) xs acc = acc @ filter P xs"
  by (induction xs arbitrary: acc) auto

lemma fold_count: "fold (\<lambda>a n. n + 1) xs (k :: int) = k + int (length xs)"
  by (induction xs arbitrary: k) auto

lemma AsArray_eq:
  "ExternalAgentsMap_AsArray m = map snd (eam_byName m)" "InternalAgentsMap_AsArray m' = map snd (iam_byName m')"
  by (simp_all add: ExternalAgentsMap_AsArray_def ExternalAgentsMap_Visit_def
      InternalAgentsMap_AsArray_def InternalAgentsMap_Visit_def fold_snoc)

end
