(* ===== verification/Agent_Machines.thy ===== *)
theory Agent_Machines
  imports Agents
begin

text \<open>
  What the state machines of external and internal agents have in common, as the
  locale \<open>agent_machine\<close>: final states are never left and keep the error reported first,
  at most one request of an agent is suspended at a time, and an agent counts at most
  once towards the init barrier.  Both kinds of agents are interpretations of it.
\<close>

definition suspended :: "'k ManagedThread \<Rightarrow> nat" where
  "suspended mt = length (mt_parked mt) + length (mt_woken mt)"

lemma suspended_simps [simp]:
  "suspended NewManagedThread = 0"
  "suspended (mt\<lparr>operatorConditionValue := b\<rparr>) = suspended mt"
  "suspended (mt\<lparr>mt_parked := mt_parked mt @ [p]\<rparr>) = Suc (suspended mt)"
  by (simp_all add: suspended_def NewManagedThread_def)

lemma suspended_SuspendUnsafe:
  "SuspendUnsafe t k mt = (mt', b) \<Longrightarrow> suspended mt' = (if b then suspended mt else Suc (suspended mt))"
  by (auto simp: SuspendUnsafe_def split: if_splits)

lemma suspended_Release [simp]: "suspended (Release pick mt) = suspended mt"
proof (cases "mt_parked mt = []")
  case False
  then have "Suc (pick mod length (mt_parked mt)) \<le> length (mt_parked mt)" by (simp add: Suc_leI)
  then show ?thesis using False
    by (simp add: suspended_def Release_def mt_signal_def Let_def min_absorb2)
qed (simp add: suspended_def Release_def mt_signal_def)

lemma suspended_mt_wake:
  assumes "mt_wake t mt = (mt', r)"
  shows "suspended mt' \<le> suspended mt \<and> (r \<noteq> None \<longrightarrow> Suc (suspended mt') = suspended mt)"
proof (cases "map_of (mt_woken mt) t")
  case None
  then show ?thesis using assms by (auto simp: mt_wake_def)
next
  case (Some k)
  then have mem: "(t, k) \<in> set (mt_woken mt)" by (rule map_of_SomeD)
  then have "Suc (suspended (mt\<lparr>mt_woken := remove1 (t, k) (mt_woken mt)\<rparr>)) = suspended mt"
    using length_pos_if_in_set [OF mem] by (simp add: suspended_def length_remove1)
  then show ?thesis using assms
    by (auto simp: mt_wake_def SuspendUnsafe_def Some suspended_def split: if_splits)
qed

lemma suspended_pos_wake: "mt_wake t mt = (mt', Some k) \<Longrightarrow> 0 < suspended mt"
  using suspended_mt_wake [of t mt mt' "Some k"] by auto

locale agent_machine =
  fixes exec :: "'q \<Rightarrow> ns \<Rightarrow> ns \<Rightarrow> flows \<Rightarrow> 'a \<Rightarrow> (flows \<times> 'a) \<times> call_result"
    and state :: "'a \<Rightarrow> 's"
    and errorType :: "'a \<Rightarrow> string"
    and thread :: "'a \<Rightarrow> unit ManagedThread"
    and final :: "'s \<Rightarrow> bool"
    and initial :: "'s \<Rightarrow> bool"
    and idle :: "'s \<Rightarrow> bool"
  assumes final_exec: "final (state a) \<Longrightarrow> exec q now now' f a = ((f', a'), c) \<Longrightarrow>
      state a' = state a \<and> errorType a' = errorType a \<and> f' = f"
    and suspended_exec: "exec q now now' f a = ((f', a'), c) \<Longrightarrow>
      suspended (thread a) \<le> (if idle (state a) then 0 else 1) \<Longrightarrow>
      suspended (thread a') \<le> (if idle (state a') then 0 else 1)"
    and initial_left: "exec q now now' f a = ((f', a'), c) \<Longrightarrow> \<not> initial (state a) \<Longrightarrow> \<not> initial (state a')"
    and arrival_leaves_initial: "exec q now now' f a = ((f', a'), c) \<Longrightarrow>
      init_agentReadyGate (initFlow f') \<noteq> init_agentReadyGate (initFlow f) \<Longrightarrow>
      initial (state a) \<and> \<not> initial (state a')"
begin

fun run :: "('q \<times> ns \<times> ns \<times> flows) list \<Rightarrow> 'a \<Rightarrow> 'a" where
  "run [] a = a"
| "run ((q, now, now', f) # cs) a = run cs (snd (fst (exec q now now' f a)))"

fun arrivals :: "('q \<times> ns \<times> ns \<times> flows) list \<Rightarrow> 'a \<Rightarrow> nat" where
  "arrivals [] a = 0"
| "arrivals ((q, now, now', f) # cs) a =
    (if init_agentReadyGate (initFlow (fst (fst (exec q now now' f a)))) \<noteq> init_agentReadyGate (initFlow f)
     then 1 else 0) + arrivals cs (snd (fst (exec q now now' f a)))"

lemma final_run: "final (state a) \<Longrightarrow> state (run cs a) = state a \<and> errorType (run cs a) = errorType a"
proof (induction cs a rule: run.induct)
  case (2 q now now' f cs a)
  obtain f' a' c where e: "exec q now now' f a = ((f', a'), c)"
    by (cases "exec q now now' f a") auto
  show ?case using final_exec [OF 2(2) e] 2 by (simp add: e)
qed simp

lemma suspended_run:
  "suspended (thread a) \<le> (if idle (state a) then 0 else 1) \<Longrightarrow>
    suspended (thread (run cs a)) \<le> (if idle (state (run cs a)) then 0 else 1)"
proof (induction cs a rule: run.induct)
  case (2 q now now' f cs a)
  obtain f' a' c where e: "exec q now now' f a = ((f', a'), c)"
    by (cases "exec q now now' f a") auto
  show ?case using 2(1) suspended_exec [OF e 2(2)] by (simp add: e)
qed simp

lemma arrivals_bound: "arrivals cs a \<le> (if initial (state a) then 1 else 0)"
proof (induction cs a rule: arrivals.induct)
  case (2 q now now' f cs a)
  obtain f' a' c where e: "exec q now now' f a = ((f', a'), c)"
    by (cases "exec q now now' f a") auto
  show ?case using 2 initial_left [OF e] arrival_leaves_initial [OF e] by (auto simp: e split: if_splits)
qed simp

end

section \<open>External agents\<close>

datatype ea_op =
    EARegister "Event list" | EAReady tid | EAInitError string | EAExitError string
  | EAShutdownFailed | EAExited | EALaunchError go_error | EARelease nat | EAResume tid

fun ea_exec :: "ea_op \<Rightarrow> ns \<Rightarrow> ns \<Rightarrow> flows \<Rightarrow> ExternalAgent \<Rightarrow> (flows \<times> ExternalAgent) \<times> call_result" where
  "ea_exec (EARegister es) now now' f a = ExternalAgent_Register es now f a"
| "ea_exec (EAReady t) now now' f a = ExternalAgent_Ready t now now' f a"
| "ea_exec (EAInitError er) now now' f a = ExternalAgent_InitError er now f a"
| "ea_exec (EAExitError er) now now' f a = ExternalAgent_ExitError er now f a"
| "ea_exec EAShutdownFailed now now' f a = ExternalAgent_ShutdownFailed now f a"
| "ea_exec EAExited now now' f a = ExternalAgent_Exited now f a"
| "ea_exec (EALaunchError e) now now' f a = ExternalAgent_LaunchError e now f a"
| "ea_exec (EARelease pick) now now' f a = ((f, ExternalAgent_Release pick a), Returned None)"
| "ea_exec (EAResume t) now now' f a = ExternalAgent_resume t now' f a"

definition ea_final :: "ExternalAgentState \<Rightarrow> bool" where
  "ea_final st = (st \<in> {ExternalAgentInitErrorState, ExternalAgentExitErrorState,
    ExternalAgentShutdownFailedState, ExternalAgentExitedState, ExternalAgentLaunchErrorState})"

definition ea_initial :: "ExternalAgentState \<Rightarrow> bool" where
  "ea_initial st = (st \<in> {ExternalAgentStartedState, ExternalAgentRegisteredState})"

definition ea_idle :: "ExternalAgentState \<Rightarrow> bool" where
  "ea_idle st = (ea_initial st \<or> st = ExternalAgentRunningState)"

lemmas ea_state_sets = ea_final_def ea_initial_def ea_idle_def

lemmas ea_method_defs =
  ExternalAgent_Register_def ExternalAgent_Ready_def ExternalAgent_InitError_def ExternalAgent_ExitError_def
  ExternalAgent_ShutdownFailed_def ExternalAgent_Exited_def ExternalAgent_LaunchError_def
  ExternalAgentStartedState_Register_def ExternalAgentStartedState_LaunchError_def
  ExternalAgentRegisteredState_Ready_def ExternalAgentRegisteredState_InitError_def
  ExternalAgentRegisteredState_ExitError_def ExternalAgentReadyState_ExitError_def
  ExternalAgentRunningState_ExitError_def ExternalAgentRunningState_Ready_def
  ExternalAgentRunningState_ShutdownFailed_def ExternalAgentRunningState_Exited_def
  ExternalAgentInitErrorState_InitError_def ExternalAgentExitErrorState_ExitError_def
  disallowEverything_def ea_fail_def

lemma ea_setStateUnsafe_simps [simp]:
  "ea_currentState (ea_setStateUnsafe st now a) = st"
  "ea_ManagedThread (ea_setStateUnsafe st now a) = ea_ManagedThread a"
  "ea_errorType (ea_setStateUnsafe st now a) = ea_errorType a"
  "ea_events (ea_setStateUnsafe st now a) = ea_events a"
  "ea_Name (ea_setStateUnsafe st now a) = ea_Name a"
  "ea_ID (ea_setStateUnsafe st now a) = ea_ID a"
  by (simp_all add: ea_setStateUnsafe_def)

lemma ea_subscribe_all_frame:
  "ea_subscribe_all es a = (a', e) \<Longrightarrow> ea_currentState a' = ea_currentState a \<and>
    ea_ManagedThread a' = ea_ManagedThread a \<and> ea_errorType a' = ea_errorType a \<and>
    ea_Name a' = ea_Name a \<and> ea_ID a' = ea_ID a"
  by (induction es a rule: ea_subscribe_all.induct)
    (auto simp: ea_subscribeUnsafe_def split: option.splits)

lemma ea_suspend_cases:
  assumes "ea_suspend t now' f a = ((f', a'), c)"
  shows "f' = f \<and> ea_errorType a' = ea_errorType a \<and>
    (if ea_currentState a = ExternalAgentReadyState
     then (ea_currentState a' = ExternalAgentRunningState \<and> suspended (ea_ManagedThread a') = suspended (ea_ManagedThread a)) \<or>
          (ea_currentState a' = ExternalAgentReadyState \<and> suspended (ea_ManagedThread a') = Suc (suspended (ea_ManagedThread a)))
     else ea_currentState a' = ea_currentState a)"
  using assms
  by (auto simp: ea_suspend_def ea_after_suspend_def SuspendUnsafe_def split: if_splits)

lemma ea_resume_cases:
  assumes "ExternalAgent_resume t now' f a = ((f', a'), c)"
  shows "f' = f \<and> ea_errorType a' = ea_errorType a \<and> suspended (ea_ManagedThread a') \<le> suspended (ea_ManagedThread a) \<and>
    (ea_currentState a' = ea_currentState a \<or>
     ea_currentState a = ExternalAgentReadyState \<and> ea_currentState a' = ExternalAgentRunningState \<and>
     Suc (suspended (ea_ManagedThread a')) = suspended (ea_ManagedThread a))"
proof -
  obtain mt r where w: "mt_wake t (ea_ManagedThread a) = (mt, r)" by fastforce
  show ?thesis
    using assms suspended_mt_wake [OF w]
    by (cases r) (auto simp: ExternalAgent_resume_def w ea_after_suspend_def split: if_splits)
qed

lemma ea_final_exec:
  assumes "ea_final (ea_currentState a)" "ea_exec q now now' f a = ((f', a'), c)"
  shows "ea_currentState a' = ea_currentState a \<and> ea_errorType a' = ea_errorType a \<and> f' = f"
proof (cases q)
  case (EAResume t)
  then show ?thesis using assms ea_resume_cases by (fastforce simp: ea_final_def)
qed (use assms in \<open>auto simp: ea_final_def ea_method_defs ExternalAgent_Release_def\<close>)

lemma init_gate_registered:
  "init_agentReadyGate (fst (ExternalAgentRegistered i)) = init_agentReadyGate i"
  by (simp add: ExternalAgentRegistered_def case_prod_beta)

lemma ea_Ready_exec:
  assumes "ExternalAgent_Ready t now now' f a = ((f', a'), c)"
    "suspended (ea_ManagedThread a) \<le> (if ea_idle (ea_currentState a) then 0 else 1)"
  shows "suspended (ea_ManagedThread a') \<le> (if ea_idle (ea_currentState a') then 0 else 1)"
  using assms
  by (auto simp: ExternalAgent_Ready_def ExternalAgentRegisteredState_Ready_def
      ExternalAgentRunningState_Ready_def disallowEverything_def ea_idle_def ea_initial_def
      split: ExternalAgentState.splits if_splits dest!: ea_suspend_cases)

lemma ea_suspended_exec:
  assumes "ea_exec q now now' f a = ((f', a'), c)"
    "suspended (ea_ManagedThread a) \<le> (if ea_idle (ea_currentState a) then 0 else 1)"
  shows "suspended (ea_ManagedThread a') \<le> (if ea_idle (ea_currentState a') then 0 else 1)"
proof (cases q)
  case (EARegister es)
  then show ?thesis using assms
    by (auto simp: ea_method_defs ea_idle_def ea_initial_def
        split: ExternalAgentState.splits prod.splits option.splits if_splits dest!: ea_subscribe_all_frame)
next
  case (EAReady t)
  then show ?thesis using assms ea_Ready_exec by simp
next
  case (EAResume t)
  then show ?thesis using assms ea_resume_cases [of t now' f a f' a' c]
    by (auto simp: ea_idle_def ea_initial_def split: if_splits)
qed (use assms in \<open>auto simp: ea_method_defs ExternalAgent_Release_def ea_idle_def ea_initial_def
      split: ExternalAgentState.splits if_splits\<close>)

lemma ea_initial_exec:
  assumes "ea_exec q now now' f a = ((f', a'), c)"
  shows "(\<not> ea_initial (ea_currentState a) \<longrightarrow> \<not> ea_initial (ea_currentState a')) \<and>
    (init_agentReadyGate (initFlow f') \<noteq> init_agentReadyGate (initFlow f) \<longrightarrow>
      ea_initial (ea_currentState a) \<and> \<not> ea_initial (ea_currentState a'))"
proof (cases q)
  case (EARegister es)
  then show ?thesis using assms
    by (auto simp: ea_method_defs ea_initial_def init_gate_registered
        split: ExternalAgentState.splits prod.splits option.splits dest!: ea_subscribe_all_frame)
next
  case (EAReady t)
  then show ?thesis using assms
    by (auto simp: ea_method_defs ea_initial_def
        split: ExternalAgentState.splits dest!: ea_suspend_cases)
next
  case (EAResume t)
  then show ?thesis using assms ea_resume_cases [of t now' f a f' a' c]
    by (auto simp: ea_initial_def)
qed (use assms in \<open>auto simp: ea_method_defs ExternalAgent_Release_def ea_initial_def
      split: ExternalAgentState.splits\<close>)

interpretation extn: agent_machine ea_exec ea_currentState ea_errorType ea_ManagedThread
  ea_final ea_initial ea_idle
  using ea_final_exec ea_suspended_exec ea_initial_exec by unfold_locales metis+

section \<open>Internal agents\<close>

datatype ia_op =
    IARegister "Event list" | IAReady tid | IAInitError string | IAExitError string
  | IARelease nat | IAResume tid

fun ia_exec :: "ia_op \<Rightarrow> ns \<Rightarrow> ns \<Rightarrow> flows \<Rightarrow> InternalAgent \<Rightarrow> (flows \<times> InternalAgent) \<times> call_result" where
  "ia_exec (IARegister es) now now' f a = InternalAgent_Register es now f a"
| "ia_exec (IAReady t) now now' f a = InternalAgent_Ready t now now' f a"
| "ia_exec (IAInitError er) now now' f a = InternalAgent_InitError er now f a"
| "ia_exec (IAExitError er) now now' f a = InternalAgent_ExitError er now f a"
| "ia_exec (IARelease pick) now now' f a = ((f, InternalAgent_Release pick a), Returned None)"
| "ia_exec (IAResume t) now now' f a = InternalAgent_resume t now' f a"

definition ia_final :: "InternalAgentState \<Rightarrow> bool" where
  "ia_final st = (st \<in> {InternalAgentInitErrorState, InternalAgentExitErrorState})"

definition ia_initial :: "InternalAgentState \<Rightarrow> bool" where
  "ia_initial st = (st \<in> {InternalAgentStartedState, InternalAgentRegisteredState})"

definition ia_idle :: "InternalAgentState \<Rightarrow> bool" where
  "ia_idle st = (ia_initial st \<or> st = InternalAgentRunningState)"

lemmas ia_method_defs =
  InternalAgent_Register_def InternalAgent_Ready_def InternalAgent_InitError_def InternalAgent_ExitError_def
  InternalAgentStartedState_Register_def InternalAgentRegisteredState_Ready_def
  InternalAgentRegisteredState_InitError_def InternalAgentRegisteredState_ExitError_def
  InternalAgentReadyState_ExitError_def InternalAgentRunningState_ExitError_def
  InternalAgentRunningState_Ready_def InternalAgentInitErrorState_InitError_def
  InternalAgentExitErrorState_ExitError_def disallowEverything_def ia_fail_def

lemma ia_setStateUnsafe_simps [simp]:
  "ia_currentState (ia_setStateUnsafe st now a) = st"
  "ia_ManagedThread (ia_setStateUnsafe st now a) = ia_ManagedThread a"
  "ia_errorType (ia_setStateUnsafe st now a) = ia_errorType a"
  "ia_events (ia_setStateUnsafe st now a) = ia_events a"
  "ia_Name (ia_setStateUnsafe st now a) = ia_Name a"
  "ia_ID (ia_setStateUnsafe st now a) = ia_ID a"
  by (simp_all add: ia_setStateUnsafe_def)

lemma ia_subscribe_all_frame:
  "ia_subscribe_all es a = (a', e) \<Longrightarrow> ia_currentState a' = ia_currentState a \<and>
    ia_ManagedThread a' = ia_ManagedThread a \<and> ia_errorType a' = ia_errorType a \<and>
    ia_Name a' = ia_Name a \<and> ia_ID a' = ia_ID a"
  by (induction es a rule: ia_subscribe_all.induct)
    (auto simp: ia_subscribeUnsafe_def split: option.splits)

lemma ia_suspend_cases:
  assumes "ia_suspend t now' f a = ((f', a'), c)"
  shows "f' = f \<and> ia_errorType a' = ia_errorType a \<and>
    (if ia_currentState a = InternalAgentReadyState
     then (ia_currentState a' = InternalAgentRunningState \<and> suspended (ia_ManagedThread a') = suspended (ia_ManagedThread a)) \<or>
          (ia_currentState a' = InternalAgentReadyState \<and> suspended (ia_ManagedThread a') = Suc (suspended (ia_ManagedThread a)))
     else ia_currentState a' = ia_currentState a)"
  using assms
  by (auto simp: ia_suspend_def ia_after_suspend_def SuspendUnsafe_def split: if_splits)

lemma ia_resume_cases:
  assumes "InternalAgent_resume t now' f a = ((f', a'), c)"
  shows "f' = f \<and> ia_errorType a' = ia_errorType a \<and> suspended (ia_ManagedThread a') \<le> suspended (ia_ManagedThread a) \<and>
    (ia_currentState a' = ia_currentState a \<or>
     ia_currentState a = InternalAgentReadyState \<and> ia_currentState a' = InternalAgentRunningState \<and>
     Suc (suspended (ia_ManagedThread a')) = suspended (ia_ManagedThread a))"
proof -
  obtain mt r where w: "mt_wake t (ia_ManagedThread a) = (mt, r)" by fastforce
  show ?thesis
    using assms suspended_mt_wake [OF w]
    by (cases r) (auto simp: InternalAgent_resume_def w ia_after_suspend_def split: if_splits)
qed

lemma ia_final_exec:
  assumes "ia_final (ia_currentState a)" "ia_exec q now now' f a = ((f', a'), c)"
  shows "ia_currentState a' = ia_currentState a \<and> ia_errorType a' = ia_errorType a \<and> f' = f"
proof (cases q)
  case (IAResume t)
  then show ?thesis using assms ia_resume_cases by (fastforce simp: ia_final_def)
qed (use assms in \<open>auto simp: ia_final_def ia_method_defs InternalAgent_Release_def\<close>)

lemma ia_suspended_exec:
  assumes "ia_exec q now now' f a = ((f', a'), c)"
    "suspended (ia_ManagedThread a) \<le> (if ia_idle (ia_currentState a) then 0 else 1)"
  shows "suspended (ia_ManagedThread a') \<le> (if ia_idle (ia_currentState a') then 0 else 1)"
proof (cases q)
  case (IARegister es)
  then show ?thesis using assms
    by (auto simp: ia_method_defs ia_idle_def ia_initial_def
        split: InternalAgentState.splits prod.splits option.splits if_splits dest!: ia_subscribe_all_frame)
next
  case (IAReady t)
  then show ?thesis using assms
    by (auto simp: ia_method_defs ia_idle_def ia_initial_def
        split: InternalAgentState.splits if_splits dest!: ia_suspend_cases)
next
  case (IAResume t)
  then show ?thesis using assms ia_resume_cases [of t now' f a f' a' c]
    by (auto simp: ia_idle_def ia_initial_def split: if_splits)
qed (use assms in \<open>auto simp: ia_method_defs InternalAgent_Release_def ia_idle_def ia_initial_def
      split: InternalAgentState.splits if_splits\<close>)

lemma ia_initial_exec:
  assumes "ia_exec q now now' f a = ((f', a'), c)"
  shows "(\<not> ia_initial (ia_currentState a) \<longrightarrow> \<not> ia_initial (ia_currentState a')) \<and>
    (init_agentReadyGate (initFlow f') \<noteq> init_agentReadyGate (initFlow f) \<longrightarrow>
      ia_initial (ia_currentState a) \<and> \<not> ia_initial (ia_currentState a'))"
proof (cases q)
  case (IARegister es)
  then show ?thesis using assms
    by (auto simp: ia_method_defs ia_initial_def
        split: InternalAgentState.splits prod.splits option.splits dest!: ia_subscribe_all_frame)
next
  case (IAReady t)
  then show ?thesis using assms
    by (auto simp: ia_method_defs ia_initial_def
        split: InternalAgentState.splits dest!: ia_suspend_cases)
next
  case (IAResume t)
  then show ?thesis using assms ia_resume_cases [of t now' f a f' a' c]
    by (auto simp: ia_initial_def)
qed (use assms in \<open>auto simp: ia_method_defs InternalAgent_Release_def ia_initial_def
      split: InternalAgentState.splits\<close>)

interpretation intn: agent_machine ia_exec ia_currentState ia_errorType ia_ManagedThread
  ia_final ia_initial ia_idle
  using ia_final_exec ia_suspended_exec ia_initial_exec by unfold_locales metis+

section \<open>Properties of runs of agents\<close>

type_synonym 'q agent_call = "'q \<times> ns \<times> ns \<times> flows"

fun ea_run :: "ea_op agent_call list \<Rightarrow> ExternalAgent \<Rightarrow> ExternalAgent" where
  "ea_run [] a = a"
| "ea_run ((q, now, now', f) # cs) a = ea_run cs (snd (fst (ea_exec q now now' f a)))"

fun ia_run :: "ia_op agent_call list \<Rightarrow> InternalAgent \<Rightarrow> InternalAgent" where
  "ia_run [] a = a"
| "ia_run ((q, now, now', f) # cs) a = ia_run cs (snd (fst (ia_exec q now now' f a)))"

fun ea_arrivals :: "ea_op agent_call list \<Rightarrow> ExternalAgent \<Rightarrow> nat" where
  "ea_arrivals [] a = 0"
| "ea_arrivals ((q, now, now', f) # cs) a =
    (if init_agentReadyGate (initFlow (fst (fst (ea_exec q now now' f a)))) \<noteq> init_agentReadyGate (initFlow f)
     then 1 else 0) + ea_arrivals cs (snd (fst (ea_exec q now now' f a)))"

fun ia_arrivals :: "ia_op agent_call list \<Rightarrow> InternalAgent \<Rightarrow> nat" where
  "ia_arrivals [] a = 0"
| "ia_arrivals ((q, now, now', f) # cs) a =
    (if init_agentReadyGate (initFlow (fst (fst (ia_exec q now now' f a)))) \<noteq> init_agentReadyGate (initFlow f)
     then 1 else 0) + ia_arrivals cs (snd (fst (ia_exec q now now' f a)))"

lemma ea_run_eq: "ea_run cs a = extn.run cs a"
  by (induction cs a rule: ea_run.induct) simp_all

lemma ia_run_eq: "ia_run cs a = intn.run cs a"
  by (induction cs a rule: ia_run.induct) simp_all

lemma ea_arrivals_eq: "ea_arrivals cs a = extn.arrivals cs a"
  by (induction cs a rule: ea_run.induct) simp_all

lemma ia_arrivals_eq: "ia_arrivals cs a = intn.arrivals cs a"
  by (induction cs a rule: ia_run.induct) simp_all

lemmas runs_eq = ea_run_eq ia_run_eq ea_arrivals_eq ia_arrivals_eq

text \<open>An agent that has failed or exited stays so and the error it reported first is
  kept, whatever requests, releases and wake-ups follow.\<close>

theorem agent_first_error_kept:
  "(ea_final (ea_currentState a) \<longrightarrow>
     ea_currentState (ea_run cs a) = ea_currentState a \<and> ea_errorType (ea_run cs a) = ea_errorType a) \<and>
   (ia_final (ia_currentState b) \<longrightarrow>
     ia_currentState (ia_run ds b) = ia_currentState b \<and> ia_errorType (ia_run ds b) = ia_errorType b)"
  using extn.final_run [of a cs] intn.final_run [of b ds] by (simp add: runs_eq)

definition failed_agent :: ExternalAgent where
  "failed_agent = ea_run [(EARegister [InvokeEvent], 1, 1, new_flows), (EAExitError ''boom'', 2, 2, new_flows)]
    (NewExternalAgent ''ext'' ''id'' 0)"

definition failed_internal_agent :: InternalAgent where
  "failed_internal_agent = ia_run [(IARegister [InvokeEvent], 1, 1, new_flows), (IAInitError ''bang'', 2, 2, new_flows)]
    (NewInternalAgent ''int'' ''id'' 0)"

theorem agent_first_error_kept_witness:
  "ea_errorType (ea_run [(EAExitError ''later'', 3, 3, new_flows)] failed_agent) = ''boom'' \<and>
   ia_errorType (ia_run [(IAInitError ''later'', 3, 3, new_flows)] failed_internal_agent) = ''bang''"
proof -
  have "ea_final (ea_currentState failed_agent)" "ea_errorType failed_agent = ''boom''"
    by (simp_all add: failed_agent_def ea_method_defs NewExternalAgent_def ea_subscribeUnsafe_def
        ValidateExternalAgentEvent_def ea_setStateUnsafe_def ea_final_def)
  moreover have "ia_final (ia_currentState failed_internal_agent)"
    "ia_errorType failed_internal_agent = ''bang''"
    by (simp_all add: failed_internal_agent_def ia_method_defs NewInternalAgent_def ia_subscribeUnsafe_def
        ValidateInternalAgentEvent_def ia_setStateUnsafe_def ia_final_def)
  ultimately show ?thesis
    using agent_first_error_kept [of failed_agent "[(EAExitError ''later'', 3, 3, new_flows)]"
        failed_internal_agent "[(IAInitError ''later'', 3, 3, new_flows)]"] by simp
qed

text \<open>An agent never has more than one suspended request (a second \<open>/next\<close> is refused while the
  first waits), it has none while it is being initialized or is running, and it
  arrives at most once at the agents' barrier of the init phase.\<close>

theorem agent_one_request_one_arrival:
  "suspended (ea_ManagedThread (ea_run cs (NewExternalAgent n i t0)))
      \<le> (if ea_idle (ea_currentState (ea_run cs (NewExternalAgent n i t0))) then 0 else 1) \<and>
   ea_arrivals cs (NewExternalAgent n i t0) \<le> 1 \<and>
   suspended (ia_ManagedThread (ia_run ds (NewInternalAgent n i t0)))
      \<le> (if ia_idle (ia_currentState (ia_run ds (NewInternalAgent n i t0))) then 0 else 1) \<and>
   ia_arrivals ds (NewInternalAgent n i t0) \<le> 1"
  using extn.suspended_run [of "NewExternalAgent n i t0" cs] intn.suspended_run [of "NewInternalAgent n i t0" ds]
    extn.arrivals_bound [of cs "NewExternalAgent n i t0"] intn.arrivals_bound [of ds "NewInternalAgent n i t0"]
  by (simp add: runs_eq NewExternalAgent_def NewInternalAgent_def ea_initial_def ia_initial_def)

end
