(* ===== verification/Registrations.thy ===== *)
theory Registrations
  imports Agents_Map Agent_Machines
begin

text \<open>
  The registration service, \<open>internal/lambda/core/registrations.go\<close>: it owns the runtime, the two
  agent indexes, the init and invoke flows and the on/off state.  Every method runs
  under the service's mutex, so each is one step.  The objects behind the pointers
  live in the lists \<open>rs_runtimes\<close>, \<open>rs_extAgents\<close> and \<open>rs_intAgents\<close>; an object is allocated
  at the end of its list and never moves.  \<open>cancelOnce\<close> is the flag of the \<open>sync.Once\<close>.
\<close>

datatype registrationServiceState = registrationServiceOn | registrationServiceOff

definition MaxAgentsAllowed :: int where
  "MaxAgentsAllowed = 10"

record AgentInfo =
  ai_Name :: string
  ai_State :: string
  ai_Subscriptions :: "string list"
  ai_ErrorType :: string

record RuntimeInfo =
  ri_ImageJSON :: string
  ri_Arn :: string
  ri_Version :: string

record FunctionMetadata =
  fm_AccountID :: string
  fm_FunctionName :: string
  fm_FunctionVersion :: string
  fm_InstanceMaxMemory :: "64 word"
  fm_Handler :: string
  fm_RuntimeInfo :: RuntimeInfo

definition zero_metadata :: FunctionMetadata where
  "zero_metadata = \<lparr>fm_AccountID = [], fm_FunctionName = [], fm_FunctionVersion = [],
     fm_InstanceMaxMemory = 0, fm_Handler = [],
     fm_RuntimeInfo = \<lparr>ri_ImageJSON = [], ri_Arn = [], ri_Version = []\<rparr>\<rparr>"

record registrationServiceImpl =
  rs_runtimes :: "Runtime list"
  rs_extAgents :: "ExternalAgent list"
  rs_intAgents :: "InternalAgent list"
  rs_runtime :: "ref option"
  rs_internalAgents :: InternalAgentsMap
  rs_externalAgents :: ExternalAgentsMap
  rs_state :: registrationServiceState
  rs_flows :: flows
  rs_functionMetadata :: FunctionMetadata
  rs_cancelOnce :: bool

type_synonym reg = registrationServiceImpl

definition NewRegistrationService :: "flows \<Rightarrow> reg" where
  "NewRegistrationService f =
    \<lparr>rs_runtimes = [], rs_extAgents = [], rs_intAgents = [], rs_runtime = None,
     rs_internalAgents = NewInternalAgentsMap, rs_externalAgents = NewExternalAgentsMap,
     rs_state = registrationServiceOn, rs_flows = f, rs_functionMetadata = zero_metadata,
     rs_cancelOnce = False\<rparr>"

definition reg_Clear :: "reg \<Rightarrow> reg" where
  "reg_Clear s = s\<lparr>rs_runtime := None,
     rs_internalAgents := InternalAgentsMap_Clear (rs_internalAgents s),
     rs_externalAgents := ExternalAgentsMap_Clear (rs_externalAgents s),
     rs_state := registrationServiceOn, rs_cancelOnce := False\<rparr>"

definition InitFlow :: "reg \<Rightarrow> init_flow" where
  "InitFlow s = initFlow (rs_flows s)"

definition countAgentsUnsafe :: "reg \<Rightarrow> int" where
  "countAgentsUnsafe s =
    InternalAgentsMap_Visit (\<lambda>a res. res + 1) (rs_internalAgents s)
      (ExternalAgentsMap_Visit (\<lambda>a res. res + 1) (rs_externalAgents s) 0)"

definition CountAgents :: "reg \<Rightarrow> int" where
  "CountAgents s = countAgentsUnsafe s"

definition GetExternalAgents :: "reg \<Rightarrow> ref list" where
  "GetExternalAgents s = ExternalAgentsMap_Visit (\<lambda>a agents. agents @ [a]) (rs_externalAgents s) []"

definition GetInternalAgents :: "reg \<Rightarrow> ref list" where
  "GetInternalAgents s = InternalAgentsMap_Visit (\<lambda>a agents. agents @ [a]) (rs_internalAgents s) []"

definition GetSubscribedExternalAgents :: "Event \<Rightarrow> reg \<Rightarrow> ref list" where
  "GetSubscribedExternalAgents ev s =
    ExternalAgentsMap_Visit (\<lambda>a agents. if ExternalAgent_IsSubscribed ev (rs_extAgents s ! a)
      then agents @ [a] else agents) (rs_externalAgents s) []"

definition GetSubscribedInternalAgents :: "Event \<Rightarrow> reg \<Rightarrow> ref list" where
  "GetSubscribedInternalAgents ev s =
    InternalAgentsMap_Visit (\<lambda>a agents. if InternalAgent_IsSubscribed ev (rs_intAgents s ! a)
      then agents @ [a] else agents) (rs_internalAgents s) []"

text \<open>The agent object is created before the checks, as in the source.\<close>

definition CreateExternalAgent :: "string \<Rightarrow> UUID \<Rightarrow> ns \<Rightarrow> reg \<Rightarrow> reg \<times> (go_error + ref)" where
  "CreateExternalAgent agentName newID now s =
    (let agent = length (rs_extAgents s);
         s = s\<lparr>rs_extAgents := rs_extAgents s @ [NewExternalAgent agentName newID now]\<rparr>
     in if rs_state s \<noteq> registrationServiceOn then (s, Inl ErrRegistrationServiceOff)
        else if InternalAgentsMap_FindByName agentName (rs_internalAgents s) \<noteq> None
        then (s, Inl ErrAgentNameCollision)
        else (case ExternalAgentsMap_Insert (rs_extAgents s) agent (rs_externalAgents s) of
                (m, Some e) \<Rightarrow> (s\<lparr>rs_externalAgents := m\<rparr>, Inl e)
              | (m, None) \<Rightarrow> (s\<lparr>rs_externalAgents := m\<rparr>, Inr agent)))"

definition CreateInternalAgent :: "string \<Rightarrow> UUID \<Rightarrow> ns \<Rightarrow> reg \<Rightarrow> reg \<times> (go_error + ref)" where
  "CreateInternalAgent agentName newID now s =
    (let agent = length (rs_intAgents s);
         s = s\<lparr>rs_intAgents := rs_intAgents s @ [NewInternalAgent agentName newID now]\<rparr>
     in if rs_state s \<noteq> registrationServiceOn then (s, Inl ErrRegistrationServiceOff)
        else if countAgentsUnsafe s \<ge> MaxAgentsAllowed then (s, Inl ErrTooManyExtensions)
        else if ExternalAgentsMap_FindByName agentName (rs_externalAgents s) \<noteq> None
        then (s, Inl ErrAgentNameCollision)
        else (case InternalAgentsMap_Insert (rs_intAgents s) agent (rs_internalAgents s) of
                (m, Some e) \<Rightarrow> (s\<lparr>rs_internalAgents := m\<rparr>, Inl e)
              | (m, None) \<Rightarrow> (s\<lparr>rs_internalAgents := m\<rparr>, Inr agent)))"

definition PreregisterRuntime :: "ref \<Rightarrow> reg \<Rightarrow> reg \<times> go_error option" where
  "PreregisterRuntime r s =
    (if rs_state s \<noteq> registrationServiceOn then (s, Some ErrRegistrationServiceOff)
     else (s\<lparr>rs_runtime := Some r\<rparr>, None))"

definition SetFunctionMetadata :: "FunctionMetadata \<Rightarrow> reg \<Rightarrow> reg" where
  "SetFunctionMetadata md s = s\<lparr>rs_functionMetadata := md\<rparr>"

definition GetFunctionMetadata :: "reg \<Rightarrow> FunctionMetadata" where
  "GetFunctionMetadata s = rs_functionMetadata s"

definition GetRuntime :: "reg \<Rightarrow> ref option" where
  "GetRuntime s = rs_runtime s"

definition GetRegisteredAgentsSize :: "reg \<Rightarrow> 16 word" where
  "GetRegisteredAgentsSize s =
    of_nat (ExternalAgentsMap_Size (rs_externalAgents s)) + of_nat (InternalAgentsMap_Size (rs_internalAgents s))"

definition FindExternalAgentByName :: "string \<Rightarrow> reg \<Rightarrow> ref option" where
  "FindExternalAgentByName name s = ExternalAgentsMap_FindByName name (rs_externalAgents s)"

definition FindInternalAgentByName :: "string \<Rightarrow> reg \<Rightarrow> ref option" where
  "FindInternalAgentByName name s = InternalAgentsMap_FindByName name (rs_internalAgents s)"

definition FindExternalAgentByID :: "UUID \<Rightarrow> reg \<Rightarrow> ref option" where
  "FindExternalAgentByID i s = ExternalAgentsMap_FindByID i (rs_externalAgents s)"

definition FindInternalAgentByID :: "UUID \<Rightarrow> reg \<Rightarrow> ref option" where
  "FindInternalAgentByID i s = InternalAgentsMap_FindByID i (rs_internalAgents s)"

definition AgentsInfo :: "reg \<Rightarrow> AgentInfo list" where
  "AgentsInfo s =
    map (\<lambda>r. let a = rs_extAgents s ! r in
      \<lparr>ai_Name = ea_Name a, ai_State = ExternalAgentState_Name (ExternalAgent_GetState a),
       ai_Subscriptions = ExternalAgent_SubscribedEvents a, ai_ErrorType = ExternalAgent_ErrorType a\<rparr>)
      (GetExternalAgents s)
    @ map (\<lambda>r. let a = rs_intAgents s ! r in
      \<lparr>ai_Name = ia_Name a, ai_State = InternalAgentState_Name (InternalAgent_GetState a),
       ai_Subscriptions = InternalAgent_SubscribedEvents a, ai_ErrorType = InternalAgent_ErrorType a\<rparr>)
      (GetInternalAgents s)"

definition TurnOff :: "reg \<Rightarrow> reg" where
  "TurnOff s = s\<lparr>rs_state := registrationServiceOff\<rparr>"

definition CancelFlows :: "go_error option \<Rightarrow> reg \<Rightarrow> reg" where
  "CancelFlows e s =
    (if rs_cancelOnce s then s
     else s\<lparr>rs_cancelOnce := True,
            rs_flows := (rs_flows s)\<lparr>initFlow := init_CancelWithError e (initFlow (rs_flows s)),
                                    invokeFlow := invoke_CancelWithError e (invokeFlow (rs_flows s))\<rparr>\<rparr>)"

record InternalStateDescription =
  isd_Runtime :: "RuntimeDescription option"
  isd_Extensions :: "ExtensionDescription list"
  isd_FirstFatalError :: string

text \<open>The first fatal error of the application context (\<open>appctx.LoadFirstFatalError\<close>) is an
  argument.\<close>

definition getInternalStateDescription :: "ErrorType option \<Rightarrow> reg \<Rightarrow> InternalStateDescription" where
  "getInternalStateDescription firstFatal s =
    \<lparr>isd_Runtime = map_option (\<lambda>r. GetRuntimeDescription (rs_runtimes s ! r)) (rs_runtime s),
     isd_Extensions =
       ExternalAgentsMap_Visit (\<lambda>a xs. xs @ [ExternalAgent_GetAgentDescription (rs_extAgents s ! a)]) (rs_externalAgents s)
         (InternalAgentsMap_Visit (\<lambda>a xs. xs @ [InternalAgent_GetAgentDescription (rs_intAgents s ! a)]) (rs_internalAgents s) []),
     isd_FirstFatalError = (case firstFatal of Some e \<Rightarrow> e | None \<Rightarrow> [])\<rparr>"

section \<open>Calls that reach the registered parties\<close>

text \<open>The handlers of the Runtime and Extensions APIs and the invoke sequencer call methods of the
  runtime and of the agents through pointers; the flows they touch are those of the service.\<close>

definition new_runtime :: "ns \<Rightarrow> reg \<Rightarrow> reg \<times> ref" where
  "new_runtime now s = (s\<lparr>rs_runtimes := rs_runtimes s @ [NewRuntime now]\<rparr>, length (rs_runtimes s))"

definition reg_runtime_call :: "rt_op \<Rightarrow> ns \<Rightarrow> ns \<Rightarrow> ref \<Rightarrow> reg \<Rightarrow> reg \<times> call_result" where
  "reg_runtime_call q now now' r s =
    (case rt_exec q now now' (rs_flows s) (rs_runtimes s ! r) of
       ((f, rt), c) \<Rightarrow> (s\<lparr>rs_flows := f, rs_runtimes := (rs_runtimes s)[r := rt]\<rparr>, c))"

definition reg_ext_call :: "ea_op \<Rightarrow> ns \<Rightarrow> ns \<Rightarrow> ref \<Rightarrow> reg \<Rightarrow> reg \<times> call_result" where
  "reg_ext_call q now now' a s =
    (case ea_exec q now now' (rs_flows s) (rs_extAgents s ! a) of
       ((f, ag), c) \<Rightarrow> (s\<lparr>rs_flows := f, rs_extAgents := (rs_extAgents s)[a := ag]\<rparr>, c))"

definition reg_int_call :: "ia_op \<Rightarrow> ns \<Rightarrow> ns \<Rightarrow> ref \<Rightarrow> reg \<Rightarrow> reg \<times> call_result" where
  "reg_int_call q now now' a s =
    (case ia_exec q now now' (rs_flows s) (rs_intAgents s ! a) of
       ((f, ag), c) \<Rightarrow> (s\<lparr>rs_flows := f, rs_intAgents := (rs_intAgents s)[a := ag]\<rparr>, c))"

end
