(* ===== verification/App_Errors.thy ===== *)
theory App_Errors
  imports Prelude
begin

text \<open>
  The application errors of the managed-instances runtime
  (\<open>internal/lambda-managed-instances/rapid/model\<close>): a value of \<open>AppError\<close> has a severity, a
  source, an error type, a return code and a message; the wrapped cause only shows in logs and is
  left out.  \<open>BuildInvokeAppError\<close> (\<open>invoke/utils.go\<close>) turns the cause of a cancelled context into
  one: the cause is an application error, the deadline, or anything else.
\<close>

datatype ErrorSeverity = ErrorSeverityError | ErrorSeverityFatal | ErrorSeverityInvalid

datatype ErrorSource = ErrorSourceClient | ErrorSourceSandbox | ErrorSourceRuntime

record AppError =
  ae_severity :: ErrorSeverity
  ae_source :: ErrorSource
  ae_errorType :: string
  ae_code :: int
  ae_message :: string

definition ErrorInvalidRequest :: string where "ErrorInvalidRequest = ''InvalidRequest''"
definition ErrorInitIncomplete :: string where "ErrorInitIncomplete = ''Client.InitIncomplete''"
definition ErrorEnvironmentUnhealthy :: string where "ErrorEnvironmentUnhealthy = ''Client.ExecutionEnvironmentUnhealthy''"
definition ErrorRuntimeUnavailable :: string where "ErrorRuntimeUnavailable = ''Runtime.Unavailable''"
definition ErrorDuplicatedInvokeId :: string where "ErrorDuplicatedInvokeId = ''Client.DuplicatedInvokeId''"
definition ErrorRuntimeUnknown :: string where "ErrorRuntimeUnknown = ''Runtime.Unknown''"
definition ErrorRuntimeTruncatedResponse :: string where "ErrorRuntimeTruncatedResponse = ''Runtime.TruncatedResponse''"
definition ErrorRuntimeInvokeResponseInProgress :: string where "ErrorRuntimeInvokeResponseInProgress = ''Runtime.InvokeResponseInProgress''"
definition ErrorRuntimeInvokeErrorInProgress :: string where "ErrorRuntimeInvokeErrorInProgress = ''Runtime.ErrorResponseInProgress''"
definition ErrorRuntimeInvokeResponseWasSent :: string where "ErrorRuntimeInvokeResponseWasSent = ''Runtime.InvokeResponseWasSent''"
definition ErrorRuntimeInvalidInvokeId :: string where "ErrorRuntimeInvalidInvokeId = ''Runtime.InvalidInvokeId''"
definition ErrorRuntimeInvokeTimeout :: string where "ErrorRuntimeInvokeTimeout = ''Runtime.InvokeTimeout''"
definition ErrorRuntimeTooManyIdleRuntimes :: string where "ErrorRuntimeTooManyIdleRuntimes = ''Runtime.TooManyIdleRuntimes''"
definition ErrorSandboxTimedout :: string where "ErrorSandboxTimedout = ''Sandbox.Timedout''"
definition ErrorFunctionOversizedResponse :: string where "ErrorFunctionOversizedResponse = ''Function.ResponseSizeTooLarge''"

lemmas mi_error_types =
  ErrorInvalidRequest_def ErrorInitIncomplete_def ErrorEnvironmentUnhealthy_def
  ErrorRuntimeUnavailable_def ErrorDuplicatedInvokeId_def ErrorRuntimeUnknown_def
  ErrorRuntimeTruncatedResponse_def ErrorRuntimeInvokeResponseInProgress_def
  ErrorRuntimeInvokeErrorInProgress_def ErrorRuntimeInvokeResponseWasSent_def
  ErrorRuntimeInvalidInvokeId_def ErrorRuntimeInvokeTimeout_def
  ErrorRuntimeTooManyIdleRuntimes_def ErrorSandboxTimedout_def ErrorFunctionOversizedResponse_def

definition NewCustomerError :: "string \<Rightarrow> AppError" where
  "NewCustomerError errorType =
    \<lparr>ae_severity = ErrorSeverityError, ae_source = ErrorSourceRuntime, ae_errorType = errorType, ae_code = 200, ae_message = []\<rparr>"

definition NewClientError :: "ErrorSeverity \<Rightarrow> string \<Rightarrow> AppError" where
  "NewClientError severity errorType =
    \<lparr>ae_severity = severity, ae_source = ErrorSourceClient, ae_errorType = errorType, ae_code = 400, ae_message = []\<rparr>"

definition NewPlatformError :: "string \<Rightarrow> AppError" where
  "NewPlatformError errorType =
    \<lparr>ae_severity = ErrorSeverityFatal, ae_source = ErrorSourceSandbox, ae_errorType = errorType, ae_code = 500, ae_message = []\<rparr>"

datatype ctx_cause = CauseApp AppError | CauseDeadline | CauseOther

text \<open>\<open>timeout_message\<close> stands for the formatted duration in the message.\<close>

definition BuildInvokeAppError :: "ctx_cause \<Rightarrow> string \<Rightarrow> AppError" where
  "BuildInvokeAppError err timeout_message =
    (case err of
       CauseApp appError \<Rightarrow> appError
     | CauseDeadline \<Rightarrow> (NewCustomerError ErrorSandboxTimedout)\<lparr>ae_message := timeout_message\<rparr>
     | CauseOther \<Rightarrow> NewPlatformError ''BuildInvokeAppError doesn't know this error'')"

end
