(* ===== verification/Instance_Core.thy ===== *)
theory Instance_Core
  imports Registrations App_Errors
begin

text \<open>
  The core of the managed-instances runtime, \<open>internal/lambda-managed-instances/core\<close>: gates that carry a value and whose wait
  ends with a context, the init flow of three of them, the runtime and agent state machines
  without an invoke flow, and the registration service.  Objects that have the fields of their
  counterparts in \<open>internal/lambda/core\<close> (\<open>Runtime\<close>, \<open>ExternalAgent\<close>, \<open>InternalAgent\<close>) keep those records; an
  internal agent here has no subscriptions, so \<open>ia_events\<close> stays empty.  Every operation is written
  over the flow of this package; \<open>mi_external_agents_agree\<close> relates the external agents to the
  machine of the other package.
\<close>

section \<open>Gates\<close>

record 'v valueGate =
  vg_gate :: gateImpl
  vg_value :: "'v option"

definition mi_NewGate :: "16 word \<Rightarrow> 'v valueGate" where
  "mi_NewGate n = \<lparr>vg_gate = NewGate n, vg_value = None\<rparr>"

definition mi_Register :: "16 word \<Rightarrow> 'v valueGate \<Rightarrow> 'v valueGate" where
  "mi_Register n g = g\<lparr>vg_gate := Register n (vg_gate g)\<rparr>"

definition mi_SetCount :: "16 word \<Rightarrow> 'v valueGate \<Rightarrow> 'v valueGate \<times> go_error option" where
  "mi_SetCount n g = (case SetCount n (vg_gate g) of (g', e) \<Rightarrow> (g\<lparr>vg_gate := g'\<rparr>, e))"

definition mi_Reset :: "'v valueGate \<Rightarrow> 'v valueGate" where
  "mi_Reset g = g\<lparr>vg_gate := Reset (vg_gate g)\<rparr>"

definition mi_WalkThrough :: "'v option \<Rightarrow> 'v valueGate \<Rightarrow> 'v valueGate \<times> go_error option" where
  "mi_WalkThrough v g =
    (case WalkThrough (vg_gate g) of
       (g', Some e) \<Rightarrow> (g, Some e)
     | (g', None) \<Rightarrow> (g\<lparr>vg_gate := g', vg_value := v\<rparr>, None))"

definition mi_awaitGateCondition :: "'v valueGate \<Rightarrow> await_result" where
  "mi_awaitGateCondition g = AwaitGateCondition (vg_gate g)"

definition mi_CancelWithError :: "go_error option \<Rightarrow> 'v valueGate \<Rightarrow> 'v valueGate" where
  "mi_CancelWithError e g = g\<lparr>vg_gate := CancelWithError e (vg_gate g)\<rparr>"

definition mi_Clear :: "'v valueGate \<Rightarrow> 'v valueGate" where
  "mi_Clear g = g\<lparr>vg_gate := Clear (vg_gate g), vg_value := None\<rparr>"

text \<open>\<open>AwaitGateCondition\<close> with a context: \<open>ctxDone\<close> says whether the context has ended, and \<open>selectCtx\<close> which case
  \<open>select\<close> takes when the gate has an answer as well.  A context that ends cancels the gate.\<close>

definition mi_AwaitGateCondition ::
  "bool \<Rightarrow> bool \<Rightarrow> 'v valueGate \<Rightarrow> ('v valueGate \<times> 'v option \<times> go_error option) outcome" where
  "mi_AwaitGateCondition ctxDone selectCtx g =
    (let timedOut = mi_CancelWithError (Some ErrTimeout) g
     in case mi_awaitGateCondition g of
          AwaitReturns e \<Rightarrow> if ctxDone \<and> selectCtx then Ret (timedOut, vg_value timedOut, Some ErrTimeout)
                           else Ret (g, vg_value g, e)
        | AwaitBlocks \<Rightarrow> if ctxDone then Ret (timedOut, vg_value timedOut, Some ErrTimeout) else Blocks)"

lemmas mi_gate_defs = mi_NewGate_def mi_Register_def mi_SetCount_def mi_Reset_def mi_WalkThrough_def
  mi_awaitGateCondition_def mi_CancelWithError_def mi_Clear_def

abbreviation mi_missing :: "'v valueGate \<Rightarrow> nat" where
  "mi_missing g \<equiv> missing (vg_gate g)"

abbreviation mi_cancellation :: "'v valueGate \<Rightarrow> go_error option" where
  "mi_cancellation g \<equiv> cancellation (vg_gate g)"

lemma mi_walk_cases:
  "vg_gate (fst (mi_WalkThrough v g)) = fst (WalkThrough (vg_gate g))"
  "snd (mi_WalkThrough v g) = snd (WalkThrough (vg_gate g))"
  by (auto simp: mi_WalkThrough_def WalkThrough_def split: if_splits)

lemma mi_walk_open: "mi_missing g = 0 \<Longrightarrow> mi_WalkThrough v g = (g, Some ErrGateIntegrity)"
  using walk_open [of "vg_gate g"] by (simp add: mi_WalkThrough_def)

interpretation value_gate: gate_interface "mi_WalkThrough v" mi_awaitGateCondition mi_CancelWithError
  mi_missing mi_cancellation for v
proof unfold_locales
  fix g :: "'a valueGate" and k
  show "mi_missing g = 0 \<Longrightarrow> mi_WalkThrough v g = (g, Some ErrGateIntegrity)" by (rule mi_walk_open)
  show "mi_missing g = Suc k \<Longrightarrow> snd (mi_WalkThrough v g) = None \<and> mi_missing (fst (mi_WalkThrough v g)) = k
      \<and> mi_cancellation (fst (mi_WalkThrough v g)) = mi_cancellation g"
    using walk_missing [of "vg_gate g" k] by (simp add: mi_walk_cases)
qed (simp_all add: mi_awaitGateCondition_def mi_CancelWithError_def await_by_abstraction)

lemma mi_await_done_returns: "mi_AwaitGateCondition True selectCtx g \<noteq> Blocks"
  by (cases "mi_awaitGateCondition g") (simp_all add: mi_AwaitGateCondition_def Let_def)

text \<open>A wait without error saw every arrival; one that ran into its context leaves a gate on which every later
  wait fails at once, whatever arrives.\<close>

lemma mi_await_returned:
  assumes "mi_AwaitGateCondition ctxDone selectCtx g = Ret (g', v, e)"
  shows "e = None \<longrightarrow> g' = g \<and> mi_missing g = 0 \<and> mi_cancellation g = None"
    "e \<noteq> None \<longrightarrow> mi_awaitGateCondition (value_gate.walks v' n g') = AwaitReturns e"
proof -
  show "e = None \<longrightarrow> g' = g \<and> mi_missing g = 0 \<and> mi_cancellation g = None"
  proof
    assume "e = None"
    then show "g' = g \<and> mi_missing g = 0 \<and> mi_cancellation g = None"
      using assms by (cases "mi_cancellation g")
        (simp_all add: mi_AwaitGateCondition_def mi_awaitGateCondition_def Let_def await_by_abstraction split: if_splits)
  qed
  have "e \<noteq> None \<longrightarrow> mi_cancellation g' = e"
    using assms by (cases "mi_cancellation g") (auto simp: mi_AwaitGateCondition_def mi_awaitGateCondition_def
        mi_CancelWithError_def Let_def await_by_abstraction split: if_splits)
  then show "e \<noteq> None \<longrightarrow> mi_awaitGateCondition (value_gate.walks v' n g') = AwaitReturns e"
    using value_gate.canceled_always_returns [of g' _ v' n] by auto
qed

section \<open>The init flow\<close>

record mi_flow =
  mf_externalAgentsRegisteredGate :: "unit valueGate"
  mf_runtimeReadyGate :: "unit valueGate"
  mf_agentReadyGate :: "unit valueGate"

definition mi_NewInitFlowSynchronization :: mi_flow where
  "mi_NewInitFlowSynchronization =
    \<lparr>mf_externalAgentsRegisteredGate = mi_NewGate 0, mf_runtimeReadyGate = mi_NewGate 1,
     mf_agentReadyGate = mi_NewGate maxAgentsLimit\<rparr>"

definition mi_SetExternalAgentsRegisterCount :: "16 word \<Rightarrow> mi_flow \<Rightarrow> mi_flow \<times> go_error option" where
  "mi_SetExternalAgentsRegisterCount n s =
    (case mi_SetCount n (mf_externalAgentsRegisteredGate s) of
       (g, e) \<Rightarrow> (s\<lparr>mf_externalAgentsRegisteredGate := g\<rparr>, e))"

definition mi_SetAgentsReadyCount :: "16 word \<Rightarrow> mi_flow \<Rightarrow> mi_flow \<times> go_error option" where
  "mi_SetAgentsReadyCount n s =
    (case mi_SetCount n (mf_agentReadyGate s) of (g, e) \<Rightarrow> (s\<lparr>mf_agentReadyGate := g\<rparr>, e))"

definition mi_AwaitRuntimeReady :: "bool \<Rightarrow> bool \<Rightarrow> mi_flow \<Rightarrow> (mi_flow \<times> go_error option) outcome" where
  "mi_AwaitRuntimeReady ctxDone selectCtx s =
    outcome_bind (mi_AwaitGateCondition ctxDone selectCtx (mf_runtimeReadyGate s))
      (\<lambda>(g, v, e). Ret (s\<lparr>mf_runtimeReadyGate := g\<rparr>, e))"

definition mi_AwaitExternalAgentsRegistered :: "bool \<Rightarrow> bool \<Rightarrow> mi_flow \<Rightarrow> (mi_flow \<times> go_error option) outcome" where
  "mi_AwaitExternalAgentsRegistered ctxDone selectCtx s =
    outcome_bind (mi_AwaitGateCondition ctxDone selectCtx (mf_externalAgentsRegisteredGate s))
      (\<lambda>(g, v, e). Ret (s\<lparr>mf_externalAgentsRegisteredGate := g\<rparr>, e))"

definition mi_AwaitAgentsReady :: "bool \<Rightarrow> bool \<Rightarrow> mi_flow \<Rightarrow> (mi_flow \<times> go_error option) outcome" where
  "mi_AwaitAgentsReady ctxDone selectCtx s =
    outcome_bind (mi_AwaitGateCondition ctxDone selectCtx (mf_agentReadyGate s))
      (\<lambda>(g, v, e). Ret (s\<lparr>mf_agentReadyGate := g\<rparr>, e))"

definition mi_RuntimeReady :: "mi_flow \<Rightarrow> mi_flow \<times> go_error option" where
  "mi_RuntimeReady s =
    (case mi_WalkThrough None (mf_runtimeReadyGate s) of (g, e) \<Rightarrow> (s\<lparr>mf_runtimeReadyGate := g\<rparr>, e))"

definition mi_AgentReady :: "mi_flow \<Rightarrow> mi_flow \<times> go_error option" where
  "mi_AgentReady s =
    (case mi_WalkThrough None (mf_agentReadyGate s) of (g, e) \<Rightarrow> (s\<lparr>mf_agentReadyGate := g\<rparr>, e))"

definition mi_ExternalAgentRegistered :: "mi_flow \<Rightarrow> mi_flow \<times> go_error option" where
  "mi_ExternalAgentRegistered s =
    (case mi_WalkThrough None (mf_externalAgentsRegisteredGate s) of
       (g, e) \<Rightarrow> (s\<lparr>mf_externalAgentsRegisteredGate := g\<rparr>, e))"

definition mi_flow_CancelWithError :: "go_error option \<Rightarrow> mi_flow \<Rightarrow> mi_flow" where
  "mi_flow_CancelWithError e s =
    \<lparr>mf_externalAgentsRegisteredGate = mi_CancelWithError e (mf_externalAgentsRegisteredGate s),
     mf_runtimeReadyGate = mi_CancelWithError e (mf_runtimeReadyGate s),
     mf_agentReadyGate = mi_CancelWithError e (mf_agentReadyGate s)\<rparr>"

definition mi_flow_Clear :: "mi_flow \<Rightarrow> mi_flow" where
  "mi_flow_Clear s =
    \<lparr>mf_externalAgentsRegisteredGate = mi_Clear (mf_externalAgentsRegisteredGate s),
     mf_runtimeReadyGate = mi_Clear (mf_runtimeReadyGate s),
     mf_agentReadyGate = mi_Clear (mf_agentReadyGate s)\<rparr>"

section \<open>The runtime\<close>

definition mi_runtime_suspend :: "tid \<Rightarrow> ns \<Rightarrow> mi_flow \<Rightarrow> Runtime \<Rightarrow> (mi_flow \<times> Runtime) \<times> call_result" where
  "mi_runtime_suspend t now' f r =
    (case SuspendUnsafe t AfterReadySuspend (rt_ManagedThread r) of
       (mt, True) \<Rightarrow> (case ready_after_suspend now' (r\<lparr>rt_ManagedThread := mt\<rparr>) of (r', e) \<Rightarrow> ((f, r'), Returned e))
     | (mt, False) \<Rightarrow> ((f, r\<lparr>rt_ManagedThread := mt\<rparr>), Suspended))"

definition mi_disallowEveryTransitionByDefault :: "mi_flow \<Rightarrow> Runtime \<Rightarrow> (mi_flow \<times> Runtime) \<times> call_result" where
  "mi_disallowEveryTransitionByDefault f r = ((f, r), Returned (Some ErrNotAllowed))"

definition mi_NewRuntime :: "ns \<Rightarrow> Runtime" where
  "mi_NewRuntime now = setStateUnsafe RuntimeStartedState now
    \<lparr>rt_ManagedThread = NewManagedThread, currentState = RuntimeStartedState,
     stateLastModified = 0, responseTime = None\<rparr>"

definition mi_RuntimeStartedState_Ready ::
  "tid \<Rightarrow> ns \<Rightarrow> ns \<Rightarrow> mi_flow \<Rightarrow> Runtime \<Rightarrow> (mi_flow \<times> Runtime) \<times> call_result" where
  "mi_RuntimeStartedState_Ready t now now' f r =
    (let r = setStateUnsafe RuntimeReadyState now r
     in case mi_RuntimeReady f of
          (f, Some e) \<Rightarrow> ((f, r), Returned (Some e))
        | (f, None) \<Rightarrow> mi_runtime_suspend t now' f r)"

definition mi_RuntimeStartedState_InitError :: "ns \<Rightarrow> mi_flow \<Rightarrow> Runtime \<Rightarrow> (mi_flow \<times> Runtime) \<times> call_result" where
  "mi_RuntimeStartedState_InitError now f r = ((f, setStateUnsafe RuntimeInitErrorState now r), Returned None)"

definition mi_RuntimeReadyState_Ready :: "tid \<Rightarrow> ns \<Rightarrow> mi_flow \<Rightarrow> Runtime \<Rightarrow> (mi_flow \<times> Runtime) \<times> call_result" where
  "mi_RuntimeReadyState_Ready t now' f r = mi_runtime_suspend t now' f r"

definition mi_RuntimeRunningState_Ready :: "mi_flow \<Rightarrow> Runtime \<Rightarrow> (mi_flow \<times> Runtime) \<times> call_result" where
  "mi_RuntimeRunningState_Ready f r = ((f, r), Returned None)"

definition mi_Runtime_Ready :: "tid \<Rightarrow> ns \<Rightarrow> ns \<Rightarrow> mi_flow \<Rightarrow> Runtime \<Rightarrow> (mi_flow \<times> Runtime) \<times> call_result" where
  "mi_Runtime_Ready t now now' f r =
    (case currentState r of
       RuntimeStartedState \<Rightarrow> mi_RuntimeStartedState_Ready t now now' f r
     | RuntimeReadyState \<Rightarrow> mi_RuntimeReadyState_Ready t now' f r
     | RuntimeRunningState \<Rightarrow> mi_RuntimeRunningState_Ready f r
     | _ \<Rightarrow> mi_disallowEveryTransitionByDefault f r)"

definition mi_Runtime_InitError :: "ns \<Rightarrow> mi_flow \<Rightarrow> Runtime \<Rightarrow> (mi_flow \<times> Runtime) \<times> call_result" where
  "mi_Runtime_InitError now f r =
    (case currentState r of
       RuntimeStartedState \<Rightarrow> mi_RuntimeStartedState_InitError now f r
     | _ \<Rightarrow> mi_disallowEveryTransitionByDefault f r)"

definition mi_Runtime_Release :: "nat \<Rightarrow> Runtime \<Rightarrow> Runtime" where
  "mi_Runtime_Release pick r = r\<lparr>rt_ManagedThread := Release pick (rt_ManagedThread r)\<rparr>"

section \<open>External agents\<close>

definition mi_disallowEverything :: "mi_flow \<Rightarrow> 'a \<Rightarrow> (mi_flow \<times> 'a) \<times> call_result" where
  "mi_disallowEverything f a = ((f, a), Returned (Some ErrNotAllowed))"

definition mi_ValidateExternalAgentEvent :: "Event \<Rightarrow> go_error option" where
  "mi_ValidateExternalAgentEvent e = (if e = ShutdownEvent then None else Some ErrInvalidEventType)"

definition mi_ea_subscribeUnsafe :: "Event \<Rightarrow> ExternalAgent \<Rightarrow> ExternalAgent \<times> go_error option" where
  "mi_ea_subscribeUnsafe e a =
    (case mi_ValidateExternalAgentEvent e of
       Some er \<Rightarrow> (a, Some er)
     | None \<Rightarrow> (a\<lparr>ea_events := go_map_set e () (ea_events a)\<rparr>, None))"

fun mi_ea_subscribe_all :: "Event list \<Rightarrow> ExternalAgent \<Rightarrow> ExternalAgent \<times> go_error option" where
  "mi_ea_subscribe_all [] a = (a, None)"
| "mi_ea_subscribe_all (e # es) a =
    (case mi_ea_subscribeUnsafe e a of
       (a, Some er) \<Rightarrow> (a, Some er)
     | (a, None) \<Rightarrow> mi_ea_subscribe_all es a)"

definition mi_ExternalAgentStartedState_Register ::
  "Event list \<Rightarrow> ns \<Rightarrow> mi_flow \<Rightarrow> ExternalAgent \<Rightarrow> (mi_flow \<times> ExternalAgent) \<times> call_result" where
  "mi_ExternalAgentStartedState_Register es now f a =
    (case mi_ea_subscribe_all es a of
       (a, Some er) \<Rightarrow> ((f, a), Returned (Some er))
     | (a, None) \<Rightarrow>
        ((fst (mi_ExternalAgentRegistered f),
          ea_setStateUnsafe ExternalAgentRegisteredState now a), Returned None))"

definition mi_ExternalAgentStartedState_LaunchError ::
  "string \<Rightarrow> ns \<Rightarrow> mi_flow \<Rightarrow> ExternalAgent \<Rightarrow> (mi_flow \<times> ExternalAgent) \<times> call_result" where
  "mi_ExternalAgentStartedState_LaunchError e now f a =
    ((f, (ea_setStateUnsafe ExternalAgentLaunchErrorState now a)\<lparr>ea_errorType := e\<rparr>),
     Returned None)"

definition mi_ea_suspend :: "tid \<Rightarrow> ns \<Rightarrow> mi_flow \<Rightarrow> ExternalAgent \<Rightarrow> (mi_flow \<times> ExternalAgent) \<times> call_result" where
  "mi_ea_suspend t now' f a =
    (case SuspendUnsafe t () (ea_ManagedThread a) of
       (mt, True) \<Rightarrow> (case ea_after_suspend now' (a\<lparr>ea_ManagedThread := mt\<rparr>) of (a', e) \<Rightarrow> ((f, a'), Returned e))
     | (mt, False) \<Rightarrow> ((f, a\<lparr>ea_ManagedThread := mt\<rparr>), Suspended))"

definition mi_ExternalAgentRegisteredState_Ready ::
  "tid \<Rightarrow> ns \<Rightarrow> ns \<Rightarrow> mi_flow \<Rightarrow> ExternalAgent \<Rightarrow> (mi_flow \<times> ExternalAgent) \<times> call_result" where
  "mi_ExternalAgentRegisteredState_Ready t now now' f a =
    mi_ea_suspend t now' (fst (mi_AgentReady f))
      (ea_setStateUnsafe ExternalAgentReadyState now a)"

definition mi_ea_fail :: "ExternalAgentState \<Rightarrow> string \<Rightarrow> ns \<Rightarrow> mi_flow \<Rightarrow> ExternalAgent \<Rightarrow> (mi_flow \<times> ExternalAgent) \<times> call_result" where
  "mi_ea_fail st errorType now f a =
    ((f, (ea_setStateUnsafe st now a)\<lparr>ea_errorType := errorType\<rparr>), Returned None)"

definition mi_ExternalAgentRegisteredState_InitError ::
  "string \<Rightarrow> ns \<Rightarrow> mi_flow \<Rightarrow> ExternalAgent \<Rightarrow> (mi_flow \<times> ExternalAgent) \<times> call_result" where
  "mi_ExternalAgentRegisteredState_InitError = mi_ea_fail ExternalAgentInitErrorState"

definition mi_ExternalAgentRegisteredState_ExitError ::
  "string \<Rightarrow> ns \<Rightarrow> mi_flow \<Rightarrow> ExternalAgent \<Rightarrow> (mi_flow \<times> ExternalAgent) \<times> call_result" where
  "mi_ExternalAgentRegisteredState_ExitError = mi_ea_fail ExternalAgentExitErrorState"

definition mi_ExternalAgentReadyState_ExitError ::
  "string \<Rightarrow> ns \<Rightarrow> mi_flow \<Rightarrow> ExternalAgent \<Rightarrow> (mi_flow \<times> ExternalAgent) \<times> call_result" where
  "mi_ExternalAgentReadyState_ExitError = mi_ea_fail ExternalAgentExitErrorState"

definition mi_ExternalAgentRunningState_ExitError ::
  "string \<Rightarrow> ns \<Rightarrow> mi_flow \<Rightarrow> ExternalAgent \<Rightarrow> (mi_flow \<times> ExternalAgent) \<times> call_result" where
  "mi_ExternalAgentRunningState_ExitError = mi_ea_fail ExternalAgentExitErrorState"


definition mi_ExternalAgentRunningState_Ready ::
  "tid \<Rightarrow> ns \<Rightarrow> ns \<Rightarrow> mi_flow \<Rightarrow> ExternalAgent \<Rightarrow> (mi_flow \<times> ExternalAgent) \<times> call_result" where
  "mi_ExternalAgentRunningState_Ready t now now' f a =
    mi_ea_suspend t now' f
      (ea_setStateUnsafe ExternalAgentReadyState now a)"

definition mi_ExternalAgentRunningState_ShutdownFailed ::
  "ns \<Rightarrow> mi_flow \<Rightarrow> ExternalAgent \<Rightarrow> (mi_flow \<times> ExternalAgent) \<times> call_result" where
  "mi_ExternalAgentRunningState_ShutdownFailed now f a =
    ((f, ea_setStateUnsafe ExternalAgentShutdownFailedState now a), Returned None)"

definition mi_ExternalAgentRunningState_Exited ::
  "ns \<Rightarrow> mi_flow \<Rightarrow> ExternalAgent \<Rightarrow> (mi_flow \<times> ExternalAgent) \<times> call_result" where
  "mi_ExternalAgentRunningState_Exited now f a =
    ((f, ea_setStateUnsafe ExternalAgentExitedState now a), Returned None)"

definition mi_ExternalAgentInitErrorState_InitError ::
  "mi_flow \<Rightarrow> ExternalAgent \<Rightarrow> (mi_flow \<times> ExternalAgent) \<times> call_result" where
  "mi_ExternalAgentInitErrorState_InitError f a = ((f, a), Returned None)"

definition mi_ExternalAgentExitErrorState_ExitError ::
  "mi_flow \<Rightarrow> ExternalAgent \<Rightarrow> (mi_flow \<times> ExternalAgent) \<times> call_result" where
  "mi_ExternalAgentExitErrorState_ExitError f a = ((f, a), Returned None)"

text \<open>Dispatch on the current state.\<close>

definition mi_ExternalAgent_Register ::
  "Event list \<Rightarrow> ns \<Rightarrow> mi_flow \<Rightarrow> ExternalAgent \<Rightarrow> (mi_flow \<times> ExternalAgent) \<times> call_result" where
  "mi_ExternalAgent_Register es now f a =
    (case ea_currentState a of
       ExternalAgentStartedState \<Rightarrow> mi_ExternalAgentStartedState_Register es now f a
     | _ \<Rightarrow> mi_disallowEverything f a)"

definition mi_ExternalAgent_Ready ::
  "tid \<Rightarrow> ns \<Rightarrow> ns \<Rightarrow> mi_flow \<Rightarrow> ExternalAgent \<Rightarrow> (mi_flow \<times> ExternalAgent) \<times> call_result" where
  "mi_ExternalAgent_Ready t now now' f a =
    (case ea_currentState a of
       ExternalAgentRegisteredState \<Rightarrow> mi_ExternalAgentRegisteredState_Ready t now now' f a
     | ExternalAgentRunningState \<Rightarrow> mi_ExternalAgentRunningState_Ready t now now' f a
     | _ \<Rightarrow> mi_disallowEverything f a)"

definition mi_ExternalAgent_InitError ::
  "string \<Rightarrow> ns \<Rightarrow> mi_flow \<Rightarrow> ExternalAgent \<Rightarrow> (mi_flow \<times> ExternalAgent) \<times> call_result" where
  "mi_ExternalAgent_InitError errorType now f a =
    (case ea_currentState a of
       ExternalAgentRegisteredState \<Rightarrow> mi_ExternalAgentRegisteredState_InitError errorType now f a
     | ExternalAgentInitErrorState \<Rightarrow> mi_ExternalAgentInitErrorState_InitError f a
     | _ \<Rightarrow> mi_disallowEverything f a)"

definition mi_ExternalAgent_ExitError ::
  "string \<Rightarrow> ns \<Rightarrow> mi_flow \<Rightarrow> ExternalAgent \<Rightarrow> (mi_flow \<times> ExternalAgent) \<times> call_result" where
  "mi_ExternalAgent_ExitError errorType now f a =
    (case ea_currentState a of
       ExternalAgentRegisteredState \<Rightarrow> mi_ExternalAgentRegisteredState_ExitError errorType now f a
     | ExternalAgentReadyState \<Rightarrow> mi_ExternalAgentReadyState_ExitError errorType now f a
     | ExternalAgentRunningState \<Rightarrow> mi_ExternalAgentRunningState_ExitError errorType now f a
     | ExternalAgentExitErrorState \<Rightarrow> mi_ExternalAgentExitErrorState_ExitError f a
     | _ \<Rightarrow> mi_disallowEverything f a)"

definition mi_ExternalAgent_ShutdownFailed ::
  "ns \<Rightarrow> mi_flow \<Rightarrow> ExternalAgent \<Rightarrow> (mi_flow \<times> ExternalAgent) \<times> call_result" where
  "mi_ExternalAgent_ShutdownFailed now f a =
    (case ea_currentState a of
       ExternalAgentRunningState \<Rightarrow> mi_ExternalAgentRunningState_ShutdownFailed now f a
     | _ \<Rightarrow> mi_disallowEverything f a)"

definition mi_ExternalAgent_Exited ::
  "ns \<Rightarrow> mi_flow \<Rightarrow> ExternalAgent \<Rightarrow> (mi_flow \<times> ExternalAgent) \<times> call_result" where
  "mi_ExternalAgent_Exited now f a =
    (case ea_currentState a of
       ExternalAgentRunningState \<Rightarrow> mi_ExternalAgentRunningState_Exited now f a
     | _ \<Rightarrow> mi_disallowEverything f a)"

definition mi_ExternalAgent_LaunchError ::
  "string \<Rightarrow> ns \<Rightarrow> mi_flow \<Rightarrow> ExternalAgent \<Rightarrow> (mi_flow \<times> ExternalAgent) \<times> call_result" where
  "mi_ExternalAgent_LaunchError e now f a =
    (case ea_currentState a of
       ExternalAgentStartedState \<Rightarrow> mi_ExternalAgentStartedState_LaunchError e now f a
     | _ \<Rightarrow> mi_disallowEverything f a)"

definition mi_ExternalAgent_resume ::
  "tid \<Rightarrow> ns \<Rightarrow> mi_flow \<Rightarrow> ExternalAgent \<Rightarrow> (mi_flow \<times> ExternalAgent) \<times> call_result" where
  "mi_ExternalAgent_resume t now' f a =
    (case mt_wake t (ea_ManagedThread a) of
       (mt, Some _) \<Rightarrow> (case ea_after_suspend now' (a\<lparr>ea_ManagedThread := mt\<rparr>) of (a', e) \<Rightarrow> ((f, a'), Returned e))
     | (mt, None) \<Rightarrow> ((f, a\<lparr>ea_ManagedThread := mt\<rparr>), Suspended))"

datatype mi_ea_op =
    MEARegister "Event list" | MEAReady tid | MEAInitError string | MEAExitError string
  | MEAShutdownFailed | MEAExited | MEALaunchError string | MEARelease nat | MEAResume tid

fun mi_ea_exec :: "mi_ea_op \<Rightarrow> ns \<Rightarrow> ns \<Rightarrow> mi_flow \<Rightarrow> ExternalAgent \<Rightarrow> (mi_flow \<times> ExternalAgent) \<times> call_result" where
  "mi_ea_exec (MEARegister es) now now' f a = mi_ExternalAgent_Register es now f a"
| "mi_ea_exec (MEAReady t) now now' f a = mi_ExternalAgent_Ready t now now' f a"
| "mi_ea_exec (MEAInitError er) now now' f a = mi_ExternalAgent_InitError er now f a"
| "mi_ea_exec (MEAExitError er) now now' f a = mi_ExternalAgent_ExitError er now f a"
| "mi_ea_exec MEAShutdownFailed now now' f a = mi_ExternalAgent_ShutdownFailed now f a"
| "mi_ea_exec MEAExited now now' f a = mi_ExternalAgent_Exited now f a"
| "mi_ea_exec (MEALaunchError e) now now' f a = mi_ExternalAgent_LaunchError e now f a"
| "mi_ea_exec (MEARelease pick) now now' f a = ((f, ExternalAgent_Release pick a), Returned None)"
| "mi_ea_exec (MEAResume t) now now' f a = mi_ExternalAgent_resume t now' f a"

section \<open>Internal agents\<close>

definition mi_InternalAgentStartedState_Register ::
  "Event list \<Rightarrow> ns \<Rightarrow> mi_flow \<Rightarrow> InternalAgent \<Rightarrow> (mi_flow \<times> InternalAgent) \<times> call_result" where
  "mi_InternalAgentStartedState_Register es now f a =
    ((f, ia_setStateUnsafe InternalAgentRegisteredState now a), Returned None)"

definition mi_ia_suspend :: "tid \<Rightarrow> ns \<Rightarrow> mi_flow \<Rightarrow> InternalAgent \<Rightarrow> (mi_flow \<times> InternalAgent) \<times> call_result" where
  "mi_ia_suspend t now' f a =
    (case SuspendUnsafe t () (ia_ManagedThread a) of
       (mt, True) \<Rightarrow> (case ia_after_suspend now' (a\<lparr>ia_ManagedThread := mt\<rparr>) of (a', e) \<Rightarrow> ((f, a'), Returned e))
     | (mt, False) \<Rightarrow> ((f, a\<lparr>ia_ManagedThread := mt\<rparr>), Suspended))"

definition mi_InternalAgentRegisteredState_Ready ::
  "tid \<Rightarrow> ns \<Rightarrow> ns \<Rightarrow> mi_flow \<Rightarrow> InternalAgent \<Rightarrow> (mi_flow \<times> InternalAgent) \<times> call_result" where
  "mi_InternalAgentRegisteredState_Ready t now now' f a =
    mi_ia_suspend t now' (fst (mi_AgentReady f))
      (ia_setStateUnsafe InternalAgentReadyState now a)"

definition mi_ia_fail :: "InternalAgentState \<Rightarrow> string \<Rightarrow> ns \<Rightarrow> mi_flow \<Rightarrow> InternalAgent \<Rightarrow> (mi_flow \<times> InternalAgent) \<times> call_result" where
  "mi_ia_fail st errorType now f a =
    ((f, (ia_setStateUnsafe st now a)\<lparr>ia_errorType := errorType\<rparr>), Returned None)"

definition mi_InternalAgentRegisteredState_InitError ::
  "string \<Rightarrow> ns \<Rightarrow> mi_flow \<Rightarrow> InternalAgent \<Rightarrow> (mi_flow \<times> InternalAgent) \<times> call_result" where
  "mi_InternalAgentRegisteredState_InitError = mi_ia_fail InternalAgentInitErrorState"

definition mi_InternalAgentRegisteredState_ExitError ::
  "string \<Rightarrow> ns \<Rightarrow> mi_flow \<Rightarrow> InternalAgent \<Rightarrow> (mi_flow \<times> InternalAgent) \<times> call_result" where
  "mi_InternalAgentRegisteredState_ExitError = mi_ia_fail InternalAgentExitErrorState"

definition mi_InternalAgentReadyState_ExitError ::
  "string \<Rightarrow> ns \<Rightarrow> mi_flow \<Rightarrow> InternalAgent \<Rightarrow> (mi_flow \<times> InternalAgent) \<times> call_result" where
  "mi_InternalAgentReadyState_ExitError = mi_ia_fail InternalAgentExitErrorState"

definition mi_InternalAgentRunningState_ExitError ::
  "string \<Rightarrow> ns \<Rightarrow> mi_flow \<Rightarrow> InternalAgent \<Rightarrow> (mi_flow \<times> InternalAgent) \<times> call_result" where
  "mi_InternalAgentRunningState_ExitError = mi_ia_fail InternalAgentExitErrorState"


definition mi_InternalAgentRunningState_Ready ::
  "tid \<Rightarrow> ns \<Rightarrow> ns \<Rightarrow> mi_flow \<Rightarrow> InternalAgent \<Rightarrow> (mi_flow \<times> InternalAgent) \<times> call_result" where
  "mi_InternalAgentRunningState_Ready t now now' f a =
    mi_ia_suspend t now' f
      (ia_setStateUnsafe InternalAgentReadyState now a)"

definition mi_InternalAgentInitErrorState_InitError ::
  "mi_flow \<Rightarrow> InternalAgent \<Rightarrow> (mi_flow \<times> InternalAgent) \<times> call_result" where
  "mi_InternalAgentInitErrorState_InitError f a = ((f, a), Returned None)"

definition mi_InternalAgentExitErrorState_ExitError ::
  "mi_flow \<Rightarrow> InternalAgent \<Rightarrow> (mi_flow \<times> InternalAgent) \<times> call_result" where
  "mi_InternalAgentExitErrorState_ExitError f a = ((f, a), Returned None)"

text \<open>Dispatch on the current state.\<close>

definition mi_InternalAgent_Register ::
  "Event list \<Rightarrow> ns \<Rightarrow> mi_flow \<Rightarrow> InternalAgent \<Rightarrow> (mi_flow \<times> InternalAgent) \<times> call_result" where
  "mi_InternalAgent_Register es now f a =
    (case ia_currentState a of
       InternalAgentStartedState \<Rightarrow> mi_InternalAgentStartedState_Register es now f a
     | _ \<Rightarrow> mi_disallowEverything f a)"

definition mi_InternalAgent_Ready ::
  "tid \<Rightarrow> ns \<Rightarrow> ns \<Rightarrow> mi_flow \<Rightarrow> InternalAgent \<Rightarrow> (mi_flow \<times> InternalAgent) \<times> call_result" where
  "mi_InternalAgent_Ready t now now' f a =
    (case ia_currentState a of
       InternalAgentRegisteredState \<Rightarrow> mi_InternalAgentRegisteredState_Ready t now now' f a
     | InternalAgentRunningState \<Rightarrow> mi_InternalAgentRunningState_Ready t now now' f a
     | _ \<Rightarrow> mi_disallowEverything f a)"

definition mi_InternalAgent_InitError ::
  "string \<Rightarrow> ns \<Rightarrow> mi_flow \<Rightarrow> InternalAgent \<Rightarrow> (mi_flow \<times> InternalAgent) \<times> call_result" where
  "mi_InternalAgent_InitError errorType now f a =
    (case ia_currentState a of
       InternalAgentRegisteredState \<Rightarrow> mi_InternalAgentRegisteredState_InitError errorType now f a
     | InternalAgentInitErrorState \<Rightarrow> mi_InternalAgentInitErrorState_InitError f a
     | _ \<Rightarrow> mi_disallowEverything f a)"

definition mi_InternalAgent_ExitError ::
  "string \<Rightarrow> ns \<Rightarrow> mi_flow \<Rightarrow> InternalAgent \<Rightarrow> (mi_flow \<times> InternalAgent) \<times> call_result" where
  "mi_InternalAgent_ExitError errorType now f a =
    (case ia_currentState a of
       InternalAgentRegisteredState \<Rightarrow> mi_InternalAgentRegisteredState_ExitError errorType now f a
     | InternalAgentReadyState \<Rightarrow> mi_InternalAgentReadyState_ExitError errorType now f a
     | InternalAgentRunningState \<Rightarrow> mi_InternalAgentRunningState_ExitError errorType now f a
     | InternalAgentExitErrorState \<Rightarrow> mi_InternalAgentExitErrorState_ExitError f a
     | _ \<Rightarrow> mi_disallowEverything f a)"

definition mi_InternalAgent_resume ::
  "tid \<Rightarrow> ns \<Rightarrow> mi_flow \<Rightarrow> InternalAgent \<Rightarrow> (mi_flow \<times> InternalAgent) \<times> call_result" where
  "mi_InternalAgent_resume t now' f a =
    (case mt_wake t (ia_ManagedThread a) of
       (mt, Some _) \<Rightarrow> (case ia_after_suspend now' (a\<lparr>ia_ManagedThread := mt\<rparr>) of (a', e) \<Rightarrow> ((f, a'), Returned e))
     | (mt, None) \<Rightarrow> ((f, a\<lparr>ia_ManagedThread := mt\<rparr>), Suspended))"

datatype mi_ia_op =
    MIARegister "Event list" | MIAReady tid | MIAInitError string | MIAExitError string | MIARelease nat | MIAResume tid

fun mi_ia_exec :: "mi_ia_op \<Rightarrow> ns \<Rightarrow> ns \<Rightarrow> mi_flow \<Rightarrow> InternalAgent \<Rightarrow> (mi_flow \<times> InternalAgent) \<times> call_result" where
  "mi_ia_exec (MIARegister es) now now' f a = mi_InternalAgent_Register es now f a"
| "mi_ia_exec (MIAReady t) now now' f a = mi_InternalAgent_Ready t now now' f a"
| "mi_ia_exec (MIAInitError er) now now' f a = mi_InternalAgent_InitError er now f a"
| "mi_ia_exec (MIAExitError er) now now' f a = mi_InternalAgent_ExitError er now f a"
| "mi_ia_exec (MIARelease pick) now now' f a = ((f, InternalAgent_Release pick a), Returned None)"
| "mi_ia_exec (MIAResume t) now now' f a = mi_InternalAgent_resume t now' f a"

section \<open>Agents maps\<close>

text \<open>One generic structure serves both kinds of agents; \<open>name\<close> and \<open>ident\<close> are the methods of the \<open>Agent\<close> constraint.\<close>

record AgentsMap =
  am_byName :: "(string \<times> ref) list"
  am_byID :: "(string \<times> ref) list"

definition NewAgentsMap :: AgentsMap where
  "NewAgentsMap = \<lparr>am_byName = [], am_byID = []\<rparr>"

definition AgentsMap_FindByName :: "string \<Rightarrow> AgentsMap \<Rightarrow> ref option" where
  "AgentsMap_FindByName name m = map_of (am_byName m) name"

definition AgentsMap_FindByID :: "UUID \<Rightarrow> AgentsMap \<Rightarrow> ref option" where
  "AgentsMap_FindByID i m = map_of (am_byID m) i"

definition AgentsMap_Insert ::
  "('a \<Rightarrow> string) \<Rightarrow> ('a \<Rightarrow> UUID) \<Rightarrow> 'a list \<Rightarrow> ref \<Rightarrow> AgentsMap \<Rightarrow> AgentsMap \<times> go_error option" where
  "AgentsMap_Insert name ident h a m =
    (if AgentsMap_FindByName (name (h ! a)) m \<noteq> None then (m, Some ErrAgentNameCollision)
     else if AgentsMap_FindByID (ident (h ! a)) m \<noteq> None then (m, Some ErrAgentIDCollision)
     else (m\<lparr>am_byName := go_map_set (name (h ! a)) a (am_byName m),
             am_byID := go_map_set (ident (h ! a)) a (am_byID m)\<rparr>, None))"

definition AgentsMap_Visit :: "(ref \<Rightarrow> 'b \<Rightarrow> 'b) \<Rightarrow> AgentsMap \<Rightarrow> 'b \<Rightarrow> 'b" where
  "AgentsMap_Visit cb m acc = fold cb (map snd (am_byName m)) acc"

definition AgentsMap_Size :: "AgentsMap \<Rightarrow> nat" where
  "AgentsMap_Size m = length (am_byName m)"

definition AgentsMap_Clear :: "AgentsMap \<Rightarrow> AgentsMap" where
  "AgentsMap_Clear m = m\<lparr>am_byName := [], am_byID := []\<rparr>"

interpretation am: agent_index name ident am_byName am_byID "AgentsMap_Insert name ident" for name ident
  by unfold_locales (simp_all add: AgentsMap_Insert_def AgentsMap_FindByName_def AgentsMap_FindByID_def)

section \<open>The registration service\<close>

definition ErrorAgentPermissionDenied :: string where "ErrorAgentPermissionDenied = ''PermissionDenied''"
definition ErrorAgentTooManyExtensions :: string where "ErrorAgentTooManyExtensions = ''TooManyExtensions''"
definition ErrorAgentExtensionLaunch :: string where "ErrorAgentExtensionLaunch = ''Extension.LaunchError''"

definition mi_MapErrorToAgentInfoErrorType :: "go_error \<Rightarrow> string" where
  "mi_MapErrorToAgentInfoErrorType e =
    (if e = ErrPermission then ErrorAgentPermissionDenied
     else if e = ErrTooManyExtensions then ErrorAgentTooManyExtensions
     else ErrorAgentExtensionLaunch)"

record mi_reg =
  mr_runtimes :: "Runtime list"
  mr_extAgents :: "ExternalAgent list"
  mr_intAgents :: "InternalAgent list"
  mr_runtime :: "ref option"
  mr_internalAgents :: AgentsMap
  mr_externalAgents :: AgentsMap
  mr_state :: registrationServiceState
  mr_initFlow :: mi_flow
  mr_functionMetadata :: FunctionMetadata
  mr_cancelOnce :: bool

definition mi_NewRegistrationService :: "mi_flow \<Rightarrow> mi_reg" where
  "mi_NewRegistrationService f =
    \<lparr>mr_runtimes = [], mr_extAgents = [], mr_intAgents = [], mr_runtime = None,
     mr_internalAgents = NewAgentsMap, mr_externalAgents = NewAgentsMap,
     mr_state = registrationServiceOn, mr_initFlow = f, mr_functionMetadata = zero_metadata, mr_cancelOnce = False\<rparr>"

definition mi_reg_Clear :: "mi_reg \<Rightarrow> mi_reg" where
  "mi_reg_Clear s = s\<lparr>mr_runtime := None, mr_internalAgents := AgentsMap_Clear (mr_internalAgents s),
     mr_externalAgents := AgentsMap_Clear (mr_externalAgents s), mr_state := registrationServiceOn, mr_cancelOnce := False\<rparr>"

definition mi_countAgentsUnsafe :: "mi_reg \<Rightarrow> int" where
  "mi_countAgentsUnsafe s =
    AgentsMap_Visit (\<lambda>a res. res + 1) (mr_internalAgents s) (AgentsMap_Visit (\<lambda>a res. res + 1) (mr_externalAgents s) 0)"

definition mi_CountAgents :: "mi_reg \<Rightarrow> int" where
  "mi_CountAgents s = mi_countAgentsUnsafe s"

definition mi_GetExternalAgents :: "mi_reg \<Rightarrow> ref list" where
  "mi_GetExternalAgents s = AgentsMap_Visit (\<lambda>a agents. agents @ [a]) (mr_externalAgents s) []"

definition mi_GetInternalAgents :: "mi_reg \<Rightarrow> ref list" where
  "mi_GetInternalAgents s = AgentsMap_Visit (\<lambda>a agents. agents @ [a]) (mr_internalAgents s) []"

definition mi_GetSubscribedExternalAgents :: "Event \<Rightarrow> mi_reg \<Rightarrow> ref list" where
  "mi_GetSubscribedExternalAgents ev s =
    AgentsMap_Visit (\<lambda>a agents. if ExternalAgent_IsSubscribed ev (mr_extAgents s ! a) then agents @ [a] else agents)
      (mr_externalAgents s) []"

definition mi_CreateExternalAgent :: "string \<Rightarrow> UUID \<Rightarrow> ns \<Rightarrow> mi_reg \<Rightarrow> mi_reg \<times> (go_error + ref)" where
  "mi_CreateExternalAgent agentName newID now s =
    (let agent = length (mr_extAgents s);
         s = s\<lparr>mr_extAgents := mr_extAgents s @ [NewExternalAgent agentName newID now]\<rparr>
     in if mr_state s \<noteq> registrationServiceOn then (s, Inl ErrRegistrationServiceOff)
        else if AgentsMap_FindByName agentName (mr_internalAgents s) \<noteq> None then (s, Inl ErrAgentNameCollision)
        else (case AgentsMap_Insert ea_Name ea_ID (mr_extAgents s) agent (mr_externalAgents s) of
                (m, Some e) \<Rightarrow> (s\<lparr>mr_externalAgents := m\<rparr>, Inl e)
              | (m, None) \<Rightarrow> (s\<lparr>mr_externalAgents := m\<rparr>, Inr agent)))"

definition mi_CreateInternalAgent :: "string \<Rightarrow> UUID \<Rightarrow> ns \<Rightarrow> mi_reg \<Rightarrow> mi_reg \<times> (go_error + ref)" where
  "mi_CreateInternalAgent agentName newID now s =
    (let agent = length (mr_intAgents s);
         s = s\<lparr>mr_intAgents := mr_intAgents s @ [NewInternalAgent agentName newID now]\<rparr>
     in if mr_state s \<noteq> registrationServiceOn then (s, Inl ErrRegistrationServiceOff)
        else if mi_countAgentsUnsafe s \<ge> MaxAgentsAllowed then (s, Inl ErrTooManyExtensions)
        else if AgentsMap_FindByName agentName (mr_externalAgents s) \<noteq> None then (s, Inl ErrAgentNameCollision)
        else (case AgentsMap_Insert ia_Name ia_ID (mr_intAgents s) agent (mr_internalAgents s) of
                (m, Some e) \<Rightarrow> (s\<lparr>mr_internalAgents := m\<rparr>, Inl e)
              | (m, None) \<Rightarrow> (s\<lparr>mr_internalAgents := m\<rparr>, Inr agent)))"

definition mi_PreregisterRuntime :: "ref \<Rightarrow> mi_reg \<Rightarrow> mi_reg \<times> go_error option" where
  "mi_PreregisterRuntime r s =
    (if mr_state s \<noteq> registrationServiceOn then (s, Some ErrRegistrationServiceOff)
     else (s\<lparr>mr_runtime := Some r\<rparr>, None))"

definition mi_SetFunctionMetadata :: "FunctionMetadata \<Rightarrow> mi_reg \<Rightarrow> mi_reg" where
  "mi_SetFunctionMetadata md s = s\<lparr>mr_functionMetadata := md\<rparr>"

definition mi_GetRegisteredAgentsSize :: "mi_reg \<Rightarrow> 16 word" where
  "mi_GetRegisteredAgentsSize s =
    of_nat (AgentsMap_Size (mr_externalAgents s)) + of_nat (AgentsMap_Size (mr_internalAgents s))"

definition mi_FindExternalAgentByName :: "string \<Rightarrow> mi_reg \<Rightarrow> ref option" where
  "mi_FindExternalAgentByName name s = AgentsMap_FindByName name (mr_externalAgents s)"

definition mi_FindInternalAgentByName :: "string \<Rightarrow> mi_reg \<Rightarrow> ref option" where
  "mi_FindInternalAgentByName name s = AgentsMap_FindByName name (mr_internalAgents s)"

definition mi_FindExternalAgentByID :: "UUID \<Rightarrow> mi_reg \<Rightarrow> ref option" where
  "mi_FindExternalAgentByID i s = AgentsMap_FindByID i (mr_externalAgents s)"

definition mi_FindInternalAgentByID :: "UUID \<Rightarrow> mi_reg \<Rightarrow> ref option" where
  "mi_FindInternalAgentByID i s = AgentsMap_FindByID i (mr_internalAgents s)"

definition mi_AgentsInfo :: "mi_reg \<Rightarrow> AgentInfo list" where
  "mi_AgentsInfo s =
    map (\<lambda>r. let a = mr_extAgents s ! r in
      \<lparr>ai_Name = ea_Name a, ai_State = ExternalAgentState_Name (ExternalAgent_GetState a),
       ai_Subscriptions = ExternalAgent_SubscribedEvents a, ai_ErrorType = ExternalAgent_ErrorType a\<rparr>)
      (mi_GetExternalAgents s)
    @ map (\<lambda>r. let a = mr_intAgents s ! r in
      \<lparr>ai_Name = ia_Name a, ai_State = InternalAgentState_Name (InternalAgent_GetState a),
       ai_Subscriptions = [], ai_ErrorType = InternalAgent_ErrorType a\<rparr>)
      (mi_GetInternalAgents s)"

definition mi_TurnOff :: "mi_reg \<Rightarrow> mi_reg" where
  "mi_TurnOff s = s\<lparr>mr_state := registrationServiceOff\<rparr>"

definition mi_CancelFlows :: "go_error option \<Rightarrow> mi_reg \<Rightarrow> mi_reg" where
  "mi_CancelFlows e s =
    (if mr_cancelOnce s then s
     else s\<lparr>mr_cancelOnce := True, mr_initFlow := mi_flow_CancelWithError e (mr_initFlow s)\<rparr>)"

text \<open>Methods of a registered agent, called through the pointer \<open>a\<close>.\<close>

definition mi_ext_call :: "mi_ea_op \<Rightarrow> ns \<Rightarrow> ns \<Rightarrow> ref \<Rightarrow> mi_reg \<Rightarrow> mi_reg \<times> call_result" where
  "mi_ext_call q now now' a s =
    (case mi_ea_exec q now now' (mr_initFlow s) (mr_extAgents s ! a) of
       ((f, ag), c) \<Rightarrow> (s\<lparr>mr_initFlow := f, mr_extAgents := (mr_extAgents s)[a := ag]\<rparr>, c))"

definition mi_int_call :: "mi_ia_op \<Rightarrow> ns \<Rightarrow> ns \<Rightarrow> ref \<Rightarrow> mi_reg \<Rightarrow> mi_reg \<times> call_result" where
  "mi_int_call q now now' a s =
    (case mi_ia_exec q now now' (mr_initFlow s) (mr_intAgents s ! a) of
       ((f, ag), c) \<Rightarrow> (s\<lparr>mr_initFlow := f, mr_intAgents := (mr_intAgents s)[a := ag]\<rparr>, c))"

definition mi_runtime_InitError :: "ns \<Rightarrow> ref \<Rightarrow> mi_reg \<Rightarrow> mi_reg \<times> call_result" where
  "mi_runtime_InitError now r s =
    (case mi_Runtime_InitError now (mr_initFlow s) (mr_runtimes s ! r) of
       ((f, rt), c) \<Rightarrow> (s\<lparr>mr_initFlow := f, mr_runtimes := (mr_runtimes s)[r := rt]\<rparr>, c))"

section \<open>Agreement with the agents of the other package\<close>

text \<open>The gates this flow shares with the init flow of \<open>internal/lambda/core\<close>; no walk carries a value.\<close>

definition mi_flow_of :: "flows \<Rightarrow> mi_flow" where
  "mi_flow_of f =
    \<lparr>mf_externalAgentsRegisteredGate = \<lparr>vg_gate = externalAgentsRegisteredGate (initFlow f), vg_value = None\<rparr>,
     mf_runtimeReadyGate = \<lparr>vg_gate = init_runtimeReadyGate (initFlow f), vg_value = None\<rparr>,
     mf_agentReadyGate = \<lparr>vg_gate = init_agentReadyGate (initFlow f), vg_value = None\<rparr>\<rparr>"

fun mi_op_of :: "ea_op \<Rightarrow> mi_ea_op" where
  "mi_op_of (EARegister es) = MEARegister es"
| "mi_op_of (EAReady t) = MEAReady t"
| "mi_op_of (EAInitError er) = MEAInitError er"
| "mi_op_of (EAExitError er) = MEAExitError er"
| "mi_op_of EAShutdownFailed = MEAShutdownFailed"
| "mi_op_of EAExited = MEAExited"
| "mi_op_of (EALaunchError e) = MEALaunchError (MapErrorToAgentInfoErrorType e)"
| "mi_op_of (EARelease pick) = MEARelease pick"
| "mi_op_of (EAResume t) = MEAResume t"

fun mi_view :: "(flows \<times> 'a) \<times> 'c \<Rightarrow> (mi_flow \<times> 'a) \<times> 'c" where
  "mi_view ((f, a), c) = ((mi_flow_of f, a), c)"

fun no_invoke_event :: "ea_op \<Rightarrow> bool" where
  "no_invoke_event (EARegister es) = (InvokeEvent \<notin> set es)"
| "no_invoke_event q = True"

lemmas mi_ea_method_defs =
  mi_ExternalAgent_Register_def mi_ExternalAgent_Ready_def mi_ExternalAgent_InitError_def
  mi_ExternalAgent_ExitError_def mi_ExternalAgent_ShutdownFailed_def mi_ExternalAgent_Exited_def
  mi_ExternalAgent_LaunchError_def mi_ExternalAgentStartedState_Register_def
  mi_ExternalAgentStartedState_LaunchError_def mi_ExternalAgentRegisteredState_Ready_def
  mi_ExternalAgentRegisteredState_InitError_def mi_ExternalAgentRegisteredState_ExitError_def
  mi_ExternalAgentReadyState_ExitError_def mi_ExternalAgentRunningState_ExitError_def
  mi_ExternalAgentRunningState_Ready_def mi_ExternalAgentRunningState_ShutdownFailed_def
  mi_ExternalAgentRunningState_Exited_def mi_ExternalAgentInitErrorState_InitError_def
  mi_ExternalAgentExitErrorState_ExitError_def mi_disallowEverything_def mi_ea_fail_def

lemma mi_flow_of_walks:
  "mi_AgentReady (mi_flow_of f) = (mi_flow_of (f\<lparr>initFlow := fst (init_AgentReady (initFlow f))\<rparr>), snd (init_AgentReady (initFlow f)))"
  "mi_ExternalAgentRegistered (mi_flow_of f) =
    (mi_flow_of (f\<lparr>initFlow := fst (ExternalAgentRegistered (initFlow f))\<rparr>), snd (ExternalAgentRegistered (initFlow f)))"
  "mi_flow_of (f\<lparr>invokeFlow := v\<rparr>) = mi_flow_of f"
  by (simp_all add: mi_flow_of_def mi_AgentReady_def mi_ExternalAgentRegistered_def init_AgentReady_def
      ExternalAgentRegistered_def mi_WalkThrough_def WalkThrough_def)

lemma mi_subscribe_agrees: "InvokeEvent \<notin> set es \<Longrightarrow> mi_ea_subscribe_all es a = ea_subscribe_all es a"
  by (induction es arbitrary: a)
    (auto simp: mi_ea_subscribeUnsafe_def ea_subscribeUnsafe_def mi_ValidateExternalAgentEvent_def ValidateExternalAgentEvent_def)

lemma mi_suspend_agrees:
  "mi_ea_suspend t now (mi_flow_of f) a = mi_view (ea_suspend t now f a)"
  by (simp add: mi_ea_suspend_def ea_suspend_def SuspendUnsafe_def split: prod.splits)

lemma mi_ready_agrees:
  "mi_ExternalAgent_Ready t now now' (mi_flow_of f) a = mi_view (ExternalAgent_Ready t now now' f a)"
  by (cases "ea_currentState a")
    (simp_all add: mi_ExternalAgent_Ready_def ExternalAgent_Ready_def mi_ExternalAgentRegisteredState_Ready_def
      ExternalAgentRegisteredState_Ready_def mi_ExternalAgentRunningState_Ready_def ExternalAgentRunningState_Ready_def
      mi_flow_of_walks mi_disallowEverything_def disallowEverything_def flip: mi_suspend_agrees)

lemma mi_fail_agrees:
  "mi_ExternalAgent_InitError er now (mi_flow_of f) a = mi_view (ExternalAgent_InitError er now f a)"
  "mi_ExternalAgent_ExitError er now (mi_flow_of f) a = mi_view (ExternalAgent_ExitError er now f a)"
  "mi_ExternalAgent_ShutdownFailed now (mi_flow_of f) a = mi_view (ExternalAgent_ShutdownFailed now f a)"
  "mi_ExternalAgent_Exited now (mi_flow_of f) a = mi_view (ExternalAgent_Exited now f a)"
  "mi_ExternalAgent_LaunchError (MapErrorToAgentInfoErrorType e) now (mi_flow_of f) a =
    mi_view (ExternalAgent_LaunchError e now f a)"
  by (cases "ea_currentState a"; simp add: mi_ea_method_defs ea_method_defs)+

lemma mi_exec_agrees:
  assumes "no_invoke_event q"
  shows "mi_ea_exec (mi_op_of q) now now' (mi_flow_of f) a = mi_view (ea_exec q now now' f a)"
proof (cases q)
  case (EARegister es)
  then show ?thesis using assms mi_subscribe_agrees [of es a]
    by (cases "ea_currentState a"; cases "ea_subscribe_all es a")
      (auto simp: mi_ea_method_defs ea_method_defs mi_flow_of_walks split: option.splits)
next
  case (EAResume t)
  then show ?thesis
    by (cases "mt_wake t (ea_ManagedThread a)")
      (auto simp: mi_ExternalAgent_resume_def ExternalAgent_resume_def split: option.splits prod.splits)
qed (simp_all add: mi_ready_agrees mi_fail_agrees)

text \<open>The calls an agent gets, each with the clock readings it sees, and the answers it gives.\<close>

fun ea_answers :: "(ea_op \<times> ns \<times> ns) list \<Rightarrow> flows \<Rightarrow> ExternalAgent \<Rightarrow> (flows \<times> ExternalAgent) \<times> call_result list" where
  "ea_answers [] f a = ((f, a), [])"
| "ea_answers ((q, now, now') # cs) f a =
    (case ea_exec q now now' f a of ((f, a), c) \<Rightarrow> (case ea_answers cs f a of (s, rs) \<Rightarrow> (s, c # rs)))"

fun mi_ea_answers :: "(mi_ea_op \<times> ns \<times> ns) list \<Rightarrow> mi_flow \<Rightarrow> ExternalAgent \<Rightarrow> (mi_flow \<times> ExternalAgent) \<times> call_result list" where
  "mi_ea_answers [] f a = ((f, a), [])"
| "mi_ea_answers ((q, now, now') # cs) f a =
    (case mi_ea_exec q now now' f a of ((f, a), c) \<Rightarrow> (case mi_ea_answers cs f a of (s, rs) \<Rightarrow> (s, c # rs)))"

text \<open>C15: The two copies of the external-agent machine agree: for every sequence of calls in which no agent
  subscribes to \<open>INVOKE\<close>, the managed-instances agent gives the answers of the agent of \<open>internal/lambda/core\<close>, ends
  as the same object, and leaves the shared gates of the init flow with the same arrivals.\<close>

theorem mi_external_agents_agree:
  assumes "list_all (\<lambda>(q, now, now'). no_invoke_event q) cs"
  shows "mi_ea_answers (map (\<lambda>(q, ts). (mi_op_of q, ts)) cs) (mi_flow_of f) a =
    mi_view (ea_answers cs f a)"
  using assms
proof (induction cs arbitrary: f a)
  case (Cons c cs)
  obtain q now now' where c: "c = (q, now, now')" by (cases c)
  obtain f' a' r where step: "ea_exec q now now' f a = ((f', a'), r)" by (metis prod.exhaust)
  have "mi_ea_exec (mi_op_of q) now now' (mi_flow_of f) a = ((mi_flow_of f', a'), r)"
    using Cons.prems mi_exec_agrees [of q now now' f a] by (simp add: c step)
  moreover have "mi_ea_answers (map (\<lambda>(q, ts). (mi_op_of q, ts)) cs) (mi_flow_of f') a' =
      mi_view (ea_answers cs f' a')"
    by (rule Cons.IH) (use Cons.prems in simp)
  ultimately show ?case by (cases "ea_answers cs f' a'") (auto simp: c step)
qed simp

definition sample_agent_calls :: "(ea_op \<times> ns \<times> ns) list" where
  "sample_agent_calls = [(EARegister [ShutdownEvent], 1, 2), (EAReady 7, 3, 4), (EARelease 0, 5, 6), (EAResume 7, 7, 8),
    (EALaunchError ErrPermission, 9, 10), (EAExited, 11, 12)]"

theorem mi_external_agents_agree_witness:
  "ea_currentState (snd (fst (mi_ea_answers (map (\<lambda>(q, ts). (mi_op_of q, ts)) sample_agent_calls) (mi_flow_of new_flows)
     (NewExternalAgent ''e'' ''id'' 0)))) = ExternalAgentExitedState"
proof -
  have "list_all (\<lambda>(q, now, now'). no_invoke_event q) sample_agent_calls"
    by (simp add: sample_agent_calls_def InvokeEvent_def ShutdownEvent_def)
  from mi_external_agents_agree [OF this, of new_flows "NewExternalAgent ''e'' ''id'' 0"]
  have "ea_currentState (snd (fst (mi_ea_answers (map (\<lambda>(q, ts). (mi_op_of q, ts)) sample_agent_calls) (mi_flow_of new_flows)
      (NewExternalAgent ''e'' ''id'' 0)))) =
    ea_currentState (snd (fst (ea_answers sample_agent_calls new_flows (NewExternalAgent ''e'' ''id'' 0))))"
    by (cases "ea_answers sample_agent_calls new_flows (NewExternalAgent ''e'' ''id'' 0)") auto
  also have "\<dots> = ExternalAgentExitedState" by code_simp
  finally show ?thesis .
qed

end
