(* ===== verification/Runtime_Pool.thy ===== *)
theory Runtime_Pool
  imports Prelude "HOL-Library.Multiset"
begin

text \<open>
  The pool of idle and reserved runtimes of the managed-instances runtime
  (\<open>internal/lambda-managed-instances/invoke/runtime_pool.go\<close>).  A \<open>runningInvoke\<close> is a
  reference.  A reservation owns a timer of \<open>time.AfterFunc\<close>: \<open>timers\<close> keeps the armed ones
  and those that have fired, whose callback (\<open>ExpireReservation\<close>, see
  \<open>InvokeRouter.ReserveIdleRuntime\<close>) is waiting for the pool's mutex; \<open>Stop\<close> disarms a timer and
  cannot recall one that has fired.  Durations are not modelled: an armed timer may fire at any
  moment, so every statement about all runs covers every clock.
\<close>

type_synonym InvokeID = string

datatype pool_error = errTooManyIdleRuntimes | ErrInvokeIdAlreadyExists | ErrInvokeNoReadyRuntime

record reservedEntry =
  re_runtime :: ref
  re_timer :: "nat option"

record RuntimePool =
  rp_idle :: "ref list"
  rp_reserved :: "(InvokeID \<times> reservedEntry) list"
  rp_maxSize :: int

record timers =
  next_timer :: nat
  armed :: "(nat \<times> InvokeID) list"
  fired :: "(nat \<times> InvokeID) list"

definition AfterFunc :: "InvokeID \<Rightarrow> timers \<Rightarrow> nat \<times> timers" where
  "AfterFunc cb ts = (next_timer ts,
     ts\<lparr>next_timer := Suc (next_timer ts), armed := armed ts @ [(next_timer ts, cb)]\<rparr>)"

definition timer_Stop :: "nat \<Rightarrow> timers \<Rightarrow> timers" where
  "timer_Stop t ts = ts\<lparr>armed := go_map_delete t (armed ts)\<rparr>"

text \<open>\<open>make\<close> panics on a negative capacity.\<close>

definition NewRuntimePool :: "int \<Rightarrow> RuntimePool option" where
  "NewRuntimePool maxSize =
    (if maxSize < 0 then None else Some \<lparr>rp_idle = [], rp_reserved = [], rp_maxSize = maxSize\<rparr>)"

definition pool_Add :: "RuntimePool \<Rightarrow> ref \<Rightarrow> pool_error option \<times> RuntimePool" where
  "pool_Add p runtime =
    (if rp_maxSize p \<le> int (length (rp_idle p)) + int (length (rp_reserved p))
     then (Some errTooManyIdleRuntimes, p)
     else (None, p\<lparr>rp_idle := rp_idle p @ [runtime]\<rparr>))"

definition dequeueIdle :: "RuntimePool \<Rightarrow> (pool_error + ref) \<times> RuntimePool" where
  "dequeueIdle p =
    (case rp_idle p of
       [] \<Rightarrow> (Inl ErrInvokeNoReadyRuntime, p)
     | rt # rest \<Rightarrow> (Inr rt, p\<lparr>rp_idle := rest\<rparr>))"

definition pool_Reserve :: "RuntimePool \<Rightarrow> timers \<Rightarrow> InvokeID \<Rightarrow> pool_error option \<times> RuntimePool \<times> timers" where
  "pool_Reserve p ts invokeID =
    (case map_of (rp_reserved p) invokeID of
       Some _ \<Rightarrow> (Some ErrInvokeIdAlreadyExists, p, ts)
     | None \<Rightarrow>
         (case dequeueIdle p of
            (Inl err, p') \<Rightarrow> (Some err, p', ts)
          | (Inr rt, p') \<Rightarrow>
              (let (t, ts') = AfterFunc invokeID ts
               in (None, p'\<lparr>rp_reserved := go_map_set invokeID \<lparr>re_runtime = rt, re_timer = Some t\<rparr> (rp_reserved p')\<rparr>, ts'))))"

definition pool_Acquire :: "RuntimePool \<Rightarrow> timers \<Rightarrow> InvokeID \<Rightarrow> (pool_error + ref \<times> bool) \<times> RuntimePool \<times> timers" where
  "pool_Acquire p ts invokeID =
    (case map_of (rp_reserved p) invokeID of
       Some entry \<Rightarrow>
         (Inr (re_runtime entry, True),
          p\<lparr>rp_reserved := go_map_delete invokeID (rp_reserved p)\<rparr>,
          (case re_timer entry of Some t \<Rightarrow> timer_Stop t ts | None \<Rightarrow> ts))
     | None \<Rightarrow>
         (case dequeueIdle p of
            (Inl err, p') \<Rightarrow> (Inl err, p', ts)
          | (Inr rt, p') \<Rightarrow> (Inr (rt, False), p', ts)))"

definition ExpireReservation :: "RuntimePool \<Rightarrow> InvokeID \<Rightarrow> bool \<times> RuntimePool" where
  "ExpireReservation p invokeID =
    (case map_of (rp_reserved p) invokeID of
       None \<Rightarrow> (False, p)
     | Some entry \<Rightarrow>
         (True, p\<lparr>rp_reserved := go_map_delete invokeID (rp_reserved p),
                 rp_idle := rp_idle p @ [re_runtime entry]\<rparr>))"

record RuntimePoolCounts =
  cnt_Idle :: int
  cnt_Reserved :: int
  cnt_Total :: int

definition pool_Counts :: "RuntimePool \<Rightarrow> RuntimePoolCounts" where
  "pool_Counts p =
    (let idle = int (length (rp_idle p)); reserved = int (length (rp_reserved p))
     in \<lparr>cnt_Idle = idle, cnt_Reserved = reserved, cnt_Total = idle + reserved\<rparr>)"

definition ReservedCount :: "RuntimePool \<Rightarrow> int" where
  "ReservedCount p = int (length (rp_reserved p))"

lemmas pool_defs = pool_Add_def dequeueIdle_def pool_Reserve_def pool_Acquire_def
  ExpireReservation_def AfterFunc_def timer_Stop_def

section \<open>Runs of the pool\<close>

text \<open>
  A run interleaves the calls of the pool's methods (each atomic under the mutex), the firing of
  timers and the callbacks of fired timers.  \<open>ps_added\<close> and \<open>ps_taken\<close> record the runtimes that
  were accepted by \<open>Add\<close> and handed out by \<open>Acquire\<close> with the invoke they were handed to.
\<close>

record pool_sys =
  ps_pool :: RuntimePool
  ps_timers :: timers
  ps_added :: "ref list"
  ps_taken :: "(InvokeID \<times> ref \<times> bool) list"

datatype pool_op = PAdd ref | PReserve InvokeID | PAcquire InvokeID | PFire nat | PCallback nat

fun pool_step :: "pool_op \<Rightarrow> pool_sys \<Rightarrow> pool_sys" where
  "pool_step (PAdd r) s =
    (case pool_Add (ps_pool s) r of
       (None, p) \<Rightarrow> s\<lparr>ps_pool := p, ps_added := ps_added s @ [r]\<rparr>
     | (Some _, p) \<Rightarrow> s\<lparr>ps_pool := p\<rparr>)"
| "pool_step (PReserve i) s =
    (case pool_Reserve (ps_pool s) (ps_timers s) i of (_, p, ts) \<Rightarrow> s\<lparr>ps_pool := p, ps_timers := ts\<rparr>)"
| "pool_step (PAcquire i) s =
    (case pool_Acquire (ps_pool s) (ps_timers s) i of
       (Inr (r, b), p, ts) \<Rightarrow> s\<lparr>ps_pool := p, ps_timers := ts, ps_taken := ps_taken s @ [(i, r, b)]\<rparr>
     | (Inl _, p, ts) \<Rightarrow> s\<lparr>ps_pool := p, ps_timers := ts\<rparr>)"
| "pool_step (PFire t) s =
    (case map_of (armed (ps_timers s)) t of
       None \<Rightarrow> s
     | Some i \<Rightarrow> s\<lparr>ps_timers := (ps_timers s)\<lparr>armed := go_map_delete t (armed (ps_timers s)),
                                   fired := fired (ps_timers s) @ [(t, i)]\<rparr>\<rparr>)"
| "pool_step (PCallback t) s =
    (case map_of (fired (ps_timers s)) t of
       None \<Rightarrow> s
     | Some i \<Rightarrow> s\<lparr>ps_pool := snd (ExpireReservation (ps_pool s) i),
                   ps_timers := (ps_timers s)\<lparr>fired := go_map_delete t (fired (ps_timers s))\<rparr>\<rparr>)"

fun pool_run :: "pool_op list \<Rightarrow> pool_sys \<Rightarrow> pool_sys" where
  "pool_run [] s = s"
| "pool_run (x # xs) s = pool_run xs (pool_step x s)"

definition pool_start :: "RuntimePool \<Rightarrow> pool_sys" where
  "pool_start p = \<lparr>ps_pool = p, ps_timers = \<lparr>next_timer = 0, armed = [], fired = []\<rparr>, ps_added = [], ps_taken = []\<rparr>"

section \<open>No runtime is lost or handed out twice\<close>

definition reserved_runtimes :: "RuntimePool \<Rightarrow> ref list" where
  "reserved_runtimes p = map (re_runtime \<circ> snd) (rp_reserved p)"

definition taken_runtimes :: "pool_sys \<Rightarrow> ref list" where
  "taken_runtimes s = map (\<lambda>(_, r, _). r) (ps_taken s)"

definition pool_inv :: "pool_sys \<Rightarrow> bool" where
  "pool_inv s =
    (let p = ps_pool s
     in go_map_ok (rp_reserved p) \<and>
        int (length (rp_idle p)) + int (length (rp_reserved p)) \<le> rp_maxSize p \<and>
        mset (ps_added s) = mset (rp_idle p) + mset (reserved_runtimes p) + mset (taken_runtimes s))"

lemma mset_go_map_delete:
  "go_map_ok m \<Longrightarrow> map_of m k = Some v \<Longrightarrow> mset (map f m) = add_mset (f (k, v)) (mset (map f (go_map_delete k m)))"
proof (induction m)
  case (Cons p m)
  obtain k' v' where p: "p = (k', v')" by (cases p)
  show ?case
  proof (cases "k = k'")
    case True
    then have "go_map_delete k m = m" using Cons.prems p
      by (intro go_map_delete_fresh) (auto simp: go_map_ok_def)
    then show ?thesis using True Cons.prems p by simp
  next
    case False
    then show ?thesis using Cons p by (simp add: go_map_ok_def)
  qed
qed simp

lemma length_go_map_delete:
  "go_map_ok m \<Longrightarrow> map_of m k = Some v \<Longrightarrow> length m = Suc (length (go_map_delete k m))"
  using arg_cong [OF mset_go_map_delete [of m k v "\<lambda>_. ()"], of size] by simp

lemma pool_inv_step: "pool_inv s \<Longrightarrow> pool_inv (pool_step x s)"
proof (cases x)
  case (PAdd r)
  then show "pool_inv s \<Longrightarrow> ?thesis"
    by (auto simp: pool_inv_def pool_Add_def Let_def reserved_runtimes_def taken_runtimes_def)
next
  case (PReserve i)
  then show "pool_inv s \<Longrightarrow> ?thesis"
    by (auto simp: pool_inv_def pool_Reserve_def dequeueIdle_def AfterFunc_def Let_def reserved_runtimes_def
        taken_runtimes_def go_map_set_fresh map_of_None_iff_mem split: option.splits list.splits)
next
  case (PAcquire i)
  then show "pool_inv s \<Longrightarrow> ?thesis"
    using length_go_map_delete [of "rp_reserved (ps_pool s)" i]
      mset_go_map_delete [of "rp_reserved (ps_pool s)" i _ "re_runtime \<circ> snd"]
    by (auto simp: pool_inv_def pool_Acquire_def dequeueIdle_def Let_def reserved_runtimes_def
        taken_runtimes_def split: option.splits list.splits)
next
  case (PFire t)
  then show "pool_inv s \<Longrightarrow> ?thesis"
    by (auto simp: pool_inv_def Let_def taken_runtimes_def split: option.splits)
next
  case (PCallback t)
  then show "pool_inv s \<Longrightarrow> ?thesis"
    using length_go_map_delete [of "rp_reserved (ps_pool s)"]
      mset_go_map_delete [of "rp_reserved (ps_pool s)" _ _ "re_runtime \<circ> snd"]
    by (fastforce simp: pool_inv_def ExpireReservation_def Let_def reserved_runtimes_def
        taken_runtimes_def split: option.splits)
qed

lemma pool_inv_run: "pool_inv s \<Longrightarrow> pool_inv (pool_run xs s)"
  by (induction xs arbitrary: s) (simp_all add: pool_inv_step)

lemma pool_maxSize_run [simp]: "rp_maxSize (ps_pool (pool_run xs s)) = rp_maxSize (ps_pool s)"
proof (induction xs arbitrary: s)
  case (Cons x xs)
  have "rp_maxSize (ps_pool (pool_step x s)) = rp_maxSize (ps_pool s)"
    by (cases x) (auto simp: pool_defs Let_def split: option.splits list.splits)
  then show ?case using Cons by simp
qed simp

lemma pool_inv_start: "NewRuntimePool n = Some p \<Longrightarrow> pool_inv (pool_start p)"
  by (auto simp: NewRuntimePool_def pool_inv_def pool_start_def Let_def reserved_runtimes_def
      taken_runtimes_def split: if_splits)

text \<open>The pool neither loses nor duplicates a runtime.  In every interleaving of additions,
  reservations, acquisitions, timer expiries and late expiry callbacks on a new pool, the runtimes
  accepted are exactly, with multiplicity, those idle, those reserved and those handed out, at most
  one reservation exists per invoke, and idle and reserved runtimes together never exceed the
  configured size.\<close>

theorem pool_conserves_runtimes:
  assumes "NewRuntimePool maxSize = Some p"
  shows "let s = pool_run ops (pool_start p)
         in mset (ps_added s) = mset (rp_idle (ps_pool s)) + mset (reserved_runtimes (ps_pool s)) + mset (taken_runtimes s) \<and>
            distinct (map fst (rp_reserved (ps_pool s))) \<and>
            cnt_Total (pool_Counts (ps_pool s)) \<le> maxSize"
proof -
  have m: "rp_maxSize p = maxSize" using assms by (auto simp: NewRuntimePool_def split: if_splits)
  have "pool_inv (pool_run ops (pool_start p))" using assms by (intro pool_inv_run pool_inv_start)
  moreover have "rp_maxSize (ps_pool (pool_run ops (pool_start p))) = maxSize" using m
    by (simp add: pool_start_def)
  ultimately show ?thesis by (simp add: pool_inv_def Let_def go_map_ok_def pool_Counts_def)
qed

theorem pool_conserves_runtimes_witness:
  "let s = pool_run [PAdd 7, PAdd 8, PAdd 9, PReserve ''i'', PFire 0, PCallback 0, PAcquire ''j'']
             (pool_start \<lparr>rp_idle = [], rp_reserved = [], rp_maxSize = 2\<rparr>)
   in mset (ps_added s) = mset (rp_idle (ps_pool s)) + mset (reserved_runtimes (ps_pool s)) + mset (taken_runtimes s) \<and>
      distinct (map fst (rp_reserved (ps_pool s))) \<and> cnt_Total (pool_Counts (ps_pool s)) \<le> 2"
  by (rule pool_conserves_runtimes) (simp add: NewRuntimePool_def)

section \<open>A reservation holds its runtime\<close>

text \<open>
  \<open>frees i op s\<close>: the step \<open>op\<close> ends a reservation of invoke \<open>i\<close>, because it acquires it or
  because it runs the callback of a fired timer that was made for \<open>i\<close>.
\<close>

fun frees :: "InvokeID \<Rightarrow> pool_op \<Rightarrow> pool_sys \<Rightarrow> bool" where
  "frees i (PAcquire j) s = (j = i)"
| "frees i (PCallback t) s = (map_of (fired (ps_timers s)) t = Some i)"
| "frees i _ s = False"

fun never_frees :: "InvokeID \<Rightarrow> pool_op list \<Rightarrow> pool_sys \<Rightarrow> bool" where
  "never_frees i [] s = True"
| "never_frees i (x # xs) s = (\<not> frees i x s \<and> never_frees i xs (pool_step x s))"

lemma reserved_kept_step:
  assumes "map_of (rp_reserved (ps_pool s)) i = Some e" "\<not> frees i x s"
  shows "map_of (rp_reserved (ps_pool (pool_step x s))) i = Some e"
  using assms
  by (cases x) (auto simp: pool_defs Let_def split: option.splits list.splits)

lemma reserved_kept_run:
  "map_of (rp_reserved (ps_pool s)) i = Some e \<Longrightarrow> never_frees i xs s \<Longrightarrow>
     map_of (rp_reserved (ps_pool (pool_run xs s))) i = Some e"
  by (induction xs arbitrary: s) (simp_all add: reserved_kept_step)

text \<open>A reservation is exclusive.  Once an invoke has reserved a runtime it gets the
  oldest idle one, and until the reservation is acquired or expires, any number of other calls,
  acquisitions by other invokes included, leave it that runtime: the invoke that reserved it then
  acquires exactly that runtime, flagged as reserved, and a second reservation under the same id is
  refused without touching the idle queue.\<close>

theorem reservation_is_exclusive:
  assumes "pool_Reserve (ps_pool s) (ps_timers s) i = (None, p, ts)"
    and "never_frees i ops (s\<lparr>ps_pool := p, ps_timers := ts\<rparr>)"
  shows "let s' = pool_run ops (s\<lparr>ps_pool := p, ps_timers := ts\<rparr>)
         in fst (pool_Acquire (ps_pool s') (ps_timers s') i) = Inr (hd (rp_idle (ps_pool s)), True) \<and>
            pool_Reserve (ps_pool s') (ps_timers s') i = (Some ErrInvokeIdAlreadyExists, ps_pool s', ps_timers s')"
proof -
  obtain e where e: "map_of (rp_reserved p) i = Some e" "re_runtime e = hd (rp_idle (ps_pool s))"
    using assms(1) by (auto simp: pool_Reserve_def dequeueIdle_def AfterFunc_def Let_def
        split: option.splits list.splits)
  then have "map_of (rp_reserved (ps_pool (pool_run ops (s\<lparr>ps_pool := p, ps_timers := ts\<rparr>)))) i = Some e"
    using assms(2) by (intro reserved_kept_run) simp_all
  then show ?thesis using e(2) by (simp add: Let_def pool_Acquire_def pool_Reserve_def)
qed

definition pool_sample :: pool_sys where
  "pool_sample = pool_run [PAdd 7, PAdd 8, PAdd 9]
     (pool_start \<lparr>rp_idle = [], rp_reserved = [], rp_maxSize = 5\<rparr>)"

theorem reservation_is_exclusive_witness:
  "let p = \<lparr>rp_idle = [8, 9], rp_reserved = [(''i'', \<lparr>re_runtime = 7, re_timer = Some 0\<rparr>)], rp_maxSize = 5\<rparr>;
       ts = \<lparr>next_timer = 1, armed = [(0, ''i'')], fired = []\<rparr>;
       s' = pool_run [PAcquire ''j'', PReserve ''k'', PFire 1, PCallback 1] (pool_sample\<lparr>ps_pool := p, ps_timers := ts\<rparr>)
   in fst (pool_Acquire (ps_pool s') (ps_timers s') ''i'') = Inr (hd (rp_idle (ps_pool pool_sample)), True) \<and>
      pool_Reserve (ps_pool s') (ps_timers s') ''i'' = (Some ErrInvokeIdAlreadyExists, ps_pool s', ps_timers s')"
  unfolding Let_def
  by (rule reservation_is_exclusive [unfolded Let_def]) code_simp+

text \<open>
  A timer that has fired cannot be recalled: its callback, delayed past an acquisition and a new
  reservation under the same id, returns the newly reserved runtime to the idle queue although the
  new reservation's own timer is still armed.
\<close>

lemma stale_expiry_frees_new_reservation:
  "let s = pool_run [PAdd 7, PAdd 8, PReserve ''i'', PFire 0, PAcquire ''i'', PReserve ''i'']
             (pool_start \<lparr>rp_idle = [], rp_reserved = [], rp_maxSize = 5\<rparr>);
       s' = pool_step (PCallback 0) s
   in map fst (rp_reserved (ps_pool s)) = [''i''] \<and> armed (ps_timers s') = [(1, ''i'')] \<and>
      rp_reserved (ps_pool s') = [] \<and> rp_idle (ps_pool s') = [8]"
  by code_simp

end
