(* ===== verification/Timeout_Cache.thy ===== *)
theory Timeout_Cache
  imports Prelude
begin

text \<open>
  The cache of recently timed-out invokes of the managed-instances runtime
  (\<open>internal/lambda-managed-instances/invoke/timeout/timeout_cache.go\<close>), through which the invoke
  router tells a late answer from an answer with an unknown id.  \<open>order\<close> is the doubly linked list
  of \<open>container/list\<close>, its elements identified by references, and \<open>entries\<close> the map from ids to
  elements.  The interface the router uses (\<open>timeoutCache\<close> of \<open>invoke_router.go\<close>) is a locale.
\<close>

definition timeoutCacheSize :: nat where
  "timeoutCacheSize = 1000"

record 'i RecentCache =
  tc_entries :: "('i \<times> ref) list"
  tc_order :: "(ref \<times> 'i) list"
  tc_next :: ref

definition NewRecentCache :: "'i RecentCache" where
  "NewRecentCache = \<lparr>tc_entries = [], tc_order = [], tc_next = 0\<rparr>"

text \<open>\<open>container/list\<close>: removing an element, and moving it to the back.\<close>

definition list_Remove :: "ref \<Rightarrow> (ref \<times> 'i) list \<Rightarrow> (ref \<times> 'i) list" where
  "list_Remove e l = filter (\<lambda>(r, _). r \<noteq> e) l"

definition list_MoveToBack :: "ref \<Rightarrow> (ref \<times> 'i) list \<Rightarrow> (ref \<times> 'i) list" where
  "list_MoveToBack e l = filter (\<lambda>(r, _). r \<noteq> e) l @ filter (\<lambda>(r, _). r = e) l"

definition tryDelete :: "'i \<Rightarrow> 'i RecentCache \<Rightarrow> bool \<times> 'i RecentCache" where
  "tryDelete invokeID tc =
    (case map_of (tc_entries tc) invokeID of
       None \<Rightarrow> (False, tc)
     | Some elem \<Rightarrow> (True, tc\<lparr>tc_order := list_Remove elem (tc_order tc),
                             tc_entries := go_map_delete invokeID (tc_entries tc)\<rparr>))"

text \<open>\<open>Front().Value\<close> of an empty list is a nil dereference, the result \<^const>\<open>None\<close>.\<close>

definition cache_Register :: "'i \<Rightarrow> 'i RecentCache \<Rightarrow> 'i RecentCache option" where
  "cache_Register invokeID tc =
    (case map_of (tc_entries tc) invokeID of
       Some elem \<Rightarrow> Some (tc\<lparr>tc_order := list_MoveToBack elem (tc_order tc)\<rparr>)
     | None \<Rightarrow>
         (let evicted = (if length (tc_entries tc) = timeoutCacheSize
                         then (case tc_order tc of [] \<Rightarrow> None | (_, oldest) # _ \<Rightarrow> Some (snd (tryDelete oldest tc)))
                         else Some tc)
          in case evicted of
               None \<Rightarrow> None
             | Some tc \<Rightarrow>
                 Some (tc\<lparr>tc_order := tc_order tc @ [(tc_next tc, invokeID)],
                          tc_entries := go_map_set invokeID (tc_next tc) (tc_entries tc),
                          tc_next := Suc (tc_next tc)\<rparr>)))"

definition cache_Consume :: "'i \<Rightarrow> 'i RecentCache \<Rightarrow> bool \<times> 'i RecentCache" where
  "cache_Consume invokeID tc = tryDelete invokeID tc"

section \<open>Invariant\<close>

text \<open>The map and the list hold the same bindings, once each, and no more than the size.\<close>

definition cache_inv :: "'i RecentCache \<Rightarrow> bool" where
  "cache_inv tc =
    (distinct (map snd (tc_order tc)) \<and> distinct (map fst (tc_order tc)) \<and> go_map_ok (tc_entries tc) \<and>
     set (tc_entries tc) = (\<lambda>(r, i). (i, r)) ` set (tc_order tc) \<and>
     length (tc_order tc) \<le> timeoutCacheSize \<and>
     (\<forall>(r, _) \<in> set (tc_order tc). r < tc_next tc))"

definition recency :: "'i RecentCache \<Rightarrow> 'i list" where
  "recency tc = map snd (tc_order tc)"

lemma cache_entry_iff: "cache_inv tc \<Longrightarrow> map_of (tc_entries tc) i = Some r \<longleftrightarrow> (r, i) \<in> set (tc_order tc)"
  by (auto simp: cache_inv_def map_of_Some_iff_mem)

lemma cache_entry_None: "cache_inv tc \<Longrightarrow> map_of (tc_entries tc) i = None \<longleftrightarrow> i \<notin> set (recency tc)"
  by (force simp: cache_inv_def map_of_None_iff_mem recency_def image_image)

lemma cache_len: "cache_inv tc \<Longrightarrow> length (tc_entries tc) = length (recency tc)"
proof -
  assume i: "cache_inv tc"
  have "length (tc_entries tc) = card (set (tc_entries tc))"
    using i by (metis cache_inv_def go_map_ok_def distinct_map distinct_card)
  also have "\<dots> = card (set (tc_order tc))"
    using i by (auto simp: cache_inv_def intro!: card_image inj_onI)
  also have "\<dots> = length (tc_order tc)"
    using i by (simp add: cache_inv_def distinct_map distinct_card)
  finally show ?thesis by (simp add: recency_def)
qed

lemma distinct_by_fst: "distinct (map fst l) \<Longrightarrow> (r, i) \<in> set l \<Longrightarrow> (r, j) \<in> set l \<Longrightarrow> i = j"
  by (metis map_of_is_SomeI option.inject)

lemma distinct_by_snd: "distinct (map snd l) \<Longrightarrow> (r, i) \<in> set l \<Longrightarrow> (q, i) \<in> set l \<Longrightarrow> r = q"
  by (induction l) (auto simp: rev_image_eqI)

lemma distinct_filter_eq: "distinct l \<Longrightarrow> x \<in> set l \<Longrightarrow> filter (\<lambda>y. y = x) l = [x]"
proof (induction l)
  case (Cons y l)
  then show ?case by (cases "y = x") (auto simp: filter_empty_conv)
qed simp

lemma filter_ref_value:
  assumes "distinct (map fst l)" "distinct (map snd l)" "(r, i) \<in> set l"
  shows "filter (\<lambda>(q, _). q \<noteq> r) l = filter (\<lambda>(_, j). j \<noteq> i) l"
    and "filter (\<lambda>(q, _). q = r) l = [(r, i)]"
proof -
  have eq: "q = r \<longleftrightarrow> j = i" if "(q, j) \<in> set l" for q j
    using distinct_by_fst [OF assms(1,3), of j] distinct_by_snd [OF assms(2,3), of q] that by metis
  show "filter (\<lambda>(q, _). q \<noteq> r) l = filter (\<lambda>(_, j). j \<noteq> i) l"
    by (rule filter_cong) (use eq in auto)
  have "\<forall>x \<in> set l. (case x of (q, _) \<Rightarrow> q = r) \<longleftrightarrow> x = (r, i)"
    using eq by auto
  then have "filter (\<lambda>(q, _). q = r) l = filter (\<lambda>x. x = (r, i)) l" by (intro filter_cong) auto
  also have "\<dots> = [(r, i)]"
    using distinct_filter_eq [OF _ assms(3)] assms(1) by (simp add: distinct_map)
  finally show "filter (\<lambda>(q, _). q = r) l = [(r, i)]" .
qed

lemma map_snd_filter: "map snd (filter (\<lambda>(_, j). j \<noteq> i) l) = filter (\<lambda>j. j \<noteq> i) (map snd l)"
  by (induction l) auto

lemma tryDelete_spec:
  assumes "cache_inv tc"
  shows "fst (tryDelete i tc) = (i \<in> set (recency tc))"
    and "recency (snd (tryDelete i tc)) = filter (\<lambda>j. j \<noteq> i) (recency tc)"
    and "cache_inv (snd (tryDelete i tc))"
proof -
  have "(fst (tryDelete i tc) = (i \<in> set (recency tc))) \<and>
    recency (snd (tryDelete i tc)) = filter (\<lambda>j. j \<noteq> i) (recency tc) \<and> cache_inv (snd (tryDelete i tc))"
  proof (cases "map_of (tc_entries tc) i")
    case None
    then have "i \<notin> set (recency tc)" using cache_entry_None [OF assms] by simp
    then show ?thesis using None assms by (auto simp: tryDelete_def intro!: filter_True [symmetric])
  next
    case (Some r)
    then have ri: "(r, i) \<in> set (tc_order tc)" using cache_entry_iff [OF assms] by simp
    have d: "distinct (map fst (tc_order tc))" "distinct (map snd (tc_order tc))" using assms by (auto simp: cache_inv_def)
    have ord: "list_Remove r (tc_order tc) = filter (\<lambda>(_, j). j \<noteq> i) (tc_order tc)"
      using filter_ref_value(1) [OF d ri] by (simp add: list_Remove_def)
    have ent: "set (go_map_delete i (tc_entries tc)) = {(j, q). (j, q) \<in> set (tc_entries tc) \<and> j \<noteq> i}"
      by (rule set_go_map_delete_eq)
    have "cache_inv (snd (tryDelete i tc))"
      using assms d unfolding cache_inv_def tryDelete_def
      by (auto simp: Some ord ent distinct_map_filter intro: le_trans [OF length_filter_le])
    then show ?thesis using Some ri ord by (auto simp: tryDelete_def recency_def map_snd_filter rev_image_eqI)
  qed
  then show "fst (tryDelete i tc) = (i \<in> set (recency tc))"
    "recency (snd (tryDelete i tc)) = filter (\<lambda>j. j \<noteq> i) (recency tc)" "cache_inv (snd (tryDelete i tc))" by auto
qed

text \<open>What registering does to the recency list: an id present moves to the back; otherwise it is
  appended, the oldest id leaving first when the cache is full.\<close>

definition recency_register :: "'i \<Rightarrow> 'i list \<Rightarrow> 'i list" where
  "recency_register i xs =
    (if i \<in> set xs then filter (\<lambda>j. j \<noteq> i) xs @ [i]
     else (if length xs = timeoutCacheSize then tl xs else xs) @ [i])"

lemma filter_hd_distinct: "distinct (x # xs) \<Longrightarrow> filter (\<lambda>j. j \<noteq> x) (x # xs) = xs"
  by (auto intro!: filter_True)

text \<open>Appending a fresh element below the size keeps the invariant.\<close>

lemma cache_push:
  assumes "cache_inv tc" "i \<notin> set (recency tc)" "length (recency tc) < timeoutCacheSize"
    and "tc' = tc\<lparr>tc_order := tc_order tc @ [(tc_next tc, i)],
                 tc_entries := go_map_set i (tc_next tc) (tc_entries tc), tc_next := Suc (tc_next tc)\<rparr>"
  shows "cache_inv tc' \<and> recency tc' = recency tc @ [i]"
proof -
  have "i \<notin> fst ` set (tc_entries tc)" using cache_entry_None [OF assms(1)] assms(2) by (simp add: map_of_None_iff_mem)
  then have e: "go_map_set i (tc_next tc) (tc_entries tc) = tc_entries tc @ [(i, tc_next tc)]" by (rule go_map_set_fresh)
  have fresh: "tc_next tc \<notin> fst ` set (tc_order tc)" using assms(1) by (fastforce simp: cache_inv_def)
  have "i \<notin> snd ` set (tc_order tc)" using assms(2) by (simp add: recency_def)
  moreover have "\<forall>(r, _) \<in> set (tc_order tc). r < Suc (tc_next tc)"
    using assms(1) by (fastforce simp: cache_inv_def)
  ultimately show ?thesis using assms fresh \<open>i \<notin> fst ` set (tc_entries tc)\<close>
    by (simp add: cache_inv_def recency_def e)
qed

lemma cache_move:
  assumes "cache_inv tc" "map_of (tc_entries tc) i = Some r"
  shows "cache_inv (tc\<lparr>tc_order := list_MoveToBack r (tc_order tc)\<rparr>) \<and>
    recency (tc\<lparr>tc_order := list_MoveToBack r (tc_order tc)\<rparr>) = filter (\<lambda>j. j \<noteq> i) (recency tc) @ [i]"
proof -
  have ri: "(r, i) \<in> set (tc_order tc)" using cache_entry_iff [OF assms(1)] assms(2) by simp
  have d: "distinct (map fst (tc_order tc))" "distinct (map snd (tc_order tc))" using assms(1) by (auto simp: cache_inv_def)
  have mv: "list_MoveToBack r (tc_order tc) = filter (\<lambda>(q, _). q \<noteq> r) (tc_order tc) @ [(r, i)]"
    using filter_ref_value(2) [OF d ri] by (simp add: list_MoveToBack_def)
  have mv2: "list_MoveToBack r (tc_order tc) = filter (\<lambda>(_, j). j \<noteq> i) (tc_order tc) @ [(r, i)]"
    using mv filter_ref_value(1) [OF d ri] by simp
  have st: "set (list_MoveToBack r (tc_order tc)) = set (tc_order tc)" by (auto simp: list_MoveToBack_def)
  have len: "length (list_MoveToBack r (tc_order tc)) = length (tc_order tc)"
    unfolding list_MoveToBack_def length_append
    using sum_length_filter_compl [of "\<lambda>(q, _). q = r" "tc_order tc"] by (simp add: case_prod_unfold)
  have "distinct (map fst (list_MoveToBack r (tc_order tc)))"
    using d(1) unfolding mv by (auto simp: distinct_map_filter)
  moreover have "distinct (map snd (list_MoveToBack r (tc_order tc)))"
    using d(2) unfolding mv2 by (auto simp: distinct_map_filter)
  ultimately show ?thesis
    using assms(1) st len by (simp add: cache_inv_def) (simp add: recency_def mv2 map_snd_filter)
qed

lemma cache_Register_spec:
  assumes "cache_inv tc"
  shows "\<exists>tc'. cache_Register i tc = Some tc' \<and> cache_inv tc' \<and> recency tc' = recency_register i (recency tc)"
proof (cases "map_of (tc_entries tc) i")
  case (Some r)
  then have "i \<in> set (recency tc)" using cache_entry_None [OF assms, of i] by simp
  then show ?thesis using cache_move [OF assms Some] Some by (simp add: cache_Register_def recency_register_def)
next
  case None
  then have fresh: "i \<notin> set (recency tc)" using cache_entry_None [OF assms] by simp
  have len: "length (recency tc) \<le> timeoutCacheSize" using assms by (simp add: cache_inv_def recency_def)
  show ?thesis
  proof (cases "length (recency tc) = timeoutCacheSize")
    case False
    then show ?thesis using cache_push [OF assms fresh _ refl] len None cache_len [OF assms] fresh
      by (simp add: cache_Register_def recency_register_def)
  next
    case True
    then obtain q oldest rest where o: "tc_order tc = (q, oldest) # rest"
      by (cases "tc_order tc") (auto simp: recency_def timeoutCacheSize_def)
    define tc1 where "tc1 = snd (tryDelete oldest tc)"
    have "recency tc1 = tl (recency tc)"
      using tryDelete_spec(2) [OF assms, of oldest] o assms filter_hd_distinct [of oldest "map snd rest"]
      by (simp add: tc1_def recency_def cache_inv_def)
    moreover have "cache_inv tc1" using tryDelete_spec(3) [OF assms] by (simp add: tc1_def)
    moreover have "i \<notin> set (tl (recency tc))" using fresh set_drop_subset [of 1 "recency tc"] by (auto simp: drop_Suc)
    moreover have "length (tl (recency tc)) < timeoutCacheSize" using True by (simp add: timeoutCacheSize_def)
    ultimately show ?thesis using cache_push [of tc1 i, OF _ _ _ refl] None True cache_len [OF assms] o fresh
      by (simp add: cache_Register_def recency_register_def tc1_def)
  qed
qed

section \<open>The interface the router relies on\<close>

datatype 'i tc_op = TRegister 'i | TConsume 'i

text \<open>A run of calls and the answers of its \<open>Consume\<close> calls; \<^const>\<open>None\<close> is a panic.\<close>

fun tc_run ::
  "('i \<Rightarrow> 'c \<Rightarrow> 'c option) \<Rightarrow> ('i \<Rightarrow> 'c \<Rightarrow> bool \<times> 'c) \<Rightarrow> 'i tc_op list \<Rightarrow> 'c \<Rightarrow> (('i \<times> bool) list \<times> 'c) option" where
  "tc_run reg con [] c = Some ([], c)"
| "tc_run reg con (TRegister i # xs) c = (case reg i c of None \<Rightarrow> None | Some c' \<Rightarrow> tc_run reg con xs c')"
| "tc_run reg con (TConsume i # xs) c =
    (case con i c of (b, c') \<Rightarrow> map_option (\<lambda>(bs, c''). ((i, b) # bs, c'')) (tc_run reg con xs c'))"

locale timeout_cache_interface =
  fixes register :: "'i \<Rightarrow> 'c \<Rightarrow> 'c option"
    and consume :: "'i \<Rightarrow> 'c \<Rightarrow> bool \<times> 'c"
    and ok :: "'c \<Rightarrow> bool"
    and ids :: "'c \<Rightarrow> 'i set"
  assumes register_law: "ok c \<Longrightarrow> \<exists>c'. register i c = Some c' \<and> ok c' \<and> i \<in> ids c' \<and> ids c' \<subseteq> insert i (ids c)"
    and consume_law: "ok c \<Longrightarrow> fst (consume i c) = (i \<in> ids c) \<and> ok (snd (consume i c)) \<and> ids (snd (consume i c)) = ids c - {i}"
begin

lemma run_returns: "ok c \<Longrightarrow> \<exists>bs c'. tc_run register consume xs c = Some (bs, c') \<and> ok c'"
proof (induction xs arbitrary: c)
  case (Cons x xs)
  show ?case
  proof (cases x)
    case (TRegister i)
    then show ?thesis using register_law [OF Cons.prems, of i] Cons.IH by fastforce
  next
    case (TConsume i)
    then show ?thesis using consume_law [OF Cons.prems, of i] Cons.IH [of "snd (consume i c)"]
      by (auto simp: case_prod_unfold)
  qed
qed simp

lemma positive_answers_bounded:
  "ok c \<Longrightarrow> tc_run register consume xs c = Some (bs, c') \<Longrightarrow>
     count_list bs (i, True) \<le> count_list xs (TRegister i) + (if i \<in> ids c then 1 else 0)"
proof (induction xs arbitrary: c bs)
  case (Cons x xs)
  show ?case
  proof (cases x)
    case (TRegister j)
    obtain c1 where c1: "register j c = Some c1" "ok c1" "ids c1 \<subseteq> insert j (ids c)"
      using register_law [OF Cons.prems(1), of j] by blast
    then have "count_list bs (i, True) \<le> count_list xs (TRegister i) + (if i \<in> ids c1 then 1 else 0)"
      using Cons.IH [of c1 bs] Cons.prems(2) TRegister by simp
    then show ?thesis using c1(3) TRegister by (auto split: if_splits)
  next
    case (TConsume j)
    obtain b c1 where jc: "consume j c = (b, c1)" by (cases "consume j c")
    have c1: "b = (j \<in> ids c)" "ok c1" "ids c1 = ids c - {j}" using consume_law [OF Cons.prems(1), of j] jc by auto
    obtain bs1 where bs: "bs = (j, b) # bs1" "tc_run register consume xs c1 = Some (bs1, c')"
      using Cons.prems(2) TConsume jc by auto
    have "count_list bs1 (i, True) \<le> count_list xs (TRegister i) + (if i \<in> ids c1 then 1 else 0)"
      using Cons.IH [OF c1(2) bs(2)] .
    then show ?thesis using c1 bs(1) TConsume by (auto split: if_splits)
  qed
qed simp

end

interpretation recent: timeout_cache_interface cache_Register cache_Consume cache_inv "\<lambda>tc. set (recency tc)"
proof unfold_locales
  fix c :: "'i RecentCache" and i
  assume c: "cache_inv c"
  obtain c' where "cache_Register i c = Some c'" "cache_inv c'" "recency c' = recency_register i (recency c)"
    using cache_Register_spec [OF c] by blast
  moreover have "i \<in> set (recency_register i xs) \<and> set (recency_register i xs) \<subseteq> insert i (set xs)" for xs
    using set_drop_subset [of 1 xs] by (auto simp: recency_register_def drop_Suc split: if_splits)
  ultimately show "\<exists>c'. cache_Register i c = Some c' \<and> cache_inv c' \<and> i \<in> set (recency c') \<and>
      set (recency c') \<subseteq> insert i (set (recency c))" by metis
next
  fix c :: "'i RecentCache" and i
  assume "cache_inv c"
  from tryDelete_spec [OF this, of i] show "fst (cache_Consume i c) = (i \<in> set (recency c)) \<and>
      cache_inv (snd (cache_Consume i c)) \<and> set (recency (snd (cache_Consume i c))) = set (recency c) - {i}"
    by (auto simp: cache_Consume_def)
qed

lemma cache_inv_New [simp]: "cache_inv NewRecentCache" "recency NewRecentCache = []"
  by (simp_all add: cache_inv_def NewRecentCache_def recency_def)

text \<open>The reference behaviour: a bounded list of ids in order of their last registration.\<close>

definition recency_consume :: "'i \<Rightarrow> 'i list \<Rightarrow> bool \<times> 'i list" where
  "recency_consume i xs = (i \<in> set xs, filter (\<lambda>j. j \<noteq> i) xs)"

lemma cache_run_refines:
  "cache_inv tc \<Longrightarrow>
    \<exists>bs tc'. tc_run cache_Register cache_Consume ops tc = Some (bs, tc') \<and> cache_inv tc' \<and>
      tc_run (\<lambda>i xs. Some (recency_register i xs)) recency_consume ops (recency tc) = Some (bs, recency tc')"
proof (induction ops arbitrary: tc)
  case (Cons x ops)
  show ?case
  proof (cases x)
    case (TRegister i)
    obtain tc1 where tc1: "cache_Register i tc = Some tc1" "cache_inv tc1" "recency tc1 = recency_register i (recency tc)"
      using cache_Register_spec [OF Cons.prems] by blast
    then show ?thesis using Cons.IH [OF tc1(2)] TRegister by simp
  next
    case (TConsume i)
    obtain b tc1 where d: "cache_Consume i tc = (b, tc1)" by (cases "cache_Consume i tc")
    then have tc1: "b = (i \<in> set (recency tc))" "recency tc1 = filter (\<lambda>j. j \<noteq> i) (recency tc)" "cache_inv tc1"
      using tryDelete_spec [OF Cons.prems, of i] by (auto simp: cache_Consume_def)
    then have "recency_consume i (recency tc) = (b, recency tc1)" by (simp add: recency_consume_def)
    then show ?thesis using Cons.IH [OF tc1(3)] TConsume d by fastforce
  qed
qed simp

text \<open>C39: the map and the linked list of the timeout cache implement a bounded recency list.  Any
  sequence of registrations and consumptions on a new cache returns without a panic, gives exactly
  the answers of the reference list and the same order of ids, in which no id occurs twice and at
  most 1000 are kept, the oldest leaving first.\<close>

theorem timeout_cache_refines_recency_list:
  "\<exists>bs tc. tc_run cache_Register cache_Consume ops NewRecentCache = Some (bs, tc) \<and>
     tc_run (\<lambda>i xs. Some (recency_register i xs)) recency_consume ops [] = Some (bs, recency tc) \<and>
     length (tc_entries tc) = length (recency tc) \<and> length (recency tc) \<le> 1000 \<and> distinct (recency tc)"
proof -
  obtain bs tc where "tc_run cache_Register cache_Consume ops NewRecentCache = Some (bs, tc)" "cache_inv tc"
    "tc_run (\<lambda>i xs. Some (recency_register i xs)) recency_consume ops [] = Some (bs, recency tc)"
    using cache_run_refines [OF cache_inv_New(1)] by fastforce
  then show ?thesis using cache_len [of tc] by (auto simp: cache_inv_def recency_def timeoutCacheSize_def)
qed

text \<open>A timed-out invoke is reported as such at most once per timeout.  In every run of the
  cache the answers \<open>true\<close> for an id are at most as many as its registrations, so an answer of the
  runtime that repeats is told that its id is unknown; the run always returns.\<close>

theorem late_answers_bounded_by_timeouts:
  "\<exists>bs tc. tc_run cache_Register cache_Consume ops NewRecentCache = Some (bs, tc) \<and>
     count_list bs (i, True) \<le> count_list ops (TRegister i)"
proof -
  obtain bs tc where r: "tc_run cache_Register cache_Consume ops NewRecentCache = Some (bs, tc)"
    using recent.run_returns [OF cache_inv_New(1)] by blast
  then show ?thesis using recent.positive_answers_bounded [OF cache_inv_New(1) r, of i] by simp
qed

end
