(* ===== verification/Invoke_Router.thy ===== *)
theory Invoke_Router
  imports Runtime_Pool Timeout_Cache App_Errors
begin

text \<open>
  The invoke router of the managed-instances runtime
  (\<open>internal/lambda-managed-instances/invoke/invoke_router.go\<close>), which matches invokes with idle
  runtimes and the answers of the runtimes with running invokes.  It uses the runtime pool and the
  timeout cache, and a map from invoke ids to running invokes of the third-party package
  \<open>concurrent-map\<close>, which is a parameter: a record of its operations with the laws of its
  documentation as \<open>cmap_laws\<close>.  A map value is an interface: \<^const>\<open>None\<close> is nil, \<open>Some r\<close> the
  running invoke at reference \<open>r\<close>.  Every invoker has a program counter, and the router's methods
  are split at their accesses to shared data.
\<close>

record 'm cmap_ops =
  cm_New :: 'm
  cm_Get :: "'m \<Rightarrow> InvokeID \<Rightarrow> ref option option"
  cm_SetIfAbsent :: "'m \<Rightarrow> InvokeID \<Rightarrow> ref option \<Rightarrow> bool \<times> 'm"
  cm_Set :: "'m \<Rightarrow> InvokeID \<Rightarrow> ref option \<Rightarrow> 'm"
  cm_Remove :: "'m \<Rightarrow> InvokeID \<Rightarrow> 'm"
  cm_Items :: "'m \<Rightarrow> (InvokeID \<times> ref option) list"

definition cmap_laws :: "'m cmap_ops \<Rightarrow> bool" where
  "cmap_laws cm \<longleftrightarrow>
    cm_Get cm (cm_New cm) = (\<lambda>_. None) \<and>
    (\<forall>m k v. cm_Get cm (cm_Set cm m k v) = (cm_Get cm m)(k \<mapsto> v)) \<and>
    (\<forall>m k. cm_Get cm (cm_Remove cm m k) = (cm_Get cm m)(k := None)) \<and>
    (\<forall>m k v. fst (cm_SetIfAbsent cm m k v) = (cm_Get cm m k = None)) \<and>
    (\<forall>m k v. cm_Get cm (snd (cm_SetIfAbsent cm m k v)) =
       (if cm_Get cm m k = None then (cm_Get cm m)(k \<mapsto> v) else cm_Get cm m)) \<and>
    (\<forall>m k v. (k, v) \<in> set (cm_Items cm m) \<longleftrightarrow> cm_Get cm m k = Some v)"

text \<open>The package's behaviour on association lists, an instance that satisfies the laws.\<close>

definition alist_cmap :: "((InvokeID \<times> ref option) list) cmap_ops" where
  "alist_cmap =
    \<lparr>cm_New = [], cm_Get = map_of,
     cm_SetIfAbsent = (\<lambda>m k v. if map_of m k = None then (True, go_map_set k v m) else (False, m)),
     cm_Set = (\<lambda>m k v. go_map_set k v m), cm_Remove = (\<lambda>m k. go_map_delete k m),
     cm_Items = (\<lambda>m. filter (\<lambda>(k, v). map_of m k = Some v) m)\<rparr>"

lemma alist_cmap_laws: "cmap_laws alist_cmap"
  by (auto simp: cmap_laws_def alist_cmap_def dest: map_of_SomeD)

section \<open>Operations\<close>

datatype invoke_pc =
    InvIdle | InvAcquire InvokeID | InvSet InvokeID ref | InvRun InvokeID ref
  | InvReturned "AppError option" bool

record 'm InvokeRouter =
  ir_pool :: RuntimePool
  ir_timers :: timers
  ir_running :: 'm
  ir_cache :: "InvokeID RecentCache"
  ir_next_ref :: ref
  ir_pc :: "tid \<Rightarrow> invoke_pc"

definition NewInvokeRouter :: "'m cmap_ops \<Rightarrow> int \<Rightarrow> 'm InvokeRouter option" where
  "NewInvokeRouter cm runtimePoolSize =
    (case NewRuntimePool runtimePoolSize of
       None \<Rightarrow> None
     | Some p \<Rightarrow>
         Some \<lparr>ir_pool = p, ir_timers = \<lparr>next_timer = 0, armed = [], fired = []\<rparr>, ir_running = cm_New cm,
               ir_cache = NewRecentCache, ir_next_ref = 0, ir_pc = (\<lambda>_. InvIdle)\<rparr>)"

text \<open>\<open>Invoke\<close>: claiming the id with a nil entry, acquiring a runtime, publishing it, and the end,
  where the deferred removal runs; \<open>res\<close> is the result of \<open>RunInvokeAndSendResult\<close>.\<close>

definition Invoke_begin :: "'m cmap_ops \<Rightarrow> tid \<Rightarrow> InvokeID \<Rightarrow> 'm InvokeRouter \<Rightarrow> 'm InvokeRouter option" where
  "Invoke_begin cm c i s =
    (if ir_pc s c \<noteq> InvIdle then None
     else case cm_SetIfAbsent cm (ir_running s) i None of
            (False, m) \<Rightarrow>
              Some (s\<lparr>ir_running := m,
                      ir_pc := (ir_pc s)(c := InvReturned (Some (NewClientError ErrorSeverityError ErrorDuplicatedInvokeId)) False)\<rparr>)
          | (True, m) \<Rightarrow> Some (s\<lparr>ir_running := m, ir_pc := (ir_pc s)(c := InvAcquire i)\<rparr>))"

definition Invoke_acquire :: "'m cmap_ops \<Rightarrow> tid \<Rightarrow> 'm InvokeRouter \<Rightarrow> 'm InvokeRouter option" where
  "Invoke_acquire cm c s =
    (case ir_pc s c of
       InvAcquire i \<Rightarrow>
         (case pool_Acquire (ir_pool s) (ir_timers s) i of
            (Inl _, p, ts) \<Rightarrow>
              Some (s\<lparr>ir_pool := p, ir_timers := ts, ir_running := cm_Remove cm (ir_running s) i,
                      ir_pc := (ir_pc s)(c := InvReturned (Some (NewClientError ErrorSeverityError ErrorRuntimeUnavailable)) False)\<rparr>)
          | (Inr (rt, _), p, ts) \<Rightarrow>
              Some (s\<lparr>ir_pool := p, ir_timers := ts, ir_pc := (ir_pc s)(c := InvSet i rt)\<rparr>))
     | _ \<Rightarrow> None)"

definition Invoke_set :: "'m cmap_ops \<Rightarrow> tid \<Rightarrow> 'm InvokeRouter \<Rightarrow> 'm InvokeRouter option" where
  "Invoke_set cm c s =
    (case ir_pc s c of
       InvSet i rt \<Rightarrow>
         Some (s\<lparr>ir_running := cm_Set cm (ir_running s) i (Some rt), ir_pc := (ir_pc s)(c := InvRun i rt)\<rparr>)
     | _ \<Rightarrow> None)"

definition Invoke_end :: "'m cmap_ops \<Rightarrow> tid \<Rightarrow> AppError option \<Rightarrow> 'm InvokeRouter \<Rightarrow> 'm InvokeRouter option" where
  "Invoke_end cm c res s =
    (case ir_pc s c of
       InvRun i rt \<Rightarrow>
         Some (s\<lparr>ir_running := cm_Remove cm (ir_running s) i, ir_pc := (ir_pc s)(c := InvReturned res True)\<rparr>)
     | _ \<Rightarrow> None)"

text \<open>\<open>RuntimeNext\<close> makes a new running invoke for the runtime and adds it to the pool.\<close>

definition router_RuntimeNext :: "'m InvokeRouter \<Rightarrow> (AppError + ref) \<times> 'm InvokeRouter" where
  "router_RuntimeNext s =
    (let r = ir_next_ref s; s = s\<lparr>ir_next_ref := Suc r\<rparr>
     in case pool_Add (ir_pool s) r of
          (Some _, p) \<Rightarrow> (Inl (NewCustomerError ErrorRuntimeTooManyIdleRuntimes), s\<lparr>ir_pool := p\<rparr>)
        | (None, p) \<Rightarrow> (Inr r, s\<lparr>ir_pool := p\<rparr>))"

text \<open>Where a call of the runtime goes: to a running invoke, to an error, or to the panic of the
  type assertion on a nil entry.\<close>

datatype route = RouteTo ref | RouteError AppError | RoutePanic

definition route_by_id :: "'m cmap_ops \<Rightarrow> InvokeID \<Rightarrow> 'm InvokeRouter \<Rightarrow> route \<times> 'm InvokeRouter" where
  "route_by_id cm i s =
    (case cm_Get cm (ir_running s) i of
       None \<Rightarrow>
         (case cache_Consume i (ir_cache s) of
            (True, tc) \<Rightarrow> (RouteError (NewCustomerError ErrorRuntimeInvokeTimeout), s\<lparr>ir_cache := tc\<rparr>)
          | (False, tc) \<Rightarrow> (RouteError (NewCustomerError ErrorRuntimeInvalidInvokeId), s\<lparr>ir_cache := tc\<rparr>))
     | Some None \<Rightarrow> (RoutePanic, s)
     | Some (Some rt) \<Rightarrow> (RouteTo rt, s))"

definition router_RuntimeResponse :: "'m cmap_ops \<Rightarrow> InvokeID \<Rightarrow> 'm InvokeRouter \<Rightarrow> route \<times> 'm InvokeRouter" where
  "router_RuntimeResponse cm i s = route_by_id cm i s"

definition router_RuntimeError :: "'m cmap_ops \<Rightarrow> InvokeID \<Rightarrow> 'm InvokeRouter \<Rightarrow> route \<times> 'm InvokeRouter" where
  "router_RuntimeError cm i s = route_by_id cm i s"

text \<open>\<open>AbortRunningInvokes\<close>: the running invokes it cancels; nil entries are skipped.\<close>

definition AbortRunningInvokes :: "'m cmap_ops \<Rightarrow> 'm InvokeRouter \<Rightarrow> ref list" where
  "AbortRunningInvokes cm s = List.map_filter snd (cm_Items cm (ir_running s))"

definition GetRunningInvokesCount :: "'m cmap_ops \<Rightarrow> 'm InvokeRouter \<Rightarrow> int" where
  "GetRunningInvokesCount cm s = int (length (cm_Items cm (ir_running s)))"

definition GetRuntimePoolCounts :: "'m InvokeRouter \<Rightarrow> RuntimePoolCounts" where
  "GetRuntimePoolCounts s = pool_Counts (ir_pool s)"

definition ReserveIdleRuntime :: "'m cmap_ops \<Rightarrow> InvokeID \<Rightarrow> 'm InvokeRouter \<Rightarrow> AppError option \<times> 'm InvokeRouter" where
  "ReserveIdleRuntime cm i s =
    (case cm_Get cm (ir_running s) i of
       Some _ \<Rightarrow> (Some (NewClientError ErrorSeverityError ErrorDuplicatedInvokeId), s)
     | None \<Rightarrow>
         (case pool_Reserve (ir_pool s) (ir_timers s) i of
            (err, p, ts) \<Rightarrow>
              (case err of
                 None \<Rightarrow> None
               | Some ErrInvokeIdAlreadyExists \<Rightarrow> Some (NewClientError ErrorSeverityError ErrorDuplicatedInvokeId)
               | Some _ \<Rightarrow> Some (NewClientError ErrorSeverityError ErrorRuntimeUnavailable),
               s\<lparr>ir_pool := p, ir_timers := ts\<rparr>)))"

section \<open>Interleavings\<close>

datatype ir_event =
    IBegin tid InvokeID | IAcquire tid | ISet tid | IEnd tid "AppError option"
  | INext | IResponse InvokeID | IError InvokeID | IReserve InvokeID | IFire nat | ICallback nat
  | ITimedOut InvokeID

text \<open>\<open>ITimedOut\<close> is the registration of a timeout by the run of an invoke; the timers behave as in
  the pool.\<close>

fun ir_step :: "'m cmap_ops \<Rightarrow> ir_event \<Rightarrow> 'm InvokeRouter \<Rightarrow> 'm InvokeRouter option" where
  "ir_step cm (IBegin c i) s = Invoke_begin cm c i s"
| "ir_step cm (IAcquire c) s = Invoke_acquire cm c s"
| "ir_step cm (ISet c) s = Invoke_set cm c s"
| "ir_step cm (IEnd c r) s = Invoke_end cm c r s"
| "ir_step cm INext s = Some (snd (router_RuntimeNext s))"
| "ir_step cm (IResponse i) s = Some (snd (router_RuntimeResponse cm i s))"
| "ir_step cm (IError i) s = Some (snd (router_RuntimeError cm i s))"
| "ir_step cm (IReserve i) s = Some (snd (ReserveIdleRuntime cm i s))"
| "ir_step cm (IFire t) s =
    (case map_of (armed (ir_timers s)) t of
       None \<Rightarrow> None
     | Some i \<Rightarrow> Some (s\<lparr>ir_timers := (ir_timers s)\<lparr>armed := go_map_delete t (armed (ir_timers s)),
                                        fired := fired (ir_timers s) @ [(t, i)]\<rparr>\<rparr>))"
| "ir_step cm (ICallback t) s =
    (case map_of (fired (ir_timers s)) t of
       None \<Rightarrow> None
     | Some i \<Rightarrow> Some (s\<lparr>ir_pool := snd (ExpireReservation (ir_pool s) i),
                        ir_timers := (ir_timers s)\<lparr>fired := go_map_delete t (fired (ir_timers s))\<rparr>\<rparr>))"
| "ir_step cm (ITimedOut i) s =
    (case cache_Register i (ir_cache s) of None \<Rightarrow> None | Some tc \<Rightarrow> Some (s\<lparr>ir_cache := tc\<rparr>))"

fun ir_exec :: "'m cmap_ops \<Rightarrow> ir_event list \<Rightarrow> 'm InvokeRouter \<Rightarrow> 'm InvokeRouter option" where
  "ir_exec cm [] s = Some s"
| "ir_exec cm (e # es) s = (case ir_step cm e s of None \<Rightarrow> None | Some s' \<Rightarrow> ir_exec cm es s')"

inductive ir_reach :: "'m cmap_ops \<Rightarrow> 'm InvokeRouter \<Rightarrow> bool" for cm :: "'m cmap_ops" where
  ir_new: "NewInvokeRouter cm n = Some s \<Longrightarrow> ir_reach cm s"
| ir_next: "ir_reach cm s \<Longrightarrow> ir_step cm e s = Some s' \<Longrightarrow> ir_reach cm s'"

lemma ir_reach_exec: "ir_reach cm s \<Longrightarrow> ir_exec cm es s = Some s' \<Longrightarrow> ir_reach cm s'"
  by (induction es arbitrary: s) (auto split: option.splits intro: ir_next)

section \<open>Runtimes and ids are not shared\<close>

definition pool_rts :: "RuntimePool \<Rightarrow> ref list" where
  "pool_rts p = rp_idle p @ reserved_runtimes p"

lemma pool_Add_rts:
  assumes "pool_Add p r = (e, p')" "go_map_ok (rp_reserved p)"
  shows "go_map_ok (rp_reserved p') \<and>
    mset (pool_rts p') = (if e = None then add_mset r (mset (pool_rts p)) else mset (pool_rts p))"
  using assms by (auto simp: pool_Add_def pool_rts_def reserved_runtimes_def split: if_splits)

lemma pool_Reserve_rts:
  assumes "pool_Reserve p ts i = (e, p', ts')" "go_map_ok (rp_reserved p)"
  shows "go_map_ok (rp_reserved p') \<and> mset (pool_rts p') = mset (pool_rts p)"
  using assms
  by (auto simp: pool_Reserve_def dequeueIdle_def AfterFunc_def Let_def pool_rts_def reserved_runtimes_def
      go_map_set_fresh map_of_None_iff_mem split: option.splits list.splits)

lemma pool_Acquire_rts:
  assumes "pool_Acquire p ts i = (x, p', ts')" "go_map_ok (rp_reserved p)"
  shows "go_map_ok (rp_reserved p') \<and>
    mset (pool_rts p) = (case x of Inr (r, _) \<Rightarrow> add_mset r (mset (pool_rts p')) | Inl _ \<Rightarrow> mset (pool_rts p'))"
  using assms mset_go_map_delete [of "rp_reserved p" i _ "re_runtime \<circ> snd"]
  by (auto simp: pool_Acquire_def dequeueIdle_def pool_rts_def reserved_runtimes_def split: option.splits list.splits)

lemma ExpireReservation_rts:
  assumes "go_map_ok (rp_reserved p)"
  shows "go_map_ok (rp_reserved (snd (ExpireReservation p i))) \<and>
    mset (pool_rts (snd (ExpireReservation p i))) = mset (pool_rts p)"
  using assms mset_go_map_delete [of "rp_reserved p" i _ "re_runtime \<circ> snd"]
  by (auto simp: ExpireReservation_def pool_rts_def reserved_runtimes_def split: option.splits)

fun pc_runtime :: "invoke_pc \<Rightarrow> ref option" where
  "pc_runtime (InvSet _ r) = Some r"
| "pc_runtime (InvRun _ r) = Some r"
| "pc_runtime _ = None"

fun pc_entry :: "invoke_pc \<Rightarrow> (InvokeID \<times> ref option) option" where
  "pc_entry (InvAcquire i) = Some (i, None)"
| "pc_entry (InvSet i _) = Some (i, None)"
| "pc_entry (InvRun i r) = Some (i, Some r)"
| "pc_entry _ = None"

text \<open>Every runtime is in the pool once or with one invoker, and every claimed id belongs to one
  invoker, which decides its entry of the map.\<close>

definition runtimes_inv :: "'m InvokeRouter \<Rightarrow> bool" where
  "runtimes_inv s \<longleftrightarrow>
    go_map_ok (rp_reserved (ir_pool s)) \<and> distinct (pool_rts (ir_pool s)) \<and>
    (\<forall>r \<in> set (pool_rts (ir_pool s)). r < ir_next_ref s) \<and>
    (\<forall>c r. pc_runtime (ir_pc s c) = Some r \<longrightarrow> r < ir_next_ref s \<and> r \<notin> set (pool_rts (ir_pool s))) \<and>
    (\<forall>c d r. pc_runtime (ir_pc s c) = Some r \<longrightarrow> pc_runtime (ir_pc s d) = Some r \<longrightarrow> c = d)"

definition ids_inv :: "'m cmap_ops \<Rightarrow> 'm InvokeRouter \<Rightarrow> bool" where
  "ids_inv cm s \<longleftrightarrow>
    (\<forall>i v. cm_Get cm (ir_running s) i = Some v \<longleftrightarrow> (\<exists>c. pc_entry (ir_pc s c) = Some (i, v))) \<and>
    (\<forall>c d i v w. pc_entry (ir_pc s c) = Some (i, v) \<longrightarrow> pc_entry (ir_pc s d) = Some (i, w) \<longrightarrow> c = d)"

lemma mset_same: "mset xs = mset ys \<Longrightarrow> set xs = set ys \<and> (distinct xs \<longleftrightarrow> distinct ys)"
  by (metis mset_eq_setD mset_eq_imp_distinct_iff)

lemma mset_more: "mset xs = add_mset r (mset ys) \<Longrightarrow> set xs = insert r (set ys) \<and> (distinct xs \<longleftrightarrow> distinct ys \<and> r \<notin> set ys)"
  by (metis (no_types, lifting) distinct.simps(2) list.simps(15) mset.simps(2) mset_same)

lemma runtimes_inv_pool:
  assumes "runtimes_inv s" "go_map_ok (rp_reserved p')" "mset (pool_rts p') = mset (pool_rts (ir_pool s))"
    "ir_pool s' = p'" "ir_next_ref s' = ir_next_ref s"
    "\<And>c r. pc_runtime (ir_pc s' c) = Some r \<Longrightarrow> pc_runtime (ir_pc s c) = Some r"
  shows "runtimes_inv s'"
  using assms(1,2,4,5) mset_same [OF assms(3)] assms(6) unfolding runtimes_inv_def by (metis (full_types))

lemma runtimes_inv_step:
  assumes "runtimes_inv s" "ir_step cm e s = Some s'"
  shows "runtimes_inv s'"
proof -
  have ok: "go_map_ok (rp_reserved (ir_pool s))" using assms(1) by (simp add: runtimes_inv_def)
  note same = runtimes_inv_pool [OF assms(1)]
  show ?thesis
  proof (cases e)
    case (IBegin c i)
    then show ?thesis using assms(2) ok
      by (auto simp: Invoke_begin_def split: if_splits prod.splits bool.splits intro!: same)
  next
    case (IAcquire c)
    then obtain i where i: "ir_pc s c = InvAcquire i" using assms(2)
      by (auto simp: Invoke_acquire_def split: invoke_pc.splits)
    obtain x p ts where a: "pool_Acquire (ir_pool s) (ir_timers s) i = (x, p, ts)" by (cases "pool_Acquire (ir_pool s) (ir_timers s) i")
    note rts = pool_Acquire_rts [OF a ok]
    show ?thesis
    proof (cases x)
      case (Inl err)
      then show ?thesis using assms(2) IAcquire i a rts
        by (auto simp: Invoke_acquire_def split: if_splits intro!: same)
    next
      case (Inr y)
      obtain rt b where y: "y = (rt, b)" by (cases y)
      have s': "s' = s\<lparr>ir_pool := p, ir_timers := ts, ir_pc := (ir_pc s)(c := InvSet i rt)\<rparr>"
        using assms(2) IAcquire i a Inr y by (simp add: Invoke_acquire_def)
      have "set (pool_rts (ir_pool s)) = insert rt (set (pool_rts p))"
        "distinct (pool_rts (ir_pool s)) \<longleftrightarrow> distinct (pool_rts p) \<and> rt \<notin> set (pool_rts p)"
        using mset_more [of "pool_rts (ir_pool s)" rt "pool_rts p"] rts Inr y by simp_all
      then show ?thesis using assms(1) rts by (auto simp: runtimes_inv_def s')
    qed
  next
    case (ISet c)
    then show ?thesis using assms(2) ok
      by (auto simp: Invoke_set_def split: invoke_pc.splits if_splits intro!: same)
  next
    case (IEnd c r)
    then show ?thesis using assms(2) ok
      by (auto simp: Invoke_end_def split: invoke_pc.splits if_splits intro!: same)
  next
    case INext
    obtain x p where a: "pool_Add (ir_pool s) (ir_next_ref s) = (x, p)" by (cases "pool_Add (ir_pool s) (ir_next_ref s)")
    have s': "s' = s\<lparr>ir_next_ref := Suc (ir_next_ref s), ir_pool := p\<rparr>"
      using assms(2) INext a by (auto simp: router_RuntimeNext_def Let_def split: option.splits)
    have "set (pool_rts p) \<subseteq> insert (ir_next_ref s) (set (pool_rts (ir_pool s)))" "distinct (pool_rts p)"
      using pool_Add_rts [OF a ok] assms(1) mset_more [of "pool_rts p" "ir_next_ref s" "pool_rts (ir_pool s)"]
        mset_same [of "pool_rts p" "pool_rts (ir_pool s)"]
      by (auto simp: runtimes_inv_def split: if_splits)
    then show ?thesis using assms(1) pool_Add_rts [OF a ok] unfolding runtimes_inv_def s'
      by (fastforce dest: subsetD)
  next
    case (IReserve i)
    then show ?thesis
    proof (cases "cm_Get cm (ir_running s) i")
      case (Some v)
      then show ?thesis using assms IReserve by (simp add: ReserveIdleRuntime_def)
    next
      case None
      obtain x p ts where a: "pool_Reserve (ir_pool s) (ir_timers s) i = (x, p, ts)"
        by (cases "pool_Reserve (ir_pool s) (ir_timers s) i")
      have "s' = s\<lparr>ir_pool := p, ir_timers := ts\<rparr>" using assms(2) IReserve None a by (simp add: ReserveIdleRuntime_def)
      then show ?thesis using pool_Reserve_rts [OF a ok] by (intro same [of p]) simp_all
    qed
  next
    case (ICallback t)
    then show ?thesis using assms(2) ExpireReservation_rts [OF ok]
      by (auto split: option.splits intro!: same)
  qed (use assms(2) ok in \<open>auto simp: router_RuntimeResponse_def router_RuntimeError_def route_by_id_def
        split: option.splits prod.splits bool.splits intro!: same\<close>)
qed

lemma ids_inv_cong:
  "ids_inv cm s \<Longrightarrow> ir_running s' = ir_running s \<Longrightarrow> (\<And>c. pc_entry (ir_pc s' c) = pc_entry (ir_pc s c)) \<Longrightarrow> ids_inv cm s'"
  unfolding ids_inv_def by simp

text \<open>One invoker \<open>c\<close> moves, and with it the entry of the one id it owns or claims.\<close>

lemma ids_inv_update:
  assumes "ids_inv cm s" "pc_entry (ir_pc s c) = Some (i, v) \<or> pc_entry (ir_pc s c) = None \<and> cm_Get cm (ir_running s) i = None"
    and e: "pc_entry p = map_option (\<lambda>w. (i, w)) w'"
    and g: "cm_Get cm (ir_running s') = (cm_Get cm (ir_running s))(i := w')"
    and pc: "ir_pc s' = (ir_pc s)(c := p)"
  shows "ids_inv cm s'"
proof -
  have own: "cm_Get cm (ir_running s) j = Some x \<longleftrightarrow> (\<exists>d. pc_entry (ir_pc s d) = Some (j, x))" for j x
    using assms(1) by (simp add: ids_inv_def)
  have inj: "d = d'" if "pc_entry (ir_pc s d) = Some (j, x)" "pc_entry (ir_pc s d') = Some (j, y)" for d d' j x y
    using assms(1) that unfolding ids_inv_def by blast
  have other: "pc_entry (ir_pc s d) \<noteq> Some (i, x)" if "d \<noteq> c" for d x
    using assms(2) inj [of c i v d x] own [of i x] that by force
  have not_c: "pc_entry (ir_pc s c) \<noteq> Some (j, x)" if "j \<noteq> i" for j x using assms(2) that by auto
  have "cm_Get cm (ir_running s') j = Some x \<longleftrightarrow> (\<exists>d. pc_entry (ir_pc s' d) = Some (j, x))" for j x
  proof (cases "j = i")
    case True
    then show ?thesis using other by (auto simp: g pc e)
  next
    case False
    have "(\<exists>d. pc_entry (ir_pc s' d) = Some (j, x)) \<longleftrightarrow> (\<exists>d. pc_entry (ir_pc s d) = Some (j, x))"
      using not_c [OF False, of x] False e unfolding pc by (metis (no_types, lifting) fun_upd_apply map_option_eq_Some prod.inject)
    then show ?thesis using own False by (simp add: g)
  qed
  moreover have "d = d'" if "pc_entry (ir_pc s' d) = Some (j, x)" "pc_entry (ir_pc s' d') = Some (j, y)" for d d' j x y
    using that inj [of d j x d' y] other [of d] other [of d'] by (auto simp: pc e split: if_splits)
  ultimately show ?thesis unfolding ids_inv_def by blast
qed

lemma ids_inv_step:
  assumes "cmap_laws cm" "ids_inv cm s" "ir_step cm e s = Some s'"
  shows "ids_inv cm s'"
proof -
  note upd = ids_inv_update [OF assms(2)]
  note laws = assms(1) [unfolded cmap_laws_def]
  show ?thesis
  proof (cases e)
    case (IBegin c i)
    obtain b m where m: "cm_SetIfAbsent cm (ir_running s) i None = (b, m)" by (cases "cm_SetIfAbsent cm (ir_running s) i None")
    have l: "b = (cm_Get cm (ir_running s) i = None)"
      "cm_Get cm m = (if b then (cm_Get cm (ir_running s))(i \<mapsto> None) else cm_Get cm (ir_running s))"
      using laws m by (metis fst_conv, metis fst_conv snd_conv)
    have idle: "ir_pc s c = InvIdle" using assms(3) IBegin by (auto simp: Invoke_begin_def split: if_splits)
    show ?thesis
    proof (cases b)
      case True
      then have "s' = s\<lparr>ir_running := m, ir_pc := (ir_pc s)(c := InvAcquire i)\<rparr>"
        using assms(3) IBegin m idle by (simp add: Invoke_begin_def)
      then show ?thesis using l True idle by (intro upd [of c i None "InvAcquire i" "Some None"]) auto
    next
      case False
      have g: "cm_Get cm (ir_running s') = cm_Get cm (ir_running s)" "\<And>d. pc_entry (ir_pc s' d) = pc_entry (ir_pc s d)"
        using assms(3) IBegin m idle l False by (auto simp: Invoke_begin_def)
      then show ?thesis using assms(2) unfolding ids_inv_def by simp
    qed
  next
    case (IAcquire c)
    then obtain i where i: "ir_pc s c = InvAcquire i" using assms(3)
      by (auto simp: Invoke_acquire_def split: invoke_pc.splits)
    obtain x p ts where a: "pool_Acquire (ir_pool s) (ir_timers s) i = (x, p, ts)" by (cases "pool_Acquire (ir_pool s) (ir_timers s) i")
    show ?thesis
    proof (cases x)
      case (Inl err)
      then show ?thesis using assms(3) IAcquire i a laws
        by (intro upd [of c i None "ir_pc s' c" None]) (auto simp: Invoke_acquire_def)
    next
      case (Inr y)
      then show ?thesis using assms(3) IAcquire i a
        by (intro ids_inv_cong [OF assms(2)]) (auto simp: Invoke_acquire_def split: prod.splits)
    qed
  next
    case (ISet c)
    then obtain i r where i: "ir_pc s c = InvSet i r" using assms(3) by (auto simp: Invoke_set_def split: invoke_pc.splits)
    then show ?thesis using assms(3) ISet laws
      by (intro upd [of c i None "InvRun i r" "Some (Some r)"]) (auto simp: Invoke_set_def)
  next
    case (IEnd c res)
    then obtain i r where i: "ir_pc s c = InvRun i r" using assms(3) by (auto simp: Invoke_end_def split: invoke_pc.splits)
    then show ?thesis using assms(3) IEnd laws
      by (intro upd [of c i "Some r" "InvReturned res True" None]) (auto simp: Invoke_end_def)
  qed (use assms(3) in \<open>auto simp: router_RuntimeNext_def router_RuntimeResponse_def router_RuntimeError_def route_by_id_def
        ReserveIdleRuntime_def Let_def split: option.splits prod.splits bool.splits intro!: ids_inv_cong [OF assms(2)]\<close>)
qed

lemma pc_entry_iff:
  "pc_entry p = Some (i, Some r) \<longleftrightarrow> p = InvRun i r"
  "pc_entry p = Some (i, None) \<longleftrightarrow> p = InvAcquire i \<or> (\<exists>r. p = InvSet i r)"
  by (cases p; auto)+

lemma ids_invD: "ids_inv cm s \<Longrightarrow> cm_Get cm (ir_running s) i = Some v \<longleftrightarrow> (\<exists>c. pc_entry (ir_pc s c) = Some (i, v))"
  by (simp add: ids_inv_def)

lemma ir_invariants:
  assumes "ir_reach cm s" "cmap_laws cm"
  shows "runtimes_inv s" "ids_inv cm s"
proof -
  have "runtimes_inv s \<and> ids_inv cm s"
    using assms(1)
  proof (induction rule: ir_reach.induct)
    case (ir_new n s)
    then show ?case using assms(2)
      by (auto simp: NewInvokeRouter_def NewRuntimePool_def runtimes_inv_def ids_inv_def pool_rts_def
          reserved_runtimes_def cmap_laws_def split: option.splits if_splits)
  next
    case (ir_next s e s')
    then show ?case using runtimes_inv_step ids_inv_step [OF assms(2)] by blast
  qed
  then show "runtimes_inv s" "ids_inv cm s" by auto
qed

text \<open>C31: invokes are isolated from each other.  In every reachable state of the router, two
  running invokes have different ids and different runtimes, and a running invoke's runtime is neither idle nor
  reserved; an answer of the runtime with an id is handed to a running invoke exactly when that
  invoke runs under the id.\<close>

theorem router_isolates_invokes:
  assumes "cmap_laws cm" and "ir_reach cm s"
  shows "(\<forall>c d i j r q. ir_pc s c = InvRun i r \<longrightarrow> ir_pc s d = InvRun j q \<longrightarrow> c \<noteq> d \<longrightarrow> i \<noteq> j \<and> r \<noteq> q) \<and>
         (\<forall>c i r. ir_pc s c = InvRun i r \<longrightarrow> r \<notin> set (rp_idle (ir_pool s)) \<and> r \<notin> set (reserved_runtimes (ir_pool s))) \<and>
         (\<forall>i r. fst (router_RuntimeResponse cm i s) = RouteTo r \<longleftrightarrow> (\<exists>c. ir_pc s c = InvRun i r))"
proof (intro conjI allI impI)
  note inv = ir_invariants [OF assms(2,1)]
  fix c d i j r q
  assume p: "ir_pc s c = InvRun i r" "ir_pc s d = InvRun j q" "c \<noteq> d"
  show "i \<noteq> j" using inv(2) p unfolding ids_inv_def by (metis pc_entry.simps(3))
  show "r \<noteq> q" using inv(1) p unfolding runtimes_inv_def by (metis pc_runtime.simps(2))
next
  note inv = ir_invariants [OF assms(2,1)]
  fix c i r
  assume "ir_pc s c = InvRun i r"
  then have "r \<notin> set (pool_rts (ir_pool s))" using inv(1) unfolding runtimes_inv_def by (metis pc_runtime.simps(2))
  then show "r \<notin> set (rp_idle (ir_pool s))" "r \<notin> set (reserved_runtimes (ir_pool s))" by (auto simp: pool_rts_def)
next
  note inv = ir_invariants [OF assms(2,1)]
  fix i r
  have "fst (router_RuntimeResponse cm i s) = RouteTo r \<longleftrightarrow> cm_Get cm (ir_running s) i = Some (Some r)"
    by (auto simp: router_RuntimeResponse_def route_by_id_def split: option.splits prod.splits bool.splits)
  also have "\<dots> \<longleftrightarrow> (\<exists>c. ir_pc s c = InvRun i r)"
    using ids_invD [OF inv(2)] by (simp add: pc_entry_iff)
  finally show "fst (router_RuntimeResponse cm i s) = RouteTo r \<longleftrightarrow> (\<exists>c. ir_pc s c = InvRun i r)" .
qed

text \<open>Between the moment an invoke claims its id and the moment it publishes its runtime, the
  map holds a nil entry: an answer with that id that arrives then, a late one of an earlier invoke
  with the same id say, is neither accepted nor refused, the router panics on it.\<close>

theorem router_panics_on_early_answer:
  assumes "cmap_laws cm" and "ir_reach cm s"
  shows "fst (router_RuntimeResponse cm i s) = RoutePanic \<longleftrightarrow>
           (\<exists>c. ir_pc s c = InvAcquire i \<or> (\<exists>r. ir_pc s c = InvSet i r))"
proof -
  have "fst (router_RuntimeResponse cm i s) = RoutePanic \<longleftrightarrow> cm_Get cm (ir_running s) i = Some None"
    by (auto simp: router_RuntimeResponse_def route_by_id_def split: option.splits prod.splits bool.splits)
  also have "\<dots> \<longleftrightarrow> (\<exists>c. ir_pc s c = InvAcquire i \<or> (\<exists>r. ir_pc s c = InvSet i r))"
    using ids_invD [OF ir_invariants(2) [OF assms(2,1)]] by (simp add: pc_entry_iff)
  finally show ?thesis .
qed

definition sample_router :: "(InvokeID \<times> ref option) list InvokeRouter" where
  "sample_router = \<lparr>ir_pool = \<lparr>rp_idle = [], rp_reserved = [], rp_maxSize = 4\<rparr>,
     ir_timers = \<lparr>next_timer = 0, armed = [], fired = []\<rparr>, ir_running = [], ir_cache = NewRecentCache,
     ir_next_ref = 0, ir_pc = (\<lambda>_. InvIdle)\<rparr>"

definition sample_trace :: "ir_event list" where
  "sample_trace = [INext, INext, IReserve ''b'', IBegin 0 ''a'', IAcquire 0, ISet 0, IBegin 1 ''a'', IBegin 2 ''b'', IAcquire 2]"

lemma sample_router_reach: "ir_reach alist_cmap sample_router"
  by (rule ir_new [of _ 4]) (simp add: NewInvokeRouter_def NewRuntimePool_def sample_router_def alist_cmap_def)

lemma sample_trace_runs:
  "\<exists>s. ir_exec alist_cmap sample_trace sample_router = Some s \<and> ir_pc s 0 = InvRun ''a'' 1 \<and> ir_pc s 2 = InvSet ''b'' 0"
  by (simp add: sample_trace_def sample_router_def alist_cmap_def router_RuntimeNext_def pool_Add_def Let_def
      ReserveIdleRuntime_def pool_Reserve_def dequeueIdle_def AfterFunc_def Invoke_begin_def Invoke_acquire_def
      pool_Acquire_def Invoke_set_def timer_Stop_def)

theorem router_isolates_invokes_witness:
  "\<exists>s. ir_exec alist_cmap sample_trace sample_router = Some s \<and>
       fst (router_RuntimeResponse alist_cmap ''a'' s) = RouteTo 1 \<and> 1 \<notin> set (rp_idle (ir_pool s))"
proof -
  obtain s where s: "ir_exec alist_cmap sample_trace sample_router = Some s" "ir_pc s 0 = InvRun ''a'' 1"
    using sample_trace_runs by blast
  from router_isolates_invokes [OF alist_cmap_laws ir_reach_exec [OF sample_router_reach s(1)]] s show ?thesis by blast
qed

theorem router_panics_on_early_answer_witness:
  "\<exists>s. ir_exec alist_cmap sample_trace sample_router = Some s \<and>
       fst (router_RuntimeResponse alist_cmap ''b'' s) = RoutePanic"
proof -
  obtain s where s: "ir_exec alist_cmap sample_trace sample_router = Some s" "ir_pc s 2 = InvSet ''b'' 0"
    using sample_trace_runs by blast
  from router_panics_on_early_answer [OF alist_cmap_laws ir_reach_exec [OF sample_router_reach s(1)]] s show ?thesis by blast
qed

end
