(* ===== verification/Instance_Shutdown.thy ===== *)
theory Instance_Shutdown
  imports Instance_Core Invoke_Router
begin

text \<open>
  The shutdown of a managed instance, \<open>internal/lambda-managed-instances/rapid/shutdown.go\<close> and \<open>HandleShutdown\<close> of
  \<open>sandbox.go\<close>.  \<open>shutdown\<close> runs one goroutine per launched agent next to its own, while the goroutine that watches the
  supervisor closes exit channels and the processes go on calling the Extensions API; the model interleaves them.
  An exit channel is an entry \<open>name \<mapsto> closed\<close>.  Deadlines are events of the environment, and what a call
  of the supervisor returns is an argument of the step that makes it.  \<open>errors.Join\<close> drops nil errors, so the
  errors collected are a list, empty exactly when the joined error is nil.
\<close>

section \<open>State\<close>

datatype mi_request = MExec string string | MTerminate string | MKill string

datatype mi_event = EvFlush | EvImageError string | EvInitDone "AppError option" | EvShutdownRenderer int string

record mi_rapid =
  mx_firstFatalError :: "AppError option"
  mx_reg :: mi_reg
  mx_shuttingDown :: bool
  mx_agentsAwaitingExit :: "(string \<times> ref) list"
  mx_processExited :: "(string \<times> bool) list"
  mx_requests :: "mi_request list"
  mx_events :: "mi_event list"
  mx_processTermChan :: "AppError list"
  mx_telemetryOff :: bool
  mx_serverClosed :: bool
  mx_panic :: bool

definition mi_Start :: mi_rapid where
  "mi_Start = \<lparr>mx_firstFatalError = None, mx_reg = mi_NewRegistrationService mi_NewInitFlowSynchronization,
     mx_shuttingDown = False, mx_agentsAwaitingExit = [], mx_processExited = [], mx_requests = [], mx_events = [],
     mx_processTermChan = [], mx_telemetryOff = False, mx_serverClosed = False, mx_panic = False\<rparr>"

definition runtimeProcessName :: string where "runtimeProcessName = ''runtime''"

definition extensionProcessName :: "string \<Rightarrow> string" where
  "extensionProcessName extensionName = ''extension-'' @ extensionName"

definition mi_send :: "mi_request \<Rightarrow> mi_rapid \<Rightarrow> mi_rapid" where
  "mi_send q c = c\<lparr>mx_requests := mx_requests c @ [q]\<rparr>"

definition mi_StoreFirstFatalError :: "AppError \<Rightarrow> mi_rapid \<Rightarrow> mi_rapid" where
  "mi_StoreFirstFatalError e c =
    (case mx_firstFatalError c of Some existing \<Rightarrow> c | None \<Rightarrow> c\<lparr>mx_firstFatalError := Some e\<rparr>)"

definition WrapErrorIntoCustomerFatalError :: "string \<Rightarrow> AppError" where
  "WrapErrorIntoCustomerFatalError errorType = (NewCustomerError errorType)\<lparr>ae_severity := ErrorSeverityFatal\<rparr>"

definition WrapErrorIntoCustomerInvalidError :: "string \<Rightarrow> AppError" where
  "WrapErrorIntoCustomerInvalidError errorType = (NewCustomerError errorType)\<lparr>ae_severity := ErrorSeverityInvalid\<rparr>"

definition ErrorRuntimeOutOfMemory :: string where "ErrorRuntimeOutOfMemory = ''Runtime.OutOfMemory''"
definition ErrorRuntimeExit :: string where "ErrorRuntimeExit = ''Runtime.ExitError''"
definition ErrorAgentCrash :: string where "ErrorAgentCrash = ''Extension.Crash''"
definition ErrorExecutionEnvironmentShutdown :: string where
  "ErrorExecutionEnvironmentShutdown = ''Client.ExecutionEnvironmentShutDown''"

section \<open>Terminations\<close>

datatype termination_cause = CauseSignaled | CauseExited | CauseOomKilled

record mi_termination =
  pt_Name :: string
  pt_Cause :: termination_cause
  pt_Signo :: "int option"
  pt_ExitStatus :: "int option"

definition ExitedWithZeroExitCode :: "mi_termination \<Rightarrow> bool" where
  "ExitedWithZeroExitCode t = (pt_Cause t = CauseExited \<and> pt_ExitStatus t = Some 0)"

definition pt_OomKilled :: "mi_termination \<Rightarrow> bool" where
  "pt_OomKilled t = (pt_Cause t = CauseOomKilled)"

text \<open>\<open>signame\<close> is \<open>syscall.Signal.String\<close>.\<close>

definition pt_String :: "(int \<Rightarrow> string) \<Rightarrow> mi_termination \<Rightarrow> string" where
  "pt_String signame t =
    (case pt_ExitStatus t of
       Some st \<Rightarrow> ''exit status '' @ int_dec st
     | None \<Rightarrow> (case pt_Signo t of Some n \<Rightarrow> ''signal: '' @ signame n | None \<Rightarrow> ''signal: killed''))"

definition mi_getExitedChannel :: "string \<Rightarrow> mi_rapid \<Rightarrow> bool option" where
  "mi_getExitedChannel name c = map_of (mx_processExited c) name"

definition mi_createExitedChannel :: "string \<Rightarrow> mi_rapid \<Rightarrow> mi_rapid" where
  "mi_createExitedChannel name c =
    (if mi_getExitedChannel name c \<noteq> None then c\<lparr>mx_panic := True\<rparr>
     else c\<lparr>mx_processExited := go_map_set name False (mx_processExited c)\<rparr>)"

definition agent_exit :: "mi_termination \<Rightarrow> ns \<Rightarrow> mi_rapid \<Rightarrow> mi_rapid" where
  "agent_exit t now c =
    c\<lparr>mx_reg := (case map_of (mx_agentsAwaitingExit c) (pt_Name t) of
                 Some agent \<Rightarrow> fst (mi_ext_call (if ExitedWithZeroExitCode t then MEAExited else MEAShutdownFailed)
                                  now now agent (mx_reg c))
               | None \<Rightarrow> mx_reg c)\<rparr>"

definition mi_handleProcessExit :: "mi_termination \<Rightarrow> ns \<Rightarrow> mi_rapid \<Rightarrow> mi_rapid" where
  "mi_handleProcessExit t now c =
    (let c = agent_exit t now c
     in case mi_getExitedChannel (pt_Name t) c of
          Some False \<Rightarrow> c\<lparr>mx_processExited := go_map_set (pt_Name t) True (mx_processExited c)\<rparr>
        | Some True \<Rightarrow> c\<lparr>mx_panic := True\<rparr>
        | None \<Rightarrow> c)"

definition termination_error :: "(int \<Rightarrow> string) \<Rightarrow> mi_termination \<Rightarrow> go_error \<times> string" where
  "termination_error signame t =
    (if pt_Name t = runtimeProcessName
     then (if pt_OomKilled t then (ErrText (''runtime exited with error: '' @ pt_String signame t), ErrorRuntimeOutOfMemory)
           else if ExitedWithZeroExitCode t then (ErrText ''runtime exited without providing a reason'', ErrorRuntimeExit)
           else (ErrText (''runtime exited with error: '' @ pt_String signame t), ErrorRuntimeExit))
     else (if ExitedWithZeroExitCode t then ErrText ''exit code 0'' else ErrText (pt_String signame t), ErrorAgentCrash))"

text \<open>\<open>listening\<close> says whether a receiver waits on \<open>processTermChan\<close>, which has no buffer: else the notification is dropped.\<close>

definition mi_processTermination :: "(int \<Rightarrow> string) \<Rightarrow> mi_termination \<Rightarrow> bool \<Rightarrow> ns \<Rightarrow> mi_rapid \<Rightarrow> mi_rapid" where
  "mi_processTermination signame t listening now c =
    (if mx_shuttingDown c
     then mi_handleProcessExit t now (c\<lparr>mx_reg := mi_CancelFlows None (mx_reg c)\<rparr>)
     else let (er, fatalError) = termination_error signame t;
              c = mi_StoreFirstFatalError (WrapErrorIntoCustomerFatalError fatalError) (c\<lparr>mx_shuttingDown := True\<rparr>);
              c = (if listening then c\<lparr>mx_processTermChan := mx_processTermChan c @ [the (mx_firstFatalError c)]\<rparr> else c)
          in mi_handleProcessExit t now (c\<lparr>mx_reg := mi_CancelFlows (Some er) (mx_reg c)\<rparr>))"

section \<open>The goroutines of a shutdown\<close>

datatype sd_pc = PcRuntime | PcAgents nat | PcFinal nat | PcReturned

datatype sd_goroutine = GoRelease string ref | GoWait string | GoKill string | GoSent "go_error option"

record shutdown_run =
  sr_ctx :: mi_rapid
  sr_pc :: sd_pc
  sr_errs :: "go_error list"
  sr_awaiters :: "sd_goroutine list"
  sr_channels :: "string list"
  sr_agents :: "ref list"
  sr_reason :: string
  sr_rtExpired :: bool
  sr_extExpired :: bool
  sr_exitTimeout :: bool

definition some_err :: "go_error option \<Rightarrow> go_error list" where
  "some_err e = (case e of Some e \<Rightarrow> [e] | None \<Rightarrow> [])"

text \<open>The end of \<open>shutdown\<close>: with errors it returns at once, otherwise it waits for the channels it finds now.\<close>

definition shutdown_finish :: "shutdown_run \<Rightarrow> shutdown_run" where
  "shutdown_finish s =
    (if sr_errs s = [] then s\<lparr>sr_pc := PcFinal 0, sr_channels := map fst (mx_processExited (sr_ctx s))\<rparr>
     else s\<lparr>sr_pc := PcReturned\<rparr>)"

text \<open>One turn of the loop of \<open>shutdownAgents\<close>.\<close>

definition stop_agent :: "ref \<Rightarrow> shutdown_run \<Rightarrow> shutdown_run" where
  "stop_agent a s =
    (let c = sr_ctx s; agent = mr_extAgents (mx_reg c) ! a; name = extensionProcessName (ea_Name agent)
     in if mi_getExitedChannel name c = None then s
        else if ExternalAgent_IsSubscribed ShutdownEvent agent
        then s\<lparr>sr_ctx := c\<lparr>mx_agentsAwaitingExit := go_map_set name a (mx_agentsAwaitingExit c)\<rparr>,
               sr_awaiters := sr_awaiters s @ [GoRelease name a]\<rparr>
        else s\<lparr>sr_awaiters := sr_awaiters s @ [GoKill name]\<rparr>)"

definition mi_shutdownAgents :: "int \<Rightarrow> shutdown_run \<Rightarrow> shutdown_run" where
  "mi_shutdownAgents deadlineMs s =
    (let c = sr_ctx s; c = c\<lparr>mx_events := mx_events c @ [EvFlush, EvShutdownRenderer deadlineMs (sr_reason s)]\<rparr>;
         s = s\<lparr>sr_ctx := c\<rparr>
     in (fold stop_agent (sr_agents s) s)\<lparr>sr_pc := PcAgents 0\<rparr>)"

text \<open>The start of \<open>shutdown\<close>; \<open>killErr\<close> is what killing the runtime returns, \<open>deadlineMs\<close> the deadline shown to the agents.\<close>

definition shutdown_begin :: "ref list \<Rightarrow> int \<Rightarrow> string \<Rightarrow> go_error option \<Rightarrow> int \<Rightarrow> mi_rapid \<Rightarrow> shutdown_run" where
  "shutdown_begin externalAgents totalAgentsCount reason killErr deadlineMs c =
    (let s = \<lparr>sr_ctx = c\<lparr>mx_shuttingDown := True\<rparr>, sr_pc = PcRuntime, sr_errs = [], sr_awaiters = [], sr_channels = [],
              sr_agents = externalAgents, sr_reason = reason, sr_rtExpired = False, sr_extExpired = False, sr_exitTimeout = False\<rparr>;
         found = (mi_getExitedChannel runtimeProcessName c \<noteq> None)
     in if totalAgentsCount = 0
        then shutdown_finish (if found then s\<lparr>sr_ctx := mi_send (MKill runtimeProcessName) (sr_ctx s), sr_errs := some_err killErr\<rparr> else s)
        else if found then s\<lparr>sr_ctx := mi_send (MTerminate runtimeProcessName) (sr_ctx s)\<rparr>
        else mi_shutdownAgents deadlineMs (s\<lparr>sr_errs := [ErrText ''runtime was not started'']\<rparr>))"

text \<open>\<open>waitProcessExitedOrKill\<close>: an exited process wins over the expired context; \<open>None\<close> while both are open.\<close>

definition wait_exited_or_kill :: "string \<Rightarrow> bool \<Rightarrow> go_error option \<Rightarrow> mi_rapid \<Rightarrow> (mi_rapid \<times> go_error option) option" where
  "wait_exited_or_kill name expired killErr c =
    (if mi_getExitedChannel name c = Some True then Some (c, None)
     else if expired then Some (mi_send (MKill name) c, killErr)
     else None)"

definition runtime_step :: "go_error option \<Rightarrow> int \<Rightarrow> shutdown_run \<Rightarrow> shutdown_run option" where
  "runtime_step killErr deadlineMs s =
    (if sr_pc s = PcRuntime
     then map_option (\<lambda>(c, e). mi_shutdownAgents deadlineMs (s\<lparr>sr_ctx := c, sr_errs := sr_errs s @ some_err e\<rparr>))
            (wait_exited_or_kill runtimeProcessName (sr_rtExpired s) killErr (sr_ctx s))
     else None)"

definition goroutine_step :: "nat \<Rightarrow> nat \<Rightarrow> go_error option \<Rightarrow> shutdown_run \<Rightarrow> shutdown_run option" where
  "goroutine_step i pick killErr s =
    (if i < length (sr_awaiters s)
     then (case sr_awaiters s ! i of
             GoRelease name a \<Rightarrow>
               Some (s\<lparr>sr_ctx := (sr_ctx s)\<lparr>mx_reg := fst (mi_ext_call (MEARelease pick) 0 0 a (mx_reg (sr_ctx s)))\<rparr>,
                       sr_awaiters := (sr_awaiters s)[i := GoWait name]\<rparr>)
           | GoWait name \<Rightarrow>
               map_option (\<lambda>(c, e). s\<lparr>sr_ctx := c, sr_awaiters := (sr_awaiters s)[i := GoSent e]\<rparr>)
                 (wait_exited_or_kill name (sr_extExpired s) killErr (sr_ctx s))
           | GoKill name \<Rightarrow>
               Some (s\<lparr>sr_ctx := mi_send (MKill name) (sr_ctx s), sr_awaiters := (sr_awaiters s)[i := GoSent None]\<rparr>)
           | GoSent e \<Rightarrow> None)
     else None)"

definition collect_step :: "shutdown_run \<Rightarrow> shutdown_run option" where
  "collect_step s =
    (case sr_pc s of
       PcAgents n \<Rightarrow>
         (if n < length (sr_awaiters s)
          then (case sr_awaiters s ! n of
                  GoSent e \<Rightarrow> Some (s\<lparr>sr_pc := PcAgents (Suc n), sr_errs := sr_errs s @ some_err e\<rparr>)
                | _ \<Rightarrow> None)
          else Some (shutdown_finish s))
     | _ \<Rightarrow> None)"

definition final_step :: "bool \<Rightarrow> shutdown_run \<Rightarrow> shutdown_run option" where
  "final_step selectTimeout s =
    (case sr_pc s of
       PcFinal n \<Rightarrow>
         (if n < length (sr_channels s)
          then (let exited = (mi_getExitedChannel (sr_channels s ! n) (sr_ctx s) = Some True)
                in if exited \<and> \<not> (sr_exitTimeout s \<and> selectTimeout) then Some (s\<lparr>sr_pc := PcFinal (Suc n)\<rparr>)
                   else if sr_exitTimeout s
                   then Some (s\<lparr>sr_pc := PcReturned, sr_errs := sr_errs s @ [ErrText ''timed out waiting for runtime processes to exit'']\<rparr>)
                   else None)
          else Some (s\<lparr>sr_pc := PcReturned\<rparr>))
     | _ \<Rightarrow> None)"

datatype sd_event =
    SdRuntime "go_error option" int | SdGoroutine nat nat "go_error option" | SdCollect | SdFinal bool
  | SdTerminated mi_termination bool ns | SdStarted string | SdCall mi_ea_op ns ns ref | SdRtDeadline | SdExtDeadline | SdExitTimer

text \<open>The steps of \<open>shutdown\<close> itself come first; the others belong to the watcher, to \<open>init\<close>, to requests of the agents
  and to the timers.  Nothing runs after a panic.\<close>

fun sd_step :: "(int \<Rightarrow> string) \<Rightarrow> sd_event \<Rightarrow> shutdown_run \<Rightarrow> shutdown_run option" where
  "sd_step sg (SdRuntime killErr deadlineMs) s = (if mx_panic (sr_ctx s) then None else runtime_step killErr deadlineMs s)"
| "sd_step sg (SdGoroutine i pick killErr) s = (if mx_panic (sr_ctx s) then None else goroutine_step i pick killErr s)"
| "sd_step sg SdCollect s = (if mx_panic (sr_ctx s) then None else collect_step s)"
| "sd_step sg (SdFinal b) s = (if mx_panic (sr_ctx s) then None else final_step b s)"
| "sd_step sg (SdTerminated t listening now) s =
    (if mx_panic (sr_ctx s) then None else Some (s\<lparr>sr_ctx := mi_processTermination sg t listening now (sr_ctx s)\<rparr>))"
| "sd_step sg (SdStarted name) s =
    (if mx_panic (sr_ctx s) then None else Some (s\<lparr>sr_ctx := mi_createExitedChannel name (sr_ctx s)\<rparr>))"
| "sd_step sg (SdCall q now now' a) s =
    (if mx_panic (sr_ctx s) then None
     else Some (s\<lparr>sr_ctx := (sr_ctx s)\<lparr>mx_reg := fst (mi_ext_call q now now' a (mx_reg (sr_ctx s)))\<rparr>\<rparr>))"
| "sd_step sg SdRtDeadline s = (if mx_panic (sr_ctx s) then None else Some (s\<lparr>sr_rtExpired := True\<rparr>))"
| "sd_step sg SdExtDeadline s = (if mx_panic (sr_ctx s) then None else Some (s\<lparr>sr_extExpired := True\<rparr>))"
| "sd_step sg SdExitTimer s =
    (case sr_pc s of
       PcFinal n \<Rightarrow> if mx_panic (sr_ctx s) then None else Some (s\<lparr>sr_exitTimeout := True\<rparr>)
     | _ \<Rightarrow> None)"

fun sd_run :: "(int \<Rightarrow> string) \<Rightarrow> sd_event list \<Rightarrow> shutdown_run \<Rightarrow> shutdown_run option" where
  "sd_run sg [] s = Some s"
| "sd_run sg (e # es) s = (case sd_step sg e s of Some s \<Rightarrow> sd_run sg es s | None \<Rightarrow> None)"

inductive sd_reach :: "(int \<Rightarrow> string) \<Rightarrow> shutdown_run \<Rightarrow> shutdown_run \<Rightarrow> bool" for sg s0 where
  sd_refl: "sd_reach sg s0 s0"
| sd_next: "sd_reach sg s0 s \<Longrightarrow> sd_step sg e s = Some s' \<Longrightarrow> sd_reach sg s0 s'"

section \<open>\<open>HandleShutdown\<close>\<close>

definition shutdown_reason :: "AppError option \<Rightarrow> string" where
  "shutdown_reason shutdownCause =
    (case shutdownCause of
       Some e \<Rightarrow> if ae_errorType e \<noteq> ErrorExecutionEnvironmentShutdown then ''failure'' else ''spindown''
     | None \<Rightarrow> ''spindown'')"

text \<open>The running invokes are aborted before the shutdown starts; the first component is the runtimes they occupy.\<close>

definition HandleShutdown_begin ::
  "'m cmap_ops \<Rightarrow> 'm InvokeRouter \<Rightarrow> AppError option \<Rightarrow> go_error option \<Rightarrow> int \<Rightarrow> mi_rapid \<Rightarrow> ref list \<times> shutdown_run" where
  "HandleShutdown_begin M invokeRouter shutdownCause killErr deadlineMs c =
    (AbortRunningInvokes M invokeRouter,
     shutdown_begin (mi_GetExternalAgents (mx_reg c)) (mi_CountAgents (mx_reg c)) (shutdown_reason shutdownCause) killErr deadlineMs c)"

definition HandleShutdown_end :: "shutdown_run \<Rightarrow> mi_rapid" where
  "HandleShutdown_end s = (if sr_errs s \<noteq> [] then sr_ctx s else (sr_ctx s)\<lparr>mx_serverClosed := True\<rparr>)"

section \<open>What a shutdown without error has seen\<close>

abbreviation exited :: "mi_rapid \<Rightarrow> string \<Rightarrow> bool" where
  "exited c n \<equiv> mi_getExitedChannel n c = Some True"

text \<open>Exit channels are never removed or reopened.\<close>

definition channels_grow :: "mi_rapid \<Rightarrow> mi_rapid \<Rightarrow> bool" where
  "channels_grow c c' = (mx_serverClosed c' = mx_serverClosed c \<and>
    (\<forall>n. (exited c n \<longrightarrow> exited c' n) \<and> (n \<in> fst ` set (mx_processExited c) \<longrightarrow> n \<in> fst ` set (mx_processExited c'))))"

lemma channels_grow_refl [simp]: "channels_grow c c"
  by (simp add: channels_grow_def)

lemma channels_grow_trans: "channels_grow a b \<Longrightarrow> channels_grow b c \<Longrightarrow> channels_grow a c"
  by (auto simp: channels_grow_def)

lemma channels_grow_frame [simp]:
  "channels_grow c (c'\<lparr>mx_requests := q\<rparr>) = channels_grow c c'"
  "channels_grow c (c'\<lparr>mx_reg := r\<rparr>) = channels_grow c c'"
  "channels_grow c (c'\<lparr>mx_events := ev\<rparr>) = channels_grow c c'"
  "channels_grow c (c'\<lparr>mx_agentsAwaitingExit := aw\<rparr>) = channels_grow c c'"
  "channels_grow c (c'\<lparr>mx_shuttingDown := b\<rparr>) = channels_grow c c'"
  "channels_grow c (c'\<lparr>mx_panic := b\<rparr>) = channels_grow c c'"
  "channels_grow c (c'\<lparr>mx_processTermChan := l\<rparr>) = channels_grow c c'"
  "channels_grow c (c'\<lparr>mx_firstFatalError := fe\<rparr>) = channels_grow c c'"
  by (simp_all add: channels_grow_def mi_getExitedChannel_def)

lemma channels_grow_request [simp]: "channels_grow c (mi_send q c') = channels_grow c c'"
  by (simp add: mi_send_def)

lemma channels_grow_set:
  "channels_grow c c' \<Longrightarrow> mi_getExitedChannel n c' \<noteq> Some True \<or> b \<Longrightarrow>
    channels_grow c (c'\<lparr>mx_processExited := go_map_set n b (mx_processExited c')\<rparr>)"
  by (auto simp: channels_grow_def mi_getExitedChannel_def)

lemma channels_grow_handleProcessExit:
  assumes "channels_grow c c'"
  shows "channels_grow c (mi_handleProcessExit t now c')"
proof -
  have "channels_grow c (agent_exit t now c')" using assms by (simp add: agent_exit_def)
  then show ?thesis
    by (auto simp: mi_handleProcessExit_def Let_def split: option.split bool.split intro: channels_grow_set)
qed

lemma channels_grow_processTermination: "channels_grow c (mi_processTermination sg t l now c)"
  by (auto simp: mi_processTermination_def mi_StoreFirstFatalError_def Let_def split: prod.split option.split
      intro!: channels_grow_handleProcessExit)

lemma stop_agent_frame:
  "sr_errs (stop_agent a s) = sr_errs s" "sr_pc (stop_agent a s) = sr_pc s"
  "sr_channels (stop_agent a s) = sr_channels s" "sr_agents (stop_agent a s) = sr_agents s"
  "sr_rtExpired (stop_agent a s) = sr_rtExpired s" "sr_extExpired (stop_agent a s) = sr_extExpired s"
  "mx_processExited (sr_ctx (stop_agent a s)) = mx_processExited (sr_ctx s)"
  "mx_panic (sr_ctx (stop_agent a s)) = mx_panic (sr_ctx s)"
  "mx_reg (sr_ctx (stop_agent a s)) = mx_reg (sr_ctx s)"
  "mx_requests (sr_ctx (stop_agent a s)) = mx_requests (sr_ctx s)"
  "channels_grow c (sr_ctx (stop_agent a s)) = channels_grow c (sr_ctx s)"
  by (simp_all add: stop_agent_def Let_def)

lemma stop_fold_frame:
  "sr_errs (fold stop_agent as s) = sr_errs s" "sr_pc (fold stop_agent as s) = sr_pc s"
  "sr_channels (fold stop_agent as s) = sr_channels s" "sr_agents (fold stop_agent as s) = sr_agents s"
  "sr_rtExpired (fold stop_agent as s) = sr_rtExpired s" "sr_extExpired (fold stop_agent as s) = sr_extExpired s"
  "mx_processExited (sr_ctx (fold stop_agent as s)) = mx_processExited (sr_ctx s)"
  "mx_panic (sr_ctx (fold stop_agent as s)) = mx_panic (sr_ctx s)"
  "mx_reg (sr_ctx (fold stop_agent as s)) = mx_reg (sr_ctx s)"
  "mx_requests (sr_ctx (fold stop_agent as s)) = mx_requests (sr_ctx s)"
  "channels_grow c (sr_ctx (fold stop_agent as s)) = channels_grow c (sr_ctx s)"
  by (induction as arbitrary: s) (simp_all add: stop_agent_frame)

lemma shutdownAgents_frame [simp]:
  "sr_errs (mi_shutdownAgents d s) = sr_errs s" "sr_pc (mi_shutdownAgents d s) = PcAgents 0"
  "sr_channels (mi_shutdownAgents d s) = sr_channels s" "sr_agents (mi_shutdownAgents d s) = sr_agents s"
  "sr_rtExpired (mi_shutdownAgents d s) = sr_rtExpired s" "sr_extExpired (mi_shutdownAgents d s) = sr_extExpired s"
  "mx_processExited (sr_ctx (mi_shutdownAgents d s)) = mx_processExited (sr_ctx s)"
  "mx_panic (sr_ctx (mi_shutdownAgents d s)) = mx_panic (sr_ctx s)"
  "mx_reg (sr_ctx (mi_shutdownAgents d s)) = mx_reg (sr_ctx s)"
  "mx_requests (sr_ctx (mi_shutdownAgents d s)) = mx_requests (sr_ctx s)"
  "channels_grow c (sr_ctx (mi_shutdownAgents d s)) = channels_grow c (sr_ctx s)"
  by (simp_all add: mi_shutdownAgents_def Let_def stop_fold_frame)

definition final_wait_ok :: "mi_rapid \<Rightarrow> shutdown_run \<Rightarrow> bool" where
  "final_wait_ok c s = (channels_grow c (sr_ctx s) \<and>
    (case sr_pc s of
       PcFinal n \<Rightarrow> sr_errs s = [] \<and> fst ` set (mx_processExited c) \<subseteq> set (sr_channels s) \<and>
         (\<forall>i < n. i < length (sr_channels s) \<longrightarrow> exited (sr_ctx s) (sr_channels s ! i))
     | PcReturned \<Rightarrow> sr_errs s = [] \<longrightarrow> fst ` set (mx_processExited c) \<subseteq> set (sr_channels s) \<and>
         (\<forall>n \<in> set (sr_channels s). exited (sr_ctx s) n)
     | _ \<Rightarrow> True))"

lemma final_wait_ok_finish: "channels_grow c (sr_ctx s) \<Longrightarrow> final_wait_ok c (shutdown_finish s)"
  by (auto simp: final_wait_ok_def shutdown_finish_def channels_grow_def)

lemma final_wait_ok_shutdownAgents: "channels_grow c (sr_ctx s) \<Longrightarrow> final_wait_ok c (mi_shutdownAgents d s)"
  by (simp add: final_wait_ok_def)

lemma final_wait_ok_begin: "final_wait_ok c (shutdown_begin as n r ke d c)"
  by (auto simp: shutdown_begin_def Let_def intro!: final_wait_ok_finish final_wait_ok_shutdownAgents)
    (simp add: final_wait_ok_def)

lemma final_wait_ok_ctx:
  "final_wait_ok c s \<Longrightarrow> channels_grow (sr_ctx s) c' \<Longrightarrow> final_wait_ok c (s\<lparr>sr_ctx := c'\<rparr>)"
  using channels_grow_trans [of c "sr_ctx s" c'] by (auto simp: final_wait_ok_def channels_grow_def split: sd_pc.splits)

lemma final_wait_ok_awaiters [simp]:
  "final_wait_ok c (s\<lparr>sr_awaiters := w\<rparr>) = final_wait_ok c s" "final_wait_ok c (s\<lparr>sr_rtExpired := b\<rparr>) = final_wait_ok c s"
  "final_wait_ok c (s\<lparr>sr_extExpired := b\<rparr>) = final_wait_ok c s" "final_wait_ok c (s\<lparr>sr_exitTimeout := b\<rparr>) = final_wait_ok c s"
  by (simp_all add: final_wait_ok_def split: sd_pc.split)

lemma wait_exited_or_kill_grows: "wait_exited_or_kill n x ke c = Some (c', e) \<Longrightarrow> channels_grow c c'"
  by (auto simp: wait_exited_or_kill_def split: if_splits)

lemma final_wait_ok_runtime: "final_wait_ok c s \<Longrightarrow> pred_option (final_wait_ok c) (runtime_step ke d s)"
  using channels_grow_trans [of c "sr_ctx s"]
  by (auto simp: runtime_step_def pred_option_def final_wait_ok_def [of c s] intro!: final_wait_ok_shutdownAgents
      dest!: wait_exited_or_kill_grows)

lemma final_wait_ok_goroutine: "final_wait_ok c s \<Longrightarrow> pred_option (final_wait_ok c) (goroutine_step i pick ke s)"
  by (auto simp: goroutine_step_def pred_option_def final_wait_ok_ctx split: sd_goroutine.splits dest!: wait_exited_or_kill_grows)

lemma final_wait_ok_collect: "final_wait_ok c s \<Longrightarrow> pred_option (final_wait_ok c) (collect_step s)"
  by (auto simp: collect_step_def pred_option_def final_wait_ok_def [of c s] split: sd_pc.splits if_splits sd_goroutine.splits
      intro!: final_wait_ok_finish) (simp add: final_wait_ok_def)

lemma final_wait_ok_final: "final_wait_ok c s \<Longrightarrow> pred_option (final_wait_ok c) (final_step b s)"
  by (auto simp: final_step_def final_wait_ok_def Let_def less_Suc_eq all_set_conv_all_nth split: sd_pc.splits)

lemma final_wait_ok_step: "final_wait_ok c s \<Longrightarrow> pred_option (final_wait_ok c) (sd_step sg e s)"
  by (cases e) (auto simp: final_wait_ok_runtime final_wait_ok_goroutine final_wait_ok_collect final_wait_ok_final
      mi_createExitedChannel_def split: sd_pc.splits intro!: final_wait_ok_ctx channels_grow_processTermination channels_grow_set)

lemma final_wait_ok_reach: "sd_reach sg s s' \<Longrightarrow> final_wait_ok c s \<Longrightarrow> final_wait_ok c s'"
  by (induction rule: sd_reach.induct) (use final_wait_ok_step in \<open>fastforce simp: pred_option_def\<close>)+

text \<open>C9: A shutdown that returns without an error has seen the exit of every process that was started before it began, and only
  then is the runtime API server closed: whatever the processes, the watcher, the timers and the supervisor do meanwhile,
  an instance whose shutdown reports an error keeps its server open.\<close>

theorem server_closed_after_all_exits:
  assumes "snd (HandleShutdown_begin M router cause ke d c) = s0" "sd_reach sg s0 s" "sr_pc s = PcReturned" "\<not> mx_serverClosed c"
  shows "if sr_errs s = []
    then mx_serverClosed (HandleShutdown_end s) \<and> (\<forall>n \<in> fst ` set (mx_processExited c). mi_getExitedChannel n (HandleShutdown_end s) = Some True)
    else \<not> mx_serverClosed (HandleShutdown_end s)"
proof -
  have "final_wait_ok c s"
    using final_wait_ok_reach [OF assms(2)] final_wait_ok_begin assms(1) by (auto simp: HandleShutdown_begin_def)
  then show ?thesis
    using assms(3,4) by (auto simp: final_wait_ok_def HandleShutdown_end_def channels_grow_def mi_getExitedChannel_def)
qed

section \<open>A shutdown returns\<close>

fun goroutine_work :: "sd_goroutine \<Rightarrow> nat" where
  "goroutine_work (GoRelease n a) = 2"
| "goroutine_work (GoWait n) = 1"
| "goroutine_work (GoKill n) = 1"
| "goroutine_work (GoSent e) = 0"

text \<open>The steps \<open>shutdown\<close> and its goroutines still have to make.\<close>

definition shutdown_left :: "shutdown_run \<Rightarrow> nat" where
  "shutdown_left s = sum_list (map goroutine_work (sr_awaiters s)) +
    (let procs = Suc (Suc (length (mx_processExited (sr_ctx s))))
     in case sr_pc s of
          PcRuntime \<Rightarrow> Suc (length (sr_awaiters s) + 3 * length (sr_agents s) + procs)
        | PcAgents n \<Rightarrow> length (sr_awaiters s) - n + procs
        | PcFinal n \<Rightarrow> Suc (length (sr_channels s) - n)
        | PcReturned \<Rightarrow> 0)"

fun own_step :: "sd_event \<Rightarrow> bool" where
  "own_step (SdRuntime ke d) = True"
| "own_step (SdGoroutine i pick ke) = True"
| "own_step SdCollect = True"
| "own_step (SdFinal b) = True"
| "own_step e = False"

fun starts_process :: "sd_event \<Rightarrow> bool" where
  "starts_process (SdStarted n) = True"
| "starts_process e = False"

abbreviation awaiters_left :: "shutdown_run \<Rightarrow> nat" where
  "awaiters_left s \<equiv> sum_list (map goroutine_work (sr_awaiters s)) + length (sr_awaiters s)"

lemma stop_awaiters: "awaiters_left (stop_agent a s) \<le> awaiters_left s + 3"
  by (simp add: stop_agent_def Let_def)

lemma stop_fold_awaiters: "awaiters_left (fold stop_agent as s) \<le> awaiters_left s + 3 * length as"
proof (induction as arbitrary: s)
  case (Cons a as)
  show ?case using Cons.IH [of "stop_agent a s"] stop_awaiters [of a s] by simp
qed simp

lemma shutdownAgents_awaiters: "awaiters_left (mi_shutdownAgents d s) \<le> awaiters_left s + 3 * length (sr_agents s)"
proof -
  let ?s = "s\<lparr>sr_ctx := (sr_ctx s)\<lparr>mx_events := mx_events (sr_ctx s) @ [EvFlush, EvShutdownRenderer d (sr_reason s)]\<rparr>\<rparr>"
  show ?thesis using stop_fold_awaiters [of "sr_agents s" ?s] by (simp add: mi_shutdownAgents_def Let_def)
qed

lemma left_finish: "sr_pc s = PcAgents n \<Longrightarrow> shutdown_left (shutdown_finish s) < shutdown_left s"
  by (simp add: shutdown_left_def shutdown_finish_def Let_def)

lemma work_update:
  "i < length xs \<Longrightarrow> goroutine_work g < goroutine_work (xs ! i) \<Longrightarrow>
    sum_list (map goroutine_work (xs[i := g])) < sum_list (map goroutine_work xs)"
proof (induction xs arbitrary: i)
  case (Cons x xs)
  then show ?case by (cases i) auto
qed simp

lemma left_goroutine: "pred_option (\<lambda>s'. shutdown_left s' < shutdown_left s) (goroutine_step i pick ke s)"
proof (cases "i < length (sr_awaiters s)")
  case True
  have *: "shutdown_left (s\<lparr>sr_ctx := c, sr_awaiters := (sr_awaiters s)[i := g]\<rparr>) < shutdown_left s"
    if "goroutine_work g < goroutine_work (sr_awaiters s ! i)" "mx_processExited c = mx_processExited (sr_ctx s)" for g c
    using work_update [OF True that(1)] that(2) by (simp add: shutdown_left_def Let_def split: sd_pc.split)
  show ?thesis
    using * [of "GoSent None" "sr_ctx s"] by (cases "sr_awaiters s ! i")
      (auto simp: goroutine_step_def wait_exited_or_kill_def mi_send_def True intro!: *)
qed (simp add: goroutine_step_def)

lemma left_runtime: "pred_option (\<lambda>s'. shutdown_left s' < shutdown_left s) (runtime_step ke d s)"
proof (cases "sr_pc s = PcRuntime")
  case True
  have *: "shutdown_left (mi_shutdownAgents d (s\<lparr>sr_ctx := c, sr_errs := e\<rparr>)) < shutdown_left s"
    if "mx_processExited c = mx_processExited (sr_ctx s)" for c e
    using shutdownAgents_awaiters [of d "s\<lparr>sr_ctx := c, sr_errs := e\<rparr>"] True that
    by (simp add: shutdown_left_def Let_def)
  show ?thesis
    using * [of "sr_ctx s"] by (auto simp: runtime_step_def wait_exited_or_kill_def mi_send_def True intro!: *)
qed (simp add: runtime_step_def)

lemma left_own: "own_step e \<Longrightarrow> pred_option (\<lambda>s'. shutdown_left s' < shutdown_left s) (sd_step sg e s)"
proof (cases e)
  case SdCollect
  show ?thesis
    by (auto simp: SdCollect collect_step_def left_finish split: sd_pc.split sd_goroutine.split)
      (simp add: shutdown_left_def Let_def)
next
  case (SdFinal b)
  show ?thesis by (auto simp: SdFinal final_step_def shutdown_left_def Let_def split: sd_pc.split)
qed (simp_all add: left_goroutine left_runtime)

lemma length_processTermination:
  "length (mx_processExited (mi_processTermination sg t l now c)) = length (mx_processExited c)"
proof -
  have "length (mx_processExited (mi_handleProcessExit t now c')) = length (mx_processExited c')" for c'
    by (auto simp: mi_handleProcessExit_def agent_exit_def mi_getExitedChannel_def Let_def length_go_map_set
        dest!: map_of_SomeD split: option.split bool.split intro: rev_image_eqI)
  then show ?thesis
    by (auto simp: mi_processTermination_def mi_StoreFirstFatalError_def Let_def split: prod.split option.split)
qed

lemma left_other:
  "\<not> own_step e \<Longrightarrow> pred_option (\<lambda>s'. shutdown_left s' \<le> shutdown_left s + of_bool (starts_process e)) (sd_step sg e s)"
  by (cases e) (auto simp: shutdown_left_def Let_def length_processTermination mi_createExitedChannel_def length_go_map_set split: sd_pc.split)

lemma left_run:
  "sd_run sg es s = Some s' \<Longrightarrow> length (filter own_step es) + shutdown_left s' \<le> shutdown_left s + length (filter starts_process es)"
proof (induction es arbitrary: s)
  case (Cons e es)
  obtain s1 where s1: "sd_step sg e s = Some s1" "sd_run sg es s1 = Some s'"
    using Cons.prems by (auto split: option.splits)
  have "\<not> (own_step e \<and> starts_process e)" by (cases e) simp_all
  then show ?case
    using Cons.IH [OF s1(2)] left_own [of e s sg] left_other [of e s sg] s1(1) by (cases "own_step e") auto
qed simp

text \<open>With the deadlines passed, one of them is always possible.\<close>

lemma own_enabled:
  assumes "\<not> mx_panic (sr_ctx s)" "sr_pc s \<noteq> PcReturned" "sr_rtExpired s" "sr_extExpired s"
    "\<And>n. sr_pc s = PcFinal n \<Longrightarrow> sr_exitTimeout s"
  shows "\<exists>e s'. own_step e \<and> sd_step sg e s = Some s'"
proof (cases "sr_pc s")
  case PcRuntime
  then have "sd_step sg (SdRuntime None 0) s \<noteq> None"
    using assms by (simp add: runtime_step_def wait_exited_or_kill_def)
  then show ?thesis using own_step.simps(1) by blast
next
  case (PcAgents n)
  show ?thesis
  proof (cases "n < length (sr_awaiters s) \<and> (\<forall>e. sr_awaiters s ! n \<noteq> GoSent e)")
    case True
    then have "sd_step sg (SdGoroutine n 0 None) s \<noteq> None"
      using assms by (cases "sr_awaiters s ! n") (simp_all add: goroutine_step_def wait_exited_or_kill_def)
    then show ?thesis using own_step.simps(2) by blast
  next
    case False
    then have "sd_step sg SdCollect s \<noteq> None"
      using assms PcAgents by (auto simp: collect_step_def split: sd_goroutine.split)
    then show ?thesis using own_step.simps(3) by blast
  qed
next
  case (PcFinal n)
  then have "sd_step sg (SdFinal False) s \<noteq> None"
    using assms by (auto simp: final_step_def Let_def)
  then show ?thesis using own_step.simps(4) by blast
qed (use assms in simp)

text \<open>C12: A shutdown returns, even if no process ever exits and the agents do not cooperate.  In every interleaving the goroutines of the
  shutdown make no more steps than \<open>shutdown_left\<close> allows, plus one for every process that is started meanwhile; and while
  it has not returned, once its deadlines have passed, one of those steps is possible.\<close>

theorem shutdown_returns:
  assumes "sd_run sg es s = Some s'"
  shows "length (filter own_step es) \<le> shutdown_left s + length (filter starts_process es) \<and>
    (\<not> mx_panic (sr_ctx s') \<and> sr_pc s' \<noteq> PcReturned \<and> sr_rtExpired s' \<and> sr_extExpired s' \<and>
      (\<forall>n. sr_pc s' = PcFinal n \<longrightarrow> sr_exitTimeout s') \<longrightarrow> (\<exists>e s''. own_step e \<and> sd_step sg e s' = Some s''))"
  using left_run [OF assms] own_enabled [of s' sg] by auto

section \<open>A shutdown within its deadlines\<close>

text \<open>What the loop over the agents depends on: their names and subscriptions, and which processes were started.\<close>

definition agent_keys :: "mi_rapid \<Rightarrow> (string \<times> (Event \<times> unit) list) list \<times> string list" where
  "agent_keys c = (map (\<lambda>a. (ea_Name a, ea_events a)) (mr_extAgents (mx_reg c)), map fst (mx_processExited c))"

definition unsubscribed_kills :: "mi_rapid \<Rightarrow> ref list \<Rightarrow> mi_request list" where
  "unsubscribed_kills c as = concat (map (\<lambda>a.
    let agent = mr_extAgents (mx_reg c) ! a; name = extensionProcessName (ea_Name agent)
    in if mi_getExitedChannel name c = None \<or> ExternalAgent_IsSubscribed ShutdownEvent agent then [] else [MKill name]) as)"

fun kill_of :: "sd_goroutine \<Rightarrow> mi_request list" where
  "kill_of (GoKill n) = [MKill n]"
| "kill_of g = []"

fun within_deadlines :: "sd_event \<Rightarrow> bool" where
  "within_deadlines (SdStarted n) = False"
| "within_deadlines (SdCall (MEARegister es) now now' a) = False"
| "within_deadlines SdRtDeadline = False"
| "within_deadlines SdExtDeadline = False"
| "within_deadlines e = True"

definition keeps_keys :: "ExternalAgent \<Rightarrow> ExternalAgent \<Rightarrow> bool" where
  "keeps_keys a a' = (ea_Name a' = ea_Name a \<and> ea_events a' = ea_events a)"

lemma keeps_keys_simps [simp]:
  "keeps_keys a a" "keeps_keys a (ea_setStateUnsafe st now a') = keeps_keys a a'"
  "keeps_keys a (a'\<lparr>ea_errorType := er\<rparr>) = keeps_keys a a'" "keeps_keys a (a'\<lparr>ea_ManagedThread := mt\<rparr>) = keeps_keys a a'"
  by (simp_all add: keeps_keys_def)

lemma keeps_keys_suspend: "keeps_keys a a' \<Longrightarrow> keeps_keys a (snd (fst (mi_ea_suspend t now f a')))"
  by (auto simp: mi_ea_suspend_def SuspendUnsafe_def ea_after_suspend_def)

lemma keeps_keys_exec: "(\<forall>es. q \<noteq> MEARegister es) \<Longrightarrow> keeps_keys a (snd (fst (mi_ea_exec q now now' f a)))"
proof (cases q)
  case (MEAReady t)
  then show ?thesis by (cases "ea_currentState a") (simp_all add: mi_ea_method_defs keeps_keys_suspend)
next
  case (MEAResume t)
  then show ?thesis
    by (auto simp: mi_ExternalAgent_resume_def ea_after_suspend_def split: prod.splits option.splits)
qed (cases "ea_currentState a"; simp add: mi_ea_method_defs ExternalAgent_Release_def)+

lemma agent_keys_call:
  assumes "\<forall>es. q \<noteq> MEARegister es"
  shows "agent_keys (c\<lparr>mx_reg := fst (mi_ext_call q now now' a (mx_reg c))\<rparr>) = agent_keys c"
  using keeps_keys_exec [OF assms, of "mr_extAgents (mx_reg c) ! a" now now' "mr_initFlow (mx_reg c)"]
  by (cases "a < length (mr_extAgents (mx_reg c))")
    (auto simp: agent_keys_def mi_ext_call_def keeps_keys_def map_update list_update_same_conv list_update_beyond split: prod.splits)

lemma agent_keys_frame [simp]:
  "agent_keys (c\<lparr>mx_requests := q\<rparr>) = agent_keys c" "agent_keys (c\<lparr>mx_events := ev\<rparr>) = agent_keys c"
  "agent_keys (c\<lparr>mx_agentsAwaitingExit := aw\<rparr>) = agent_keys c" "agent_keys (c\<lparr>mx_shuttingDown := b\<rparr>) = agent_keys c"
  "agent_keys (c\<lparr>mx_panic := b\<rparr>) = agent_keys c" "agent_keys (c\<lparr>mx_processTermChan := l\<rparr>) = agent_keys c"
  "agent_keys (c\<lparr>mx_firstFatalError := fe\<rparr>) = agent_keys c" "agent_keys (mi_send q' c) = agent_keys c"
  "agent_keys (c\<lparr>mx_reg := mi_CancelFlows er (mx_reg c)\<rparr>) = agent_keys c"
  by (simp_all add: agent_keys_def mi_send_def mi_CancelFlows_def)

lemma agent_keys_agent_exit: "agent_keys (agent_exit t now c) = agent_keys c"
  by (simp add: agent_exit_def agent_keys_call split: option.split)

lemma agent_keys_handleProcessExit: "agent_keys (mi_handleProcessExit t now c) = agent_keys c"
proof -
  let ?c = "agent_exit t now c"
  have "agent_keys (?c\<lparr>mx_processExited := go_map_set (pt_Name t) True (mx_processExited ?c)\<rparr>) = agent_keys ?c"
    if "mi_getExitedChannel (pt_Name t) ?c = Some False"
    using map_of_SomeD [OF that [unfolded mi_getExitedChannel_def]]
    by (auto simp: agent_keys_def map_fst_go_map_set intro: rev_image_eqI)
  then show ?thesis
    by (auto simp: mi_handleProcessExit_def Let_def agent_keys_agent_exit split: option.split bool.split)
qed

lemma agent_keys_processTermination: "agent_keys (mi_processTermination sg t l now c) = agent_keys c"
  by (auto simp: mi_processTermination_def mi_StoreFirstFatalError_def Let_def agent_keys_handleProcessExit split: prod.split option.split)

lemma same_keys_lookup:
  assumes "agent_keys c' = agent_keys c"
  shows "mi_getExitedChannel n c' = None \<longleftrightarrow> mi_getExitedChannel n c = None"
    "a < length (mr_extAgents (mx_reg c)) \<Longrightarrow> keeps_keys (mr_extAgents (mx_reg c) ! a) (mr_extAgents (mx_reg c') ! a)"
proof -
  have "set (map fst (mx_processExited c')) = set (map fst (mx_processExited c))" using assms by (simp add: agent_keys_def)
  then show "mi_getExitedChannel n c' = None \<longleftrightarrow> mi_getExitedChannel n c = None"
    by (simp add: mi_getExitedChannel_def map_of_None_iff_mem)
  assume a: "a < length (mr_extAgents (mx_reg c))"
  have eq: "map (\<lambda>a. (ea_Name a, ea_events a)) (mr_extAgents (mx_reg c')) = map (\<lambda>a. (ea_Name a, ea_events a)) (mr_extAgents (mx_reg c))"
    using assms by (simp add: agent_keys_def)
  then have "length (mr_extAgents (mx_reg c')) = length (mr_extAgents (mx_reg c))" by (rule map_eq_imp_length_eq)
  then show "keeps_keys (mr_extAgents (mx_reg c) ! a) (mr_extAgents (mx_reg c') ! a)"
    using a arg_cong [OF eq, of "\<lambda>l. l ! a"] by (simp add: keeps_keys_def)
qed

lemma unsubscribed_kills_cong:
  assumes "agent_keys c' = agent_keys c" "list_all (\<lambda>a. a < length (mr_extAgents (mx_reg c))) as"
  shows "unsubscribed_kills c' as = unsubscribed_kills c as"
  using assms(2)
proof (induction as)
  case (Cons a as)
  have "ea_Name (mr_extAgents (mx_reg c') ! a) = ea_Name (mr_extAgents (mx_reg c) ! a)"
    "ea_events (mr_extAgents (mx_reg c') ! a) = ea_events (mr_extAgents (mx_reg c) ! a)"
    using same_keys_lookup(2) [OF assms(1), of a] Cons.prems by (simp_all add: keeps_keys_def)
  then show ?case
    using Cons same_keys_lookup(1) [OF assms(1)] by (simp add: unsubscribed_kills_def ExternalAgent_IsSubscribed_def Let_def)
qed (simp add: unsubscribed_kills_def)

lemma stop_fold_kills:
  "concat (map kill_of (sr_awaiters (fold stop_agent as s))) =
    concat (map kill_of (sr_awaiters s)) @ unsubscribed_kills (sr_ctx s) as"
proof (induction as arbitrary: s)
  case (Cons a as)
  have ctx: "unsubscribed_kills (sr_ctx (stop_agent a s)) as = unsubscribed_kills (sr_ctx s) as"
    by (simp add: unsubscribed_kills_def mi_getExitedChannel_def stop_agent_frame)
  show ?case
    unfolding fold.simps comp_apply Cons.IH ctx by (simp add: stop_agent_def unsubscribed_kills_def Let_def)
qed (simp add: unsubscribed_kills_def)

lemma shutdownAgents_kills:
  "concat (map kill_of (sr_awaiters (mi_shutdownAgents d s))) =
    concat (map kill_of (sr_awaiters s)) @ unsubscribed_kills (sr_ctx s) (sr_agents s)"
  by (simp add: mi_shutdownAgents_def Let_def stop_fold_kills) (simp add: unsubscribed_kills_def mi_getExitedChannel_def)

lemma mset_concat_update:
  "i < length xs \<Longrightarrow> mset (concat (map f (xs[i := g]))) + mset (f (xs ! i)) = mset (concat (map f xs)) + mset (f g)"
proof (induction xs arbitrary: i)
  case (Cons x xs)
  then show ?case by (cases i) (auto simp: ac_simps)
qed simp

lemma exchange_sums:
  fixes p :: "'a multiset"
  assumes "p' + k = p + x" "r' + x = r + k"
  shows "r' + p' = r + p"
proof -
  have "(r' + p') + (x + k) = (r' + x) + (p' + k)" by (simp add: ac_simps)
  also have "\<dots> = (r + k) + (p + x)" by (simp only: assms)
  also have "\<dots> = (r + p) + (x + k)" by (simp add: ac_simps)
  finally show ?thesis by simp
qed

definition has_sent :: "sd_goroutine \<Rightarrow> bool" where
  "has_sent g = (\<exists>e. g = GoSent e)"

lemma has_sent_simps [simp]:
  "has_sent (GoSent e)" "\<not> has_sent (GoRelease n a)" "\<not> has_sent (GoWait n)" "\<not> has_sent (GoKill n)"
  by (simp_all add: has_sent_def)

text \<open>Requests made and requests still to be made by the goroutines add up to the plan fixed when the shutdown began.\<close>

definition graceful :: "mi_rapid \<Rightarrow> ref list \<Rightarrow> shutdown_run \<Rightarrow> bool" where
  "graceful c as s = (agent_keys (sr_ctx s) = agent_keys c \<and> \<not> sr_rtExpired s \<and> \<not> sr_extExpired s \<and> sr_agents s = as \<and>
    (if sr_pc s = PcRuntime
     then sr_awaiters s = [] \<and> mx_requests (sr_ctx s) = mx_requests c @ [MTerminate runtimeProcessName]
     else mset (mx_requests (sr_ctx s)) + mset (concat (map kill_of (sr_awaiters s))) =
            mset (mx_requests c) + {#MTerminate runtimeProcessName#} + mset (unsubscribed_kills c as) \<and>
          (\<forall>i < length (sr_awaiters s). (case sr_pc s of PcAgents n \<Rightarrow> i < n | _ \<Rightarrow> True) \<longrightarrow> has_sent (sr_awaiters s ! i))))"

lemma graceful_ctx:
  "graceful c as s \<Longrightarrow> agent_keys c' = agent_keys (sr_ctx s) \<Longrightarrow> mx_requests c' = mx_requests (sr_ctx s) \<Longrightarrow>
    graceful c as (s\<lparr>sr_ctx := c'\<rparr>)"
  by (simp add: graceful_def)

lemma graceful_runtime:
  assumes g: "graceful c as s" and as: "list_all (\<lambda>a. a < length (mr_extAgents (mx_reg c))) as"
  shows "pred_option (graceful c as) (runtime_step ke d s)"
proof (cases "sr_pc s = PcRuntime \<and> exited (sr_ctx s) runtimeProcessName")
  case True
  have "unsubscribed_kills (sr_ctx s) as = unsubscribed_kills c as"
    by (rule unsubscribed_kills_cong) (use g as in \<open>simp_all add: graceful_def\<close>)
  moreover have "agent_keys (sr_ctx (mi_shutdownAgents d s)) = agent_keys (sr_ctx s)" for s
    by (simp add: agent_keys_def)
  ultimately show ?thesis
    using g True by (simp add: runtime_step_def wait_exited_or_kill_def graceful_def shutdownAgents_kills some_err_def)
qed (use g in \<open>simp add: runtime_step_def wait_exited_or_kill_def graceful_def\<close>)

lemma graceful_goroutine:
  assumes g: "graceful c as s"
  shows "pred_option (graceful c as) (goroutine_step i pick ke s)"
proof (cases "i < length (sr_awaiters s)")
  case True
  have upd: "graceful c as (s\<lparr>sr_ctx := c', sr_awaiters := (sr_awaiters s)[i := x]\<rparr>)"
    if x: "\<not> has_sent (sr_awaiters s ! i)" and c': "agent_keys c' = agent_keys (sr_ctx s)"
      "mset (mx_requests c') + mset (kill_of x) = mset (mx_requests (sr_ctx s)) + mset (kill_of (sr_awaiters s ! i))" for x c'
  proof -
    have pc: "sr_pc s \<noteq> PcRuntime" using g True by (auto simp: graceful_def)
    have i: "\<exists>n. sr_pc s = PcAgents n \<and> n \<le> i"
      using g pc True x by (cases "sr_pc s") (auto simp: graceful_def)
    have "mset (mx_requests c') + mset (concat (map kill_of ((sr_awaiters s)[i := x]))) =
        mset (mx_requests (sr_ctx s)) + mset (concat (map kill_of (sr_awaiters s)))"
      by (rule exchange_sums [OF mset_concat_update [OF True] c'(2)])
    then show ?thesis
      using g pc i c'(1) by (auto simp: graceful_def nth_list_update)
  qed
  have calls: "agent_keys (cc\<lparr>mx_reg := fst (mi_ext_call (MEARelease pick) 0 0 a (mx_reg cc))\<rparr>) = agent_keys cc" for cc a
    by (rule agent_keys_call) simp
  have "\<not> sr_extExpired s" using g by (simp add: graceful_def)
  then show ?thesis
    using True upd [of "sr_ctx s" "GoSent None"]
    by (cases "sr_awaiters s ! i")
      (auto simp: goroutine_step_def wait_exited_or_kill_def mi_send_def calls intro!: upd)
qed (simp add: goroutine_step_def)

lemma graceful_collect: "graceful c as s \<Longrightarrow> pred_option (graceful c as) (collect_step s)"
  by (auto simp: collect_step_def graceful_def shutdown_finish_def less_Suc_eq split: sd_pc.split sd_goroutine.split)

lemma graceful_final: "graceful c as s \<Longrightarrow> pred_option (graceful c as) (final_step b s)"
  by (auto simp: final_step_def graceful_def Let_def split: sd_pc.split)

lemma graceful_step:
  assumes "graceful c as s" "within_deadlines e" "list_all (\<lambda>a. a < length (mr_extAgents (mx_reg c))) as"
  shows "pred_option (graceful c as) (sd_step sg e s)"
proof (cases e)
  case (SdTerminated t l now)
  have "mx_requests (mi_handleProcessExit t now c') = mx_requests c'" for c'
    by (simp add: mi_handleProcessExit_def agent_exit_def Let_def split: option.split bool.split)
  then have "mx_requests (mi_processTermination sg t l now c') = mx_requests c'" for c'
    by (simp add: mi_processTermination_def mi_StoreFirstFatalError_def Let_def split: prod.split option.split)
  then show ?thesis
    using graceful_ctx [OF assms(1) agent_keys_processTermination] by (simp add: SdTerminated)
next
  case (SdCall q now now' a)
  have "\<forall>es. q \<noteq> MEARegister es" using assms(2) SdCall by auto
  then show ?thesis
    using graceful_ctx [OF assms(1) agent_keys_call] by (simp add: SdCall)
next
  case SdExitTimer
  then show ?thesis using assms(1) by (auto simp: graceful_def split: sd_pc.split)
qed (use assms graceful_runtime graceful_goroutine graceful_collect graceful_final in \<open>simp_all\<close>)

lemma graceful_run:
  "sd_run sg es s = Some s' \<Longrightarrow> list_all within_deadlines es \<Longrightarrow> graceful c as s \<Longrightarrow>
    list_all (\<lambda>a. a < length (mr_extAgents (mx_reg c))) as \<Longrightarrow> graceful c as s'"
proof (induction es arbitrary: s)
  case (Cons e es)
  then show ?case using graceful_step [of c as s e sg] by (auto split: option.splits)
qed simp

text \<open>C13: A shutdown with agents that stays within its deadlines is graceful: the runtime is terminated once and not killed, the only
  processes killed are launched extensions that did not subscribe to \<open>SHUTDOWN\<close>, each once, and every subscribed extension is
  left to exit by itself.  The order of the requests depends on the goroutines; the requests do not.\<close>

theorem graceful_shutdown_requests:
  assumes "sd_run sg es (shutdown_begin as agentsCount reason ke d c) = Some s" "sr_pc s = PcReturned" "list_all within_deadlines es"
    "agentsCount \<noteq> 0" "mi_getExitedChannel runtimeProcessName c \<noteq> None" "list_all (\<lambda>a. a < length (mr_extAgents (mx_reg c))) as"
  shows "mset (mx_requests (sr_ctx s)) =
    mset (mx_requests c) + {#MTerminate runtimeProcessName#} + mset (unsubscribed_kills c as)"
proof -
  have "graceful c as (shutdown_begin as agentsCount reason ke d c)"
    using assms(4,5) by (simp add: shutdown_begin_def graceful_def mi_send_def Let_def)
  then have g: "graceful c as s" by (rule graceful_run [OF assms(1,3) _ assms(6)])
  then have "\<forall>x \<in> set (sr_awaiters s). kill_of x = []"
    using assms(2) by (auto simp: graceful_def all_set_conv_all_nth has_sent_def)
  then have "concat (map kill_of (sr_awaiters s)) = []" by simp
  then show ?thesis using g assms(2) by (simp add: graceful_def del: concat_eq_Nil_conv)
qed

section \<open>An instance with two extensions\<close>

definition sample_reg :: mi_reg where
  "sample_reg =
    (let r = mi_NewRegistrationService mi_NewInitFlowSynchronization;
         r = fst (mi_CreateExternalAgent ''a'' ''1'' 0 r);
         r = fst (mi_CreateExternalAgent ''b'' ''2'' 0 r);
         r = fst (mi_ext_call (MEARegister [ShutdownEvent]) 1 1 0 r);
         r = fst (mi_ext_call (MEARegister []) 2 2 1 r);
         r = fst (mi_ext_call (MEAReady 5) 3 3 0 r)
     in fst (mi_ext_call (MEAReady 6) 4 4 1 r))"

definition sample_instance :: mi_rapid where
  "sample_instance = mi_createExitedChannel runtimeProcessName
    (mi_createExitedChannel ''extension-b'' (mi_createExitedChannel ''extension-a'' (mi_Start\<lparr>mx_reg := sample_reg\<rparr>)))"

definition sample_exit :: "string \<Rightarrow> mi_termination" where
  "sample_exit n = \<lparr>pt_Name = n, pt_Cause = CauseExited, pt_Signo = None, pt_ExitStatus = Some 0\<rparr>"

definition sample_shutdown_events :: "sd_event list" where
  "sample_shutdown_events = [SdTerminated (sample_exit runtimeProcessName) False 5, SdRuntime None 9, SdGoroutine 1 0 None,
    SdGoroutine 0 0 None, SdCall (MEAResume 5) 6 6 0, SdTerminated (sample_exit ''extension-a'') False 7, SdGoroutine 0 0 None,
    SdCollect, SdCollect, SdCollect, SdTerminated (sample_exit ''extension-b'') False 8, SdFinal False, SdFinal False, SdFinal False, SdFinal False]"

definition sample_shutdown :: shutdown_run where
  "sample_shutdown = snd (HandleShutdown_begin alist_cmap sample_router None None 9 sample_instance)"

lemma sample_shutdown_run:
  "\<exists>s. sd_run (\<lambda>n. []) sample_shutdown_events sample_shutdown = Some s \<and> sr_pc s = PcReturned \<and> sr_errs s = []"
proof -
  have "map_option (\<lambda>s. (sr_pc s, sr_errs s)) (sd_run (\<lambda>n. []) sample_shutdown_events sample_shutdown) = Some (PcReturned, [])"
    by code_simp
  then show ?thesis by auto
qed

lemma sd_run_reach: "sd_run sg es s = Some s' \<Longrightarrow> sd_reach sg s0 s \<Longrightarrow> sd_reach sg s0 s'"
  by (induction es arbitrary: s) (auto split: option.splits intro: sd_next)

theorem server_closed_after_all_exits_witness:
  "\<exists>s. sd_run (\<lambda>n. []) sample_shutdown_events sample_shutdown = Some s \<and> mx_serverClosed (HandleShutdown_end s) \<and>
     mi_getExitedChannel ''extension-b'' (HandleShutdown_end s) = Some True"
proof -
  obtain s where s: "sd_run (\<lambda>n. []) sample_shutdown_events sample_shutdown = Some s" "sr_pc s = PcReturned" "sr_errs s = []"
    using sample_shutdown_run by blast
  have c: "\<not> mx_serverClosed sample_instance \<and> ''extension-b'' \<in> fst ` set (mx_processExited sample_instance)" by code_simp
  have "sd_reach (\<lambda>n. []) sample_shutdown s" by (rule sd_run_reach [OF s(1)]) (rule sd_refl)
  from server_closed_after_all_exits [OF sample_shutdown_def [symmetric] this s(2)] show ?thesis using c s by auto
qed

theorem graceful_shutdown_requests_witness:
  "\<exists>s. sd_run (\<lambda>n. []) sample_shutdown_events sample_shutdown = Some s \<and>
     mset (mx_requests (sr_ctx s)) = {#MTerminate ''runtime'', MKill ''extension-b''#}"
proof -
  obtain s where s: "sd_run (\<lambda>n. []) sample_shutdown_events sample_shutdown = Some s" "sr_pc s = PcReturned"
    using sample_shutdown_run by blast
  let ?as = "mi_GetExternalAgents (mx_reg sample_instance)"
  have h: "list_all within_deadlines sample_shutdown_events" "mi_CountAgents (mx_reg sample_instance) \<noteq> 0"
    "mi_getExitedChannel runtimeProcessName sample_instance \<noteq> None"
    "list_all (\<lambda>a. a < length (mr_extAgents (mx_reg sample_instance))) ?as"
    by code_simp+
  have "unsubscribed_kills sample_instance ?as = [MKill ''extension-b'']" "mx_requests sample_instance = []" by code_simp+
  moreover have "mset (mx_requests (sr_ctx s)) = mset (mx_requests sample_instance) + {#MTerminate runtimeProcessName#} +
      mset (unsubscribed_kills sample_instance ?as)"
    using graceful_shutdown_requests [OF _ s(2) h] s(1) by (simp add: sample_shutdown_def HandleShutdown_begin_def)
  ultimately show ?thesis using s(1) by (simp add: runtimeProcessName_def)
qed

theorem shutdown_returns_witness:
  "\<exists>s e s'. sd_run (\<lambda>n. []) [SdRtDeadline, SdExtDeadline] sample_shutdown = Some s \<and> own_step e \<and> sd_step (\<lambda>n. []) e s = Some s'"
proof -
  let ?s = "sample_shutdown\<lparr>sr_rtExpired := True, sr_extExpired := True\<rparr>"
  have c: "\<not> mx_panic (sr_ctx sample_shutdown) \<and> sr_pc sample_shutdown = PcRuntime" by code_simp
  then have "sd_run (\<lambda>n. []) [SdRtDeadline, SdExtDeadline] sample_shutdown = Some ?s" by simp
  from this shutdown_returns [OF this] c show ?thesis by auto
qed

end
