(* ===== verification/Instance_Init.thy ===== *)
theory Instance_Init
  imports Instance_Shutdown
begin

text \<open>
  The init phase of a managed instance, \<open>internal/lambda-managed-instances/rapid/handlers.go\<close>, and the requests of the Runtime and
  Extensions APIs that take part in it (\<open>rapi/handler\<close>).  \<open>doRuntimeInit\<close> launches the extensions, waits until they have
  registered, launches the runtime, waits for its first \<open>/next\<close>, closes the registration and waits for the agents.  It is
  one goroutine; requests, terminations and the end of the context are the other steps.  The files it looks at, the
  sockets it gets and what the supervisor answers are arguments of its steps.
\<close>

section \<open>Error types\<close>

definition ErrorAgentInit :: string where "ErrorAgentInit = ''Extension.InitError''"
definition ErrorAgentExit :: string where "ErrorAgentExit = ''Extension.ExitError''"
definition ErrorAgentCountRegistrationFailed :: string where "ErrorAgentCountRegistrationFailed = ''Extension.CountRegistrationFailed''"
definition ErrorAgentExtensionCreationFailed :: string where "ErrorAgentExtensionCreationFailed = ''Extension.CreationFailed''"
definition ErrorAgentRegistrationFailed :: string where "ErrorAgentRegistrationFailed = ''Extension.RegistrationFailed''"
definition ErrorAgentReadyFailed :: string where "ErrorAgentReadyFailed = ''Extension.ReadyFailed''"
definition ErrorAgentGateCreationFailed :: string where "ErrorAgentGateCreationFailed = ''Extension.GateCreationFailed''"
definition ErrorRuntimeReadyFailed :: string where "ErrorRuntimeReadyFailed = ''Runtime.ReadyFailed''"
definition ErrorRuntimeRegistrationFailed :: string where "ErrorRuntimeRegistrationFailed = ''Runtime.RegistrationFailed''"
definition ErrorRuntimeInvalidEntryPoint :: string where "ErrorRuntimeInvalidEntryPoint = ''Runtime.InvalidEntrypoint''"
definition ErrorRuntimeInvalidWorkingDir :: string where "ErrorRuntimeInvalidWorkingDir = ''Runtime.InvalidWorkingDir''"
definition ErrSandboxLogSocketsUnavailable :: string where "ErrSandboxLogSocketsUnavailable = ''Sandbox.LogSocketsUnavailable''"

definition extension_type_here :: "string \<Rightarrow> bool" where
  "extension_type_here s = (case strip_prefix ''Extension.'' s of Some r \<Rightarrow> error_name_here r | None \<Rightarrow> False)"

fun match_extension_type :: "string \<Rightarrow> bool" where
  "match_extension_type [] = extension_type_here []"
| "match_extension_type (c # s) = (extension_type_here (c # s) \<or> match_extension_type s)"

definition GetValidExtensionErrorType :: "string \<Rightarrow> string \<Rightarrow> string" where
  "GetValidExtensionErrorType errorType defaultErrorType = (if match_extension_type errorType then errorType else defaultErrorType)"

text \<open>The gate error gives way to a fatal error stored before.\<close>

definition resolveGateError :: "mi_rapid \<Rightarrow> go_error \<Rightarrow> string \<Rightarrow> AppError" where
  "resolveGateError c gateErr errorType =
    (case mx_firstFatalError c of
       Some fatalError \<Rightarrow> fatalError
     | None \<Rightarrow> if gateErr = ErrTimeout then WrapErrorIntoCustomerFatalError ErrorSandboxTimedout
              else WrapErrorIntoCustomerFatalError errorType)"

section \<open>Launching the processes\<close>

record step_env =
  se_uuid :: UUID
  se_now :: ns
  se_socketErr :: bool
  se_execErr :: "go_error option"
  se_stat :: "string \<Rightarrow> bool option"
  se_selectCtx :: bool

definition mi_flow_update :: "(mi_flow \<Rightarrow> mi_flow \<times> 'e) \<Rightarrow> mi_rapid \<Rightarrow> mi_rapid \<times> 'e" where
  "mi_flow_update f c =
    (case f (mr_initFlow (mx_reg c)) of (fl, e) \<Rightarrow> (c\<lparr>mx_reg := (mx_reg c)\<lparr>mr_initFlow := fl\<rparr>\<rparr>, e))"

definition mi_launch_failed :: "ref \<Rightarrow> string \<Rightarrow> ns \<Rightarrow> mi_rapid \<Rightarrow> mi_rapid \<times> AppError option" where
  "mi_launch_failed agent errorType now c =
    (let c = c\<lparr>mx_reg := fst (mi_ext_call (MEALaunchError errorType) now now agent (mx_reg c))\<rparr>;
         customerErr = WrapErrorIntoCustomerInvalidError errorType
     in (mi_StoreFirstFatalError customerErr c, Some customerErr))"

text \<open>One turn of the loop of \<open>doInitExtensions\<close>.\<close>

definition mi_launch_extension :: "step_env \<Rightarrow> string \<Rightarrow> mi_rapid \<Rightarrow> mi_rapid \<times> AppError option" where
  "mi_launch_extension env agentPath c =
    (case mi_CreateExternalAgent (path_Base agentPath) (se_uuid env) (se_now env) (mx_reg c) of
       (r, Inl e) \<Rightarrow> (c\<lparr>mx_reg := r\<rparr>, Some (NewPlatformError ErrorAgentExtensionCreationFailed))
     | (r, Inr agent) \<Rightarrow>
         (let c = c\<lparr>mx_reg := r\<rparr>
          in if mi_CountAgents r > MaxAgentsAllowed then mi_launch_failed agent ErrorAgentTooManyExtensions (se_now env) c
             else if se_socketErr env then (c, Some (NewPlatformError ErrSandboxLogSocketsUnavailable))
             else let agentName = extensionProcessName (path_Base agentPath);
                      c = mi_send (MExec agentName agentPath) c
                  in (case se_execErr env of
                        Some e \<Rightarrow> mi_launch_failed agent (mi_MapErrorToAgentInfoErrorType e) (se_now env) c
                      | None \<Rightarrow> (mi_createExitedChannel agentName c, None))))"

record init_data =
  in_Cmd :: "string list"
  in_WorkingDir :: string
  in_zip :: bool

datatype RuntimeExecErrorType = InvalidTaskConfigExec | InvalidEntrypointExec | InvalidWorkingDirExec

fun FatalErrorType :: "RuntimeExecErrorType \<Rightarrow> string option" where
  "FatalErrorType InvalidEntrypointExec = Some ErrorRuntimeInvalidEntryPoint"
| "FatalErrorType InvalidWorkingDirExec = Some ErrorRuntimeInvalidWorkingDir"
| "FatalErrorType InvalidTaskConfigExec = None"

text \<open>\<open>stat\<close> is \<open>None\<close> for an error, else whether the path is a directory.\<close>

definition prepareRuntimeBootstrap :: "(string \<Rightarrow> bool option) \<Rightarrow> init_data \<Rightarrow> RuntimeExecErrorType + string list \<times> string" where
  "prepareRuntimeBootstrap stat d =
    (let found = find (\<lambda>p. stat p = Some False) [''/var/runtime/bootstrap'', ''/var/task/bootstrap'', ''/opt/bootstrap'']
     in if in_zip d \<and> found = None then Inl InvalidEntrypointExec
        else let cmd = (if in_zip d then [the found] else in_Cmd d);
                 cwd = (if in_zip d then ''/var/task'' else in_WorkingDir d)
             in if stat cwd = None then Inl InvalidWorkingDirExec else Inr (cmd, cwd))"

definition failBootstrap :: "RuntimeExecErrorType \<Rightarrow> mi_rapid \<Rightarrow> mi_rapid \<times> AppError" where
  "failBootstrap errType c =
    (let errorType = the (FatalErrorType errType); customerErr = WrapErrorIntoCustomerInvalidError errorType;
         c = mi_StoreFirstFatalError customerErr c
     in (c\<lparr>mx_events := mx_events c @ [EvImageError errorType]\<rparr>, customerErr))"

text \<open>\<open>doInitRuntime\<close> up to its wait.  An empty command is indexed out of range.\<close>

definition mi_launch_runtime :: "step_env \<Rightarrow> init_data \<Rightarrow> mi_rapid \<Rightarrow> mi_rapid \<times> AppError option" where
  "mi_launch_runtime env d c =
    (let r = mx_reg c; runtime = length (mr_runtimes r);
         r = r\<lparr>mr_runtimes := mr_runtimes r @ [mi_NewRuntime (se_now env)]\<rparr>
     in case mi_PreregisterRuntime runtime r of
          (r, Some e) \<Rightarrow> (c\<lparr>mx_reg := r\<rparr>, Some (NewPlatformError ErrorRuntimeRegistrationFailed))
        | (r, None) \<Rightarrow>
            (let c = c\<lparr>mx_reg := r\<rparr>
             in case prepareRuntimeBootstrap (se_stat env) d of
                  Inl errType \<Rightarrow> (case failBootstrap errType c of (c, e) \<Rightarrow> (c, Some e))
                | Inr (cmd, cwd) \<Rightarrow>
                    (if se_socketErr env then (c, Some (NewPlatformError ErrSandboxLogSocketsUnavailable))
                     else case cmd of
                            [] \<Rightarrow> (c\<lparr>mx_panic := True\<rparr>, None)
                          | exe # _ \<Rightarrow>
                              (let c = mi_send (MExec runtimeProcessName exe) c
                               in case se_execErr env of
                                    Some e \<Rightarrow>
                                      (case failBootstrap InvalidEntrypointExec c of
                                         (c, e) \<Rightarrow> (c\<lparr>mx_events := mx_events c @ [EvInitDone (Some e)]\<rparr>, Some e))
                                  | None \<Rightarrow> (mi_createExitedChannel runtimeProcessName c, None)))))"

section \<open>The goroutine of the init phase\<close>

datatype ii_point =
    IiExtensions "string list" | IiAwaitRegistered | IiStartRuntime | IiAwaitRuntime | IiRuntimeReady | IiAwaitAgents
  | IiDone "AppError option"

record instance_init =
  ii_ctx :: mi_rapid
  ii_pc :: ii_point
  ii_ctxDone :: bool
  ii_readyOnce :: bool

definition ii_to :: "ii_point \<Rightarrow> mi_rapid \<times> AppError option \<Rightarrow> instance_init \<Rightarrow> instance_init" where
  "ii_to pc res s = (case res of (c, Some e) \<Rightarrow> s\<lparr>ii_ctx := c, ii_pc := IiDone (Some e)\<rparr> | (c, None) \<Rightarrow> s\<lparr>ii_ctx := c, ii_pc := pc\<rparr>)"

definition doInitExtensions_begin :: "string list \<Rightarrow> mi_rapid \<Rightarrow> instance_init" where
  "doInitExtensions_begin bootstraps c =
    (case mi_flow_update (mi_SetExternalAgentsRegisterCount (of_nat (length bootstraps))) c of
       (c, e) \<Rightarrow> ii_to (IiExtensions bootstraps)
         (c, map_option (\<lambda>_. NewPlatformError ErrorAgentCountRegistrationFailed) e)
         \<lparr>ii_ctx = c, ii_pc = IiAwaitRegistered, ii_ctxDone = False, ii_readyOnce = False\<rparr>)"

text \<open>A wait for a gate of the init flow: \<open>None\<close> while it blocks.\<close>

definition await_step ::
  "(bool \<Rightarrow> bool \<Rightarrow> mi_flow \<Rightarrow> (mi_flow \<times> go_error option) outcome) \<Rightarrow> string \<Rightarrow> ii_point \<Rightarrow> step_env \<Rightarrow> instance_init \<Rightarrow> (instance_init \<times> go_error option) option" where
  "await_step await errorType pc env s =
    (let c = ii_ctx s
     in case await (ii_ctxDone s) (se_selectCtx env) (mr_initFlow (mx_reg c)) of
          Ret (f, e) \<Rightarrow>
            (let c = c\<lparr>mx_reg := (mx_reg c)\<lparr>mr_initFlow := f\<rparr>\<rparr>
             in Some (ii_to pc (c, map_option (\<lambda>e. resolveGateError c e errorType) e) s, e))
        | _ \<Rightarrow> None)"

definition runtime_done :: "instance_init \<times> go_error option \<Rightarrow> instance_init" where
  "runtime_done res =
    (case res of
       (s, e) \<Rightarrow> let c = ii_ctx s; result = (case ii_pc s of IiDone r \<Rightarrow> r | _ \<Rightarrow> None)
                in if e \<noteq> Some ErrTimeout then s\<lparr>ii_ctx := c\<lparr>mx_events := mx_events c @ [EvInitDone result]\<rparr>\<rparr> else s)"

definition waitExtensionsToBeReady_begin :: "instance_init \<Rightarrow> instance_init" where
  "waitExtensionsToBeReady_begin s =
    (let c = ii_ctx s; c = c\<lparr>mx_reg := mi_TurnOff (mx_reg c)\<rparr>
     in case mi_flow_update (mi_SetAgentsReadyCount (mi_GetRegisteredAgentsSize (mx_reg c))) c of
          (c, e) \<Rightarrow> ii_to IiAwaitAgents
            (c, map_option (\<lambda>_. WrapErrorIntoCustomerFatalError ErrorAgentGateCreationFailed) e) s)"

fun init_main :: "init_data \<Rightarrow> step_env \<Rightarrow> instance_init \<Rightarrow> instance_init option" where
  "init_main d env s =
    (case ii_pc s of
       IiExtensions (p # ps) \<Rightarrow> Some (ii_to (IiExtensions ps) (mi_launch_extension env p (ii_ctx s)) s)
     | IiExtensions [] \<Rightarrow> Some (s\<lparr>ii_pc := IiAwaitRegistered\<rparr>)
     | IiAwaitRegistered \<Rightarrow>
         map_option fst (await_step mi_AwaitExternalAgentsRegistered ErrorAgentRegistrationFailed IiStartRuntime env s)
     | IiStartRuntime \<Rightarrow> Some (ii_to IiAwaitRuntime (mi_launch_runtime env d (ii_ctx s)) s)
     | IiAwaitRuntime \<Rightarrow> map_option runtime_done (await_step mi_AwaitRuntimeReady ErrorRuntimeReadyFailed IiRuntimeReady env s)
     | IiRuntimeReady \<Rightarrow> Some (waitExtensionsToBeReady_begin s)
     | IiAwaitAgents \<Rightarrow>
         map_option (\<lambda>(s, e). if e = None then s\<lparr>ii_ctx := (ii_ctx s)\<lparr>mx_telemetryOff := True\<rparr>\<rparr> else s)
           (await_step mi_AwaitAgentsReady ErrorAgentReadyFailed (IiDone None) env s)
     | IiDone r \<Rightarrow> None)"

section \<open>Requests\<close>

datatype mi_reply = MOk | MAccepted | MForbidden string | MServerError | MWaits | MAborted

text \<open>Header values of the response are left to the renderer; \<open>parsed\<close> is the result of \<open>parseRegister\<close>.\<close>

definition mi_registerExternalAgent :: "ref \<Rightarrow> Event list \<Rightarrow> ns \<Rightarrow> mi_rapid \<Rightarrow> mi_rapid \<times> mi_reply" where
  "mi_registerExternalAgent agent events now c =
    (if list_ex (\<lambda>e. mi_ValidateExternalAgentEvent e \<noteq> None) events then (c, MForbidden ''Extension.InvalidEventType'')
     else case mi_ext_call (MEARegister events) now now agent (mx_reg c) of
            (r, Returned None) \<Rightarrow> (c\<lparr>mx_reg := r\<rparr>, MOk)
          | (r, _) \<Rightarrow> (c\<lparr>mx_reg := r\<rparr>, MForbidden ''Extension.InvalidExtensionState''))"

definition mi_registerInternalAgent :: "string \<Rightarrow> Event list \<Rightarrow> UUID \<Rightarrow> ns \<Rightarrow> mi_rapid \<Rightarrow> mi_rapid \<times> mi_reply" where
  "mi_registerInternalAgent agentName events newID now c =
    (if events \<noteq> [] then (c, MForbidden ''Extension.InvalidEventType'')
     else case mi_CreateInternalAgent agentName newID now (mx_reg c) of
            (r, Inl e) \<Rightarrow>
              (c\<lparr>mx_reg := r\<rparr>,
               if e = ErrRegistrationServiceOff then MForbidden ''Extension.RegistrationClosed''
               else if e = ErrAgentNameCollision then MForbidden ''Extension.InvalidExtensionState''
               else if e = ErrTooManyExtensions then MForbidden ''Extension.TooManyExtensions''
               else MServerError)
          | (r, Inr agent) \<Rightarrow>
              (case mi_int_call (MIARegister events) now now agent r of
                 (r, Returned None) \<Rightarrow> (c\<lparr>mx_reg := r\<rparr>, MOk)
               | (r, _) \<Rightarrow> (c\<lparr>mx_reg := r\<rparr>, MForbidden ''Extension.InvalidExtensionState'')))"

definition mi_agentRegister :: "string \<Rightarrow> string + Event list \<Rightarrow> UUID \<Rightarrow> ns \<Rightarrow> mi_rapid \<Rightarrow> mi_rapid \<times> mi_reply" where
  "mi_agentRegister agentName parsed newID now c =
    (if agentName = [] then (c, MForbidden ''Extension.InvalidExtensionName'')
     else case parsed of
            Inl e \<Rightarrow> (c, MForbidden ''InvalidRequestFormat'')
          | Inr events \<Rightarrow>
              (case mi_FindExternalAgentByName agentName (mx_reg c) of
                 Some agent \<Rightarrow> mi_registerExternalAgent agent events now c
               | None \<Rightarrow> mi_registerInternalAgent agentName events newID now c))"

definition mi_render_event :: "mi_rapid \<Rightarrow> mi_reply" where
  "mi_render_event c = (if list_ex (\<lambda>e. case e of EvShutdownRenderer d r \<Rightarrow> True | _ \<Rightarrow> False) (mx_events c) then MOk else MServerError)"

definition mi_agentNext :: "UUID \<Rightarrow> tid \<Rightarrow> ns \<Rightarrow> ns \<Rightarrow> mi_rapid \<Rightarrow> mi_rapid \<times> mi_reply" where
  "mi_agentNext agentID t now now' c =
    (let answer = (\<lambda>(r, res). (c\<lparr>mx_reg := r\<rparr>, case res of
           Returned None \<Rightarrow> mi_render_event c
         | Returned (Some e) \<Rightarrow> MForbidden ''Extension.InvalidExtensionState''
         | Suspended \<Rightarrow> MWaits))
     in case mi_FindExternalAgentByID agentID (mx_reg c) of
          Some a \<Rightarrow> answer (mi_ext_call (MEAReady t) now now' a (mx_reg c))
        | None \<Rightarrow>
            (case mi_FindInternalAgentByID agentID (mx_reg c) of
               Some a \<Rightarrow> answer (mi_int_call (MIAReady t) now now' a (mx_reg c))
             | None \<Rightarrow> (c, MForbidden ''Extension.UnknownExtensionIdentifier'')))"

text \<open>\<open>/extension/init/error\<close> and \<open>/extension/exit/error\<close> differ in the transition and the default error type.\<close>

definition mi_agent_error ::
  "(string \<Rightarrow> mi_ea_op) \<Rightarrow> (string \<Rightarrow> mi_ia_op) \<Rightarrow> string \<Rightarrow> UUID \<Rightarrow> string \<Rightarrow> ns \<Rightarrow> mi_rapid \<Rightarrow> mi_rapid \<times> mi_reply" where
  "mi_agent_error eop iop defaultType agentID rawErrorType now c =
    (let errorType = GetValidExtensionErrorType rawErrorType defaultType;
         answer = (\<lambda>(r, res). let c = c\<lparr>mx_reg := r\<rparr> in case res of
             Returned None \<Rightarrow> (mi_StoreFirstFatalError (WrapErrorIntoCustomerFatalError errorType) c, MAccepted)
           | _ \<Rightarrow> (c, MForbidden ''Extension.InvalidExtensionState''))
     in if rawErrorType = [] then (c, MForbidden ''Extension.MissingHeader'')
        else case mi_FindExternalAgentByID agentID (mx_reg c) of
               Some a \<Rightarrow> answer (mi_ext_call (eop errorType) now now a (mx_reg c))
             | None \<Rightarrow>
                 (case mi_FindInternalAgentByID agentID (mx_reg c) of
                    Some a \<Rightarrow> answer (mi_int_call (iop errorType) now now a (mx_reg c))
                  | None \<Rightarrow> (c, MForbidden ''Extension.UnknownExtensionIdentifier'')))"

definition mi_agentInitError :: "UUID \<Rightarrow> string \<Rightarrow> ns \<Rightarrow> mi_rapid \<Rightarrow> mi_rapid \<times> mi_reply" where
  "mi_agentInitError = mi_agent_error MEAInitError MIAInitError ErrorAgentInit"

definition mi_agentExitError :: "UUID \<Rightarrow> string \<Rightarrow> ns \<Rightarrow> mi_rapid \<Rightarrow> mi_rapid \<times> mi_reply" where
  "mi_agentExitError = mi_agent_error MEAExitError MIAExitError ErrorAgentExit"

text \<open>\<open>/runtime/init/error\<close>; before the runtime is registered the handler dereferences a nil pointer and its request is aborted.\<close>

definition mi_initError :: "string \<Rightarrow> ns \<Rightarrow> mi_rapid \<Rightarrow> mi_rapid \<times> mi_reply" where
  "mi_initError header now c =
    (case mr_runtime (mx_reg c) of
       None \<Rightarrow> (c, MAborted)
     | Some rt \<Rightarrow>
         (case mi_runtime_InitError now rt (mx_reg c) of
            (r, Returned None) \<Rightarrow>
              (mi_StoreFirstFatalError (WrapErrorIntoCustomerFatalError (GetValidRuntimeOrFunctionErrorType header)) (c\<lparr>mx_reg := r\<rparr>), MAccepted)
          | (r, _) \<Rightarrow> (c\<lparr>mx_reg := r\<rparr>, MForbidden ''InvalidStateTransition'')))"

text \<open>\<open>/runtime/invocation/next\<close>: \<open>nextErr\<close> says whether the invoke router refused the request.  The \<open>return\<close> of a refused
  \<open>RuntimeReady\<close> only leaves the function given to \<open>Once\<close>, so the request is answered and then waits.\<close>

definition mi_invocationNext :: "bool \<Rightarrow> instance_init \<Rightarrow> instance_init \<times> mi_reply list" where
  "mi_invocationNext nextErr s =
    (if nextErr then (s, [MServerError])
     else if ii_readyOnce s then (s, [MWaits])
     else case mi_flow_update mi_RuntimeReady (ii_ctx s) of
            (c, e) \<Rightarrow> (s\<lparr>ii_ctx := c, ii_readyOnce := True\<rparr>,
                      (if e = None then [] else [MForbidden ''InvalidStateTransition'']) @ [MWaits]))"

datatype ii_event =
    IiMain step_env | IiCtxDone | IiTerminated mi_termination bool ns
  | IiRegister string "string + Event list" UUID ns | IiAgentNext UUID tid ns ns | IiAgentInitError UUID string ns
  | IiAgentExitError UUID string ns | IiInitError string ns | IiRuntimeNext bool

fun ii_step :: "(int \<Rightarrow> string) \<Rightarrow> init_data \<Rightarrow> ii_event \<Rightarrow> instance_init \<Rightarrow> instance_init option" where
  "ii_step sg d (IiMain env) s = (if mx_panic (ii_ctx s) then None else init_main d env s)"
| "ii_step sg d IiCtxDone s = Some (s\<lparr>ii_ctxDone := True\<rparr>)"
| "ii_step sg d (IiTerminated t listening now) s =
    (if mx_panic (ii_ctx s) then None else Some (s\<lparr>ii_ctx := mi_processTermination sg t listening now (ii_ctx s)\<rparr>))"
| "ii_step sg d (IiRegister name parsed newID now) s = Some (s\<lparr>ii_ctx := fst (mi_agentRegister name parsed newID now (ii_ctx s))\<rparr>)"
| "ii_step sg d (IiAgentNext i t now now') s = Some (s\<lparr>ii_ctx := fst (mi_agentNext i t now now' (ii_ctx s))\<rparr>)"
| "ii_step sg d (IiAgentInitError i er now) s = Some (s\<lparr>ii_ctx := fst (mi_agentInitError i er now (ii_ctx s))\<rparr>)"
| "ii_step sg d (IiAgentExitError i er now) s = Some (s\<lparr>ii_ctx := fst (mi_agentExitError i er now (ii_ctx s))\<rparr>)"
| "ii_step sg d (IiInitError er now) s = Some (s\<lparr>ii_ctx := fst (mi_initError er now (ii_ctx s))\<rparr>)"
| "ii_step sg d (IiRuntimeNext nextErr) s = Some (fst (mi_invocationNext nextErr s))"

fun ii_run :: "(int \<Rightarrow> string) \<Rightarrow> init_data \<Rightarrow> ii_event list \<Rightarrow> instance_init \<Rightarrow> instance_init option" where
  "ii_run sg d [] s = Some s"
| "ii_run sg d (e # es) s = (case ii_step sg d e s of Some s \<Rightarrow> ii_run sg d es s | None \<Rightarrow> None)"

inductive ii_reach :: "(int \<Rightarrow> string) \<Rightarrow> init_data \<Rightarrow> instance_init \<Rightarrow> instance_init \<Rightarrow> bool" for sg d s0 where
  ii_refl: "ii_reach sg d s0 s0"
| ii_next: "ii_reach sg d s0 s \<Longrightarrow> ii_step sg d e s = Some s' \<Longrightarrow> ii_reach sg d s0 s'"

section \<open>What requests and terminations do to the registration service\<close>

definition gate_progress :: "'v valueGate \<Rightarrow> 'v valueGate \<Rightarrow> bool" where
  "gate_progress g g' = (Gates.gateImpl.count (vg_gate g') = Gates.gateImpl.count (vg_gate g) \<and> mi_missing g' \<le> mi_missing g)"

definition flow_progress :: "mi_flow \<Rightarrow> mi_flow \<Rightarrow> bool" where
  "flow_progress f f' =
    (gate_progress (mf_externalAgentsRegisteredGate f) (mf_externalAgentsRegisteredGate f') \<and>
     gate_progress (mf_runtimeReadyGate f) (mf_runtimeReadyGate f') \<and>
     gate_progress (mf_agentReadyGate f) (mf_agentReadyGate f'))"

lemma gate_progress_refl [simp]: "gate_progress g g"
  by (simp add: gate_progress_def)

lemma flow_progress_refl [simp]: "flow_progress f f"
  by (simp add: flow_progress_def)

lemma flow_progress_trans: "flow_progress f g \<Longrightarrow> flow_progress g h \<Longrightarrow> flow_progress f h"
  by (auto simp: flow_progress_def gate_progress_def)

lemma gate_progress_walk [simp]: "gate_progress g (fst (mi_WalkThrough v g))"
proof (cases "mi_missing g")
  case 0
  then show ?thesis by (simp add: mi_walk_open)
next
  case (Suc k)
  then show ?thesis using walk_missing [of "vg_gate g" k] by (simp add: gate_progress_def mi_walk_cases)
qed

lemma gate_progress_cancel [simp]: "gate_progress g (mi_CancelWithError e g)"
  by (simp add: gate_progress_def mi_CancelWithError_def) (simp add: CancelWithError_def)

lemma flow_progress_ops [simp]:
  "flow_progress f (fst (mi_AgentReady f))" "flow_progress f (fst (mi_ExternalAgentRegistered f))"
  "flow_progress f (fst (mi_RuntimeReady f))" "flow_progress f (mi_flow_CancelWithError e f)"
  by (simp_all add: flow_progress_def mi_AgentReady_def mi_ExternalAgentRegistered_def mi_RuntimeReady_def
      mi_flow_CancelWithError_def case_prod_beta)

lemma flow_of_suspend:
  "fst (fst (mi_ea_suspend t now f a)) = f" "fst (fst (mi_ia_suspend t now f b)) = f"
  by (auto simp: mi_ea_suspend_def mi_ia_suspend_def SuspendUnsafe_def split: prod.splits)

lemma flow_progress_ea: "flow_progress f (fst (fst (mi_ea_exec q now now' f a)))"
proof (cases q)
  case (MEARegister es)
  then show ?thesis
    by (cases "ea_currentState a"; cases "mi_ea_subscribe_all es a") (auto simp: mi_ea_method_defs split: option.split)
next
  case (MEAResume t)
  then show ?thesis by (auto simp: mi_ExternalAgent_resume_def split: prod.split option.split)
qed (cases "ea_currentState a"; simp add: mi_ea_method_defs flow_of_suspend)+

lemmas mi_ia_method_defs =
  mi_InternalAgent_Register_def mi_InternalAgent_Ready_def mi_InternalAgent_InitError_def mi_InternalAgent_ExitError_def
  mi_InternalAgentStartedState_Register_def mi_InternalAgentRegisteredState_Ready_def mi_InternalAgentRegisteredState_InitError_def
  mi_InternalAgentRegisteredState_ExitError_def mi_InternalAgentReadyState_ExitError_def mi_InternalAgentRunningState_ExitError_def
  mi_InternalAgentRunningState_Ready_def mi_InternalAgentInitErrorState_InitError_def mi_InternalAgentExitErrorState_ExitError_def
  mi_disallowEverything_def mi_ia_fail_def

lemma flow_progress_ia: "flow_progress f (fst (fst (mi_ia_exec q now now' f a)))"
proof (cases q)
  case (MIAResume t)
  then show ?thesis by (auto simp: mi_InternalAgent_resume_def split: prod.split option.split)
qed (cases "ia_currentState a"; simp add: mi_ia_method_defs flow_of_suspend)+

definition reg_progress :: "mi_reg \<Rightarrow> mi_reg \<Rightarrow> bool" where
  "reg_progress r r' = (flow_progress (mr_initFlow r) (mr_initFlow r') \<and> mr_state r' = mr_state r \<and>
     AgentsMap_Size (mr_externalAgents r') = AgentsMap_Size (mr_externalAgents r) \<and>
     (mr_state r = registrationServiceOff \<longrightarrow> AgentsMap_Size (mr_internalAgents r') = AgentsMap_Size (mr_internalAgents r)))"

lemma reg_progress_refl [simp]: "reg_progress r r"
  by (simp add: reg_progress_def)

lemma reg_progress_trans: "reg_progress r s \<Longrightarrow> reg_progress s t \<Longrightarrow> reg_progress r t"
  by (auto simp: reg_progress_def intro: flow_progress_trans)

lemma reg_progress_ext [simp]: "reg_progress r (fst (mi_ext_call q now now' a r))"
  using flow_progress_ea [of "mr_initFlow r" q now now' "mr_extAgents r ! a"]
  by (simp add: reg_progress_def mi_ext_call_def case_prod_beta)

lemma reg_progress_int [simp]: "reg_progress r (fst (mi_int_call q now now' a r))"
  using flow_progress_ia [of "mr_initFlow r" q now now' "mr_intAgents r ! a"]
  by (simp add: reg_progress_def mi_int_call_def case_prod_beta)

lemma reg_progress_cancel [simp]: "reg_progress r (mi_CancelFlows e r)"
  by (simp add: reg_progress_def mi_CancelFlows_def)

lemma reg_progress_runtime [simp]: "reg_progress r (fst (mi_runtime_InitError now rt r))"
  by (cases "currentState (mr_runtimes r ! rt)") (simp_all add: reg_progress_def mi_runtime_InitError_def
      mi_Runtime_InitError_def mi_RuntimeStartedState_InitError_def mi_disallowEveryTransitionByDefault_def)

lemma reg_progress_create [simp]: "reg_progress r (fst (mi_CreateInternalAgent name i now r))"
  by (auto simp: reg_progress_def mi_CreateInternalAgent_def Let_def split: prod.split option.split)

lemma mx_reg_store [simp]: "mx_reg (mi_StoreFirstFatalError e c) = mx_reg c"
  by (simp add: mi_StoreFirstFatalError_def split: option.split)

lemma reg_progress_termination: "reg_progress (mx_reg c) (mx_reg (mi_processTermination sg t l now c))"
proof -
  have exit: "reg_progress r (mx_reg (mi_handleProcessExit t now c'))" if "reg_progress r (mx_reg c')" for c' r
  proof -
    have "reg_progress r (mx_reg (agent_exit t now c'))"
      using that by (auto simp: agent_exit_def split: option.split intro: reg_progress_trans)
    then show ?thesis by (simp add: mi_handleProcessExit_def Let_def split: option.split bool.split)
  qed
  show ?thesis by (auto simp: mi_processTermination_def Let_def split: prod.split intro!: exit)
qed

lemma reg_progress_handlers:
  "reg_progress (mx_reg c) (mx_reg (fst (mi_agentRegister name parsed i now c)))"
  "reg_progress (mx_reg c) (mx_reg (fst (mi_agentNext i t now now' c)))"
  "reg_progress (mx_reg c) (mx_reg (fst (mi_agent_error eop iop dt i er now c)))"
  "reg_progress (mx_reg c) (mx_reg (fst (mi_initError er now c)))"
proof -
  have *: "reg_progress r r'" if "mi_ext_call q now now' a r = (r', x)" for q now now' a r r' x
    using reg_progress_ext [of r q now now' a] that by simp
  have **: "reg_progress r r'" if "mi_int_call q now now' a r = (r', x)" for q now now' a r r' x
    using reg_progress_int [of r q now now' a] that by simp
  have create: "reg_progress r r'" if "mi_CreateInternalAgent n i now r = (r', x)" for n i now r r' x
    using reg_progress_create [of r n i now] that by simp
  have rt: "reg_progress r r'" if "mi_runtime_InitError now a r = (r', x)" for now a r r' x
    using reg_progress_runtime [of r now a] that by simp
  show "reg_progress (mx_reg c) (mx_reg (fst (mi_agentRegister name parsed i now c)))"
    by (auto simp: mi_agentRegister_def mi_registerExternalAgent_def mi_registerInternalAgent_def
        split: option.split sum.split prod.split call_result.split dest: * ** create intro: reg_progress_trans)
  show "reg_progress (mx_reg c) (mx_reg (fst (mi_agentNext i t now now' c)))"
    by (auto simp: mi_agentNext_def Let_def split: option.split prod.split dest: * **)
  show "reg_progress (mx_reg c) (mx_reg (fst (mi_agent_error eop iop dt i er now c)))"
    by (auto simp: mi_agent_error_def Let_def split: option.split prod.split call_result.split dest: * **)
  show "reg_progress (mx_reg c) (mx_reg (fst (mi_initError er now c)))"
    by (auto simp: mi_initError_def split: option.split prod.split call_result.split dest: rt)
qed

section \<open>A successful init\<close>

abbreviation gate_count :: "'v valueGate \<Rightarrow> 16 word" where
  "gate_count g \<equiv> Gates.gateImpl.count (vg_gate g)"

abbreviation ii_flow :: "instance_init \<Rightarrow> mi_flow" where
  "ii_flow s \<equiv> mr_initFlow (mx_reg (ii_ctx s))"

definition extensions_in :: "nat \<Rightarrow> nat \<Rightarrow> instance_init \<Rightarrow> bool" where
  "extensions_in n k s = (gate_count (mf_externalAgentsRegisteredGate (ii_flow s)) = of_nat n \<and>
     AgentsMap_Size (mr_externalAgents (mx_reg (ii_ctx s))) + k = n)"

definition extensions_registered :: "nat \<Rightarrow> instance_init \<Rightarrow> bool" where
  "extensions_registered n s = (extensions_in n 0 s \<and> mi_missing (mf_externalAgentsRegisteredGate (ii_flow s)) = 0)"

definition agents_known :: "nat \<Rightarrow> instance_init \<Rightarrow> bool" where
  "agents_known n s = (extensions_registered n s \<and> mi_missing (mf_runtimeReadyGate (ii_flow s)) = 0 \<and>
     mr_state (mx_reg (ii_ctx s)) = registrationServiceOff \<and>
     gate_count (mf_agentReadyGate (ii_flow s)) = mi_GetRegisteredAgentsSize (mx_reg (ii_ctx s)))"

text \<open>What holds at each point of the goroutine, for \<open>n\<close> extensions.\<close>

definition init_ok :: "nat \<Rightarrow> instance_init \<Rightarrow> bool" where
  "init_ok n s =
    (case ii_pc s of
       IiExtensions ps \<Rightarrow> extensions_in n (length ps) s
     | IiAwaitRegistered \<Rightarrow> extensions_in n 0 s
     | IiStartRuntime \<Rightarrow> extensions_registered n s
     | IiAwaitRuntime \<Rightarrow> extensions_registered n s
     | IiRuntimeReady \<Rightarrow> extensions_registered n s \<and> mi_missing (mf_runtimeReadyGate (ii_flow s)) = 0
     | IiAwaitAgents \<Rightarrow> agents_known n s
     | IiDone (Some e) \<Rightarrow> True
     | IiDone None \<Rightarrow> agents_known n s \<and> mi_missing (mf_agentReadyGate (ii_flow s)) = 0)"

lemmas init_ok_parts = extensions_in_def extensions_registered_def agents_known_def

lemma init_ok_progress:
  assumes "init_ok n s" "reg_progress (mx_reg (ii_ctx s)) (mx_reg c')" "ii_ctx s' = c'" "ii_pc s' = ii_pc s"
  shows "init_ok n s'"
  using assms
  by (auto simp: init_ok_def init_ok_parts reg_progress_def flow_progress_def gate_progress_def mi_GetRegisteredAgentsSize_def
      split: ii_point.split option.split)

lemma init_ok_to:
  "(\<And>c. res = (c, None) \<Longrightarrow> init_ok n (s\<lparr>ii_ctx := c, ii_pc := pc\<rparr>)) \<Longrightarrow> init_ok n (ii_to pc res s)"
  by (cases res; cases "snd res") (simp_all add: ii_to_def init_ok_def)

lemma create_external_size:
  assumes "mi_CreateExternalAgent name i now r = (r', Inr a)"
  shows "AgentsMap_Size (mr_externalAgents r') = Suc (AgentsMap_Size (mr_externalAgents r)) \<and> mr_initFlow r' = mr_initFlow r"
  using assms am.lookup_after_insert [of ea_Name ea_ID "mr_extAgents r @ [NewExternalAgent name i now]" "length (mr_extAgents r)" "mr_externalAgents r"]
  by (auto simp: mi_CreateExternalAgent_def AgentsMap_Size_def Let_def split: if_splits prod.splits option.splits)

lemma init_ok_launch:
  assumes "init_ok n s" "ii_pc s = IiExtensions (p # ps)"
  shows "init_ok n (ii_to (IiExtensions ps) (mi_launch_extension env p (ii_ctx s)) s)"
proof (rule init_ok_to)
  fix c assume c: "mi_launch_extension env p (ii_ctx s) = (c, None)"
  obtain r a where r: "mi_CreateExternalAgent (path_Base p) (se_uuid env) (se_now env) (mx_reg (ii_ctx s)) = (r, Inr a)"
    using c by (cases "mi_CreateExternalAgent (path_Base p) (se_uuid env) (se_now env) (mx_reg (ii_ctx s))")
      (auto simp: mi_launch_extension_def split: sum.splits prod.splits)
  have "mx_reg c = r"
    using c by (auto simp: mi_launch_extension_def r mi_launch_failed_def mi_createExitedChannel_def mi_send_def Let_def
        split: if_splits option.splits)
  then show "init_ok n (s\<lparr>ii_ctx := c, ii_pc := IiExtensions ps\<rparr>)"
    using create_external_size [OF r] assms by (simp add: init_ok_def extensions_in_def)
qed

lemma reg_progress_launch_runtime:
  "mi_launch_runtime env d c = (c', None) \<Longrightarrow> reg_progress (mx_reg c) (mx_reg c')"
  by (auto simp: mi_launch_runtime_def mi_PreregisterRuntime_def failBootstrap_def mi_createExitedChannel_def mi_send_def
      reg_progress_def Let_def split: if_splits sum.splits prod.splits list.splits option.splits)

lemma await_gate_None:
  "mi_AwaitGateCondition b b' g = Ret (g', v, None) \<Longrightarrow> g' = g \<and> mi_missing g = 0"
  using mi_await_returned(1) [of b b' g g' v None] by simp

lemma await_None:
  "mi_AwaitExternalAgentsRegistered b b' f = Ret (f', None) \<Longrightarrow> f' = f \<and> mi_missing (mf_externalAgentsRegisteredGate f) = 0"
  "mi_AwaitRuntimeReady b b' f = Ret (f', None) \<Longrightarrow> f' = f \<and> mi_missing (mf_runtimeReadyGate f) = 0"
  "mi_AwaitAgentsReady b b' f = Ret (f', None) \<Longrightarrow> f' = f \<and> mi_missing (mf_agentReadyGate f) = 0"
proof -
  show "mi_AwaitExternalAgentsRegistered b b' f = Ret (f', None) \<Longrightarrow> f' = f \<and> mi_missing (mf_externalAgentsRegisteredGate f) = 0"
    by (cases "mi_AwaitGateCondition b b' (mf_externalAgentsRegisteredGate f)")
      (auto simp: mi_AwaitExternalAgentsRegistered_def dest: await_gate_None)
  show "mi_AwaitRuntimeReady b b' f = Ret (f', None) \<Longrightarrow> f' = f \<and> mi_missing (mf_runtimeReadyGate f) = 0"
    by (cases "mi_AwaitGateCondition b b' (mf_runtimeReadyGate f)") (auto simp: mi_AwaitRuntimeReady_def dest: await_gate_None)
  show "mi_AwaitAgentsReady b b' f = Ret (f', None) \<Longrightarrow> f' = f \<and> mi_missing (mf_agentReadyGate f) = 0"
    by (cases "mi_AwaitGateCondition b b' (mf_agentReadyGate f)") (auto simp: mi_AwaitAgentsReady_def dest: await_gate_None)
qed

lemma await_step_cases:
  assumes "await_step await t pc env s = Some (s', e)"
  shows "\<exists>f. await (ii_ctxDone s) (se_selectCtx env) (ii_flow s) = Ret (f, e) \<and>
    s' = s\<lparr>ii_ctx := (ii_ctx s)\<lparr>mx_reg := (mx_reg (ii_ctx s))\<lparr>mr_initFlow := f\<rparr>\<rparr>,
           ii_pc := (case e of None \<Rightarrow> pc | Some er \<Rightarrow> IiDone (Some (resolveGateError (ii_ctx s) er t)))\<rparr>"
  using assms by (cases "await (ii_ctxDone s) (se_selectCtx env) (ii_flow s)")
    (auto simp: await_step_def ii_to_def resolveGateError_def Let_def split: option.splits)

lemma init_ok_awaited:
  assumes "await_step await t pc env s = Some (s', e)"
    and "\<And>f. await (ii_ctxDone s) (se_selectCtx env) (ii_flow s) = Ret (f, None) \<Longrightarrow> f = ii_flow s \<and> init_ok n (s\<lparr>ii_pc := pc\<rparr>)"
  shows "init_ok n s'"
  using await_step_cases [OF assms(1)] assms(2)
  by (cases e) (auto simp: init_ok_def split: ii_point.splits option.splits simp: init_ok_parts)

lemma init_ok_frame:
  "init_ok n (s\<lparr>ii_ctx := (ii_ctx s)\<lparr>mx_events := ev\<rparr>\<rparr>) = init_ok n s"
  "init_ok n (s\<lparr>ii_ctx := (ii_ctx s)\<lparr>mx_telemetryOff := b\<rparr>\<rparr>) = init_ok n s"
  by (auto simp: init_ok_def init_ok_parts split: ii_point.split option.split)

lemma init_ok_wait_begin:
  assumes "init_ok n s" "ii_pc s = IiRuntimeReady"
  shows "init_ok n (waitExtensionsToBeReady_begin s)"
  using assms
  by (auto simp: waitExtensionsToBeReady_begin_def mi_flow_update_def mi_SetAgentsReadyCount_def mi_SetCount_def SetCount_def
      mi_TurnOff_def init_ok_def init_ok_parts ii_to_def mi_GetRegisteredAgentsSize_def Let_def split: if_splits)

lemma init_ok_main:
  assumes ok: "init_ok n s" and m: "init_main d env s = Some s'"
  shows "init_ok n s'"
proof (cases "ii_pc s")
  case (IiExtensions ps)
  then show ?thesis
    using m ok init_ok_launch [OF ok] by (cases ps) (auto simp: init_ok_def init_ok_parts)
next
  case IiAwaitRegistered
  then obtain e where "await_step mi_AwaitExternalAgentsRegistered ErrorAgentRegistrationFailed IiStartRuntime env s = Some (s', e)"
    using m by auto
  then show ?thesis
    by (rule init_ok_awaited) (use ok IiAwaitRegistered await_None(1) in \<open>auto simp: init_ok_def init_ok_parts\<close>)
next
  case IiStartRuntime
  then have "s' = ii_to IiAwaitRuntime (mi_launch_runtime env d (ii_ctx s)) s" using m by simp
  moreover have "init_ok n (ii_to IiAwaitRuntime (mi_launch_runtime env d (ii_ctx s)) s)"
  proof (rule init_ok_to)
    fix c assume "mi_launch_runtime env d (ii_ctx s) = (c, None)"
    then have "init_ok n (s\<lparr>ii_ctx := c\<rparr>)"
      by (intro init_ok_progress [OF ok reg_progress_launch_runtime]) simp_all
    then show "init_ok n (s\<lparr>ii_ctx := c, ii_pc := IiAwaitRuntime\<rparr>)"
      using IiStartRuntime by (simp add: init_ok_def init_ok_parts)
  qed
  ultimately show ?thesis by simp
next
  case IiAwaitRuntime
  then obtain s1 e where s1: "await_step mi_AwaitRuntimeReady ErrorRuntimeReadyFailed IiRuntimeReady env s = Some (s1, e)" "s' = runtime_done (s1, e)"
    using m by auto
  have "init_ok n s1"
    by (rule init_ok_awaited [OF s1(1)]) (use ok IiAwaitRuntime await_None(2) in \<open>auto simp: init_ok_def init_ok_parts\<close>)
  then show ?thesis by (simp add: s1(2) runtime_done_def Let_def init_ok_frame)
next
  case IiRuntimeReady
  then show ?thesis using m init_ok_wait_begin [OF ok] by simp
next
  case IiAwaitAgents
  then obtain s1 e where s1: "await_step mi_AwaitAgentsReady ErrorAgentReadyFailed (IiDone None) env s = Some (s1, e)"
    "s' = (if e = None then s1\<lparr>ii_ctx := (ii_ctx s1)\<lparr>mx_telemetryOff := True\<rparr>\<rparr> else s1)"
    using m by auto
  have "init_ok n s1"
    by (rule init_ok_awaited [OF s1(1)]) (use ok IiAwaitAgents await_None(3) in \<open>auto simp: init_ok_def init_ok_parts\<close>)
  then show ?thesis by (simp add: s1(2) init_ok_frame)
qed (use m in simp)

fun main_step :: "ii_event \<Rightarrow> bool" where
  "main_step (IiMain env) = True"
| "main_step e = False"

lemma other_step_progress:
  "\<not> main_step e \<Longrightarrow> pred_option (\<lambda>s'. reg_progress (mx_reg (ii_ctx s)) (mx_reg (ii_ctx s')) \<and> ii_pc s' = ii_pc s) (ii_step sg d e s)"
proof (cases e)
  case (IiRuntimeNext b)
  then show ?thesis by (auto simp: mi_invocationNext_def mi_flow_update_def reg_progress_def case_prod_beta)
qed (simp_all add: mi_agentInitError_def mi_agentExitError_def reg_progress_handlers reg_progress_termination)

lemma init_ok_step:
  assumes "init_ok n s" "ii_step sg d e s = Some s'"
  shows "init_ok n s'"
proof (cases "main_step e")
  case True
  then obtain env where "e = IiMain env" by (cases e) auto
  then show ?thesis using assms init_ok_main [OF assms(1)] by (auto simp del: init_main.simps split: if_splits)
next
  case False
  then show ?thesis
    using other_step_progress [OF False, of s sg d] assms init_ok_progress [OF assms(1), of "ii_ctx s'" s'] by simp
qed

lemma init_ok_reach: "ii_reach sg d s0 s \<Longrightarrow> init_ok n s0 \<Longrightarrow> init_ok n s"
  by (induction rule: ii_reach.induct) (auto intro: init_ok_step)

lemma init_ok_begin:
  assumes "AgentsMap_Size (mr_externalAgents (mx_reg c)) = 0"
  shows "init_ok (length bootstraps) (doInitExtensions_begin bootstraps c)"
  using assms
  by (auto simp: doInitExtensions_begin_def mi_flow_update_def mi_SetExternalAgentsRegisterCount_def mi_SetCount_def SetCount_def
      ii_to_def init_ok_def extensions_in_def split: if_splits)


section \<open>A failing init\<close>

lemma await_cancelled_gate:
  assumes "mi_cancellation g = Some e"
  shows "\<exists>g' v e'. mi_AwaitGateCondition b b' g = Ret (g', v, Some e')"
  using assms by (cases "b \<and> b'")
    (auto simp: mi_AwaitGateCondition_def mi_awaitGateCondition_def await_by_abstraction Let_def)

lemma cancelled_flow_gates:
  "mi_cancellation (mf_externalAgentsRegisteredGate (mi_flow_CancelWithError (Some e) f)) = Some e"
  "mi_cancellation (mf_runtimeReadyGate (mi_flow_CancelWithError (Some e) f)) = Some e"
  "mi_cancellation (mf_agentReadyGate (mi_flow_CancelWithError (Some e) f)) = Some e"
  by (simp_all add: mi_flow_CancelWithError_def mi_CancelWithError_def)

definition awaiting :: "ii_point \<Rightarrow> bool" where
  "awaiting pc = (pc = IiAwaitRegistered \<or> pc = IiAwaitRuntime \<or> pc = IiAwaitAgents)"

lemma ii_pc_runtime_done [simp]: "ii_pc (runtime_done (s, e)) = ii_pc s"
  by (simp add: runtime_done_def Let_def)

lemma awaiting_cancelled:
  assumes "awaiting (ii_pc s)" "ii_flow s = mi_flow_CancelWithError (Some e) fl" "mx_firstFatalError (ii_ctx s) = Some f"
  shows "\<exists>s'. init_main d env s = Some s' \<and> ii_pc s' = IiDone (Some f)"
proof -
  have gates: "\<exists>g' v e'. mi_AwaitGateCondition b b' (mf_externalAgentsRegisteredGate (ii_flow s)) = Ret (g', v, Some e')"
    "\<exists>g' v e'. mi_AwaitGateCondition b b' (mf_runtimeReadyGate (ii_flow s)) = Ret (g', v, Some e')"
    "\<exists>g' v e'. mi_AwaitGateCondition b b' (mf_agentReadyGate (ii_flow s)) = Ret (g', v, Some e')" for b b'
    using await_cancelled_gate cancelled_flow_gates unfolding assms(2) by blast+
  have step: "\<exists>s' e. await_step await t pc env s = Some (s', Some e) \<and> ii_pc s' = IiDone (Some f)"
    if "\<exists>f' e. await (ii_ctxDone s) (se_selectCtx env) (ii_flow s) = Ret (f', Some e)" for await t pc
    using that assms(3) by (auto simp: await_step_def ii_to_def resolveGateError_def Let_def)
  show ?thesis
    using assms(1) unfolding awaiting_def
  proof (elim disjE)
    assume pc: "ii_pc s = IiAwaitRegistered"
    have "\<exists>f' e. mi_AwaitExternalAgentsRegistered (ii_ctxDone s) (se_selectCtx env) (ii_flow s) = Ret (f', Some e)"
      using gates(1) [of "ii_ctxDone s" "se_selectCtx env"] by (auto simp: mi_AwaitExternalAgentsRegistered_def)
    with step [of mi_AwaitExternalAgentsRegistered ErrorAgentRegistrationFailed IiStartRuntime] pc show ?thesis by fastforce
  next
    assume pc: "ii_pc s = IiAwaitRuntime"
    have "\<exists>f' e. mi_AwaitRuntimeReady (ii_ctxDone s) (se_selectCtx env) (ii_flow s) = Ret (f', Some e)"
      using gates(2) [of "ii_ctxDone s" "se_selectCtx env"] by (auto simp: mi_AwaitRuntimeReady_def)
    with step [of mi_AwaitRuntimeReady ErrorRuntimeReadyFailed IiRuntimeReady] pc show ?thesis by fastforce
  next
    assume pc: "ii_pc s = IiAwaitAgents"
    have "\<exists>f' e. mi_AwaitAgentsReady (ii_ctxDone s) (se_selectCtx env) (ii_flow s) = Ret (f', Some e)"
      using gates(3) [of "ii_ctxDone s" "se_selectCtx env"] by (auto simp: mi_AwaitAgentsReady_def)
    with step [of mi_AwaitAgentsReady ErrorAgentReadyFailed "IiDone None"] pc show ?thesis by auto
  qed
qed

lemma termination_cancels:
  assumes "\<not> mx_shuttingDown c" "\<not> mr_cancelOnce (mx_reg c)"
  shows "\<exists>e fl. mr_initFlow (mx_reg (mi_processTermination sg t l now c)) = mi_flow_CancelWithError (Some e) fl"
    "mx_firstFatalError (mi_processTermination sg t l now c) =
      Some (case mx_firstFatalError c of Some f \<Rightarrow> f | None \<Rightarrow> WrapErrorIntoCustomerFatalError (snd (termination_error sg t)))"
proof -
  have exit: "mr_initFlow (mx_reg (mi_handleProcessExit t now c')) = mr_initFlow (mx_reg c') \<and>
      mx_firstFatalError (mi_handleProcessExit t now c') = mx_firstFatalError c'" for c'
  proof -
    have "fst (fst (mi_ExternalAgent_Exited now f a)) = f \<and> fst (fst (mi_ExternalAgent_ShutdownFailed now f a)) = f" for f a
      by (cases "ea_currentState a") (simp_all add: mi_ea_method_defs)
    then have "mr_initFlow (mx_reg (agent_exit t now c')) = mr_initFlow (mx_reg c')"
      by (simp add: agent_exit_def mi_ext_call_def case_prod_beta split: option.split)
    then show ?thesis by (simp add: mi_handleProcessExit_def Let_def split: option.split bool.split) (simp add: agent_exit_def)
  qed
  show "\<exists>e fl. mr_initFlow (mx_reg (mi_processTermination sg t l now c)) = mi_flow_CancelWithError (Some e) fl"
    using assms by (auto simp: mi_processTermination_def exit mi_CancelFlows_def Let_def split: prod.split)
  show "mx_firstFatalError (mi_processTermination sg t l now c) =
      Some (case mx_firstFatalError c of Some f \<Rightarrow> f | None \<Rightarrow> WrapErrorIntoCustomerFatalError (snd (termination_error sg t)))"
    using assms by (auto simp: mi_processTermination_def exit mi_StoreFirstFatalError_def Let_def split: prod.split option.split)
qed


section \<open>Init returns\<close>

definition init_left :: "instance_init \<Rightarrow> nat" where
  "init_left s =
    (case ii_pc s of
       IiExtensions ps \<Rightarrow> length ps + 6 | IiAwaitRegistered \<Rightarrow> 5 | IiStartRuntime \<Rightarrow> 4 | IiAwaitRuntime \<Rightarrow> 3
     | IiRuntimeReady \<Rightarrow> 2 | IiAwaitAgents \<Rightarrow> 1 | IiDone r \<Rightarrow> 0)"

lemma init_left_to: "init_left (ii_to pc res s) \<le> init_left (s\<lparr>ii_pc := pc\<rparr>)"
  by (cases res; cases "snd res") (simp_all add: ii_to_def init_left_def)

lemma init_left_await: "await_step await t pc env s = Some (s', e) \<Longrightarrow> init_left s' \<le> init_left (s\<lparr>ii_pc := pc\<rparr>)"
  by (drule await_step_cases) (auto simp: init_left_def split: option.split)

lemma init_left_done: "init_left (runtime_done (s, e)) = init_left s"
  by (simp add: runtime_done_def init_left_def Let_def)

lemma init_left_main:
  assumes "init_main d env s = Some s'"
  shows "init_left s' < init_left s"
proof (cases "ii_pc s")
  case (IiExtensions ps)
  show ?thesis
  proof (cases ps)
    case (Cons p qs)
    then show ?thesis
      using assms IiExtensions init_left_to [of "IiExtensions qs" "mi_launch_extension env p (ii_ctx s)" s] by (auto simp: init_left_def)
  qed (use assms IiExtensions in \<open>auto simp: init_left_def\<close>)
next
  case IiAwaitRegistered
  then show ?thesis using assms by (auto dest!: init_left_await) (simp add: init_left_def)
next
  case IiStartRuntime
  then show ?thesis
    using assms init_left_to [of IiAwaitRuntime "mi_launch_runtime env d (ii_ctx s)" s] by (auto simp: init_left_def)
next
  case IiAwaitRuntime
  then show ?thesis using assms by (auto simp: init_left_done dest!: init_left_await) (simp add: init_left_def)
next
  case IiRuntimeReady
  have "init_left (waitExtensionsToBeReady_begin s) \<le> 1"
    using init_left_to [of IiAwaitAgents _ s] by (auto simp: waitExtensionsToBeReady_begin_def Let_def init_left_def [of "s\<lparr>ii_pc := IiAwaitAgents\<rparr>"] split: prod.split)
  then show ?thesis using assms IiRuntimeReady by (simp add: init_left_def)
next
  case IiAwaitAgents
  then show ?thesis using assms
    by (auto dest!: init_left_await split: if_splits) (simp_all add: init_left_def)
qed (use assms in simp)

lemma await_done_returns:
  "mi_AwaitExternalAgentsRegistered True b f \<noteq> Blocks" "mi_AwaitRuntimeReady True b f \<noteq> Blocks" "mi_AwaitAgentsReady True b f \<noteq> Blocks"
  "mi_AwaitExternalAgentsRegistered True b f \<noteq> Panics m" "mi_AwaitRuntimeReady True b f \<noteq> Panics m" "mi_AwaitAgentsReady True b f \<noteq> Panics m"
proof -
  have "\<exists>r. mi_AwaitGateCondition True b g = Ret r" for g :: "unit valueGate"
    by (cases "mi_awaitGateCondition g") (simp_all add: mi_AwaitGateCondition_def Let_def)
  then show "mi_AwaitExternalAgentsRegistered True b f \<noteq> Blocks" "mi_AwaitRuntimeReady True b f \<noteq> Blocks" "mi_AwaitAgentsReady True b f \<noteq> Blocks"
    "mi_AwaitExternalAgentsRegistered True b f \<noteq> Panics m" "mi_AwaitRuntimeReady True b f \<noteq> Panics m" "mi_AwaitAgentsReady True b f \<noteq> Panics m"
    by (metis (no_types, lifting) case_prod_beta mi_AwaitExternalAgentsRegistered_def mi_AwaitRuntimeReady_def
        mi_AwaitAgentsReady_def outcome_bind.simps(1) outcome.distinct)+
qed

lemma init_left_other: "\<not> main_step e \<Longrightarrow> ii_step sg d e s = Some s' \<Longrightarrow> init_left s' = init_left s"
  using other_step_progress [of e s sg d] by (simp add: init_left_def)

lemma init_left_run:
  "ii_run sg d es s = Some s' \<Longrightarrow> length (filter main_step es) + init_left s' \<le> init_left s"
proof (induction es arbitrary: s)
  case (Cons e es)
  obtain s1 where s1: "ii_step sg d e s = Some s1" "ii_run sg d es s1 = Some s'"
    using Cons.prems by (auto simp del: ii_step.simps split: option.splits)
  show ?case
  proof (cases "main_step e")
    case True
    then obtain env where "e = IiMain env" by (cases e) auto
    then have "init_left s1 < init_left s" using s1(1) init_left_main by (simp del: init_main.simps split: if_splits)
    then show ?thesis using Cons.IH [OF s1(2)] True by simp
  next
    case False
    then show ?thesis using Cons.IH [OF s1(2)] init_left_other [OF False s1(1)] by simp
  qed
qed simp

lemma init_main_enabled:
  assumes "ii_ctxDone s" "\<forall>r. ii_pc s \<noteq> IiDone r"
  shows "init_main d env s \<noteq> None"
proof -
  have step: "await_step await t pc env s \<noteq> None"
    if "await (ii_ctxDone s) (se_selectCtx env) (ii_flow s) \<noteq> Blocks"
      "\<And>m. await (ii_ctxDone s) (se_selectCtx env) (ii_flow s) \<noteq> Panics m" for await t pc
    using that by (cases "await (ii_ctxDone s) (se_selectCtx env) (ii_flow s)") (auto simp: await_step_def Let_def)
  show ?thesis
  proof (cases "ii_pc s")
    case (IiExtensions ps)
    then show ?thesis by (cases ps) simp_all
  qed (use assms step await_done_returns in simp_all)
qed

text \<open>C14: Init returns.  In every interleaving its goroutine makes at most six steps besides one for each extension, and when the init
  context has ended it can always make the next one, so no process that hangs keeps the instance from answering.\<close>

theorem init_returns:
  assumes "ii_run sg d es (doInitExtensions_begin bootstraps c) = Some s"
  shows "length (filter main_step es) \<le> length bootstraps + 6 \<and>
    (ii_ctxDone s \<and> \<not> mx_panic (ii_ctx s) \<and> (\<forall>r. ii_pc s \<noteq> IiDone r) \<longrightarrow> (\<exists>s'. ii_step sg d (IiMain env) s = Some s'))"
proof -
  have "init_left (doInitExtensions_begin bootstraps c) \<le> length bootstraps + 6"
    by (auto simp: doInitExtensions_begin_def init_left_def ii_to_def split: prod.split option.split)
  then show ?thesis
    using init_left_run [OF assms] init_main_enabled [of s d env] by (auto simp del: init_main.simps)
qed

section \<open>An instance with one extension\<close>

definition sample_env :: step_env where
  "sample_env = \<lparr>se_uuid = ''1'', se_now = 1, se_socketErr = False, se_execErr = None, se_stat = (\<lambda>p. Some False), se_selectCtx = False\<rparr>"

definition sample_data :: init_data where
  "sample_data = \<lparr>in_Cmd = [''/bootstrap''], in_WorkingDir = ''/var/task'', in_zip = False\<rparr>"

definition sample_init_events :: "ii_event list" where
  "sample_init_events = [IiMain sample_env, IiMain sample_env, IiRegister ''e'' (Inr [ShutdownEvent]) ''9'' 2, IiMain sample_env,
    IiMain sample_env, IiRegister ''i'' (Inr []) ''2'' 3, IiRuntimeNext False, IiMain sample_env, IiMain sample_env,
    IiAgentNext ''1'' 5 4 4, IiAgentNext ''2'' 6 4 4]"

abbreviation sample_instance_init :: instance_init where
  "sample_instance_init \<equiv> doInitExtensions_begin [''/opt/extensions/e''] mi_Start"

lemma sample_init_runs:
  "\<exists>s. ii_run (\<lambda>n. []) sample_data (sample_init_events @ [IiMain sample_env]) sample_instance_init = Some s \<and> ii_pc s = IiDone None"
  "\<exists>s. ii_run (\<lambda>n. []) sample_data (take 5 sample_init_events) sample_instance_init = Some s \<and> ii_pc s = IiAwaitRuntime \<and>
     \<not> mx_shuttingDown (ii_ctx s) \<and> \<not> mr_cancelOnce (mx_reg (ii_ctx s)) \<and> mx_firstFatalError (ii_ctx s) = None \<and>
     \<not> mx_panic (ii_ctx s) \<and> mi_getExitedChannel ''runtime'' (ii_ctx s) = Some False"
proof -
  have "map_option ii_pc (ii_run (\<lambda>n. []) sample_data (sample_init_events @ [IiMain sample_env]) sample_instance_init) = Some (IiDone None)"
    by code_simp
  then show "\<exists>s. ii_run (\<lambda>n. []) sample_data (sample_init_events @ [IiMain sample_env]) sample_instance_init = Some s \<and> ii_pc s = IiDone None"
    by auto
  have "map_option (\<lambda>s. (ii_pc s, mx_shuttingDown (ii_ctx s), mr_cancelOnce (mx_reg (ii_ctx s)), mx_firstFatalError (ii_ctx s), mx_panic (ii_ctx s), mi_getExitedChannel ''runtime'' (ii_ctx s)))
      (ii_run (\<lambda>n. []) sample_data (take 5 sample_init_events) sample_instance_init) = Some (IiAwaitRuntime, False, False, None, False, Some False)"
    by code_simp
  then show "\<exists>s. ii_run (\<lambda>n. []) sample_data (take 5 sample_init_events) sample_instance_init = Some s \<and> ii_pc s = IiAwaitRuntime \<and>
     \<not> mx_shuttingDown (ii_ctx s) \<and> \<not> mr_cancelOnce (mx_reg (ii_ctx s)) \<and> mx_firstFatalError (ii_ctx s) = None \<and>
     \<not> mx_panic (ii_ctx s) \<and> mi_getExitedChannel ''runtime'' (ii_ctx s) = Some False"
    by auto
qed

lemma ii_run_reach: "ii_run sg d es s = Some s' \<Longrightarrow> ii_reach sg d s0 s \<Longrightarrow> ii_reach sg d s0 s'"
  by (induction es arbitrary: s) (auto simp del: ii_step.simps split: option.splits intro: ii_next)



theorem init_returns_witness:
  "\<exists>s s'. ii_run (\<lambda>n. []) sample_data (take 5 sample_init_events @ [IiCtxDone]) sample_instance_init = Some s \<and>
     ii_step (\<lambda>n. []) sample_data (IiMain sample_env) s = Some s'"
proof -
  have "map_option (\<lambda>s. (ii_pc s, ii_ctxDone s, mx_panic (ii_ctx s)))
      (ii_run (\<lambda>n. []) sample_data (take 5 sample_init_events @ [IiCtxDone]) sample_instance_init) = Some (IiAwaitRuntime, True, False)"
    by code_simp
  then obtain s where "ii_run (\<lambda>n. []) sample_data (take 5 sample_init_events @ [IiCtxDone]) sample_instance_init = Some s"
    "ii_pc s = IiAwaitRuntime" "ii_ctxDone s" "\<not> mx_panic (ii_ctx s)" by auto
  with init_returns [OF this(1), of sample_env] show ?thesis by auto
qed

end
