(* ===== verification/Gate_Waiters.thy ===== *)
theory Gate_Waiters
  imports Gates
begin

text \<open>
  The condition variable of a gate.  The operations of \<open>Gates\<close> say what a thread sees
  while it holds the mutex; here the threads parked in \<open>gateCondition.Wait()\<close> are part of the
  state, \<open>Broadcast\<close> moves all of them to the threads that compete for the mutex, and each of
  those re-evaluates the loop condition when it gets it.  The step relation covers every
  interleaving.  \<open>SetCount\<close> is the one operation that may make the condition true without a
  broadcast; the init and invoke phases call it before they wait
  (\<open>doRuntimeDomainInit\<close>, \<open>doInvoke\<close>), which is the side condition of its rule.
\<close>

record gate_sys =
  gs_gate :: gateImpl
  gs_parked :: "tid list"
  gs_woken :: "tid list"
  gs_returned :: "(tid \<times> go_error option) list"

definition gs_broadcast :: "gate_sys \<Rightarrow> gate_sys" where
  "gs_broadcast s = s\<lparr>gs_parked := [], gs_woken := gs_woken s @ gs_parked s\<rparr>"

text \<open>\<open>AwaitGateCondition\<close> up to the first \<open>Wait\<close>, or to the return.\<close>

definition gs_await :: "tid \<Rightarrow> gate_sys \<Rightarrow> gate_sys" where
  "gs_await t s =
    (case AwaitGateCondition (gs_gate s) of
       AwaitReturns e \<Rightarrow> s\<lparr>gs_returned := gs_returned s @ [(t, e)]\<rparr>
     | AwaitBlocks \<Rightarrow> s\<lparr>gs_parked := gs_parked s @ [t]\<rparr>)"

text \<open>A woken thread gets the mutex and goes round the loop.\<close>

definition gs_resume :: "tid \<Rightarrow> gate_sys \<Rightarrow> gate_sys" where
  "gs_resume t s = gs_await t (s\<lparr>gs_woken := remove1 t (gs_woken s)\<rparr>)"

definition gs_walk :: "gate_sys \<Rightarrow> gate_sys \<times> go_error option" where
  "gs_walk s =
    (case WalkThrough (gs_gate s) of
       (g, Some e) \<Rightarrow> (s\<lparr>gs_gate := g\<rparr>, Some e)
     | (g, None) \<Rightarrow> (let s' = s\<lparr>gs_gate := g\<rparr>
                    in if arrived g = count g then gs_broadcast s' else s', None))"

definition gs_cancel :: "go_error option \<Rightarrow> gate_sys \<Rightarrow> gate_sys" where
  "gs_cancel e s = gs_broadcast (s\<lparr>gs_gate := CancelWithError e (gs_gate s)\<rparr>)"

definition gs_setCount :: "16 word \<Rightarrow> gate_sys \<Rightarrow> gate_sys" where
  "gs_setCount n s = s\<lparr>gs_gate := fst (SetCount n (gs_gate s))\<rparr>"

inductive gs_reach :: "gate_sys \<Rightarrow> bool" where
  start: "gs_reach \<lparr>gs_gate = NewGate n, gs_parked = [], gs_woken = [], gs_returned = []\<rparr>"
| await: "gs_reach s \<Longrightarrow> t \<notin> set (gs_parked s) \<Longrightarrow> t \<notin> set (gs_woken s) \<Longrightarrow> gs_reach (gs_await t s)"
| resume: "gs_reach s \<Longrightarrow> t \<in> set (gs_woken s) \<Longrightarrow> gs_reach (gs_resume t s)"
| walk: "gs_reach s \<Longrightarrow> gs_reach (fst (gs_walk s))"
| cancel: "gs_reach s \<Longrightarrow> gs_reach (gs_cancel e s)"
| setCount: "gs_reach s \<Longrightarrow> gs_parked s = [] \<Longrightarrow> gs_reach (gs_setCount n s)"
| reset: "gs_reach s \<Longrightarrow> gs_reach (s\<lparr>gs_gate := Reset (gs_gate s)\<rparr>)"
| clear: "gs_reach s \<Longrightarrow> gs_reach (s\<lparr>gs_gate := Clear (gs_gate s)\<rparr>)"

definition gs_inv :: "gate_sys \<Rightarrow> bool" where
  "gs_inv s = (gate_ok (gs_gate s) \<and>
    (AwaitGateCondition (gs_gate s) = AwaitBlocks \<or> gs_parked s = []))"

lemma await_not_blocks: "AwaitGateCondition g \<noteq> AwaitBlocks \<longleftrightarrow> canceled g \<or> arrived g = count g"
  by (auto simp: AwaitGateCondition_def split: option.splits)

lemma gs_inv_iff:
  "gs_inv s \<longleftrightarrow> gate_ok (gs_gate s) \<and>
    (canceled (gs_gate s) \<or> arrived (gs_gate s) = count (gs_gate s) \<longrightarrow> gs_parked s = [])"
  using await_not_blocks by (auto simp: gs_inv_def)

lemma gs_inv_await: "gs_inv s \<Longrightarrow> gs_inv (gs_await t s)"
  using await_not_blocks [of "gs_gate s"]
  by (auto simp: gs_inv_iff gs_await_def split: await_result.splits)

lemma gs_inv_walk: "gs_inv s \<Longrightarrow> gs_inv (fst (gs_walk s))"
  using gate_ok_WalkThrough [of "gs_gate s"]
  by (auto simp: gs_inv_iff gs_walk_def gs_broadcast_def WalkThrough_def Let_def split: if_splits)

lemma gs_inv_cancel: "gs_inv s \<Longrightarrow> gs_inv (gs_cancel e s)"
  by (simp add: gs_inv_iff gs_cancel_def gs_broadcast_def gate_ok_CancelWithError)

lemma gs_reach_inv: "gs_reach s \<Longrightarrow> gs_inv s"
proof (induction rule: gs_reach.induct)
  case (resume s t)
  then have "gs_inv (s\<lparr>gs_woken := remove1 t (gs_woken s)\<rparr>)" by (simp add: gs_inv_iff)
  then show ?case unfolding gs_resume_def by (rule gs_inv_await)
next
  case (setCount s n)
  then show ?case by (simp add: gs_inv_iff gs_setCount_def gate_ok_SetCount)
next
  case (reset s)
  then show ?case by (auto simp: gs_inv_iff Reset_def gate_ok_def)
next
  case (clear s)
  then show ?case by (auto simp: gs_inv_iff Clear_def gate_ok_def)
qed (auto simp: gs_inv_await gs_inv_walk gs_inv_cancel, simp add: gs_inv_iff)

text \<open>C30: no wakeup is lost.  In every reachable state of a gate and its waiting threads, a
  thread is parked only while the gate's condition is false and the gate is not
  cancelled; so once the condition holds every waiter has returned or has been
  woken, and a woken one returns as soon as it runs.\<close>

theorem gate_no_lost_wakeup:
  assumes "gs_reach s" "AwaitGateCondition (gs_gate s) = AwaitReturns e"
  shows "gs_parked s = [] \<and>
    (t \<in> set (gs_woken s) \<longrightarrow> (t, e) \<in> set (gs_returned (gs_resume t s)))"
  using gs_reach_inv [OF assms(1)] assms(2)
  by (simp add: gs_inv_def gs_resume_def gs_await_def)

theorem gate_no_lost_wakeup_witness:
  "gs_parked (fst (gs_walk (gs_await 7 \<lparr>gs_gate = NewGate 1, gs_parked = [], gs_woken = [], gs_returned = []\<rparr>))) = [] \<and>
   (7, None) \<in> set (gs_returned (gs_resume 7
      (fst (gs_walk (gs_await 7 \<lparr>gs_gate = NewGate 1, gs_parked = [], gs_woken = [], gs_returned = []\<rparr>)))))"
proof -
  let ?s = "fst (gs_walk (gs_await 7 \<lparr>gs_gate = NewGate 1, gs_parked = [], gs_woken = [], gs_returned = []\<rparr>))"
  have r: "gs_reach ?s" by (intro gs_reach.walk gs_reach.await gs_reach.start) simp_all
  have "AwaitGateCondition (gs_gate ?s) = AwaitReturns None" "7 \<in> set (gs_woken ?s)"
    by (simp_all add: gs_walk_def gs_await_def gs_broadcast_def gate_op_defs)
  with gate_no_lost_wakeup [OF r] show ?thesis by blast
qed

text \<open>Why the side condition on \<open>SetCount\<close> matters: called while a thread is parked, it
  can make the condition true and wake nobody.\<close>

lemma setCount_loses_wakeup:
  assumes "\<not> canceled (gs_gate s)" "arrived (gs_gate s) \<noteq> count (gs_gate s)"
  shows "(let s' = gs_setCount (arrived (gs_gate s)) (gs_await t s)
    in AwaitGateCondition (gs_gate s') = AwaitReturns None \<and> t \<in> set (gs_parked s') \<and> gs_woken s' = gs_woken s)"
  using assms le_maxAgentsLimit [of "arrived (gs_gate s)"]
  by (simp add: gs_setCount_def gs_await_def AwaitGateCondition_def SetCount_def Let_def not_less)

end
