(* ===== verification/Core_System.thy ===== *)
theory Core_System
  imports Registrations
begin

text \<open>
  The core as one system: the registration service with its runtime, agents and flows, and
  every operation the API handlers, the init, invoke and reset sequences of
  \<open>internal/lambda/rapid/handlers.go\<close> perform on it, as steps that may interleave in
  any order.  Invariants of the reachable states are proved by induction on runs.
\<close>

datatype core_op =
    KCreateExt string UUID ns | KCreateInt string UUID ns | KNewRuntime ns | KPreregister ref
  | KTurnOff | KCancel "go_error option" | KMetadata FunctionMetadata
  | KRuntime rt_op ns ns ref | KExt ea_op ns ns ref | KInt ia_op ns ns ref
  | KInitOp init_op | KInvokeOp invoke_op | KReset

text \<open>A pointer an operation uses was handed out by the service, so it is valid.\<close>

fun core_enabled :: "core_op \<Rightarrow> reg \<Rightarrow> bool" where
  "core_enabled (KPreregister r) s = (r < length (rs_runtimes s))"
| "core_enabled (KRuntime q now now' r) s = (r < length (rs_runtimes s))"
| "core_enabled (KExt q now now' a) s = (a < length (rs_extAgents s))"
| "core_enabled (KInt q now now' a) s = (a < length (rs_intAgents s))"
| "core_enabled k s = True"

text \<open>The reset sequence clears the service and both flows (\<open>reinitialize\<close> in \<open>handlers.go\<close>).\<close>

definition core_reset :: "reg \<Rightarrow> reg" where
  "core_reset s = (let s = reg_Clear s
    in s\<lparr>rs_flows := \<lparr>initFlow = init_Clear (initFlow (rs_flows s)), invokeFlow = invoke_Clear (invokeFlow (rs_flows s))\<rparr>\<rparr>)"

fun core_exec :: "core_op \<Rightarrow> reg \<Rightarrow> reg" where
  "core_exec (KCreateExt n i now) s = fst (CreateExternalAgent n i now s)"
| "core_exec (KCreateInt n i now) s = fst (CreateInternalAgent n i now s)"
| "core_exec (KNewRuntime now) s = fst (new_runtime now s)"
| "core_exec (KPreregister r) s = fst (PreregisterRuntime r s)"
| "core_exec KTurnOff s = TurnOff s"
| "core_exec (KCancel e) s = CancelFlows e s"
| "core_exec (KMetadata md) s = SetFunctionMetadata md s"
| "core_exec (KRuntime q now now' r) s = fst (reg_runtime_call q now now' r s)"
| "core_exec (KExt q now now' a) s = fst (reg_ext_call q now now' a s)"
| "core_exec (KInt q now now' a) s = fst (reg_int_call q now now' a s)"
| "core_exec (KInitOp q) s = s\<lparr>rs_flows := (rs_flows s)\<lparr>initFlow := fst (init_exec q (initFlow (rs_flows s)))\<rparr>\<rparr>"
| "core_exec (KInvokeOp q) s = s\<lparr>rs_flows := (rs_flows s)\<lparr>invokeFlow := fst (invoke_exec q (invokeFlow (rs_flows s)))\<rparr>\<rparr>"
| "core_exec KReset s = core_reset s"

inductive core_reach :: "reg \<Rightarrow> bool" where
  start: "core_reach (NewRegistrationService new_flows)"
| step: "core_reach s \<Longrightarrow> core_enabled k s \<Longrightarrow> core_reach (core_exec k s)"

inductive_cases core_reachE: "core_reach s"

section \<open>Names and identifiers of agents never change\<close>

lemma ea_suspend_ident:
  "ea_suspend t now' f a = ((f', a'), c) \<Longrightarrow> ea_Name a' = ea_Name a \<and> ea_ID a' = ea_ID a"
  by (auto simp: ea_suspend_def ea_after_suspend_def SuspendUnsafe_def split: if_splits)

lemma ea_resume_ident:
  "ExternalAgent_resume t now' f a = ((f', a'), c) \<Longrightarrow> ea_Name a' = ea_Name a \<and> ea_ID a' = ea_ID a"
  by (auto simp: ExternalAgent_resume_def ea_after_suspend_def split: prod.splits option.splits if_splits)

lemma ea_exec_ident:
  assumes "ea_exec q now now' f a = ((f', a'), c)"
  shows "ea_Name a' = ea_Name a \<and> ea_ID a' = ea_ID a"
proof (cases q)
  case (EARegister es)
  then show ?thesis using assms
    by (auto simp: ea_method_defs split: ExternalAgentState.splits prod.splits option.splits
        dest!: ea_subscribe_all_frame)
next
  case (EAReady t)
  then show ?thesis using assms
    by (auto simp: ea_method_defs split: ExternalAgentState.splits dest!: ea_suspend_ident)
next
  case (EAResume t)
  then show ?thesis using assms ea_resume_ident by simp
qed (use assms in \<open>auto simp: ea_method_defs ExternalAgent_Release_def split: ExternalAgentState.splits\<close>)

lemma ia_suspend_ident:
  "ia_suspend t now' f a = ((f', a'), c) \<Longrightarrow> ia_Name a' = ia_Name a \<and> ia_ID a' = ia_ID a"
  by (auto simp: ia_suspend_def ia_after_suspend_def SuspendUnsafe_def split: if_splits)

lemma ia_resume_ident:
  "InternalAgent_resume t now' f a = ((f', a'), c) \<Longrightarrow> ia_Name a' = ia_Name a \<and> ia_ID a' = ia_ID a"
  by (auto simp: InternalAgent_resume_def ia_after_suspend_def split: prod.splits option.splits if_splits)

lemma ia_exec_ident:
  assumes "ia_exec q now now' f a = ((f', a'), c)"
  shows "ia_Name a' = ia_Name a \<and> ia_ID a' = ia_ID a"
proof (cases q)
  case (IARegister es)
  then show ?thesis using assms
    by (auto simp: ia_method_defs split: InternalAgentState.splits prod.splits option.splits
        dest!: ia_subscribe_all_frame)
next
  case (IAReady t)
  then show ?thesis using assms
    by (auto simp: ia_method_defs split: InternalAgentState.splits dest!: ia_suspend_ident)
next
  case (IAResume t)
  then show ?thesis using assms ia_resume_ident by simp
qed (use assms in \<open>auto simp: ia_method_defs InternalAgent_Release_def split: InternalAgentState.splits\<close>)

section \<open>The invariant of the registration service\<close>

definition names_disjoint :: "reg \<Rightarrow> bool" where
  "names_disjoint s = (\<forall>n a b. map_of (eam_byName (rs_externalAgents s)) n = Some a \<longrightarrow>
    map_of (iam_byName (rs_internalAgents s)) n = Some b \<longrightarrow> False)"

definition reg_ok :: "reg \<Rightarrow> bool" where
  "reg_ok s = (eam.index_ok (rs_extAgents s) (rs_externalAgents s) \<and>
    iam.index_ok (rs_intAgents s) (rs_internalAgents s) \<and> names_disjoint s \<and>
    (\<forall>r. rs_runtime s = Some r \<longrightarrow> r < length (rs_runtimes s)))"

lemma reg_ok_New: "reg_ok (NewRegistrationService f)"
  by (simp add: reg_ok_def NewRegistrationService_def names_disjoint_def eam.index_ok_empty
      iam.index_ok_empty NewExternalAgentsMap_def NewInternalAgentsMap_def)

lemma eam_alloc: "eam.index_ok h m \<Longrightarrow> eam.index_ok (h @ [a]) m"
  by (erule eam.index_ok_frame) (auto simp: nth_append)

lemma iam_alloc: "iam.index_ok h m \<Longrightarrow> iam.index_ok (h @ [a]) m"
  by (erule iam.index_ok_frame) (auto simp: nth_append)

lemma NewExternalAgent_simps [simp]:
  "ea_Name (NewExternalAgent n i now) = n" "ea_ID (NewExternalAgent n i now) = i"
  by (simp_all add: NewExternalAgent_def)

lemma NewInternalAgent_simps [simp]:
  "ia_Name (NewInternalAgent n i now) = n" "ia_ID (NewInternalAgent n i now) = i"
  by (simp_all add: NewInternalAgent_def)

lemma reg_ok_CreateExternalAgent:
  assumes "reg_ok s"
  shows "reg_ok (fst (CreateExternalAgent n i now s))"
proof -
  let ?h = "rs_extAgents s @ [NewExternalAgent n i now]" and ?a = "length (rs_extAgents s)"
  have h: "eam.index_ok ?h (rs_externalAgents s)" using assms by (simp add: reg_ok_def eam_alloc)
  have ins: "eam.index_ok ?h (fst (ExternalAgentsMap_Insert ?h ?a (rs_externalAgents s)))"
    using h by (intro eam.index_ok_insert) simp_all
  show ?thesis
    using assms h ins eam.insert_cases [of ?h ?a "rs_externalAgents s"]
    by (auto simp: CreateExternalAgent_def Let_def reg_ok_def names_disjoint_def
        InternalAgentsMap_FindByName_def split: prod.splits option.splits if_splits)
qed

lemma reg_ok_CreateInternalAgent:
  assumes "reg_ok s"
  shows "reg_ok (fst (CreateInternalAgent n i now s))"
proof -
  let ?h = "rs_intAgents s @ [NewInternalAgent n i now]" and ?a = "length (rs_intAgents s)"
  have h: "iam.index_ok ?h (rs_internalAgents s)" using assms by (simp add: reg_ok_def iam_alloc)
  have ins: "iam.index_ok ?h (fst (InternalAgentsMap_Insert ?h ?a (rs_internalAgents s)))"
    using h by (intro iam.index_ok_insert) simp_all
  show ?thesis
    using assms h ins iam.insert_cases [of ?h ?a "rs_internalAgents s"]
    by (auto simp: CreateInternalAgent_def Let_def reg_ok_def names_disjoint_def
        ExternalAgentsMap_FindByName_def split: prod.splits option.splits if_splits)
qed

lemma reg_ok_ext_call:
  assumes "reg_ok s" "a < length (rs_extAgents s)"
  shows "reg_ok (fst (reg_ext_call q now now' a s))"
proof -
  obtain f ag c where e: "ea_exec q now now' (rs_flows s) (rs_extAgents s ! a) = ((f, ag), c)"
    by (cases "ea_exec q now now' (rs_flows s) (rs_extAgents s ! a)") auto
  have "eam.index_ok ((rs_extAgents s)[a := ag]) (rs_externalAgents s)"
    using assms ea_exec_ident [OF e] unfolding reg_ok_def
    by (auto intro!: eam.index_ok_frame [of "rs_extAgents s"] simp: nth_list_update)
  then show ?thesis using assms by (simp add: reg_ext_call_def e reg_ok_def names_disjoint_def)
qed

lemma reg_ok_int_call:
  assumes "reg_ok s" "a < length (rs_intAgents s)"
  shows "reg_ok (fst (reg_int_call q now now' a s))"
proof -
  obtain f ag c where e: "ia_exec q now now' (rs_flows s) (rs_intAgents s ! a) = ((f, ag), c)"
    by (cases "ia_exec q now now' (rs_flows s) (rs_intAgents s ! a)") auto
  have "iam.index_ok ((rs_intAgents s)[a := ag]) (rs_internalAgents s)"
    using assms ia_exec_ident [OF e] unfolding reg_ok_def
    by (auto intro!: iam.index_ok_frame [of "rs_intAgents s"] simp: nth_list_update)
  then show ?thesis using assms by (simp add: reg_int_call_def e reg_ok_def names_disjoint_def)
qed

lemma reg_ok_Clear: "reg_ok s \<Longrightarrow> reg_ok (core_reset s)"
  by (simp add: reg_ok_def core_reset_def reg_Clear_def names_disjoint_def eam.index_ok_empty
      iam.index_ok_empty ExternalAgentsMap_Clear_def InternalAgentsMap_Clear_def Let_def)

lemma reg_ok_exec:
  assumes "reg_ok s" "core_enabled k s"
  shows "reg_ok (core_exec k s)"
proof (cases k)
  case (KRuntime q now now' r)
  then show ?thesis using assms
    by (auto simp: reg_runtime_call_def reg_ok_def names_disjoint_def split: prod.splits option.splits)
next
  case (KPreregister r)
  then show ?thesis using assms by (simp add: PreregisterRuntime_def reg_ok_def names_disjoint_def)
next
  case (KNewRuntime now)
  then show ?thesis using assms
    by (auto simp: new_runtime_def reg_ok_def names_disjoint_def split: option.splits)
qed (use assms in \<open>auto simp: reg_ok_CreateExternalAgent reg_ok_CreateInternalAgent reg_ok_ext_call
      reg_ok_int_call reg_ok_Clear, auto simp: reg_ok_def names_disjoint_def TurnOff_def CancelFlows_def
      SetFunctionMetadata_def\<close>)

lemma core_reach_ok: "core_reach s \<Longrightarrow> reg_ok s"
  by (induction rule: core_reach.induct) (simp_all add: reg_ok_New reg_ok_exec)

text \<open>C34: in every reachable state of the core the registry is consistent: an agent found by
  name is a live object of that name, is found under its own identifier too, and no name is
  registered both as external and as internal agent.\<close>

theorem registry_consistent:
  assumes "core_reach s"
  shows "(FindExternalAgentByName n s = Some a \<longrightarrow>
      FindInternalAgentByName n s = None \<and> a < length (rs_extAgents s) \<and> ea_Name (rs_extAgents s ! a) = n \<and>
      FindExternalAgentByID (ea_ID (rs_extAgents s ! a)) s = Some a) \<and>
    (FindInternalAgentByName n s = Some a \<longrightarrow>
      FindExternalAgentByName n s = None \<and> a < length (rs_intAgents s) \<and> ia_Name (rs_intAgents s ! a) = n \<and>
      FindInternalAgentByID (ia_ID (rs_intAgents s ! a)) s = Some a)"
proof -
  have ok: "eam.index_ok (rs_extAgents s) (rs_externalAgents s)"
    "iam.index_ok (rs_intAgents s) (rs_internalAgents s)" "names_disjoint s"
    using core_reach_ok [OF assms] by (simp_all add: reg_ok_def)
  note finds = FindExternalAgentByName_def FindInternalAgentByName_def FindExternalAgentByID_def
    FindInternalAgentByID_def ExternalAgentsMap_FindByName_def InternalAgentsMap_FindByName_def
    ExternalAgentsMap_FindByID_def InternalAgentsMap_FindByID_def
  have nd: "\<not> (FindExternalAgentByName n s = Some x \<and> FindInternalAgentByName n s = Some y)" for x y
    using ok(3) by (auto simp: names_disjoint_def finds)
  have "FindInternalAgentByName n s = None \<and> a < length (rs_extAgents s) \<and> ea_Name (rs_extAgents s ! a) = n \<and>
      FindExternalAgentByID (ea_ID (rs_extAgents s ! a)) s = Some a" if "FindExternalAgentByName n s = Some a"
    using eam.lookup_name_object [OF ok(1), of n a] eam.index_agree [OF ok(1), of a] nd [of a] that
    by (cases "FindInternalAgentByName n s") (auto simp: finds)
  moreover have "FindExternalAgentByName n s = None \<and> a < length (rs_intAgents s) \<and> ia_Name (rs_intAgents s ! a) = n \<and>
      FindInternalAgentByID (ia_ID (rs_intAgents s ! a)) s = Some a" if "FindInternalAgentByName n s = Some a"
    using iam.lookup_name_object [OF ok(2), of n a] iam.index_agree [OF ok(2), of a] nd [of _ a] that
    by (cases "FindExternalAgentByName n s") (auto simp: finds)
  ultimately show ?thesis by simp
qed

definition two_agents :: reg where
  "two_agents = core_exec (KCreateInt ''b'' ''i2'' 2) (core_exec (KCreateExt ''a'' ''i1'' 1)
     (NewRegistrationService new_flows))"

theorem registry_consistent_witness:
  "FindInternalAgentByName ''a'' two_agents = None \<and>
   FindExternalAgentByID ''i1'' two_agents = Some 0 \<and>
   FindExternalAgentByName ''b'' two_agents = None \<and> FindInternalAgentByID ''i2'' two_agents = Some 0"
proof -
  have r: "core_reach two_agents"
    unfolding two_agents_def by (intro core_reach.step core_reach.start) simp_all
  have "FindExternalAgentByName ''a'' two_agents = Some 0" "ea_ID (rs_extAgents two_agents ! 0) = ''i1''"
    "FindInternalAgentByName ''b'' two_agents = Some 0" "ia_ID (rs_intAgents two_agents ! 0) = ''i2''"
    by (code_simp)+
  then show ?thesis using registry_consistent [OF r] by metis
qed

section \<open>Limits and the off state\<close>

lemma CountAgents_eq:
  "CountAgents s = int (length (eam_byName (rs_externalAgents s)) + length (iam_byName (rs_internalAgents s)))"
  by (simp add: CountAgents_def countAgentsUnsafe_def ExternalAgentsMap_Visit_def InternalAgentsMap_Visit_def fold_count)

text \<open>The limit of ten extensions.  Creating an internal agent succeeds only below the limit, then
  raises the count by one, so it never exceeds ten through it, and the new agent is found
  by its name and identifier; at the limit the request is refused with \<open>ErrTooManyExtensions\<close>
  and nothing is registered.\<close>

theorem internal_agent_limit:
  assumes "CreateInternalAgent n i now s = (s', res)"
  shows "(case res of
      Inr a \<Rightarrow> CountAgents s' = CountAgents s + 1 \<and> CountAgents s' \<le> 10 \<and>
        FindInternalAgentByName n s' = Some a \<and> FindInternalAgentByID i s' = Some a
    | Inl e \<Rightarrow> CountAgents s' = CountAgents s \<and>
        FindInternalAgentByName m s' = FindInternalAgentByName m s) \<and>
    (rs_state s = registrationServiceOn \<and> 10 \<le> CountAgents s \<longrightarrow> res = Inl ErrTooManyExtensions)"
proof -
  let ?h = "rs_intAgents s @ [NewInternalAgent n i now]" and ?a = "length (rs_intAgents s)"
  obtain m' e where ins: "InternalAgentsMap_Insert ?h ?a (rs_internalAgents s) = (m', e)" by fastforce
  have fail: "e \<noteq> None \<Longrightarrow> m' = rs_internalAgents s"
    using iam.insert_cases [of ?h ?a "rs_internalAgents s"] ins by auto
  show ?thesis
    using assms fail iam.lookup_after_insert [of ?h ?a "rs_internalAgents s" n i] ins
    by (auto simp: CreateInternalAgent_def Let_def CountAgents_eq MaxAgentsAllowed_def
        FindInternalAgentByName_def FindInternalAgentByID_def InternalAgentsMap_FindByName_def
        InternalAgentsMap_FindByID_def CountAgents_eq [unfolded CountAgents_def]
        split: if_splits option.splits)
qed

theorem internal_agent_limit_witness:
  "CountAgents (fst (CreateInternalAgent ''x'' ''i9'' 9 two_agents)) = 3"
proof -
  obtain s' res where c: "CreateInternalAgent ''x'' ''i9'' 9 two_agents = (s', res)" by fastforce
  have "snd (CreateInternalAgent ''x'' ''i9'' 9 two_agents) = Inr 1" by code_simp
  with c have "res = Inr 1" by simp
  moreover have "CountAgents two_agents = 2" by code_simp
  ultimately show ?thesis using internal_agent_limit [OF c] c by auto
qed

definition core_run :: "core_op list \<Rightarrow> reg \<Rightarrow> reg" where
  "core_run ks s = foldl (\<lambda>s k. core_exec k s) s ks"

lemma core_run_simps [simp]: "core_run [] s = s" "core_run (k # ks) s = core_run ks (core_exec k s)"
  by (simp_all add: core_run_def)

lemma core_off_exec:
  assumes "rs_state s = registrationServiceOff" "k \<noteq> KReset"
  shows "rs_state (core_exec k s) = registrationServiceOff \<and>
    rs_externalAgents (core_exec k s) = rs_externalAgents s \<and>
    rs_internalAgents (core_exec k s) = rs_internalAgents s \<and> rs_runtime (core_exec k s) = rs_runtime s"
  using assms
  by (cases k) (auto simp: CreateExternalAgent_def CreateInternalAgent_def Let_def new_runtime_def
      PreregisterRuntime_def TurnOff_def CancelFlows_def SetFunctionMetadata_def reg_runtime_call_def
      reg_ext_call_def reg_int_call_def split: prod.splits)

text \<open>Once registration is turned off (when the runtime is ready), who is registered is
  frozen until the next reset: no sequence of requests, registrations included, changes the
  registered agents or the runtime.\<close>

theorem registration_frozen_after_turn_off:
  assumes "KReset \<notin> set ks"
  shows "rs_externalAgents (core_run ks (TurnOff s)) = rs_externalAgents s \<and>
    rs_internalAgents (core_run ks (TurnOff s)) = rs_internalAgents s \<and>
    rs_runtime (core_run ks (TurnOff s)) = rs_runtime s"
proof -
  have "rs_externalAgents (core_run ks s) = rs_externalAgents s \<and>
    rs_internalAgents (core_run ks s) = rs_internalAgents s \<and> rs_runtime (core_run ks s) = rs_runtime s"
    if "rs_state s = registrationServiceOff" for s
    using assms that
  proof (induction ks arbitrary: s)
    case (Cons k ks)
    then show ?case using core_off_exec [of s k] by auto
  qed simp
  from this [of "TurnOff s"] show ?thesis by (simp add: TurnOff_def)
qed

theorem registration_frozen_after_turn_off_witness:
  "rs_externalAgents (core_run [KCreateExt ''late'' ''i3'' 3, KCreateInt ''late'' ''i4'' 4] (TurnOff two_agents))
     = rs_externalAgents two_agents"
  using registration_frozen_after_turn_off
    [of "[KCreateExt ''late'' ''i3'' 3, KCreateInt ''late'' ''i4'' 4]" two_agents] by simp

section \<open>The first cancellation wins\<close>

text \<open>The parties move the flows only by the flows' own operations.\<close>

definition flows_moved :: "flows \<Rightarrow> flows \<Rightarrow> bool" where
  "flows_moved f f' = ((\<exists>qs. initFlow f' = init_run qs (initFlow f)) \<and> (\<exists>vs. invokeFlow f' = invoke_run vs (invokeFlow f)))"

lemma init_run_ops:
  "init_run [] i = i" "init_run (q # qs) i = init_run qs (fst (init_exec q i))"
  by (simp_all add: init_run_def)

lemma flows_moved_refl [intro, simp]: "flows_moved f f"
  unfolding flows_moved_def by (metis init_run_ops(1) invoke_run_simps(1))

lemma flows_moved_init: "flows_moved f (f\<lparr>initFlow := fst (init_exec q (initFlow f))\<rparr>)"
  unfolding flows_moved_def
  by (rule conjI, rule exI [of _ "[q]"], simp add: init_run_ops, rule exI [of _ "[]"], simp)

lemma flows_moved_init2:
  "flows_moved f (f\<lparr>initFlow := fst (init_exec p (fst (init_exec q (initFlow f))))\<rparr>)"
  unfolding flows_moved_def
  by (rule conjI, rule exI [of _ "[q, p]"], simp add: init_run_ops, rule exI [of _ "[]"], simp)

lemma flows_moved_invoke: "flows_moved f (f\<lparr>invokeFlow := fst (invoke_exec q (invokeFlow f))\<rparr>)"
  unfolding flows_moved_def
  by (rule conjI, rule exI [of _ "[]"], simp add: init_run_ops, rule exI [of _ "[q]"], simp)

lemmas flows_moved_ops [simp] =
  flows_moved_init [of _ IOpAgentReady, simplified] flows_moved_init [of _ IOpExternalRegistered, simplified]
  flows_moved_invoke [of _ VOpAgentReady, simplified]

lemma flows_moved_results:
  "init_RuntimeReady (initFlow f) = (i, e) \<Longrightarrow> flows_moved f (f\<lparr>initFlow := i\<rparr>)"
  "RuntimeRestoreReady (initFlow f) = (i, e) \<Longrightarrow> flows_moved f (f\<lparr>initFlow := i\<rparr>)"
  "RuntimeRestoreReady (initFlow f) = (i, e) \<Longrightarrow> init_RuntimeReady i = (j, d) \<Longrightarrow> flows_moved f (f\<lparr>initFlow := j\<rparr>)"
  "RuntimeResponse (invokeFlow f) = (v, e) \<Longrightarrow> flows_moved f (f\<lparr>invokeFlow := v\<rparr>)"
  "invoke_RuntimeReady (invokeFlow f) = (v, e) \<Longrightarrow> flows_moved f (f\<lparr>invokeFlow := v\<rparr>)"
  using flows_moved_init [of f IOpRuntimeReady] flows_moved_init [of f IOpRestoreReady]
    flows_moved_init2 [of f IOpRuntimeReady IOpRestoreReady]
    flows_moved_invoke [of f VOpResponse] flows_moved_invoke [of f VOpRuntimeReady]
  by simp_all

lemma runtime_suspend_flows: "runtime_suspend t k now f r = ((f', r'), c) \<Longrightarrow> f' = f"
  by (auto simp: runtime_suspend_def split: prod.splits bool.splits)

lemma rt_exec_flows:
  assumes "rt_exec q now now' f r = ((f', r'), c)" "\<And>u. q \<noteq> RRestoreError u"
  shows "flows_moved f f'"
proof (cases q)
  case (RReady t)
  then show ?thesis using assms
    by (auto simp: Runtime_Ready_def runtime_state_method_defs Let_def
        split: RuntimeState.splits prod.splits option.splits
        dest!: runtime_suspend_flows intro: flows_moved_results)
next
  case (RRestoreReady t)
  then show ?thesis using assms
    by (auto simp: Runtime_RestoreReady_def runtime_state_method_defs Let_def
        split: RuntimeState.splits prod.splits option.splits
        dest!: runtime_suspend_flows intro: flows_moved_results)
next
  case RResponseSent
  then show ?thesis using assms
    by (auto simp: Runtime_ResponseSent_def runtime_state_method_defs
        split: RuntimeState.splits prod.splits option.splits intro: flows_moved_results)
qed (use assms in \<open>auto simp: runtime_method_defs runtime_state_method_defs
      split: RuntimeState.splits prod.splits option.splits\<close>)

lemma ea_exec_flows:
  assumes "ea_exec q now now' f a = ((f', a'), c)"
  shows "flows_moved f f'"
proof (cases q)
  case (EAResume t)
  then show ?thesis using assms ea_resume_cases by fastforce
qed (use assms in \<open>auto simp: ea_method_defs split: ExternalAgentState.splits prod.splits option.splits
      dest!: ea_suspend_cases\<close>)

lemma ia_exec_flows:
  assumes "ia_exec q now now' f a = ((f', a'), c)"
  shows "flows_moved f f'"
proof (cases q)
  case (IAResume t)
  then show ?thesis using assms ia_resume_cases by fastforce
qed (use assms in \<open>auto simp: ia_method_defs split: InternalAgentState.splits prod.splits option.splits
      dest!: ia_suspend_cases\<close>)

text \<open>The core is a cancellable flow itself: its waits are those of both flows.\<close>

definition core_cancelled :: "go_error \<Rightarrow> reg \<Rightarrow> bool" where
  "core_cancelled e s = (rs_cancelOnce s \<and> init_cancelled e (initFlow (rs_flows s)) \<and>
    invoke_cancelled e (invokeFlow (rs_flows s)))"

fun core_keeps_cancel :: "core_op \<Rightarrow> bool" where
  "core_keeps_cancel KReset = False"
| "core_keeps_cancel (KRuntime (RRestoreError u) now now' r) = False"
| "core_keeps_cancel k = True"

lemma flows_moved_cancelled:
  assumes "flows_moved f f'"
  shows "(init_cancelled e (initFlow f) \<longrightarrow> init_cancelled e (initFlow f')) \<and>
    (invoke_cancelled e (invokeFlow f) \<longrightarrow> invoke_cancelled e (invokeFlow f'))"
  using assms init_cf.cancelled_run invoke_cf.cancelled_run
  unfolding flows_moved_def init_run_def invoke_run_def by metis

lemma core_exec_flows:
  assumes "core_keeps_cancel k" "rs_cancelOnce s"
  shows "flows_moved (rs_flows s) (rs_flows (core_exec k s)) \<and> rs_cancelOnce (core_exec k s)"
proof (cases k)
  case (KRuntime q now now' r)
  obtain f rt c where e: "rt_exec q now now' (rs_flows s) (rs_runtimes s ! r) = ((f, rt), c)"
    by (cases "rt_exec q now now' (rs_flows s) (rs_runtimes s ! r)") auto
  have "q \<noteq> RRestoreError u" for u using assms KRuntime by auto
  then show ?thesis using rt_exec_flows [OF e] assms KRuntime e by (simp add: reg_runtime_call_def)
next
  case (KExt q now now' a)
  then show ?thesis using ea_exec_flows assms by (auto simp: reg_ext_call_def split: prod.splits)
next
  case (KInt q now now' a)
  then show ?thesis using ia_exec_flows assms by (auto simp: reg_int_call_def split: prod.splits)
next
  case (KInitOp q)
  then show ?thesis using assms flows_moved_init by simp
next
  case (KInvokeOp q)
  then show ?thesis using assms flows_moved_invoke by simp
qed (use assms in \<open>auto simp: CreateExternalAgent_def CreateInternalAgent_def Let_def new_runtime_def
      PreregisterRuntime_def TurnOff_def CancelFlows_def SetFunctionMetadata_def split: prod.splits option.splits\<close>)

lemma core_cancelled_exec:
  "core_cancelled e s \<Longrightarrow> core_keeps_cancel k \<Longrightarrow> core_cancelled e (core_exec k s)"
  using core_exec_flows [of k s] flows_moved_cancelled [of "rs_flows s" "rs_flows (core_exec k s)" e]
  by (auto simp: core_cancelled_def)

lemma core_cancelled_run:
  "core_cancelled e s \<Longrightarrow> list_all core_keeps_cancel ks \<Longrightarrow> core_cancelled e (core_run ks s)"
  by (induction ks arbitrary: s) (auto intro: core_cancelled_exec)

lemma core_cancelled_waits:
  assumes "core_cancelled e s"
  shows "map (\<lambda>aw. aw (initFlow (rs_flows s))) init_awaits = replicate 4 (AwaitReturns (Some e)) \<and>
    map (\<lambda>aw. aw (invokeFlow (rs_flows s))) invoke_awaits = replicate 3 (AwaitReturns (Some e))"
  using assms init_cf.cancelled_await [of e "initFlow (rs_flows s)"]
    invoke_cf.cancelled_await [of e "invokeFlow (rs_flows s)"]
  by (simp add: core_cancelled_def init_awaits_def invoke_awaits_def numeral_eq_Suc)



end
