(* ===== verification/Credentials.thy ===== *)
theory Credentials
  imports Errors
begin

text \<open>
  The credentials service, \<open>internal/lambda/core/credentials.go\<close>: a map from tokens to
  credentials.  Each method holds the service's mutexes, so each is one step.
\<close>

record Credentials =
  AwsKey :: string
  AwsSecret :: string
  AwsSession :: string
  Expiration :: ns

definition UNBLOCKED :: int where "UNBLOCKED = 0"
definition BLOCKED :: int where "BLOCKED = 1"

record credentialsServiceImpl =
  cs_credentials :: "(string \<times> Credentials) list"
  cs_currentState :: int

definition NewCredentialsService :: credentialsServiceImpl where
  "NewCredentialsService = \<lparr>cs_credentials = [], cs_currentState = UNBLOCKED\<rparr>"

definition SetCredentials ::
  "string \<Rightarrow> string \<Rightarrow> string \<Rightarrow> string \<Rightarrow> ns \<Rightarrow> credentialsServiceImpl \<Rightarrow> credentialsServiceImpl" where
  "SetCredentials token awsKey awsSecret awsSession expiration c =
    c\<lparr>cs_credentials := go_map_set token
        \<lparr>AwsKey = awsKey, AwsSecret = awsSecret, AwsSession = awsSession, Expiration = expiration\<rparr> (cs_credentials c)\<rparr>"

definition GetCredentials :: "string \<Rightarrow> credentialsServiceImpl \<Rightarrow> go_error + Credentials" where
  "GetCredentials token c =
    (case map_of (cs_credentials c) token of Some cr \<Rightarrow> Inr cr | None \<Rightarrow> Inl ErrCredentialsNotFound)"

text \<open>The loop over the keys leaves the last key visited in \<open>token\<close>.\<close>

definition UpdateCredentials ::
  "string \<Rightarrow> string \<Rightarrow> string \<Rightarrow> ns \<Rightarrow> credentialsServiceImpl \<Rightarrow> credentialsServiceImpl \<times> go_error option" where
  "UpdateCredentials awsKey awsSecret awsSession expiration c =
    (if length (cs_credentials c) \<noteq> 1
     then (c, Some (ErrText (''there are '' @ nat_dec (length (cs_credentials c)) @ '' set of credentials'')))
     else (SetCredentials (foldl (\<lambda>token (key, _). key) [] (cs_credentials c)) awsKey awsSecret awsSession expiration c, None))"

definition credentials_ok :: "credentialsServiceImpl \<Rightarrow> bool" where
  "credentials_ok c = go_map_ok (cs_credentials c)"

lemma credentials_ok_ops [intro]:
  "credentials_ok NewCredentialsService"
  "credentials_ok c \<Longrightarrow> credentials_ok (SetCredentials t k s ss e c)"
  "credentials_ok c \<Longrightarrow> credentials_ok (fst (UpdateCredentials k s ss e c))"
  by (auto simp: credentials_ok_def NewCredentialsService_def SetCredentials_def UpdateCredentials_def)

text \<open>Credentials set for a token are the ones a request with that token gets, and no other token is affected;
  an unknown token is refused.\<close>

theorem credentials_set_get:
  "GetCredentials t' (SetCredentials t k s ss e c) =
    (if t' = t then Inr \<lparr>AwsKey = k, AwsSecret = s, AwsSession = ss, Expiration = e\<rparr> else GetCredentials t' c) \<and>
   (GetCredentials t' NewCredentialsService = Inl ErrCredentialsNotFound)"
  by (simp add: GetCredentials_def SetCredentials_def NewCredentialsService_def)

text \<open>Updating the credentials on restore replaces those of the one registered token and keeps the token; with no
  token or with more than one it fails and changes nothing.\<close>

theorem credentials_update:
  "(case UpdateCredentials k s ss e c of
      (c', None) \<Rightarrow> (\<exists>t old. cs_credentials c = [(t, old)] \<and>
         cs_credentials c' = [(t, \<lparr>AwsKey = k, AwsSecret = s, AwsSession = ss, Expiration = e\<rparr>)])
    | (c', Some er) \<Rightarrow> c' = c \<and> length (cs_credentials c) \<noteq> 1)"
proof (cases "length (cs_credentials c) = 1")
  case True
  then obtain p where p: "cs_credentials c = [p]" by (cases "cs_credentials c") auto
  then show ?thesis by (cases p) (simp add: UpdateCredentials_def SetCredentials_def)
next
  case False
  then show ?thesis by (simp add: UpdateCredentials_def)
qed

end
