(* ===== verification/Interop.thy ===== *)
theory Interop
  imports Errors
begin

text \<open>
  The parts of \<open>internal/lambda/interop/model.go\<close> the other components use: response modes and their
  case-insensitive conversion, payload and bandwidth limits, response metrics, merging
  of subscription metrics, and the error responses.  \<open>json.Marshal\<close> is a parameter.
\<close>

definition MaxPayloadSize :: int where
  "MaxPayloadSize = 6 * 1024 * 1024 + 100"

definition ResponseBandwidthRate_default :: int where
  "ResponseBandwidthRate_default = 2 * 1024 * 1024"

definition ResponseBandwidthBurstSize_default :: int where
  "ResponseBandwidthBurstSize_default = 6 * 1024 * 1024"

definition MinResponseBandwidthRate :: int where
  "MinResponseBandwidthRate = 32 * 1024"

definition MaxResponseBandwidthRate :: int where
  "MaxResponseBandwidthRate = 64 * 1024 * 1024"

definition MinResponseBandwidthBurstSize :: int where
  "MinResponseBandwidthBurstSize = 32 * 1024"

definition MaxResponseBandwidthBurstSize :: int where
  "MaxResponseBandwidthBurstSize = 64 * 1024 * 1024"

lemmas limit_defs = MaxPayloadSize_def ResponseBandwidthRate_default_def ResponseBandwidthBurstSize_default_def
  MinResponseBandwidthRate_def MaxResponseBandwidthRate_def MinResponseBandwidthBurstSize_def
  MaxResponseBandwidthBurstSize_def

text \<open>\<open>InvokeResponseMode\<close> and \<open>FunctionResponseMode\<close> take the same two values.\<close>

datatype ResponseMode = ResponseModeBuffered | ResponseModeStreaming

fun ResponseMode_string :: "ResponseMode \<Rightarrow> string" where
  "ResponseMode_string ResponseModeBuffered = ''Buffered''"
| "ResponseMode_string ResponseModeStreaming = ''Streaming''"

section \<open>Case-insensitive comparison with an ASCII string\<close>

text \<open>\<open>strings.EqualFold\<close> compares under simple Unicode folding.  Against an ASCII string
  this is ASCII case folding, plus U+017F (bytes 197, 191), which folds to \<open>s\<close>, and
  U+212A (bytes 226, 132, 170), which folds to \<open>k\<close>.  Strings are sequences of UTF-8 bytes.\<close>

definition lower_char :: "char \<Rightarrow> char" where
  "lower_char c = (if is_upper c then char_of ((of_char c :: nat) + 32) else c)"

definition ToLower :: "string \<Rightarrow> string" where
  "ToLower s = map lower_char s"

fun EqualFold :: "string \<Rightarrow> string \<Rightarrow> bool" where
  "EqualFold [] [] = True"
| "EqualFold (c # cs) (d # ds) =
    (if lower_char c = lower_char d then EqualFold cs ds
     else case cs of
            c2 # cs2 \<Rightarrow>
              if lower_char d = CHR ''s'' \<and> (of_char c :: nat) = 197 \<and> (of_char c2 :: nat) = 191
              then EqualFold cs2 ds
              else (case cs2 of
                      c3 # cs3 \<Rightarrow>
                        if lower_char d = CHR ''k'' \<and> (of_char c :: nat) = 226 \<and> (of_char c2 :: nat) = 132 \<and>
                           (of_char c3 :: nat) = 170
                        then EqualFold cs3 ds else False
                    | [] \<Rightarrow> False)
          | [] \<Rightarrow> False)"
| "EqualFold _ _ = False"

definition ConvertToFunctionResponseMode :: "string \<Rightarrow> go_error + ResponseMode" where
  "ConvertToFunctionResponseMode v =
    (if EqualFold v (ResponseMode_string ResponseModeBuffered) then Inr ResponseModeBuffered
     else if EqualFold v (ResponseMode_string ResponseModeStreaming) then Inr ResponseModeStreaming
     else Inl ErrInvalidFunctionResponseMode)"

lemma EqualFold_case_insensitive: "map lower_char v = map lower_char w \<Longrightarrow> EqualFold v w"
proof (induction v arbitrary: w)
  case (Cons c v)
  then show ?case by (cases w) auto
qed simp

section \<open>Metrics\<close>

type_synonym TelemetrySubscriptionMetrics = "(string \<times> int) list"

definition MergeSubscriptionMetrics ::
  "TelemetrySubscriptionMetrics \<Rightarrow> TelemetrySubscriptionMetrics \<Rightarrow> TelemetrySubscriptionMetrics" where
  "MergeSubscriptionMetrics logsAPIMetrics telemetryAPIMetrics =
    foldl (\<lambda>m (k, v). go_map_set k ((case map_of m k of Some x \<Rightarrow> x | None \<Rightarrow> 0) + v) m)
      (foldl (\<lambda>m (k, v). go_map_set k v m) [] logsAPIMetrics) telemetryAPIMetrics"

definition metric_value :: "TelemetrySubscriptionMetrics \<Rightarrow> string \<Rightarrow> int" where
  "metric_value m k = (case map_of m k of Some x \<Rightarrow> x | None \<Rightarrow> 0)"

lemma fold_set_value:
  assumes "distinct (map fst xs)"
  shows "map_of (foldl (\<lambda>m (k, v). go_map_set k v m) m xs) k =
    (case map_of xs k of Some v \<Rightarrow> Some v | None \<Rightarrow> map_of m k)"
  using assms
proof (induction xs arbitrary: m)
  case (Cons p xs)
  obtain k' v where p: "p = (k', v)" by (cases p)
  have "k' = k \<Longrightarrow> map_of xs k = None" using Cons.prems by (simp add: p map_of_eq_None_iff)
  then show ?case using Cons by (cases "map_of xs k") (auto simp: p)
qed simp

lemma fold_add_value:
  assumes "distinct (map fst xs)"
  shows "metric_value (foldl (\<lambda>m (k, v). go_map_set k ((case map_of m k of Some x \<Rightarrow> x | None \<Rightarrow> 0) + v) m) m xs) k
    = metric_value m k + metric_value xs k"
  using assms
proof (induction xs arbitrary: m)
  case (Cons p xs)
  obtain k' v where p: "p = (k', v)" by (cases p)
  have "k' = k \<Longrightarrow> map_of xs k = None" using Cons.prems by (simp add: p map_of_eq_None_iff)
  then show ?case using Cons by (auto simp: p metric_value_def)
qed (simp add: metric_value_def)

text \<open>Merging the metrics of the logs and telemetry APIs adds them up by name, in whatever
  order the two maps are iterated.\<close>

theorem merge_metrics_adds:
  assumes "go_map_ok l" "go_map_ok t"
  shows "metric_value (MergeSubscriptionMetrics l t) k = metric_value l k + metric_value t k"
proof -
  have "metric_value (foldl (\<lambda>m (k, v). go_map_set k v m) [] l) k = metric_value l k"
    using assms fold_set_value [of l "[]" k]
    by (auto simp: metric_value_def go_map_ok_def split: option.splits)
  then show ?thesis
    using assms by (simp add: MergeSubscriptionMetrics_def fold_add_value go_map_ok_def)
qed

theorem merge_metrics_adds_witness:
  "metric_value (MergeSubscriptionMetrics [(''a'', 1), (''b'', 2)] [(''b'', 5), (''c'', 7)]) ''b'' = 7"
  using merge_metrics_adds [of "[(''a'', 1), (''b'', 2)]" "[(''b'', 5), (''c'', 7)]" "''b''"]
  by (simp add: go_map_ok_def metric_value_def)

record InvokeResponseMetrics =
  StartReadingResponseMonoTimeMs :: int
  FinishReadingResponseMonoTimeMs :: int
  TimeShapedNs :: int
  ProducedBytes :: int
  OutboundThroughputBps :: int
  irm_FunctionResponseMode :: ResponseMode
  RuntimeCalledResponse :: bool

definition IsResponseStreamingMetrics :: "InvokeResponseMetrics option \<Rightarrow> bool" where
  "IsResponseStreamingMetrics metrics =
    (case metrics of None \<Rightarrow> False | Some m \<Rightarrow> irm_FunctionResponseMode m = ResponseModeStreaming)"

text \<open>The dimension is the empty string when no invoke response mode is known.\<close>

definition DoneMetadataMetricsDimensions_String :: "string \<Rightarrow> string" where
  "DoneMetadataMetricsDimensions_String invokeResponseMode =
    (if invokeResponseMode \<noteq> [] then ToLower (''invoke_response_mode='' @ invokeResponseMode) else ToLower [])"

section \<open>Error responses\<close>

record ErrorInvokeResponse =
  eir_ContentType :: string
  eir_FunctionResponseMode :: string
  eir_FunctionError :: FunctionError
  eir_Payload :: string

definition GetErrorResponseWithFormattedErrorMessage ::
  "(FunctionError \<Rightarrow> string option) \<Rightarrow> ErrorType \<Rightarrow> string \<Rightarrow> string \<Rightarrow> ErrorInvokeResponse" where
  "GetErrorResponseWithFormattedErrorMessage marshal errorType errText invokeRequestID =
    (let errorMessage = (if invokeRequestID \<noteq> [] then ''RequestId: '' @ invokeRequestID @ '' Error: '' @ errText
                         else ''Error: '' @ errText)
     in case marshal \<lparr>fe_Type = errorType, fe_Message = errorMessage\<rparr> of
          None \<Rightarrow> \<lparr>eir_ContentType = [], eir_FunctionResponseMode = [],
                   eir_FunctionError = \<lparr>fe_Type = SandboxFailure, fe_Message = errorMessage\<rparr>,
                   eir_Payload = []\<rparr>
        | Some payload \<Rightarrow> \<lparr>eir_ContentType = [], eir_FunctionResponseMode = [],
                   eir_FunctionError = \<lparr>fe_Type = errorType, fe_Message = errorMessage\<rparr>,
                   eir_Payload = payload\<rparr>)"

end
