(* ===== verification/Bandwidth_Limiter.thy ===== *)
theory Bandwidth_Limiter
  imports Interop
begin

text \<open>
  The token bucket that limits the rate of streamed responses,
  \<open>internal/lambda/core/bandwidthlimiter\<close>.  Token counts are Go \<open>int64\<close> values (\<open>int\<close> with
  wrap-around written out).  The refill goroutine runs beside the writer: a schedule is a
  list of ticks, each the number of productions the writer did not notice, the time at
  which it began to wait and the time the tick carries; a write that has used up its
  schedule is still waiting.  The underlying \<open>io.Writer\<close> is a parameter \<open>wr\<close>.
\<close>

type_synonym byte = "8 word"

section \<open>Bucket\<close>

record Bucket =
  capacity :: int
  tokenCount :: int
  refillNumber :: int
  refillInterval :: int

definition NewBucket :: "int \<Rightarrow> int \<Rightarrow> int \<Rightarrow> int \<Rightarrow> Bucket option" where
  "NewBucket cap initialTokenCount refillN refillI =
    (if cap \<le> 0 \<or> initialTokenCount < 0 \<or> refillN \<le> 0 \<or> refillI \<le> 0 \<or> cap < initialTokenCount then None
     else Some \<lparr>capacity = cap, tokenCount = initialTokenCount, refillNumber = refillN, refillInterval = refillI\<rparr>)"

definition min64 :: "int \<Rightarrow> int \<Rightarrow> int" where
  "min64 a b = (if a < b then a else b)"

definition produceTokens :: "Bucket \<Rightarrow> Bucket" where
  "produceTokens b =
    (if tokenCount b < capacity b
     then b\<lparr>tokenCount := min64 (wrap64 (tokenCount b + refillNumber b)) (capacity b)\<rparr> else b)"

definition consumeTokens :: "int \<Rightarrow> Bucket \<Rightarrow> Bucket \<times> bool" where
  "consumeTokens n b =
    (if n \<le> tokenCount b then (b\<lparr>tokenCount := tokenCount b - n\<rparr>, True) else (b, False))"

definition getTokenCount :: "Bucket \<Rightarrow> int" where
  "getTokenCount b = tokenCount b"

definition bucket_ok :: "Bucket \<Rightarrow> bool" where
  "bucket_ok b = (0 < capacity b \<and> 0 \<le> tokenCount b \<and> tokenCount b \<le> capacity b \<and> 0 < refillNumber b \<and>
    capacity b + refillNumber b < 2 ^ 63)"

lemma produceTokens_ok:
  assumes "bucket_ok b"
  shows "bucket_ok (produceTokens b) \<and> capacity (produceTokens b) = capacity b \<and>
    refillNumber (produceTokens b) = refillNumber b \<and>
    tokenCount (produceTokens b) = min (tokenCount b + refillNumber b) (capacity b)"
proof -
  have "tokenCount b < capacity b \<Longrightarrow> wrap64 (tokenCount b + refillNumber b) = tokenCount b + refillNumber b"
    using assms by (intro wrap64_id) (auto simp: bucket_ok_def)
  then show ?thesis using assms by (auto simp: bucket_ok_def produceTokens_def min64_def)
qed

lemma consumeTokens_ok:
  assumes "bucket_ok b" "0 \<le> n" "consumeTokens n b = (b', ok)"
  shows "bucket_ok b' \<and> capacity b' = capacity b \<and> refillNumber b' = refillNumber b \<and>
    (ok \<longleftrightarrow> n \<le> tokenCount b) \<and> tokenCount b' = (if ok then tokenCount b - n else tokenCount b)"
  using assms by (auto simp: consumeTokens_def bucket_ok_def split: if_splits)

lemma produce_n_ok:
  assumes "bucket_ok b"
  shows "bucket_ok ((produceTokens ^^ k) b) \<and> capacity ((produceTokens ^^ k) b) = capacity b \<and>
    refillNumber ((produceTokens ^^ k) b) = refillNumber b \<and>
    tokenCount ((produceTokens ^^ k) b) = min (tokenCount b + int k * refillNumber b) (capacity b)"
proof (induction k)
  case 0
  then show ?case using assms by (auto simp: bucket_ok_def)
next
  case (Suc k)
  let ?b = "(produceTokens ^^ k) b"
  have ok: "bucket_ok ?b" using Suc by simp
  have "0 < refillNumber b" using assms by (simp add: bucket_ok_def)
  then show ?case
    using produceTokens_ok [OF ok] Suc by (auto simp: min_def algebra_simps)
qed

text \<open>Consuming tokens, refilling and reading the count, as operations on one bucket.\<close>

datatype bucket_op = BProduce | BConsume int

fun bucket_exec :: "bucket_op \<Rightarrow> Bucket \<Rightarrow> Bucket" where
  "bucket_exec BProduce b = produceTokens b"
| "bucket_exec (BConsume n) b = fst (consumeTokens n b)"

fun bucket_op_ok :: "bucket_op \<Rightarrow> bool" where
  "bucket_op_ok BProduce = True"
| "bucket_op_ok (BConsume n) = (0 \<le> n)"

lemma bucket_exec_ok:
  "bucket_ok b \<Longrightarrow> bucket_op_ok q \<Longrightarrow> bucket_ok (bucket_exec q b) \<and> capacity (bucket_exec q b) = capacity b"
  using produceTokens_ok [of b] by (cases q) (simp_all add: consumeTokens_def bucket_ok_def)

lemma bucket_run_ok:
  "bucket_ok b \<Longrightarrow> list_all bucket_op_ok qs \<Longrightarrow>
    bucket_ok (fold bucket_exec qs b) \<and> capacity (fold bucket_exec qs b) = capacity b"
proof (induction qs arbitrary: b)
  case (Cons q qs)
  then show ?case using bucket_exec_ok [of b q] by simp
qed simp

text \<open>A bucket made by \<open>NewBucket\<close> keeps \<open>0 \<le> tokens \<le> capacity\<close> under any sequence of refills and
  consumptions (of non-negative amounts), as long as the capacity and one refill
  together fit an \<open>int64\<close>.\<close>

theorem bucket_bounds:
  assumes "NewBucket cap i rn ri = Some b" "cap + rn < 2 ^ 63"
    "list_all bucket_op_ok qs"
  shows "0 \<le> getTokenCount (fold bucket_exec qs b) \<and> getTokenCount (fold bucket_exec qs b) \<le> cap"
proof -
  have b: "bucket_ok b" "capacity b = cap"
    using assms(1,2) by (auto simp: NewBucket_def bucket_ok_def split: if_splits)
  have "bucket_ok (fold bucket_exec qs b)" "capacity (fold bucket_exec qs b) = cap"
    using bucket_run_ok [OF b(1) assms(3)] b(2) by simp_all
  then show ?thesis by (simp add: bucket_ok_def getTokenCount_def)
qed

theorem bucket_bounds_witness:
  "\<exists>b. NewBucket 10 5 3 1 = Some b \<and> 0 \<le> getTokenCount (fold bucket_exec [BConsume 4, BProduce, BProduce, BProduce, BProduce] b) \<and>
    getTokenCount (fold bucket_exec [BConsume 4, BProduce, BProduce, BProduce, BProduce] b) \<le> 10"
proof -
  obtain b where b: "NewBucket 10 5 3 1 = Some b" by (simp add: NewBucket_def)
  show ?thesis
    using bucket_bounds [OF b, of "[BConsume 4, BProduce, BProduce, BProduce, BProduce]"] b by simp
qed

section \<open>Chunk iterator\<close>

record ChunkIterator =
  ci_buf :: "byte list"
  ci_chunkSize :: int
  ci_offset :: int

definition min_int :: "int \<Rightarrow> int \<Rightarrow> int" where
  "min_int a b = (if a < b then a else b)"

text \<open>A nil buffer gives a nil iterator.\<close>

definition NewChunkIterator :: "byte list option \<Rightarrow> int \<Rightarrow> ChunkIterator option" where
  "NewChunkIterator buf chunkSize =
    (case buf of None \<Rightarrow> None | Some p \<Rightarrow> Some \<lparr>ci_buf = p, ci_chunkSize = chunkSize, ci_offset = 0\<rparr>)"

datatype next_result = NextNil | NextChunk "byte list" | NextPanic

text \<open>Slicing with \<open>end < begin\<close> (a negative chunk size) panics.\<close>

definition Next :: "ChunkIterator \<Rightarrow> ChunkIterator \<times> next_result" where
  "Next i =
    (let b = ci_offset i; e = min_int (ci_offset i + ci_chunkSize i) (int (length (ci_buf i)));
         i' = i\<lparr>ci_offset := e\<rparr>
     in if b = e then (i', NextNil)
        else if e < b then (i', NextPanic)
        else (i', NextChunk (take (nat (e - b)) (drop (nat b) (ci_buf i)))))"

lemma Next_progress: "Next i = (i', NextChunk c) \<Longrightarrow>
    ci_offset i < ci_offset i' \<and> ci_offset i' \<le> int (length (ci_buf i)) \<and> ci_buf i' = ci_buf i \<and> ci_chunkSize i' = ci_chunkSize i"
  by (auto simp: Next_def Let_def min_int_def split: if_splits)

function chunks :: "ChunkIterator \<Rightarrow> byte list list option" where
  "chunks i = (case Next i of
     (i', NextNil) \<Rightarrow> Some []
   | (i', NextPanic) \<Rightarrow> None
   | (i', NextChunk c) \<Rightarrow> map_option ((#) c) (chunks i'))"
  by pat_completeness auto
termination
  by (relation "measure (\<lambda>i. nat (int (length (ci_buf i)) - ci_offset i))") (auto dest!: Next_progress [OF sym])

declare chunks.simps [simp del]

lemma Next_chunk_ok:
  assumes "0 < ci_chunkSize i" "0 \<le> ci_offset i" "ci_offset i < int (length (ci_buf i))"
  shows "\<exists>i' c. Next i = (i', NextChunk c) \<and> c \<noteq> [] \<and> int (length c) \<le> ci_chunkSize i \<and>
    c @ drop (nat (ci_offset i')) (ci_buf i) = drop (nat (ci_offset i)) (ci_buf i)"
proof -
  define b where "b = ci_offset i"
  define e where "e = min_int (b + ci_chunkSize i) (int (length (ci_buf i)))"
  have be: "0 \<le> b" "b < e" "e \<le> int (length (ci_buf i))" "e - b \<le> ci_chunkSize i"
    using assms by (auto simp: b_def e_def min_int_def)
  let ?c = "take (nat (e - b)) (drop (nat b) (ci_buf i))"
  have "Next i = (i\<lparr>ci_offset := e\<rparr>, NextChunk ?c)"
    using be by (simp add: Next_def Let_def b_def [symmetric] e_def [symmetric])
  moreover have "length ?c = nat (e - b)" using be by simp
  then have "?c \<noteq> []" "int (length ?c) \<le> ci_chunkSize i" using be by auto
  moreover have "nat e = nat b + nat (e - b)" using be by simp
  then have "?c @ drop (nat e) (ci_buf i) = drop (nat b) (ci_buf i)"
    using append_take_drop_id [of "nat (e - b)" "drop (nat b) (ci_buf i)"] by (simp add: add.commute)
  ultimately show ?thesis by (auto simp: b_def)
qed

lemma chunks_from:
  assumes "0 < ci_chunkSize i" "0 \<le> ci_offset i" "ci_offset i \<le> int (length (ci_buf i))"
  shows "\<exists>cs. chunks i = Some cs \<and> concat cs = drop (nat (ci_offset i)) (ci_buf i) \<and>
    (\<forall>c \<in> set cs. c \<noteq> [] \<and> int (length c) \<le> ci_chunkSize i)"
  using assms
proof (induction i rule: chunks.induct)
  case (1 i)
  show ?case
  proof (cases "ci_offset i = int (length (ci_buf i))")
    case True
    then show ?thesis using 1 by (simp add: chunks.simps [of i] Next_def Let_def min_int_def)
  next
    case False
    then obtain i' c where n: "Next i = (i', NextChunk c)" "c \<noteq> []" "int (length c) \<le> ci_chunkSize i"
        "c @ drop (nat (ci_offset i')) (ci_buf i) = drop (nat (ci_offset i)) (ci_buf i)"
      using Next_chunk_ok [of i] 1 by force
    have p: "ci_offset i < ci_offset i'" "ci_offset i' \<le> int (length (ci_buf i'))" "ci_buf i' = ci_buf i"
        "ci_chunkSize i' = ci_chunkSize i"
      using Next_progress [OF n(1)] by auto
    obtain cs where cs: "chunks i' = Some cs" "concat cs = drop (nat (ci_offset i')) (ci_buf i')"
        "\<forall>c \<in> set cs. c \<noteq> [] \<and> int (length c) \<le> ci_chunkSize i'"
      using 1(1) [OF n(1) [symmetric] refl] 1 p by auto
    then show ?thesis using n p by (auto simp: chunks.simps [of i])
  qed
qed

text \<open>the chunk iterator cuts any non-nil buffer into non-empty chunks no larger than the chunk size whose
  concatenation is the buffer, and it always comes to an end.\<close>

theorem chunk_iterator_partitions:
  assumes "0 < k"
  shows "\<exists>i cs. NewChunkIterator (Some p) k = Some i \<and> chunks i = Some cs \<and> concat cs = p \<and>
    (\<forall>c \<in> set cs. c \<noteq> [] \<and> int (length c) \<le> k)"
  using chunks_from [of "\<lparr>ci_buf = p, ci_chunkSize = k, ci_offset = 0\<rparr>"] assms
  by (simp add: NewChunkIterator_def)

theorem chunk_iterator_partitions_witness:
  "\<exists>i cs. NewChunkIterator (Some [1, 2, 3, 4, 5]) 2 = Some i \<and> chunks i = Some cs \<and> concat cs = [1, 2, 3, 4, 5]"
  using chunk_iterator_partitions [of 2 "[1, 2, 3, 4, 5]"] by auto

section \<open>Throttler and limiting writer\<close>

record Throttler =
  th_b :: Bucket
  th_running :: bool
  th_metrics :: InvokeResponseMetrics

definition NewThrottler :: "Bucket option \<Rightarrow> Throttler option" where
  "NewThrottler bucket =
    (case bucket of None \<Rightarrow> None
     | Some b \<Rightarrow> Some \<lparr>th_b = b, th_running = False,
         th_metrics = \<lparr>StartReadingResponseMonoTimeMs = 0, FinishReadingResponseMonoTimeMs = 0, TimeShapedNs = 0,
           ProducedBytes = 0, OutboundThroughputBps = 0, irm_FunctionResponseMode = ResponseModeStreaming,
           RuntimeCalledResponse = False\<rparr>\<rparr>)"

definition th_start :: "ns \<Rightarrow> Throttler \<Rightarrow> Throttler" where
  "th_start now th =
    (if th_running th then th
     else th\<lparr>th_running := True, th_metrics := (th_metrics th)\<lparr>StartReadingResponseMonoTimeMs := now\<rparr>\<rparr>)"

definition th_stop :: "ns \<Rightarrow> Throttler \<Rightarrow> Throttler" where
  "th_stop now th =
    (if \<not> th_running th then th
     else let m = (th_metrics th)\<lparr>FinishReadingResponseMonoTimeMs := now\<rparr>;
              durationMs = go_quot (wrap64 (FinishReadingResponseMonoTimeMs m - StartReadingResponseMonoTimeMs m)) 1000000;
              bps = (if durationMs > 0 then wrap64 (go_quot (ProducedBytes m) durationMs * 1000) else -1)
          in th\<lparr>th_running := False, th_metrics := m\<lparr>OutboundThroughputBps := bps\<rparr>\<rparr>)"

text \<open>A schedule entry belongs to one attempt to take the tokens: the productions since the last attempt,
  the time the writer starts to wait if the attempt fails, and the time sent by the
  refill that ends the wait.\<close>

type_synonym tick = "nat \<times> ns \<times> ns"

datatype 'w write_result = WDone Throttler 'w int "go_error option" "tick list" | WWaits Throttler 'w | WPanic

type_synonym 'w io_writer = "byte list \<Rightarrow> 'w \<Rightarrow> 'w \<times> int \<times> go_error option"

definition ErrBufferSizeTooLarge :: go_error where
  "ErrBufferSizeTooLarge = ErrText ''buffer size cannot be greater than bucket size''"

fun blw_loop :: "'w io_writer \<Rightarrow> byte list \<Rightarrow> tick list \<Rightarrow> Throttler \<Rightarrow> 'w \<Rightarrow> 'w write_result" where
  "blw_loop wr p [] th w = WWaits th w"
| "blw_loop wr p ((u, waitStart, at) # ts) th w =
    (case consumeTokens (int (length p)) ((produceTokens ^^ u) (th_b th)) of
       (b, True) \<Rightarrow>
         (case wr p w of (w', written, e) \<Rightarrow>
            WDone (th\<lparr>th_b := b, th_metrics := (th_metrics th)
                       \<lparr>ProducedBytes := wrap64 (ProducedBytes (th_metrics th) + written)\<rparr>\<rparr>) w' written e ts)
     | (b, False) \<Rightarrow>
         let elapsed = wrap64 (at - waitStart);
             m = (if elapsed > 0 then (th_metrics th)\<lparr>TimeShapedNs := wrap64 (TimeShapedNs (th_metrics th) + elapsed)\<rparr>
                  else th_metrics th)
         in blw_loop wr p ts (th\<lparr>th_b := produceTokens b, th_metrics := m\<rparr>) w)"

definition bandwidthLimitingWrite :: "'w io_writer \<Rightarrow> byte list \<Rightarrow> tick list \<Rightarrow> Throttler \<Rightarrow> 'w \<Rightarrow> 'w write_result" where
  "bandwidthLimitingWrite wr p ts th w =
    (if int (length p) > capacity (th_b th) then WDone th w 0 (Some ErrBufferSizeTooLarge) ts
     else blw_loop wr p ts th w)"

function chunked_loop :: "'w io_writer \<Rightarrow> ChunkIterator \<Rightarrow> int \<Rightarrow> tick list \<Rightarrow> Throttler \<Rightarrow> 'w \<Rightarrow> 'w write_result" where
  "chunked_loop wr i n ts th w = (case Next i of
     (i', NextNil) \<Rightarrow> WDone th w n None ts
   | (i', NextPanic) \<Rightarrow> WPanic
   | (i', NextChunk buf) \<Rightarrow>
      (case bandwidthLimitingWrite wr buf ts th w of
         WDone th w written (Some e) ts \<Rightarrow> WDone th w (n + written) (Some e) ts
       | WDone th w written None ts \<Rightarrow> chunked_loop wr i' (n + written) ts th w
       | WWaits th w \<Rightarrow> WWaits th w
       | WPanic \<Rightarrow> WPanic))"
  by pat_completeness auto
termination
  by (relation "measure (\<lambda>(wr, i, n, ts, th, w). nat (int (length (ci_buf i)) - ci_offset i))")
    (auto dest!: Next_progress [OF sym])

declare chunked_loop.simps [simp del]

definition ChunkedWrite :: "'w io_writer \<Rightarrow> byte list \<Rightarrow> tick list \<Rightarrow> Throttler \<Rightarrow> 'w \<Rightarrow> 'w write_result" where
  "ChunkedWrite wr p ts th w =
    (case NewChunkIterator (Some p) (capacity (th_b th)) of
       None \<Rightarrow> WPanic
     | Some i \<Rightarrow> chunked_loop wr i 0 ts th w)"

definition BandwidthLimitingWriter_Write ::
  "'w io_writer \<Rightarrow> byte list \<Rightarrow> tick list \<Rightarrow> ns \<Rightarrow> Throttler \<Rightarrow> 'w \<Rightarrow> 'w write_result" where
  "BandwidthLimitingWriter_Write wr p ts now th w =
    (let th = th_start now th
     in if int (length p) > capacity (th_b th) then ChunkedWrite wr p ts th w
        else bandwidthLimitingWrite wr p ts th w)"

definition BandwidthLimitingWriter_Close :: "ns \<Rightarrow> Throttler \<Rightarrow> Throttler" where
  "BandwidthLimitingWriter_Close now th = th_stop now th"

definition BandwidthLimitingWriter_GetMetrics :: "Throttler \<Rightarrow> InvokeResponseMetrics" where
  "BandwidthLimitingWriter_GetMetrics th = th_metrics th"

section \<open>Everything is written, at the configured rate\<close>

text \<open>Refills in a part of a schedule, at most: the unnoticed ones and one per entry.\<close>

definition productions :: "tick list \<Rightarrow> nat" where
  "productions ts = sum_list (map (\<lambda>(u, _, _). Suc u) ts)"

lemma productions_simps [simp]:
  "productions [] = 0" "productions ((u, r) # ts) = Suc u + productions ts"
  "productions (ts @ ts') = productions ts + productions ts'"
  by (auto simp: productions_def split: prod.splits)

text \<open>A writer that accepts all it is given, such as one appending to a buffer.\<close>

definition append_writer :: "byte list io_writer" where
  "append_writer p w = (w @ p, int (length p), None)"

text \<open>The effect of a completed write on the bucket: the tokens of \<open>n\<close> bytes are paid out of the
  tokens there were and the refills in the part of the schedule it used.\<close>

definition paid :: "nat \<Rightarrow> Bucket \<Rightarrow> Bucket \<Rightarrow> tick list \<Rightarrow> bool" where
  "paid n b b' used =
    (bucket_ok b' \<and> capacity b' = capacity b \<and> refillNumber b' = refillNumber b \<and>
     tokenCount b' + int n \<le> tokenCount b + int (productions used) * refillNumber b)"

lemma failed_attempt:
  assumes "bucket_ok b" "int n \<le> capacity b" "\<not> int n \<le> tokenCount ((produceTokens ^^ u) b)"
  defines "b2 \<equiv> produceTokens ((produceTokens ^^ u) b)"
  shows "bucket_ok b2 \<and> capacity b2 = capacity b \<and> refillNumber b2 = refillNumber b \<and>
    tokenCount b2 \<le> tokenCount b + int (Suc u) * refillNumber b \<and>
    (tokenCount b + 1 \<le> tokenCount b2 \<or> int n \<le> tokenCount b2) \<and> tokenCount b < int n"
proof -
  let ?b1 = "(produceTokens ^^ u) b"
  note b1 = produce_n_ok [OF assms(1), of u]
  then have b2: "bucket_ok b2" "capacity b2 = capacity b" "refillNumber b2 = refillNumber b"
      "tokenCount b2 = min (tokenCount ?b1 + refillNumber b) (capacity b)"
    using produceTokens_ok [of ?b1] by (simp_all add: b2_def)
  have refill: "0 < refillNumber b" "tokenCount b \<le> capacity b" using assms(1) by (simp_all add: bucket_ok_def)
  then have "tokenCount b \<le> tokenCount ?b1" using b1 by (simp add: min_def)
  then show ?thesis
    using b1 b2 refill assms(2,3) by (simp add: min_def algebra_simps split: if_splits)
qed

lemma blw_loop_writes:
  assumes "bucket_ok (th_b th)" "int (length p) \<le> capacity (th_b th)"
    "length p < length ts + nat (tokenCount (th_b th))" "ts \<noteq> []"
  shows "\<exists>th' used ts'. blw_loop append_writer p ts th w = WDone th' (w @ p) (int (length p)) None ts' \<and>
    ts = used @ ts' \<and> paid (length p) (th_b th) (th_b th') used \<and>
    int (length used) \<le> max 0 (int (length p) - tokenCount (th_b th)) + 1"
  using assms
proof (induction ts arbitrary: th)
  case (Cons t ts)
  obtain u ws at where t: "t = (u, ws, at)" by (cases t)
  let ?b = "th_b th" and ?n = "int (length p)"
  let ?b1 = "(produceTokens ^^ u) ?b"
  have ok: "0 < refillNumber ?b" "0 \<le> tokenCount ?b" using Cons.prems(1) by (simp_all add: bucket_ok_def)
  show ?case
  proof (cases "?n \<le> tokenCount ?b1")
    case True
    then have "blw_loop append_writer p (t # ts) th w = WDone (th\<lparr>th_b := ?b1\<lparr>tokenCount := tokenCount ?b1 - ?n\<rparr>,
        th_metrics := (th_metrics th)\<lparr>ProducedBytes := wrap64 (ProducedBytes (th_metrics th) + ?n)\<rparr>\<rparr>)
        (w @ p) ?n None ts"
      by (simp add: t consumeTokens_def append_writer_def)
    then show ?thesis
      using produce_n_ok [OF Cons.prems(1), of u] ok True
      by (auto simp: t paid_def bucket_ok_def algebra_simps intro!: exI [of _ "[(u, ws, at)]"])
  next
    case False
    note b2 = failed_attempt [OF Cons.prems(1,2) False]
    define th2 where "th2 = th\<lparr>th_b := produceTokens ?b1, th_metrics :=
      (if wrap64 (at - ws) > 0 then (th_metrics th)\<lparr>TimeShapedNs := wrap64 (TimeShapedNs (th_metrics th) + wrap64 (at - ws))\<rparr>
       else th_metrics th)\<rparr>"
    have th2: "th_b th2 = produceTokens ?b1" by (simp add: th2_def)
    have step: "blw_loop append_writer p (t # ts) th w = blw_loop append_writer p ts th2 w"
      using False by (simp add: t consumeTokens_def th2_def Let_def)
    have ne: "0 < length ts" using Cons.prems(3) b2 ok by (auto simp: nat_less_iff)
    have "length p < length ts + nat (tokenCount (th_b th2))"
      using b2 Cons.prems(3) ok ne by (auto simp: th2)
    then obtain th' used ts' where IH:
      "blw_loop append_writer p ts th2 w = WDone th' (w @ p) ?n None ts'" "ts = used @ ts'"
      "paid (length p) (th_b th2) (th_b th') used" "int (length used) \<le> max 0 (?n - tokenCount (th_b th2)) + 1"
      using Cons.IH [of th2] Cons.prems(2) ne b2 by (auto simp: th2)
    have "paid (length p) ?b (th_b th') (t # used)"
      using IH(3) b2 by (simp add: paid_def th2 t algebra_simps)
    moreover have "int (length (t # used)) \<le> max 0 (?n - tokenCount ?b) + 1"
      using IH(4) b2 by (auto simp: th2)
    ultimately show ?thesis
      using IH step by (auto intro!: exI [of _ "t # used"])
  qed
qed simp

lemma paid_trans: "paid n b b1 u1 \<Longrightarrow> paid m b1 b2 u2 \<Longrightarrow> paid (n + m) b b2 (u1 @ u2)"
  by (auto simp: paid_def algebra_simps)

lemma paid_refl: "bucket_ok b \<Longrightarrow> paid 0 b b []"
  by (simp add: paid_def)

lemma limited_write_writes:
  assumes "bucket_ok (th_b th)" "int (length p) \<le> capacity (th_b th)" "length p < length ts"
  shows "\<exists>th' used ts'. bandwidthLimitingWrite append_writer p ts th w = WDone th' (w @ p) (int (length p)) None ts' \<and>
    ts = used @ ts' \<and> paid (length p) (th_b th) (th_b th') used \<and> length used \<le> length p + 1"
proof -
  have "0 \<le> tokenCount (th_b th)" using assms(1) by (simp add: bucket_ok_def)
  moreover have "ts \<noteq> []" using assms(3) by auto
  ultimately show ?thesis
    using blw_loop_writes [OF assms(1,2), of ts w] assms(2,3)
    by (fastforce simp: bandwidthLimitingWrite_def)
qed

lemma chunked_loop_writes:
  assumes "bucket_ok (th_b th)" "ci_chunkSize i = capacity (th_b th)" "0 \<le> ci_offset i"
    "ci_offset i \<le> int (length (ci_buf i))" "2 * length (drop (nat (ci_offset i)) (ci_buf i)) \<le> length ts"
  shows "\<exists>th' used ts'. chunked_loop append_writer i n ts th w =
      WDone th' (w @ drop (nat (ci_offset i)) (ci_buf i)) (n + int (length (drop (nat (ci_offset i)) (ci_buf i)))) None ts' \<and>
    ts = used @ ts' \<and> paid (length (drop (nat (ci_offset i)) (ci_buf i))) (th_b th) (th_b th') used"
  using assms
proof (induction "nat (int (length (ci_buf i)) - ci_offset i)" arbitrary: i n ts th w rule: less_induct)
  case less
  let ?rest = "\<lambda>i. drop (nat (ci_offset i)) (ci_buf i)"
  show ?case
  proof (cases "ci_offset i = int (length (ci_buf i))")
    case True
    then show ?thesis using less.prems paid_refl
      by (auto simp: chunked_loop.simps [of _ i] Next_def Let_def min_int_def bucket_ok_def)
  next
    case False
    have "0 < ci_chunkSize i" using less.prems(1,2) by (simp add: bucket_ok_def)
    then obtain i' c where n: "Next i = (i', NextChunk c)" "c \<noteq> []" "int (length c) \<le> ci_chunkSize i"
        "c @ drop (nat (ci_offset i')) (ci_buf i) = ?rest i"
      using Next_chunk_ok [of i] less.prems(3,4) False by force
    note p = Next_progress [OF n(1)]
    have rest: "?rest i = c @ ?rest i'" using n(4) p by simp
    have "length c < length ts" using less.prems(5) n(2) by (simp add: rest flip: length_greater_0_conv)
    then obtain th1 u1 ts1 where w1: "bandwidthLimitingWrite append_writer c ts th w = WDone th1 (w @ c) (int (length c)) None ts1"
        "ts = u1 @ ts1" "paid (length c) (th_b th) (th_b th1) u1" "length u1 \<le> length c + 1"
      using limited_write_writes [of th c ts w] less.prems(1,2) n(3) by auto
    have len: "2 * length (?rest i') \<le> length ts1"
      using less.prems(5) w1(2,4) n(2) unfolding rest by (cases c) auto
    obtain th' used ts' where IH: "chunked_loop append_writer i' (n + int (length c)) ts1 th1 (w @ c) =
        WDone th' ((w @ c) @ ?rest i') (n + int (length c) + int (length (?rest i'))) None ts'"
        "ts1 = used @ ts'" "paid (length (?rest i')) (th_b th1) (th_b th') used"
      using less.hyps [of i' th1 ts1 "n + int (length c)" "w @ c"] w1(3) p less.prems len by (auto simp: paid_def)
    show ?thesis
      using IH w1 paid_trans [OF w1(3) IH(3)] unfolding rest
      by (auto simp: chunked_loop.simps [of _ i] n(1) algebra_simps intro!: exI [of _ "u1 @ used"])
  qed
qed

lemma th_start_b [simp]: "th_b (th_start now th) = th_b th"
  by (simp add: th_start_def)



end
