(* ===== verification/Direct_Invoke.thy ===== *)
theory Direct_Invoke
  imports Bandwidth_Limiter
begin

text \<open>
  Direct invokes, \<open>internal/lambda/core/directinvoke\<close>: parsing and checking an invoke request against its reservation
  token, and sending the response back, buffered with a size limit or streamed.  The package variables are the
  record \<open>di_globals\<close>.  Request headers are a function from header name to value (the
  empty string when absent); decoding the customer headers (base64 and JSON) is a
  parameter.  The response writer records headers, status and body; a copy is described by
  the bytes the reader delivers and the error it ends with, and by the error the writer fails with
  after some number of bytes, if any.
\<close>

record di_globals =
  MaxDirectResponseSize :: int
  ResponseBandwidthRate :: int
  ResponseBandwidthBurstSize :: int
  di_InvokeResponseMode :: ResponseMode

definition initial_globals :: di_globals where
  "initial_globals = \<lparr>MaxDirectResponseSize = MaxPayloadSize, ResponseBandwidthRate = ResponseBandwidthRate_default,
     ResponseBandwidthBurstSize = ResponseBandwidthBurstSize_default, di_InvokeResponseMode = ResponseModeBuffered\<rparr>"

definition InvokeIDHeader :: string where "InvokeIDHeader = ''Invoke-Id''"
definition TenantIDHeader :: string where "TenantIDHeader = ''Tenant-Id''"
definition InvokedFunctionArnHeader :: string where "InvokedFunctionArnHeader = ''Invoked-Function-Arn''"
definition VersionIDHeader :: string where "VersionIDHeader = ''Invoked-Function-Version''"
definition ReservationTokenHeader :: string where "ReservationTokenHeader = ''Reservation-Token''"
definition CustomerHeadersHeader :: string where "CustomerHeadersHeader = ''Customer-Headers''"
definition ContentTypeHeader :: string where "ContentTypeHeader = ''Content-Type''"
definition MaxPayloadSizeHeader :: string where "MaxPayloadSizeHeader = ''MaxPayloadSize''"
definition InvokeResponseModeHeader :: string where "InvokeResponseModeHeader = ''InvokeResponseMode''"
definition ResponseBandwidthRateHeader :: string where "ResponseBandwidthRateHeader = ''ResponseBandwidthRate''"
definition ResponseBandwidthBurstSizeHeader :: string where "ResponseBandwidthBurstSizeHeader = ''ResponseBandwidthBurstSize''"
definition FunctionResponseModeHeader :: string where "FunctionResponseModeHeader = ''Lambda-Runtime-Function-Response-Mode''"
definition ErrorTypeHeader :: string where "ErrorTypeHeader = ''Error-Type''"
definition EndOfResponseTrailer :: string where "EndOfResponseTrailer = ''End-Of-Response''"
definition FunctionErrorTypeTrailer :: string where "FunctionErrorTypeTrailer = ''Lambda-Runtime-Function-Error-Type''"
definition FunctionErrorBodyTrailer :: string where "FunctionErrorBodyTrailer = ''Lambda-Runtime-Function-Error-Body''"
definition EndOfResponseComplete :: string where "EndOfResponseComplete = ''Complete''"
definition EndOfResponseTruncated :: string where "EndOfResponseTruncated = ''Truncated''"
definition EndOfResponseOversized :: string where "EndOfResponseOversized = ''Oversized''"

lemmas header_defs = InvokeIDHeader_def TenantIDHeader_def InvokedFunctionArnHeader_def VersionIDHeader_def
  ReservationTokenHeader_def CustomerHeadersHeader_def ContentTypeHeader_def MaxPayloadSizeHeader_def
  InvokeResponseModeHeader_def ResponseBandwidthRateHeader_def ResponseBandwidthBurstSizeHeader_def
  FunctionResponseModeHeader_def ErrorTypeHeader_def EndOfResponseTrailer_def FunctionErrorTypeTrailer_def
  FunctionErrorBodyTrailer_def EndOfResponseComplete_def EndOfResponseTruncated_def EndOfResponseOversized_def

definition ResetReasonMap :: "(string \<times> ErrorType) list" where
  "ResetReasonMap = [(''failure'', SandboxFailure), (''timeout'', SandboxTimeout)]"

section \<open>Response writer\<close>

record response_writer =
  rw_headers :: "(string \<times> string list) list"
  rw_status :: "nat option"
  rw_body :: "byte list"

definition new_writer :: response_writer where
  "new_writer = \<lparr>rw_headers = [], rw_status = None, rw_body = []\<rparr>"

definition header_set :: "string \<Rightarrow> string \<Rightarrow> response_writer \<Rightarrow> response_writer" where
  "header_set k v w = w\<lparr>rw_headers := go_map_set k [v] (rw_headers w)\<rparr>"

definition header_add :: "string \<Rightarrow> string \<Rightarrow> response_writer \<Rightarrow> response_writer" where
  "header_add k v w = w\<lparr>rw_headers := go_map_set k
     ((case map_of (rw_headers w) k of Some vs \<Rightarrow> vs | None \<Rightarrow> []) @ [v]) (rw_headers w)\<rparr>"

definition header_get :: "string \<Rightarrow> response_writer \<Rightarrow> string" where
  "header_get k w = (case map_of (rw_headers w) k of Some (v # _) \<Rightarrow> v | _ \<Rightarrow> [])"

text \<open>Only the first \<open>WriteHeader\<close> counts.\<close>

definition WriteHeader :: "nat \<Rightarrow> response_writer \<Rightarrow> response_writer" where
  "WriteHeader code w = (if rw_status w = None then w\<lparr>rw_status := Some code\<rparr> else w)"

definition renderBadRequest :: "string \<Rightarrow> response_writer \<Rightarrow> response_writer" where
  "renderBadRequest errorType w =
    header_set EndOfResponseTrailer EndOfResponseComplete (WriteHeader 400 (header_set ErrorTypeHeader errorType w))"

definition renderInternalServerError :: "string \<Rightarrow> response_writer \<Rightarrow> response_writer" where
  "renderInternalServerError errorType w =
    header_set EndOfResponseTrailer EndOfResponseComplete (WriteHeader 500 (header_set ErrorTypeHeader errorType w))"

section \<open>Receiving an invoke\<close>

definition convertToInvokeResponseMode :: "string \<Rightarrow> go_error + ResponseMode" where
  "convertToInvokeResponseMode v =
    (if EqualFold v (ResponseMode_string ResponseModeBuffered) then Inr ResponseModeBuffered
     else if EqualFold v (ResponseMode_string ResponseModeStreaming) then Inr ResponseModeStreaming
     else Inl ErrInvalidInvokeResponseMode)"

definition isStreamingInvoke :: "int \<Rightarrow> ResponseMode \<Rightarrow> bool" where
  "isStreamingInvoke maxDirectResponseSize mode = (maxDirectResponseSize = -1 \<or> mode = ResponseModeStreaming)"

record CustomerHeaders =
  CognitoIdentityID :: string
  CognitoIdentityPoolID :: string
  ClientContext :: string

definition CustomerHeaders_Load :: "(string \<Rightarrow> CustomerHeaders option) \<Rightarrow> string \<Rightarrow> CustomerHeaders option" where
  "CustomerHeaders_Load decode s =
    (if s = [] then Some \<lparr>CognitoIdentityID = [], CognitoIdentityPoolID = [], ClientContext = []\<rparr> else decode s)"

definition CustomerHeaders_Dump :: "(CustomerHeaders \<Rightarrow> string) \<Rightarrow> CustomerHeaders \<Rightarrow> string" where
  "CustomerHeaders_Dump encode s =
    (if s = \<lparr>CognitoIdentityID = [], CognitoIdentityPoolID = [], ClientContext = []\<rparr> then [] else encode s)"

record Token =
  tk_ReservationToken :: string
  tk_InvokeID :: string
  tk_TenantID :: string
  tk_VersionID :: string
  tk_FunctionTimeout :: ns
  tk_InvackDeadlineNs :: ns
  tk_TraceID :: string
  tk_LambdaSegmentID :: string
  tk_InvokeMetadata :: string
  tk_NeedDebugLogs :: bool
  tk_RestoreDurationNs :: ns
  tk_RestoreStartTimeMonotime :: ns

record Invoke =
  iv_TraceID :: string
  iv_LambdaSegmentID :: string
  iv_ID :: string
  iv_TenantID :: string
  iv_InvokedFunctionArn :: string
  iv_CognitoIdentityID :: string
  iv_CognitoIdentityPoolID :: string
  iv_DeadlineNs :: string
  iv_ClientContext :: string
  iv_ContentType :: string
  iv_Payload :: "byte list"
  iv_NeedDebugLogs :: bool
  iv_ReservationToken :: string
  iv_VersionID :: string
  iv_InvokeReceivedTime :: ns
  iv_InvokeResponseMetrics :: "InvokeResponseMetrics option"
  iv_InvokeResponseMode :: ResponseMode
  iv_RestoreDurationNs :: ns
  iv_RestoreStartTimeMonotime :: ns

fun di_error_text :: "go_error \<Rightarrow> string" where
  "di_error_text ErrMalformedCustomerHeaders = ''ErrMalformedCustomerHeaders''"
| "di_error_text ErrInvalidMaxPayloadSize = ''ErrInvalidMaxPayloadSize''"
| "di_error_text ErrInvalidInvokeResponseMode = ''ErrInvalidInvokeResponseMode''"
| "di_error_text ErrInvalidResponseBandwidthRate = ''ErrInvalidResponseBandwidthRate''"
| "di_error_text ErrInvalidResponseBandwidthBurstSize = ''ErrInvalidResponseBandwidthBurstSize''"
| "di_error_text ErrInvalidInvokeID = ''ErrInvalidInvokeID''"
| "di_error_text ErrInvalidReservationToken = ''ErrInvalidReservationToken''"
| "di_error_text ErrInvalidFunctionVersion = ''ErrInvalidFunctionVersion''"
| "di_error_text ErrReservationExpired = ''ErrReservationExpired''"
| "di_error_text ErrInternalPlatformError = ''ErrInternalPlatformError''"
| "di_error_text _ = []"

text \<open>An optional numeric header: the default when it is absent, else a number within the bounds.\<close>

definition numeric_header :: "string \<Rightarrow> int \<Rightarrow> (int \<Rightarrow> bool) \<Rightarrow> int option" where
  "numeric_header v dflt ok =
    (if v = [] then Some dflt
     else case parse_int64 v of Some n \<Rightarrow> if ok n then Some n else None | None \<Rightarrow> None)"

text \<open>The settings an invoke request makes for its response: size limit, mode and bandwidth.\<close>

definition di_settings :: "(string \<Rightarrow> string) \<Rightarrow> di_globals \<Rightarrow> response_writer \<Rightarrow> (di_globals \<times> response_writer) \<times> go_error option" where
  "di_settings hdr g w =
    (let g = g\<lparr>MaxDirectResponseSize := MaxPayloadSize\<rparr> in
     case numeric_header (hdr MaxPayloadSizeHeader) MaxPayloadSize (\<lambda>n. n \<ge> -1) of
       None \<Rightarrow> ((g, w), Some ErrInvalidMaxPayloadSize)
     | Some n \<Rightarrow>
        let g = g\<lparr>MaxDirectResponseSize := n\<rparr>;
            modeHeader = hdr InvokeResponseModeHeader
        in case (if modeHeader \<noteq> [] then convertToInvokeResponseMode modeHeader else Inr (di_InvokeResponseMode g)) of
             Inl e \<Rightarrow> ((g, w), Some e)
           | Inr mode \<Rightarrow>
              let g = g\<lparr>di_InvokeResponseMode := mode\<rparr> in
              if \<not> isStreamingInvoke (MaxDirectResponseSize g) (di_InvokeResponseMode g) then ((g, w), None)
              else
                let w = header_add ''Trailer'' FunctionErrorBodyTrailer (header_add ''Trailer'' FunctionErrorTypeTrailer w);
                    g = g\<lparr>di_InvokeResponseMode := ResponseModeStreaming, ResponseBandwidthRate := ResponseBandwidthRate_default\<rparr>
                in case numeric_header (hdr ResponseBandwidthRateHeader) ResponseBandwidthRate_default
                          (\<lambda>n. MinResponseBandwidthRate \<le> n \<and> n \<le> MaxResponseBandwidthRate) of
                     None \<Rightarrow> ((g, w), Some ErrInvalidResponseBandwidthRate)
                   | Some rate \<Rightarrow>
                      let g = g\<lparr>ResponseBandwidthRate := rate, ResponseBandwidthBurstSize := ResponseBandwidthBurstSize_default\<rparr>
                      in case numeric_header (hdr ResponseBandwidthBurstSizeHeader) ResponseBandwidthBurstSize_default
                                (\<lambda>n. MinResponseBandwidthBurstSize \<le> n \<and> n \<le> MaxResponseBandwidthBurstSize) of
                           None \<Rightarrow> ((g, w), Some ErrInvalidResponseBandwidthBurstSize)
                         | Some burst \<Rightarrow> ((g\<lparr>ResponseBandwidthBurstSize := burst\<rparr>, w), None))"

definition di_invoke :: "(string \<Rightarrow> string) \<Rightarrow> string \<Rightarrow> byte list \<Rightarrow> Token \<Rightarrow> ns \<Rightarrow> CustomerHeaders \<Rightarrow> di_globals \<Rightarrow> Invoke" where
  "di_invoke hdr urlToken body token now ch g =
    \<lparr>iv_TraceID = tk_TraceID token, iv_LambdaSegmentID = tk_LambdaSegmentID token, iv_ID = hdr InvokeIDHeader,
     iv_TenantID = tk_TenantID token, iv_InvokedFunctionArn = hdr InvokedFunctionArnHeader,
     iv_CognitoIdentityID = CognitoIdentityID ch, iv_CognitoIdentityPoolID = CognitoIdentityPoolID ch,
     iv_DeadlineNs = int_dec (wrap64 (now + tk_FunctionTimeout token)), iv_ClientContext = ClientContext ch,
     iv_ContentType = hdr ContentTypeHeader, iv_Payload = body, iv_NeedDebugLogs = tk_NeedDebugLogs token,
     iv_ReservationToken = urlToken, iv_VersionID = hdr VersionIDHeader, iv_InvokeReceivedTime = now, iv_InvokeResponseMetrics = None,
     iv_InvokeResponseMode = di_InvokeResponseMode g, iv_RestoreDurationNs = tk_RestoreDurationNs token,
     iv_RestoreStartTimeMonotime = tk_RestoreStartTimeMonotime token\<rparr>"

definition di_check :: "Invoke \<Rightarrow> Token \<Rightarrow> ns \<Rightarrow> go_error option" where
  "di_check ivk token now =
    (if iv_ID ivk \<noteq> tk_InvokeID token then Some ErrInvalidInvokeID
     else if iv_ReservationToken ivk \<noteq> tk_ReservationToken token then Some ErrInvalidReservationToken
     else if iv_VersionID ivk \<noteq> tk_VersionID token then Some ErrInvalidFunctionVersion
     else if now > tk_InvackDeadlineNs token then Some ErrReservationExpired
     else None)"

definition ReceiveDirectInvoke ::
  "(string \<Rightarrow> CustomerHeaders option) \<Rightarrow> (string \<Rightarrow> string) \<Rightarrow> string \<Rightarrow> byte list \<Rightarrow> Token \<Rightarrow> ns \<Rightarrow> di_globals \<Rightarrow> response_writer
    \<Rightarrow> (di_globals \<times> response_writer) \<times> (go_error + Invoke)" where
  "ReceiveDirectInvoke decode hdr urlToken body token now g w =
    (let w = header_set ''Trailer'' EndOfResponseTrailer w;
         fail = (\<lambda>g w e. ((g, renderBadRequest (di_error_text e) w), Inl e))
     in case CustomerHeaders_Load decode (hdr CustomerHeadersHeader) of
          None \<Rightarrow> fail g w ErrMalformedCustomerHeaders
        | Some ch \<Rightarrow>
           (case di_settings hdr g w of
              ((g, w), Some e) \<Rightarrow> fail g w e
            | ((g, w), None) \<Rightarrow>
               let ivk = di_invoke hdr urlToken body token now ch g in
               (case di_check ivk token now of
                  Some e \<Rightarrow> fail g w e
                | None \<Rightarrow>
                   let w = header_set InvokeIDHeader (tk_InvokeID token)
                            (header_set ReservationTokenHeader (tk_ReservationToken token)
                              (header_set VersionIDHeader (tk_VersionID token) w));
                       w = (if tk_TenantID token \<noteq> [] then header_set TenantIDHeader (tk_TenantID token) w else w)
                   in ((g, w), Inr ivk))))"

section \<open>Sending the response\<close>

definition getErrorTypeFromResetReason :: "string \<Rightarrow> ErrorType" where
  "getErrorTypeFromResetReason reason = (case map_of ResetReasonMap reason of Some e \<Rightarrow> e | None \<Rightarrow> SandboxFailure)"

definition isErrorResponse :: "(string \<times> string) list \<Rightarrow> bool" where
  "isErrorResponse additionalHeaders = (map_of additionalHeaders ErrorTypeHeader \<noteq> None)"

fun mapCopyDoneResultErrorToErrorType :: "go_error \<Rightarrow> ErrorType" where
  "mapCopyDoneResultErrorToErrorType ErrTruncatedResponse = TruncatedResponse"
| "mapCopyDoneResultErrorToErrorType (ErrorResponseTooLargeDI a b) = FunctionOversizedResponse"
| "mapCopyDoneResultErrorToErrorType _ = SandboxFailure"

text \<open>A reader delivers bytes and then ends, with an error or with EOF.\<close>

record reader =
  rd_data :: "byte list"
  rd_err :: "go_error option"

definition LimitReader :: "int \<Rightarrow> reader \<Rightarrow> reader" where
  "LimitReader n r =
    (if n \<le> 0 then \<lparr>rd_data = [], rd_err = None\<rparr>
     else if int (length (rd_data r)) \<ge> n then \<lparr>rd_data = take (nat n) (rd_data r), rd_err = None\<rparr>
     else r)"

text \<open>\<open>io.Copy\<close>: the writer accepts everything, or fails after \<open>k\<close> bytes.\<close>

definition io_copy :: "nat option \<Rightarrow> reader \<Rightarrow> byte list \<times> go_error option" where
  "io_copy wfail r =
    (case wfail of
       Some k \<Rightarrow> if k < length (rd_data r) then (take k (rd_data r), Some (ErrText ''write error''))
                 else (rd_data r, rd_err r)
     | None \<Rightarrow> (rd_data r, rd_err r))"

definition parseFunctionResponseMode :: "response_writer \<Rightarrow> go_error + ResponseMode" where
  "parseFunctionResponseMode w =
    (let v = header_get FunctionResponseModeHeader w
     in if v = [] then Inr ResponseModeBuffered else ConvertToFunctionResponseMode v)"

definition body_write :: "byte list \<Rightarrow> response_writer \<Rightarrow> response_writer" where
  "body_write bs w = (WriteHeader 200 w)\<lparr>rw_body := rw_body w @ bs\<rparr>"

definition sendPayloadLimitedResponse ::
  "nat option \<Rightarrow> reader \<Rightarrow> (string \<Rightarrow> string) \<Rightarrow> bool \<Rightarrow> ns \<Rightarrow> ns \<Rightarrow> di_globals \<Rightarrow> response_writer
    \<Rightarrow> response_writer \<times> go_error option \<times> InvokeResponseMetrics option" where
  "sendPayloadLimitedResponse wfail payload trailers runtimeCalledResponse start finish g w =
    (case parseFunctionResponseMode w of
       Inl e \<Rightarrow> (w, Some e, None)
     | Inr mode \<Rightarrow>
        let w = (if mode = ResponseModeStreaming
                 then header_add ''Trailer'' FunctionErrorBodyTrailer (header_add ''Trailer'' FunctionErrorTypeTrailer w) else w);
            limit = wrap64 (MaxDirectResponseSize g + 1);
            (bs, err) = io_copy wfail (LimitReader limit payload);
            written = int (length bs);
            w = body_write bs w;
            w = (if mode = ResponseModeStreaming
                 then header_set FunctionErrorBodyTrailer (trailers FunctionErrorBodyTrailer)
                        (header_set FunctionErrorTypeTrailer (trailers FunctionErrorTypeTrailer) w) else w);
            isNotStreamingInvoke = (di_InvokeResponseMode g \<noteq> ResponseModeStreaming);
            (w, err) =
              (if err \<noteq> None then (header_set EndOfResponseTrailer EndOfResponseTruncated w, Some ErrTruncatedResponse)
               else if isNotStreamingInvoke \<and> written = limit
               then (header_set EndOfResponseTrailer EndOfResponseOversized w,
                     Some (ErrorResponseTooLargeDI (MaxDirectResponseSize g) written))
               else (header_set EndOfResponseTrailer EndOfResponseComplete w, None))
        in (w, err, Some \<lparr>StartReadingResponseMonoTimeMs = start, FinishReadingResponseMonoTimeMs = finish,
              TimeShapedNs = -1, ProducedBytes = written, OutboundThroughputBps = -1,
              irm_FunctionResponseMode = ResponseModeBuffered, RuntimeCalledResponse = runtimeCalledResponse\<rparr>))"

text \<open>The bucket of a streamed response, \<open>NewStreamedResponseWriter\<close>: it needs a writer that can flush and
  valid bucket parameters.\<close>

definition DefaultRefillIntervalMs :: int where
  "DefaultRefillIntervalMs = 125"

definition NewStreamedResponseWriter :: "bool \<Rightarrow> di_globals \<Rightarrow> Throttler option" where
  "NewStreamedResponseWriter isFlusher g =
    (if \<not> isFlusher then None
     else NewThrottler (NewBucket (ResponseBandwidthBurstSize g) (ResponseBandwidthBurstSize g)
            (go_quot (wrap64 (ResponseBandwidthRate g * DefaultRefillIntervalMs)) 1000)
            (DefaultRefillIntervalMs * 1000000)))"

text \<open>The copy of the payload: the body and trailer it leaves, and its error.  Cancelling it makes the next write
  fail, so it is a \<open>wfail\<close> as well.\<close>

definition asyncPayloadCopy ::
  "nat option \<Rightarrow> reader \<Rightarrow> di_globals \<Rightarrow> response_writer \<Rightarrow> response_writer \<times> go_error option" where
  "asyncPayloadCopy wfail payload g w =
    (let isPayloadsSizeRestricted = (MaxDirectResponseSize g \<noteq> -1);
         payload = (if isPayloadsSizeRestricted then LimitReader (wrap64 (MaxDirectResponseSize g + 1)) payload else payload);
         (bs, copyError) = io_copy wfail payload;
         copiedBytes = int (length bs);
         isPayloadsSizeOversized = (copiedBytes > MaxDirectResponseSize g);
         w = body_write bs w
     in if copyError \<noteq> None
        then (header_set EndOfResponseTrailer EndOfResponseTruncated w, Some ErrTruncatedResponse)
        else if isPayloadsSizeRestricted \<and> isPayloadsSizeOversized
        then (header_set EndOfResponseTrailer EndOfResponseOversized w,
              Some (ErrorResponseTooLargeDI (MaxDirectResponseSize g) copiedBytes))
        else (header_set EndOfResponseTrailer EndOfResponseComplete w, None))"

text \<open>Either the copy finishes first, or a reset with some reason interrupts it.  The last component of the
  result says whether metrics are handed over on \<open>sendResponseChan\<close>, where the waiting invoke receives them.\<close>

datatype stream_event = CopyFinishes | ResetArrives string

definition sendStreamingInvokeResponse ::
  "bool \<Rightarrow> nat option \<Rightarrow> reader \<Rightarrow> (string \<Rightarrow> string) \<Rightarrow> stream_event \<Rightarrow> di_globals \<Rightarrow> response_writer
    \<Rightarrow> response_writer \<times> go_error option \<times> bool" where
  "sendStreamingInvokeResponse isFlusher wfail payload trailers ev g w =
    (case NewStreamedResponseWriter isFlusher g of
       None \<Rightarrow> (renderInternalServerError (di_error_text ErrInternalPlatformError) w, Some ErrInternalPlatformError, False)
     | Some th \<Rightarrow>
        (case asyncPayloadCopy wfail payload g w of
           (w, copyError) \<Rightarrow>
             let (errorType, errorBody) =
                   (case ev of
                      CopyFinishes \<Rightarrow>
                        (if trailers FunctionErrorTypeTrailer = []
                         then (case copyError of Some e \<Rightarrow> mapCopyDoneResultErrorToErrorType e | None \<Rightarrow> [])
                         else trailers FunctionErrorTypeTrailer,
                         trailers FunctionErrorBodyTrailer)
                    | ResetArrives reason \<Rightarrow> (getErrorTypeFromResetReason reason, []))
             in (header_set FunctionErrorBodyTrailer errorBody (header_set FunctionErrorTypeTrailer errorType w), copyError, True)))"

definition sendStreamingInvokeErrorResponse ::
  "bool \<Rightarrow> nat option \<Rightarrow> reader \<Rightarrow> di_globals \<Rightarrow> response_writer \<Rightarrow> response_writer \<times> go_error option \<times> bool" where
  "sendStreamingInvokeErrorResponse isFlusher wfail payload g w =
    (case NewStreamedResponseWriter isFlusher g of
       None \<Rightarrow> (renderInternalServerError (di_error_text ErrInternalPlatformError) w, Some ErrInternalPlatformError, False)
     | Some th \<Rightarrow> (case asyncPayloadCopy wfail payload g w of (w, copyError) \<Rightarrow> (w, copyError, True)))"

definition SendDirectInvokeResponse ::
  "bool \<Rightarrow> nat option \<Rightarrow> (string \<times> string) list \<Rightarrow> reader \<Rightarrow> (string \<Rightarrow> string) \<Rightarrow> stream_event \<Rightarrow> bool \<Rightarrow> ns \<Rightarrow> ns
    \<Rightarrow> di_globals \<Rightarrow> response_writer \<Rightarrow> response_writer \<times> go_error option \<times> bool" where
  "SendDirectInvokeResponse isFlusher wfail additionalHeaders payload trailers ev runtimeCalledResponse start finish g w =
    (let w = foldl (\<lambda>w (k, v). header_add k v w) w additionalHeaders
     in if di_InvokeResponseMode g = ResponseModeStreaming
        then (if isErrorResponse additionalHeaders
              then sendStreamingInvokeErrorResponse isFlusher wfail payload g w
              else sendStreamingInvokeResponse isFlusher wfail payload trailers ev g w)
        else (case sendPayloadLimitedResponse wfail payload trailers runtimeCalledResponse start finish g w of
                (w, err, metrics) \<Rightarrow> (w, err, metrics \<noteq> None)))"

section \<open>Properties\<close>

lemma header_get_set: "header_get k (header_set k' v w) = (if k = k' then v else header_get k w)"
  by (simp add: header_get_def header_set_def)

lemma header_get_body [simp]: "header_get k (body_write bs w) = header_get k w"
  by (simp add: header_get_def body_write_def WriteHeader_def)

lemma header_set_frame [simp]:
  "rw_body (header_set k v w) = rw_body w" "rw_status (header_set k v w) = rw_status w"
  "rw_body (header_add k v w) = rw_body w" "rw_status (header_add k v w) = rw_status w"
  "rw_body (WriteHeader c w) = rw_body w"
  "rw_status (WriteHeader c w) = Some (case rw_status w of Some c' \<Rightarrow> c' | None \<Rightarrow> c)"
  "rw_body (body_write bs w) = rw_body w @ bs"
  by (auto simp: header_set_def header_add_def WriteHeader_def body_write_def split: option.splits)

lemma LimitReader_data:
  assumes "0 \<le> mx" "mx < 2 ^ 63 - 1"
  shows "rd_data (LimitReader (wrap64 (mx + 1)) r) = take (nat (mx + 1)) (rd_data r) \<and>
    rd_err (LimitReader (wrap64 (mx + 1)) r) = (if int (length (rd_data r)) > mx then None else rd_err r)"
proof -
  have "wrap64 (mx + 1) = mx + 1" using assms by (intro wrap64_id) auto
  then show ?thesis using assms by (auto simp: LimitReader_def)
qed

text \<open>A buffered response is delivered whole and marked complete exactly when its size is within the limit; a larger one is cut
  one byte past the limit, marked oversized and reported with both sizes; a response whose source fails is
  marked truncated.  (The limit is at least zero and leaves room for one more byte in an \<open>int64\<close>.)\<close>

theorem buffered_response_classified:
  assumes "0 \<le> MaxDirectResponseSize g" "MaxDirectResponseSize g < 2 ^ 63 - 1"
    "di_InvokeResponseMode g = ResponseModeBuffered" "parseFunctionResponseMode w = Inr mode"
    "sendPayloadLimitedResponse None payload trailers called start finish g w = (w', err, m)"
  shows "rw_body w' = rw_body w @ take (nat (MaxDirectResponseSize g + 1)) (rd_data payload) \<and>
    (if int (length (rd_data payload)) > MaxDirectResponseSize g
     then header_get EndOfResponseTrailer w' = EndOfResponseOversized \<and>
       err = Some (ErrorResponseTooLargeDI (MaxDirectResponseSize g) (MaxDirectResponseSize g + 1))
     else if rd_err payload \<noteq> None
     then header_get EndOfResponseTrailer w' = EndOfResponseTruncated \<and> err = Some ErrTruncatedResponse
     else rw_body w' = rw_body w @ rd_data payload \<and>
       header_get EndOfResponseTrailer w' = EndOfResponseComplete \<and> err = None)"
proof -
  let ?max = "MaxDirectResponseSize g"
  have wr: "wrap64 (?max + 1) = ?max + 1" using assms(1,2) by (intro wrap64_id) auto
  note lim = LimitReader_data [OF assms(1,2), of payload, unfolded wr]
  show ?thesis
  proof (cases "int (length (rd_data payload)) > ?max")
    case True
    then have "length (take (nat (?max + 1)) (rd_data payload)) = nat (?max + 1)" by simp
    then show ?thesis
      using assms True lim
      by (auto simp: sendPayloadLimitedResponse_def Let_def wr io_copy_def header_get_set simp del: length_take)
  next
    case False
    then have "take (nat (?max + 1)) (rd_data payload) = rd_data payload" by simp
    then show ?thesis
      using assms False lim
      by (auto simp: sendPayloadLimitedResponse_def Let_def wr io_copy_def header_get_set simp del: take_all_iff)
  qed
qed

theorem buffered_response_classified_witness:
  "\<exists>w' m. sendPayloadLimitedResponse None \<lparr>rd_data = [1, 2, 3], rd_err = None\<rparr> (\<lambda>_. []) True 0 1
      (initial_globals\<lparr>MaxDirectResponseSize := 2\<rparr>) new_writer = (w', Some (ErrorResponseTooLargeDI 2 3), m) \<and>
    rw_body w' = [1, 2, 3] \<and> header_get EndOfResponseTrailer w' = EndOfResponseOversized"
proof -
  obtain w' err m where r: "sendPayloadLimitedResponse None \<lparr>rd_data = [1, 2, 3], rd_err = None\<rparr> (\<lambda>_. []) True 0 1
      (initial_globals\<lparr>MaxDirectResponseSize := 2\<rparr>) new_writer = (w', err, m)" by (rule prod_cases3)
  have "parseFunctionResponseMode new_writer = Inr ResponseModeBuffered"
    by (simp add: parseFunctionResponseMode_def header_get_def new_writer_def)
  from buffered_response_classified [OF _ _ _ this r] r
  show ?thesis by (auto simp: initial_globals_def new_writer_def)
qed

text \<open>With the largest limit a request can ask for, \<open>2^63 - 1\<close>, the limit plus one wraps around to a negative
  number, nothing of the payload is read, and the empty response is marked complete.\<close>

theorem max_payload_size_overflow:
  assumes "MaxDirectResponseSize g = 2 ^ 63 - 1" "parseFunctionResponseMode w = Inr mode"
    "sendPayloadLimitedResponse None payload trailers called start finish g w = (w', err, m)"
  shows "rw_body w' = rw_body w \<and> header_get EndOfResponseTrailer w' = EndOfResponseComplete \<and> err = None"
proof -
  have "wrap64 (2 ^ 63 - 1 + 1) = - (2 ^ 63)" by (simp add: wrap64_def)
  then show ?thesis
    using assms by (auto simp: sendPayloadLimitedResponse_def Let_def io_copy_def LimitReader_def header_get_set)
qed

theorem max_payload_size_overflow_witness:
  "rw_body (fst (sendPayloadLimitedResponse None \<lparr>rd_data = [1, 2, 3], rd_err = None\<rparr> (\<lambda>_. []) True 0 1
      (initial_globals\<lparr>MaxDirectResponseSize := 9223372036854775807\<rparr>) new_writer)) = []"
proof -
  let ?g = "initial_globals\<lparr>MaxDirectResponseSize := 9223372036854775807\<rparr>"
  obtain w' err m where r: "sendPayloadLimitedResponse None \<lparr>rd_data = [1, 2, 3], rd_err = None\<rparr> (\<lambda>_. []) True 0 1
      ?g new_writer = (w', err, m)" by (rule prod_cases3)
  have "parseFunctionResponseMode new_writer = Inr ResponseModeBuffered"
    by (simp add: parseFunctionResponseMode_def header_get_def new_writer_def)
  from max_payload_size_overflow [OF _ this r] r show ?thesis by (simp add: new_writer_def)
qed

lemma numeric_header_ok: "numeric_header v d ok = Some n \<Longrightarrow> ok d \<Longrightarrow> ok n"
  by (auto simp: numeric_header_def split: if_splits option.splits)

lemma rate_default_ok: "MinResponseBandwidthRate \<le> ResponseBandwidthRate_default \<and> ResponseBandwidthRate_default \<le> MaxResponseBandwidthRate"
  by (simp add: limit_defs)

lemma burst_default_ok:
  "MinResponseBandwidthBurstSize \<le> ResponseBandwidthBurstSize_default \<and> ResponseBandwidthBurstSize_default \<le> MaxResponseBandwidthBurstSize"
  by (simp add: limit_defs)

definition settings_ok :: "di_globals \<Rightarrow> bool" where
  "settings_ok g = (-1 \<le> MaxDirectResponseSize g \<and> (di_InvokeResponseMode g = ResponseModeStreaming \<longrightarrow>
     MinResponseBandwidthRate \<le> ResponseBandwidthRate g \<and> ResponseBandwidthRate g \<le> MaxResponseBandwidthRate \<and>
     MinResponseBandwidthBurstSize \<le> ResponseBandwidthBurstSize g \<and> ResponseBandwidthBurstSize g \<le> MaxResponseBandwidthBurstSize) \<and>
     (MaxDirectResponseSize g = -1 \<longrightarrow> di_InvokeResponseMode g = ResponseModeStreaming))"

lemma di_settings_ok:
  assumes "di_settings hdr g w = ((g', w'), None)"
  shows "settings_ok g'"
proof -
  have max: "numeric_header v MaxPayloadSize (\<lambda>n. n \<ge> -1) = Some n \<Longrightarrow> -1 \<le> n" for v n
    using numeric_header_ok [of v MaxPayloadSize "\<lambda>n. n \<ge> -1" n] by (simp add: MaxPayloadSize_def)
  have rate: "numeric_header v ResponseBandwidthRate_default (\<lambda>n. MinResponseBandwidthRate \<le> n \<and> n \<le> MaxResponseBandwidthRate) = Some n
      \<Longrightarrow> MinResponseBandwidthRate \<le> n \<and> n \<le> MaxResponseBandwidthRate" for v n
    using numeric_header_ok [of v _ "\<lambda>n. MinResponseBandwidthRate \<le> n \<and> n \<le> MaxResponseBandwidthRate" n] rate_default_ok by simp
  have burst: "numeric_header v ResponseBandwidthBurstSize_default (\<lambda>n. MinResponseBandwidthBurstSize \<le> n \<and> n \<le> MaxResponseBandwidthBurstSize) = Some n
      \<Longrightarrow> MinResponseBandwidthBurstSize \<le> n \<and> n \<le> MaxResponseBandwidthBurstSize" for v n
    using numeric_header_ok [of v _ "\<lambda>n. MinResponseBandwidthBurstSize \<le> n \<and> n \<le> MaxResponseBandwidthBurstSize" n] burst_default_ok by simp
  show ?thesis
    using assms
    by (auto simp: di_settings_def Let_def settings_ok_def isStreamingInvoke_def split: option.splits sum.splits if_splits
        dest!: max rate burst)
qed

text \<open>The settings an accepted streaming invoke leaves always make a valid token bucket.\<close>

lemma settings_ok_bucket:
  assumes "settings_ok g" "di_InvokeResponseMode g = ResponseModeStreaming"
  shows "\<exists>th. NewStreamedResponseWriter True g = Some th \<and> bucket_ok (th_b th)"
proof -
  let ?rate = "ResponseBandwidthRate g" and ?burst = "ResponseBandwidthBurstSize g"
  have r: "32768 \<le> ?rate" "?rate \<le> 67108864" "32768 \<le> ?burst" "?burst \<le> 67108864"
    using assms by (simp_all add: settings_ok_def limit_defs)
  have wr: "wrap64 (?rate * 125) = ?rate * 125" using r by (intro wrap64_id) auto
  have q: "go_quot (wrap64 (?rate * 125)) 1000 = ?rate * 125 div 1000"
    unfolding wr using r by (intro go_quot_nonneg) simp_all
  have "0 < ?rate * 125 div 1000" "?rate * 125 div 1000 \<le> 8388608" using r by linarith+
  then have "0 < go_quot (wrap64 (?rate * 125)) 1000" "go_quot (wrap64 (?rate * 125)) 1000 \<le> 8388608"
    unfolding q .
  then show ?thesis
    using r by (simp add: NewStreamedResponseWriter_def NewBucket_def NewThrottler_def DefaultRefillIntervalMs_def bucket_ok_def)
qed

lemma di_settings_status: "di_settings hdr g w = ((g', w'), e) \<Longrightarrow> rw_status w' = rw_status w"
  by (auto simp: di_settings_def Let_def split: option.splits sum.splits if_splits)

lemma renderBadRequest_effect:
  "rw_status w = None \<Longrightarrow> rw_status (renderBadRequest t w) = Some 400 \<and> header_get ErrorTypeHeader (renderBadRequest t w) = t"
  by (simp add: renderBadRequest_def header_get_set header_defs WriteHeader_def header_get_def header_set_def)

text \<open>An invoke is accepted only with the identifier, reservation token and version of its reservation and before the
  reservation expires, and then its response settings are valid: a streamed response always gets a
  working token bucket.  A refused invoke is answered with status 400 and its error in the
  \<open>Error-Type\<close> header.\<close>

theorem direct_invoke_checked:
  assumes "rw_status w = None" "ReceiveDirectInvoke decode hdr urlToken body token now g w = ((g', w'), res)"
  shows "case res of
      Inr ivk \<Rightarrow> iv_ID ivk = tk_InvokeID token \<and> iv_ReservationToken ivk = tk_ReservationToken token \<and>
        iv_VersionID ivk = tk_VersionID token \<and> now \<le> tk_InvackDeadlineNs token \<and> rw_status w' = None \<and>
        (di_InvokeResponseMode g' = ResponseModeStreaming \<longrightarrow> (\<exists>th. NewStreamedResponseWriter True g' = Some th \<and> bucket_ok (th_b th)))
    | Inl e \<Rightarrow> rw_status w' = Some 400 \<and> header_get ErrorTypeHeader w' = di_error_text e"
proof -
  let ?w = "header_set ''Trailer'' EndOfResponseTrailer w"
  obtain g1 w1 e1 where s: "di_settings hdr g ?w = ((g1, w1), e1)" by (metis prod.collapse)
  have st: "rw_status w1 = None" using di_settings_status [OF s] assms(1) by simp
  have ok: "e1 = None \<Longrightarrow> settings_ok g1" using s di_settings_ok by blast
  show ?thesis
    using assms s st ok settings_ok_bucket renderBadRequest_effect [of ?w] renderBadRequest_effect [of w1]
    by (auto simp: ReceiveDirectInvoke_def Let_def di_check_def split: option.splits if_splits)
qed

definition sample_token :: Token where
  "sample_token = \<lparr>tk_ReservationToken = ''rt'', tk_InvokeID = ''id'', tk_TenantID = [], tk_VersionID = ''v1'',
     tk_FunctionTimeout = 3, tk_InvackDeadlineNs = 100, tk_TraceID = [], tk_LambdaSegmentID = [], tk_InvokeMetadata = [],
     tk_NeedDebugLogs = False,
     tk_RestoreDurationNs = 0, tk_RestoreStartTimeMonotime = 0\<rparr>"

definition sample_headers :: "string \<Rightarrow> string" where
  "sample_headers h = (if h = InvokeIDHeader then ''id'' else if h = VersionIDHeader then ''v1''
     else if h = MaxPayloadSizeHeader then ''-1'' else [])"

theorem direct_invoke_checked_witness:
  "\<exists>g' w' th. fst (ReceiveDirectInvoke (\<lambda>_. None) sample_headers ''rt'' [] sample_token 7 initial_globals new_writer) = (g', w') \<and>
    NewStreamedResponseWriter True g' = Some th \<and> bucket_ok (th_b th)"
proof -
  obtain g' w' res where r: "ReceiveDirectInvoke (\<lambda>_. None) sample_headers ''rt'' [] sample_token 7 initial_globals new_writer
      = ((g', w'), res)" by (metis prod.collapse)
  have "case snd (ReceiveDirectInvoke (\<lambda>_. None) sample_headers ''rt'' [] sample_token 7 initial_globals new_writer) of Inr _ \<Rightarrow> True | Inl _ \<Rightarrow> False"
    "di_InvokeResponseMode (fst (fst (ReceiveDirectInvoke (\<lambda>_. None) sample_headers ''rt'' [] sample_token 7 initial_globals new_writer))) = ResponseModeStreaming"
    by code_simp+
  moreover have "rw_status new_writer = None" by (simp add: new_writer_def)
  ultimately show ?thesis
    using direct_invoke_checked [OF _ r] r by (auto split: sum.splits)
qed

text \<open>The response mode is a package variable that a request without the \<open>InvokeResponseMode\<close> header does not reset: after one
  streaming invoke, every later invoke that does not ask for a mode is treated as streaming.\<close>

theorem streaming_mode_is_sticky:
  assumes "di_InvokeResponseMode g = ResponseModeStreaming" "di_settings (\<lambda>_. []) g w = ((g', w'), e)"
  shows "e = None \<and> di_InvokeResponseMode g' = ResponseModeStreaming \<and> MaxDirectResponseSize g' = MaxPayloadSize"
  using assms by (auto simp: di_settings_def Let_def numeric_header_def isStreamingInvoke_def)

theorem streaming_mode_is_sticky_witness:
  "di_InvokeResponseMode (fst (fst (di_settings (\<lambda>_. []) (fst (fst (di_settings sample_headers initial_globals new_writer))) new_writer)))
    = ResponseModeStreaming"
proof -
  let ?g = "fst (fst (di_settings sample_headers initial_globals new_writer))"
  have "di_InvokeResponseMode ?g = ResponseModeStreaming" by code_simp
  moreover obtain g' w' e where "di_settings (\<lambda>_. []) ?g new_writer = ((g', w'), e)" by (metis prod.collapse)
  ultimately show ?thesis using streaming_mode_is_sticky [of ?g new_writer g' w' e] by simp
qed

end
