(* ===== verification/App_Context.thy ===== *)
theory App_Context
  imports Errors "HOL-Library.Sublist"
begin

text \<open>
  The application context of \<open>internal/lambda/appctx\<close>: the mutex-protected map from keys to
  untyped values of \<open>appctx.go\<close> and its typed accessors of \<open>appctxutil.go\<close>.  A value of type
  \<open>interface{}\<close> is a \<open>ctx_value\<close> tagged with its dynamic type; a type assertion on a value of
  another type panics and is the result \<^const>\<open>None\<close> of an accessor.  Pointers and interface
  values the context only holds (trace data, interop server, response sender) are references.
  A request is its two headers, which \<open>Header.Get\<close> gives as the empty string when absent.
  Strings are sequences of bytes.
\<close>

section \<open>Keys and values\<close>

datatype Key =
    AppCtxInvokeErrorTraceDataKey | AppCtxRuntimeReleaseKey | AppCtxInteropServerKey
  | AppCtxResponseSenderKey | AppCtxFirstFatalErrorKey | AppCtxInitType | AppCtxSandboxType

datatype InitType = Init | InitCaching

type_synonym SandboxType = string

definition SandboxPreWarmed :: SandboxType where
  "SandboxPreWarmed = ''PreWarmed''"

definition SandboxClassic :: SandboxType where
  "SandboxClassic = ''Classic''"

datatype ctx_value =
    VString string | VErrorType ErrorType | VInitType InitType | VSandboxType SandboxType
  | VTraceData ref | VServer ref | VSender ref

record applicationContext =
  ctx_m :: "(Key \<times> ctx_value) list"

record http_request =
  User_Agent :: string
  Lambda_Runtime_Features :: string

definition NewApplicationContext :: applicationContext where
  "NewApplicationContext = \<lparr>ctx_m = []\<rparr>"

definition ctx_Store :: "applicationContext \<Rightarrow> Key \<Rightarrow> ctx_value \<Rightarrow> applicationContext" where
  "ctx_Store c k v = c\<lparr>ctx_m := go_map_set k v (ctx_m c)\<rparr>"

definition ctx_StoreIfNotExists ::
    "applicationContext \<Rightarrow> Key \<Rightarrow> ctx_value \<Rightarrow> ctx_value option \<times> applicationContext" where
  "ctx_StoreIfNotExists c k v =
    (case map_of (ctx_m c) k of
       Some existing \<Rightarrow> (Some existing, c)
     | None \<Rightarrow> (None, c\<lparr>ctx_m := go_map_set k v (ctx_m c)\<rparr>))"

definition ctx_Load :: "applicationContext \<Rightarrow> Key \<Rightarrow> ctx_value option" where
  "ctx_Load c k = map_of (ctx_m c) k"

definition ctx_Delete :: "applicationContext \<Rightarrow> Key \<Rightarrow> applicationContext" where
  "ctx_Delete c k = c\<lparr>ctx_m := go_map_delete k (ctx_m c)\<rparr>"

definition ctx_GetOrDefault :: "applicationContext \<Rightarrow> Key \<Rightarrow> ctx_value \<Rightarrow> ctx_value" where
  "ctx_GetOrDefault c k d = (case ctx_Load c k of Some v \<Rightarrow> v | None \<Rightarrow> d)"

lemmas ctx_defs = ctx_Store_def ctx_StoreIfNotExists_def ctx_Load_def ctx_Delete_def
  ctx_GetOrDefault_def NewApplicationContext_def

section \<open>Typed accessors\<close>

fun as_string :: "ctx_value \<Rightarrow> string option" where
  "as_string (VString s) = Some s" | "as_string _ = None"

fun as_ErrorType :: "ctx_value \<Rightarrow> ErrorType option" where
  "as_ErrorType (VErrorType e) = Some e" | "as_ErrorType _ = None"

fun as_InitType :: "ctx_value \<Rightarrow> InitType option" where
  "as_InitType (VInitType t) = Some t" | "as_InitType _ = None"

fun as_SandboxType :: "ctx_value \<Rightarrow> SandboxType option" where
  "as_SandboxType (VSandboxType t) = Some t" | "as_SandboxType _ = None"

definition GetRuntimeRelease :: "applicationContext \<Rightarrow> string option" where
  "GetRuntimeRelease c = as_string (ctx_GetOrDefault c AppCtxRuntimeReleaseKey (VString []))"

text \<open>The log line asserts the type of the value found: the result is \<^const>\<open>None\<close> when that panics.\<close>

definition StoreFirstFatalError ::
    "applicationContext \<Rightarrow> ErrorType \<Rightarrow> applicationContext option" where
  "StoreFirstFatalError c err =
    (case ctx_StoreIfNotExists c AppCtxFirstFatalErrorKey (VErrorType err) of
       (Some existing, c') \<Rightarrow> (case as_ErrorType existing of Some _ \<Rightarrow> Some c' | None \<Rightarrow> None)
     | (None, c') \<Rightarrow> Some c')"

definition LoadFirstFatalError :: "applicationContext \<Rightarrow> (ErrorType \<times> bool) option" where
  "LoadFirstFatalError c =
    (case ctx_Load c AppCtxFirstFatalErrorKey of
       None \<Rightarrow> Some ([], False)
     | Some v \<Rightarrow> map_option (\<lambda>e. (e, True)) (as_ErrorType v))"

definition StoreInitType :: "applicationContext \<Rightarrow> bool \<Rightarrow> applicationContext" where
  "StoreInitType c initCachingEnabled =
    (if initCachingEnabled then ctx_Store c AppCtxInitType (VInitType InitCaching)
     else ctx_Store c AppCtxInitType (VInitType Init))"

definition LoadInitType :: "applicationContext \<Rightarrow> InitType option" where
  "LoadInitType c = as_InitType (ctx_GetOrDefault c AppCtxInitType (VInitType Init))"

definition StoreSandboxType :: "applicationContext \<Rightarrow> SandboxType \<Rightarrow> applicationContext" where
  "StoreSandboxType c t = ctx_Store c AppCtxSandboxType (VSandboxType t)"

definition LoadSandboxType :: "applicationContext \<Rightarrow> SandboxType option" where
  "LoadSandboxType c = as_SandboxType (ctx_GetOrDefault c AppCtxSandboxType (VSandboxType SandboxClassic))"

definition StoreInvokeErrorTraceData :: "applicationContext \<Rightarrow> ref \<Rightarrow> applicationContext" where
  "StoreInvokeErrorTraceData c p = ctx_Store c AppCtxInvokeErrorTraceDataKey (VTraceData p)"

text \<open>The pointer accessors return nil (\<open>Some None\<close>) when nothing is stored.\<close>

definition LoadInvokeErrorTraceData :: "applicationContext \<Rightarrow> ref option option" where
  "LoadInvokeErrorTraceData c =
    (case ctx_Load c AppCtxInvokeErrorTraceDataKey of
       None \<Rightarrow> Some None | Some (VTraceData p) \<Rightarrow> Some (Some p) | Some _ \<Rightarrow> None)"

definition StoreInteropServer :: "applicationContext \<Rightarrow> ref \<Rightarrow> applicationContext" where
  "StoreInteropServer c p = ctx_Store c AppCtxInteropServerKey (VServer p)"

definition LoadInteropServer :: "applicationContext \<Rightarrow> ref option option" where
  "LoadInteropServer c =
    (case ctx_Load c AppCtxInteropServerKey of
       None \<Rightarrow> Some None | Some (VServer p) \<Rightarrow> Some (Some p) | Some _ \<Rightarrow> None)"

definition StoreResponseSender :: "applicationContext \<Rightarrow> ref \<Rightarrow> applicationContext" where
  "StoreResponseSender c p = ctx_Store c AppCtxResponseSenderKey (VSender p)"

definition LoadResponseSender :: "applicationContext \<Rightarrow> ref option option" where
  "LoadResponseSender c =
    (case ctx_Load c AppCtxResponseSenderKey of
       None \<Rightarrow> Some None | Some (VSender p) \<Rightarrow> Some (Some p) | Some _ \<Rightarrow> None)"

section \<open>Runtime release\<close>

definition MaxRuntimeReleaseLength :: int where
  "MaxRuntimeReleaseLength = 128"

text \<open>
  \<open>strings.Fields\<close>: \<open>space_len s\<close> is the number of bytes of the white space character that
  \<open>s\<close> starts with, zero when there is none: the six ASCII ones, and the UTF-8 encodings of the
  other characters of \<open>unicode.IsSpace\<close> (U+0085, U+00A0, U+1680, U+2000 to U+200A, U+2028,
  U+2029, U+202F, U+205F, U+3000).  A lead byte always starts a character, so matching the bytes
  is decoding them.
\<close>

fun space_codes :: "nat list \<Rightarrow> nat" where
  "space_codes (b # bs) =
    (if b \<in> {9, 10, 11, 12, 13, 32} then 1
     else case bs of
            [] \<Rightarrow> 0
          | b2 # bs2 \<Rightarrow>
              if b = 194 \<and> (b2 = 133 \<or> b2 = 160) then 2
              else case bs2 of
                     [] \<Rightarrow> 0
                   | b3 # _ \<Rightarrow>
                       if b = 225 \<and> b2 = 154 \<and> b3 = 128 then 3
                       else if b = 226 \<and> b2 = 128 \<and> (128 \<le> b3 \<and> b3 \<le> 138 \<or> b3 = 168 \<or> b3 = 169 \<or> b3 = 175) then 3
                       else if b = 226 \<and> b2 = 129 \<and> b3 = 159 then 3
                       else if b = 227 \<and> b2 = 128 \<and> b3 = 128 then 3
                       else 0)"
| "space_codes [] = 0"

definition space_len :: "string \<Rightarrow> nat" where
  "space_len s = space_codes (map of_char (take 3 s))"

fun fields_from :: "string \<Rightarrow> string \<Rightarrow> string list" where
  "fields_from cur [] = (if cur = [] then [] else [cur])"
| "fields_from cur (c # cs) =
    (let n = space_len (c # cs)
     in if n = 0 then fields_from (cur @ [c]) cs
        else (if cur = [] then [] else [cur]) @ fields_from [] (drop (n - 1) cs))"

definition Fields :: "string \<Rightarrow> string list" where
  "Fields s = fields_from [] s"

fun strings_Join :: "string list \<Rightarrow> string \<Rightarrow> string" where
  "strings_Join [] sep = []"
| "strings_Join [x] sep = x"
| "strings_Join (x # y # xs) sep = x @ sep @ strings_Join (y # xs) sep"

definition GetUserAgentFromRequest :: "http_request \<Rightarrow> string" where
  "GetUserAgentFromRequest request =
    (case Fields (User_Agent request) of
       f # _ \<Rightarrow> if 0 < length f then f else []
     | [] \<Rightarrow> [])"

text \<open>The loop over the features: available length, number appended and the features kept.\<close>

fun append_features :: "int \<Rightarrow> int \<Rightarrow> string list \<Rightarrow> string list \<Rightarrow> string list" where
  "append_features availableLength numberOfAppendedFeatures acc [] = acc"
| "append_features availableLength numberOfAppendedFeatures acc (feature # fs) =
    (if int (length feature) \<le> availableLength - numberOfAppendedFeatures
     then append_features (availableLength - int (length feature)) (numberOfAppendedFeatures + 1) (acc @ [feature]) fs
     else append_features availableLength numberOfAppendedFeatures acc fs)"

definition strip_parens :: "string \<Rightarrow> string" where
  "strip_parens s = filter (\<lambda>c. c \<noteq> CHR '')'') (filter (\<lambda>c. c \<noteq> CHR ''('') s)"

definition CreateRuntimeReleaseFromRequest :: "http_request \<Rightarrow> string \<Rightarrow> string" where
  "CreateRuntimeReleaseFromRequest request runtimeRelease =
    (let hdr = strip_parens (Lambda_Runtime_Features request);
         runtimeReleaseLength = (if length runtimeRelease = 0 then int (length ''Unknown'') else int (length runtimeRelease));
         availableLength = MaxRuntimeReleaseLength - runtimeReleaseLength - 3;
         lambdaRuntimeFeatures = append_features availableLength 0 [] (Fields hdr)
     in if 0 < length lambdaRuntimeFeatures
        then (if runtimeRelease = [] then ''Unknown'' else runtimeRelease)
               @ '' ('' @ strings_Join lambdaRuntimeFeatures '' '' @ '')''
        else runtimeRelease)"

definition UpdateAppCtxWithRuntimeRelease ::
    "http_request \<Rightarrow> applicationContext \<Rightarrow> (bool \<times> applicationContext) option" where
  "UpdateAppCtxWithRuntimeRelease request c =
    (case GetRuntimeRelease c of
       None \<Rightarrow> None
     | Some cur \<Rightarrow>
         if 0 < length cur then
           (let rel = CreateRuntimeReleaseFromRequest request cur
            in if length cur < length rel \<and> cur ! (length cur - 1) \<noteq> CHR '')''
               then Some (True, ctx_Store c AppCtxRuntimeReleaseKey (VString rel))
               else Some (False, c))
         else
           (let rel = CreateRuntimeReleaseFromRequest request (GetUserAgentFromRequest request)
            in if rel \<noteq> [] then Some (True, ctx_Store c AppCtxRuntimeReleaseKey (VString rel))
               else Some (False, c)))"

section \<open>The context as a whole\<close>

text \<open>
  The calls that change the context, and their sequences; \<^const>\<open>None\<close> is a panic.  The context
  is well typed when every key holds a value of the type its accessors assert.
\<close>

datatype ctx_op =
    OpFatal ErrorType | OpDelete Key | OpInit bool | OpSandbox SandboxType
  | OpTrace ref | OpServer ref | OpSender ref | OpRelease http_request

fun ctx_step :: "applicationContext \<Rightarrow> ctx_op \<Rightarrow> applicationContext option" where
  "ctx_step c (OpFatal e) = StoreFirstFatalError c e"
| "ctx_step c (OpDelete k) = Some (ctx_Delete c k)"
| "ctx_step c (OpInit b) = Some (StoreInitType c b)"
| "ctx_step c (OpSandbox t) = Some (StoreSandboxType c t)"
| "ctx_step c (OpTrace p) = Some (StoreInvokeErrorTraceData c p)"
| "ctx_step c (OpServer p) = Some (StoreInteropServer c p)"
| "ctx_step c (OpSender p) = Some (StoreResponseSender c p)"
| "ctx_step c (OpRelease r) = map_option snd (UpdateAppCtxWithRuntimeRelease r c)"

fun ctx_run :: "applicationContext \<Rightarrow> ctx_op list \<Rightarrow> applicationContext option" where
  "ctx_run c [] = Some c"
| "ctx_run c (x # xs) = (case ctx_step c x of None \<Rightarrow> None | Some c' \<Rightarrow> ctx_run c' xs)"

fun key_typed :: "Key \<Rightarrow> ctx_value \<Rightarrow> bool" where
  "key_typed AppCtxInvokeErrorTraceDataKey (VTraceData _) = True"
| "key_typed AppCtxRuntimeReleaseKey (VString _) = True"
| "key_typed AppCtxInteropServerKey (VServer _) = True"
| "key_typed AppCtxResponseSenderKey (VSender _) = True"
| "key_typed AppCtxFirstFatalErrorKey (VErrorType _) = True"
| "key_typed AppCtxInitType (VInitType _) = True"
| "key_typed AppCtxSandboxType (VSandboxType _) = True"
| "key_typed _ _ = False"

definition ctx_typed :: "applicationContext \<Rightarrow> bool" where
  "ctx_typed c = (\<forall>(k, v) \<in> set (ctx_m c). key_typed k v)"

lemma ctx_typedD: "ctx_typed c \<Longrightarrow> map_of (ctx_m c) k = Some v \<Longrightarrow> key_typed k v"
  by (auto simp: ctx_typed_def dest: map_of_SomeD)

lemma ctx_typed_Store [intro]: "ctx_typed c \<Longrightarrow> key_typed k v \<Longrightarrow> ctx_typed (ctx_Store c k v)"
  using set_go_map_set [of k v "ctx_m c"] by (auto simp: ctx_typed_def ctx_Store_def)

lemma ctx_typed_Delete [intro]: "ctx_typed c \<Longrightarrow> ctx_typed (ctx_Delete c k)"
  using set_go_map_delete [of k "ctx_m c"] by (auto simp: ctx_typed_def ctx_Delete_def)

lemma key_typed_fatal: "key_typed AppCtxFirstFatalErrorKey v \<Longrightarrow> \<exists>e. v = VErrorType e"
  by (cases v) auto

lemma key_typed_release: "key_typed AppCtxRuntimeReleaseKey v \<Longrightarrow> \<exists>e. v = VString e"
  by (cases v) auto

lemma StoreFirstFatalError_typed:
  assumes "ctx_typed c"
  shows "StoreFirstFatalError c e =
    Some (if map_of (ctx_m c) AppCtxFirstFatalErrorKey = None
          then ctx_Store c AppCtxFirstFatalErrorKey (VErrorType e) else c)"
  using ctx_typedD [OF assms, of AppCtxFirstFatalErrorKey]
  by (auto simp: StoreFirstFatalError_def ctx_StoreIfNotExists_def ctx_Store_def
      split: option.splits dest!: key_typed_fatal)

lemma GetRuntimeRelease_typed:
  assumes "ctx_typed c"
  shows "\<exists>s. GetRuntimeRelease c = Some s"
  using ctx_typedD [OF assms, of AppCtxRuntimeReleaseKey]
  by (auto simp: GetRuntimeRelease_def ctx_GetOrDefault_def ctx_Load_def split: option.splits
      dest!: key_typed_release)

lemma Update_only_release:
  assumes "UpdateAppCtxWithRuntimeRelease r c = Some (b, c')"
  shows "c' = c \<or> (\<exists>s. s \<noteq> [] \<and> c' = ctx_Store c AppCtxRuntimeReleaseKey (VString s))"
proof -
  obtain cur where cur: "GetRuntimeRelease c = Some cur"
    using assms by (auto simp: UpdateAppCtxWithRuntimeRelease_def split: option.splits)
  show ?thesis
  proof (cases "cur = []")
    case True
    then show ?thesis using assms cur
      by (simp add: UpdateAppCtxWithRuntimeRelease_def Let_def split: if_splits) blast
  next
    case False
    have ne: "length cur < length s \<Longrightarrow> s \<noteq> []" for s :: string by auto
    from False assms cur ne show ?thesis
      by (simp add: UpdateAppCtxWithRuntimeRelease_def Let_def split: if_splits) blast
  qed
qed

lemma ctx_step_typed:
  assumes "ctx_typed c"
  shows "\<exists>c'. ctx_step c op = Some c' \<and> ctx_typed c'"
proof (cases op)
  case (OpRelease r)
  obtain s where "GetRuntimeRelease c = Some s" using GetRuntimeRelease_typed [OF assms] by blast
  then have "\<exists>p. UpdateAppCtxWithRuntimeRelease r c = Some p"
    by (cases "UpdateAppCtxWithRuntimeRelease r c")
      (simp_all add: UpdateAppCtxWithRuntimeRelease_def Let_def split: if_splits)
  then obtain b c' where u: "UpdateAppCtxWithRuntimeRelease r c = Some (b, c')" by auto
  then have "ctx_typed c'" using Update_only_release [OF u] assms by auto
  then show ?thesis using OpRelease u by simp
qed (use assms in \<open>auto simp: StoreFirstFatalError_typed StoreInitType_def StoreSandboxType_def
      StoreInvokeErrorTraceData_def StoreInteropServer_def StoreResponseSender_def\<close>)

text \<open>The first fatal error reported since the key was last deleted.\<close>

fun fatal_after :: "ErrorType option \<Rightarrow> ctx_op list \<Rightarrow> ErrorType option" where
  "fatal_after st [] = st"
| "fatal_after st (OpFatal e # xs) = fatal_after (case st of None \<Rightarrow> Some e | Some _ \<Rightarrow> st) xs"
| "fatal_after st (OpDelete k # xs) = fatal_after (if k = AppCtxFirstFatalErrorKey then None else st) xs"
| "fatal_after st (_ # xs) = fatal_after st xs"

definition ctx_fatal :: "applicationContext \<Rightarrow> ErrorType option" where
  "ctx_fatal c = (case map_of (ctx_m c) AppCtxFirstFatalErrorKey of Some (VErrorType e) \<Rightarrow> Some e | _ \<Rightarrow> None)"

lemma ctx_fatal_None: "ctx_typed c \<Longrightarrow> ctx_fatal c = None \<longleftrightarrow> map_of (ctx_m c) AppCtxFirstFatalErrorKey = None"
  by (auto simp: ctx_fatal_def split: option.splits ctx_value.splits dest: ctx_typedD)

lemma ctx_fatal_step:
  assumes "ctx_typed c" "ctx_step c op = Some c'"
  shows "fatal_after (ctx_fatal c) (op # xs) = fatal_after (ctx_fatal c') xs"
proof (cases op)
  case (OpFatal e)
  then show ?thesis using assms ctx_fatal_None [OF assms(1)]
    by (auto simp: StoreFirstFatalError_typed ctx_Store_def ctx_fatal_def split: option.splits if_splits)
next
  case (OpRelease r)
  then obtain b where "UpdateAppCtxWithRuntimeRelease r c = Some (b, c')" using assms(2) by auto
  from Update_only_release [OF this] OpRelease show ?thesis
    by (auto simp: ctx_fatal_def ctx_Store_def)
qed (use assms(2) in \<open>auto simp: ctx_fatal_def ctx_Delete_def ctx_Store_def StoreInitType_def
      StoreSandboxType_def StoreInvokeErrorTraceData_def StoreInteropServer_def StoreResponseSender_def\<close>)

lemma ctx_run_fatal:
  assumes "ctx_typed c"
  shows "\<exists>c'. ctx_run c ops = Some c' \<and> ctx_typed c' \<and> ctx_fatal c' = fatal_after (ctx_fatal c) ops"
  using assms
proof (induction ops arbitrary: c)
  case (Cons op ops)
  obtain c1 where c1: "ctx_step c op = Some c1" "ctx_typed c1" using ctx_step_typed [OF Cons.prems] by blast
  then show ?case using Cons.IH [OF c1(2)] ctx_fatal_step [OF Cons.prems c1(1), of ops] by simp
qed simp

lemma LoadFirstFatalError_typed:
  assumes "ctx_typed c"
  shows "LoadFirstFatalError c = Some (case ctx_fatal c of None \<Rightarrow> ([], False) | Some e \<Rightarrow> (e, True))"
  using ctx_typedD [OF assms, of AppCtxFirstFatalErrorKey]
  by (auto simp: LoadFirstFatalError_def ctx_Load_def ctx_fatal_def split: option.splits
      dest!: key_typed_fatal)

text \<open>The application context keeps the root cause of a failure.  Whatever sequence of
  stores, deletions and release updates is made on a new context, no accessor panics, and the fatal
  error that is loaded is the first one stored since the key was last deleted: later ones are
  dropped, and there is none exactly when none was stored.\<close>

theorem first_fatal_error_kept:
  "\<exists>c. ctx_run NewApplicationContext ops = Some c \<and>
       LoadFirstFatalError c =
         Some (case fatal_after None ops of None \<Rightarrow> ([], False) | Some e \<Rightarrow> (e, True))"
proof -
  have t: "ctx_typed NewApplicationContext" and f: "ctx_fatal NewApplicationContext = None"
    by (simp_all add: ctx_typed_def NewApplicationContext_def ctx_fatal_def)
  from ctx_run_fatal [OF t, of ops] show ?thesis
    by (auto simp: f dest: LoadFirstFatalError_typed)
qed

section \<open>The runtime release string\<close>

lemma strings_Join_length:
  "fs \<noteq> [] \<Longrightarrow> length (strings_Join fs sep) + length sep
     = sum_list (map length fs) + length fs * length sep"
  by (induction fs sep rule: strings_Join.induct) auto

lemma append_features_split: "\<exists>ks. append_features a n acc fs = acc @ ks \<and> subseq ks fs"
proof (induction fs arbitrary: a n acc)
  case (Cons f fs)
  obtain ks where k: "append_features (a - int (length f)) (n + 1) (acc @ [f]) fs = acc @ f # ks" "subseq ks fs"
    using Cons.IH [of "a - int (length f)" "n + 1" "acc @ [f]"] by auto
  obtain ks' where k': "append_features a n acc fs = acc @ ks'" "subseq ks' fs"
    using Cons.IH by blast
  show ?case
  proof (cases "int (length f) \<le> a - n")
    case True
    then have "append_features a n acc (f # fs) = acc @ f # ks" using k(1) by simp
    then show ?thesis using k(2) by (metis subseq_Cons2)
  next
    case False
    then have "append_features a n acc (f # fs) = acc @ ks'" using k'(1) by simp
    then show ?thesis using k'(2) by (metis list_emb_Cons)
  qed
qed (simp add: exI [of _ "[]"])

lemma append_features_fits:
  assumes "n = int (length acc)" "acc \<noteq> [] \<Longrightarrow> n - 1 \<le> a" "append_features a n acc fs \<noteq> []"
  shows "int (sum_list (map length (append_features a n acc fs))) + int (length (append_features a n acc fs)) - 1
           \<le> a + int (sum_list (map length acc))"
  using assms
proof (induction fs arbitrary: a n acc)
  case (Cons f fs)
  show ?case
  proof (cases "int (length f) \<le> a - n")
    case True
    then show ?thesis
      using Cons.IH [of "n + 1" "acc @ [f]" "a - int (length f)"] Cons.prems by simp
  next
    case False
    then show ?thesis using Cons.IH [of n acc a] Cons.prems by simp
  qed
qed simp

lemma fields_from_chars: "f \<in> set (fields_from cur s) \<Longrightarrow> set f \<subseteq> set cur \<union> set s"
proof (induction cur s arbitrary: f rule: fields_from.induct)
  case (2 cur c cs)
  show ?case
  proof (cases "space_len (c # cs) = 0")
    case True
    then show ?thesis using 2(1) [OF refl True, of f] 2(3) by auto
  next
    case False
    then show ?thesis
      using 2(2) [OF refl False, of f] 2(3) set_drop_subset [of "space_len (c # cs) - 1" cs]
      by (auto simp: Let_def split: if_splits)
  qed
qed (auto split: if_splits)

lemma fields_from_nonempty: "f \<in> set (fields_from cur s) \<Longrightarrow> f \<noteq> []"
proof (induction cur s arbitrary: f rule: fields_from.induct)
  case (2 cur c cs)
  show ?case
  proof (cases "space_len (c # cs) = 0")
    case True
    then show ?thesis using 2(1) [OF refl True, of f] 2(3) by auto
  next
    case False
    then show ?thesis using 2(2) [OF refl False, of f] 2(3) by (auto simp: Let_def split: if_splits)
  qed
qed (auto split: if_splits)

lemma Fields_nonempty: "f \<in> set (Fields s) \<Longrightarrow> f \<noteq> []"
  unfolding Fields_def by (rule fields_from_nonempty)

lemma Fields_strip_parens: "f \<in> set (Fields (strip_parens s)) \<Longrightarrow> CHR ''('' \<notin> set f \<and> CHR '')'' \<notin> set f"
  using fields_from_chars [of f "[]" "strip_parens s"] by (auto simp: Fields_def strip_parens_def)

definition release_base :: "string \<Rightarrow> string" where
  "release_base rel = (if rel = [] then ''Unknown'' else rel)"

lemma CreateRuntimeRelease_cases:
  obtains (plain) "CreateRuntimeReleaseFromRequest request rel = rel"
  | (features) fs where "fs \<noteq> []" "subseq fs (Fields (strip_parens (Lambda_Runtime_Features request)))"
      "CreateRuntimeReleaseFromRequest request rel
         = release_base rel @ '' ('' @ strings_Join fs '' '' @ '')''"
      "length (CreateRuntimeReleaseFromRequest request rel) \<le> 128"
proof -
  define flds where "flds = Fields (strip_parens (Lambda_Runtime_Features request))"
  define a where "a = 125 - int (length (release_base rel))"
  define fs where "fs = append_features a 0 [] flds"
  have C: "CreateRuntimeReleaseFromRequest request rel =
      (if fs \<noteq> [] then release_base rel @ '' ('' @ strings_Join fs '' '' @ '')'' else rel)"
    by (simp add: CreateRuntimeReleaseFromRequest_def Let_def fs_def flds_def a_def
        release_base_def MaxRuntimeReleaseLength_def)
  have sub: "subseq fs flds" using append_features_split [of a 0 "[]" flds] by (auto simp: fs_def)
  show thesis
  proof (cases "fs = []")
    case True
    then show thesis using plain C by simp
  next
    case False
    have "length (strings_Join fs '' '') + 1 = sum_list (map length fs) + length fs"
      using strings_Join_length [OF False, of "'' ''"] by simp
    moreover have "int (sum_list (map length fs)) + int (length fs) - 1 \<le> a"
      using append_features_fits [of 0 "[]" a flds] False by (simp add: fs_def)
    ultimately have "length (CreateRuntimeReleaseFromRequest request rel) \<le> 128"
      using C False by (simp add: a_def)
    then show thesis using features [OF False sub [unfolded flds_def]] C False by simp
  qed
qed

text \<open>The runtime release sent to the platform.  Appending the features of a request keeps a
  subsequence of the tokens of its header, none of them empty or with a bracket; when none fits the
  release is unchanged (a user agent is never cut), and otherwise the result is the release, or
  \<open>Unknown\<close>, followed by the bracketed list, and has at most 128 bytes.\<close>

theorem runtime_release_bounded:
  "\<exists>fs. subseq fs (Fields (strip_parens (Lambda_Runtime_Features request))) \<and>
        list_all (\<lambda>f. f \<noteq> [] \<and> CHR ''('' \<notin> set f \<and> CHR '')'' \<notin> set f) fs \<and>
        (if fs = [] then CreateRuntimeReleaseFromRequest request rel = rel
         else CreateRuntimeReleaseFromRequest request rel
                = release_base rel @ '' ('' @ strings_Join fs '' '' @ '')'' \<and>
              length (CreateRuntimeReleaseFromRequest request rel) \<le> 128)"
proof (cases rule: CreateRuntimeRelease_cases [of request rel])
  case plain
  then show ?thesis by (intro exI [of _ "[]"]) simp
next
  case (features fs)
  have "list_all (\<lambda>f. f \<noteq> [] \<and> CHR ''('' \<notin> set f \<and> CHR '')'' \<notin> set f) fs"
    unfolding list_all_iff
  proof
    fix f assume "f \<in> set fs"
    then have "f \<in> set (Fields (strip_parens (Lambda_Runtime_Features request)))"
      using list_emb_set [OF features(2)] by metis
    then show "f \<noteq> [] \<and> CHR ''('' \<notin> set f \<and> CHR '')'' \<notin> set f"
      using Fields_nonempty Fields_strip_parens by simp
  qed
  then show ?thesis using features by (intro exI [of _ fs]) simp
qed

lemma UpdateAppCtx_closed:
  assumes "GetRuntimeRelease c = Some rel" "rel \<noteq> []" "last rel = CHR '')''"
  shows "UpdateAppCtxWithRuntimeRelease r c = Some (False, c)"
  using assms by (simp add: UpdateAppCtxWithRuntimeRelease_def last_conv_nth Let_def)

text \<open>Features are appended once.  When a request extends a stored runtime release, the
  release becomes the old one followed by a bracketed list, and from then on no request, whatever
  its headers, changes it again.\<close>

theorem release_features_appended_once:
  assumes "GetRuntimeRelease c = Some cur" and "cur \<noteq> []"
    and "UpdateAppCtxWithRuntimeRelease r c = Some (True, c')"
  shows "\<exists>rel. GetRuntimeRelease c' = Some rel \<and> prefix (cur @ '' ('') rel \<and> length rel \<le> 128 \<and>
           UpdateAppCtxWithRuntimeRelease r' c' = Some (False, c')"
proof -
  define rel where "rel = CreateRuntimeReleaseFromRequest r cur"
  have new: "length cur < length rel" "c' = ctx_Store c AppCtxRuntimeReleaseKey (VString rel)"
    using assms by (auto simp: UpdateAppCtxWithRuntimeRelease_def Let_def rel_def split: if_splits)
  then have rel: "GetRuntimeRelease c' = Some rel"
    by (simp add: GetRuntimeRelease_def ctx_defs)
  show ?thesis
  proof (cases rule: CreateRuntimeRelease_cases [of r cur])
    case plain
    then show ?thesis using new(1) by (simp add: rel_def)
  next
    case (features fs)
    then have "rel = (cur @ '' ('') @ strings_Join fs '' '' @ '')''" "length rel \<le> 128"
      using assms(2) by (simp_all add: rel_def release_base_def)
    then show ?thesis using rel UpdateAppCtx_closed [OF rel] by (auto intro: prefixI)
  qed
qed

definition sample_request :: http_request where
  "sample_request = \<lparr>User_Agent = ''a/1'', Lambda_Runtime_Features = ''f (g)''\<rparr>"

definition sample_ctx :: applicationContext where
  "sample_ctx = \<lparr>ctx_m = [(AppCtxRuntimeReleaseKey, VString ''a/1'')]\<rparr>"

theorem release_features_appended_once_witness:
  "GetRuntimeRelease sample_ctx = Some ''a/1'' \<and>
   (\<exists>rel. GetRuntimeRelease (ctx_Store sample_ctx AppCtxRuntimeReleaseKey (VString ''a/1 (f g)'')) = Some rel \<and>
      prefix (''a/1'' @ '' ('') rel \<and> length rel \<le> 128 \<and>
      UpdateAppCtxWithRuntimeRelease sample_request
        (ctx_Store sample_ctx AppCtxRuntimeReleaseKey (VString ''a/1 (f g)''))
      = Some (False, ctx_Store sample_ctx AppCtxRuntimeReleaseKey (VString ''a/1 (f g)'')))"
proof
  show g: "GetRuntimeRelease sample_ctx = Some ''a/1''" by code_simp
  have u: "UpdateAppCtxWithRuntimeRelease sample_request sample_ctx
      = Some (True, ctx_Store sample_ctx AppCtxRuntimeReleaseKey (VString ''a/1 (f g)''))"
    by code_simp
  show "\<exists>rel. GetRuntimeRelease (ctx_Store sample_ctx AppCtxRuntimeReleaseKey (VString ''a/1 (f g)'')) = Some rel \<and>
      prefix (''a/1'' @ '' ('') rel \<and> length rel \<le> 128 \<and>
      UpdateAppCtxWithRuntimeRelease sample_request
        (ctx_Store sample_ctx AppCtxRuntimeReleaseKey (VString ''a/1 (f g)''))
      = Some (False, ctx_Store sample_ctx AppCtxRuntimeReleaseKey (VString ''a/1 (f g)''))"
    by (rule release_features_appended_once [OF g _ u]) simp
qed

end
