(* ===== verification/Environment.thy ===== *)
theory Environment
  imports Prelude
begin

text \<open>
  Environment variables of the runtime and of the extensions
  (\<open>internal/lambda/rapidcore/env\<close>).  The environment of the process is a list of
  \<open>key=value\<close> strings as the kernel hands it over; \<open>os.LookupEnv\<close> and \<open>os.Environ\<close> read it the way
  Go's \<open>syscall\<close> package does (the first entry of a key counts, the empty key is never found).
  The record \<open>Environment\<close> holds the maps of the Go struct; its maps are lists of entries in the order in
  which \<open>range\<close> visits them, and the theorems hold for every order.  \<open>log.Fatal\<close> ends the process:
  it is the left value of a sum, with the name of the offending variable where the code logs it.
\<close>

type_synonym env_map = "(string \<times> string) list"

section \<open>Splitting and reading the environment of the process\<close>

text \<open>\<open>strings.SplitN(s, "=", 2)\<close>: one part without a separator, two parts otherwise.\<close>

fun SplitN2 :: "string \<Rightarrow> string list" where
  "SplitN2 [] = [[]]"
| "SplitN2 (c # cs) = (if c = CHR ''='' then [[], cs] else case SplitN2 cs of p # ps \<Rightarrow> (c # p) # ps | [] \<Rightarrow> [[c]])"

definition SplitEnvironmentVariable :: "string \<Rightarrow> (string \<times> string) option" where
  "SplitEnvironmentVariable envKeyVal =
    (let splitKeyVal = SplitN2 envKeyVal
     in if length splitKeyVal < 2 then None else Some (splitKeyVal ! 0, splitKeyVal ! 1))"

fun os_LookupEnv :: "string list \<Rightarrow> string \<Rightarrow> string option" where
  "os_LookupEnv [] key = None"
| "os_LookupEnv (s # ss) key =
    (case SplitEnvironmentVariable s of
       Some (k, v) \<Rightarrow> if key \<noteq> [] \<and> k = key then Some v else os_LookupEnv ss key
     | None \<Rightarrow> os_LookupEnv ss key)"

fun os_Environ_from :: "string list \<Rightarrow> string list \<Rightarrow> string list" where
  "os_Environ_from seen [] = []"
| "os_Environ_from seen (s # ss) =
    (case SplitEnvironmentVariable s of
       None \<Rightarrow> if s = [] then os_Environ_from seen ss else s # os_Environ_from seen ss
     | Some (k, v) \<Rightarrow> if k \<in> set seen then os_Environ_from seen ss else s # os_Environ_from (k # seen) ss)"

definition os_Environ :: "string list \<Rightarrow> string list" where
  "os_Environ env = os_Environ_from [] env"

section \<open>Predefined keys\<close>

definition predefinedInternalEnvVarKeys :: "string list" where
  "predefinedInternalEnvVarKeys =
    [''_LAMBDA_SB_ID'', ''_LAMBDA_LOG_FD'', ''_LAMBDA_SHARED_MEM_FD'', ''_LAMBDA_CONTROL_SOCKET'',
     ''_LAMBDA_DIRECT_INVOKE_SOCKET'', ''_LAMBDA_RUNTIME_LOAD_TIME'', ''_LAMBDA_CONSOLE_SOCKET'',
     ''_X_AMZN_TRACE_ID'', ''_LAMBDA_TELEMETRY_API_PASSPHRASE'']"

definition predefinedPlatformEnvVarKeys :: "string list" where
  "predefinedPlatformEnvVarKeys =
    [''AWS_REGION'', ''AWS_DEFAULT_REGION'', ''AWS_LAMBDA_FUNCTION_NAME'', ''AWS_LAMBDA_FUNCTION_MEMORY_SIZE'',
     ''AWS_LAMBDA_FUNCTION_VERSION'', ''AWS_LAMBDA_RUNTIME_API'', ''AWS_LAMBDA_METADATA_API'',
     ''AWS_LAMBDA_METADATA_TOKEN'', ''TZ'']"

definition predefinedRuntimeEnvVarKeys :: "string list" where
  "predefinedRuntimeEnvVarKeys =
    [''_HANDLER'', ''AWS_EXECUTION_ENV'', ''AWS_LAMBDA_LOG_GROUP_NAME'', ''AWS_LAMBDA_LOG_STREAM_NAME'',
     ''LAMBDA_TASK_ROOT'', ''LAMBDA_RUNTIME_DIR'']"

definition predefinedPlatformUnreservedEnvVarKeys :: "string list" where
  "predefinedPlatformUnreservedEnvVarKeys = [''AWS_XRAY_DAEMON_ADDRESS'']"

definition predefinedCredentialsEnvVarKeys :: "string list" where
  "predefinedCredentialsEnvVarKeys = [''AWS_ACCESS_KEY_ID'', ''AWS_SECRET_ACCESS_KEY'', ''AWS_SESSION_TOKEN'']"

definition extensionExcludedKeys :: "string list" where
  "extensionExcludedKeys =
    [''AWS_XRAY_CONTEXT_MISSING'', ''_AWS_XRAY_DAEMON_ADDRESS'', ''_AWS_XRAY_DAEMON_PORT'', ''_LAMBDA_TELEMETRY_LOG_FD'']"

definition has_underscore_prefix :: "string \<Rightarrow> bool" where
  "has_underscore_prefix key = (case key of c # _ \<Rightarrow> c = CHR ''_'' | [] \<Rightarrow> False)"

section \<open>Maps of variables\<close>

definition mapUnion :: "env_map list \<Rightarrow> env_map" where
  "mapUnion maps = fold (\<lambda>m union. fold (\<lambda>(key, val). go_map_set key val) m union) maps []"

definition mapExclude :: "env_map \<Rightarrow> (string \<Rightarrow> bool) \<Rightarrow> env_map" where
  "mapExclude m excludeCondition =
    fold (\<lambda>(key, val) res. if \<not> excludeCondition key then go_map_set key val res else res) m []"

definition lookupEnv :: "string list \<Rightarrow> string list \<Rightarrow> env_map" where
  "lookupEnv env keys =
    fold (\<lambda>key res. case os_LookupEnv env key of Some val \<Rightarrow> go_map_set key val res | None \<Rightarrow> res) keys []"

section \<open>The environment\<close>

record Environment =
  Customer :: env_map
  rapid :: env_map
  platform :: env_map
  runtime :: env_map
  platformUnreserved :: env_map
  credentials :: env_map
  runtimeAPISet :: bool
  initEnvVarsSet :: bool

definition NewEnvironment :: "string list \<Rightarrow> Environment" where
  "NewEnvironment env =
    \<lparr>Customer = [],
     rapid = lookupEnv env predefinedInternalEnvVarKeys,
     platform = lookupEnv env predefinedPlatformEnvVarKeys,
     runtime = lookupEnv env predefinedRuntimeEnvVarKeys,
     platformUnreserved = lookupEnv env predefinedPlatformUnreservedEnvVarKeys,
     credentials = [],
     runtimeAPISet = False,
     initEnvVarsSet = False\<rparr>"

definition StoreRuntimeAPIEnvironmentVariable :: "string \<Rightarrow> Environment \<Rightarrow> Environment" where
  "StoreRuntimeAPIEnvironmentVariable runtimeAPIAddress e =
    e\<lparr>platform := go_map_set ''AWS_LAMBDA_RUNTIME_API'' runtimeAPIAddress (platform e), runtimeAPISet := True\<rparr>"

definition StoreMetadataAPIEnvironmentVariables :: "string \<Rightarrow> string \<Rightarrow> Environment \<Rightarrow> Environment" where
  "StoreMetadataAPIEnvironmentVariables metadataAPIAddress metadataToken e =
    e\<lparr>platform := go_map_set ''AWS_LAMBDA_METADATA_TOKEN'' metadataToken
                   (go_map_set ''AWS_LAMBDA_METADATA_API'' metadataAPIAddress (platform e))\<rparr>"

definition SetHandler :: "string \<Rightarrow> Environment \<Rightarrow> Environment" where
  "SetHandler handler e = e\<lparr>runtime := go_map_set ''_HANDLER'' handler (runtime e)\<rparr>"

text \<open>Reading an absent key of a Go map gives the empty string.\<close>

definition map_get :: "env_map \<Rightarrow> string \<Rightarrow> string" where
  "map_get m k = (case map_of m k of Some v \<Rightarrow> v | None \<Rightarrow> [])"

definition GetExecutionEnv :: "Environment \<Rightarrow> string" where
  "GetExecutionEnv e = map_get (runtime e) ''AWS_EXECUTION_ENV''"

definition SetExecutionEnv :: "string \<Rightarrow> Environment \<Rightarrow> Environment" where
  "SetExecutionEnv executionEnv e = e\<lparr>runtime := go_map_set ''AWS_EXECUTION_ENV'' executionEnv (runtime e)\<rparr>"

definition SetTaskRoot :: "string \<Rightarrow> Environment \<Rightarrow> Environment" where
  "SetTaskRoot taskRoot e = e\<lparr>runtime := go_map_set ''LAMBDA_TASK_ROOT'' taskRoot (runtime e)\<rparr>"

definition SetRuntimeDir :: "string \<Rightarrow> Environment \<Rightarrow> Environment" where
  "SetRuntimeDir runtimeDir e = e\<lparr>runtime := go_map_set ''LAMBDA_RUNTIME_DIR'' runtimeDir (runtime e)\<rparr>"

definition mergeCustomerEnvironmentVariables :: "env_map \<Rightarrow> Environment \<Rightarrow> Environment" where
  "mergeCustomerEnvironmentVariables envVars e = e\<lparr>Customer := mapUnion [Customer e, envVars]\<rparr>"

definition storeNonCredentialEnvironmentVariablesFromInit ::
  "env_map \<Rightarrow> string \<Rightarrow> string \<Rightarrow> string \<Rightarrow> Environment \<Rightarrow> Environment" where
  "storeNonCredentialEnvironmentVariablesFromInit customerEnv handler funcName funcVer e =
    (let e1 = (if handler \<noteq> [] then SetHandler handler e else e);
         e2 = (if funcName \<noteq> []
               then e1\<lparr>platform := go_map_set ''AWS_LAMBDA_FUNCTION_NAME'' funcName (platform e1)\<rparr> else e1);
         e3 = (if funcVer \<noteq> []
               then e2\<lparr>platform := go_map_set ''AWS_LAMBDA_FUNCTION_VERSION'' funcVer (platform e2)\<rparr> else e2)
     in (mergeCustomerEnvironmentVariables customerEnv e3)\<lparr>initEnvVarsSet := True\<rparr>)"

definition StoreEnvironmentVariablesFromInit ::
  "env_map \<Rightarrow> string \<Rightarrow> string \<Rightarrow> string \<Rightarrow> string \<Rightarrow> string \<Rightarrow> string \<Rightarrow> Environment \<Rightarrow> Environment" where
  "StoreEnvironmentVariablesFromInit customerEnv handler awsKey awsSecret awsSession funcName funcVer e =
    storeNonCredentialEnvironmentVariablesFromInit customerEnv handler funcName funcVer
      (e\<lparr>credentials := go_map_set ''AWS_SESSION_TOKEN'' awsSession
                         (go_map_set ''AWS_SECRET_ACCESS_KEY'' awsSecret
                           (go_map_set ''AWS_ACCESS_KEY_ID'' awsKey (credentials e)))\<rparr>)"

definition StoreEnvironmentVariablesFromInitForInitCaching ::
  "string \<Rightarrow> int \<Rightarrow> env_map \<Rightarrow> string \<Rightarrow> string \<Rightarrow> string \<Rightarrow> string \<Rightarrow> Environment \<Rightarrow> Environment" where
  "StoreEnvironmentVariablesFromInitForInitCaching host port customerEnv handler funcName funcVer token e =
    storeNonCredentialEnvironmentVariablesFromInit customerEnv handler funcName funcVer
      (e\<lparr>credentials := go_map_set ''AWS_CONTAINER_AUTHORIZATION_TOKEN'' token
                         (go_map_set ''AWS_CONTAINER_CREDENTIALS_FULL_URI''
                           (''http://'' @ host @ '':'' @ int_dec port @ ''/2021-04-23/credentials'')
                           (credentials e))\<rparr>)"

definition StoreEnvironmentVariablesFromCLIOptions :: "env_map \<Rightarrow> Environment \<Rightarrow> Environment" where
  "StoreEnvironmentVariablesFromCLIOptions envVars e = mergeCustomerEnvironmentVariables envVars e"

datatype env_fatal =
    EnvironmentNotSet
  | EnvVarNotSet string
  | EnvVarNotInt string
  | NegativeSocket string

definition RuntimeExecEnv :: "Environment \<Rightarrow> env_fatal + env_map" where
  "RuntimeExecEnv e =
    (if \<not> initEnvVarsSet e \<or> \<not> runtimeAPISet e then Inl EnvironmentNotSet
     else Inr (mapUnion [Customer e, platformUnreserved e, credentials e, runtime e, platform e]))"

definition agent_excluded :: "string \<Rightarrow> bool" where
  "agent_excluded key = (key \<in> set extensionExcludedKeys \<or> has_underscore_prefix key)"

definition AgentExecEnv :: "Environment \<Rightarrow> env_fatal + env_map" where
  "AgentExecEnv e =
    (if \<not> initEnvVarsSet e \<or> \<not> runtimeAPISet e then Inl EnvironmentNotSet
     else Inr (mapExclude (mapUnion [Customer e, credentials e, platform e]) agent_excluded))"

section \<open>Customer variables\<close>

definition isInternalEnvVar :: "string \<Rightarrow> bool" where
  "isInternalEnvVar envKey =
    (has_underscore_prefix envKey \<and>
     envKey \<notin> set [''_HANDLER'', ''_AWS_XRAY_DAEMON_ADDRESS'', ''_AWS_XRAY_DAEMON_PORT'', ''_LAMBDA_TELEMETRY_LOG_FD''])"

definition isCustomer :: "string \<Rightarrow> bool" where
  "isCustomer key =
    (key \<notin> set predefinedInternalEnvVarKeys \<and> key \<notin> set predefinedRuntimeEnvVarKeys \<and>
     key \<notin> set predefinedPlatformEnvVarKeys \<and> key \<notin> set predefinedCredentialsEnvVarKeys \<and>
     key \<notin> set predefinedPlatformUnreservedEnvVarKeys \<and> \<not> isInternalEnvVar key)"

definition customer_step :: "string \<Rightarrow> env_map \<Rightarrow> env_map" where
  "customer_step keyval customerEnv =
    (case SplitEnvironmentVariable keyval of
       None \<Rightarrow> customerEnv
     | Some (key, val) \<Rightarrow> if isCustomer key then go_map_set key val customerEnv else customerEnv)"

definition CustomerEnvironmentVariables :: "string list \<Rightarrow> env_map" where
  "CustomerEnvironmentVariables env = fold customer_step (os_Environ env) []"

section \<open>Configuration of the process\<close>

record RapidConfig =
  SbID :: string
  LogFd :: int
  ShmFd :: int
  CtrlFd :: int
  CnslFd :: int
  DirectInvokeFd :: int
  LambdaTaskRoot :: string
  XrayDaemonAddress :: string
  PreLoadTimeNs :: int
  FunctionName :: string
  TelemetryAPIPassphrase :: string

text \<open>The readers end the process or return a value; those of sockets also mark the descriptor
  close-on-exec, which is recorded in the list threaded through them.\<close>

fun or_die :: "env_fatal + 'a \<Rightarrow> ('a \<Rightarrow> env_fatal + 'b) \<Rightarrow> env_fatal + 'b" where
  "or_die (Inl x) f = Inl x"
| "or_die (Inr a) f = f a"

definition getStrEnvVarOrDie :: "env_map \<Rightarrow> string \<Rightarrow> env_fatal + string" where
  "getStrEnvVarOrDie env name = (case map_of env name of None \<Rightarrow> Inl (EnvVarNotSet name) | Some val \<Rightarrow> Inr val)"

definition getInt64EnvVarOrDie :: "env_map \<Rightarrow> string \<Rightarrow> env_fatal + int" where
  "getInt64EnvVarOrDie env name =
    or_die (getStrEnvVarOrDie env name)
      (\<lambda>strval. case parse_int64 strval of None \<Rightarrow> Inl (EnvVarNotInt name) | Some val \<Rightarrow> Inr val)"

definition getIntEnvVarOrDie :: "env_map \<Rightarrow> string \<Rightarrow> env_fatal + int" where
  "getIntEnvVarOrDie env name = getInt64EnvVarOrDie env name"

definition getSocketEnvVarOrDie :: "env_map \<Rightarrow> string \<Rightarrow> int list \<Rightarrow> env_fatal + (int \<times> int list)" where
  "getSocketEnvVarOrDie env name closed =
    or_die (getIntEnvVarOrDie env name) (\<lambda>sock. Inr (sock, sock # closed))"

definition getOptionalSocketEnvVar :: "env_map \<Rightarrow> string \<Rightarrow> int list \<Rightarrow> env_fatal + (int \<times> int list)" where
  "getOptionalSocketEnvVar env name closed =
    (case map_of env name of
       None \<Rightarrow> Inr (-1, closed)
     | Some val \<Rightarrow>
        (case parse_int64 val of
           None \<Rightarrow> Inl (EnvVarNotInt name)
         | Some sock \<Rightarrow> if sock < 0 then Inl (NegativeSocket name) else Inr (sock, sock # closed)))"

definition NewRapidConfig :: "Environment \<Rightarrow> env_fatal + (RapidConfig \<times> int list)" where
  "NewRapidConfig e =
    or_die (getStrEnvVarOrDie (rapid e) ''_LAMBDA_SB_ID'') (\<lambda>sbid.
    or_die (getSocketEnvVarOrDie (rapid e) ''_LAMBDA_LOG_FD'' []) (\<lambda>(logfd, cx1).
    or_die (getSocketEnvVarOrDie (rapid e) ''_LAMBDA_SHARED_MEM_FD'' cx1) (\<lambda>(shmfd, cx2).
    or_die (getSocketEnvVarOrDie (rapid e) ''_LAMBDA_CONTROL_SOCKET'' cx2) (\<lambda>(ctrlfd, cx3).
    or_die (getSocketEnvVarOrDie (rapid e) ''_LAMBDA_CONSOLE_SOCKET'' cx3) (\<lambda>(cnslfd, cx4).
    or_die (getOptionalSocketEnvVar (rapid e) ''_LAMBDA_DIRECT_INVOKE_SOCKET'' cx4) (\<lambda>(difd, cx5).
    or_die (getInt64EnvVarOrDie (rapid e) ''_LAMBDA_RUNTIME_LOAD_TIME'') (\<lambda>preload.
    or_die (getStrEnvVarOrDie (runtime e) ''LAMBDA_TASK_ROOT'') (\<lambda>root.
    or_die (getStrEnvVarOrDie (platformUnreserved e) ''AWS_XRAY_DAEMON_ADDRESS'') (\<lambda>xray.
    or_die (getStrEnvVarOrDie (platform e) ''AWS_LAMBDA_FUNCTION_NAME'') (\<lambda>fname.
    Inr (\<lparr>SbID = sbid, LogFd = logfd, ShmFd = shmfd, CtrlFd = ctrlfd, CnslFd = cnslfd, DirectInvokeFd = difd,
          LambdaTaskRoot = root, XrayDaemonAddress = xray, PreLoadTimeNs = preload, FunctionName = fname,
          TelemetryAPIPassphrase = map_get (rapid e) ''_LAMBDA_TELEMETRY_API_PASSPHRASE''\<rparr>, cx5)))))))))))"

section \<open>Splitting: lemmas\<close>

lemma SplitN2_join: "CHR ''='' \<notin> set k \<Longrightarrow> SplitN2 (k @ CHR ''='' # v) = [k, v]"
  by (induction k) auto

lemma SplitN2_whole: "CHR ''='' \<notin> set s \<Longrightarrow> SplitN2 s = [s]"
  by (induction s) auto

lemma SplitEnvironmentVariable_None: "SplitEnvironmentVariable s = None \<longleftrightarrow> CHR ''='' \<notin> set s"
proof (cases "CHR ''='' \<in> set s")
  case True
  then obtain k v where "s = k @ CHR ''='' # v" "CHR ''='' \<notin> set k" using split_list_first by fast
  then show ?thesis by (simp add: SplitEnvironmentVariable_def SplitN2_join)
qed (simp add: SplitEnvironmentVariable_def SplitN2_whole)

lemma SplitEnvironmentVariable_Some:
  "SplitEnvironmentVariable s = Some (k, v) \<longleftrightarrow> s = k @ CHR ''='' # v \<and> CHR ''='' \<notin> set k"
proof
  assume s: "SplitEnvironmentVariable s = Some (k, v)"
  then have "CHR ''='' \<in> set s" using SplitEnvironmentVariable_None [of s] by auto
  then obtain k' v' where "s = k' @ CHR ''='' # v'" "CHR ''='' \<notin> set k'" using split_list_first by fast
  with s show "s = k @ CHR ''='' # v \<and> CHR ''='' \<notin> set k"
    by (auto simp: SplitEnvironmentVariable_def SplitN2_join Let_def)
qed (simp add: SplitEnvironmentVariable_def SplitN2_join Let_def)

text \<open>C36: An environment variable printed as \<open>key=value\<close> is split back into its key and value for every value,
  separators included, exactly when the key has no separator; a string splits into something exactly when it
  contains a separator, and the parts then print as the string again.\<close>

theorem split_env_var_roundtrip:
  "(SplitEnvironmentVariable (k @ CHR ''='' # v) = Some (k, v) \<longleftrightarrow> CHR ''='' \<notin> set k) \<and>
   (SplitEnvironmentVariable s = None \<longleftrightarrow> CHR ''='' \<notin> set s) \<and>
   (SplitEnvironmentVariable s = Some (k, v) \<longrightarrow> k @ CHR ''='' # v = s)"
  by (simp add: SplitEnvironmentVariable_None SplitEnvironmentVariable_Some)

theorem split_env_var_roundtrip_witness:
  "SplitEnvironmentVariable ''A=b=c'' = Some (''A'', ''b=c'') \<and> ''A'' @ CHR ''='' # ''b=c'' = ''A=b=c''"
proof -
  have "SplitEnvironmentVariable ''A=b=c'' = Some (''A'', ''b=c'')" by code_simp
  then show ?thesis using split_env_var_roundtrip [of "''A''" "''b=c''" "''A=b=c''"] by blast
qed

section \<open>Unions of maps\<close>

lemma map_of_fold_set:
  "map_of (fold (\<lambda>(key, val). go_map_set key val) m u) = map_of u ++ map_of (rev m)"
proof (induction m arbitrary: u)
  case (Cons p m)
  then show ?case by (cases p) (simp add: map_add_def fun_eq_iff split: option.splits)
qed simp

lemma map_of_rev_ok: "go_map_ok m \<Longrightarrow> map_of (rev m) = map_of m"
  by (rule map_of_eqI) (auto simp: go_map_ok_def rev_map [symmetric])

lemma go_map_ok_fold_set: "go_map_ok u \<Longrightarrow> go_map_ok (fold (\<lambda>(key, val). go_map_set key val) m u)"
  by (induction m arbitrary: u) auto

lemma mapUnion_ok [simp, intro]: "go_map_ok (mapUnion ms)"
proof -
  have "go_map_ok u \<Longrightarrow> go_map_ok (fold (\<lambda>m union. fold (\<lambda>(key, val). go_map_set key val) m union) ms u)" for u
    by (induction ms arbitrary: u) (auto intro: go_map_ok_fold_set)
  then show ?thesis by (simp add: mapUnion_def)
qed

lemma map_of_mapUnion:
  assumes "\<forall>m \<in> set ms. go_map_ok m"
  shows "map_of (mapUnion ms) = foldl (++) Map.empty (map map_of ms)"
proof -
  have "map_of (fold (\<lambda>m union. fold (\<lambda>(key, val). go_map_set key val) m union) ms u)
         = foldl (++) (map_of u) (map map_of ms)" for u
    using assms by (induction ms arbitrary: u) (simp_all add: map_of_fold_set map_of_rev_ok)
  then show ?thesis by (simp add: mapUnion_def)
qed

lemma map_of_mapExclude_fold:
  "map_of (fold (\<lambda>(key, val) res. if \<not> c key then go_map_set key val res else res) m u) k
    = (if c k then map_of u k else (map_of u ++ map_of (rev m)) k)"
proof (induction m arbitrary: u)
  case (Cons p m)
  then show ?case by (cases p) (auto simp: map_add_def split: option.splits)
qed simp

lemma map_of_mapExclude:
  "go_map_ok m \<Longrightarrow> map_of (mapExclude m c) k = (if c k then None else map_of m k)"
  by (simp add: mapExclude_def map_of_mapExclude_fold map_of_rev_ok)

lemma mapExclude_ok [simp, intro]: "go_map_ok (mapExclude m c)"
proof -
  have "go_map_ok u \<Longrightarrow> go_map_ok (fold (\<lambda>(key, val) res. if \<not> c key then go_map_set key val res else res) m u)" for u
    by (induction m arbitrary: u) (simp_all add: split_beta)
  then show ?thesis by (simp add: mapExclude_def)
qed

lemma map_of_lookupEnv:
  "map_of (lookupEnv env keys) k = (if k \<in> set keys then os_LookupEnv env k else None)"
proof -
  have "map_of (fold (\<lambda>key res. case os_LookupEnv env key of Some val \<Rightarrow> go_map_set key val res | None \<Rightarrow> res) keys u) k
         = (if k \<in> set keys \<and> os_LookupEnv env k \<noteq> None then os_LookupEnv env k else map_of u k)" for u
    by (induction keys arbitrary: u) (auto split: option.splits)
  then show ?thesis by (auto simp: lookupEnv_def)
qed

lemma lookupEnv_ok [simp, intro]: "go_map_ok (lookupEnv env keys)"
proof -
  have "go_map_ok u \<Longrightarrow> go_map_ok (fold (\<lambda>key res. case os_LookupEnv env key of Some val \<Rightarrow> go_map_set key val res | None \<Rightarrow> res) keys u)" for u
    by (induction keys arbitrary: u) (auto split: option.splits)
  then show ?thesis by (simp add: lookupEnv_def)
qed

lemma keys_lookupEnv: "fst ` set (lookupEnv env keys) \<subseteq> set keys"
proof
  fix k
  assume "k \<in> fst ` set (lookupEnv env keys)"
  then have "map_of (lookupEnv env keys) k \<noteq> None" by (simp add: map_of_None_iff_mem)
  then show "k \<in> set keys" by (simp add: map_of_lookupEnv split: if_splits)
qed

section \<open>Well-formed environments\<close>

text \<open>Each reserved map only ever holds keys of its own list; the customer's map is free.\<close>

definition credential_keys :: "string set" where
  "credential_keys = set predefinedCredentialsEnvVarKeys \<union>
    {''AWS_CONTAINER_CREDENTIALS_FULL_URI'', ''AWS_CONTAINER_AUTHORIZATION_TOKEN''}"

definition env_wf :: "Environment \<Rightarrow> bool" where
  "env_wf e \<longleftrightarrow>
    go_map_ok (Customer e) \<and> go_map_ok (rapid e) \<and> go_map_ok (platform e) \<and> go_map_ok (runtime e) \<and>
    go_map_ok (platformUnreserved e) \<and> go_map_ok (credentials e) \<and>
    fst ` set (rapid e) \<subseteq> set predefinedInternalEnvVarKeys \<and>
    fst ` set (platform e) \<subseteq> set predefinedPlatformEnvVarKeys \<and>
    fst ` set (runtime e) \<subseteq> set predefinedRuntimeEnvVarKeys \<and>
    fst ` set (platformUnreserved e) \<subseteq> set predefinedPlatformUnreservedEnvVarKeys \<and>
    fst ` set (credentials e) \<subseteq> credential_keys"

datatype env_op =
    OpRuntimeAPI string
  | OpMetadataAPI string string
  | OpHandler string
  | OpExecutionEnv string
  | OpTaskRoot string
  | OpRuntimeDir string
  | OpInit env_map string string string string string string
  | OpInitCaching string int env_map string string string string
  | OpCLI env_map

primrec env_apply :: "env_op \<Rightarrow> Environment \<Rightarrow> Environment" where
  "env_apply (OpRuntimeAPI a) e = StoreRuntimeAPIEnvironmentVariable a e"
| "env_apply (OpMetadataAPI a t) e = StoreMetadataAPIEnvironmentVariables a t e"
| "env_apply (OpHandler h) e = SetHandler h e"
| "env_apply (OpExecutionEnv x) e = SetExecutionEnv x e"
| "env_apply (OpTaskRoot x) e = SetTaskRoot x e"
| "env_apply (OpRuntimeDir x) e = SetRuntimeDir x e"
| "env_apply (OpInit c h k s t n v) e = StoreEnvironmentVariablesFromInit c h k s t n v e"
| "env_apply (OpInitCaching host p c h n v t) e = StoreEnvironmentVariablesFromInitForInitCaching host p c h n v t e"
| "env_apply (OpCLI c) e = StoreEnvironmentVariablesFromCLIOptions c e"

lemmas env_op_defs =
  StoreRuntimeAPIEnvironmentVariable_def StoreMetadataAPIEnvironmentVariables_def SetHandler_def SetExecutionEnv_def
  SetTaskRoot_def SetRuntimeDir_def StoreEnvironmentVariablesFromInit_def
  StoreEnvironmentVariablesFromInitForInitCaching_def StoreEnvironmentVariablesFromCLIOptions_def
  storeNonCredentialEnvironmentVariablesFromInit_def mergeCustomerEnvironmentVariables_def

lemmas env_key_defs =
  predefinedInternalEnvVarKeys_def predefinedPlatformEnvVarKeys_def predefinedRuntimeEnvVarKeys_def
  predefinedPlatformUnreservedEnvVarKeys_def predefinedCredentialsEnvVarKeys_def extensionExcludedKeys_def
  credential_keys_def

lemma env_wf_New: "env_wf (NewEnvironment env)"
  by (simp add: env_wf_def NewEnvironment_def keys_lookupEnv)

lemma env_wf_apply: "env_wf e \<Longrightarrow> env_wf (env_apply op e)"
  by (cases op) (auto simp: env_wf_def env_op_defs env_key_defs Let_def)

lemma env_wf_fold: "env_wf e \<Longrightarrow> env_wf (fold env_apply ops e)"
  by (induction ops arbitrary: e) (auto intro: env_wf_apply)

lemma env_wf_run: "env_wf (fold env_apply ops (NewEnvironment env))"
  by (rule env_wf_fold [OF env_wf_New])

text \<open>The two flags only rise, so that the processes can be started once both kinds of variables are stored.\<close>

lemma env_flags_mono: "(initEnvVarsSet e \<longrightarrow> initEnvVarsSet (env_apply op e)) \<and> (runtimeAPISet e \<longrightarrow> runtimeAPISet (env_apply op e))"
  by (cases op) (simp_all add: env_op_defs Let_def)

section \<open>What the processes see\<close>

lemma map_of_RuntimeExecEnv:
  assumes "env_wf e" "RuntimeExecEnv e = Inr m"
  shows "map_of m = map_of (Customer e) ++ map_of (platformUnreserved e) ++ map_of (credentials e)
                    ++ map_of (runtime e) ++ map_of (platform e)"
proof -
  have m: "m = mapUnion [Customer e, platformUnreserved e, credentials e, runtime e, platform e]"
    using assms by (simp add: RuntimeExecEnv_def split: if_splits)
  show ?thesis using assms(1) unfolding m by (subst map_of_mapUnion) (auto simp: env_wf_def)
qed

lemma map_of_AgentExecEnv:
  assumes "env_wf e" "AgentExecEnv e = Inr m"
  shows "map_of m k = (if agent_excluded k then None
                       else (map_of (Customer e) ++ map_of (credentials e) ++ map_of (platform e)) k)"
proof -
  have m: "m = mapExclude (mapUnion [Customer e, credentials e, platform e]) agent_excluded"
    using assms by (simp add: AgentExecEnv_def split: if_splits)
  have "map_of (mapUnion [Customer e, credentials e, platform e])
         = map_of (Customer e) ++ map_of (credentials e) ++ map_of (platform e)"
    using assms(1) by (subst map_of_mapUnion) (auto simp: env_wf_def)
  then show ?thesis by (simp add: m map_of_mapExclude)
qed

lemma exec_env_ready:
  "(\<exists>m. RuntimeExecEnv e = Inr m) \<longleftrightarrow> initEnvVarsSet e \<and> runtimeAPISet e"
  "(\<exists>m. AgentExecEnv e = Inr m) \<longleftrightarrow> initEnvVarsSet e \<and> runtimeAPISet e"
  by (auto simp: RuntimeExecEnv_def AgentExecEnv_def)

lemma wf_key_None:
  "env_wf e \<Longrightarrow> k \<notin> set predefinedPlatformEnvVarKeys \<Longrightarrow> map_of (platform e) k = None"
  "env_wf e \<Longrightarrow> k \<notin> set predefinedRuntimeEnvVarKeys \<Longrightarrow> map_of (runtime e) k = None"
  "env_wf e \<Longrightarrow> k \<notin> set predefinedPlatformUnreservedEnvVarKeys \<Longrightarrow> map_of (platformUnreserved e) k = None"
  "env_wf e \<Longrightarrow> k \<notin> credential_keys \<Longrightarrow> map_of (credentials e) k = None"
  by (auto simp: env_wf_def map_of_None_iff_mem)

lemma keys_disjoint:
  "k \<in> set predefinedRuntimeEnvVarKeys \<Longrightarrow> k \<notin> set predefinedPlatformEnvVarKeys"
  "k \<in> credential_keys \<Longrightarrow> k \<notin> set predefinedPlatformEnvVarKeys \<and> k \<notin> set predefinedRuntimeEnvVarKeys"
  "k \<in> set predefinedPlatformUnreservedEnvVarKeys \<Longrightarrow>
    k \<notin> set predefinedPlatformEnvVarKeys \<and> k \<notin> set predefinedRuntimeEnvVarKeys \<and> k \<notin> credential_keys"
  by (auto simp: env_key_defs)

lemma internal_keys_prefixed: "k \<in> set predefinedInternalEnvVarKeys \<Longrightarrow> has_underscore_prefix k"
  by (auto simp: env_key_defs has_underscore_prefix_def)

definition reserved_keys :: "string set" where
  "reserved_keys = set predefinedPlatformEnvVarKeys \<union> set predefinedRuntimeEnvVarKeys \<union>
    set predefinedPlatformUnreservedEnvVarKeys \<union> credential_keys"

text \<open>The environment as the platform prepares it before the processes start: the address of the runtime API
  and the variables of the init request, after any earlier operations.\<close>

definition prepared_env ::
  "string \<Rightarrow> env_map \<Rightarrow> string \<Rightarrow> string \<Rightarrow> string \<Rightarrow> string \<Rightarrow> string \<Rightarrow> string \<Rightarrow> Environment \<Rightarrow> Environment" where
  "prepared_env addr cust handler key secret session name ver e =
    StoreEnvironmentVariablesFromInit cust handler key secret session name ver
      (StoreRuntimeAPIEnvironmentVariable addr e)"

lemma prepared_wf: "env_wf e \<Longrightarrow> env_wf (prepared_env addr cust handler key secret session name ver e)"
  using env_wf_apply [of "StoreRuntimeAPIEnvironmentVariable addr e" "OpInit cust handler key secret session name ver"]
    env_wf_apply [of e "OpRuntimeAPI addr"] by (simp add: prepared_env_def)

lemma prepared_ready:
  "initEnvVarsSet (prepared_env addr cust handler key secret session name ver e)
   \<and> runtimeAPISet (prepared_env addr cust handler key secret session name ver e)"
  by (simp add: prepared_env_def env_op_defs Let_def)

lemma prepared_customer:
  assumes "go_map_ok cust" "go_map_ok (Customer e)"
  shows "map_of (Customer (prepared_env addr cust handler key secret session name ver e)) = map_of (Customer e) ++ map_of cust"
  using assms by (simp add: prepared_env_def env_op_defs Let_def map_of_mapUnion)

lemma unreserved_key_None:
  assumes "env_wf e" "k \<notin> reserved_keys"
  shows "map_of (platform e) k = None" "map_of (runtime e) k = None"
    "map_of (platformUnreserved e) k = None" "map_of (credentials e) k = None"
  using assms wf_key_None [of e k] by (simp_all add: reserved_keys_def)

lemma prepared_platform:
  assumes "name \<noteq> []" "ver \<noteq> []"
  shows "map_of (platform (prepared_env addr cust handler key secret session name ver e))
          = (map_of (platform e))(''AWS_LAMBDA_RUNTIME_API'' \<mapsto> addr, ''AWS_LAMBDA_FUNCTION_NAME'' \<mapsto> name,
                                  ''AWS_LAMBDA_FUNCTION_VERSION'' \<mapsto> ver)"
  using assms by (simp add: prepared_env_def env_op_defs Let_def)

lemma prepared_runtime:
  assumes "handler \<noteq> []"
  shows "map_of (runtime (prepared_env addr cust handler key secret session name ver e))
          = (map_of (runtime e))(''_HANDLER'' \<mapsto> handler)"
  using assms by (simp add: prepared_env_def env_op_defs Let_def)

lemma prepared_credentials:
  "map_of (credentials (prepared_env addr cust handler key secret session name ver e))
    = (map_of (credentials e))(''AWS_ACCESS_KEY_ID'' \<mapsto> key, ''AWS_SECRET_ACCESS_KEY'' \<mapsto> secret,
                               ''AWS_SESSION_TOKEN'' \<mapsto> session)"
  by (simp add: prepared_env_def env_op_defs Let_def)

lemma runtime_env_values:
  assumes wf: "env_wf e0" and "handler \<noteq> []" "name \<noteq> []" "ver \<noteq> []"
    and e: "e = prepared_env addr cust handler key secret session name ver e0" and m: "RuntimeExecEnv e = Inr m"
  shows "map_of m ''_HANDLER'' = Some handler" "map_of m ''AWS_ACCESS_KEY_ID'' = Some key"
    "map_of m ''AWS_SECRET_ACCESS_KEY'' = Some secret" "map_of m ''AWS_SESSION_TOKEN'' = Some session"
    "map_of m ''AWS_LAMBDA_FUNCTION_NAME'' = Some name" "map_of m ''AWS_LAMBDA_FUNCTION_VERSION'' = Some ver"
    "map_of m ''AWS_LAMBDA_RUNTIME_API'' = Some addr"
proof -
  have wf': "env_wf e" using prepared_wf [OF wf] e by simp
  note all = map_of_RuntimeExecEnv [OF wf' m] prepared_platform [OF assms(3,4), of addr cust handler key secret session e0]
    prepared_runtime [OF assms(2), of addr cust key secret session name ver e0]
    prepared_credentials [of addr cust handler key secret session name ver e0]
  have k: "map_of (platform e0) ''_HANDLER'' = None"
    "map_of (platform e0) ''AWS_ACCESS_KEY_ID'' = None" "map_of (runtime e0) ''AWS_ACCESS_KEY_ID'' = None"
    "map_of (platform e0) ''AWS_SECRET_ACCESS_KEY'' = None" "map_of (runtime e0) ''AWS_SECRET_ACCESS_KEY'' = None"
    "map_of (platform e0) ''AWS_SESSION_TOKEN'' = None" "map_of (runtime e0) ''AWS_SESSION_TOKEN'' = None"
    by (simp_all add: wf_key_None [OF wf] env_key_defs)
  show "map_of m ''_HANDLER'' = Some handler" "map_of m ''AWS_ACCESS_KEY_ID'' = Some key"
    "map_of m ''AWS_SECRET_ACCESS_KEY'' = Some secret" "map_of m ''AWS_SESSION_TOKEN'' = Some session"
    "map_of m ''AWS_LAMBDA_FUNCTION_NAME'' = Some name" "map_of m ''AWS_LAMBDA_FUNCTION_VERSION'' = Some ver"
    "map_of m ''AWS_LAMBDA_RUNTIME_API'' = Some addr"
    using all k e by (simp_all add: map_add_def)
qed

text \<open>Whatever the environment of the process, earlier operations and the customer's variables are, once the address
  of the runtime API and the init request are stored the runtime can be started and sees the handler, the
  credentials, the name and version of the function and that address; every key outside the reserved lists has the
  value of the init request, or else the one the customer had before.\<close>

theorem runtime_env_reserved_wins:
  assumes "handler \<noteq> []" "name \<noteq> []" "ver \<noteq> []" "go_map_ok cust"
    and e0: "e0 = fold env_apply ops (NewEnvironment os)"
  shows "\<exists>m. RuntimeExecEnv (prepared_env addr cust handler key secret session name ver e0) = Inr m \<and> go_map_ok m \<and>
    map_of m ''_HANDLER'' = Some handler \<and> map_of m ''AWS_ACCESS_KEY_ID'' = Some key \<and>
    map_of m ''AWS_SECRET_ACCESS_KEY'' = Some secret \<and> map_of m ''AWS_SESSION_TOKEN'' = Some session \<and>
    map_of m ''AWS_LAMBDA_FUNCTION_NAME'' = Some name \<and> map_of m ''AWS_LAMBDA_FUNCTION_VERSION'' = Some ver \<and>
    map_of m ''AWS_LAMBDA_RUNTIME_API'' = Some addr \<and>
    (\<forall>k. k \<notin> reserved_keys \<longrightarrow>
       map_of m k = (case map_of cust k of Some v \<Rightarrow> Some v | None \<Rightarrow> map_of (Customer e0) k))"
proof -
  let ?e = "prepared_env addr cust handler key secret session name ver e0"
  have wf0: "env_wf e0" using env_wf_run e0 by simp
  have wf: "env_wf ?e" by (rule prepared_wf [OF wf0])
  obtain m where m: "RuntimeExecEnv ?e = Inr m" using exec_env_ready(1) [of ?e] prepared_ready by blast
  have ok: "go_map_ok m" using m by (auto simp: RuntimeExecEnv_def split: if_splits)
  have "map_of m k = (case map_of cust k of Some v \<Rightarrow> Some v | None \<Rightarrow> map_of (Customer e0) k)"
    if "k \<notin> reserved_keys" for k
    using map_of_RuntimeExecEnv [OF wf m] unreserved_key_None [OF wf that] assms(4) wf0
    by (simp add: map_add_def prepared_customer env_wf_def)
  then show ?thesis using m ok runtime_env_values [OF wf0 assms(1-3) refl m] by blast
qed

theorem runtime_env_reserved_wins_witness:
  "\<exists>m. RuntimeExecEnv (prepared_env ''127.0.0.1:9001'' [(''_HANDLER'', ''evil''), (''STAGE'', ''dev'')] ''app.run''
      ''k'' ''s'' ''t'' ''fn'' ''1'' (NewEnvironment [''_HANDLER=old''])) = Inr m \<and>
    map_of m ''_HANDLER'' = Some ''app.run'' \<and> map_of m ''STAGE'' = Some ''dev''"
proof -
  have "''STAGE'' \<notin> reserved_keys" by (simp add: reserved_keys_def env_key_defs)
  then show ?thesis
    using runtime_env_reserved_wins [of "''app.run''" "''fn''" "''1''" "[(''_HANDLER'', ''evil''), (''STAGE'', ''dev'')]"
        "NewEnvironment [''_HANDLER=old'']" "[]" "[''_HANDLER=old'']" "''127.0.0.1:9001''" "''k''" "''s''" "''t''"]
    by (auto simp: go_map_ok_def)
qed

text \<open>An extension process never sees a variable whose name starts with an underscore, in particular none of the
  internal variables and not the handler, nor one of the excluded ones, even when the customer sets it; it sees the
  credentials and the name of the function, and the other unreserved variables as the runtime does.\<close>

theorem agent_env_hides_internal:
  assumes "name \<noteq> []" "ver \<noteq> []" "go_map_ok cust"
    and e0: "e0 = fold env_apply ops (NewEnvironment os)"
  shows "\<exists>m. AgentExecEnv (prepared_env addr cust handler key secret session name ver e0) = Inr m \<and> go_map_ok m \<and>
    (\<forall>k. has_underscore_prefix k \<or> k \<in> set extensionExcludedKeys \<or> k \<in> set predefinedInternalEnvVarKeys
         \<longrightarrow> map_of m k = None) \<and>
    map_of m ''AWS_ACCESS_KEY_ID'' = Some key \<and> map_of m ''AWS_LAMBDA_FUNCTION_NAME'' = Some name \<and>
    map_of m ''AWS_LAMBDA_RUNTIME_API'' = Some addr \<and>
    (\<forall>k. k \<notin> reserved_keys \<and> \<not> agent_excluded k \<longrightarrow>
       map_of m k = (case map_of cust k of Some v \<Rightarrow> Some v | None \<Rightarrow> map_of (Customer e0) k))"
proof -
  let ?e = "prepared_env addr cust handler key secret session name ver e0"
  have wf0: "env_wf e0" using env_wf_run e0 by simp
  have wf: "env_wf ?e" by (rule prepared_wf [OF wf0])
  obtain m where m: "AgentExecEnv ?e = Inr m" using exec_env_ready(2) [of ?e] prepared_ready by blast
  have ok: "go_map_ok m" using m by (auto simp: AgentExecEnv_def split: if_splits)
  have hidden: "map_of m k = None"
    if "has_underscore_prefix k \<or> k \<in> set extensionExcludedKeys \<or> k \<in> set predefinedInternalEnvVarKeys" for k
    using map_of_AgentExecEnv [OF wf m, of k] internal_keys_prefixed that by (auto simp: agent_excluded_def)
  have rest: "map_of m k = (case map_of cust k of Some v \<Rightarrow> Some v | None \<Rightarrow> map_of (Customer e0) k)"
    if "k \<notin> reserved_keys" "\<not> agent_excluded k" for k
    using map_of_AgentExecEnv [OF wf m, of k] unreserved_key_None [OF wf that(1)] assms(3) wf0 that(2)
    by (simp add: map_add_def prepared_customer env_wf_def)
  have k: "map_of (platform e0) ''AWS_ACCESS_KEY_ID'' = None" by (simp add: wf_key_None [OF wf0] env_key_defs)
  have "map_of m ''AWS_ACCESS_KEY_ID'' = Some key" "map_of m ''AWS_LAMBDA_FUNCTION_NAME'' = Some name"
    "map_of m ''AWS_LAMBDA_RUNTIME_API'' = Some addr"
    by (simp_all add: map_of_AgentExecEnv [OF wf m] agent_excluded_def has_underscore_prefix_def extensionExcludedKeys_def
        map_add_def prepared_platform [OF assms(1,2)] prepared_credentials k)
  with m ok hidden rest show ?thesis by blast
qed

theorem agent_env_hides_internal_witness:
  "\<exists>m. AgentExecEnv (prepared_env ''127.0.0.1:9001'' [(''_LAMBDA_SB_ID'', ''x''), (''STAGE'', ''dev'')] ''app.run''
      ''k'' ''s'' ''t'' ''fn'' ''1'' (NewEnvironment [''_LAMBDA_SB_ID=7''])) = Inr m \<and>
    map_of m ''_LAMBDA_SB_ID'' = None \<and> map_of m ''STAGE'' = Some ''dev''"
proof -
  have "''STAGE'' \<notin> reserved_keys" "\<not> agent_excluded ''STAGE''" "has_underscore_prefix ''_LAMBDA_SB_ID''"
    by (simp_all add: reserved_keys_def env_key_defs agent_excluded_def has_underscore_prefix_def)
  then show ?thesis
    using agent_env_hides_internal [of "''fn''" "''1''" "[(''_LAMBDA_SB_ID'', ''x''), (''STAGE'', ''dev'')]"
        "NewEnvironment [''_LAMBDA_SB_ID=7'']" "[]" "[''_LAMBDA_SB_ID=7'']" "''127.0.0.1:9001''" "''app.run''" "''k''" "''s''" "''t''"]
    by (auto simp: go_map_ok_def)
qed

text \<open>The unreserved variables of the platform are documented as overridable by the customer; the union lets
  them win over the customer's value.\<close>

lemma xray_address_not_overridable:
  assumes "env_wf e" "map_of (platformUnreserved e) ''AWS_XRAY_DAEMON_ADDRESS'' = Some a" "RuntimeExecEnv e = Inr m"
  shows "map_of m ''AWS_XRAY_DAEMON_ADDRESS'' = Some a"
proof -
  have "map_of (platform e) ''AWS_XRAY_DAEMON_ADDRESS'' = None" "map_of (runtime e) ''AWS_XRAY_DAEMON_ADDRESS'' = None"
    "map_of (credentials e) ''AWS_XRAY_DAEMON_ADDRESS'' = None"
    by (simp_all add: wf_key_None [OF assms(1)] env_key_defs)
  then show ?thesis using assms(2) by (simp add: map_of_RuntimeExecEnv [OF assms(1,3)] map_add_def)
qed

section \<open>Customer variables of the process\<close>

lemma map_of_customer_step:
  "map_of (customer_step s u) k =
    (case SplitEnvironmentVariable s of
       Some (k', v) \<Rightarrow> if k' = k \<and> isCustomer k then Some v else map_of u k | None \<Rightarrow> map_of u k)"
  by (auto simp: customer_step_def split: option.splits)

lemma map_of_customer_seen:
  "k \<in> set seen \<Longrightarrow> map_of (fold customer_step (os_Environ_from seen env) u) k = map_of u k"
proof (induction env arbitrary: seen u)
  case (Cons s ss)
  then show ?case
    by (cases "SplitEnvironmentVariable s") (auto simp: map_of_customer_step)
qed simp

lemma map_of_customer_fold:
  assumes "k \<noteq> []"
  shows "k \<notin> set seen \<Longrightarrow> map_of (fold customer_step (os_Environ_from seen env) u) k
    = (if isCustomer k \<and> os_LookupEnv env k \<noteq> None then os_LookupEnv env k else map_of u k)"
proof (induction env arbitrary: seen u)
  case (Cons s ss)
  show ?case
  proof (cases "SplitEnvironmentVariable s")
    case None
    then show ?thesis using Cons by (auto simp: map_of_customer_step)
  next
    case (Some p)
    then show ?thesis
      using Cons assms by (cases p) (auto simp: map_of_customer_step map_of_customer_seen)
  qed
qed simp

text \<open>The customer's variables are exactly the variables of the process outside the predefined lists and
  without an internal name, with the values the process sees; together with the four maps of a new environment no
  variable is classified twice.\<close>

theorem customer_env_classification:
  assumes "k \<noteq> []"
  shows "map_of (CustomerEnvironmentVariables os) k = (if isCustomer k then os_LookupEnv os k else None) \<and>
    map_of (platform (NewEnvironment os)) k = (if k \<in> set predefinedPlatformEnvVarKeys then os_LookupEnv os k else None) \<and>
    map_of (runtime (NewEnvironment os)) k = (if k \<in> set predefinedRuntimeEnvVarKeys then os_LookupEnv os k else None) \<and>
    map_of (rapid (NewEnvironment os)) k = (if k \<in> set predefinedInternalEnvVarKeys then os_LookupEnv os k else None) \<and>
    length (filter (\<lambda>m. map_of m k \<noteq> None)
      [CustomerEnvironmentVariables os, rapid (NewEnvironment os), platform (NewEnvironment os),
       runtime (NewEnvironment os), platformUnreserved (NewEnvironment os)]) \<le> 1"
proof -
  have c: "map_of (CustomerEnvironmentVariables os) k = (if isCustomer k then os_LookupEnv os k else None)"
    using map_of_customer_fold [OF assms, of "[]" os "[]"]
    by (simp add: CustomerEnvironmentVariables_def os_Environ_def)
  have excl: "k \<in> set predefinedInternalEnvVarKeys \<Longrightarrow>
      k \<notin> set predefinedPlatformEnvVarKeys \<and> k \<notin> set predefinedRuntimeEnvVarKeys \<and>
      k \<notin> set predefinedPlatformUnreservedEnvVarKeys"
    by (auto simp: env_key_defs)
  show ?thesis
    using keys_disjoint(1) [of k] keys_disjoint(3) [of k] excl
    by (simp add: c NewEnvironment_def map_of_lookupEnv) (auto simp: isCustomer_def)
qed

theorem customer_env_classification_witness:
  "map_of (CustomerEnvironmentVariables [''STAGE=a=b'', ''STAGE=late'', ''_SECRET=1'', ''TZ=UTC'']) ''STAGE'' = Some ''a=b''"
  using customer_env_classification [of "''STAGE''" "[''STAGE=a=b'', ''STAGE=late'', ''_SECRET=1'', ''TZ=UTC'']"]
  by (simp add: isCustomer_def isInternalEnvVar_def has_underscore_prefix_def env_key_defs SplitEnvironmentVariable_def)

section \<open>Configuration: lemmas\<close>

lemma or_die_Inr: "or_die x f = Inr y \<longleftrightarrow> (\<exists>a. x = Inr a \<and> f a = Inr y)"
  by (cases x) auto

lemma getStr_Inr: "getStrEnvVarOrDie env name = Inr v \<longleftrightarrow> map_of env name = Some v"
  by (simp add: getStrEnvVarOrDie_def split: option.splits)

lemma getInt64_Inr:
  "getInt64EnvVarOrDie env name = Inr i \<longleftrightarrow> (\<exists>v. map_of env name = Some v \<and> parse_int64 v = Some i)"
  by (auto simp: getInt64EnvVarOrDie_def or_die_Inr getStr_Inr split: option.splits)

lemma getSocket_Inr:
  "getSocketEnvVarOrDie env name cx = Inr (i, cx') \<longleftrightarrow>
    (\<exists>v. map_of env name = Some v \<and> parse_int64 v = Some i) \<and> cx' = i # cx"
  by (auto simp: getSocketEnvVarOrDie_def getIntEnvVarOrDie_def or_die_Inr getInt64_Inr)

lemma getOptionalSocket_Inr:
  "getOptionalSocketEnvVar env name cx = Inr (i, cx') \<longleftrightarrow>
    (map_of env name = None \<and> i = -1 \<and> cx' = cx) \<or>
    (\<exists>v. map_of env name = Some v \<and> parse_int64 v = Some i) \<and> 0 \<le> i \<and> cx' = i # cx"
  by (auto simp: getOptionalSocketEnvVar_def split: option.splits if_splits)

lemma parse_int64_range: "parse_int64 s = Some i \<Longrightarrow> - (2 ^ 63) \<le> i \<and> i < 2 ^ 63"
  by (auto simp: parse_int64_def Let_def split: option.splits if_splits list.splits)

text \<open>C35: A configuration is only built from an environment in which every required variable is set and every number
  is a decimal of 64 bits; the descriptors are then those numbers, each marked close-on-exec, and the descriptor for
  direct invokes is \<open>-1\<close> exactly when its variable is absent and not negative otherwise.\<close>

theorem rapid_config_checked:
  assumes "NewRapidConfig e = Inr (c, closed)"
  shows "closed = (if map_of (rapid e) ''_LAMBDA_DIRECT_INVOKE_SOCKET'' = None then [] else [DirectInvokeFd c])
           @ [CnslFd c, CtrlFd c, ShmFd c, LogFd c] \<and>
    (DirectInvokeFd c = -1 \<longleftrightarrow> map_of (rapid e) ''_LAMBDA_DIRECT_INVOKE_SOCKET'' = None) \<and> -1 \<le> DirectInvokeFd c \<and>
    map (\<lambda>k. Option.bind (map_of (rapid e) k) parse_int64)
        [''_LAMBDA_LOG_FD'', ''_LAMBDA_SHARED_MEM_FD'', ''_LAMBDA_CONTROL_SOCKET'', ''_LAMBDA_CONSOLE_SOCKET'',
         ''_LAMBDA_RUNTIME_LOAD_TIME'']
      = map Some [LogFd c, ShmFd c, CtrlFd c, CnslFd c, PreLoadTimeNs c] \<and>
    list_all (\<lambda>i. - (2 ^ 63) \<le> i \<and> i < 2 ^ 63)
      [LogFd c, ShmFd c, CtrlFd c, CnslFd c, DirectInvokeFd c, PreLoadTimeNs c] \<and>
    map_of (rapid e) ''_LAMBDA_SB_ID'' = Some (SbID c) \<and>
    map_of (runtime e) ''LAMBDA_TASK_ROOT'' = Some (LambdaTaskRoot c) \<and>
    map_of (platformUnreserved e) ''AWS_XRAY_DAEMON_ADDRESS'' = Some (XrayDaemonAddress c) \<and>
    map_of (platform e) ''AWS_LAMBDA_FUNCTION_NAME'' = Some (FunctionName c)"
proof -
  obtain sbid logfd shmfd ctrlfd cnslfd difd preload root xray fname pass cx where
    r: "map_of (rapid e) ''_LAMBDA_SB_ID'' = Some sbid"
      "getSocketEnvVarOrDie (rapid e) ''_LAMBDA_LOG_FD'' [] = Inr (logfd, [logfd])"
      "getSocketEnvVarOrDie (rapid e) ''_LAMBDA_SHARED_MEM_FD'' [logfd] = Inr (shmfd, [shmfd, logfd])"
      "getSocketEnvVarOrDie (rapid e) ''_LAMBDA_CONTROL_SOCKET'' [shmfd, logfd] = Inr (ctrlfd, [ctrlfd, shmfd, logfd])"
      "getSocketEnvVarOrDie (rapid e) ''_LAMBDA_CONSOLE_SOCKET'' [ctrlfd, shmfd, logfd] = Inr (cnslfd, cx)"
      "getOptionalSocketEnvVar (rapid e) ''_LAMBDA_DIRECT_INVOKE_SOCKET'' cx = Inr (difd, closed)"
      "getInt64EnvVarOrDie (rapid e) ''_LAMBDA_RUNTIME_LOAD_TIME'' = Inr preload"
      "map_of (runtime e) ''LAMBDA_TASK_ROOT'' = Some root"
      "map_of (platformUnreserved e) ''AWS_XRAY_DAEMON_ADDRESS'' = Some xray"
      "map_of (platform e) ''AWS_LAMBDA_FUNCTION_NAME'' = Some fname"
      "c = \<lparr>SbID = sbid, LogFd = logfd, ShmFd = shmfd, CtrlFd = ctrlfd, CnslFd = cnslfd, DirectInvokeFd = difd,
          LambdaTaskRoot = root, XrayDaemonAddress = xray, PreLoadTimeNs = preload, FunctionName = fname,
          TelemetryAPIPassphrase = pass\<rparr>"
    using assms by (clarsimp simp: NewRapidConfig_def or_die_Inr getStr_Inr getSocket_Inr)
  obtain v1 v2 v3 v4 v5 where
    p: "map_of (rapid e) ''_LAMBDA_LOG_FD'' = Some v1" "parse_int64 v1 = Some logfd"
      "map_of (rapid e) ''_LAMBDA_SHARED_MEM_FD'' = Some v2" "parse_int64 v2 = Some shmfd"
      "map_of (rapid e) ''_LAMBDA_CONTROL_SOCKET'' = Some v3" "parse_int64 v3 = Some ctrlfd"
      "map_of (rapid e) ''_LAMBDA_CONSOLE_SOCKET'' = Some v4" "parse_int64 v4 = Some cnslfd"
      "map_of (rapid e) ''_LAMBDA_RUNTIME_LOAD_TIME'' = Some v5" "parse_int64 v5 = Some preload"
    and cx: "cx = [cnslfd, ctrlfd, shmfd, logfd]"
    using r(2-5,7) unfolding getSocket_Inr getInt64_Inr by blast
  note b = p(2,4,6,8,10) [THEN parse_int64_range]
  have di: "map_of (rapid e) ''_LAMBDA_DIRECT_INVOKE_SOCKET'' = None \<and> difd = -1 \<and> closed = cx \<or>
    map_of (rapid e) ''_LAMBDA_DIRECT_INVOKE_SOCKET'' \<noteq> None \<and> 0 \<le> difd \<and> difd < 2 ^ 63 \<and> closed = difd # cx"
    using r(6) parse_int64_range unfolding getOptionalSocket_Inr by fastforce
  show ?thesis using di by (elim disjE) (use b in \<open>simp_all add: r(1,8-11) p cx\<close>)
qed

definition sample_os_env :: "string list" where
  "sample_os_env =
    [''_LAMBDA_SB_ID=7'', ''_LAMBDA_LOG_FD=3'', ''_LAMBDA_SHARED_MEM_FD=4'', ''_LAMBDA_CONTROL_SOCKET=5'',
     ''_LAMBDA_CONSOLE_SOCKET=6'', ''_LAMBDA_RUNTIME_LOAD_TIME=100'', ''LAMBDA_TASK_ROOT=/var/task'',
     ''AWS_XRAY_DAEMON_ADDRESS=x'', ''AWS_LAMBDA_FUNCTION_NAME=fn'']"

theorem rapid_config_checked_witness:
  "\<exists>c. NewRapidConfig (NewEnvironment sample_os_env) = Inr (c, [6, 5, 4, 3]) \<and> DirectInvokeFd c = -1"
proof -
  have n: "map_of (rapid (NewEnvironment sample_os_env)) ''_LAMBDA_DIRECT_INVOKE_SOCKET'' = None" by code_simp
  have c: "NewRapidConfig (NewEnvironment sample_os_env)
        = Inr (\<lparr>SbID = ''7'', LogFd = 3, ShmFd = 4, CtrlFd = 5, CnslFd = 6, DirectInvokeFd = -1,
                LambdaTaskRoot = ''/var/task'', XrayDaemonAddress = ''x'', PreLoadTimeNs = 100, FunctionName = ''fn'',
                TelemetryAPIPassphrase = []\<rparr>, [6, 5, 4, 3])"
    by code_simp
  then show ?thesis using rapid_config_checked [OF c] n by blast
qed

text \<open>Without a required variable the process ends, and the first one missing is the one reported.\<close>

lemma rapid_config_missing:
  "map_of (rapid e) ''_LAMBDA_SB_ID'' = None \<Longrightarrow> NewRapidConfig e = Inl (EnvVarNotSet ''_LAMBDA_SB_ID'')"
  by (simp add: NewRapidConfig_def getStrEnvVarOrDie_def)

end
