(* ===== verification/Messages.thy ===== *)
theory Messages
  imports Interop App_Context
begin

text \<open>
  Messages between the server and the sandbox (\<open>interop/sandbox_model.go\<close>, \<open>interop/model.go\<close>), their conversion into
  \<open>Done\<close> messages (\<open>interop/messages.go\<close> and its copy in \<open>rapidcore/server.go\<close>), and the computations on times
  they carry (\<open>metering\<close>, \<open>telemetry/events_api.go\<close>).  A \<open>float64\<close> duration in milliseconds is always
  computed as a number of microseconds over 1000; it is represented by those microseconds.  The
  acknowledgement channels of the init messages belong to the handlers.
\<close>

section \<open>Messages of the sandbox\<close>

record ResponseMetrics =
  RuntimeOutboundThroughputBps :: int
  RuntimeProducedBytes :: int
  RuntimeResponseLatencyMs :: int
  RuntimeTimeThrottledMs :: int

definition zero_response_metrics :: ResponseMetrics where
  "zero_response_metrics = \<lparr>RuntimeOutboundThroughputBps = 0, RuntimeProducedBytes = 0, RuntimeResponseLatencyMs = 0,
     RuntimeTimeThrottledMs = 0\<rparr>"

record InvokeMetrics =
  InvokeRequestReadTimeNs :: int
  InvokeRequestSizeBytes :: int
  RuntimeReadyTime :: int

record InitSuccess =
  is_NumActiveExtensions :: int
  is_ExtensionNames :: string
  is_RuntimeRelease :: string
  is_LogsAPIMetrics :: TelemetrySubscriptionMetrics

record InitFailure =
  if_ResetReceived :: bool
  if_RequestReset :: bool
  if_ErrorType :: ErrorType
  if_ErrorMessage :: go_error
  if_NumActiveExtensions :: int
  if_RuntimeRelease :: string
  if_LogsAPIMetrics :: TelemetrySubscriptionMetrics

record InvokeSuccess =
  vs_RuntimeRelease :: string
  vs_NumActiveExtensions :: int
  vs_ExtensionNames :: string
  vs_InvokeCompletionTimeNs :: int
  vs_InvokeReceivedTime :: int
  vs_LogsAPIMetrics :: TelemetrySubscriptionMetrics
  vs_ResponseMetrics :: ResponseMetrics
  vs_InvokeMetrics :: InvokeMetrics
  vs_InvokeResponseMode :: ResponseMode

record InvokeFailure =
  vf_ResetReceived :: bool
  vf_RequestReset :: bool
  vf_ErrorType :: ErrorType
  vf_ErrorMessage :: go_error
  vf_RuntimeRelease :: string
  vf_NumActiveExtensions :: int
  vf_InvokeReceivedTime :: int
  vf_LogsAPIMetrics :: TelemetrySubscriptionMetrics
  vf_ResponseMetrics :: ResponseMetrics
  vf_InvokeMetrics :: InvokeMetrics
  vf_ExtensionNames :: string
  vf_DefaultErrorResponse :: "ErrorInvokeResponse option"
  vf_InvokeResponseMode :: ResponseMode

record ResetResult =
  re_ExtensionsResetMs :: int
  re_ErrorType :: ErrorType
  re_ResponseMetrics :: ResponseMetrics
  re_InvokeResponseMode :: ResponseMode

record Reset_msg =
  rm_Reason :: string
  rm_DeadlineNs :: int
  rm_InvokeResponseMetrics :: "InvokeResponseMetrics option"
  rm_InvokeResponseMode :: ResponseMode

record DoneMetadata =
  dm_NumActiveExtensions :: int
  dm_ExtensionsResetMs :: int
  dm_ExtensionNames :: string
  dm_RuntimeRelease :: string
  dm_LogsAPIMetrics :: TelemetrySubscriptionMetrics
  dm_InvokeRequestReadTimeNs :: int
  dm_InvokeRequestSizeBytes :: int
  dm_InvokeCompletionTimeNs :: int
  dm_InvokeReceivedTime :: int
  dm_RuntimeReadyTime :: int
  dm_RuntimeResponseLatencyMs :: int
  dm_RuntimeTimeThrottledMs :: int
  dm_RuntimeProducedBytes :: int
  dm_RuntimeOutboundThroughputBps :: int
  dm_InvokeResponseMode :: "ResponseMode option"

definition zero_metadata_done :: DoneMetadata where
  "zero_metadata_done = \<lparr>dm_NumActiveExtensions = 0, dm_ExtensionsResetMs = 0, dm_ExtensionNames = [], dm_RuntimeRelease = [],
     dm_LogsAPIMetrics = [], dm_InvokeRequestReadTimeNs = 0, dm_InvokeRequestSizeBytes = 0, dm_InvokeCompletionTimeNs = 0,
     dm_InvokeReceivedTime = 0, dm_RuntimeReadyTime = 0, dm_RuntimeResponseLatencyMs = 0, dm_RuntimeTimeThrottledMs = 0,
     dm_RuntimeProducedBytes = 0, dm_RuntimeOutboundThroughputBps = 0, dm_InvokeResponseMode = None\<rparr>"

record Done =
  dn_WaitForExit :: bool
  dn_ErrorType :: ErrorType
  dn_Meta :: DoneMetadata

record DoneFail =
  df_ErrorType :: ErrorType
  df_Meta :: DoneMetadata

section \<open>Conversion of the messages\<close>

definition doneFromInvokeSuccess :: "InvokeSuccess \<Rightarrow> Done" where
  "doneFromInvokeSuccess m =
    \<lparr>dn_WaitForExit = False, dn_ErrorType = [],
     dn_Meta = zero_metadata_done\<lparr>
       dm_RuntimeRelease := vs_RuntimeRelease m,
       dm_NumActiveExtensions := vs_NumActiveExtensions m,
       dm_ExtensionNames := vs_ExtensionNames m,
       dm_InvokeRequestReadTimeNs := InvokeRequestReadTimeNs (vs_InvokeMetrics m),
       dm_InvokeRequestSizeBytes := InvokeRequestSizeBytes (vs_InvokeMetrics m),
       dm_RuntimeReadyTime := RuntimeReadyTime (vs_InvokeMetrics m),
       dm_InvokeCompletionTimeNs := vs_InvokeCompletionTimeNs m,
       dm_InvokeReceivedTime := vs_InvokeReceivedTime m,
       dm_RuntimeResponseLatencyMs := RuntimeResponseLatencyMs (vs_ResponseMetrics m),
       dm_RuntimeTimeThrottledMs := RuntimeTimeThrottledMs (vs_ResponseMetrics m),
       dm_RuntimeProducedBytes := RuntimeProducedBytes (vs_ResponseMetrics m),
       dm_RuntimeOutboundThroughputBps := RuntimeOutboundThroughputBps (vs_ResponseMetrics m),
       dm_LogsAPIMetrics := vs_LogsAPIMetrics m,
       dm_InvokeResponseMode := Some (vs_InvokeResponseMode m)\<rparr>\<rparr>"

definition doneFailFromInvokeFailure :: "InvokeFailure \<Rightarrow> DoneFail" where
  "doneFailFromInvokeFailure m =
    \<lparr>df_ErrorType = vf_ErrorType m,
     df_Meta = zero_metadata_done\<lparr>
       dm_RuntimeRelease := vf_RuntimeRelease m,
       dm_NumActiveExtensions := vf_NumActiveExtensions m,
       dm_InvokeReceivedTime := vf_InvokeReceivedTime m,
       dm_RuntimeResponseLatencyMs := RuntimeResponseLatencyMs (vf_ResponseMetrics m),
       dm_RuntimeTimeThrottledMs := RuntimeTimeThrottledMs (vf_ResponseMetrics m),
       dm_RuntimeProducedBytes := RuntimeProducedBytes (vf_ResponseMetrics m),
       dm_RuntimeOutboundThroughputBps := RuntimeOutboundThroughputBps (vf_ResponseMetrics m),
       dm_InvokeRequestReadTimeNs := InvokeRequestReadTimeNs (vf_InvokeMetrics m),
       dm_InvokeRequestSizeBytes := InvokeRequestSizeBytes (vf_InvokeMetrics m),
       dm_RuntimeReadyTime := RuntimeReadyTime (vf_InvokeMetrics m),
       dm_ExtensionNames := vf_ExtensionNames m,
       dm_LogsAPIMetrics := vf_LogsAPIMetrics m,
       dm_InvokeResponseMode := Some (vf_InvokeResponseMode m)\<rparr>\<rparr>"

definition DoneFailFromInitFailure :: "InitFailure \<Rightarrow> DoneFail" where
  "DoneFailFromInitFailure m =
    \<lparr>df_ErrorType = if_ErrorType m,
     df_Meta = zero_metadata_done\<lparr>
       dm_RuntimeRelease := if_RuntimeRelease m,
       dm_NumActiveExtensions := if_NumActiveExtensions m,
       dm_LogsAPIMetrics := if_LogsAPIMetrics m\<rparr>\<rparr>"

section \<open>Times\<close>

definition CalculateDuration :: "int \<Rightarrow> int \<Rightarrow> int" where
  "CalculateDuration startNs endNs = go_quot (wrap64 (endNs - startNs)) 1000"

definition MonoToEpoch :: "int \<Rightarrow> int \<Rightarrow> int \<Rightarrow> int" where
  "MonoToEpoch monoNsec wallNsec t = wrap64 (t + wrap64 (wallNsec - monoNsec))"

record ExtensionsResetDurationProfiler =
  NumAgentsRegisteredForShutdown :: int
  AvailableNs :: int
  extensionsResetStartTimeNs :: int
  extensionsResetEndTimeNs :: int

definition profiler_Start :: "int \<Rightarrow> ExtensionsResetDurationProfiler \<Rightarrow> ExtensionsResetDurationProfiler" where
  "profiler_Start now p = p\<lparr>extensionsResetStartTimeNs := now\<rparr>"

definition profiler_Stop :: "int \<Rightarrow> ExtensionsResetDurationProfiler \<Rightarrow> ExtensionsResetDurationProfiler" where
  "profiler_Stop now p = p\<lparr>extensionsResetEndTimeNs := now\<rparr>"

definition CalculateExtensionsResetMs :: "ExtensionsResetDurationProfiler \<Rightarrow> int \<times> bool" where
  "CalculateExtensionsResetMs p =
    (let extensionsResetDurationNs = wrap64 (extensionsResetEndTimeNs p - extensionsResetStartTimeNs p)
     in if NumAgentsRegisteredForShutdown p = 0 \<or> AvailableNs p < 0 \<or> extensionsResetDurationNs < 0 then (0, False)
        else if extensionsResetDurationNs > AvailableNs p then (go_quot (AvailableNs p) 1000000, True)
        else (go_quot extensionsResetDurationNs 1000000, False))"

record RuntimeDoneInvokeMetrics =
  rd_ProducedBytes :: int
  rd_DurationMs :: int

definition GetRuntimeDoneInvokeMetrics :: "int \<Rightarrow> InvokeResponseMetrics option \<Rightarrow> int \<Rightarrow> RuntimeDoneInvokeMetrics" where
  "GetRuntimeDoneInvokeMetrics runtimeStartedTime invokeResponseMetrics runtimeDoneTime =
    (let duration = CalculateDuration runtimeStartedTime runtimeDoneTime
     in case invokeResponseMetrics of
          Some m \<Rightarrow>
            if RuntimeCalledResponse m \<and> runtimeStartedTime \<noteq> -1
            then \<lparr>rd_ProducedBytes = ProducedBytes m, rd_DurationMs = duration\<rparr>
            else if runtimeStartedTime \<noteq> -1 then \<lparr>rd_ProducedBytes = 0, rd_DurationMs = duration\<rparr>
            else \<lparr>rd_ProducedBytes = 0, rd_DurationMs = 0\<rparr>
        | None \<Rightarrow>
            if runtimeStartedTime \<noteq> -1 then \<lparr>rd_ProducedBytes = 0, rd_DurationMs = duration\<rparr>
            else \<lparr>rd_ProducedBytes = 0, rd_DurationMs = 0\<rparr>)"

datatype LifecyclePhase = LifecyclePhaseInit | LifecyclePhaseInvoke

fun InitPhaseFromLifecyclePhase :: "LifecyclePhase \<Rightarrow> string" where
  "InitPhaseFromLifecyclePhase LifecyclePhaseInit = ''init''"
| "InitPhaseFromLifecyclePhase LifecyclePhaseInvoke = ''invoke''"

definition InferInitType :: "bool \<Rightarrow> SandboxType \<Rightarrow> string" where
  "InferInitType initCachingEnabled sandboxType =
    (if initCachingEnabled then ''snap-start''
     else if sandboxType = SandboxPreWarmed then ''provisioned-concurrency''
     else ''on-demand'')"

definition RuntimeDoneSuccess :: string where "RuntimeDoneSuccess = ''success''"
definition RuntimeDoneError :: string where "RuntimeDoneError = ''error''"

text \<open>The metrics of a streamed response, as every handler fills them in.\<close>

definition streaming_response_metrics :: "int \<Rightarrow> InvokeResponseMetrics option \<Rightarrow> ResponseMetrics \<Rightarrow> ResponseMetrics" where
  "streaming_response_metrics runtimeStartedTime mx r =
    (case mx of
       Some m \<Rightarrow>
         if IsResponseStreamingMetrics mx
         then \<lparr>RuntimeOutboundThroughputBps = OutboundThroughputBps m, RuntimeProducedBytes = ProducedBytes m,
               RuntimeResponseLatencyMs = CalculateDuration runtimeStartedTime (StartReadingResponseMonoTimeMs m),
               RuntimeTimeThrottledMs = go_quot (TimeShapedNs m) 1000000\<rparr>
         else r
     | None \<Rightarrow> r)"

section \<open>Properties\<close>

text \<open>The time reported for the reset of extensions is never negative and never above the time that was available, is
  zero without extensions that take part in the shutdown, and a timeout is reported exactly when such
  extensions used more than the available time.\<close>

theorem extensions_reset_time_bounded:
  assumes "- (2 ^ 63) \<le> extensionsResetEndTimeNs p - extensionsResetStartTimeNs p"
    "extensionsResetEndTimeNs p - extensionsResetStartTimeNs p < 2 ^ 63" "0 \<le> AvailableNs p"
    "CalculateExtensionsResetMs p = (ms, timedOut)"
  shows "0 \<le> ms \<and> ms * 1000000 \<le> AvailableNs p \<and>
    (NumAgentsRegisteredForShutdown p = 0 \<longrightarrow> ms = 0) \<and>
    (timedOut \<longleftrightarrow> NumAgentsRegisteredForShutdown p \<noteq> 0 \<and>
       extensionsResetEndTimeNs p - extensionsResetStartTimeNs p > AvailableNs p)"
proof -
  let ?d = "extensionsResetEndTimeNs p - extensionsResetStartTimeNs p"
  have w: "wrap64 ?d = ?d" using assms(1,2) by (rule wrap64_id)
  have q: "0 \<le> x \<Longrightarrow> 0 \<le> go_quot x 1000000 \<and> go_quot x 1000000 * 1000000 \<le> x" for x
    using minus_mod_eq_div_mult [of x 1000000] pos_mod_sign [of 1000000 x] pos_imp_zdiv_nonneg_iff [of 1000000 x]
    by (simp add: go_quot_nonneg del: pos_mod_sign)
  show ?thesis
    using assms(3,4) q [of ?d] q [of "AvailableNs p"]
    by (auto simp: CalculateExtensionsResetMs_def w Let_def split: if_splits)
qed

theorem extensions_reset_time_bounded_witness:
  "CalculateExtensionsResetMs \<lparr>NumAgentsRegisteredForShutdown = 1, AvailableNs = 2000000, extensionsResetStartTimeNs = 5,
     extensionsResetEndTimeNs = 3000005\<rparr> = (2, True) \<and> (0::int) \<le> 2 \<and> (2::int) * 1000000 \<le> 2000000"
proof -
  have c: "CalculateExtensionsResetMs \<lparr>NumAgentsRegisteredForShutdown = 1, AvailableNs = 2000000,
     extensionsResetStartTimeNs = 5, extensionsResetEndTimeNs = 3000005\<rparr> = (2, True)" by code_simp
  show ?thesis using extensions_reset_time_bounded [OF _ _ _ c] c by simp
qed

lemma CalculateDuration_nonneg:
  assumes "s \<le> e" "e - s < 2 ^ 63"
  shows "CalculateDuration s e = (e - s) div 1000"
proof -
  have "wrap64 (e - s) = e - s" using assms by (intro wrap64_id) auto
  then show ?thesis using assms by (simp add: CalculateDuration_def go_quot_nonneg)
qed

end
