(* ===== verification/Rapid_Server.thy ===== *)
theory Rapid_Server
  imports Direct_Invoke Messages Registrations
begin

text \<open>
  The interop server of the emulator, \<open>internal/lambda/rapidcore/server.go\<close>: reservation and release of the one invoke
  context, replies to it, the phases of init, invoke and reset.  Every method that takes the mutex is a
  function on the record \<open>Server\<close>; a method with several critical sections is the composition of such functions,
  and \<open>server_op\<close> lists the critical sections so that a list of them is one interleaving of any number of
  goroutines.  Sending a response keeps the mutex while it hands its metrics over on the unbuffered
  \<open>sendResponseChan\<close>, so the check, the write and the hand-over are one step.  Response writers
  live in a list indexed by reference.  The values that uuid, clocks, writers and the sandbox
  supply are arguments.
\<close>

section \<open>Errors\<close>

definition ErrInitDoneFailed :: go_error where "ErrInitDoneFailed = ErrText ''InitDoneFailed''"
definition ErrInitNotStarted :: go_error where "ErrInitNotStarted = ErrText ''InitNotStarted''"
definition ErrInitResetReceived :: go_error where "ErrInitResetReceived = ErrText ''InitResetReceived''"
definition ErrNotReserved :: go_error where "ErrNotReserved = ErrText ''NotReserved''"
definition ErrAlreadyReserved :: go_error where "ErrAlreadyReserved = ErrText ''AlreadyReserved''"
definition ErrAlreadyReplied :: go_error where "ErrAlreadyReplied = ErrText ''AlreadyReplied''"
definition ErrAlreadyInvocating :: go_error where "ErrAlreadyInvocating = ErrText ''AlreadyInvocating''"
definition ErrInvokeResponseAlreadyWritten :: go_error where "ErrInvokeResponseAlreadyWritten = ErrText ''InvokeResponseAlreadyWritten''"
definition ErrInvokeDoneFailed :: go_error where "ErrInvokeDoneFailed = ErrText ''InvokeDoneFailed''"
definition ErrInvokeReservationDone :: go_error where "ErrInvokeReservationDone = ErrText ''InvokeReservationDone''"
definition ErrReleaseReservationDone :: go_error where "ErrReleaseReservationDone = ErrText ''ReleaseReservationDone''"
definition ErrInvokeTimeout :: go_error where "ErrInvokeTimeout = ErrText ''InvokeTimeout''"

lemmas server_error_defs = ErrInitDoneFailed_def ErrInitNotStarted_def ErrInitResetReceived_def ErrNotReserved_def
  ErrAlreadyReserved_def ErrAlreadyReplied_def ErrAlreadyInvocating_def ErrInvokeResponseAlreadyWritten_def
  ErrInvokeDoneFailed_def ErrInvokeReservationDone_def ErrReleaseReservationDone_def ErrInvokeTimeout_def

section \<open>State\<close>

datatype rapidPhase = phaseIdle | phaseInitializing | phaseInvoking

datatype runtimeState =
    runtimeNotStarted
  | runtimeInitError | runtimeInitComplete | runtimeInitFailed
  | runtimeInvokeResponseSent | runtimeInvokeError | runtimeReady | runtimeInvokeComplete

record DoneWithState =
  dws_Done :: "Done option"
  dws_State :: InternalStateDescription

record InvokeContext =
  ic_Token :: Token
  ReplySent :: bool
  ReplyStream :: "ref option"
  Direct :: bool

text \<open>The unbuffered channel of init failures: a failure whose sender waits, and whether it is closed.\<close>

record init_chan =
  ich_failure :: "InitFailure option"
  ich_closed :: bool

record Server =
  sv_InternalStateGetter :: bool
  sv_InvokeDoneChan :: "DoneWithState list"
  sv_invokeCtx :: "InvokeContext option"
  sv_invokeTimeout :: ns
  sv_reservationCancelled :: "bool option"
  sv_rapidPhase :: rapidPhase
  sv_runtimeState :: runtimeState
  sv_invoker :: bool
  sv_initFailures :: "init_chan option"
  sv_cachedInitErrorResponse :: "ErrorInvokeResponse option"
  sv_RuntimeStartedTime :: int
  sv_InvokeResponseMetrics :: "InvokeResponseMetrics option"
  sv_streams :: "response_writer list"
  sv_globals :: di_globals

definition NewServer :: Server where
  "NewServer =
    \<lparr>sv_InternalStateGetter = False, sv_InvokeDoneChan = [], sv_invokeCtx = None, sv_invokeTimeout = 0,
     sv_reservationCancelled = None, sv_rapidPhase = phaseIdle, sv_runtimeState = runtimeNotStarted, sv_invoker = False,
     sv_initFailures = None, sv_cachedInitErrorResponse = None, sv_RuntimeStartedTime = -1,
     sv_InvokeResponseMetrics = None, sv_streams = [], sv_globals = initial_globals\<rparr>"

section \<open>Reservation\<close>

definition setRapidPhase :: "rapidPhase \<Rightarrow> Server \<Rightarrow> Server" where
  "setRapidPhase phase s = s\<lparr>sv_rapidPhase := phase\<rparr>"

definition setRuntimeState :: "runtimeState \<Rightarrow> Server \<Rightarrow> Server" where
  "setRuntimeState state s = s\<lparr>sv_runtimeState := state\<rparr>"

definition SetInvokeTimeout :: "ns \<Rightarrow> Server \<Rightarrow> Server" where
  "SetInvokeTimeout timeout s = s\<lparr>sv_invokeTimeout := timeout\<rparr>"

definition GetInvokeTimeout :: "Server \<Rightarrow> ns" where
  "GetInvokeTimeout s = sv_invokeTimeout s"

definition GetInvokeContext :: "Server \<Rightarrow> InvokeContext outcome" where
  "GetInvokeContext s = (case sv_invokeCtx s of Some c \<Rightarrow> Ret c | None \<Rightarrow> Panics ''nil pointer'')"

definition standaloneVersionID :: string where "standaloneVersionID = ''1''"

definition new_token :: "string \<Rightarrow> string \<Rightarrow> ns \<Rightarrow> string \<Rightarrow> string \<Rightarrow> Token" where
  "new_token reservationToken invokeID timeout traceID lambdaSegmentID =
    \<lparr>tk_ReservationToken = reservationToken, tk_InvokeID = invokeID, tk_TenantID = [], tk_VersionID = standaloneVersionID,
     tk_FunctionTimeout = timeout, tk_InvackDeadlineNs = 2 ^ 63 - 1, tk_TraceID = traceID,
     tk_LambdaSegmentID = lambdaSegmentID, tk_InvokeMetadata = [], tk_NeedDebugLogs = False, tk_RestoreDurationNs = 0,
     tk_RestoreStartTimeMonotime = 0\<rparr>"

definition setNewInvokeContext :: "string \<Rightarrow> string \<Rightarrow> string \<Rightarrow> string \<Rightarrow> Server \<Rightarrow> Server \<times> (go_error + Token)" where
  "setNewInvokeContext uuid invokeID traceID lambdaSegmentID s =
    (if sv_invokeCtx s \<noteq> None then (s, Inl ErrAlreadyReserved)
     else let token = new_token uuid invokeID (sv_invokeTimeout s) traceID lambdaSegmentID
          in (s\<lparr>sv_invokeCtx := Some \<lparr>ic_Token = token, ReplySent = False, ReplyStream = None, Direct = False\<rparr>,
                sv_reservationCancelled := Some False\<rparr>, Inr token))"

text \<open>\<open>Reserve\<close> takes two fresh uuids; the response and the error are both returned when no getter of the internal
  state is set.  \<open>None\<close> in the response is the nil pointer.\<close>

definition InternalState :: "Server \<Rightarrow> go_error option" where
  "InternalState s = (if \<not> sv_InternalStateGetter s then Some (ErrText ''InternalStateGetterNotSet'') else None)"

definition Reserve :: "string \<Rightarrow> string \<Rightarrow> string \<Rightarrow> string \<Rightarrow> string \<Rightarrow> Server
    \<Rightarrow> Server \<times> Token option \<times> go_error option" where
  "Reserve uuid1 uuid2 ident traceID lambdaSegmentID s =
    (let invokeID = (if ident \<noteq> [] then ident else uuid1)
     in case setNewInvokeContext uuid2 invokeID traceID lambdaSegmentID s of
          (s, Inl er) \<Rightarrow> (s, None, Some er)
        | (s, Inr token) \<Rightarrow> (s\<lparr>sv_invoker := True\<rparr>, Some token, InternalState s))"

definition setReplyStream :: "ref \<Rightarrow> bool \<Rightarrow> Server \<Rightarrow> Server \<times> (go_error + string)" where
  "setReplyStream w direct s =
    (case sv_invokeCtx s of
       None \<Rightarrow> (s, Inl ErrNotReserved)
     | Some c \<Rightarrow>
        if ReplySent c then (s, Inl ErrAlreadyReplied)
        else if ReplyStream c \<noteq> None then (s, Inl ErrAlreadyInvocating)
        else (s\<lparr>sv_invokeCtx := Some (c\<lparr>ReplyStream := Some w, Direct := direct\<rparr>)\<rparr>, Inr (tk_InvokeID (ic_Token c))))"

definition server_Release :: "Server \<Rightarrow> Server \<times> go_error option" where
  "server_Release s =
    (case sv_invokeCtx s of
       None \<Rightarrow> (s, Some ErrNotReserved)
     | Some c \<Rightarrow> (s\<lparr>sv_reservationCancelled := map_option (\<lambda>_. True) (sv_reservationCancelled s),
                    sv_RuntimeStartedTime := -1, sv_InvokeResponseMetrics := None, sv_invokeCtx := None\<rparr>, None))"

definition GetCurrentInvokeID :: "Server \<Rightarrow> string" where
  "GetCurrentInvokeID s = (case sv_invokeCtx s of None \<Rightarrow> [] | Some c \<Rightarrow> tk_InvokeID (ic_Token c))"

definition CurrentToken :: "Server \<Rightarrow> Token option" where
  "CurrentToken s = map_option ic_Token (sv_invokeCtx s)"

definition SetInternalStateGetter :: "Server \<Rightarrow> Server" where
  "SetInternalStateGetter s = s\<lparr>sv_InternalStateGetter := True\<rparr>"

section \<open>Replies\<close>

text \<open>What the environment contributes to one send: whether the writer can flush, after how many bytes it fails, whether a
  reset interrupts the stream, the clock before and after, and the metrics of a direct response.\<close>

record send_env =
  se_isFlusher :: bool
  se_wfail :: "nat option"
  se_event :: stream_event
  se_start :: ns
  se_finish :: ns
  se_metrics :: InvokeResponseMetrics

definition string_bytes :: "string \<Rightarrow> byte list" where
  "string_bytes cs = map (\<lambda>c. word_of_nat (of_char c)) cs"

definition buffered_metrics :: "nat \<Rightarrow> bool \<Rightarrow> send_env \<Rightarrow> InvokeResponseMetrics" where
  "buffered_metrics written runtimeCalledResponse env =
    \<lparr>StartReadingResponseMonoTimeMs = se_start env, FinishReadingResponseMonoTimeMs = se_finish env, TimeShapedNs = -1,
     ProducedBytes = int written, OutboundThroughputBps = -1, irm_FunctionResponseMode = ResponseModeBuffered,
     RuntimeCalledResponse = runtimeCalledResponse\<rparr>"

text \<open>The reply of an invoke that is not direct: the writer, the error, and the metrics handed over.\<close>

definition send_buffered :: "string \<Rightarrow> (string \<times> string) list \<Rightarrow> reader \<Rightarrow> bool \<Rightarrow> send_env \<Rightarrow> response_writer
    \<Rightarrow> response_writer \<times> go_error option \<times> InvokeResponseMetrics option" where
  "send_buffered invokeID additionalHeaders payload runtimeCalledResponse env w =
    (let data = rd_data payload
     in if rd_err payload \<noteq> None then (w, Some (ErrText (''Failed to read response on '' @ invokeID)), None)
        else if int (length data) > MaxPayloadSize
        then (w, Some (ErrorResponseTooLarge MaxPayloadSize (int (length data))), None)
        else
          let w = header_add ContentTypeHeader
                    (case map_of additionalHeaders ContentTypeHeader of Some v \<Rightarrow> v | None \<Rightarrow> []) w
          in case io_copy (se_wfail env) \<lparr>rd_data = data, rd_err = None\<rparr> of
               (bs, Some e) \<Rightarrow> (body_write bs w, Some (ErrText (''Failed to write response to '' @ invokeID)), None)
             | (bs, None) \<Rightarrow> (body_write bs w, None, Some (buffered_metrics (length bs) runtimeCalledResponse env)))"

definition sendResponseUnsafe ::
  "string \<Rightarrow> (string \<times> string) list \<Rightarrow> reader \<Rightarrow> (string \<Rightarrow> string) \<Rightarrow> bool \<Rightarrow> send_env \<Rightarrow> Server
    \<Rightarrow> Server \<times> go_error option \<times> InvokeResponseMetrics option" where
  "sendResponseUnsafe invokeID additionalHeaders payload trailers runtimeCalledResponse env s =
    (case sv_invokeCtx s of
       None \<Rightarrow> (s, Some ErrInvalidInvokeID, None)
     | Some c \<Rightarrow>
        if invokeID \<noteq> tk_InvokeID (ic_Token c) then (s, Some ErrInvalidInvokeID, None)
        else if ReplySent c then (s, Some ErrResponseSent, None)
        else case ReplyStream c of
          None \<Rightarrow> (s, Some (ErrText ''ReplyStream not available''), None)
        | Some r \<Rightarrow>
           let w = sv_streams s ! r;
               done = (\<lambda>w. s\<lparr>sv_streams := (sv_streams s)[r := w],
                             sv_invokeCtx := Some (c\<lparr>ReplySent := True, Direct := False\<rparr>)\<rparr>)
           in if Direct c
              then (case SendDirectInvokeResponse (se_isFlusher env) (se_wfail env) additionalHeaders payload trailers
                           (se_event env) runtimeCalledResponse (se_start env) (se_finish env) (sv_globals s) w of
                      (w, er, sent) \<Rightarrow> (done w, er, if sent then Some (se_metrics env) else None))
              else (case send_buffered invokeID additionalHeaders payload runtimeCalledResponse env w of
                      (w, None, m) \<Rightarrow> (done w, None, m)
                    | (w, Some e, m) \<Rightarrow> (s\<lparr>sv_streams := (sv_streams s)[r := w]\<rparr>, Some e, m)))"

record StreamableInvokeResponse =
  sir_Headers :: "(string \<times> string) list"
  sir_Payload :: reader
  sir_Trailers :: "string \<Rightarrow> string"

definition SendResponse :: "string \<Rightarrow> StreamableInvokeResponse \<Rightarrow> send_env \<Rightarrow> Server
    \<Rightarrow> Server \<times> go_error option \<times> InvokeResponseMetrics option" where
  "SendResponse invokeID resp env s =
    sendResponseUnsafe invokeID (sir_Headers resp) (sir_Payload resp) (sir_Trailers resp) True env
      (setRuntimeState runtimeInvokeResponseSent s)"

definition error_headers :: "ErrorInvokeResponse \<Rightarrow> (string \<times> string) list" where
  "error_headers resp =
    [(ContentTypeHeader, eir_ContentType resp), (ErrorTypeHeader, fe_Type (eir_FunctionError resp))] @
    (if eir_FunctionResponseMode resp \<noteq> [] then [(FunctionResponseModeHeader, eir_FunctionResponseMode resp)] else [])"

definition SendErrorResponse :: "string \<Rightarrow> ErrorInvokeResponse \<Rightarrow> send_env \<Rightarrow> Server
    \<Rightarrow> Server \<times> go_error option \<times> InvokeResponseMetrics option" where
  "SendErrorResponse invokeID resp env s =
    sendResponseUnsafe invokeID (error_headers resp) \<lparr>rd_data = string_bytes (eir_Payload resp), rd_err = None\<rparr> (\<lambda>_. [])
      False env (setRuntimeState runtimeInvokeError s)"

definition setCachedInitErrorResponse :: "ErrorInvokeResponse \<Rightarrow> Server \<Rightarrow> Server" where
  "setCachedInitErrorResponse errResp s = s\<lparr>sv_cachedInitErrorResponse := Some errResp\<rparr>"

definition SendInitErrorResponse :: "ErrorInvokeResponse \<Rightarrow> send_env \<Rightarrow> Server
    \<Rightarrow> Server \<times> go_error option \<times> InvokeResponseMetrics option" where
  "SendInitErrorResponse resp env s =
    (if sv_rapidPhase s = phaseInvoking then SendErrorResponse (GetCurrentInvokeID s) resp env s
     else (setRuntimeState runtimeInitError (setCachedInitErrorResponse resp s), None, None))"

text \<open>The default error response may find that a response was sent already; any other error panics.\<close>

definition trySendDefaultErrorResponse :: "ErrorInvokeResponse \<Rightarrow> send_env \<Rightarrow> Server
    \<Rightarrow> (Server \<times> InvokeResponseMetrics option) outcome" where
  "trySendDefaultErrorResponse resp env s =
    (case SendErrorResponse (GetCurrentInvokeID s) resp env s of
       (s, None, m) \<Rightarrow> Ret (s, m)
     | (s, Some er, m) \<Rightarrow> if er \<noteq> ErrResponseSent then Panics ''Failed to send default error response'' else Ret (s, m))"

definition SendRuntimeReady :: "Server \<Rightarrow> Server \<times> go_error option" where
  "SendRuntimeReady s = (setRuntimeState runtimeReady s, None)"

section \<open>Completion, reset and shutdown\<close>

text \<open>Printing a discarded message dereferences its \<open>Done\<close>.\<close>

fun drain_all :: "DoneWithState list \<Rightarrow> unit outcome" where
  "drain_all [] = Ret ()"
| "drain_all (d # ds) = (if dws_Done d = None then Panics ''nil pointer'' else drain_all ds)"

definition drainChannel :: "Server \<Rightarrow> Server outcome" where
  "drainChannel s =
    (case drain_all (sv_InvokeDoneChan s) of
       Ret _ \<Rightarrow> Ret (s\<lparr>sv_InvokeDoneChan := []\<rparr>) | Blocks \<Rightarrow> Blocks | Panics m \<Rightarrow> Panics m)"

definition server_Clear :: "Server \<Rightarrow> Server outcome" where
  "server_Clear s =
    (case drainChannel s of Ret s \<Rightarrow> Ret (fst (server_Release s)) | Blocks \<Rightarrow> Blocks | Panics m \<Rightarrow> Panics m)"

definition deadlineNsFromTimeoutMs :: "int \<Rightarrow> int \<Rightarrow> int" where
  "deadlineNsFromTimeoutMs now timeoutMs = wrap64 (now + wrap64 (wrap64 (timeoutMs * 1000) * 1000))"

definition setInitFailuresChan :: "Server \<Rightarrow> Server" where
  "setInitFailuresChan s = s\<lparr>sv_initFailures := Some \<lparr>ich_failure = None, ich_closed = False\<rparr>\<rparr>"

definition getInitFailuresChan :: "Server \<Rightarrow> init_chan option" where
  "getInitFailuresChan s = sv_initFailures s"

text \<open>\<open>Init\<close> up to the start of the goroutine that waits for its completion; the sandbox starts in the meantime.\<close>

definition server_Init :: "int \<Rightarrow> Server \<Rightarrow> Server" where
  "server_Init invokeTimeoutMs s =
    setInitFailuresChan (setRapidPhase phaseInitializing (SetInvokeTimeout (wrap64 (invokeTimeoutMs * 1000000)) s))"

text \<open>The goroutine itself: a failure waits on the channel until it is received, and then the channel is closed.\<close>

definition awaitInitCompletion :: "InitFailure option \<Rightarrow> Server \<Rightarrow> Server" where
  "awaitInitCompletion initFailure s =
    s\<lparr>sv_initFailures := map_option (\<lambda>ch. case initFailure of
        Some f \<Rightarrow> ch\<lparr>ich_failure := Some f\<rparr> | None \<Rightarrow> ch\<lparr>ich_closed := True\<rparr>) (sv_initFailures s)\<rparr>"

type_synonym initCompletionResponse = "(ErrorType \<times> go_error) option"

definition awaitInitialized :: "Server \<Rightarrow> (Server \<times> initCompletionResponse \<times> go_error option) outcome" where
  "awaitInitialized s =
    (case sv_initFailures s of
       None \<Rightarrow> Blocks
     | Some ch \<Rightarrow>
        (case ich_failure ch of
           Some f \<Rightarrow>
             let s = setRuntimeState runtimeInitFailed
                       (s\<lparr>sv_initFailures := Some \<lparr>ich_failure = None, ich_closed = True\<rparr>\<rparr>)
             in Ret (s, Some (if_ErrorType f, if_ErrorMessage f),
                     Some (if if_ResetReceived f then ErrInitResetReceived else ErrInitDoneFailed))
         | None \<Rightarrow> if ich_closed ch then Ret (s, None, None) else Blocks))"

definition AwaitInitialized :: "Server \<Rightarrow> (Server \<times> go_error option) outcome" where
  "AwaitInitialized s =
    (case awaitInitialized s of
       Ret (s, _, Some er) \<Rightarrow> Ret (setRuntimeState runtimeInitFailed (fst (server_Release s)), Some er)
     | Ret (s, _, None) \<Rightarrow> Ret (setRuntimeState runtimeInitComplete s, None)
     | Blocks \<Rightarrow> Blocks | Panics m \<Rightarrow> Panics m)"

record ReleaseResponse =
  rr_State :: InternalStateDescription
  rr_RuntimeResponseLatencyMs :: int
  rr_InvokeResponseMode :: "ResponseMode option"

definition release_result :: "DoneWithState \<Rightarrow> Done \<Rightarrow> Server \<Rightarrow> Server \<times> (go_error + ReleaseResponse)" where
  "release_result dws d s =
    (if dn_ErrorType d \<noteq> [] \<and> dn_ErrorType d = ''InitDoneFailed'' then (s, Inl ErrInitDoneFailed)
     else if dn_ErrorType d \<noteq> [] then (s, Inl ErrInvokeDoneFailed)
     else (fst (server_Release s),
           Inr \<lparr>rr_State = dws_State dws, rr_RuntimeResponseLatencyMs = dm_RuntimeResponseLatencyMs (dn_Meta d),
                rr_InvokeResponseMode = dm_InvokeResponseMode (dn_Meta d)\<rparr>))"

text \<open>When a message is there and the reservation is cancelled as well, \<open>select\<close> may take either: \<open>takeDone\<close> decides.\<close>

definition AwaitRelease :: "bool \<Rightarrow> Server \<Rightarrow> (Server \<times> (go_error + ReleaseResponse)) outcome" where
  "AwaitRelease takeDone s =
    (case sv_reservationCancelled s of
       None \<Rightarrow> Panics ''nil pointer''
     | Some cancelled \<Rightarrow>
        (case sv_InvokeDoneChan s of
           dws # rest \<Rightarrow>
             if takeDone \<or> \<not> cancelled
             then (case dws_Done dws of
                     None \<Rightarrow> Panics ''nil pointer''
                   | Some d \<Rightarrow>
                      (case release_result dws d (s\<lparr>sv_InvokeDoneChan := rest\<rparr>) of
                         (s, r) \<Rightarrow> Ret (setRuntimeState runtimeInvokeComplete (setRapidPhase phaseIdle s), r)))
             else Ret (setRuntimeState runtimeInvokeComplete (setRapidPhase phaseIdle s), Inl ErrReleaseReservationDone)
         | [] \<Rightarrow> if cancelled
                 then Ret (setRuntimeState runtimeInvokeComplete (setRapidPhase phaseIdle s), Inl ErrReleaseReservationDone)
                 else Blocks))"

definition server_Shutdown :: "Server \<Rightarrow> Server" where
  "server_Shutdown s = setRuntimeState runtimeNotStarted (setRapidPhase phaseIdle s)"

text \<open>The goroutine of a reset after the sandbox was reset, and the end of \<open>Reset\<close> itself.\<close>

definition reset_meta :: "Reset_msg \<Rightarrow> ResetResult \<Rightarrow> DoneMetadata" where
  "reset_meta reset result =
    (let meta = (case rm_InvokeResponseMetrics reset of
                   Some m \<Rightarrow>
                     if IsResponseStreamingMetrics (rm_InvokeResponseMetrics reset)
                     then zero_metadata_done\<lparr>
                       dm_RuntimeTimeThrottledMs := go_quot (TimeShapedNs m) 1000000,
                       dm_RuntimeProducedBytes := ProducedBytes m,
                       dm_RuntimeOutboundThroughputBps := OutboundThroughputBps m,
                       dm_InvokeResponseMode := Some (rm_InvokeResponseMode reset),
                       dm_RuntimeResponseLatencyMs := RuntimeResponseLatencyMs (re_ResponseMetrics result)\<rparr>
                     else zero_metadata_done
                 | None \<Rightarrow> zero_metadata_done)
     in meta\<lparr>dm_ExtensionsResetMs := re_ExtensionsResetMs result\<rparr>)"

definition reset_goroutine :: "Reset_msg \<Rightarrow> ResetResult \<Rightarrow> Server \<Rightarrow> (Server \<times> Done) outcome" where
  "reset_goroutine reset result s =
    (case server_Clear s of
       Ret s \<Rightarrow> Ret (setRuntimeState runtimeNotStarted (setRapidPhase phaseIdle s),
                    \<lparr>dn_WaitForExit = False, dn_ErrorType = re_ErrorType result, dn_Meta = reset_meta reset result\<rparr>)
     | Blocks \<Rightarrow> Blocks | Panics m \<Rightarrow> Panics m)"

record ResetDescription =
  rs_ExtensionsResetMs :: int
  rs_RuntimeResponseLatencyMs :: int
  rs_InvokeResponseMode :: "ResponseMode option"

definition reset_end :: "Done \<Rightarrow> Server \<Rightarrow> Server \<times> (go_error + ResetDescription)" where
  "reset_end d s =
    (let s = fst (server_Release s)
     in if dn_ErrorType d \<noteq> [] then (s, Inl (ErrText (dn_ErrorType d)))
        else (s, Inr \<lparr>rs_ExtensionsResetMs = dm_ExtensionsResetMs (dn_Meta d),
                      rs_RuntimeResponseLatencyMs = dm_RuntimeResponseLatencyMs (dn_Meta d),
                      rs_InvokeResponseMode = dm_InvokeResponseMode (dn_Meta d)\<rparr>))"

section \<open>The fast path of an invoke\<close>

text \<open>The start, up to the check for a response written before the invoke was passed on: \<open>alreadySent\<close> says
  whether a sender waits on the channel.\<close>

definition FastInvoke_begin :: "ref \<Rightarrow> bool \<Rightarrow> bool \<Rightarrow> Invoke \<Rightarrow> Server \<Rightarrow> Server \<times> (go_error + Invoke)" where
  "FastInvoke_begin w direct alreadySent i s =
    (case setReplyStream w direct s of
       (s, Inl er) \<Rightarrow> (s, Inl er)
     | (s, Inr invokeID) \<Rightarrow>
        let s = setRapidPhase phaseInvoking s
        in if alreadySent then (s, Inl ErrInvokeResponseAlreadyWritten) else (s, Inr (i\<lparr>iv_ID := invokeID\<rparr>)))"

text \<open>A send on the channel of one message.\<close>

definition send_InvokeDone :: "DoneWithState \<Rightarrow> Server \<Rightarrow> Server outcome" where
  "send_InvokeDone d s = (if sv_InvokeDoneChan s = [] then Ret (s\<lparr>sv_InvokeDoneChan := [d]\<rparr>) else Blocks)"

text \<open>Its goroutine: without an invoker, and with the result of the invoke.\<close>

definition FastInvoke_no_invoker :: "InternalStateDescription \<Rightarrow> Server \<Rightarrow> Server outcome" where
  "FastInvoke_no_invoker st s =
    (case send_InvokeDone \<lparr>dws_Done = None, dws_State = st\<rparr> s of
       Ret s \<Rightarrow> Ret (setRuntimeState runtimeInvokeComplete s) | Blocks \<Rightarrow> Blocks | Panics m \<Rightarrow> Panics m)"

definition FastInvoke_failed :: "InternalStateDescription \<Rightarrow> send_env \<Rightarrow> InvokeFailure \<Rightarrow> Server
    \<Rightarrow> (Server \<times> InvokeResponseMetrics option) outcome" where
  "FastInvoke_failed st env f s =
    (if vf_ResetReceived f then Ret (s, None)
     else case vf_DefaultErrorResponse f of
       None \<Rightarrow> Panics ''default error response was nil for invoke failure''
     | Some dflt \<Rightarrow>
        (case trySendDefaultErrorResponse
                (case sv_cachedInitErrorResponse s of Some cached \<Rightarrow> cached | None \<Rightarrow> dflt) env s of
           Ret (s, m) \<Rightarrow>
             (case send_InvokeDone
                     \<lparr>dws_Done = Some \<lparr>dn_WaitForExit = False, dn_ErrorType = df_ErrorType (doneFailFromInvokeFailure f),
                                      dn_Meta = df_Meta (doneFailFromInvokeFailure f)\<rparr>,
                      dws_State = st\<rparr> s of
                Ret s \<Rightarrow> Ret (s, m) | Blocks \<Rightarrow> Blocks | Panics x \<Rightarrow> Panics x)
         | Blocks \<Rightarrow> Blocks | Panics x \<Rightarrow> Panics x))"

definition FastInvoke_succeeded :: "InternalStateDescription \<Rightarrow> InvokeSuccess \<Rightarrow> Server \<Rightarrow> Server outcome" where
  "FastInvoke_succeeded st r s = send_InvokeDone \<lparr>dws_Done = Some (doneFromInvokeSuccess r), dws_State = st\<rparr> s"

text \<open>Its end: the metrics of the response, or the end of the reservation.\<close>

definition FastInvoke_end :: "InvokeResponseMetrics option \<Rightarrow> Invoke \<Rightarrow> Server \<Rightarrow> (Server \<times> Invoke \<times> go_error option) outcome" where
  "FastInvoke_end received i s =
    (case received of
       Some m \<Rightarrow> Ret (s\<lparr>sv_InvokeResponseMetrics := Some m\<rparr>, i\<lparr>iv_InvokeResponseMetrics := Some m\<rparr>, None)
     | None \<Rightarrow> if sv_reservationCancelled s = Some True then Ret (s, i, Some ErrInvokeReservationDone) else Blocks)"

section \<open>Interleavings\<close>

text \<open>The critical sections.  A list of them is one interleaving of the methods.\<close>

datatype server_op =
    SoReserve string string string string string
  | SoSetReplyStream ref bool
  | SoRelease
  | SoSend string "(string \<times> string) list" reader "string \<Rightarrow> string" bool send_env
  | SoPhase rapidPhase
  | SoRuntimeState runtimeState
  | SoTimeout ns
  | SoCacheInitError ErrorInvokeResponse
  | SoSendDone DoneWithState
  | SoTakeDone
  | SoInitChan
  | SoInitResult "InitFailure option"
  | SoInitReceived
  | SoMetrics InvokeResponseMetrics
  | SoNewStream response_writer

fun server_exec :: "server_op \<Rightarrow> Server \<Rightarrow> Server" where
  "server_exec (SoReserve u1 u2 i t l) s = fst (Reserve u1 u2 i t l s)"
| "server_exec (SoSetReplyStream w d) s = fst (setReplyStream w d s)"
| "server_exec SoRelease s = fst (server_Release s)"
| "server_exec (SoSend i h p t c env) s = fst (sendResponseUnsafe i h p t c env s)"
| "server_exec (SoPhase p) s = setRapidPhase p s"
| "server_exec (SoRuntimeState r) s = setRuntimeState r s"
| "server_exec (SoTimeout t) s = SetInvokeTimeout t s"
| "server_exec (SoCacheInitError r) s = setCachedInitErrorResponse r s"
| "server_exec (SoSendDone d) s = (case send_InvokeDone d s of Ret s' \<Rightarrow> s' | _ \<Rightarrow> s)"
| "server_exec SoTakeDone s = s\<lparr>sv_InvokeDoneChan := tl (sv_InvokeDoneChan s)\<rparr>"
| "server_exec SoInitChan s = setInitFailuresChan s"
| "server_exec (SoInitResult f) s = awaitInitCompletion f s"
| "server_exec SoInitReceived s = (case awaitInitialized s of Ret (s', _) \<Rightarrow> s' | _ \<Rightarrow> s)"
| "server_exec (SoMetrics m) s = s\<lparr>sv_InvokeResponseMetrics := Some m\<rparr>"
| "server_exec (SoNewStream w) s = s\<lparr>sv_streams := sv_streams s @ [w]\<rparr>"

definition server_run :: "server_op list \<Rightarrow> Server \<Rightarrow> Server" where
  "server_run ops s = fold server_exec ops s"

definition unanswered :: "Server \<Rightarrow> bool" where
  "unanswered s = (case sv_invokeCtx s of Some c \<Rightarrow> \<not> ReplySent c | None \<Rightarrow> False)"

text \<open>A reservation is made, and an unanswered one becomes answered.\<close>

definition reserves :: "server_op \<Rightarrow> Server \<Rightarrow> bool" where
  "reserves op s = (sv_invokeCtx s = None \<and> sv_invokeCtx (server_exec op s) \<noteq> None)"

definition replies :: "server_op \<Rightarrow> Server \<Rightarrow> bool" where
  "replies op s = (unanswered s \<and> sv_invokeCtx (server_exec op s) \<noteq> None \<and> \<not> unanswered (server_exec op s))"

fun count_ops :: "(server_op \<Rightarrow> Server \<Rightarrow> bool) \<Rightarrow> server_op list \<Rightarrow> Server \<Rightarrow> nat" where
  "count_ops P [] s = 0"
| "count_ops P (op # ops) s = (if P op s then 1 else 0) + count_ops P ops (server_exec op s)"

lemmas server_op_defs = Reserve_def setNewInvokeContext_def setReplyStream_def server_Release_def setRapidPhase_def
  setRuntimeState_def SetInvokeTimeout_def setCachedInitErrorResponse_def send_InvokeDone_def setInitFailuresChan_def
  awaitInitCompletion_def awaitInitialized_def

section \<open>One reply per reservation\<close>

lemma sendResponseUnsafe_ctx:
  "sv_invokeCtx (fst (sendResponseUnsafe i h p t c env s)) = sv_invokeCtx s \<or>
   (\<exists>x r. sv_invokeCtx s = Some x \<and> i = tk_InvokeID (ic_Token x) \<and> \<not> ReplySent x \<and> ReplyStream x = Some r \<and>
      sv_invokeCtx (fst (sendResponseUnsafe i h p t c env s)) = Some (x\<lparr>ReplySent := True, Direct := False\<rparr>))"
  by (auto simp: sendResponseUnsafe_def Let_def split: option.splits prod.splits)

fun ctx_op :: "server_op \<Rightarrow> bool" where
  "ctx_op (SoReserve _ _ _ _ _) = True"
| "ctx_op (SoSetReplyStream _ _) = True"
| "ctx_op SoRelease = True"
| "ctx_op (SoSend _ _ _ _ _ _) = True"
| "ctx_op _ = False"

lemma server_exec_ctx_other: "\<not> ctx_op op \<Longrightarrow> sv_invokeCtx (server_exec op s) = sv_invokeCtx s"
  by (cases op) (simp_all add: server_op_defs Let_def split: option.splits)

lemma unanswered_other: "\<not> ctx_op op \<Longrightarrow> unanswered (server_exec op s) = unanswered s \<and> \<not> replies op s"
  by (auto simp: unanswered_def replies_def server_exec_ctx_other)

lemma unanswered_step:
  "(if replies op s then 1 else 0) + (if unanswered (server_exec op s) then 1 else (0::nat))
    \<le> (if reserves op s then 1 else 0) + (if unanswered s then 1 else 0)"
proof (cases op)
  case (SoReserve u1 u2 i t l)
  then show ?thesis
    by (auto simp: replies_def reserves_def unanswered_def server_op_defs Let_def split: option.splits)
next
  case (SoSetReplyStream w d)
  then show ?thesis by (auto simp: replies_def unanswered_def setReplyStream_def split: option.splits)
next
  case SoRelease
  then show ?thesis by (auto simp: replies_def unanswered_def server_Release_def split: option.splits)
next
  case (SoSend i h p t c env)
  then show ?thesis
    using sendResponseUnsafe_ctx [of i h p t c env s] by (auto simp: replies_def unanswered_def)
qed (use unanswered_other [of op s] in simp_all)

lemma replies_bounded:
  "count_ops replies ops s + (if unanswered (server_run ops s) then 1 else 0)
    \<le> count_ops reserves ops s + (if unanswered s then 1 else 0)"
proof (induction ops arbitrary: s)
  case (Cons op ops)
  show ?case using Cons.IH [of "server_exec op s"] unanswered_step [of op s] by (simp add: server_run_def)
qed (simp add: server_run_def)


lemma send_buffered_result:
  assumes "send_buffered i h p called env w = (w', e, m)"
  shows "e = None \<longleftrightarrow> rd_err p = None \<and> int (length (rd_data p)) \<le> MaxPayloadSize \<and>
        (case se_wfail env of Some k \<Rightarrow> length (rd_data p) \<le> k | None \<Rightarrow> True)"
    and "e = None \<Longrightarrow> rw_body w' = rw_body w @ rd_data p \<and> m = Some (buffered_metrics (length (rd_data p)) called env)"
    and "e \<noteq> None \<Longrightarrow> m = None \<and> (se_wfail env = None \<longrightarrow> w' = w)"
  using assms by (auto simp: send_buffered_def io_copy_def Let_def split: if_splits option.splits)

text \<open>A reply to an invoke that is not direct is accepted exactly when the server is reserved for its id, has a reply
  stream and no reply yet, and the payload was read and written whole and is within the limit; then the
  payload is appended to the reserved stream, no other stream changes, and its size is
  handed over.  Otherwise the reservation is left as it was, and nothing is written unless the write failed.\<close>

theorem buffered_reply_checked:
  assumes "sendResponseUnsafe i h p t called env s = (s', e, m)" "\<forall>c. sv_invokeCtx s = Some c \<longrightarrow> \<not> Direct c"
    "\<forall>c r. sv_invokeCtx s = Some c \<and> ReplyStream c = Some r \<longrightarrow> r < length (sv_streams s)"
  shows "(e = None \<longleftrightarrow> (\<exists>c r. sv_invokeCtx s = Some c \<and> i = tk_InvokeID (ic_Token c) \<and> \<not> ReplySent c \<and> ReplyStream c = Some r \<and>
        rd_err p = None \<and> int (length (rd_data p)) \<le> MaxPayloadSize \<and>
        (case se_wfail env of Some k \<Rightarrow> length (rd_data p) \<le> k | None \<Rightarrow> True))) \<and>
    (e = None \<longrightarrow> (\<exists>c r. sv_invokeCtx s = Some c \<and> ReplyStream c = Some r \<and>
        sv_invokeCtx s' = Some (c\<lparr>ReplySent := True, Direct := False\<rparr>) \<and>
        rw_body (sv_streams s' ! r) = rw_body (sv_streams s ! r) @ rd_data p \<and>
        (\<forall>j. j \<noteq> r \<longrightarrow> sv_streams s' ! j = sv_streams s ! j) \<and>
        m = Some (buffered_metrics (length (rd_data p)) called env))) \<and>
    (e \<noteq> None \<longrightarrow> sv_invokeCtx s' = sv_invokeCtx s \<and> m = None \<and> (se_wfail env = None \<longrightarrow> s' = s))"
proof (cases "\<exists>c r. sv_invokeCtx s = Some c \<and> i = tk_InvokeID (ic_Token c) \<and> \<not> ReplySent c \<and> ReplyStream c = Some r")
  case False
  then have "s' = s \<and> e \<noteq> None \<and> m = None"
    using assms(1) by (auto simp: sendResponseUnsafe_def split: option.splits if_splits)
  then show ?thesis using False by auto
next
  case True
  then obtain c r where c: "sv_invokeCtx s = Some c" "i = tk_InvokeID (ic_Token c)" "\<not> ReplySent c" "ReplyStream c = Some r"
    by blast
  have d: "\<not> Direct c" and r: "r < length (sv_streams s)" using assms(2,3) c by auto
  obtain w e' m' where b: "send_buffered i h p called env (sv_streams s ! r) = (w, e', m')" by (metis prod_cases3)
  have s: "e = e'" "m = m'"
    "s' = (if e' = None then s\<lparr>sv_streams := (sv_streams s)[r := w], sv_invokeCtx := Some (c\<lparr>ReplySent := True, Direct := False\<rparr>)\<rparr>
           else s\<lparr>sv_streams := (sv_streams s)[r := w]\<rparr>)"
    using assms(1) c d b by (auto simp: sendResponseUnsafe_def Let_def split: option.splits)
  note res = send_buffered_result [OF b]
  show ?thesis
  proof (cases "e' = None")
    case True
    then show ?thesis using res c r by (auto simp: s)
  next
    case False
    then show ?thesis using res c r by (auto simp: s)
  qed
qed

definition sample_send_env :: send_env where
  "sample_send_env = \<lparr>se_isFlusher = True, se_wfail = None, se_event = CopyFinishes, se_start = 1, se_finish = 2,
     se_metrics = \<lparr>StartReadingResponseMonoTimeMs = 1, FinishReadingResponseMonoTimeMs = 2, TimeShapedNs = 0, ProducedBytes = 0,
       OutboundThroughputBps = 0, irm_FunctionResponseMode = ResponseModeBuffered, RuntimeCalledResponse = True\<rparr>\<rparr>"

definition sample_server :: Server where
  "sample_server = server_run [SoNewStream new_writer, SoReserve ''u1'' ''u2'' ''i1'' [] [], SoSetReplyStream 0 False] NewServer"

lemma sample_server_ctx:
  "sv_invokeCtx sample_server = Some \<lparr>ic_Token = new_token ''u2'' ''i1'' 0 [] [], ReplySent = False, ReplyStream = Some 0, Direct = False\<rparr>"
  "sv_streams sample_server = [new_writer]" "sv_cachedInitErrorResponse sample_server = None"
  "sv_InvokeDoneChan sample_server = []"
  by (simp_all add: sample_server_def server_run_def server_op_defs NewServer_def Let_def new_token_def)

theorem buffered_reply_checked_witness:
  "\<exists>s' m. sendResponseUnsafe ''i1'' [] \<lparr>rd_data = [111, 107], rd_err = None\<rparr> (\<lambda>_. []) True sample_send_env sample_server = (s', None, m) \<and>
    rw_body (sv_streams s' ! 0) = [111, 107]"
proof -
  let ?p = "\<lparr>rd_data = [111, 107 :: byte], rd_err = None :: go_error option\<rparr>"
  obtain s' e m where s: "sendResponseUnsafe ''i1'' [] ?p (\<lambda>_. []) True sample_send_env sample_server = (s', e, m)"
    by (metis prod_cases3)
  have "e = None" "\<exists>c r. sv_invokeCtx sample_server = Some c \<and> ReplyStream c = Some r \<and>
      rw_body (sv_streams s' ! r) = rw_body (sv_streams sample_server ! r) @ rd_data ?p"
    using buffered_reply_checked [OF s]
    by (auto simp: sample_server_ctx new_token_def sample_send_env_def MaxPayloadSize_def)
  then show ?thesis using s by (auto simp: sample_server_ctx new_writer_def)
qed

section \<open>Failures of an invoke\<close>

text \<open>The state of the server once the next invoke has reserved it and waits for its reply.\<close>

definition next_invoke :: "string \<Rightarrow> string \<Rightarrow> string \<Rightarrow> ref \<Rightarrow> Server \<Rightarrow> Server" where
  "next_invoke u1 u2 ident r s = fst (setReplyStream r False (fst (Reserve u1 u2 ident [] [] (fst (server_Release s)))))"

lemma released_state:
  "sv_invokeCtx (fst (server_Release s)) = None" "sv_streams (fst (server_Release s)) = sv_streams s"
  "sv_cachedInitErrorResponse (fst (server_Release s)) = sv_cachedInitErrorResponse s"
  "sv_InvokeDoneChan (fst (server_Release s)) = sv_InvokeDoneChan s"
  by (simp_all add: server_Release_def split: option.splits)

lemma next_invoke_state:
  assumes "ident \<noteq> []"
  shows "\<exists>t. sv_invokeCtx (next_invoke u1 u2 ident r s) =
      Some \<lparr>ic_Token = t, ReplySent = False, ReplyStream = Some r, Direct = False\<rparr> \<and> tk_InvokeID t = ident"
    "sv_streams (next_invoke u1 u2 ident r s) = sv_streams s"
    "sv_cachedInitErrorResponse (next_invoke u1 u2 ident r s) = sv_cachedInitErrorResponse s"
    "sv_InvokeDoneChan (next_invoke u1 u2 ident r s) = sv_InvokeDoneChan s"
  using assms
  by (simp_all add: next_invoke_def Reserve_def setNewInvokeContext_def setReplyStream_def released_state new_token_def Let_def)

text \<open>The default error response is written to whatever invoke holds the reservation.\<close>

lemma trySend_writes:
  assumes "sv_invokeCtx s = Some c" "\<not> ReplySent c" "ReplyStream c = Some r" "\<not> Direct c" "r < length (sv_streams s)"
    "int (length (eir_Payload resp)) \<le> MaxPayloadSize" "se_wfail env = None"
  shows "\<exists>s' m. trySendDefaultErrorResponse resp env s = Ret (s', m) \<and>
    sv_invokeCtx s' = Some (c\<lparr>ReplySent := True, Direct := False\<rparr>) \<and>
    rw_body (sv_streams s' ! r) = rw_body (sv_streams s ! r) @ string_bytes (eir_Payload resp) \<and>
    sv_InvokeDoneChan s' = sv_InvokeDoneChan s"
  using assms
  by (simp add: trySendDefaultErrorResponse_def SendErrorResponse_def sendResponseUnsafe_def setRuntimeState_def
      GetCurrentInvokeID_def send_buffered_def io_copy_def string_bytes_def Let_def)

lemma FastInvoke_failed_writes:
  assumes "sv_invokeCtx s = Some c" "\<not> ReplySent c" "ReplyStream c = Some r" "\<not> Direct c" "r < length (sv_streams s)"
    "se_wfail env = None" "sv_InvokeDoneChan s = []" "\<not> vf_ResetReceived f" "vf_DefaultErrorResponse f = Some dflt"
    "resp = (case sv_cachedInitErrorResponse s of Some cached \<Rightarrow> cached | None \<Rightarrow> dflt)"
    "int (length (eir_Payload resp)) \<le> MaxPayloadSize"
  shows "\<exists>s' m. FastInvoke_failed st env f s = Ret (s', m) \<and>
    sv_invokeCtx s' = Some (c\<lparr>ReplySent := True, Direct := False\<rparr>) \<and>
    rw_body (sv_streams s' ! r) = rw_body (sv_streams s ! r) @ string_bytes (eir_Payload resp)"
proof -
  obtain s1 m where t: "trySendDefaultErrorResponse resp env s = Ret (s1, m)"
    "sv_invokeCtx s1 = Some (c\<lparr>ReplySent := True, Direct := False\<rparr>)"
    "rw_body (sv_streams s1 ! r) = rw_body (sv_streams s ! r) @ string_bytes (eir_Payload resp)"
    "sv_InvokeDoneChan s1 = []"
    using trySend_writes [OF assms(1-5,11,6)] assms(7) by auto
  show ?thesis
    using t assms(8,9) by (simp add: FastInvoke_failed_def assms(10) [symmetric] send_InvokeDone_def)
qed

lemma SendResponse_after_reply:
  assumes "sv_invokeCtx s = Some c" "ReplySent c" "ident = tk_InvokeID (ic_Token c)"
  shows "fst (snd (SendResponse ident resp env s)) = Some ErrResponseSent"
  using assms by (simp add: SendResponse_def sendResponseUnsafe_def setRuntimeState_def)

text \<open>A failure of an invoke that is reported after its reservation was released makes the process panic, and when the
  next invoke has already reserved the server, its error is written as the reply to that next invoke, whose own
  response is then refused as sent already.\<close>

theorem late_failure_answers_next_invoke:
  assumes "\<not> vf_ResetReceived f" "vf_DefaultErrorResponse f = Some dflt" "int (length (eir_Payload dflt)) \<le> MaxPayloadSize"
    "sv_cachedInitErrorResponse s = None" "sv_InvokeDoneChan s = []" "se_wfail env = None"
    "r < length (sv_streams s)" "ident \<noteq> []"
  shows "FastInvoke_failed st env f (fst (server_Release s)) = Panics ''Failed to send default error response'' \<and>
    (\<exists>s' m. FastInvoke_failed st env f (next_invoke u1 u2 ident r s) = Ret (s', m) \<and>
       rw_body (sv_streams s' ! r) = rw_body (sv_streams s ! r) @ string_bytes (eir_Payload dflt) \<and>
       fst (snd (SendResponse ident resp env' s')) = Some ErrResponseSent)"
proof
  show "FastInvoke_failed st env f (fst (server_Release s)) = Panics ''Failed to send default error response''"
    using assms(1,2,4) released_state [of s]
    by (simp add: FastInvoke_failed_def trySendDefaultErrorResponse_def SendErrorResponse_def sendResponseUnsafe_def
        setRuntimeState_def)
  let ?s = "next_invoke u1 u2 ident r s"
  obtain t where t: "sv_invokeCtx ?s = Some \<lparr>ic_Token = t, ReplySent = False, ReplyStream = Some r, Direct = False\<rparr>"
    "tk_InvokeID t = ident"
    using next_invoke_state(1) [OF assms(8)] by blast
  obtain s' m where s': "FastInvoke_failed st env f ?s = Ret (s', m)"
    "sv_invokeCtx s' = Some (\<lparr>ic_Token = t, ReplySent = True, ReplyStream = Some r, Direct = False\<rparr>)"
    "rw_body (sv_streams s' ! r) = rw_body (sv_streams s ! r) @ string_bytes (eir_Payload dflt)"
    using FastInvoke_failed_writes [OF t(1), of r env f dflt dflt st] next_invoke_state(2-4) [OF assms(8)] assms by auto
  have "fst (snd (SendResponse ident resp env' s')) = Some ErrResponseSent"
    using SendResponse_after_reply [OF s'(2)] t(2) by simp
  then show "\<exists>s' m. FastInvoke_failed st env f ?s = Ret (s', m) \<and>
       rw_body (sv_streams s' ! r) = rw_body (sv_streams s ! r) @ string_bytes (eir_Payload dflt) \<and>
       fst (snd (SendResponse ident resp env' s')) = Some ErrResponseSent"
    using s' by blast
qed

definition sample_failure :: InvokeFailure where
  "sample_failure = \<lparr>vf_ResetReceived = False, vf_RequestReset = False, vf_ErrorType = SandboxFailure,
     vf_ErrorMessage = ErrText ''errResetReceived'', vf_RuntimeRelease = [], vf_NumActiveExtensions = 0, vf_InvokeReceivedTime = 0,
     vf_LogsAPIMetrics = [], vf_ResponseMetrics = zero_response_metrics,
     vf_InvokeMetrics = \<lparr>InvokeRequestReadTimeNs = 0, InvokeRequestSizeBytes = 0, RuntimeReadyTime = 0\<rparr>, vf_ExtensionNames = [],
     vf_DefaultErrorResponse = Some \<lparr>eir_ContentType = [], eir_FunctionResponseMode = [],
       eir_FunctionError = \<lparr>fe_Type = SandboxFailure, fe_Message = ''old''\<rparr>, eir_Payload = ''old''\<rparr>,
     vf_InvokeResponseMode = ResponseModeBuffered\<rparr>"

theorem late_failure_answers_next_invoke_witness:
  "\<exists>s' m st. FastInvoke_failed st sample_send_env sample_failure (next_invoke ''a'' ''b'' ''i2'' 0 sample_server) = Ret (s', m) \<and>
    rw_body (sv_streams s' ! 0) = string_bytes ''old''"
  using late_failure_answers_next_invoke [of sample_failure _ sample_server sample_send_env 0 "''i2''"]
  by (fastforce simp: sample_failure_def sample_server_ctx sample_send_env_def MaxPayloadSize_def new_writer_def)

text \<open>A cached init error is only ever replaced by another one.\<close>

lemma sendResponseUnsafe_cached:
  "sv_cachedInitErrorResponse (fst (sendResponseUnsafe i h p t c env s)) = sv_cachedInitErrorResponse s"
  by (auto simp: sendResponseUnsafe_def Let_def split: option.splits prod.splits)

lemma server_exec_cached:
  "(\<forall>r. op \<noteq> SoCacheInitError r) \<Longrightarrow> sv_cachedInitErrorResponse (server_exec op s) = sv_cachedInitErrorResponse s"
  by (cases op)
    (simp_all add: server_op_defs Let_def sendResponseUnsafe_cached split: option.splits)

lemma server_run_cached:
  "(\<forall>r. SoCacheInitError r \<notin> set ops) \<Longrightarrow> sv_cachedInitErrorResponse (server_run ops s) = sv_cachedInitErrorResponse s"
proof (induction ops arbitrary: s)
  case (Cons op ops)
  have "\<forall>r. op \<noteq> SoCacheInitError r" using Cons.prems by auto
  then show ?case using Cons by (simp add: server_run_def server_exec_cached)
qed (simp add: server_run_def)

text \<open>Once the runtime has reported an error of its initialization outside an invoke, that error stays cached through
  releases, resets, new init phases and successful invokes, and every later invoke that fails and has no reply
  yet is answered with it in place of the error of that invoke.\<close>

theorem cached_init_error_answers_later_failures:
  assumes "sv_cachedInitErrorResponse s = Some cached" "\<forall>r. SoCacheInitError r \<notin> set ops"
    "s' = server_run ops s" "sv_invokeCtx s' = Some c" "\<not> ReplySent c" "ReplyStream c = Some r" "\<not> Direct c"
    "r < length (sv_streams s')" "se_wfail env = None" "sv_InvokeDoneChan s' = []" "\<not> vf_ResetReceived f"
    "vf_DefaultErrorResponse f = Some dflt" "int (length (eir_Payload cached)) \<le> MaxPayloadSize"
  shows "\<exists>s'' m. FastInvoke_failed st env f s' = Ret (s'', m) \<and>
    rw_body (sv_streams s'' ! r) = rw_body (sv_streams s' ! r) @ string_bytes (eir_Payload cached)"
proof -
  have "sv_cachedInitErrorResponse s' = Some cached" using server_run_cached [OF assms(2)] assms(1,3) by simp
  then show ?thesis
    using FastInvoke_failed_writes [OF assms(4-11,12), of cached st] assms(13) by auto
qed

definition sample_cached :: ErrorInvokeResponse where
  "sample_cached = \<lparr>eir_ContentType = [], eir_FunctionResponseMode = [],
     eir_FunctionError = \<lparr>fe_Type = RuntimeUnknown, fe_Message = []\<rparr>, eir_Payload = ''init''\<rparr>"

theorem cached_init_error_answers_later_failures_witness:
  "\<forall>st. \<exists>s'' m. FastInvoke_failed st sample_send_env sample_failure
      (server_run [SoNewStream new_writer, SoReserve ''u1'' ''u2'' ''i1'' [] [], SoSetReplyStream 0 False]
        (setCachedInitErrorResponse sample_cached NewServer)) = Ret (s'', m) \<and>
    rw_body (sv_streams s'' ! 0) = string_bytes ''init''"
proof -
  let ?ops = "[SoNewStream new_writer, SoReserve ''u1'' ''u2'' ''i1'' [] [], SoSetReplyStream 0 False]"
  let ?s = "setCachedInitErrorResponse sample_cached NewServer"
  have c: "sv_invokeCtx (server_run ?ops ?s) =
      Some \<lparr>ic_Token = new_token ''u2'' ''i1'' 0 [] [], ReplySent = False, ReplyStream = Some 0, Direct = False\<rparr>"
    "sv_streams (server_run ?ops ?s) = [new_writer]" "sv_InvokeDoneChan (server_run ?ops ?s) = []"
    by (simp_all add: server_run_def server_op_defs NewServer_def Let_def new_token_def)
  have k: "sv_cachedInitErrorResponse ?s = Some sample_cached" "\<forall>r. SoCacheInitError r \<notin> set ?ops"
    by (simp_all add: setCachedInitErrorResponse_def)
  have f: "se_wfail sample_send_env = None" "\<not> vf_ResetReceived sample_failure"
    "vf_DefaultErrorResponse sample_failure = Some (the (vf_DefaultErrorResponse sample_failure))"
    "int (length (eir_Payload sample_cached)) \<le> MaxPayloadSize" "rw_body new_writer = []"
    "string_bytes (eir_Payload sample_cached) = string_bytes ''init''"
    by (simp_all add: sample_failure_def sample_send_env_def sample_cached_def MaxPayloadSize_def new_writer_def)
  show ?thesis
    using cached_init_error_answers_later_failures [OF k refl c(1), of 0 sample_send_env sample_failure
        "the (vf_DefaultErrorResponse sample_failure)"] c(2,3) f
    by simp
qed

text \<open>The failure of an init is delivered to the first waiter only: a second call, which the comment allows,
  returns no error and records the init as complete.  Without a failure the call returns as soon as the init has
  completed, any number of times.\<close>

theorem await_initialized_forgets_failure:
  assumes "AwaitInitialized s = Ret (s1, e)"
  shows "\<exists>s2. AwaitInitialized s1 = Ret (s2, None) \<and> sv_runtimeState s2 = runtimeInitComplete \<and>
    (e \<noteq> None \<longrightarrow> sv_runtimeState s1 = runtimeInitFailed \<and> sv_invokeCtx s1 = None) \<and>
    (e \<noteq> None \<longleftrightarrow> (\<exists>ch f. sv_initFailures s = Some ch \<and> ich_failure ch = Some f))"
  using assms
  by (auto simp: AwaitInitialized_def awaitInitialized_def setRuntimeState_def server_Release_def
      split: option.splits outcome.splits if_splits)

theorem await_initialized_forgets_failure_witness:
  "\<exists>f s1 s2. AwaitInitialized (awaitInitCompletion (Some f) (server_Init 3000 NewServer)) = Ret (s1, Some ErrInitDoneFailed) \<and>
    AwaitInitialized s1 = Ret (s2, None) \<and> sv_runtimeState s2 = runtimeInitComplete"
proof -
  let ?f = "\<lparr>if_ResetReceived = False, if_RequestReset = True, if_ErrorType = RuntimeExit, if_ErrorMessage = ErrText [],
     if_NumActiveExtensions = 0, if_RuntimeRelease = [], if_LogsAPIMetrics = []\<rparr>"
  let ?s = "awaitInitCompletion (Some ?f) (server_Init 3000 NewServer)"
  have "\<exists>s1. AwaitInitialized ?s = Ret (s1, Some ErrInitDoneFailed)"
    by (simp add: AwaitInitialized_def awaitInitialized_def awaitInitCompletion_def server_Init_def setInitFailuresChan_def
        setRapidPhase_def SetInvokeTimeout_def NewServer_def Let_def)
  then obtain s1 where s1: "AwaitInitialized ?s = Ret (s1, Some ErrInitDoneFailed)" by blast
  then show ?thesis using await_initialized_forgets_failure [OF s1] by blast
qed

text \<open>Without an invoker the goroutine of the fast path completes the invoke with a message that has no \<open>Done\<close>; the
  waiting release and a reset both dereference it.\<close>

lemma no_invoker_panics:
  assumes "sv_InvokeDoneChan s = []" "sv_reservationCancelled s = Some cancelled"
  shows "\<exists>s'. FastInvoke_no_invoker st s = Ret s' \<and> AwaitRelease True s' = Panics ''nil pointer'' \<and>
    server_Clear s' = Panics ''nil pointer''"
  using assms
  by (simp add: FastInvoke_no_invoker_def send_InvokeDone_def setRuntimeState_def AwaitRelease_def server_Clear_def drainChannel_def)

section \<open>Release of the reservation\<close>

lemma Reserve_free:
  assumes "sv_invokeCtx s = None"
  shows "\<exists>s' tok. Reserve u1 u2 ident t l s = (s', Some tok, InternalState s) \<and>
    tk_InvokeID tok = (if ident \<noteq> [] then ident else u1) \<and>
    sv_invokeCtx s' = Some \<lparr>ic_Token = tok, ReplySent = False, ReplyStream = None, Direct = False\<rparr> \<and>
    sv_reservationCancelled s' = Some False"
  using assms by (simp add: Reserve_def setNewInvokeContext_def new_token_def InternalState_def Let_def)

lemma reset_goroutine_free: "reset_goroutine m r s = Ret (s', d) \<Longrightarrow> sv_invokeCtx s' = None \<and> InternalState s' = InternalState s"
  by (auto simp: reset_goroutine_def server_Clear_def drainChannel_def server_Release_def setRuntimeState_def setRapidPhase_def
      InternalState_def split: option.splits outcome.splits)

lemma server_Release_free: "sv_invokeCtx (fst (server_Release s)) = None \<and> InternalState (fst (server_Release s)) = InternalState s"
  by (auto simp: server_Release_def InternalState_def split: option.splits)

text \<open>While the server is reserved a further reservation is refused and changes nothing; after a release, or a reset
  that does not panic, the next reservation is granted, with no reply, no stream and a fresh context that is not
  cancelled, and the waits of the released invoke are ended.\<close>

theorem reserve_release_protocol:
  "(sv_invokeCtx s \<noteq> None \<longrightarrow> Reserve u1 u2 ident t l s = (s, None, Some ErrAlreadyReserved)) \<and>
   (sv_invokeCtx s = None \<longrightarrow> server_Release s = (s, Some ErrNotReserved)) \<and>
   (\<forall>s'. s' = fst (server_Release s) \<or> reset_goroutine m r s = Ret (s', d) \<longrightarrow>
      (\<exists>s'' tok. Reserve u1 u2 ident t l s' = (s'', Some tok, InternalState s) \<and>
         tk_InvokeID tok = (if ident \<noteq> [] then ident else u1) \<and>
         sv_invokeCtx s'' = Some \<lparr>ic_Token = tok, ReplySent = False, ReplyStream = None, Direct = False\<rparr> \<and>
         sv_reservationCancelled s'' = Some False)) \<and>
   (sv_invokeCtx s \<noteq> None \<and> sv_reservationCancelled s \<noteq> None \<longrightarrow> sv_reservationCancelled (fst (server_Release s)) = Some True)"
proof (intro conjI allI impI)
  fix s'
  assume "s' = fst (server_Release s) \<or> reset_goroutine m r s = Ret (s', d)"
  then have "sv_invokeCtx s' = None" "InternalState s' = InternalState s" using server_Release_free reset_goroutine_free by auto
  then show "\<exists>s'' tok. Reserve u1 u2 ident t l s' = (s'', Some tok, InternalState s) \<and>
         tk_InvokeID tok = (if ident \<noteq> [] then ident else u1) \<and>
         sv_invokeCtx s'' = Some \<lparr>ic_Token = tok, ReplySent = False, ReplyStream = None, Direct = False\<rparr> \<and>
         sv_reservationCancelled s'' = Some False"
    using Reserve_free [of s' u1 u2 ident t l] by simp
qed (auto simp: Reserve_def setNewInvokeContext_def server_Release_def)

theorem reserve_release_protocol_witness:
  "Reserve ''a'' ''b'' ''i2'' [] [] sample_server = (sample_server, None, Some ErrAlreadyReserved) \<and>
   (\<exists>s'' tok e. Reserve ''a'' ''b'' ''i2'' [] [] (fst (server_Release sample_server)) = (s'', Some tok, e) \<and> tk_InvokeID tok = ''i2'')"
  using reserve_release_protocol [of sample_server "''a''" "''b''" "''i2''" "[]" "[]"]
  by (fastforce simp: sample_server_ctx)

section \<open>A late fast path\<close>

text \<open>The fast path attaches its response writer to whatever reservation it finds: one that is delayed past the
  release of its own invoke takes over the next invoke, whose own fast path is then refused, and the reply to the
  next invoke goes to the writer of the earlier one.\<close>

theorem late_fast_invoke_takes_next_reply:
  assumes "ident \<noteq> []" "old < length (sv_streams s)" "new < length (sv_streams s)" "old \<noteq> new" "rd_err p = None"
    "int (length (rd_data p)) \<le> MaxPayloadSize" "se_wfail env = None"
    and s1: "s1 = fst (Reserve u1 u2 ident t l (fst (server_Release s)))"
    and s2: "FastInvoke_begin old False False i s1 = (s2, res)"
    and s3: "SendResponse ident \<lparr>sir_Headers = h, sir_Payload = p, sir_Trailers = tr\<rparr> env s2 = (s3, e, m)"
  shows "\<exists>j. res = Inr j \<and> iv_ID j = ident \<and> snd (FastInvoke_begin new False False i' s2) = Inl ErrAlreadyInvocating \<and>
    e = None \<and> rw_body (sv_streams s3 ! old) = rw_body (sv_streams s ! old) @ rd_data p \<and> sv_streams s3 ! new = sv_streams s ! new"
proof -
  obtain tok where c1: "sv_invokeCtx s1 = Some \<lparr>ic_Token = tok, ReplySent = False, ReplyStream = None, Direct = False\<rparr>"
    "tk_InvokeID tok = ident" "sv_streams s1 = sv_streams s"
    using assms(1) released_state [of s] s1 by (simp add: Reserve_def setNewInvokeContext_def new_token_def Let_def)
  have c2: "sv_invokeCtx s2 = Some \<lparr>ic_Token = tok, ReplySent = False, ReplyStream = Some old, Direct = False\<rparr>"
    "sv_streams s2 = sv_streams s" "res = Inr (i\<lparr>iv_ID := ident\<rparr>)"
    using s2 c1 by (auto simp: FastInvoke_begin_def setReplyStream_def setRapidPhase_def Let_def)
  have b: "snd (FastInvoke_begin new False False i' s2) = Inl ErrAlreadyInvocating"
    using c2 by (simp add: FastInvoke_begin_def setReplyStream_def)
  let ?s = "setRuntimeState runtimeInvokeResponseSent s2"
  have u: "sendResponseUnsafe ident h p tr True env ?s = (s3, e, m)" using s3 by (simp add: SendResponse_def)
  have "e = None \<and> rw_body (sv_streams s3 ! old) = rw_body (sv_streams s ! old) @ rd_data p \<and> sv_streams s3 ! new = sv_streams s ! new"
    using buffered_reply_checked [OF u] c1(2) c2(1,2) assms(2-7) by (auto simp: setRuntimeState_def)
  with b c2(3) show ?thesis by simp
qed

definition sample_invoke :: Invoke where
  "sample_invoke = \<lparr>iv_TraceID = [], iv_LambdaSegmentID = [], iv_ID = ''i1'', iv_TenantID = [], iv_InvokedFunctionArn = [],
     iv_CognitoIdentityID = [], iv_CognitoIdentityPoolID = [], iv_DeadlineNs = [], iv_ClientContext = [], iv_ContentType = [],
     iv_Payload = [], iv_NeedDebugLogs = False, iv_ReservationToken = [], iv_VersionID = [], iv_InvokeReceivedTime = 0,
     iv_InvokeResponseMetrics = None, iv_InvokeResponseMode = ResponseModeBuffered, iv_RestoreDurationNs = 0,
     iv_RestoreStartTimeMonotime = 0\<rparr>"

theorem late_fast_invoke_takes_next_reply_witness:
  "\<exists>s1 s2 res. s1 = fst (Reserve ''a'' ''b'' ''i2'' [] [] (fst (server_Release (server_exec (SoNewStream new_writer) sample_server)))) \<and>
    FastInvoke_begin 0 False False sample_invoke s1 = (s2, res) \<and>
    snd (FastInvoke_begin 1 False False sample_invoke s2) = Inl ErrAlreadyInvocating"
proof -
  let ?s = "server_exec (SoNewStream new_writer) sample_server"
  let ?s1 = "fst (Reserve ''a'' ''b'' ''i2'' [] [] (fst (server_Release ?s)))"
  obtain s2 res where s2: "FastInvoke_begin 0 False False sample_invoke ?s1 = (s2, res)" by fastforce
  let ?p = "\<lparr>rd_data = [], rd_err = None\<rparr>"
  obtain s3 e m where s3: "SendResponse ''i2'' \<lparr>sir_Headers = [], sir_Payload = ?p, sir_Trailers = \<lambda>_. []\<rparr> sample_send_env s2 = (s3, e, m)"
    by (metis prod_cases3)
  have "length (sv_streams ?s) = 2" by (simp add: sample_server_ctx)
  then show ?thesis
    using late_fast_invoke_takes_next_reply [OF _ _ _ _ _ _ _ refl s2 s3, of 1 sample_invoke] s2
    by (auto simp: sample_send_env_def MaxPayloadSize_def)
qed

end
