(* ===== verification/Rapid_Context.thy ===== *)
theory Rapid_Context
  imports Messages Core_System Credentials Environment
begin

text \<open>
  The context of the rapid handlers and the shutdown of the processes it started:
  \<open>internal/lambda/rapid/sandbox.go\<close>, \<open>shutdown.go\<close> and the parts of \<open>handlers.go\<close> that watch the processes.
  The registration service with its flows is the \<open>reg\<close> of the core.  Requests to the supervisor, and
  platform events with the \<open>SendRuntimeReady\<close> calls to the interop server, are recorded in order; what the supervisor, the clocks and \<open>select\<close> contribute are arguments.
  Channels that signal the exit of a process are entries \<open>name \<mapsto> closed\<close>.
\<close>

section \<open>State\<close>

datatype sup_request =
    SupExec string string env_map
  | SupTerminate string
  | SupKill string

datatype renderer = InvokeRenderer string | ShutdownRenderer int string | RestoreRenderer

datatype platform_event =
    EvInitStart string string
  | EvInitRuntimeDone string string "ErrorType option"
  | EvInitReport string string
  | EvInvokeStart string
  | EvInvokeRuntimeDone string "ErrorType option"
  | EvRestoreRuntimeDone string "ErrorType option"
  | EvExtensionInit AgentInfo
  | EvImageErrorLog string
  | EvReportSpan string int
  | EvSendRuntimeReady

record shutdownContext =
  shuttingDown :: bool
  agentsAwaitingExit :: "(string \<times> ref) list"
  runtimeDomainExited :: "(string \<times> bool) list"

record rapidContext =
  rc_appCtx :: applicationContext
  rc_initDone :: bool
  rc_runtimeDomainGeneration :: "32 word"
  rc_registrationService :: reg
  rc_renderingService :: "renderer option"
  rc_telemetryAPIEnabled :: bool
  rc_logsMetrics :: TelemetrySubscriptionMetrics
  rc_telemetryMetrics :: TelemetrySubscriptionMetrics
  rc_subscriptionsOn :: bool
  rc_standaloneMode :: bool
  rc_initCachingEnabled :: bool
  rc_credentialsService :: credentialsServiceImpl
  rc_shutdownContext :: shutdownContext
  rc_logStreamName :: string
  rc_RuntimeStartedTime :: int
  rc_RuntimeOverheadStartedTime :: int
  rc_InvokeResponseMetrics :: "InvokeResponseMetrics option"
  rc_extensionsEnabled :: bool
  rc_requests :: "sup_request list"
  rc_events :: "platform_event list"

definition newShutdownContext :: shutdownContext where
  "newShutdownContext = \<lparr>shuttingDown = False, agentsAwaitingExit = [], runtimeDomainExited = []\<rparr>"

text \<open>The context \<open>Start\<close> builds.\<close>

definition rapid_Start :: "bool \<Rightarrow> bool \<Rightarrow> bool \<Rightarrow> bool \<Rightarrow> rapidContext" where
  "rapid_Start enableTelemetryAPI standaloneMode initCachingEnabled extensionsEnabled =
    \<lparr>rc_appCtx = StoreInteropServer (StoreInitType NewApplicationContext initCachingEnabled) 0,
     rc_initDone = False, rc_runtimeDomainGeneration = 0, rc_registrationService = NewRegistrationService new_flows,
     rc_renderingService = None, rc_telemetryAPIEnabled = enableTelemetryAPI, rc_logsMetrics = [], rc_telemetryMetrics = [],
     rc_subscriptionsOn = True, rc_standaloneMode = standaloneMode, rc_initCachingEnabled = initCachingEnabled,
     rc_credentialsService = NewCredentialsService, rc_shutdownContext = newShutdownContext, rc_logStreamName = [],
     rc_RuntimeStartedTime = -1, rc_RuntimeOverheadStartedTime = -1, rc_InvokeResponseMetrics = None,
     rc_extensionsEnabled = extensionsEnabled, rc_requests = [], rc_events = []\<rparr>"

definition emit :: "platform_event \<Rightarrow> rapidContext \<Rightarrow> rapidContext" where
  "emit ev c = c\<lparr>rc_events := rc_events c @ [ev]\<rparr>"

definition request :: "sup_request \<Rightarrow> rapidContext \<Rightarrow> rapidContext" where
  "request q c = c\<lparr>rc_requests := rc_requests c @ [q]\<rparr>"

text \<open>The first fatal error of the context; the type assertions of the accessors hold for every context that
  only they have written.\<close>

definition store_fatal :: "ErrorType \<Rightarrow> rapidContext \<Rightarrow> rapidContext" where
  "store_fatal e c = (case StoreFirstFatalError (rc_appCtx c) e of Some a \<Rightarrow> c\<lparr>rc_appCtx := a\<rparr> | None \<Rightarrow> c)"

definition load_fatal :: "rapidContext \<Rightarrow> ErrorType option" where
  "load_fatal c = (case LoadFirstFatalError (rc_appCtx c) of Some (e, True) \<Rightarrow> Some e | _ \<Rightarrow> None)"

definition runtimeProcess :: "32 word \<Rightarrow> string" where
  "runtimeProcess generation = ''runtime-'' @ nat_dec (unat generation)"

definition extensionProcess :: "string \<Rightarrow> 32 word \<Rightarrow> string" where
  "extensionProcess name generation = ''extension-'' @ name @ ''-'' @ nat_dec (unat generation)"

section \<open>Exit channels\<close>

definition isShuttingDown :: "shutdownContext \<Rightarrow> bool" where
  "isShuttingDown s = shuttingDown s"

definition setShuttingDown :: "bool \<Rightarrow> shutdownContext \<Rightarrow> shutdownContext" where
  "setShuttingDown v s = s\<lparr>shuttingDown := v\<rparr>"

definition getExitedChannel :: "string \<Rightarrow> shutdownContext \<Rightarrow> bool option" where
  "getExitedChannel name s = map_of (runtimeDomainExited s) name"

definition createExitedChannel :: "string \<Rightarrow> shutdownContext \<Rightarrow> shutdownContext outcome" where
  "createExitedChannel name s =
    (if map_of (runtimeDomainExited s) name \<noteq> None then Panics ''exited channel already exists''
     else Ret (s\<lparr>runtimeDomainExited := go_map_set name False (runtimeDomainExited s)\<rparr>))"

text \<open>How a process ended: by a signal, or with an exit status.\<close>

datatype ProcessTermination = Signaled nat | Exited int

fun ProcessTermination_Success :: "ProcessTermination \<Rightarrow> bool" where
  "ProcessTermination_Success (Exited st) = (st = 0)"
| "ProcessTermination_Success (Signaled n) = False"

definition handleProcessExit :: "string \<Rightarrow> ProcessTermination \<Rightarrow> ns \<Rightarrow> rapidContext \<Rightarrow> rapidContext outcome" where
  "handleProcessExit name t now c =
    (let s = rc_shutdownContext c;
         c = (case map_of (agentsAwaitingExit s) name of
                Some agent \<Rightarrow>
                  c\<lparr>rc_registrationService :=
                      fst (reg_ext_call (if t = Exited 0 then EAExited else EAShutdownFailed) now now agent
                             (rc_registrationService c))\<rparr>
              | None \<Rightarrow> c)
     in case getExitedChannel name s of
          None \<Rightarrow> Panics ''Unable to find an exitedChannel''
        | Some True \<Rightarrow> Panics ''close of closed channel''
        | Some False \<Rightarrow>
            Ret (c\<lparr>rc_shutdownContext := s\<lparr>runtimeDomainExited := go_map_set name True (runtimeDomainExited s)\<rparr>\<rparr>))"

text \<open>The wait for the exits of the processes in \<open>channels\<close>, read before it started: all of them are
  closed, or the timer fires (\<open>giveUp\<close>).\<close>

definition clearExitedChannel :: "string list \<Rightarrow> bool \<Rightarrow> shutdownContext \<Rightarrow> (shutdownContext \<times> go_error option) outcome" where
  "clearExitedChannel channels giveUp s =
    (if channels = [] \<or> \<not> giveUp \<and> list_all (\<lambda>n. getExitedChannel n s = Some True) channels
     then Ret (s\<lparr>runtimeDomainExited := []\<rparr>, None)
     else if giveUp then Ret (s, Some (ErrText ''timed out waiting for runtime processes to exit''))
     else Blocks)"

section \<open>Events of the supervisor\<close>

fun watch_error :: "bool \<Rightarrow> ProcessTermination \<Rightarrow> string \<Rightarrow> go_error" where
  "watch_error isRuntime t msg =
    (if isRuntime
     then (if ProcessTermination_Success t then ErrText ''Runtime exited without providing a reason''
           else ErrText (''Runtime exited with error: '' @ msg))
     else (if ProcessTermination_Success t then ErrText ''exit code 0'' else ErrText msg))"

text \<open>One termination event; \<open>msg\<close> is its printed form.\<close>

definition watchEvents_step :: "string \<Rightarrow> ProcessTermination \<Rightarrow> string \<Rightarrow> ns \<Rightarrow> rapidContext \<Rightarrow> rapidContext outcome" where
  "watchEvents_step name t msg now c =
    (let isRuntime = (name = runtimeProcess (rc_runtimeDomainGeneration c));
         careful = \<not> isShuttingDown (rc_shutdownContext c);
         er = (if careful then Some (watch_error isRuntime t msg) else None);
         c = (if careful then store_fatal (if isRuntime then RuntimeExit else AgentCrash) c else c)
     in case handleProcessExit name t now c of
          Ret c \<Rightarrow> Ret (c\<lparr>rc_registrationService := CancelFlows er (rc_registrationService c)\<rparr>)
        | Blocks \<Rightarrow> Blocks | Panics m \<Rightarrow> Panics m)"

text \<open>The termination events the watcher handles while another goroutine waits.\<close>

fun watch_all :: "(string \<times> ProcessTermination \<times> string \<times> ns) list \<Rightarrow> rapidContext \<Rightarrow> rapidContext outcome" where
  "watch_all [] c = Ret c"
| "watch_all ((n, t, msg, now) # es) c =
    (case watchEvents_step n t msg now c of Ret c \<Rightarrow> watch_all es c | Blocks \<Rightarrow> Blocks | Panics m \<Rightarrow> Panics m)"

section \<open>Shutdown\<close>

text \<open>What happens around a shutdown: the clocks, the terminations handled while it waits for the runtime, for the
  agents and at the end, the processes that miss their deadline, the thread a release wakes, and whether the
  final wait gives up.\<close>

record shutdown_env =
  sh_mono :: int
  sh_start :: int
  sh_profilerStart :: int
  sh_profilerStop :: int
  sh_killErr :: "go_error option"
  sh_runtimeLate :: bool
  sh_agentLate :: "string \<Rightarrow> bool"
  sh_pick :: nat
  sh_runtimeExits :: "(string \<times> ProcessTermination \<times> string \<times> ns) list"
  sh_agentExits :: "(string \<times> ProcessTermination \<times> string \<times> ns) list"
  sh_lateExits :: "(string \<times> ProcessTermination \<times> string \<times> ns) list"
  sh_giveUp :: bool

definition shutdownRuntime :: "shutdown_env \<Rightarrow> rapidContext \<Rightarrow> rapidContext outcome" where
  "shutdownRuntime env c =
    (let name = runtimeProcess (rc_runtimeDomainGeneration c)
     in case getExitedChannel name (rc_shutdownContext c) of
          None \<Rightarrow> Ret c
        | Some _ \<Rightarrow>
            outcome_bind (watch_all (sh_runtimeExits env) (request (SupTerminate name) c)) (\<lambda>c.
              if sh_runtimeLate env then Ret (request (SupKill name) c)
              else if getExitedChannel name (rc_shutdownContext c) = Some True then Ret c
              else Blocks))"

text \<open>One agent of the loop: skipped when it was not launched, released when it is subscribed to the shutdown event,
  killed otherwise or when it misses the deadline that only exists in standalone mode.\<close>

definition shutdown_agent :: "shutdown_env \<Rightarrow> ref \<Rightarrow> rapidContext \<Rightarrow> rapidContext" where
  "shutdown_agent env a c =
    (let r = rc_registrationService c;
         name = extensionProcess (ea_Name (rs_extAgents r ! a)) (rc_runtimeDomainGeneration c);
         s = rc_shutdownContext c
     in if getExitedChannel name s = None then c
        else if ExternalAgent_IsSubscribed ShutdownEvent (rs_extAgents r ! a)
        then let c = c\<lparr>rc_shutdownContext := s\<lparr>agentsAwaitingExit := go_map_set name a (agentsAwaitingExit s)\<rparr>,
                       rc_registrationService := fst (reg_ext_call (EARelease (sh_pick env)) 0 0 a r)\<rparr>
             in if rc_standaloneMode c \<and> sh_agentLate env name then request (SupKill name) c else c
        else request (SupKill name) c)"

definition agents_exited :: "shutdown_env \<Rightarrow> rapidContext \<Rightarrow> bool" where
  "agents_exited env c =
    list_all (\<lambda>(name, a). rc_standaloneMode c \<and> sh_agentLate env name \<or>
                getExitedChannel name (rc_shutdownContext c) = Some True) (agentsAwaitingExit (rc_shutdownContext c))"

definition shutdownAgents :: "shutdown_env \<Rightarrow> int \<Rightarrow> string \<Rightarrow> rapidContext \<Rightarrow> rapidContext outcome" where
  "shutdownAgents env deadline reason c =
    (let c = c\<lparr>rc_renderingService := Some (ShutdownRenderer (go_quot deadline 1000000) reason),
               rc_shutdownContext := (rc_shutdownContext c)\<lparr>agentsAwaitingExit := []\<rparr>\<rparr>;
         c = fold (shutdown_agent env) (GetExternalAgents (rc_registrationService c)) c
     in outcome_bind (watch_all (sh_agentExits env) c) (\<lambda>c. if agents_exited env c then Ret c else Blocks))"

text \<open>The graceful part is skipped without agents; the deadline of the agents is the time still available.\<close>

definition stop_processes :: "shutdown_env \<Rightarrow> int \<Rightarrow> string \<Rightarrow> rapidContext
    \<Rightarrow> (rapidContext \<times> ExtensionsResetDurationProfiler \<times> go_error option) outcome" where
  "stop_processes env deadlineNs reason c =
    (let p0 = \<lparr>NumAgentsRegisteredForShutdown = 0, AvailableNs = 0, extensionsResetStartTimeNs = 0, extensionsResetEndTimeNs = 0\<rparr>
     in if CountAgents (rc_registrationService c) = 0
        then let name = runtimeProcess (rc_runtimeDomainGeneration c)
             in if getExitedChannel name (rc_shutdownContext c) \<noteq> None
                then Ret (request (SupKill name) c, p0, sh_killErr env)
                else Ret (c, p0, None)
        else let availableNs = max 0 (wrap64 (deadlineNs - sh_mono env));
                 p = profiler_Start (sh_profilerStart env) (p0\<lparr>AvailableNs := availableNs\<rparr>)
             in outcome_bind (shutdownRuntime env c) (\<lambda>c.
                outcome_bind (shutdownAgents env (sh_start env + availableNs) reason c) (\<lambda>c.
                  Ret (c, p\<lparr>NumAgentsRegisteredForShutdown := int (length (agentsAwaitingExit (rc_shutdownContext c)))\<rparr>, None))))"

definition shutdown :: "shutdown_env \<Rightarrow> int \<Rightarrow> string \<Rightarrow> rapidContext
    \<Rightarrow> (rapidContext \<times> int \<times> bool \<times> go_error option) outcome" where
  "shutdown env deadlineNs reason c =
    (let c = c\<lparr>rc_shutdownContext := setShuttingDown True (rc_shutdownContext c),
               rc_appCtx := ctx_Delete (rc_appCtx c) AppCtxFirstFatalErrorKey\<rparr>
     in outcome_bind (stop_processes env deadlineNs reason c) (\<lambda>(c, p, er).
          let channels = map fst (runtimeDomainExited (rc_shutdownContext c))
          in outcome_bind (watch_all (sh_lateExits env) c) (\<lambda>c.
             outcome_bind (clearExitedChannel channels (sh_giveUp env) (rc_shutdownContext c)) (\<lambda>(s, _).
               let (ms, timeout) = CalculateExtensionsResetMs (profiler_Stop (sh_profilerStop env) p)
               in Ret (c\<lparr>rc_shutdownContext := setShuttingDown False s\<rparr>, ms, timeout, er)))))"

section \<open>Names of processes\<close>

lemma digit_char_plain: "d < 10 \<Longrightarrow> digit_char d \<noteq> CHR ''-''"
  using digit_char_not_sign by blast

lemma nat_dec_plain: "CHR ''-'' \<notin> set (nat_dec n)"
proof (induction n rule: nat_dec.induct)
  case (1 n)
  show ?case
  proof (cases "n < 10")
    case True
    then show ?thesis using digit_char_plain [of n] by (subst nat_dec.simps) auto
  next
    case False
    then show ?thesis using 1 digit_char_plain [of "n mod 10"] by (subst nat_dec.simps) auto
  qed
qed

lemma nat_dec_inject: "nat_dec m = nat_dec n \<longleftrightarrow> m = n"
  by (metis parse_nat_dec option.inject)

lemma last_separator:
  assumes "xs @ c # ys = xs' @ c # ys'" "c \<notin> set ys" "c \<notin> set ys'"
  shows "xs = xs' \<and> ys = ys'"
proof -
  have e: "rev ys @ c # rev xs = rev ys' @ c # rev xs'" using arg_cong [OF assms(1), of rev] by simp
  have "takeWhile (\<lambda>x. x \<noteq> c) (rev zs @ c # ws) = rev zs" if "c \<notin> set zs" for zs ws
    using that by (subst takeWhile_append2) auto
  then have "rev ys = rev ys'" using e assms(2,3) by metis
  then show ?thesis using assms(1) by simp
qed

text \<open>The name a process is started under determines what it is: two names are equal only for the same
  extension, or the runtime, of the same generation, whatever the extensions are called.\<close>

theorem process_names_unique:
  "(runtimeProcess g = runtimeProcess g' \<longleftrightarrow> g = g') \<and>
   (extensionProcess n g = extensionProcess n' g' \<longleftrightarrow> n = n' \<and> g = g') \<and>
   runtimeProcess g \<noteq> extensionProcess n g'"
proof (intro conjI)
  show "runtimeProcess g = runtimeProcess g' \<longleftrightarrow> g = g'" by (auto simp: runtimeProcess_def nat_dec_inject word_unat_eq_iff)
  show "extensionProcess n g = extensionProcess n' g' \<longleftrightarrow> n = n' \<and> g = g'"
    using last_separator [of n "CHR ''-''" "nat_dec (unat g)" n' "nat_dec (unat g')"] nat_dec_plain
    by (auto simp: extensionProcess_def nat_dec_inject word_unat_eq_iff)
  show "runtimeProcess g \<noteq> extensionProcess n g'" by (simp add: runtimeProcess_def extensionProcess_def)
qed

section \<open>Exits of processes\<close>

lemma handleProcessExit_Ret:
  "handleProcessExit name t now c = Ret c' \<Longrightarrow> getExitedChannel name (rc_shutdownContext c) = Some False \<and>
    rc_shutdownContext c' = (rc_shutdownContext c)\<lparr>runtimeDomainExited :=
      go_map_set name True (runtimeDomainExited (rc_shutdownContext c))\<rparr> \<and>
    rc_requests c' = rc_requests c \<and> rc_runtimeDomainGeneration c' = rc_runtimeDomainGeneration c \<and>
    rc_standaloneMode c' = rc_standaloneMode c \<and> rc_appCtx c' = rc_appCtx c"
  by (auto simp: handleProcessExit_def Let_def split: option.splits bool.splits)

lemma store_fatal_frame [simp]:
  "rc_shutdownContext (store_fatal e c) = rc_shutdownContext c" "rc_requests (store_fatal e c) = rc_requests c"
  "rc_registrationService (store_fatal e c) = rc_registrationService c"
  "rc_runtimeDomainGeneration (store_fatal e c) = rc_runtimeDomainGeneration c"
  "rc_standaloneMode (store_fatal e c) = rc_standaloneMode c" "rc_initDone (store_fatal e c) = rc_initDone c"
  "rc_extensionsEnabled (store_fatal e c) = rc_extensionsEnabled c"
  by (simp_all add: store_fatal_def split: option.splits)

lemma watchEvents_step_returns:
  "(\<exists>c'. watchEvents_step name t msg now c = Ret c') \<longleftrightarrow> getExitedChannel name (rc_shutdownContext c) = Some False"
  by (auto simp: watchEvents_step_def handleProcessExit_def Let_def split: option.splits bool.splits)

lemma watchEvents_step_channels:
  assumes "watchEvents_step name t msg now c = Ret c'"
  shows "runtimeDomainExited (rc_shutdownContext c') = go_map_set name True (runtimeDomainExited (rc_shutdownContext c))"
  using assms by (auto simp: watchEvents_step_def Let_def split: outcome.splits dest!: handleProcessExit_Ret)

text \<open>Starting processes creates their channels; the watcher handles their ends.\<close>

datatype process_step = PStarted string | PEnded string ProcessTermination string ns

fun process_run :: "process_step list \<Rightarrow> rapidContext \<Rightarrow> rapidContext outcome" where
  "process_run [] c = Ret c"
| "process_run (PStarted n # ps) c =
    (case createExitedChannel n (rc_shutdownContext c) of
       Ret s \<Rightarrow> process_run ps (c\<lparr>rc_shutdownContext := s\<rparr>) | Blocks \<Rightarrow> Blocks | Panics m \<Rightarrow> Panics m)"
| "process_run (PEnded n t msg now # ps) c =
    (case watchEvents_step n t msg now c of Ret c \<Rightarrow> process_run ps c | Blocks \<Rightarrow> Blocks | Panics m \<Rightarrow> Panics m)"

text \<open>A history is orderly when no name is started twice and every end follows the start of its
  process and is the only one.\<close>

fun orderly :: "string set \<Rightarrow> string set \<Rightarrow> process_step list \<Rightarrow> bool" where
  "orderly started ended [] = True"
| "orderly started ended (PStarted n # ps) = (n \<notin> started \<and> orderly (insert n started) ended ps)"
| "orderly started ended (PEnded n _ _ _ # ps) = (n \<in> started \<and> n \<notin> ended \<and> orderly started (insert n ended) ps)"

definition channels_are :: "string set \<Rightarrow> string set \<Rightarrow> rapidContext \<Rightarrow> bool" where
  "channels_are started ended c \<longleftrightarrow> ended \<subseteq> started \<and>
    (\<forall>n. getExitedChannel n (rc_shutdownContext c) = (if n \<in> started then Some (n \<in> ended) else None))"

lemma process_run_orderly:
  assumes "channels_are started ended c"
  shows "(\<exists>c'. process_run ps c = Ret c') \<longleftrightarrow> orderly started ended ps"
  using assms
proof (induction ps arbitrary: started ended c)
  case (Cons p ps)
  show ?case
  proof (cases p)
    case (PStarted n)
    show ?thesis
    proof (cases "n \<in> started")
      case True
      then show ?thesis using PStarted Cons.prems
        by (auto simp: createExitedChannel_def channels_are_def getExitedChannel_def)
    next
      case False
      let ?c = "c\<lparr>rc_shutdownContext := (rc_shutdownContext c)\<lparr>runtimeDomainExited :=
        go_map_set n False (runtimeDomainExited (rc_shutdownContext c))\<rparr>\<rparr>"
      have "channels_are (insert n started) ended ?c"
        using Cons.prems False by (auto simp: channels_are_def getExitedChannel_def)
      then show ?thesis using Cons.IH Cons.prems False PStarted
        by (simp add: createExitedChannel_def channels_are_def getExitedChannel_def)
    qed
  next
    case (PEnded n t msg now)
    show ?thesis
    proof (cases "n \<in> started \<and> n \<notin> ended")
      case False
      then have "\<not> (\<exists>c'. watchEvents_step n t msg now c = Ret c')"
        using Cons.prems by (auto simp: watchEvents_step_returns channels_are_def)
      then show ?thesis using PEnded False by (auto split: outcome.splits)
    next
      case True
      then obtain c' where c': "watchEvents_step n t msg now c = Ret c'"
        using Cons.prems watchEvents_step_returns [of n t msg now c] by (auto simp: channels_are_def)
      have "channels_are started (insert n ended) c'"
        using Cons.prems True watchEvents_step_channels [OF c'] by (auto simp: channels_are_def getExitedChannel_def)
      then show ?thesis using Cons.IH c' PEnded True by auto
    qed
  qed
qed (simp add: channels_are_def)

text \<open>The watcher survives a sequence of process starts and ends exactly when no name is started twice and the
  channel of every process exists when its one termination is handled; in particular a process whose end is
  handled before its channel was created makes the emulator panic.\<close>

theorem exits_handled_iff_orderly:
  assumes "runtimeDomainExited (rc_shutdownContext c) = []"
  shows "((\<exists>c'. process_run ps c = Ret c') \<longleftrightarrow> orderly {} {} ps) \<and>
    process_run [PEnded n t msg now] c = Panics ''Unable to find an exitedChannel''"
proof
  have "channels_are {} {} c" using assms by (simp add: channels_are_def getExitedChannel_def)
  then show "(\<exists>c'. process_run ps c = Ret c') \<longleftrightarrow> orderly {} {} ps" by (rule process_run_orderly)
  show "process_run [PEnded n t msg now] c = Panics ''Unable to find an exitedChannel''"
    using assms by (simp add: watchEvents_step_def handleProcessExit_def getExitedChannel_def Let_def)
qed

theorem exits_handled_iff_orderly_witness:
  "(\<exists>c'. process_run [PStarted ''runtime-1'', PEnded ''runtime-1'' (Signaled 9) ''signal: killed'' 5]
      (rapid_Start False True False True) = Ret c')"
proof -
  have "runtimeDomainExited (rc_shutdownContext (rapid_Start False True False True)) = []"
    by (simp add: rapid_Start_def newShutdownContext_def)
  from exits_handled_iff_orderly [OF this] show ?thesis by (simp del: process_run.simps)
qed

section \<open>What a shutdown asks of the supervisor\<close>

text \<open>Two contexts with the same requests, processes and extensions; only the states of the extensions and the closed
  channels may differ.\<close>

definition same_parties :: "rapidContext \<Rightarrow> rapidContext \<Rightarrow> bool" where
  "same_parties c c' \<longleftrightarrow>
    rc_runtimeDomainGeneration c' = rc_runtimeDomainGeneration c \<and> rc_standaloneMode c' = rc_standaloneMode c \<and>
    (\<forall>n. getExitedChannel n (rc_shutdownContext c') = None \<longleftrightarrow> getExitedChannel n (rc_shutdownContext c) = None) \<and>
    rs_externalAgents (rc_registrationService c') = rs_externalAgents (rc_registrationService c) \<and>
    (\<forall>a. ea_Name (rs_extAgents (rc_registrationService c') ! a) = ea_Name (rs_extAgents (rc_registrationService c) ! a) \<and>
         ea_events (rs_extAgents (rc_registrationService c') ! a) = ea_events (rs_extAgents (rc_registrationService c) ! a))"

lemma same_parties_refl [simp]: "same_parties c c"
  by (simp add: same_parties_def)

lemma same_parties_trans [trans]: "same_parties a b \<Longrightarrow> same_parties b c \<Longrightarrow> same_parties a c"
  by (simp add: same_parties_def)

lemma ea_exec_keeps_subscriptions:
  assumes "q = EAExited \<or> q = EAShutdownFailed \<or> q = EARelease pick"
  shows "ea_Name (snd (fst (ea_exec q now now' f a))) = ea_Name a \<and> ea_events (snd (fst (ea_exec q now now' f a))) = ea_events a"
  using assms
  by (auto simp: ExternalAgent_Exited_def ExternalAgent_ShutdownFailed_def ExternalAgentRunningState_Exited_def
      ExternalAgentRunningState_ShutdownFailed_def disallowEverything_def ea_setStateUnsafe_def ExternalAgent_Release_def
      split: ExternalAgentState.splits)

lemma reg_ext_call_parties:
  assumes "q = EAExited \<or> q = EAShutdownFailed \<or> q = EARelease pick"
  shows "rs_externalAgents (fst (reg_ext_call q now now' a r)) = rs_externalAgents r \<and>
    ea_Name (rs_extAgents (fst (reg_ext_call q now now' a r)) ! b) = ea_Name (rs_extAgents r ! b) \<and>
    ea_events (rs_extAgents (fst (reg_ext_call q now now' a r)) ! b) = ea_events (rs_extAgents r ! b)"
  using ea_exec_keeps_subscriptions [OF assms, of now now' "rs_flows r" "rs_extAgents r ! a"]
  by (cases "a < length (rs_extAgents r)"; cases "a = b")
    (auto simp: reg_ext_call_def nth_list_update list_update_beyond split: prod.splits)

lemma handleProcessExit_parties:
  assumes "handleProcessExit n t now c = Ret c'"
  shows "same_parties c c'"
  using assms reg_ext_call_parties [of "if t = Exited 0 then EAExited else EAShutdownFailed"]
  by (auto simp: handleProcessExit_def same_parties_def getExitedChannel_def Let_def
      split: option.splits bool.splits if_splits)

lemma CancelFlows_parties [simp]:
  "rs_externalAgents (CancelFlows e r) = rs_externalAgents r" "rs_extAgents (CancelFlows e r) = rs_extAgents r"
  by (simp_all add: CancelFlows_def)

lemma watchEvents_step_parties:
  assumes "watchEvents_step n t msg now c = Ret c'"
  shows "same_parties c c' \<and> rc_requests c' = rc_requests c \<and>
    shuttingDown (rc_shutdownContext c') = shuttingDown (rc_shutdownContext c) \<and>
    (shuttingDown (rc_shutdownContext c) \<longrightarrow> rc_appCtx c' = rc_appCtx c)"
proof -
  let ?c = "if isShuttingDown (rc_shutdownContext c) then c
    else store_fatal (if n = runtimeProcess (rc_runtimeDomainGeneration c) then RuntimeExit else AgentCrash) c"
  obtain c1 er where c1: "handleProcessExit n t now ?c = Ret c1"
    "c' = c1\<lparr>rc_registrationService := CancelFlows er (rc_registrationService c1)\<rparr>"
    using assms by (auto simp: watchEvents_step_def Let_def split: outcome.splits if_splits)
  have "same_parties c ?c" by (simp add: same_parties_def)
  also have "same_parties ?c c1" by (rule handleProcessExit_parties [OF c1(1)])
  also have "same_parties c1 c'" by (simp add: c1(2) same_parties_def)
  finally show ?thesis using handleProcessExit_Ret [OF c1(1)] c1(2) by (auto simp: isShuttingDown_def)
qed

lemma watch_all_parties:
  "watch_all es c = Ret c' \<Longrightarrow> same_parties c c' \<and> rc_requests c' = rc_requests c \<and>
    shuttingDown (rc_shutdownContext c') = shuttingDown (rc_shutdownContext c) \<and>
    (shuttingDown (rc_shutdownContext c) \<longrightarrow> rc_appCtx c' = rc_appCtx c)"
proof (induction es c rule: watch_all.induct)
  case (2 n t msg now es c)
  obtain c1 where c1: "watchEvents_step n t msg now c = Ret c1" "watch_all es c1 = Ret c'"
    using 2(2) by (simp split: outcome.splits)
  show ?case
    using 2(1) [OF c1] watchEvents_step_parties [OF c1(1)] same_parties_trans [of c c1 c'] by simp
qed simp

text \<open>The requests one launched extension causes.\<close>

definition agent_requests :: "shutdown_env \<Rightarrow> rapidContext \<Rightarrow> ref \<Rightarrow> sup_request list" where
  "agent_requests env c a =
    (let agent = rs_extAgents (rc_registrationService c) ! a;
         name = extensionProcess (ea_Name agent) (rc_runtimeDomainGeneration c)
     in if getExitedChannel name (rc_shutdownContext c) = None then []
        else if ExternalAgent_IsSubscribed ShutdownEvent agent
        then (if rc_standaloneMode c \<and> sh_agentLate env name then [SupKill name] else [])
        else [SupKill name])"

lemma agent_requests_same: "same_parties c c' \<Longrightarrow> agent_requests env c' a = agent_requests env c a"
  by (simp add: same_parties_def agent_requests_def ExternalAgent_IsSubscribed_def Let_def)

lemma shutdown_agent_parties:
  "same_parties c (shutdown_agent env a c) \<and>
   rc_requests (shutdown_agent env a c) = rc_requests c @ agent_requests env c a \<and>
   shuttingDown (rc_shutdownContext (shutdown_agent env a c)) = shuttingDown (rc_shutdownContext c) \<and>
   rc_appCtx (shutdown_agent env a c) = rc_appCtx c"
  using reg_ext_call_parties [of "EARelease (sh_pick env)"]
  by (auto simp: shutdown_agent_def agent_requests_def same_parties_def getExitedChannel_def request_def Let_def)

lemma shutdown_agents_fold:
  "same_parties c (fold (shutdown_agent env) as c) \<and>
   rc_requests (fold (shutdown_agent env) as c) = rc_requests c @ concat (map (agent_requests env c) as) \<and>
   shuttingDown (rc_shutdownContext (fold (shutdown_agent env) as c)) = shuttingDown (rc_shutdownContext c) \<and>
   rc_appCtx (fold (shutdown_agent env) as c) = rc_appCtx c"
proof (induction as arbitrary: c)
  case (Cons a as)
  let ?c = "shutdown_agent env a c"
  note step = shutdown_agent_parties [of c env a]
  have "agent_requests env ?c = agent_requests env c" using agent_requests_same [of c ?c env] step by (intro ext) simp
  then show ?case using Cons.IH [of ?c] step same_parties_trans [of c ?c "fold (shutdown_agent env) as ?c"] by simp
qed simp

definition runtime_requests :: "shutdown_env \<Rightarrow> rapidContext \<Rightarrow> sup_request list" where
  "runtime_requests env c =
    (let name = runtimeProcess (rc_runtimeDomainGeneration c)
     in if getExitedChannel name (rc_shutdownContext c) = None then []
        else SupTerminate name # (if sh_runtimeLate env then [SupKill name] else []))"

lemma shutdownRuntime_parties:
  assumes "shutdownRuntime env c = Ret c'"
  shows "same_parties c c' \<and> rc_requests c' = rc_requests c @ runtime_requests env c \<and>
    shuttingDown (rc_shutdownContext c') = shuttingDown (rc_shutdownContext c) \<and>
    (shuttingDown (rc_shutdownContext c) \<longrightarrow> rc_appCtx c' = rc_appCtx c)"
proof (cases "getExitedChannel (runtimeProcess (rc_runtimeDomainGeneration c)) (rc_shutdownContext c)")
  case None
  then show ?thesis using assms by (simp add: shutdownRuntime_def runtime_requests_def)
next
  case (Some b)
  let ?n = "runtimeProcess (rc_runtimeDomainGeneration c)"
  let ?c = "request (SupTerminate ?n) c"
  obtain c1 where c1: "watch_all (sh_runtimeExits env) ?c = Ret c1"
    and k: "(if sh_runtimeLate env then Ret (request (SupKill ?n) c1)
       else if getExitedChannel ?n (rc_shutdownContext c1) = Some True then Ret c1 else Blocks) = Ret c'"
    using assms Some by (auto simp: shutdownRuntime_def outcome_bind_Ret Let_def)
  have c': "c' = (if sh_runtimeLate env then request (SupKill ?n) c1 else c1)" using k by (simp split: if_splits)
  have "same_parties c ?c" by (simp add: same_parties_def request_def)
  also have "same_parties ?c c1" using watch_all_parties [OF c1] by simp
  also have "same_parties c1 c'" by (simp add: c' same_parties_def request_def)
  finally show ?thesis
    using watch_all_parties [OF c1] Some c' by (simp add: runtime_requests_def request_def Let_def)
qed

lemma shutdownAgents_parties:
  assumes "shutdownAgents env deadline reason c = Ret c'"
  shows "same_parties c c' \<and>
    rc_requests c' = rc_requests c @ concat (map (agent_requests env c) (GetExternalAgents (rc_registrationService c))) \<and>
    shuttingDown (rc_shutdownContext c') = shuttingDown (rc_shutdownContext c) \<and>
    (shuttingDown (rc_shutdownContext c) \<longrightarrow> rc_appCtx c' = rc_appCtx c)"
proof -
  let ?as = "GetExternalAgents (rc_registrationService c)"
  let ?c = "c\<lparr>rc_renderingService := Some (ShutdownRenderer (go_quot deadline 1000000) reason),
     rc_shutdownContext := (rc_shutdownContext c)\<lparr>agentsAwaitingExit := []\<rparr>\<rparr>"
  let ?c1 = "fold (shutdown_agent env) ?as ?c"
  have w: "watch_all (sh_agentExits env) ?c1 = Ret c'"
    using assms by (auto simp: shutdownAgents_def outcome_bind_Ret Let_def split: if_splits)
  have s: "same_parties c ?c" by (simp add: same_parties_def getExitedChannel_def)
  have "agent_requests env ?c = agent_requests env c" using agent_requests_same [OF s] by (intro ext)
  then show ?thesis
    using watch_all_parties [OF w] shutdown_agents_fold [of ?c env ?as] same_parties_trans [OF s]
      same_parties_trans [of ?c ?c1 c'] by simp
qed

lemma stop_processes_parties:
  assumes "stop_processes env deadlineNs reason c = Ret (c', p, er)"
  shows "same_parties c c' \<and>
    rc_requests c' = rc_requests c @
      (if CountAgents (rc_registrationService c) = 0
       then (if getExitedChannel (runtimeProcess (rc_runtimeDomainGeneration c)) (rc_shutdownContext c) \<noteq> None
             then [SupKill (runtimeProcess (rc_runtimeDomainGeneration c))] else [])
       else runtime_requests env c @ concat (map (agent_requests env c) (GetExternalAgents (rc_registrationService c)))) \<and>
    shuttingDown (rc_shutdownContext c') = shuttingDown (rc_shutdownContext c) \<and>
    (shuttingDown (rc_shutdownContext c) \<longrightarrow> rc_appCtx c' = rc_appCtx c)"
proof (cases "CountAgents (rc_registrationService c) = 0")
  case True
  then show ?thesis
    using assms by (auto simp: stop_processes_def same_parties_def request_def Let_def split: if_splits)
next
  case False
  obtain c1 d where c1: "shutdownRuntime env c = Ret c1" "shutdownAgents env d reason c1 = Ret c'"
    using assms False by (auto simp: stop_processes_def outcome_bind_Ret Let_def)
  note rt = shutdownRuntime_parties [OF c1(1)] and ag = shutdownAgents_parties [OF c1(2)]
  have "agent_requests env c1 = agent_requests env c" using agent_requests_same [of c c1 env] rt by (intro ext) simp
  moreover have "GetExternalAgents (rc_registrationService c1) = GetExternalAgents (rc_registrationService c)"
    using rt by (simp add: same_parties_def GetExternalAgents_def)
  ultimately show ?thesis using rt ag False same_parties_trans [of c c1 c'] by simp
qed


definition sample_shutdown_env :: shutdown_env where
  "sample_shutdown_env = \<lparr>sh_mono = 0, sh_start = 0, sh_profilerStart = 0, sh_profilerStop = 0, sh_killErr = None,
     sh_runtimeLate = False, sh_agentLate = \<lambda>_. False, sh_pick = 0, sh_runtimeExits = [], sh_agentExits = [],
     sh_lateExits = [(''runtime-0'', Signaled 9, ''signal: killed'', 1)], sh_giveUp = False\<rparr>"

definition sample_started :: rapidContext where
  "sample_started = (rapid_Start False True False True)\<lparr>rc_shutdownContext :=
     newShutdownContext\<lparr>runtimeDomainExited := [(''runtime-0'', False)]\<rparr>\<rparr>"


end
