(* ===== verification/Rapid_Handlers.thy ===== *)
theory Rapid_Handlers
  imports Rapid_Context
begin

text \<open>
  The handlers of \<open>internal/lambda/rapid/handlers.go\<close> and \<open>exit.go\<close>: initialization of the runtime domain, invoke,
  reset, shutdown and restore, and the messages they answer with.  A handler is cut at the points where it waits
  on a flow: the code between two waits is one function on the \<open>rapidContext\<close>, and a program counter says which
  wait comes next, so that requests of the runtime and of the extensions can interleave at every wait.  The
  results of the supervisor, of the bootstrap interface and of the clocks are arguments, \<open>json.Marshal\<close> and the
  text of an error are parameters; tracing and the text of log lines are left out.
\<close>

definition errResetReceived :: go_error where "errResetReceived = ErrText ''errResetReceived''"

section \<open>Extensions\<close>

definition maxExtensionNamesLength :: nat where "maxExtensionNamesLength = 127"

definition HasActiveExtensions :: "rapidContext \<Rightarrow> bool" where
  "HasActiveExtensions c = (rc_extensionsEnabled c \<and> CountAgents (rc_registrationService c) > 0)"

definition LastIndex :: "string \<Rightarrow> char \<Rightarrow> nat option" where
  "LastIndex s c = (case dropWhile (\<lambda>x. x \<noteq> c) (rev s) of [] \<Rightarrow> None | _ # r \<Rightarrow> Some (length r))"

definition cut_names :: "string list \<Rightarrow> string" where
  "cut_names names =
    (let extensionNames = strings_Join names '';''
     in if length extensionNames > maxExtensionNamesLength
        then (case LastIndex (take maxExtensionNamesLength extensionNames) (CHR '';'') of
                Some idx \<Rightarrow> take idx extensionNames | None \<Rightarrow> [])
        else extensionNames)"

definition GetExtensionNames :: "rapidContext \<Rightarrow> string" where
  "GetExtensionNames c = cut_names (map ai_Name (AgentsInfo (rc_registrationService c)))"

definition logAgentsInitStatus :: "rapidContext \<Rightarrow> rapidContext" where
  "logAgentsInitStatus c = fold (\<lambda>a. emit (EvExtensionInit a)) (AgentsInfo (rc_registrationService c)) c"

definition agentLaunchError :: "ref \<Rightarrow> go_error \<Rightarrow> ns \<Rightarrow> rapidContext \<Rightarrow> rapidContext" where
  "agentLaunchError agent e now c =
    store_fatal AgentLaunchError
      (c\<lparr>rc_registrationService := fst (reg_ext_call (EALaunchError e) now now agent (rc_registrationService c))\<rparr>)"

text \<open>What the launch of one extension meets.\<close>

record launch_env =
  le_uuid :: UUID
  le_now :: ns
  le_socketErr :: "go_error option"
  le_execErr :: "go_error option"

text \<open>The operations of the two flows the service owns.\<close>

definition reg_init_op :: "init_op \<Rightarrow> reg \<Rightarrow> reg \<times> go_error option" where
  "reg_init_op q r =
    (case init_exec q (initFlow (rs_flows r)) of (f, e) \<Rightarrow> (r\<lparr>rs_flows := (rs_flows r)\<lparr>initFlow := f\<rparr>\<rparr>, e))"

definition reg_invoke_op :: "invoke_op \<Rightarrow> reg \<Rightarrow> reg \<times> go_error option" where
  "reg_invoke_op q r =
    (case invoke_exec q (invokeFlow (rs_flows r)) of (f, e) \<Rightarrow> (r\<lparr>rs_flows := (rs_flows r)\<lparr>invokeFlow := f\<rparr>\<rparr>, e))"

definition launch_agent :: "Environment \<Rightarrow> string \<Rightarrow> launch_env \<Rightarrow> rapidContext \<Rightarrow> (rapidContext \<times> go_error option) outcome" where
  "launch_agent envVars agentPath le c =
    (case CreateExternalAgent (path_Base agentPath) (le_uuid le) (le_now le) (rc_registrationService c) of
       (r, Inl e) \<Rightarrow> Ret (c\<lparr>rc_registrationService := r\<rparr>, Some e)
     | (r, Inr agent) \<Rightarrow>
        let c = c\<lparr>rc_registrationService := r\<rparr>
        in if CountAgents r > MaxAgentsAllowed
           then Ret (agentLaunchError agent ErrTooManyExtensions (le_now le) c, Some ErrTooManyExtensions)
           else (case AgentExecEnv envVars of
                   Inl _ \<Rightarrow> Panics ''credentials, customer and runtime API address must be set''
                 | Inr env \<Rightarrow>
                    (case le_socketErr le of
                       Some e \<Rightarrow> Ret (c, Some e)
                     | None \<Rightarrow>
                        let agentName = extensionProcess (path_Base agentPath) (rc_runtimeDomainGeneration c);
                            c = request (SupExec agentName agentPath env) c
                        in case le_execErr le of
                             Some e \<Rightarrow> Ret (agentLaunchError agent e (le_now le) c, Some e)
                           | None \<Rightarrow>
                              (case createExitedChannel agentName (rc_shutdownContext c) of
                                 Ret s \<Rightarrow> Ret (c\<lparr>rc_shutdownContext := s\<rparr>, None)
                               | Blocks \<Rightarrow> Blocks | Panics m \<Rightarrow> Panics m))))"

fun launch_agents :: "Environment \<Rightarrow> (string \<times> launch_env) list \<Rightarrow> rapidContext \<Rightarrow> (rapidContext \<times> go_error option) outcome" where
  "launch_agents envVars [] c = Ret (c, None)"
| "launch_agents envVars ((p, le) # ps) c =
    (case launch_agent envVars p le c of
       Ret (c, None) \<Rightarrow> launch_agents envVars ps c
     | Ret (c, Some e) \<Rightarrow> Ret (c, Some e)
     | Blocks \<Rightarrow> Blocks | Panics m \<Rightarrow> Panics m)"

text \<open>\<open>doInitExtensions\<close> up to the wait for the registrations; the number of paths is cut to 16 bits.\<close>

definition doInitExtensions :: "Environment \<Rightarrow> (string \<times> launch_env) list \<Rightarrow> rapidContext \<Rightarrow> (rapidContext \<times> go_error option) outcome" where
  "doInitExtensions envVars agentPaths c =
    (case reg_init_op (IOpSetExternalCount (word_of_nat (length agentPaths))) (rc_registrationService c) of
       (r, Some e) \<Rightarrow> Ret (c\<lparr>rc_registrationService := r\<rparr>, Some e)
     | (r, None) \<Rightarrow> launch_agents envVars agentPaths (c\<lparr>rc_registrationService := r\<rparr>))"

section \<open>Platform events\<close>

definition getFirstFatalError :: "string \<Rightarrow> rapidContext \<Rightarrow> ErrorType option" where
  "getFirstFatalError status c =
    (if status = RuntimeDoneSuccess then None
     else Some (case load_fatal c of Some e \<Rightarrow> e | None \<Rightarrow> RuntimeUnknown))"

definition sendRestoreRuntimeDoneLogEvent :: "string \<Rightarrow> rapidContext \<Rightarrow> rapidContext" where
  "sendRestoreRuntimeDoneLogEvent status c = emit (EvRestoreRuntimeDone status (getFirstFatalError status c)) c"

definition sendInitStartLogEvent :: "SandboxType \<Rightarrow> LifecyclePhase \<Rightarrow> rapidContext \<Rightarrow> rapidContext" where
  "sendInitStartLogEvent sandboxType phase c =
    emit (EvInitStart (InferInitType (rc_initCachingEnabled c) sandboxType) (InitPhaseFromLifecyclePhase phase)) c"

definition sendInitRuntimeDoneLogEvent :: "string \<Rightarrow> LifecyclePhase \<Rightarrow> rapidContext \<Rightarrow> rapidContext" where
  "sendInitRuntimeDoneLogEvent status phase c =
    emit (EvInitRuntimeDone status (InitPhaseFromLifecyclePhase phase) (getFirstFatalError status c)) c"

definition sendInitReportLogEvent :: "SandboxType \<Rightarrow> LifecyclePhase \<Rightarrow> rapidContext \<Rightarrow> rapidContext" where
  "sendInitReportLogEvent sandboxType phase c =
    emit (EvInitReport (InferInitType (rc_initCachingEnabled c) sandboxType) (InitPhaseFromLifecyclePhase phase)) c"

definition sendInvokeStartLogEvent :: "string \<Rightarrow> rapidContext \<Rightarrow> rapidContext" where
  "sendInvokeStartLogEvent invokeRequestID c = emit (EvInvokeStart invokeRequestID) c"

text \<open>The credentials missing from the environment of the runtime, which are only logged.\<close>

definition checkCredentials :: "env_map \<Rightarrow> string list" where
  "checkCredentials bootstrapEnv =
    filter (\<lambda>k. case map_of bootstrapEnv k of None \<Rightarrow> True | Some v \<Rightarrow> v = [])
      [''AWS_ACCESS_KEY_ID'', ''AWS_SECRET_ACCESS_KEY'', ''AWS_SESSION_TOKEN'']"

section \<open>Initialization of the runtime domain\<close>

text \<open>The bootstrap interface of the init request.\<close>

record Bootstrap =
  bs_Cmd :: "go_error + string list"
  bs_Env :: "Environment \<Rightarrow> env_fatal + env_map"
  bs_Cwd :: "go_error + string"
  bs_CachedFatalError :: "go_error \<Rightarrow> (ErrorType \<times> string) option"

record SandboxInfoFromInit =
  sb_EnvironmentVariables :: Environment
  sb_SandboxType :: SandboxType
  sb_RuntimeBootstrap :: Bootstrap

definition store_bootstrap_error :: "Bootstrap \<Rightarrow> go_error \<Rightarrow> ErrorType \<Rightarrow> rapidContext \<Rightarrow> rapidContext" where
  "store_bootstrap_error b e dflt c =
    (case bs_CachedFatalError b e of
       Some (fatalError, formattedLog) \<Rightarrow> emit (EvImageErrorLog formattedLog) (store_fatal fatalError c)
     | None \<Rightarrow> store_fatal dflt c)"

definition doRuntimeBootstrap :: "SandboxInfoFromInit \<Rightarrow> rapidContext
    \<Rightarrow> (rapidContext \<times> (go_error + string list \<times> env_map \<times> string)) outcome" where
  "doRuntimeBootstrap sb c =
    (let b = sb_RuntimeBootstrap sb
     in case bs_Cmd b of
          Inl e \<Rightarrow> Ret (store_bootstrap_error b e InvalidEntrypoint c, Inl e)
        | Inr cmd \<Rightarrow>
           (case bs_Env b (sb_EnvironmentVariables sb) of
              Inl _ \<Rightarrow> Panics ''credentials, customer and runtime API address must be set''
            | Inr env \<Rightarrow>
               (case bs_Cwd b of
                  Inl e \<Rightarrow> Ret (store_bootstrap_error b e InvalidWorkingDir c, Inl e)
                | Inr cwd \<Rightarrow> Ret (c, Inr (cmd, env, cwd)))))"

datatype init_pc = IAwaitRegistered | IAwaitRestoreReady | IAwaitAgentsReady | IReturned "go_error option"

text \<open>The deferred calls of \<open>doRuntimeDomainInit\<close>; the status is only reported once the runtime was to be started.\<close>

definition init_return :: "SandboxInfoFromInit \<Rightarrow> LifecyclePhase \<Rightarrow> string option \<Rightarrow> go_error option \<Rightarrow> rapidContext
    \<Rightarrow> rapidContext \<times> init_pc" where
  "init_return sb phase status e c =
    (let c = (case status of Some st \<Rightarrow> sendInitRuntimeDoneLogEvent st phase c | None \<Rightarrow> c);
         c = (if rc_extensionsEnabled c then logAgentsInitStatus c else c)
     in (sendInitReportLogEvent (sb_SandboxType sb) phase c, IReturned e))"

record runtime_env =
  re_now :: ns
  re_socketErr :: "go_error option"
  re_execErr :: "go_error option"

text \<open>The part that starts the runtime, up to the wait until it is ready.\<close>

definition init_start_runtime :: "SandboxInfoFromInit \<Rightarrow> LifecyclePhase \<Rightarrow> runtime_env \<Rightarrow> rapidContext
    \<Rightarrow> (rapidContext \<times> init_pc) outcome" where
  "init_start_runtime sb phase re c =
    (let c = c\<lparr>rc_appCtx := StoreSandboxType (rc_appCtx c) (sb_SandboxType sb)\<rparr>;
         (r, rt) = new_runtime (re_now re) (rc_registrationService c)
     in case PreregisterRuntime rt r of
          (r, Some e) \<Rightarrow> Ret (init_return sb phase None (Some e) (c\<lparr>rc_registrationService := r\<rparr>))
        | (r, None) \<Rightarrow>
           outcome_bind (doRuntimeBootstrap sb (c\<lparr>rc_registrationService := r\<rparr>)) (\<lambda>(c, b).
             case b of
               Inl e \<Rightarrow> Ret (init_return sb phase None (Some e) c)
             | Inr (cmd, env, cwd) \<Rightarrow>
                (case re_socketErr re of
                   Some e \<Rightarrow> Ret (init_return sb phase None (Some e) c)
                 | None \<Rightarrow>
                    (case cmd of
                       [] \<Rightarrow> Panics ''index out of range''
                     | exe # args \<Rightarrow>
                        let name = runtimeProcess (rc_runtimeDomainGeneration c);
                            c = request (SupExec name exe env) c
                        in case re_execErr re of
                             Some e \<Rightarrow>
                               Ret (init_return sb phase (Some RuntimeDoneError) (Some e)
                                      (store_bootstrap_error (sb_RuntimeBootstrap sb) e InvalidEntrypoint c))
                           | None \<Rightarrow>
                               outcome_bind (createExitedChannel name (rc_shutdownContext c)) (\<lambda>s.
                                 Ret (c\<lparr>rc_shutdownContext := s\<rparr>, IAwaitRestoreReady))))))"

text \<open>The beginning, up to the first wait.\<close>

definition doRuntimeDomainInit_begin :: "SandboxInfoFromInit \<Rightarrow> LifecyclePhase \<Rightarrow> (string \<times> launch_env) list \<Rightarrow> runtime_env
    \<Rightarrow> rapidContext \<Rightarrow> (rapidContext \<times> init_pc) outcome" where
  "doRuntimeDomainInit_begin sb phase agentPaths re c =
    (let c = sendInitStartLogEvent (sb_SandboxType sb) phase c;
         c = c\<lparr>rc_runtimeDomainGeneration := rc_runtimeDomainGeneration c + 1\<rparr>
     in if rc_extensionsEnabled c
        then outcome_bind (doInitExtensions (sb_EnvironmentVariables sb) agentPaths c) (\<lambda>(c, e).
               case e of
                 Some e \<Rightarrow> Ret (init_return sb phase None (Some e) c)
               | None \<Rightarrow> Ret (c, IAwaitRegistered))
        else init_start_runtime sb phase re c)"

definition init_finish :: "SandboxInfoFromInit \<Rightarrow> LifecyclePhase \<Rightarrow> rapidContext \<Rightarrow> rapidContext \<times> init_pc" where
  "init_finish sb phase c =
    (let c = (if rc_telemetryAPIEnabled c then c\<lparr>rc_subscriptionsOn := False\<rparr> else c)
     in init_return sb phase (Some RuntimeDoneSuccess) None (c\<lparr>rc_initDone := True\<rparr>))"

text \<open>What follows each wait; \<open>Blocks\<close> while the wait blocks.\<close>

definition init_step :: "SandboxInfoFromInit \<Rightarrow> LifecyclePhase \<Rightarrow> runtime_env \<Rightarrow> init_pc \<Rightarrow> rapidContext
    \<Rightarrow> (rapidContext \<times> init_pc) outcome" where
  "init_step sb phase re pc c =
    (let r = rc_registrationService c; f = initFlow (rs_flows r)
     in case pc of
          IAwaitRegistered \<Rightarrow>
            (case AwaitExternalAgentsRegistered f of
               AwaitBlocks \<Rightarrow> Blocks
             | AwaitReturns (Some e) \<Rightarrow> Ret (init_return sb phase None (Some e) c)
             | AwaitReturns None \<Rightarrow> init_start_runtime sb phase re c)
        | IAwaitRestoreReady \<Rightarrow>
            (case AwaitRuntimeRestoreReady f of
               AwaitBlocks \<Rightarrow> Blocks
             | AwaitReturns (Some e) \<Rightarrow> Ret (init_return sb phase (Some RuntimeDoneError) (Some e) c)
             | AwaitReturns None \<Rightarrow>
                let r = TurnOff r
                in if rc_extensionsEnabled c
                   then (case reg_init_op (IOpSetAgentsCount (GetRegisteredAgentsSize r)) r of
                           (r, Some e) \<Rightarrow> Ret (init_return sb phase (Some RuntimeDoneSuccess) (Some e) (c\<lparr>rc_registrationService := r\<rparr>))
                         | (r, None) \<Rightarrow> Ret (c\<lparr>rc_registrationService := r\<rparr>, IAwaitAgentsReady))
                   else Ret (init_finish sb phase (c\<lparr>rc_registrationService := r\<rparr>)))
        | IAwaitAgentsReady \<Rightarrow>
            (case init_AwaitAgentsReady f of
               AwaitBlocks \<Rightarrow> Blocks
             | AwaitReturns (Some e) \<Rightarrow> Ret (init_return sb phase (Some RuntimeDoneError) (Some e) c)
             | AwaitReturns None \<Rightarrow> Ret (init_finish sb phase c))
        | IReturned e \<Rightarrow> Ret (c, IReturned e))"

section \<open>Invoke\<close>

text \<open>The parts of an invoke request the handlers use.\<close>

record invoke_request =
  ir_ID :: string
  ir_InvokeReceivedTime :: int
  ir_InvokeResponseMetrics :: "InvokeResponseMetrics option"
  ir_InvokeResponseMode :: ResponseMode

datatype invoke_pc = VAwaitResponse | VAwaitRuntimeReady | VAwaitAgents | VReturned "go_error option"

definition release_all :: "nat \<Rightarrow> ref list \<Rightarrow> ref list \<Rightarrow> reg \<Rightarrow> reg" where
  "release_all pick extAgents intAgents r =
    fold (\<lambda>a r. fst (reg_int_call (IARelease pick) 0 0 a r)) intAgents
      (fold (\<lambda>a r. fst (reg_ext_call (EARelease pick) 0 0 a r)) extAgents r)"

text \<open>\<open>doInvoke\<close> from the end of the initialization, inline or earlier, up to the wait for the response.\<close>

definition doInvoke_begin :: "invoke_request \<Rightarrow> nat \<Rightarrow> ns \<Rightarrow> rapidContext \<Rightarrow> (rapidContext \<times> invoke_pc) outcome" where
  "doInvoke_begin req pick now c =
    (let c = sendInvokeStartLogEvent (ir_ID req) c;
         (r, e) = reg_invoke_op VOpInitializeBarriers (rc_registrationService c);
         intAgents = GetSubscribedInternalAgents InvokeEvent r;
         extAgents = GetSubscribedExternalAgents InvokeEvent r;
         (r, e) = (if rc_extensionsEnabled c
                   then reg_invoke_op (VOpSetAgentsCount (word_of_nat (length intAgents + length extAgents))) r
                   else (r, None))
     in case e of
          Some e \<Rightarrow> Ret (c\<lparr>rc_registrationService := r\<rparr>, VReturned (Some e))
        | None \<Rightarrow>
           let r = (if rc_extensionsEnabled c then release_all pick extAgents intAgents r else r)
           in case GetRuntime r of
                None \<Rightarrow> Panics ''nil pointer''
              | Some rt \<Rightarrow>
                  Ret (c\<lparr>rc_registrationService := fst (reg_runtime_call (RRelease pick) now now rt r),
                         rc_renderingService := Some (InvokeRenderer (ir_ID req)), rc_RuntimeStartedTime := now\<rparr>, VAwaitResponse))"

text \<open>The end of an inline initialization, which \<open>doInvoke\<close> performs when none has succeeded before.\<close>

definition doInvoke_inline_init_end :: "invoke_request \<Rightarrow> nat \<Rightarrow> ns \<Rightarrow> go_error option \<Rightarrow> rapidContext
    \<Rightarrow> (rapidContext \<times> invoke_pc) outcome" where
  "doInvoke_inline_init_end req pick now e c =
    (case e of
       Some e \<Rightarrow> Ret (sendInvokeStartLogEvent (ir_ID req) c, VReturned (Some e))
     | None \<Rightarrow> doInvoke_begin req pick now c)"

text \<open>What follows each wait of the invoke.\<close>

definition invoke_step :: "ns \<Rightarrow> invoke_pc \<Rightarrow> rapidContext \<Rightarrow> (rapidContext \<times> invoke_pc) outcome" where
  "invoke_step now pc c =
    (let f = invokeFlow (rs_flows (rc_registrationService c))
     in case pc of
          VAwaitResponse \<Rightarrow>
            (case AwaitRuntimeResponse f of
               AwaitBlocks \<Rightarrow> Blocks
             | AwaitReturns (Some e) \<Rightarrow> Ret (c, VReturned (Some e))
             | AwaitReturns None \<Rightarrow> Ret (c\<lparr>rc_RuntimeOverheadStartedTime := now\<rparr>, VAwaitRuntimeReady))
        | VAwaitRuntimeReady \<Rightarrow>
            (case invoke_AwaitRuntimeReady f of
               AwaitBlocks \<Rightarrow> Blocks
             | AwaitReturns (Some e) \<Rightarrow> Ret (c, VReturned (Some e))
             | AwaitReturns None \<Rightarrow>
                let c = emit (EvInvokeRuntimeDone RuntimeDoneSuccess None) c
                in Ret (if HasActiveExtensions c then (emit EvSendRuntimeReady c, VAwaitAgents) else (c, VReturned None)))
        | VAwaitAgents \<Rightarrow>
            (case invoke_AwaitAgentsReady f of
               AwaitBlocks \<Rightarrow> Blocks
             | AwaitReturns (Some e) \<Rightarrow> Ret (c, VReturned (Some e))
             | AwaitReturns None \<Rightarrow> Ret (emit (EvReportSpan ''extensionOverhead'' now) c, VReturned None))
        | VReturned e \<Rightarrow> Ret (c, VReturned e))"

section \<open>Answers\<close>

definition runtime_release :: "rapidContext \<Rightarrow> string" where
  "runtime_release c = (case GetRuntimeRelease (rc_appCtx c) of Some r \<Rightarrow> r | None \<Rightarrow> [])"

text \<open>Flushing returns the metrics of both subscription APIs and empties them.\<close>

definition flush_metrics :: "rapidContext \<Rightarrow> rapidContext \<times> TelemetrySubscriptionMetrics" where
  "flush_metrics c =
    (if rc_telemetryAPIEnabled c
     then (c\<lparr>rc_logsMetrics := [], rc_telemetryMetrics := []\<rparr>, MergeSubscriptionMetrics (rc_logsMetrics c) (rc_telemetryMetrics c))
     else (c, []))"

definition newInvokeFailureMsg :: "invoke_request \<Rightarrow> InvokeMetrics \<Rightarrow> go_error \<Rightarrow> rapidContext \<Rightarrow> rapidContext \<times> InvokeFailure" where
  "newInvokeFailureMsg req mx e c =
    (let (c', metrics) = flush_metrics c
     in (c', \<lparr>vf_ResetReceived = False, vf_RequestReset = True,
              vf_ErrorType = (case load_fatal c of Some t \<Rightarrow> t | None \<Rightarrow> SandboxFailure), vf_ErrorMessage = e,
              vf_RuntimeRelease = runtime_release c, vf_NumActiveExtensions = CountAgents (rc_registrationService c),
              vf_InvokeReceivedTime = ir_InvokeReceivedTime req, vf_LogsAPIMetrics = metrics,
              vf_ResponseMetrics = streaming_response_metrics (rc_RuntimeStartedTime c) (ir_InvokeResponseMetrics req) zero_response_metrics,
              vf_InvokeMetrics = mx, vf_ExtensionNames = GetExtensionNames c, vf_DefaultErrorResponse = None,
              vf_InvokeResponseMode = ir_InvokeResponseMode req\<rparr>))"

definition handleInvokeError :: "(FunctionError \<Rightarrow> string option) \<Rightarrow> (go_error \<Rightarrow> string) \<Rightarrow> invoke_request \<Rightarrow> InvokeMetrics \<Rightarrow> go_error
    \<Rightarrow> rapidContext \<Rightarrow> rapidContext \<times> InvokeFailure" where
  "handleInvokeError marshal errText req mx e c =
    (let (c, f) = newInvokeFailureMsg req mx e c;
         f = f\<lparr>vf_DefaultErrorResponse :=
               Some (GetErrorResponseWithFormattedErrorMessage marshal (vf_ErrorType f) (errText (vf_ErrorMessage f)) (ir_ID req))\<rparr>
     in if \<not> rc_extensionsEnabled c then (c, f\<lparr>vf_RequestReset := False\<rparr>)
        else if e = errResetReceived then (c, f\<lparr>vf_ResetReceived := True\<rparr>)
        else (c, f\<lparr>vf_RequestReset := True\<rparr>))"

text \<open>The answer of \<open>handleInvoke\<close> when \<open>doInvoke\<close> has returned; \<open>now\<close> is the wall clock.\<close>

definition invokeCompletionTimeNs :: "ns \<Rightarrow> rapidContext \<Rightarrow> int" where
  "invokeCompletionTimeNs now c =
    (let r = rc_registrationService c
     in case GetRuntime r of
          None \<Rightarrow> 0
        | Some rt \<Rightarrow>
           (case responseTime (rs_runtimes r ! rt) of
              None \<Rightarrow> 0 | Some t \<Rightarrow> if t = 0 then 0 else wrap64 (now - t)))"

definition handleInvoke_end :: "(FunctionError \<Rightarrow> string option) \<Rightarrow> (go_error \<Rightarrow> string) \<Rightarrow> invoke_request \<Rightarrow> InvokeMetrics \<Rightarrow> ns
    \<Rightarrow> go_error option \<Rightarrow> rapidContext \<Rightarrow> rapidContext \<times> (InvokeFailure + InvokeSuccess)" where
  "handleInvoke_end marshal errText req mx now e c =
    (case e of
       Some e \<Rightarrow>
         (case handleInvokeError marshal errText req mx e c of
            (c, f) \<Rightarrow>
              (c, Inl (f\<lparr>vf_InvokeResponseMode := ir_InvokeResponseMode req,
                         vf_ResponseMetrics := streaming_response_metrics (rc_RuntimeStartedTime c) (ir_InvokeResponseMetrics req)
                                                 (vf_ResponseMetrics f)\<rparr>)))
     | None \<Rightarrow>
        let (c', metrics) = flush_metrics c
        in (c', Inr \<lparr>vs_RuntimeRelease = runtime_release c, vs_NumActiveExtensions = CountAgents (rc_registrationService c),
                     vs_ExtensionNames = GetExtensionNames c, vs_InvokeCompletionTimeNs = invokeCompletionTimeNs now c,
                     vs_InvokeReceivedTime = ir_InvokeReceivedTime req, vs_LogsAPIMetrics = metrics,
                     vs_ResponseMetrics = streaming_response_metrics (rc_RuntimeStartedTime c) (ir_InvokeResponseMetrics req)
                       zero_response_metrics,
                     vs_InvokeMetrics = mx, vs_InvokeResponseMode = ir_InvokeResponseMode req\<rparr>))"

definition HandleInvoke_begin :: "ref \<Rightarrow> rapidContext \<Rightarrow> rapidContext" where
  "HandleInvoke_begin responseSender c =
    c\<lparr>rc_appCtx := StoreResponseSender (ctx_Delete (rc_appCtx c) AppCtxInvokeErrorTraceDataKey) responseSender\<rparr>"

definition generateInitFailureMsg :: "go_error \<Rightarrow> rapidContext \<Rightarrow> rapidContext \<times> InitFailure" where
  "generateInitFailureMsg e c =
    (let (c', metrics) = flush_metrics c
     in (c', \<lparr>if_ResetReceived = False, if_RequestReset = True,
              if_ErrorType = (case load_fatal c of Some t \<Rightarrow> t | None \<Rightarrow> SandboxFailure), if_ErrorMessage = e,
              if_NumActiveExtensions = CountAgents (rc_registrationService c), if_RuntimeRelease = runtime_release c,
              if_LogsAPIMetrics = metrics\<rparr>))"

definition handleInitError :: "go_error \<Rightarrow> rapidContext \<Rightarrow> rapidContext \<times> InitFailure" where
  "handleInitError e c =
    (case generateInitFailureMsg e c of
       (c, f) \<Rightarrow>
         if e = errResetReceived then (c, f\<lparr>if_ResetReceived := True\<rparr>)
         else if \<not> HasActiveExtensions c \<and> \<not> rc_standaloneMode c then (c, f\<lparr>if_RequestReset := False\<rparr>)
         else (c, f\<lparr>if_RequestReset := True\<rparr>))"

record Init_msg =
  in_Handler :: string
  in_AccountID :: string
  in_AwsKey :: string
  in_AwsSecret :: string
  in_AwsSession :: string
  in_CredentialsExpiry :: ns
  in_SuppressInit :: bool
  in_FunctionName :: string
  in_FunctionVersion :: string
  in_CustomerEnvironmentVariables :: env_map
  in_LogStreamName :: string
  in_InstanceMaxMemory :: int
  in_RuntimeInfo :: RuntimeInfo
  in_EnvironmentVariables :: Environment

definition init_metadata :: "Init_msg \<Rightarrow> FunctionMetadata" where
  "init_metadata i =
    \<lparr>fm_AccountID = in_AccountID i, fm_FunctionName = in_FunctionName i, fm_FunctionVersion = in_FunctionVersion i,
     fm_InstanceMaxMemory = word_of_int (in_InstanceMaxMemory i), fm_Handler = in_Handler i, fm_RuntimeInfo = in_RuntimeInfo i\<rparr>"

definition acceptInitRequest :: "Init_msg \<Rightarrow> rapidContext \<Rightarrow> rapidContext \<times> Init_msg" where
  "acceptInitRequest i c =
    (c\<lparr>rc_registrationService := SetFunctionMetadata (init_metadata i) (rc_registrationService c),
       rc_logStreamName := in_LogStreamName i\<rparr>,
     i\<lparr>in_EnvironmentVariables :=
        StoreEnvironmentVariablesFromInit (in_CustomerEnvironmentVariables i) (in_Handler i) (in_AwsKey i) (in_AwsSecret i)
          (in_AwsSession i) (in_FunctionName i) (in_FunctionVersion i) (in_EnvironmentVariables i)\<rparr>)"

text \<open>With init caching the credentials go to the credentials service under a random token, or the request fails
  when no token can be made.\<close>

definition acceptInitRequestForInitCaching :: "string option \<Rightarrow> string \<Rightarrow> int \<Rightarrow> Init_msg \<Rightarrow> rapidContext
    \<Rightarrow> rapidContext \<times> (go_error + Init_msg)" where
  "acceptInitRequestForInitCaching randomUUID host port i c =
    (case randomUUID of
       None \<Rightarrow> (c, Inl (ErrText ''uuid''))
     | Some token \<Rightarrow>
        (c\<lparr>rc_registrationService := SetFunctionMetadata (init_metadata i) (rc_registrationService c),
           rc_logStreamName := in_LogStreamName i,
           rc_credentialsService := SetCredentials token (in_AwsKey i) (in_AwsSecret i) (in_AwsSession i)
             (in_CredentialsExpiry i) (rc_credentialsService c)\<rparr>,
         Inr (i\<lparr>in_EnvironmentVariables :=
           StoreEnvironmentVariablesFromInitForInitCaching host port (in_CustomerEnvironmentVariables i) (in_Handler i)
             (in_FunctionName i) (in_FunctionVersion i) token (in_EnvironmentVariables i)\<rparr>)))"

text \<open>\<open>handleInit\<close> around the initialization of the domain: the answer for its result.\<close>

definition handleInit_end :: "go_error option \<Rightarrow> rapidContext \<Rightarrow> rapidContext \<times> (InitFailure + InitSuccess)" where
  "handleInit_end e c =
    (case e of
       Some e \<Rightarrow> (case handleInitError e c of (c, f) \<Rightarrow> (c, Inl f))
     | None \<Rightarrow>
        let (c', metrics) = flush_metrics c
        in (c', Inr \<lparr>is_NumActiveExtensions = CountAgents (rc_registrationService c), is_ExtensionNames = GetExtensionNames c,
                     is_RuntimeRelease = runtime_release c, is_LogsAPIMetrics = metrics\<rparr>))"

section \<open>Reset, shutdown and restore\<close>

definition reinitialize :: "rapidContext \<Rightarrow> rapidContext" where
  "reinitialize c =
    (let a = ctx_Delete (ctx_Delete (ctx_Delete (rc_appCtx c) AppCtxInvokeErrorTraceDataKey) AppCtxRuntimeReleaseKey)
               AppCtxFirstFatalErrorKey;
         c = c\<lparr>rc_appCtx := a, rc_renderingService := None, rc_initDone := False,
               rc_registrationService := core_reset (rc_registrationService c)\<rparr>
     in if rc_telemetryAPIEnabled c
        then c\<lparr>rc_subscriptionsOn := True, rc_logsMetrics := [], rc_telemetryMetrics := []\<rparr> else c)"

text \<open>The event about the end of the invoke that a reset during an invoke causes.\<close>

definition reset_event :: "string \<Rightarrow> rapidContext \<Rightarrow> rapidContext" where
  "reset_event reason c =
    (if reason = ''failure'' \<or> reason = ''timeout''
     then let errorType = (if reason = ''failure'' then Some (case load_fatal c of Some t \<Rightarrow> t | None \<Rightarrow> SandboxFailure) else None);
              status = (if reason = ''timeout'' then ''timeout''
                        else if hasPrefix ''Sandbox.'' (the errorType) then ''failure'' else ''error'')
          in emit (EvInvokeRuntimeDone status errorType) c
     else c)"

definition handleReset :: "shutdown_env \<Rightarrow> Reset_msg \<Rightarrow> rapidContext \<Rightarrow> (rapidContext \<times> (ResetResult + ResetResult)) outcome" where
  "handleReset env reset c =
    outcome_bind (shutdown env (rm_DeadlineNs reset) (rm_Reason reset) (reset_event (rm_Reason reset) c))
      (\<lambda>(c, extensionsResetMs, resetTimeout, _).
        let c = c\<lparr>rc_runtimeDomainGeneration := rc_runtimeDomainGeneration c + 1\<rparr>;
            fatalErrorType = (if rc_standaloneMode c then (case load_fatal c of Some t \<Rightarrow> t | None \<Rightarrow> []) else []);
            result = \<lparr>re_ExtensionsResetMs = extensionsResetMs, re_ErrorType = fatalErrorType,
                      re_ResponseMetrics = streaming_response_metrics (rc_RuntimeStartedTime c) (rm_InvokeResponseMetrics reset)
                        zero_response_metrics,
                      re_InvokeResponseMode = rm_InvokeResponseMode reset\<rparr>
        in Ret (c, if resetTimeout then Inl result else Inr result))"

text \<open>\<open>HandleReset\<close> first cancels the flows, and holds the handler mutex from then on.\<close>

definition HandleReset_cancel :: "rapidContext \<Rightarrow> rapidContext" where
  "HandleReset_cancel c = c\<lparr>rc_registrationService := CancelFlows (Some errResetReceived) (rc_registrationService c)\<rparr>"

definition HandleReset_locked :: "shutdown_env \<Rightarrow> Reset_msg \<Rightarrow> rapidContext \<Rightarrow> (rapidContext \<times> (ResetResult + ResetResult)) outcome" where
  "HandleReset_locked env reset c =
    handleReset env reset (c\<lparr>rc_appCtx := ctx_Delete (rc_appCtx c) AppCtxInvokeErrorTraceDataKey\<rparr>)"

definition standaloneShutdownReason :: string where "standaloneShutdownReason = ''spindown''"

definition handleShutdown :: "shutdown_env \<Rightarrow> int \<Rightarrow> string \<Rightarrow> rapidContext \<Rightarrow> (rapidContext \<times> ErrorType) outcome" where
  "handleShutdown env deadlineNs reason c =
    outcome_bind (shutdown env deadlineNs reason c) (\<lambda>(c, _, _, _).
      Ret (c, if rc_standaloneMode c then (case load_fatal c of Some t \<Rightarrow> t | None \<Rightarrow> []) else []))"

definition HandleShutdown :: "shutdown_env \<Rightarrow> int \<Rightarrow> rapidContext \<Rightarrow> (rapidContext \<times> ErrorType) outcome" where
  "HandleShutdown env deadlineNs c = handleShutdown env deadlineNs standaloneShutdownReason c"

datatype restore_pc = RAwaitReady | RReturned "go_error option"

definition ErrRestoreUpdateCredentials :: go_error where "ErrRestoreUpdateCredentials = ErrText ''errRestoreUpdateCredentials''"

definition handleRestore_begin :: "string \<Rightarrow> string \<Rightarrow> string \<Rightarrow> ns \<Rightarrow> string \<Rightarrow> nat \<Rightarrow> ns \<Rightarrow> rapidContext
    \<Rightarrow> (rapidContext \<times> restore_pc) outcome" where
  "handleRestore_begin awsKey awsSecret awsSession expiry logStreamName pick now c =
    (case UpdateCredentials awsKey awsSecret awsSession expiry (rc_credentialsService c) of
       (cs, Some e) \<Rightarrow> Ret (sendRestoreRuntimeDoneLogEvent RuntimeDoneSuccess (c\<lparr>rc_credentialsService := cs\<rparr>),
                          RReturned (Some ErrRestoreUpdateCredentials))
     | (cs, None) \<Rightarrow>
        let c = c\<lparr>rc_credentialsService := cs, rc_renderingService := Some RestoreRenderer, rc_logStreamName := logStreamName\<rparr>;
            r = rc_registrationService c
        in case GetRuntime r of
             None \<Rightarrow> Panics ''nil pointer''
           | Some rt \<Rightarrow>
              if Runtime_GetState (rs_runtimes r ! rt) \<noteq> RuntimeRestoreReadyState
              then Ret (sendRestoreRuntimeDoneLogEvent RuntimeDoneSuccess c, RReturned None)
              else Ret (c\<lparr>rc_registrationService := fst (reg_runtime_call (RRelease pick) now now rt r)\<rparr>, RAwaitReady))"

definition handleRestore_end :: "bool \<Rightarrow> bool \<Rightarrow> rapidContext \<Rightarrow> (rapidContext \<times> restore_pc) outcome" where
  "handleRestore_end ctxDone selectCtx c =
    (let r = rc_registrationService c
     in case AwaitRuntimeReadyWithDeadline ctxDone selectCtx (initFlow (rs_flows r)) of
          (f, AwaitBlocks) \<Rightarrow> Blocks
        | (f, AwaitReturns e) \<Rightarrow>
           let c = c\<lparr>rc_registrationService := r\<lparr>rs_flows := (rs_flows r)\<lparr>initFlow := f\<rparr>\<rparr>\<rparr>;
               e = (case load_fatal c of Some t \<Rightarrow> Some (ErrText t) | None \<Rightarrow> e);
               status = (if e \<noteq> None then RuntimeDoneError else RuntimeDoneSuccess)
           in Ret (sendRestoreRuntimeDoneLogEvent status c, RReturned e))"

end
