(* ===== verification/Handler_Runs.thy ===== *)
theory Handler_Runs
  imports Rapid_Handlers
begin

text \<open>
  Runs of the handlers: the init and the invoke sequence interleaved, at their waits, with the requests of the
  runtime and the extensions, with registrations and with cancellations.  A run is an inductive relation; the
  properties follow by rule induction from what every such request keeps of the gates.
\<close>

section \<open>What requests keep of the gates\<close>

definition gate_kept :: "gateImpl \<Rightarrow> gateImpl \<Rightarrow> bool" where
  "gate_kept g g' = (count g' = count g \<and> (missing g = 0 \<longrightarrow> missing g' = 0) \<and> (canceled g \<longrightarrow> canceled g'))"

lemma gate_kept_refl [simp, intro]: "gate_kept g g"
  by (simp add: gate_kept_def)

lemma gate_kept_ops [simp]: "gate_kept g (fst (WalkThrough g))" "gate_kept g (CancelWithError e g)"
  by (simp_all add: gate_kept_def walk_open) (auto simp: WalkThrough_def CancelWithError_def)

definition invoke_kept :: "invoke_flow \<Rightarrow> invoke_flow \<Rightarrow> bool" where
  "invoke_kept v v' = (gate_kept (runtimeResponseGate v) (runtimeResponseGate v') \<and>
     gate_kept (invoke_runtimeReadyGate v) (invoke_runtimeReadyGate v') \<and>
     gate_kept (invoke_agentReadyGate v) (invoke_agentReadyGate v'))"

definition init_kept :: "init_flow \<Rightarrow> init_flow \<Rightarrow> bool" where
  "init_kept i i' = (gate_kept (externalAgentsRegisteredGate i) (externalAgentsRegisteredGate i') \<and>
     gate_kept (init_runtimeReadyGate i) (init_runtimeReadyGate i') \<and>
     gate_kept (init_agentReadyGate i) (init_agentReadyGate i') \<and>
     gate_kept (runtimeRestoreReadyGate i) (runtimeRestoreReadyGate i'))"

definition flows_kept :: "flows \<Rightarrow> flows \<Rightarrow> bool" where
  "flows_kept f f' = (init_kept (initFlow f) (initFlow f') \<and> invoke_kept (invokeFlow f) (invokeFlow f'))"

lemma kept_refl [simp, intro]: "invoke_kept v v" "init_kept i i" "flows_kept f f"
  by (simp_all add: invoke_kept_def init_kept_def flows_kept_def)

lemma gate_kept_trans: "gate_kept g h \<Longrightarrow> gate_kept h k \<Longrightarrow> gate_kept g k"
  by (simp add: gate_kept_def)

lemma init_kept_trans: "init_kept f g \<Longrightarrow> init_kept g h \<Longrightarrow> init_kept f h"
  by (auto simp: init_kept_def intro: gate_kept_trans)

lemma invoke_kept_trans: "invoke_kept f g \<Longrightarrow> invoke_kept g h \<Longrightarrow> invoke_kept f h"
  by (auto simp: invoke_kept_def intro: gate_kept_trans)

lemma flows_kept_trans: "flows_kept f g \<Longrightarrow> flows_kept g h \<Longrightarrow> flows_kept f h"
  by (auto simp: flows_kept_def intro: init_kept_trans invoke_kept_trans)

lemma init_kept_arrivals [simp]:
  "init_kept i (fst (init_RuntimeReady i))" "init_kept i (fst (RuntimeRestoreReady i))"
  "init_kept i (fst (init_AgentReady i))" "init_kept i (fst (ExternalAgentRegistered i))"
  "init_kept i (init_CancelWithError e i)"
  by (simp_all add: init_kept_def init_arrival_defs init_CancelWithError_def case_prod_beta)

lemma invoke_kept_arrivals [simp]:
  "invoke_kept v (fst (RuntimeResponse v))" "invoke_kept v (fst (invoke_RuntimeReady v))"
  "invoke_kept v (fst (invoke_AgentReady v))" "invoke_kept v (invoke_CancelWithError e v)"
  by (simp_all add: invoke_kept_def invoke_arrival_defs invoke_CancelWithError_def case_prod_beta)

lemma flows_kept_update:
  "init_kept (initFlow f) i \<Longrightarrow> flows_kept f (f\<lparr>initFlow := i\<rparr>)"
  "invoke_kept (invokeFlow f) v \<Longrightarrow> flows_kept f (f\<lparr>invokeFlow := v\<rparr>)"
  by (simp_all add: flows_kept_def)

lemma flows_kept_results:
  "init_RuntimeReady (initFlow f) = (i, e) \<Longrightarrow> flows_kept f (f\<lparr>initFlow := i\<rparr>)"
  "RuntimeRestoreReady (initFlow f) = (i, e) \<Longrightarrow> flows_kept f (f\<lparr>initFlow := i\<rparr>)"
  "RuntimeRestoreReady (initFlow f) = (i, e) \<Longrightarrow> init_RuntimeReady i = (j, d) \<Longrightarrow> flows_kept f (f\<lparr>initFlow := j\<rparr>)"
  "RuntimeResponse (invokeFlow f) = (v, e) \<Longrightarrow> flows_kept f (f\<lparr>invokeFlow := v\<rparr>)"
  "invoke_RuntimeReady (invokeFlow f) = (v, e) \<Longrightarrow> flows_kept f (f\<lparr>invokeFlow := v\<rparr>)"
  using init_kept_arrivals [of "initFlow f"] init_kept_arrivals(1) [of i] invoke_kept_arrivals [of "invokeFlow f"]
  by (auto intro: flows_kept_update init_kept_trans)

lemma rt_exec_kept:
  assumes "rt_exec q now now' f r = ((f', r'), c)"
  shows "flows_kept f f'"
proof (cases q)
  case (RReady t)
  then show ?thesis using assms
    by (auto simp: Runtime_Ready_def runtime_state_method_defs Let_def
        split: RuntimeState.splits prod.splits option.splits
        dest!: runtime_suspend_flows intro: flows_kept_results)
next
  case (RRestoreReady t)
  then show ?thesis using assms
    by (auto simp: Runtime_RestoreReady_def runtime_state_method_defs Let_def
        split: RuntimeState.splits prod.splits option.splits
        dest!: runtime_suspend_flows intro: flows_kept_results)
next
  case RResponseSent
  then show ?thesis using assms
    by (auto simp: Runtime_ResponseSent_def runtime_state_method_defs
        split: RuntimeState.splits prod.splits option.splits intro: flows_kept_results)
qed (use assms in \<open>auto simp: runtime_method_defs runtime_state_method_defs flows_kept_update
      split: RuntimeState.splits prod.splits option.splits\<close>)

lemma ea_exec_kept:
  assumes "ea_exec q now now' f a = ((f', a'), c)"
  shows "flows_kept f f'"
proof (cases q)
  case (EAResume t)
  then show ?thesis using assms ea_resume_cases by fastforce
qed (use assms in \<open>auto simp: ea_method_defs flows_kept_update split: ExternalAgentState.splits prod.splits option.splits
      dest!: ea_suspend_cases\<close>)

lemma ia_exec_kept:
  assumes "ia_exec q now now' f a = ((f', a'), c)"
  shows "flows_kept f f'"
proof (cases q)
  case (IAResume t)
  then show ?thesis using assms ia_resume_cases by fastforce
qed (use assms in \<open>auto simp: ia_method_defs flows_kept_update split: InternalAgentState.splits prod.splits option.splits
      dest!: ia_suspend_cases\<close>)

text \<open>A request of a party: anything but the operations the handlers themselves perform on the flows.\<close>

fun party_op :: "core_op \<Rightarrow> bool" where
  "party_op KReset = False"
| "party_op (KInitOp q) = False"
| "party_op (KInvokeOp q) = False"
| "party_op k = True"

lemma party_op_kept:
  assumes "party_op k"
  shows "flows_kept (rs_flows s) (rs_flows (core_exec k s))"
proof (cases k)
  case (KRuntime q now now' r)
  then show ?thesis using rt_exec_kept by (auto simp: reg_runtime_call_def split: prod.splits)
next
  case (KExt q now now' a)
  then show ?thesis using ea_exec_kept by (auto simp: reg_ext_call_def split: prod.splits)
next
  case (KInt q now now' a)
  then show ?thesis using ia_exec_kept by (auto simp: reg_int_call_def split: prod.splits)
next
  case (KCancel e)
  then show ?thesis by (simp add: CancelFlows_def flows_kept_def)
qed (use assms in \<open>auto simp: CreateExternalAgent_def CreateInternalAgent_def Let_def new_runtime_def
      PreregisterRuntime_def TurnOff_def SetFunctionMetadata_def split: prod.splits option.splits\<close>)

section \<open>Runs of an invoke\<close>

abbreviation with_reg :: "(reg \<Rightarrow> reg) \<Rightarrow> rapidContext \<Rightarrow> rapidContext" where
  "with_reg g c \<equiv> c\<lparr>rc_registrationService := g (rc_registrationService c)\<rparr>"

abbreviation invoke_flow_of :: "rapidContext \<Rightarrow> invoke_flow" where
  "invoke_flow_of c \<equiv> invokeFlow (rs_flows (rc_registrationService c))"

abbreviation init_flow_of :: "rapidContext \<Rightarrow> init_flow" where
  "init_flow_of c \<equiv> initFlow (rs_flows (rc_registrationService c))"

inductive invoke_reach :: "rapidContext \<Rightarrow> invoke_pc \<Rightarrow> rapidContext \<Rightarrow> invoke_pc \<Rightarrow> bool" for c0 pc0 where
  start: "invoke_reach c0 pc0 c0 pc0"
| party: "invoke_reach c0 pc0 c pc \<Longrightarrow> party_op k \<Longrightarrow> core_enabled k (rc_registrationService c)
    \<Longrightarrow> invoke_reach c0 pc0 (with_reg (core_exec k) c) pc"
| handler: "invoke_reach c0 pc0 c pc \<Longrightarrow> invoke_step now pc c = Ret (c', pc') \<Longrightarrow> invoke_reach c0 pc0 c' pc'"

lemma AwaitGateCondition_returns: "AwaitGateCondition g = AwaitReturns None \<longleftrightarrow> missing g = 0 \<and> cancellation g = None"
  by (simp add: await_by_abstraction split: option.splits)

lemma emit_simps [simp]:
  "rc_registrationService (emit ev c) = rc_registrationService c" "rc_extensionsEnabled (emit ev c) = rc_extensionsEnabled c"
  "rc_initDone (emit ev c) = rc_initDone c" "rc_appCtx (emit ev c) = rc_appCtx c"
  "rc_telemetryAPIEnabled (emit ev c) = rc_telemetryAPIEnabled c"
  by (simp_all add: emit_def)

text \<open>A gate was passed since it was \<open>g0\<close>: it is open and was not cancelled then, so that its arrivals are those
  since the last reset.\<close>

definition passed :: "gateImpl \<Rightarrow> gateImpl \<Rightarrow> bool" where
  "passed g0 g = (missing g = 0 \<and> \<not> canceled g0)"

lemma passed_kept: "passed g0 g \<Longrightarrow> gate_kept g g' \<Longrightarrow> passed g0 g'"
  by (simp add: passed_def gate_kept_def)

lemma passed_await: "AwaitGateCondition g = AwaitReturns None \<Longrightarrow> gate_kept g0 g \<Longrightarrow> passed g0 g"
  by (auto simp: passed_def gate_kept_def AwaitGateCondition_returns cancellation_def split: if_splits)

definition responded :: "invoke_flow \<Rightarrow> invoke_flow \<Rightarrow> bool" where
  "responded v0 v = passed (runtimeResponseGate v0) (runtimeResponseGate v)"

definition polled_next :: "invoke_flow \<Rightarrow> invoke_flow \<Rightarrow> bool" where
  "polled_next v0 v = passed (invoke_runtimeReadyGate v0) (invoke_runtimeReadyGate v)"

definition agents_done :: "invoke_flow \<Rightarrow> invoke_flow \<Rightarrow> bool" where
  "agents_done v0 v = passed (invoke_agentReadyGate v0) (invoke_agentReadyGate v)"

fun invoke_progress :: "bool \<Rightarrow> invoke_pc \<Rightarrow> invoke_flow \<Rightarrow> invoke_flow \<Rightarrow> bool" where
  "invoke_progress ext VAwaitResponse v0 v = True"
| "invoke_progress ext VAwaitRuntimeReady v0 v = responded v0 v"
| "invoke_progress ext VAwaitAgents v0 v = (responded v0 v \<and> polled_next v0 v)"
| "invoke_progress ext (VReturned (Some e)) v0 v = True"
| "invoke_progress ext (VReturned None) v0 v = (responded v0 v \<and> polled_next v0 v \<and> (ext \<longrightarrow> agents_done v0 v))"

lemma invoke_progress_kept:
  "invoke_progress ext pc v0 v \<Longrightarrow> invoke_kept v v' \<Longrightarrow> invoke_progress ext pc v0 v'"
  by (cases "(ext, pc, v0, v)" rule: invoke_progress.cases)
    (auto simp: responded_def polled_next_def agents_done_def invoke_kept_def intro: passed_kept)

lemma invoke_step_progress:
  assumes "invoke_step now pc c = Ret (c', pc')" "invoke_kept v0 (invoke_flow_of c)"
    "invoke_progress (HasActiveExtensions c) pc v0 (invoke_flow_of c)"
  shows "rc_registrationService c' = rc_registrationService c \<and> rc_extensionsEnabled c' = rc_extensionsEnabled c \<and>
    invoke_progress (HasActiveExtensions c) pc' v0 (invoke_flow_of c)"
  using assms
  by (auto simp: invoke_step_def Let_def HasActiveExtensions_def AwaitRuntimeResponse_def invoke_AwaitRuntimeReady_def
      invoke_AwaitAgentsReady_def responded_def polled_next_def agents_done_def invoke_kept_def
      split: invoke_pc.splits await_result.splits option.splits if_splits intro: passed_await)

lemma off_CountAgents:
  assumes "rs_state s = registrationServiceOff" "party_op k"
  shows "CountAgents (core_exec k s) = CountAgents s"
  using core_off_exec [OF assms(1), of k] assms(2) by (cases k) (auto simp: CountAgents_eq)

lemma party_op_off:
  "rs_state s = registrationServiceOff \<Longrightarrow> party_op k \<Longrightarrow> rs_state (core_exec k s) = registrationServiceOff"
  using core_off_exec [of s k] by (cases k) auto

lemma invoke_reach_progress:
  assumes "invoke_reach c0 VAwaitResponse c pc" "rs_state (rc_registrationService c0) = registrationServiceOff"
  shows "rs_state (rc_registrationService c) = registrationServiceOff \<and> HasActiveExtensions c = HasActiveExtensions c0 \<and>
    invoke_kept (invoke_flow_of c0) (invoke_flow_of c) \<and> invoke_progress (HasActiveExtensions c0) pc (invoke_flow_of c0) (invoke_flow_of c)"
  using assms(1)
proof (induction rule: invoke_reach.induct)
  case start
  then show ?case using assms(2) by simp
next
  case (party c pc k)
  have kept: "invoke_kept (invoke_flow_of c) (invoke_flow_of (with_reg (core_exec k) c))"
    using party_op_kept [OF party.hyps(2), of "rc_registrationService c"] by (simp add: flows_kept_def)
  from party.IH show ?case
    using party_op_off [of "rc_registrationService c" k] off_CountAgents [of "rc_registrationService c" k] kept
      party.hyps(2) invoke_kept_trans [OF _ kept] invoke_progress_kept [OF _ kept]
    by (simp add: HasActiveExtensions_def)
next
  case (handler c pc now c' pc')
  from invoke_step_progress [OF handler.hyps(2), of "invoke_flow_of c0"] handler.IH show ?case
    by (auto simp: HasActiveExtensions_def)
qed

lemma release_frames:
  "rs_flows (fst (reg_ext_call (EARelease pick) now now' a r)) = rs_flows r"
  "rs_flows (fst (reg_int_call (IARelease pick) now now' a r)) = rs_flows r"
  "rs_flows (fst (reg_runtime_call (RRelease pick) now now' a r)) = rs_flows r"
  by (simp_all add: reg_ext_call_def reg_int_call_def reg_runtime_call_def ExternalAgent_Release_def InternalAgent_Release_def
      split: prod.splits)

lemma call_frames:
  "rs_state (fst (reg_ext_call q now now' a r)) = rs_state r" "CountAgents (fst (reg_ext_call q now now' a r)) = CountAgents r"
  "rs_state (fst (reg_int_call p now now' a r)) = rs_state r" "CountAgents (fst (reg_int_call p now now' a r)) = CountAgents r"
  "rs_state (fst (reg_runtime_call o' now now' a r)) = rs_state r" "CountAgents (fst (reg_runtime_call o' now now' a r)) = CountAgents r"
  by (auto simp: reg_ext_call_def reg_int_call_def reg_runtime_call_def CountAgents_eq split: prod.splits option.splits)

lemma fold_frame: "(\<And>a r. P (f a r) = P r) \<Longrightarrow> P (fold f xs r) = P r"
  by (induction xs arbitrary: r) auto

lemma release_all_frame:
  "rs_flows (release_all pick es is r) = rs_flows r" "rs_state (release_all pick es is r) = rs_state r"
  "CountAgents (release_all pick es is r) = CountAgents r"
  unfolding release_all_def
  by (simp_all add: fold_frame [where P = rs_flows] fold_frame [where P = rs_state] fold_frame [where P = CountAgents]
      release_frames call_frames)

definition invoke_subscribers :: "reg \<Rightarrow> nat" where
  "invoke_subscribers r = length (GetSubscribedInternalAgents InvokeEvent r) + length (GetSubscribedExternalAgents InvokeEvent r)"

lemma GetSubscribed_flows [simp]:
  "GetSubscribedInternalAgents ev (r\<lparr>rs_flows := f\<rparr>) = GetSubscribedInternalAgents ev r"
  "GetSubscribedExternalAgents ev (r\<lparr>rs_flows := f\<rparr>) = GetSubscribedExternalAgents ev r"
  "CountAgents (r\<lparr>rs_flows := f\<rparr>) = CountAgents r"
  by (simp_all add: GetSubscribedInternalAgents_def GetSubscribedExternalAgents_def CountAgents_eq)

lemma doInvoke_begin_gates:
  assumes "doInvoke_begin req pick now c = Ret (c0, VAwaitResponse)"
  shows "rs_state (rc_registrationService c0) = rs_state (rc_registrationService c) \<and>
    HasActiveExtensions c0 = HasActiveExtensions c \<and>
    runtimeResponseGate (invoke_flow_of c0) = Reset (runtimeResponseGate (invoke_flow_of c)) \<and>
    invoke_runtimeReadyGate (invoke_flow_of c0) = Reset (invoke_runtimeReadyGate (invoke_flow_of c)) \<and>
    (rc_extensionsEnabled c \<longrightarrow> invoke_agentReadyGate (invoke_flow_of c0) =
      (Reset (invoke_agentReadyGate (invoke_flow_of c)))\<lparr>count := word_of_nat (invoke_subscribers (rc_registrationService c))\<rparr>)"
  using assms
  by (auto simp: doInvoke_begin_def Let_def reg_invoke_op_def InitializeBarriers_def invoke_SetAgentsReadyCount_def
      SetCount_def release_all_frame release_frames call_frames HasActiveExtensions_def sendInvokeStartLogEvent_def
      invoke_subscribers_def split: if_splits option.splits prod.splits)

lemma passed_counts:
  assumes "passed g0 g" "gate_kept g0 g" "g0 = (Reset b)\<lparr>count := n\<rparr>"
  shows "arrived g0 = 0 \<and> arrived g = n"
  using assms by (auto simp: passed_def gate_kept_def missing_eq_0 Reset_def split: if_splits)

text \<open>C2: an invoke succeeds only when its work is done.  Whatever requests of the runtime and of the extensions,
  registrations and cancellations interleave with the handler: when \<open>doInvoke\<close> returns without an error, then since
  its barriers were initialized the runtime has sent exactly one response and has asked for the next invoke once, and, when
  there are active extensions, exactly as many agents have reported ready as were subscribed to INVOKE (modulo the
  16 bits of the gate).\<close>

theorem invoke_success_means_work_done:
  assumes "invoke_flow_ok (invoke_flow_of c)" "rs_state (rc_registrationService c) = registrationServiceOff"
    and "doInvoke_begin req pick now c = Ret (c0, VAwaitResponse)"
    and "invoke_reach c0 VAwaitResponse c' (VReturned None)"
  shows "arrived (runtimeResponseGate (invoke_flow_of c0)) = 0 \<and> arrived (runtimeResponseGate (invoke_flow_of c')) = 1 \<and>
    arrived (invoke_runtimeReadyGate (invoke_flow_of c0)) = 0 \<and> arrived (invoke_runtimeReadyGate (invoke_flow_of c')) = 1 \<and>
    (HasActiveExtensions c \<longrightarrow> arrived (invoke_agentReadyGate (invoke_flow_of c0)) = 0 \<and>
      arrived (invoke_agentReadyGate (invoke_flow_of c')) = word_of_nat (invoke_subscribers (rc_registrationService c)))"
proof -
  note b = doInvoke_begin_gates [OF assms(3)]
  have reach: "HasActiveExtensions c' = HasActiveExtensions c" "invoke_kept (invoke_flow_of c0) (invoke_flow_of c')"
    "invoke_progress (HasActiveExtensions c) (VReturned None) (invoke_flow_of c0) (invoke_flow_of c')"
    using invoke_reach_progress [OF assms(4)] b assms(2) by simp_all
  have counts: "runtimeResponseGate (invoke_flow_of c0) = (Reset (runtimeResponseGate (invoke_flow_of c)))\<lparr>count := 1\<rparr>"
    "invoke_runtimeReadyGate (invoke_flow_of c0) = (Reset (invoke_runtimeReadyGate (invoke_flow_of c)))\<lparr>count := 1\<rparr>"
    using b assms(1) by (simp_all add: invoke_flow_ok_def Reset_def)
  show ?thesis
    using reach b passed_counts [OF _ _ counts(1)] passed_counts [OF _ _ counts(2)]
      passed_counts [of "invoke_agentReadyGate (invoke_flow_of c0)" "invoke_agentReadyGate (invoke_flow_of c')"]
    by (auto simp: responded_def polled_next_def agents_done_def invoke_kept_def HasActiveExtensions_def)
qed

text \<open>A run given by its schedule: the requests (\<open>Inl\<close>) and the steps of the handler (\<open>Inr\<close>, with the clock).\<close>

fun invoke_schedule :: "(core_op + ns) list \<Rightarrow> rapidContext \<times> invoke_pc \<Rightarrow> (rapidContext \<times> invoke_pc) option" where
  "invoke_schedule [] x = Some x"
| "invoke_schedule (Inl k # ks) (c, pc) =
    (if party_op k \<and> core_enabled k (rc_registrationService c) then invoke_schedule ks (with_reg (core_exec k) c, pc) else None)"
| "invoke_schedule (Inr now # ks) (c, pc) =
    (case invoke_step now pc c of Ret x \<Rightarrow> invoke_schedule ks x | _ \<Rightarrow> None)"

lemma invoke_schedule_reach:
  "invoke_reach c0 pc0 c pc \<Longrightarrow> invoke_schedule ks (c, pc) = Some (c', pc') \<Longrightarrow> invoke_reach c0 pc0 c' pc'"
proof (induction ks arbitrary: c pc)
  case (Cons k ks)
  show ?case
  proof (cases k)
    case (Inl q)
    then show ?thesis using Cons.prems Cons.IH [OF invoke_reach.party [OF Cons.prems(1)]] by (simp split: if_splits)
  next
    case (Inr now)
    then show ?thesis using Cons.prems Cons.IH [OF invoke_reach.handler [OF Cons.prems(1)]]
      by (auto split: outcome.splits)
  qed
qed simp

definition ready_context :: rapidContext where
  "ready_context = with_reg (core_run [KCreateInt ''i'' ''id'' 1, KInt (IARegister [InvokeEvent]) 1 1 0, KNewRuntime 1, KPreregister 0,
     KInt (IAReady 8) 2 2 0, KRuntime (RReady 7) 2 2 0, KTurnOff]) (rapid_Start False False False True)"

definition sample_invoke :: invoke_request where
  "sample_invoke = \<lparr>ir_ID = ''a'', ir_InvokeReceivedTime = 0, ir_InvokeResponseMetrics = None,
     ir_InvokeResponseMode = ResponseModeBuffered\<rparr>"

definition begun_context :: rapidContext where
  "begun_context = (case doInvoke_begin sample_invoke 0 5 ready_context of Ret (c, pc) \<Rightarrow> c | _ \<Rightarrow> ready_context)"

definition sample_schedule :: "(core_op + ns) list" where
  "sample_schedule = [Inl (KRuntime (RResume 7) 5 5 0), Inl (KInt (IAResume 8) 5 5 0), Inl (KRuntime RInvocationResponse 6 6 0),
     Inl (KRuntime RResponseSent 6 6 0), Inr 6, Inl (KRuntime (RReady 7) 7 7 0), Inr 7, Inl (KInt (IAReady 8) 8 8 0), Inr 8]"

theorem invoke_success_means_work_done_witness:
  "\<exists>c'. invoke_reach begun_context VAwaitResponse c' (VReturned None) \<and>
    arrived (runtimeResponseGate (invoke_flow_of c')) = 1 \<and> arrived (invoke_agentReadyGate (invoke_flow_of c')) = 1"
proof -
  have ok: "invoke_flow_ok (invoke_flow_of ready_context)" by code_simp
  have off: "rs_state (rc_registrationService ready_context) = registrationServiceOff" by code_simp
  have begun: "doInvoke_begin sample_invoke 0 5 ready_context = Ret (begun_context, VAwaitResponse)" by code_simp
  obtain c' pc where run: "invoke_schedule sample_schedule (begun_context, VAwaitResponse) = Some (c', pc)"
    "pc = VReturned None"
  proof -
    have "map_option snd (invoke_schedule sample_schedule (begun_context, VAwaitResponse)) = Some (VReturned None)"
      by code_simp
    then show ?thesis using that by auto
  qed
  have reach: "invoke_reach begun_context VAwaitResponse c' (VReturned None)"
    using invoke_schedule_reach [OF invoke_reach.start run(1)] run(2) by simp
  have "HasActiveExtensions ready_context" "invoke_subscribers (rc_registrationService ready_context) = 1" by code_simp+
  with invoke_success_means_work_done [OF ok off begun reach] reach show ?thesis by auto
qed

section \<open>Reset\<close>

lemma core_cancelled_awaits:
  assumes "core_cancelled e s"
  shows "AwaitRuntimeResponse (invokeFlow (rs_flows s)) = AwaitReturns (Some e)"
    "invoke_AwaitRuntimeReady (invokeFlow (rs_flows s)) = AwaitReturns (Some e)"
    "invoke_AwaitAgentsReady (invokeFlow (rs_flows s)) = AwaitReturns (Some e)"
    "AwaitExternalAgentsRegistered (initFlow (rs_flows s)) = AwaitReturns (Some e)"
    "AwaitRuntimeRestoreReady (initFlow (rs_flows s)) = AwaitReturns (Some e)"
    "init_AwaitAgentsReady (initFlow (rs_flows s)) = AwaitReturns (Some e)"
  using core_cancelled_waits [OF assms] by (simp_all add: init_awaits_def invoke_awaits_def numeral_eq_Suc)

lemma HandleReset_cancelled:
  assumes "\<not> rs_cancelOnce (rc_registrationService c)" "list_all core_keeps_cancel ks"
  shows "core_cancelled errResetReceived (rc_registrationService (with_reg (core_run ks) (HandleReset_cancel c)))"
proof -
  have "core_cancelled errResetReceived (CancelFlows (Some errResetReceived) (rc_registrationService c))"
    using assms(1) init_cf.cancelled_cancel invoke_cf.cancelled_cancel
    by (simp add: core_cancelled_def CancelFlows_def)
  then show ?thesis using core_cancelled_run [OF _ assms(2)] by (simp add: HandleReset_cancel_def)
qed



section \<open>Runs of an initialization\<close>

inductive init_reach :: "SandboxInfoFromInit \<Rightarrow> LifecyclePhase \<Rightarrow> runtime_env \<Rightarrow> rapidContext \<Rightarrow> init_pc \<Rightarrow> rapidContext \<Rightarrow> init_pc \<Rightarrow> bool"
  for sb phase re c0 pc0 where
  start: "init_reach sb phase re c0 pc0 c0 pc0"
| party: "init_reach sb phase re c0 pc0 c pc \<Longrightarrow> party_op k \<Longrightarrow> core_enabled k (rc_registrationService c)
    \<Longrightarrow> init_reach sb phase re c0 pc0 (with_reg (core_exec k) c) pc"
| handler: "init_reach sb phase re c0 pc0 c pc \<Longrightarrow> init_step sb phase re pc c = Ret (c', pc')
    \<Longrightarrow> init_reach sb phase re c0 pc0 c' pc'"

definition registered_all :: "rapidContext \<Rightarrow> bool" where
  "registered_all c = (rc_extensionsEnabled c \<longrightarrow> missing (externalAgentsRegisteredGate (init_flow_of c)) = 0)"

definition runtime_restored :: "rapidContext \<Rightarrow> bool" where
  "runtime_restored c = (missing (runtimeRestoreReadyGate (init_flow_of c)) = 0 \<and>
     rs_state (rc_registrationService c) = registrationServiceOff)"

definition agents_counted :: "rapidContext \<Rightarrow> bool" where
  "agents_counted c = (count (init_agentReadyGate (init_flow_of c)) = GetRegisteredAgentsSize (rc_registrationService c))"

fun init_progress :: "init_pc \<Rightarrow> rapidContext \<Rightarrow> bool" where
  "init_progress IAwaitRegistered c = rc_extensionsEnabled c"
| "init_progress IAwaitRestoreReady c = registered_all c"
| "init_progress IAwaitAgentsReady c = (registered_all c \<and> runtime_restored c \<and> agents_counted c)"
| "init_progress (IReturned (Some e)) c = True"
| "init_progress (IReturned None) c = (registered_all c \<and> runtime_restored c \<and> rc_initDone c \<and>
     (rc_extensionsEnabled c \<longrightarrow> agents_counted c \<and> missing (init_agentReadyGate (init_flow_of c)) = 0))"

lemma off_agents_size:
  "rs_state s = registrationServiceOff \<Longrightarrow> party_op k \<Longrightarrow> GetRegisteredAgentsSize (core_exec k s) = GetRegisteredAgentsSize s"
  using core_off_exec [of s k] by (cases k) (auto simp: GetRegisteredAgentsSize_def)

lemma init_progress_party:
  assumes "init_progress pc c" "party_op k"
  shows "init_progress pc (with_reg (core_exec k) c)"
  using assms party_op_kept [OF assms(2), of "rc_registrationService c"] party_op_off [of "rc_registrationService c" k]
    off_agents_size [of "rc_registrationService c" k]
  by (cases "(pc, c)" rule: init_progress.cases)
    (auto simp: registered_all_def runtime_restored_def agents_counted_def flows_kept_def init_kept_def gate_kept_def)

lemma fold_emit_frame [simp]:
  "rc_registrationService (fold (\<lambda>a. emit (f a)) xs c) = rc_registrationService c"
  "rc_extensionsEnabled (fold (\<lambda>a. emit (f a)) xs c) = rc_extensionsEnabled c"
  "rc_initDone (fold (\<lambda>a. emit (f a)) xs c) = rc_initDone c"
  by (simp_all add: fold_frame [where P = rc_registrationService] fold_frame [where P = rc_extensionsEnabled]
      fold_frame [where P = rc_initDone])

lemma init_return_frame:
  assumes "init_return sb phase status e c = (c', pc')"
  shows "rc_registrationService c' = rc_registrationService c \<and> rc_extensionsEnabled c' = rc_extensionsEnabled c \<and>
    rc_initDone c' = rc_initDone c \<and> pc' = IReturned e"
  using assms
  by (auto simp: init_return_def Let_def sendInitReportLogEvent_def sendInitRuntimeDoneLogEvent_def logAgentsInitStatus_def
      split: option.splits if_splits)

lemma doRuntimeBootstrap_frame:
  "doRuntimeBootstrap sb c = Ret (c', b) \<Longrightarrow>
    rc_registrationService c' = rc_registrationService c \<and> rc_extensionsEnabled c' = rc_extensionsEnabled c"
  by (auto simp: doRuntimeBootstrap_def Let_def store_bootstrap_error_def store_fatal_def split: sum.splits option.splits)

lemma store_bootstrap_error_frame [simp]:
  "rc_registrationService (store_bootstrap_error b e d c) = rc_registrationService c"
  "rc_extensionsEnabled (store_bootstrap_error b e d c) = rc_extensionsEnabled c"
  by (auto simp: store_bootstrap_error_def store_fatal_def split: option.splits)

lemma init_start_runtime_result:
  assumes "init_start_runtime sb phase re c = Ret (c', pc')"
  shows "(\<exists>e. pc' = IReturned (Some e)) \<or>
    pc' = IAwaitRestoreReady \<and> rs_flows (rc_registrationService c') = rs_flows (rc_registrationService c) \<and>
      rc_extensionsEnabled c' = rc_extensionsEnabled c"
proof (cases "rs_state (rc_registrationService c) = registrationServiceOn")
  case off: False
  then show ?thesis using assms
    by (auto simp: init_start_runtime_def Let_def new_runtime_def PreregisterRuntime_def dest!: init_return_frame)
next
  case on: True
  let ?s = "rc_registrationService c"
  let ?r = "?s\<lparr>rs_runtimes := rs_runtimes ?s @ [NewRuntime (re_now re)], rs_runtime := Some (length (rs_runtimes ?s))\<rparr>"
  let ?c = "c\<lparr>rc_appCtx := StoreSandboxType (rc_appCtx c) (sb_SandboxType sb), rc_registrationService := ?r\<rparr>"
  show ?thesis
  proof (cases "doRuntimeBootstrap sb ?c")
    case (Ret x)
    obtain c1 b where x: "x = (c1, b)" by (cases x)
    have frame: "rc_registrationService c1 = ?r" "rc_extensionsEnabled c1 = rc_extensionsEnabled c"
      using doRuntimeBootstrap_frame Ret x by fastforce+
    show ?thesis using assms on Ret x frame
      by (auto simp: init_start_runtime_def Let_def new_runtime_def PreregisterRuntime_def outcome_bind_Ret request_def
          split: prod.splits option.splits sum.splits list.splits dest!: init_return_frame)
  qed (use assms on in \<open>simp_all add: init_start_runtime_def Let_def new_runtime_def PreregisterRuntime_def\<close>)
qed

lemma init_step_progress:
  assumes "init_step sb phase re pc c = Ret (c', pc')" "init_progress pc c"
  shows "init_progress pc' c'"
proof (cases pc)
  case IAwaitRegistered
  then show ?thesis using assms
    by (auto simp: init_step_def AwaitExternalAgentsRegistered_def AwaitGateCondition_returns registered_all_def
        split: await_result.splits option.splits dest!: init_start_runtime_result init_return_frame)
next
  case IAwaitRestoreReady
  then show ?thesis using assms
    by (auto simp: init_step_def Let_def AwaitRuntimeRestoreReady_def AwaitGateCondition_returns registered_all_def
        runtime_restored_def agents_counted_def init_finish_def reg_init_op_def init_SetAgentsReadyCount_def SetCount_def
        TurnOff_def GetRegisteredAgentsSize_def
        split: await_result.splits option.splits prod.splits if_splits dest!: init_return_frame)
next
  case IAwaitAgentsReady
  then show ?thesis using assms
    by (auto simp: init_step_def Let_def init_AwaitAgentsReady_def AwaitGateCondition_returns registered_all_def
        runtime_restored_def agents_counted_def init_finish_def
        split: await_result.splits option.splits if_splits dest!: init_return_frame)
next
  case (IReturned e)
  then show ?thesis using assms by (simp add: init_step_def)
qed

lemma reg_ext_call_kept: "flows_kept (rs_flows r) (rs_flows (fst (reg_ext_call q now now' a r)))"
  using ea_exec_kept by (auto simp: reg_ext_call_def split: prod.splits)

lemma agentLaunchError_kept:
  "flows_kept (rs_flows (rc_registrationService c)) (rs_flows (rc_registrationService (agentLaunchError a e now c)))"
  "rc_extensionsEnabled (agentLaunchError a e now c) = rc_extensionsEnabled c"
  by (auto simp: agentLaunchError_def store_fatal_def reg_ext_call_kept split: option.splits)

lemma launch_agent_kept:
  assumes "launch_agent env p le c = Ret (c', e)"
  shows "flows_kept (rs_flows (rc_registrationService c)) (rs_flows (rc_registrationService c')) \<and>
    rc_extensionsEnabled c' = rc_extensionsEnabled c"
proof -
  obtain r res where cr: "CreateExternalAgent (path_Base p) (le_uuid le) (le_now le) (rc_registrationService c) = (r, res)"
    by fastforce
  have fl: "rs_flows r = rs_flows (rc_registrationService c)"
    using cr by (auto simp: CreateExternalAgent_def Let_def split: if_splits prod.splits option.splits)
  have la: "flows_kept (rs_flows (rc_registrationService c))
      (rs_flows (rc_registrationService (agentLaunchError a e' now d)))" if "rc_registrationService d = r" for a e' now d
    using agentLaunchError_kept(1) [of d a e' now] fl that by simp
  show ?thesis using assms fl
    by (auto simp: launch_agent_def cr Let_def request_def la agentLaunchError_kept
        split: sum.splits if_splits option.splits outcome.splits)
qed

lemma launch_agents_kept:
  "launch_agents env ps c = Ret (c', e) \<Longrightarrow>
    flows_kept (rs_flows (rc_registrationService c)) (rs_flows (rc_registrationService c')) \<and>
    rc_extensionsEnabled c' = rc_extensionsEnabled c"
proof (induction env ps c rule: launch_agents.induct)
  case (2 env p le ps c)
  show ?case
  proof (cases "launch_agent env p le c")
    case (Ret x)
    obtain c1 r where x: "x = (c1, r)" by (cases x)
    note first = launch_agent_kept [OF Ret [unfolded x]]
    show ?thesis
    proof (cases r)
      case None
      then have rest: "launch_agents env ps c1 = Ret (c', e)" using "2.prems" Ret x by simp
      have "flows_kept (rs_flows (rc_registrationService c1)) (rs_flows (rc_registrationService c')) \<and>
          rc_extensionsEnabled c' = rc_extensionsEnabled c1"
        by (rule "2.IH" [OF Ret x [symmetric] None rest])
      then show ?thesis using first by (auto intro: flows_kept_trans)
    next
      case (Some d)
      then show ?thesis using "2.prems" Ret x first by simp
    qed
  qed (use "2.prems" in simp_all)
qed simp

definition registrations_expected :: "nat \<Rightarrow> init_pc \<Rightarrow> rapidContext \<Rightarrow> bool" where
  "registrations_expected n pc c = ((\<exists>e. pc = IReturned (Some e)) \<or>
     (rc_extensionsEnabled c \<longrightarrow> count (externalAgentsRegisteredGate (init_flow_of c)) = word_of_nat n))"

lemma doInitExtensions_gate:
  assumes "doInitExtensions env ps c = Ret (c', None)"
  shows "rc_extensionsEnabled c' = rc_extensionsEnabled c \<and>
    count (externalAgentsRegisteredGate (init_flow_of c')) = word_of_nat (length ps)"
  using assms
  by (auto simp: doInitExtensions_def reg_init_op_def SetExternalAgentsRegisterCount_def SetCount_def
      flows_kept_def init_kept_def gate_kept_def split: prod.splits option.splits if_splits dest!: launch_agents_kept)

lemma doRuntimeDomainInit_begin_progress:
  assumes "doRuntimeDomainInit_begin sb phase ps re c = Ret (c0, pc0)"
  shows "init_progress pc0 c0 \<and> registrations_expected (length ps) pc0 c0"
proof (cases "rc_extensionsEnabled c")
  case False
  then show ?thesis using assms
    by (auto simp: doRuntimeDomainInit_begin_def Let_def sendInitStartLogEvent_def registered_all_def registrations_expected_def
        dest!: init_start_runtime_result)
next
  case True
  let ?c = "(sendInitStartLogEvent (sb_SandboxType sb) phase c)\<lparr>rc_runtimeDomainGeneration :=
    rc_runtimeDomainGeneration (sendInitStartLogEvent (sb_SandboxType sb) phase c) + 1\<rparr>"
  have ext: "rc_extensionsEnabled ?c" using True by (simp add: sendInitStartLogEvent_def)
  show ?thesis
  proof (cases "doInitExtensions (sb_EnvironmentVariables sb) ps ?c")
    case (Ret x)
    obtain c1 e where x: "x = (c1, e)" by (cases x)
    show ?thesis using assms True ext Ret x doInitExtensions_gate [of "sb_EnvironmentVariables sb" ps ?c c1]
      by (auto simp: doRuntimeDomainInit_begin_def Let_def registrations_expected_def
          split: option.splits dest!: init_return_frame)
  qed (use assms ext in \<open>simp_all add: doRuntimeDomainInit_begin_def Let_def\<close>)
qed

lemma init_step_expected:
  assumes "init_step sb phase re pc c = Ret (c', pc')" "registrations_expected n pc c"
  shows "registrations_expected n pc' c'"
  using assms
  by (auto simp: init_step_def Let_def registrations_expected_def init_finish_def reg_init_op_def init_SetAgentsReadyCount_def
      TurnOff_def split: init_pc.splits await_result.splits option.splits prod.splits if_splits
      dest!: init_return_frame init_start_runtime_result)

lemma init_reach_progress:
  assumes "init_reach sb phase re c0 pc0 c pc" "init_progress pc0 c0" "registrations_expected n pc0 c0"
  shows "init_progress pc c \<and> registrations_expected n pc c"
  using assms(1)
proof (induction rule: init_reach.induct)
  case (party c pc k)
  then show ?case
    using init_progress_party [of pc c k] party_op_kept [OF party.hyps(2), of "rc_registrationService c"]
    by (auto simp: registrations_expected_def flows_kept_def init_kept_def gate_kept_def)
next
  case (handler c pc c' pc')
  then show ?case using init_step_progress [OF handler.hyps(2)] init_step_expected [OF handler.hyps(2)] by blast
qed (use assms in simp)


fun init_schedule :: "SandboxInfoFromInit \<Rightarrow> LifecyclePhase \<Rightarrow> runtime_env \<Rightarrow> core_op option list \<Rightarrow> rapidContext \<times> init_pc
    \<Rightarrow> (rapidContext \<times> init_pc) option" where
  "init_schedule sb phase re [] x = Some x"
| "init_schedule sb phase re (Some k # ks) (c, pc) =
    (if party_op k \<and> core_enabled k (rc_registrationService c)
     then init_schedule sb phase re ks (with_reg (core_exec k) c, pc) else None)"
| "init_schedule sb phase re (None # ks) (c, pc) =
    (case init_step sb phase re pc c of Ret x \<Rightarrow> init_schedule sb phase re ks x | _ \<Rightarrow> None)"

lemma init_schedule_reach:
  "init_reach sb phase re c0 pc0 c pc \<Longrightarrow> init_schedule sb phase re ks (c, pc) = Some (c', pc') \<Longrightarrow>
    init_reach sb phase re c0 pc0 c' pc'"
proof (induction ks arbitrary: c pc)
  case (Cons k ks)
  show ?case
  proof (cases k)
    case (Some q)
    then show ?thesis using Cons.prems Cons.IH [OF init_reach.party [OF Cons.prems(1)]] by (simp split: if_splits)
  next
    case None
    then show ?thesis using Cons.prems Cons.IH [OF init_reach.handler [OF Cons.prems(1)]]
      by (auto split: outcome.splits)
  qed
qed simp

definition sample_sandbox :: SandboxInfoFromInit where
  "sample_sandbox = \<lparr>sb_EnvironmentVariables = prepared_env ''127.0.0.1:9001'' [] ''app.run'' ''k'' ''s'' ''t'' ''fn'' ''1''
       (NewEnvironment []),
     sb_SandboxType = SandboxPreWarmed,
     sb_RuntimeBootstrap = \<lparr>bs_Cmd = Inr [''/var/runtime/bootstrap''], bs_Env = RuntimeExecEnv, bs_Cwd = Inr ''/'',
       bs_CachedFatalError = (\<lambda>e. None)\<rparr>\<rparr>"

definition sample_launches :: "(string \<times> launch_env) list" where
  "sample_launches = [(''/opt/extensions/e'', \<lparr>le_uuid = ''u'', le_now = 1, le_socketErr = None, le_execErr = None\<rparr>)]"

definition sample_runtime_env :: runtime_env where
  "sample_runtime_env = \<lparr>re_now = 2, re_socketErr = None, re_execErr = None\<rparr>"

definition sample_init :: "(rapidContext \<times> init_pc) outcome" where
  "sample_init = doRuntimeDomainInit_begin sample_sandbox LifecyclePhaseInit sample_launches sample_runtime_env
     (rapid_Start False False False True)"

definition sample_init_end :: "(rapidContext \<times> init_pc) option" where
  "sample_init_end = (case sample_init of
     Ret x \<Rightarrow> init_schedule sample_sandbox LifecyclePhaseInit sample_runtime_env
       [Some (KExt (EARegister [InvokeEvent]) 3 3 0), None, Some (KRuntime (RReady 7) 4 4 0), None, Some (KExt (EAReady 8) 5 5 0),
        None] x
   | _ \<Rightarrow> None)"


section \<open>The answers\<close>

lemma LastIndex_Some:
  assumes "LastIndex s c = Some i"
  shows "i < length s \<and> s ! i = c"
proof -
  obtain x r where d: "dropWhile (\<lambda>x. x \<noteq> c) (rev s) = x # r" and i: "i = length r"
    using assms by (auto simp: LastIndex_def split: list.splits)
  have x: "x = c" using d hd_dropWhile [of "\<lambda>x. x \<noteq> c" "rev s"] by simp
  have "rev s = takeWhile (\<lambda>x. x \<noteq> c) (rev s) @ x # r" using d takeWhile_dropWhile_id [of "\<lambda>x. x \<noteq> c" "rev s"] by simp
  then have "s = rev r @ x # rev (takeWhile (\<lambda>x. x \<noteq> c) (rev s))"
    by (metis append.assoc append_Cons append_Nil rev.simps(2) rev_append rev_rev_ident)
  then show ?thesis using x i by (metis add_Suc_right length_append length_Cons length_rev less_add_Suc1 nth_append_length)
qed

lemma join_cut:
  assumes "\<forall>n\<in>set names. c \<notin> set n" "i < length (strings_Join names [c])" "strings_Join names [c] ! i = c"
  shows "\<exists>k>0. take i (strings_Join names [c]) = strings_Join (take k names) [c]"
  using assms
proof (induction names arbitrary: i)
  case (Cons n ns)
  show ?case
  proof (cases "ns = []")
    case True
    then have "n ! i = c" "i < length n" using Cons.prems by simp_all
    then show ?thesis using Cons.prems(1) nth_mem by fastforce
  next
    case False
    then have j: "strings_Join (n # ns) [c] = n @ c # strings_Join ns [c]" by (cases ns) simp_all
    consider "i < length n" | "i = length n" | m where "i = length n + Suc m" by (metis less_imp_Suc_add linorder_neqE_nat add_Suc_right)
    then show ?thesis
    proof cases
      case 1
      then show ?thesis using Cons.prems nth_mem [of i n] by (simp add: j nth_append)
    next
      case 2
      then show ?thesis by (intro exI [of _ 1]) (simp add: j)
    next
      case 3
      then have m: "m < length (strings_Join ns [c])" "strings_Join ns [c] ! m = c" using Cons.prems by (simp_all add: j nth_append)
      then obtain k where k: "k > 0" "take m (strings_Join ns [c]) = strings_Join (take k ns) [c]"
        using Cons.IH Cons.prems(1) by auto
      have "strings_Join (take (Suc k) (n # ns)) [c] = n @ c # strings_Join (take k ns) [c]"
        using False k(1) by (cases "take k ns") simp_all
      then show ?thesis using 3 k by (intro exI [of _ "Suc k"]) (simp add: j)
    qed
  qed
qed simp

text \<open>The list of extension names reported with an answer is never longer than 127 characters, and is cut
  between names only: when no name contains a semicolon it is the list of the first names, joined by
  semicolons, and nothing is cut when the whole list fits.\<close>

theorem extension_names_bounded:
  assumes "names = map ai_Name (AgentsInfo (rc_registrationService c))"
    and "\<forall>n\<in>set names. CHR '';'' \<notin> set n"
  shows "length (GetExtensionNames c) \<le> maxExtensionNamesLength \<and>
    (\<exists>k. GetExtensionNames c = strings_Join (take k names) '';'') \<and>
    (length (strings_Join names '';'') \<le> maxExtensionNamesLength \<longrightarrow> GetExtensionNames c = strings_Join names '';'')"
proof (cases "length (strings_Join names '';'') \<le> maxExtensionNamesLength")
  case True
  then show ?thesis using assms(1) by (auto simp: GetExtensionNames_def cut_names_def Let_def intro!: exI [of _ "length names"])
next
  case False
  show ?thesis
  proof (cases "LastIndex (take maxExtensionNamesLength (strings_Join names '';'')) (CHR '';'')")
    case None
    then show ?thesis using False assms(1)
      by (auto simp: GetExtensionNames_def cut_names_def Let_def intro!: exI [of _ 0])
  next
    case (Some i)
    have i: "i < maxExtensionNamesLength" "strings_Join names '';'' ! i = CHR '';''"
      using LastIndex_Some [OF Some] by (auto simp: nth_take)
    then show ?thesis using False Some assms(1) join_cut [OF assms(2), of i]
      by (auto simp: GetExtensionNames_def cut_names_def Let_def)
  qed
qed

definition long_named :: rapidContext where
  "long_named = with_reg (core_run [KCreateInt (replicate 100 CHR ''a'') ''i1'' 1, KCreateInt (replicate 100 CHR ''b'') ''i2'' 1])
     (rapid_Start False False False True)"

theorem extension_names_bounded_witness:
  "length (GetExtensionNames long_named) \<le> 127 \<and> GetExtensionNames long_named = replicate 100 CHR ''a''"
proof -
  have "\<forall>n\<in>set (map ai_Name (AgentsInfo (rc_registrationService long_named))). CHR '';'' \<notin> set n" by code_simp
  from extension_names_bounded [OF refl this]
  have "length (GetExtensionNames long_named) \<le> 127" by (simp add: maxExtensionNamesLength_def)
  moreover have "GetExtensionNames long_named = replicate 100 CHR ''a''" by code_simp
  ultimately show ?thesis by simp
qed

text \<open>What an invoke that failed answers.  The failure always carries a default error response for the client; its
  error type is the first fatal error of the context, or \<open>Sandbox.Failure\<close> when there is none; a reset is
  requested exactly when extensions are enabled, and the failure is marked as the effect of a reset exactly when
  extensions are enabled and the error is \<open>errResetReceived\<close>: without extensions a reset is not
  told from other failures.\<close>

theorem invoke_failure_report:
  assumes "handleInvoke_end marshal errText req mx now (Some e) c = (c', Inl f)"
  shows "vf_ErrorType f = (case load_fatal c of Some t \<Rightarrow> t | None \<Rightarrow> SandboxFailure) \<and> vf_ErrorMessage f = e \<and>
    vf_DefaultErrorResponse f
      = Some (GetErrorResponseWithFormattedErrorMessage marshal (vf_ErrorType f) (errText e) (ir_ID req)) \<and>
    (vf_RequestReset f \<longleftrightarrow> rc_extensionsEnabled c) \<and>
    (vf_ResetReceived f \<longleftrightarrow> rc_extensionsEnabled c \<and> e = errResetReceived) \<and>
    rc_registrationService c' = rc_registrationService c \<and> rc_appCtx c' = rc_appCtx c"
  using assms
  by (auto simp: handleInvoke_end_def handleInvokeError_def newInvokeFailureMsg_def flush_metrics_def Let_def
      split: prod.splits if_splits)

theorem invoke_failure_report_witness:
  "\<forall>mx. \<exists>f c'. handleInvoke_end (\<lambda>x. None) (\<lambda>x. ''reset'') sample_invoke mx 9 (Some errResetReceived) ready_context = (c', Inl f) \<and>
    vf_ResetReceived f \<and> vf_ErrorType f = SandboxFailure"
proof
  fix mx
  have "load_fatal ready_context = None" "rc_extensionsEnabled ready_context" by code_simp+
  moreover obtain f c' where h: "handleInvoke_end (\<lambda>x. None) (\<lambda>x. ''reset'') sample_invoke mx 9 (Some errResetReceived) ready_context
      = (c', Inl f)"
    by (simp add: handleInvoke_end_def case_prod_beta)
  ultimately show "\<exists>f c'. handleInvoke_end (\<lambda>x. None) (\<lambda>x. ''reset'') sample_invoke mx 9 (Some errResetReceived) ready_context = (c', Inl f) \<and>
      vf_ResetReceived f \<and> vf_ErrorType f = SandboxFailure"
    using invoke_failure_report [OF h] by auto
qed

end
