(* ===== verification/Rendering.thy ===== *)
theory Rendering
  imports Rapid_Server
begin

text \<open>
  What the API server writes: \<open>internal/lambda/rapi/rendering\<close> and the documents of \<open>rapi/model\<close>.  A
  response writer is that of \<open>Direct_Invoke\<close>; encoding a document as JSON is a parameter that returns the bytes
  or the text of the error.  A renderer of an invoke keeps the bytes of the payload it has read, so that a runtime that
  polls again gets the same event; a reader that has ended ends the same way when it is read again.
\<close>

section \<open>Documents\<close>

record ErrorResponse =
  er_ErrorMessage :: string
  er_ErrorType :: string
  er_StackTrace :: "string list"

record StatusResponse =
  sr_Status :: string

record ExtensionRegisterResponse =
  xr_AccountID :: string
  xr_FunctionName :: string
  xr_FunctionVersion :: string
  xr_Handler :: string

record CognitoIdentity =
  ci_CognitoIdentityID :: string
  ci_CognitoIdentityPoolID :: string

record AgentEvent =
  ae_EventType :: string
  ae_DeadlineMs :: int

record Tracing =
  tr_Type :: string
  tr_Value :: string

record AgentInvokeEvent =
  aie_AgentEvent :: AgentEvent
  aie_RequestID :: string
  aie_InvokedFunctionArn :: string
  aie_Tracing :: "Tracing option"

record AgentShutdownEvent =
  ase_AgentEvent :: AgentEvent
  ase_ShutdownReason :: string

datatype document =
    DocError ErrorResponse
  | DocStatus StatusResponse
  | DocRegister ExtensionRegisterResponse
  | DocCognito CognitoIdentity
  | DocAgentInvoke AgentInvokeEvent
  | DocAgentShutdown AgentShutdownEvent

definition XRayTracingType :: string where "XRayTracingType = ''X-Amzn-Trace-Id''"

definition NewXRayTracing :: "string \<Rightarrow> Tracing option" where
  "NewXRayTracing v = (if length v = 0 then None else Some \<lparr>tr_Type = XRayTracingType, tr_Value = v\<rparr>)"

definition ErrorTypeInternalServerError :: string where "ErrorTypeInternalServerError = ''InternalServerError''"
definition ErrorTypeInvalidStateTransition :: string where "ErrorTypeInvalidStateTransition = ''InvalidStateTransition''"
definition ErrorTypeInvalidRequestID :: string where "ErrorTypeInvalidRequestID = ''InvalidRequestID''"
definition ErrorTypeRequestEntityTooLarge :: string where "ErrorTypeRequestEntityTooLarge = ''RequestEntityTooLarge''"
definition ErrorTypeTruncatedHTTPRequest :: string where "ErrorTypeTruncatedHTTPRequest = ''TruncatedHTTPRequest''"

lemmas rendering_error_types = ErrorTypeInternalServerError_def ErrorTypeInvalidStateTransition_def
  ErrorTypeInvalidRequestID_def ErrorTypeRequestEntityTooLarge_def ErrorTypeTruncatedHTTPRequest_def

text \<open>What surrounds one rendering: the JSON encoder, the number of body bytes after which the connection is lost, the
  identifier of an event, and the two clocks of \<open>MonoToEpoch\<close>.\<close>

record render_env =
  rn_encode :: "document \<Rightarrow> string + byte list"
  rn_wfail :: "nat option"
  rn_eventID :: string
  rn_mono :: ns
  rn_wall :: ns

section \<open>Writing\<close>

definition http_Write :: "render_env \<Rightarrow> byte list \<Rightarrow> response_writer \<Rightarrow> response_writer \<times> go_error option" where
  "http_Write env bs w =
    (case rn_wfail env of
       Some k \<Rightarrow> if length (rw_body w) + length bs > k
                 then (body_write (take (k - length (rw_body w)) bs) w, Some (ErrText ''write error''))
                 else (body_write bs w, None)
     | None \<Rightarrow> (body_write bs w, None))"

definition header_del :: "string \<Rightarrow> response_writer \<Rightarrow> response_writer" where
  "header_del k w = w\<lparr>rw_headers := go_map_delete k (rw_headers w)\<rparr>"

text \<open>\<open>http.Error\<close>.\<close>

definition http_Error :: "render_env \<Rightarrow> string \<Rightarrow> nat \<Rightarrow> response_writer \<Rightarrow> response_writer" where
  "http_Error env msg code w =
    fst (http_Write env (string_bytes (msg @ [CHR 0x0A]))
      (WriteHeader code (header_set ''X-Content-Type-Options'' ''nosniff''
        (header_set ''Content-Type'' ''text/plain; charset=utf-8'' (header_del ''Content-Length'' w)))))"

text \<open>The encoder ends a document with a newline; an error of the write is only logged.\<close>

definition RenderJSON :: "render_env \<Rightarrow> nat \<Rightarrow> document \<Rightarrow> response_writer \<Rightarrow> response_writer \<times> string option" where
  "RenderJSON env status v w =
    (case rn_encode env v of
       Inl e \<Rightarrow> (w, Some e)
     | Inr bs \<Rightarrow> (fst (http_Write env (bs @ [10]) (WriteHeader status (header_set ''Content-Type'' ''application/json'' w))), None))"

definition render_or_fail :: "render_env \<Rightarrow> nat \<Rightarrow> document \<Rightarrow> response_writer \<Rightarrow> response_writer" where
  "render_or_fail env status v w =
    (case RenderJSON env status v w of (w, None) \<Rightarrow> w | (w, Some e) \<Rightarrow> http_Error env e 500 w)"

definition error_document :: "string \<Rightarrow> string \<Rightarrow> document" where
  "error_document message errorType = DocError \<lparr>er_ErrorMessage = message, er_ErrorType = errorType, er_StackTrace = []\<rparr>"

definition RenderForbiddenWithTypeMsg :: "render_env \<Rightarrow> string \<Rightarrow> string \<Rightarrow> response_writer \<Rightarrow> response_writer" where
  "RenderForbiddenWithTypeMsg env errorType message = render_or_fail env 403 (error_document message errorType)"

definition RenderInternalServerError :: "render_env \<Rightarrow> response_writer \<Rightarrow> response_writer" where
  "RenderInternalServerError env =
    render_or_fail env 500 (error_document ''Internal Server Error'' ErrorTypeInternalServerError)"

definition RenderRequestEntityTooLarge :: "render_env \<Rightarrow> response_writer \<Rightarrow> response_writer" where
  "RenderRequestEntityTooLarge env =
    render_or_fail env 413 (error_document (''Exceeded maximum allowed payload size ('' @ int_dec MaxPayloadSize @ '' bytes).'')
      ErrorTypeRequestEntityTooLarge)"

definition RenderTruncatedHTTPRequestError :: "render_env \<Rightarrow> response_writer \<Rightarrow> response_writer" where
  "RenderTruncatedHTTPRequestError env =
    render_or_fail env 400 (error_document ''HTTP request detected as truncated'' ErrorTypeTruncatedHTTPRequest)"

definition RenderInvalidRequestID :: "render_env \<Rightarrow> response_writer \<Rightarrow> response_writer" where
  "RenderInvalidRequestID env = render_or_fail env 400 (error_document ''Invalid request ID'' ''InvalidRequestID'')"

definition RenderInvalidFunctionResponseMode :: "render_env \<Rightarrow> response_writer \<Rightarrow> response_writer" where
  "RenderInvalidFunctionResponseMode env =
    render_or_fail env 400 (error_document ''Invalid function response mode'' ''InvalidFunctionResponseMode'')"

text \<open>Any other error of the interop server panics.\<close>

definition RenderInteropError :: "render_env \<Rightarrow> go_error \<Rightarrow> response_writer \<Rightarrow> response_writer outcome" where
  "RenderInteropError env e w =
    (if e = ErrInvalidInvokeID \<or> e = ErrResponseSent then Ret (RenderInvalidRequestID env w)
     else Panics ''interop error'')"

definition RenderAccepted :: "render_env \<Rightarrow> response_writer \<Rightarrow> response_writer" where
  "RenderAccepted env = render_or_fail env 202 (DocStatus \<lparr>sr_Status = ''OK''\<rparr>)"

definition RenderRuntimeLogsResponse ::
  "render_env \<Rightarrow> byte list \<Rightarrow> nat \<Rightarrow> (string \<times> string list) list \<Rightarrow> response_writer \<Rightarrow> response_writer \<times> go_error option" where
  "RenderRuntimeLogsResponse env respBody status headers w =
    http_Write env respBody (WriteHeader status (fold (\<lambda>(k, vs). fold (\<lambda>v. header_add k v) vs) headers w))"

section \<open>Renderers\<close>

record invokeRenderer =
  in_invoke :: Invoke
  in_Payload :: "reader option"
  in_customerTraceID :: string
  in_requestBuffer :: "byte list"
  in_ReadTime :: ns
  in_SizeBytes :: int

datatype RendererState = RsInvoke invokeRenderer | RsShutdown AgentShutdownEvent | RsRestore

text \<open>The buffer is shared by all invokes, so a new renderer starts by clearing it.\<close>

definition NewInvokeRenderer :: "Invoke \<Rightarrow> reader option \<Rightarrow> string \<Rightarrow> invokeRenderer" where
  "NewInvokeRenderer ivk payload customerTraceID =
    \<lparr>in_invoke = ivk, in_Payload = payload, in_customerTraceID = customerTraceID, in_requestBuffer = [], in_ReadTime = 0,
     in_SizeBytes = 0\<rparr>"

definition newAgentInvokeEvent :: "render_env \<Rightarrow> Invoke \<Rightarrow> go_error + AgentInvokeEvent" where
  "newAgentInvokeEvent env req =
    (case parse_int64 (iv_DeadlineNs req) of
       None \<Rightarrow> Inl (ErrText ''strconv.ParseInt'')
     | Some deadlineMono \<Rightarrow>
        Inr \<lparr>aie_AgentEvent = \<lparr>ae_EventType = ''INVOKE'',
               ae_DeadlineMs = go_quot (MonoToEpoch (rn_mono env) (rn_wall env) deadlineMono) 1000000\<rparr>,
             aie_RequestID = iv_ID req, aie_InvokedFunctionArn = iv_InvokedFunctionArn req,
             aie_Tracing = NewXRayTracing (iv_TraceID req)\<rparr>)"

definition InvokeRenderer_RenderAgentEvent :: "render_env \<Rightarrow> invokeRenderer \<Rightarrow> response_writer \<Rightarrow> response_writer \<times> go_error option" where
  "InvokeRenderer_RenderAgentEvent env s w =
    (case newAgentInvokeEvent env (in_invoke s) of
       Inl e \<Rightarrow> (w, Some e)
     | Inr ev \<Rightarrow>
        (case rn_encode env (DocAgentInvoke ev) of
           Inl e \<Rightarrow> (w, Some (ErrText e))
         | Inr bs \<Rightarrow>
            http_Write env bs (WriteHeader 200 (header_set ''Content-Type'' ''application/json''
              (header_set ''Lambda-Extension-Event-Identifier'' (rn_eventID env) w)))))"

text \<open>What is left of a reader after \<open>n\<close> bytes were read from it.\<close>

definition rest_reader :: "nat \<Rightarrow> reader \<Rightarrow> reader" where
  "rest_reader n r = r\<lparr>rd_data := drop n (rd_data r)\<rparr>"

definition bufferInvokeRequest :: "ns \<Rightarrow> reader \<Rightarrow> invokeRenderer \<Rightarrow> invokeRenderer \<times> go_error option" where
  "bufferInvokeRequest took payload s =
    (if length (in_requestBuffer s) = 0
     then let r = LimitReader MaxPayloadSize payload;
              buf = in_requestBuffer s @ rd_data r
          in (s\<lparr>in_requestBuffer := buf, in_Payload := Some (rest_reader (length (rd_data r)) payload),
                in_ReadTime := took, in_SizeBytes := int (length buf)\<rparr>, rd_err r)
     else (s, None))"

definition setHeaderIfNotEmpty :: "string \<Rightarrow> string \<Rightarrow> response_writer \<Rightarrow> response_writer" where
  "setHeaderIfNotEmpty k v w = (if v \<noteq> [] then header_set k v w else w)"

definition renderInvokeHeaders :: "string \<Rightarrow> string \<Rightarrow> string \<Rightarrow> string \<Rightarrow> string \<Rightarrow> string \<Rightarrow> string \<Rightarrow> string
    \<Rightarrow> response_writer \<Rightarrow> response_writer" where
  "renderInvokeHeaders invokeID customerTraceID clientContext cognitoIdentity invokedFunctionArn deadlineMs contentType tenantID w =
    (let w = setHeaderIfNotEmpty ''Lambda-Runtime-Aws-Request-Id'' invokeID w;
         w = setHeaderIfNotEmpty ''Lambda-Runtime-Trace-Id'' customerTraceID w;
         w = setHeaderIfNotEmpty ''Lambda-Runtime-Client-Context'' clientContext w;
         w = setHeaderIfNotEmpty ''Lambda-Runtime-Cognito-Identity'' cognitoIdentity w;
         w = setHeaderIfNotEmpty ''Lambda-Runtime-Invoked-Function-Arn'' invokedFunctionArn w;
         w = setHeaderIfNotEmpty ''Lambda-Runtime-Deadline-Ms'' deadlineMs w;
         w = setHeaderIfNotEmpty ''Lambda-Runtime-Aws-Tenant-Id'' tenantID w;
         contentType = (if contentType = [] then ''application/json'' else contentType)
     in WriteHeader 200 (header_set ''Content-Type'' contentType w))"

text \<open>The JSON of the Cognito identity, empty without one.\<close>

definition bytes_string :: "byte list \<Rightarrow> string" where
  "bytes_string bs = map (\<lambda>b. char_of (unat b)) bs"

definition cognito_header :: "render_env \<Rightarrow> Invoke \<Rightarrow> string + string" where
  "cognito_header env ivk =
    (if length (iv_CognitoIdentityID ivk) \<noteq> 0 \<or> length (iv_CognitoIdentityPoolID ivk) \<noteq> 0
     then map_sum id bytes_string (rn_encode env (DocCognito \<lparr>ci_CognitoIdentityID = iv_CognitoIdentityID ivk,
            ci_CognitoIdentityPoolID = iv_CognitoIdentityPoolID ivk\<rparr>))
     else Inr [])"

definition deadline_header :: "render_env \<Rightarrow> Invoke \<Rightarrow> string" where
  "deadline_header env ivk =
    (case parse_int64 (iv_DeadlineNs ivk) of
       Some t \<Rightarrow> int_dec (go_quot (MonoToEpoch (rn_mono env) (rn_wall env) t) 1000000) | None \<Rightarrow> [])"

definition InvokeRenderer_RenderRuntimeEvent :: "render_env \<Rightarrow> ns \<Rightarrow> invokeRenderer \<Rightarrow> response_writer
    \<Rightarrow> invokeRenderer \<times> response_writer \<times> go_error option" where
  "InvokeRenderer_RenderRuntimeEvent env took s w =
    (let ivk = in_invoke s
     in case cognito_header env ivk of
          Inl e \<Rightarrow> (s, w, Some (ErrText e))
        | Inr cognitoIdentityJSON \<Rightarrow>
           let w = renderInvokeHeaders (iv_ID ivk) (in_customerTraceID s) (iv_ClientContext ivk) cognitoIdentityJSON
                     (iv_InvokedFunctionArn ivk) (deadline_header env ivk) (iv_ContentType ivk) (iv_TenantID ivk) w
           in case in_Payload s of
                None \<Rightarrow> (s, w, None)
              | Some payload \<Rightarrow>
                 (case bufferInvokeRequest took payload s of
                    (s, Some e) \<Rightarrow> (s, w, Some e)
                  | (s, None) \<Rightarrow> (case http_Write env (in_requestBuffer s) w of (w, er) \<Rightarrow> (s, w, er))))"

definition InvokeRenderer_GetMetrics :: "invokeRenderer \<Rightarrow> ns \<times> int" where
  "InvokeRenderer_GetMetrics s = (in_ReadTime s, in_SizeBytes s)"

definition ShutdownRenderer_RenderAgentEvent :: "render_env \<Rightarrow> AgentShutdownEvent \<Rightarrow> response_writer \<Rightarrow> response_writer \<times> go_error option" where
  "ShutdownRenderer_RenderAgentEvent env ev w =
    (case rn_encode env (DocAgentShutdown ev) of
       Inl e \<Rightarrow> (w, Some (ErrText e)) | Inr bs \<Rightarrow> http_Write env bs w)"

section \<open>The rendering service\<close>

definition ErrRenderingServiceStateNotSet :: go_error where
  "ErrRenderingServiceStateNotSet = ErrText ''EventRenderingService state not set''"

definition SetRenderer :: "RendererState \<Rightarrow> RendererState option \<Rightarrow> RendererState option" where
  "SetRenderer st s = Some st"

definition RenderAgentEvent :: "render_env \<Rightarrow> RendererState option \<Rightarrow> response_writer \<Rightarrow> response_writer \<times> go_error option" where
  "RenderAgentEvent env s w =
    (case s of
       None \<Rightarrow> (w, Some ErrRenderingServiceStateNotSet)
     | Some (RsInvoke i) \<Rightarrow> InvokeRenderer_RenderAgentEvent env i w
     | Some (RsShutdown ev) \<Rightarrow> ShutdownRenderer_RenderAgentEvent env ev w
     | Some RsRestore \<Rightarrow> (w, None))"

definition RenderRuntimeEvent :: "render_env \<Rightarrow> ns \<Rightarrow> RendererState option \<Rightarrow> response_writer
    \<Rightarrow> (RendererState option \<times> response_writer \<times> go_error option) outcome" where
  "RenderRuntimeEvent env took s w =
    (case s of
       None \<Rightarrow> Ret (None, w, Some ErrRenderingServiceStateNotSet)
     | Some (RsInvoke i) \<Rightarrow>
        (case InvokeRenderer_RenderRuntimeEvent env took i w of (i, w, er) \<Rightarrow> Ret (Some (RsInvoke i), w, er))
     | Some (RsShutdown ev) \<Rightarrow> Panics ''We should SIGTERM runtime''
     | Some RsRestore \<Rightarrow> Ret (s, WriteHeader 200 w, None))"

section \<open>Polling for an event\<close>

text \<open>A runtime that polls several times while one invoke is current, each time with its own connection.\<close>

fun poll_all :: "(render_env \<times> ns) list \<Rightarrow> invokeRenderer \<Rightarrow> (response_writer \<times> go_error option) list" where
  "poll_all [] s = []"
| "poll_all ((env, took) # es) s =
    (case InvokeRenderer_RenderRuntimeEvent env took s new_writer of (s', w, er) \<Rightarrow> (w, er) # poll_all es s')"

definition render_ok :: "render_env \<Rightarrow> bool" where
  "render_ok env = (rn_wfail env = None \<and> (\<forall>d. \<exists>bs. rn_encode env d = Inr bs))"

lemma LimitReader_take: "0 < n \<Longrightarrow> rd_data (LimitReader n r) = take (nat n) (rd_data r)"
  by (auto simp: LimitReader_def)

lemma MaxPayloadSize_pos: "0 < MaxPayloadSize"
  by (simp add: MaxPayloadSize_def)

lemma cognito_header_ok:
  assumes "render_ok env"
  shows "\<exists>c. cognito_header env ivk = Inr c"
proof -
  have "\<exists>bs. rn_encode env d = Inr bs" for d using assms by (simp add: render_ok_def)
  then obtain f where "\<And>d. rn_encode env d = Inr (f d)" by metis
  then show ?thesis by (simp add: cognito_header_def)
qed

lemma renderInvokeHeaders_frame [simp]:
  "rw_body (renderInvokeHeaders a b c d e f g h w) = rw_body w"
  "rw_status w = None \<Longrightarrow> rw_status (renderInvokeHeaders a b c d e f g h w) = Some 200"
  by (simp_all add: renderInvokeHeaders_def setHeaderIfNotEmpty_def header_set_def WriteHeader_def Let_def)

lemma new_writer_simps [simp]: "rw_body new_writer = []" "rw_status new_writer = None"
  by (simp_all add: new_writer_def)

text \<open>The payload is still to be read, or it is in the buffer.\<close>

definition replays :: "byte list \<Rightarrow> invokeRenderer \<Rightarrow> bool" where
  "replays data s = (\<exists>p. in_Payload s = Some p \<and>
     (if in_requestBuffer s = [] then rd_data (LimitReader MaxPayloadSize p) = data \<and> rd_err (LimitReader MaxPayloadSize p) = None
      else in_requestBuffer s = data))"

lemma bufferInvokeRequest_replays:
  assumes "replays data s" "in_Payload s = Some p"
  shows "\<exists>s'. bufferInvokeRequest took p s = (s', None) \<and> in_requestBuffer s' = data \<and> replays data s'"
proof (cases "in_requestBuffer s = []")
  case True
  then have p: "rd_data (LimitReader MaxPayloadSize p) = data" "rd_err (LimitReader MaxPayloadSize p) = None"
    using assms by (simp_all add: replays_def)
  have "data = [] \<Longrightarrow> rest_reader 0 p = p" by (simp add: rest_reader_def)
  then show ?thesis using True p by (auto simp: bufferInvokeRequest_def Let_def replays_def)
next
  case False
  then show ?thesis using assms by (simp add: bufferInvokeRequest_def replays_def)
qed

lemma poll_replays:
  assumes "replays data s" "render_ok env"
  shows "\<exists>s' w. InvokeRenderer_RenderRuntimeEvent env took s new_writer = (s', w, None) \<and>
    rw_status w = Some 200 \<and> rw_body w = data \<and> replays data s'"
proof -
  obtain p where p: "in_Payload s = Some p" using assms(1) by (auto simp: replays_def)
  obtain s' where s': "bufferInvokeRequest took p s = (s', None)" "in_requestBuffer s' = data" "replays data s'"
    using bufferInvokeRequest_replays [OF assms(1) p] by blast
  obtain c where c: "cognito_header env (in_invoke s) = Inr c" using cognito_header_ok [OF assms(2)] by blast
  show ?thesis using s' assms(2)
    by (simp add: InvokeRenderer_RenderRuntimeEvent_def Let_def c p http_Write_def render_ok_def body_write_def WriteHeader_def)
qed

definition poll_view :: "response_writer \<times> go_error option \<Rightarrow> go_error option \<times> nat option \<times> byte list" where
  "poll_view x = (snd x, rw_status (fst x), rw_body (fst x))"

lemma poll_all_replays:
  assumes "replays data s" "\<forall>(env, took) \<in> set polls. render_ok env"
  shows "map poll_view (poll_all polls s) = replicate (length polls) (None, Some 200, data)"
  using assms
proof (induction polls arbitrary: s)
  case (Cons x polls)
  obtain env took where x: "x = (env, took)" by (cases x)
  obtain s' v where v: "InvokeRenderer_RenderRuntimeEvent env took s new_writer = (s', v, None)"
    "rw_status v = Some 200" "rw_body v = data" "replays data s'"
    using poll_replays [OF Cons.prems(1), of env took] Cons.prems(2) x by auto
  then show ?case using Cons.IH [OF v(4)] Cons.prems x by (simp add: poll_view_def)
qed simp

text \<open>Polling is idempotent.  As often as a runtime polls while an invoke is current, it is served the same payload, the
  first bytes of the invoke's payload up to the maximal size, with status 200, although the payload can be read
  only once.\<close>

theorem runtime_event_replayed:
  assumes "rd_err (LimitReader MaxPayloadSize p) = None" "\<forall>(env, took) \<in> set polls. render_ok env"
  shows "map poll_view (poll_all polls (NewInvokeRenderer ivk (Some p) customerTraceID)) =
    replicate (length polls) (None, Some 200, take (nat MaxPayloadSize) (rd_data p))"
proof (rule poll_all_replays [OF _ assms(2)])
  show "replays (take (nat MaxPayloadSize) (rd_data p)) (NewInvokeRenderer ivk (Some p) customerTraceID)"
    using assms(1) by (simp add: replays_def NewInvokeRenderer_def LimitReader_take MaxPayloadSize_pos)
qed

definition sample_render :: render_env where
  "sample_render = \<lparr>rn_encode = (\<lambda>d. Inr [123, 125]), rn_wfail = None, rn_eventID = ''e1'', rn_mono = 5, rn_wall = 1000\<rparr>"

definition sample_event :: Invoke where
  "sample_event = \<lparr>iv_TraceID = ''t'', iv_LambdaSegmentID = [], iv_ID = ''i1'', iv_TenantID = [], iv_InvokedFunctionArn = ''arn'',
     iv_CognitoIdentityID = [], iv_CognitoIdentityPoolID = [], iv_DeadlineNs = ''7000000'', iv_ClientContext = [],
     iv_ContentType = [], iv_Payload = [1, 2, 3], iv_NeedDebugLogs = False, iv_ReservationToken = [], iv_VersionID = ''1'',
     iv_InvokeReceivedTime = 0, iv_InvokeResponseMetrics = None, iv_InvokeResponseMode = ResponseModeBuffered,
     iv_RestoreDurationNs = 0, iv_RestoreStartTimeMonotime = 0\<rparr>"

lemma sample_render_ok [simp]: "render_ok sample_render"
  by (simp add: render_ok_def sample_render_def)

theorem runtime_event_replayed_witness:
  "map poll_view (poll_all [(sample_render, 3), (sample_render, 4)]
     (NewInvokeRenderer sample_event (Some \<lparr>rd_data = [1, 2, 3], rd_err = None\<rparr>) [])) =
   [(None, Some 200, [1, 2, 3]), (None, Some 200, [1, 2, 3])]"
proof -
  have "rd_err (LimitReader MaxPayloadSize \<lparr>rd_data = [1, 2, 3], rd_err = None\<rparr>) = None"
    "take (nat MaxPayloadSize) [1, 2, 3 :: byte] = [1, 2, 3]"
    by (simp_all add: LimitReader_def MaxPayloadSize_def)
  then show ?thesis
    using runtime_event_replayed [of "\<lparr>rd_data = [1, 2, 3], rd_err = None\<rparr>" "[(sample_render, 3), (sample_render, 4)]"
        sample_event "[]"] by simp
qed

text \<open>When reading the payload fails, the status 200 has been sent already; the error is only seen by the first poll, and
  a second poll is served the part of the payload read before the failure as if it were complete.\<close>

lemma truncated_payload_served:
  assumes "rd_err p = Some e" "rd_data p \<noteq> []" "int (length (rd_data p)) < MaxPayloadSize" "render_ok env"
  shows "\<exists>s' w. InvokeRenderer_RenderRuntimeEvent env took (NewInvokeRenderer ivk (Some p) c) new_writer = (s', w, Some e) \<and>
      rw_status w = Some 200 \<and>
      (\<exists>s'' w'. InvokeRenderer_RenderRuntimeEvent env took s' new_writer = (s'', w', None) \<and> rw_status w' = Some 200 \<and>
        rw_body w' = rd_data p)"
proof -
  obtain h where h: "cognito_header env ivk = Inr h" using cognito_header_ok [OF assms(4)] by blast
  have lim: "LimitReader MaxPayloadSize p = p" using assms(3) MaxPayloadSize_pos by (simp add: LimitReader_def)
  show ?thesis using assms(1,2,4)
    by (simp add: InvokeRenderer_RenderRuntimeEvent_def NewInvokeRenderer_def bufferInvokeRequest_def Let_def h lim
        http_Write_def render_ok_def body_write_def WriteHeader_def)
qed

end
