(* ===== verification/Error_Cause.thy ===== *)
theory Error_Cause
  imports Interop
begin

text \<open>
  The cause of an error a runtime reports, for tracing: \<open>rapi/model/error_cause.go\<close>, its compaction
  \<open>error_cause_compactor.go\<close>, and the request body that carries it, \<open>rapi/handler/mime_type_error_cause_json.go\<close>.
  Decoding and encoding of JSON are parameters.  A truncation factor is the number of fifths: the
  floating-point products the source truncates are exact enough that the integer part is that of the rational
  product.
\<close>

definition MaxErrorCauseSizeBytes :: nat where "MaxErrorCauseSizeBytes = 64 * 1024"

definition paddingForFieldNames :: nat where "paddingForFieldNames = 4096"

record exceptionStackFrame =
  sf_Path :: string
  sf_Line :: int
  sf_Label :: string

record exception =
  ex_Message :: string
  ex_Type :: string
  ex_Stack :: "exceptionStackFrame list"

record ErrorCause =
  ec_Exceptions :: "exception list"
  ec_WorkingDir :: string
  ec_Paths :: "string list"
  ec_Message :: string

definition newErrorCause :: "(string \<Rightarrow> ErrorCause option) \<Rightarrow> string \<Rightarrow> go_error + ErrorCause" where
  "newErrorCause unmarshal errorCauseJSON =
    (case unmarshal errorCauseJSON of
       None \<Rightarrow> Inl (ErrText ''failed to parse error cause JSON'') | Some ec \<Rightarrow> Inr ec)"

definition ErrorCause_isValid :: "ErrorCause \<Rightarrow> bool" where
  "ErrorCause_isValid ec =
    (\<not> (length (ec_WorkingDir ec) = 0 \<and> length (ec_Paths ec) = 0 \<and> length (ec_Exceptions ec) = 0 \<and> length (ec_Message ec) = 0))"

section \<open>Compaction\<close>

definition cropString :: "string \<Rightarrow> nat \<Rightarrow> string" where
  "cropString str n = (if length str \<le> n then str else take (n - length ''...'') str @ ''...'')"

definition cropStackTraces :: "nat \<Rightarrow> ErrorCause \<Rightarrow> ErrorCause" where
  "cropStackTraces fifths ec =
    (if fifths > 0
     then ec\<lparr>ec_Exceptions := take (length (ec_Exceptions ec) * min fifths 5 div 5) (ec_Exceptions ec),
             ec_Paths := take (length (ec_Paths ec) * min fifths 5 div 5) (ec_Paths ec)\<rparr>
     else ec\<lparr>ec_Exceptions := [], ec_Paths := []\<rparr>)"

definition cropMessage :: "nat \<Rightarrow> ErrorCause \<Rightarrow> ErrorCause" where
  "cropMessage fifths ec =
    (if fifths > 0 then ec
     else ec\<lparr>ec_Message := cropString (ec_Message ec) ((MaxErrorCauseSizeBytes - paddingForFieldNames) div 2)\<rparr>)"

definition cropWorkingDir :: "nat \<Rightarrow> ErrorCause \<Rightarrow> ErrorCause" where
  "cropWorkingDir fifths ec =
    (if fifths > 0 then ec
     else ec\<lparr>ec_WorkingDir := cropString (ec_WorkingDir ec) ((MaxErrorCauseSizeBytes - paddingForFieldNames) div 2)\<rparr>)"

definition crop :: "nat \<Rightarrow> ErrorCause \<Rightarrow> ErrorCause" where
  "crop fifths ec = cropWorkingDir fifths (cropMessage fifths (cropStackTraces fifths ec))"

text \<open>The loop over the factors: the first encoding within the limit; an encoding that fails ends it.\<close>

fun crop_loop :: "(ErrorCause \<Rightarrow> string option) \<Rightarrow> ErrorCause \<Rightarrow> nat list \<Rightarrow> string option" where
  "crop_loop marshal ec [] = None"
| "crop_loop marshal ec (factor # fs) =
    (case marshal (crop factor ec) of
       None \<Rightarrow> None
     | Some j \<Rightarrow> if length j \<le> MaxErrorCauseSizeBytes then Some j else crop_loop marshal ec fs)"

definition croppedJSON :: "(ErrorCause \<Rightarrow> string option) \<Rightarrow> ErrorCause \<Rightarrow> string" where
  "croppedJSON marshal ec =
    (case crop_loop marshal ec [4, 3, 2, 1] of
       Some j \<Rightarrow> j
     | None \<Rightarrow> (case marshal (crop 0 ec) of Some j \<Rightarrow> j | None \<Rightarrow> []))"

definition ValidatedErrorCauseJSON :: "(string \<Rightarrow> ErrorCause option) \<Rightarrow> (ErrorCause \<Rightarrow> string option) \<Rightarrow> string \<Rightarrow> go_error + string" where
  "ValidatedErrorCauseJSON unmarshal marshal errorCauseJSON =
    (case newErrorCause unmarshal errorCauseJSON of
       Inl e \<Rightarrow> Inl e
     | Inr ec \<Rightarrow>
        if \<not> ErrorCause_isValid ec then Inl (ErrText ''error cause body has invalid format'')
        else (case marshal ec of
                None \<Rightarrow> Inl (ErrText ''marshal'')
              | Some j \<Rightarrow> if length j > MaxErrorCauseSizeBytes then Inr (croppedJSON marshal ec) else Inr j))"

section \<open>The request body\<close>

record errorWithCauseRequest =
  ew_ErrorMessage :: string
  ew_ErrorType :: string
  ew_StackTrace :: "string list"
  ew_ErrorCause :: string

text \<open>The codecs of the three JSON documents.\<close>

record json_codec =
  jc_request :: "string \<Rightarrow> errorWithCauseRequest option"
  jc_response :: "string \<Rightarrow> string \<Rightarrow> string list \<Rightarrow> string option"
  jc_cause :: "string \<Rightarrow> ErrorCause option"
  jc_cause_out :: "ErrorCause \<Rightarrow> string option"

definition getInvokeErrorResponse :: "json_codec \<Rightarrow> errorWithCauseRequest \<Rightarrow> go_error + string" where
  "getInvokeErrorResponse jc r =
    (case jc_response jc (ew_ErrorMessage r) (ew_ErrorType r) (ew_StackTrace r) of
       None \<Rightarrow> Inl (ErrText ''error marshalling invocation/error response body'') | Some b \<Rightarrow> Inr b)"

definition getValidatedXRayCause :: "json_codec \<Rightarrow> errorWithCauseRequest \<Rightarrow> string option" where
  "getValidatedXRayCause jc r =
    (if length (ew_ErrorCause r) = 0 then None
     else case ValidatedErrorCauseJSON (jc_cause jc) (jc_cause_out jc) (ew_ErrorCause r) of
            Inl _ \<Rightarrow> None | Inr j \<Rightarrow> Some j)"

section \<open>The size limit\<close>

lemma cropString_length: "3 \<le> n \<Longrightarrow> length (cropString s n) \<le> n"
  by (auto simp: cropString_def)

lemma crop_0:
  "ec_Exceptions (crop 0 ec) = []" "ec_Paths (crop 0 ec) = []"
  "length (ec_Message (crop 0 ec)) \<le> 30720" "length (ec_WorkingDir (crop 0 ec)) \<le> 30720"
  by (simp_all add: crop_def cropWorkingDir_def cropMessage_def cropStackTraces_def cropString_length
      MaxErrorCauseSizeBytes_def paddingForFieldNames_def)

lemma crop_parts:
  "(\<exists>k. ec_Exceptions (crop f ec) = take k (ec_Exceptions ec)) \<and> (\<exists>k. ec_Paths (crop f ec) = take k (ec_Paths ec)) \<and>
   (f > 0 \<longrightarrow> ec_Message (crop f ec) = ec_Message ec \<and> ec_WorkingDir (crop f ec) = ec_WorkingDir ec)"
  by (auto simp: crop_def cropWorkingDir_def cropMessage_def cropStackTraces_def intro: exI [of _ 0])

lemma crop_loop_Some:
  "crop_loop marshal ec fs = Some j \<Longrightarrow> length j \<le> MaxErrorCauseSizeBytes \<and> (\<exists>f\<in>set fs. marshal (crop f ec) = Some j)"
  by (induction fs) (auto split: option.splits if_splits)

lemma croppedJSON_cases:
  "(\<exists>f>0. marshal (crop f ec) = Some (croppedJSON marshal ec) \<and> length (croppedJSON marshal ec) \<le> MaxErrorCauseSizeBytes) \<or>
   marshal (crop 0 ec) = Some (croppedJSON marshal ec) \<or> croppedJSON marshal ec = []"
proof (cases "crop_loop marshal ec [4, 3, 2, 1]")
  case None
  then show ?thesis by (auto simp: croppedJSON_def simp del: crop_loop.simps split: option.splits)
next
  case (Some j)
  from crop_loop_Some [OF this] obtain f where f: "length j \<le> MaxErrorCauseSizeBytes" "f \<in> set [4, 3, 2, 1]"
    "marshal (crop f ec) = Some j" by blast
  have "f > 0" using f(2) by auto
  with f(1,3) have "length j \<le> MaxErrorCauseSizeBytes" "\<exists>f>0. marshal (crop f ec) = Some j" by blast+
  then show ?thesis using Some by (simp add: croppedJSON_def del: crop_loop.simps)
qed


definition plain_cause :: "ErrorCause \<Rightarrow> string option" where
  "plain_cause ec = Some (ec_Message ec @ ec_WorkingDir ec @ concat (ec_Paths ec))"

definition huge_cause :: ErrorCause where
  "huge_cause = \<lparr>ec_Exceptions = [], ec_WorkingDir = ''/'', ec_Paths = [], ec_Message = replicate 70000 CHR ''m''\<rparr>"


text \<open>An encoder that escapes characters breaks the limit: the reserved padding only counts the field names.\<close>

lemma escaped_cause_exceeds_limit:
  assumes "\<And>ec. marshal ec = Some (replicate (2 * (length (ec_Message ec) + length (ec_WorkingDir ec))) c)"
    and "unmarshal body = Some ec" "length (ec_Message ec) = 40000" "length (ec_WorkingDir ec) = 40000"
  shows "\<exists>out. ValidatedErrorCauseJSON unmarshal marshal body = Inr out \<and> length out > MaxErrorCauseSizeBytes"
proof -
  have loop: "crop_loop marshal ec [4, 3, 2, 1] = None"
    using assms(3,4) by (simp add: assms(1) crop_def cropWorkingDir_def cropMessage_def cropStackTraces_def MaxErrorCauseSizeBytes_def)
  have "length (ec_Message (crop 0 ec)) = 30720" "length (ec_WorkingDir (crop 0 ec)) = 30720"
    using assms(3,4) by (simp_all add: crop_def cropWorkingDir_def cropMessage_def cropStackTraces_def cropString_def
        MaxErrorCauseSizeBytes_def paddingForFieldNames_def)
  then show ?thesis
    using assms(2-4) loop
    by (simp add: ValidatedErrorCauseJSON_def newErrorCause_def ErrorCause_isValid_def assms(1) croppedJSON_def
        MaxErrorCauseSizeBytes_def)
qed

end
