(* ===== verification/Runtime_API.thy ===== *)
theory Runtime_API
  imports Rendering Error_Cause App_Context Credentials Core_System
begin

text \<open>
  The Runtime, Extensions, Logs and Credentials APIs: the handlers of \<open>internal/lambda/rapi/handler\<close>, the middleware and the
  routers.  A handler runs concurrently with everything else, so it is split at its operations on shared state: a
  step performs at most one operation that changes the registration service or the server and returns the new state and either
  the response, or the point it goes on from (\<open>Goes\<close>), or says that the handler panicked, which ends the request and
  nothing else.  Looking up a runtime or an agent is a step of its own, since the object may be replaced before it is used.  A
  handler whose method call is suspended stays at its point until the call is resumed.  Reads that only go into the
  response, and storing trace data, belong to the step of the operation next to them.  The parsers of UUID and
  JSON are parameters.
\<close>

section \<open>State and requests\<close>

record api =
  ap_registrationService :: reg
  ap_appCtx :: applicationContext
  ap_server :: Server
  ap_renderingService :: "RendererState option"
  ap_traces :: "string option list"
  ap_sendResponseChan :: "InvokeResponseMetrics list"
  ap_credentialsService :: credentialsServiceImpl
  ap_extensionsEnabled :: bool
  ap_metrics :: "string list"

record api_request =
  rq_header :: "string \<Rightarrow> string"
  rq_Body :: reader
  rq_Trailer :: "string \<Rightarrow> string"
  rq_tid :: tid

text \<open>What the surroundings contribute to one step.\<close>

record api_env =
  av_now :: ns
  av_now' :: ns
  av_took :: ns
  av_render :: render_env
  av_send :: send_env
  av_newUUID :: UUID
  av_parseUUID :: "string \<Rightarrow> UUID option"
  av_json :: json_codec
  av_jsonValid :: "string \<Rightarrow> bool"
  av_marshal :: "FunctionError \<Rightarrow> string option"
  av_registerBody :: "string \<Rightarrow> string + Event list \<times> string list"
  av_credentialsJSON :: "Credentials \<Rightarrow> string"
  av_subscribe :: "string \<Rightarrow> byte list \<Rightarrow> go_error + byte list \<times> nat \<times> (string \<times> string list) list"
  av_closedErrorType :: string
  av_closedErrorMessage :: string

datatype sent = SentAccepted | SentTooLarge | SentTruncated

datatype api_point =
    AtInvocationNext | AtNextCall ref | AtReadySuspended ref
  | AtRestoreNext | AtRestoreNextCall ref | AtRestoreSuspended ref
  | AtInvocationResponse string | AtResponseCall ref string | AtSendInvalidMode ref string | AtSendResponse ref string
  | AtSendTooLarge ref string go_error | AtResponseSent ref "string option option" sent
  | AtInvocationError string | AtErrorCall ref string | AtSendError ref string ErrorInvokeResponse "string option"
  | AtInitError | AtInitErrorCall ref ErrorInvokeResponse | AtSendInitError ErrorInvokeResponse
  | AtRestoreError | AtRestoreErrorCall ref FunctionError
  | AtRegister | AtRegisterExternal ref "Event list" bool | AtRegisterInternal string "Event list" bool
  | AtRegisterCreated ref "Event list" bool
  | AtAgentNext "UUID option" | AtExternalReady ref UUID | AtInternalReady ref UUID
  | AtExternalSuspended ref UUID | AtInternalSuspended ref UUID | AtRenderAgentEvent
  | AtAgentInitError "UUID option" | AtExternalInitError ref UUID | AtInternalInitError ref UUID
  | AtAgentExitError "UUID option" | AtExternalExitError ref UUID | AtInternalExitError ref UUID | AtStoreFatal ErrorType
  | AtTelemetry "UUID option" | AtLogsStub | AtTelemetryStub | AtCredentials | AtPing

datatype served = Responded response_writer | Goes api_point | Aborted string | Exits

definition request_Get :: "api_request \<Rightarrow> string \<Rightarrow> string" where
  "request_Get q k = rq_header q k"

definition body_string :: "api_request \<Rightarrow> string" where
  "body_string q = bytes_string (rd_data (rq_Body q))"

section \<open>Constants and messages\<close>

definition LambdaAgentIdentifier :: string where "LambdaAgentIdentifier = ''Lambda-Extension-Identifier''"
definition LambdaAgentFunctionErrorType :: string where "LambdaAgentFunctionErrorType = ''Lambda-Extension-Function-Error-Type''"
definition LambdaAgentName :: string where "LambdaAgentName = ''Lambda-Extension-Name''"
definition featuresHeader :: string where "featuresHeader = ''Lambda-Extension-Accept-Feature''"
definition xrayErrorCauseHeaderName :: string where "xrayErrorCauseHeaderName = ''Lambda-Runtime-Function-XRay-Error-Cause''"
definition errorWithCauseContentType :: string where "errorWithCauseContentType = ''application/vnd.aws.lambda.error.cause+json''"
definition ErrAgentIdentifierMissing :: string where "ErrAgentIdentifierMissing = ''Extension.MissingExtensionIdentifier''"
definition ErrAgentIdentifierInvalid :: string where "ErrAgentIdentifierInvalid = ''Extension.InvalidExtensionIdentifier''"
definition errAgentNameInvalid :: string where "errAgentNameInvalid = ''Extension.InvalidExtensionName''"
definition errAgentRegistrationClosed :: string where "errAgentRegistrationClosed = ''Extension.RegistrationClosed''"
definition errAgentIdentifierUnknown :: string where "errAgentIdentifierUnknown = ''Extension.UnknownExtensionIdentifier''"
definition errAgentInvalidState :: string where "errAgentInvalidState = ''Extension.InvalidExtensionState''"
definition errAgentMissingHeader :: string where "errAgentMissingHeader = ''Extension.MissingHeader''"
definition errTooManyExtensions :: string where "errTooManyExtensions = ''Extension.TooManyExtensions''"
definition errInvalidEventType :: string where "errInvalidEventType = ''Extension.InvalidEventType''"
definition errInvalidRequestFormat :: string where "errInvalidRequestFormat = ''InvalidRequestFormat''"

text \<open>The printed form of the errors that reach a message.\<close>

fun api_error_text :: "go_error \<Rightarrow> string" where
  "api_error_text ErrNotAllowed = ''State transition is not allowed''"
| "api_error_text ErrConcurrentStateModification = ''Concurrent state modification''"
| "api_error_text ErrGateIntegrity = ''ErrGateIntegrity''"
| "api_error_text ErrGateCanceled = ''ErrGateCanceled''"
| "api_error_text ErrInvalidEventType = ''ErrorInvalidEventType''"
| "api_error_text ErrEventNotSupportedForInternalAgent = ''ShutdownEventNotSupportedForInternalExtension''"
| "api_error_text (ErrRestoreHookUserError u) = ''errRestoreHookUserError''"
| "api_error_text ErrRestoreHookTimeout = ''Runtime.RestoreHookUserTimeout''"
| "api_error_text (ErrText s) = s"
| "api_error_text e = di_error_text e"

definition runtime_transition_message :: "RuntimeState \<Rightarrow> string \<Rightarrow> go_error \<Rightarrow> string" where
  "runtime_transition_message st target e =
    ''State transition from '' @ RuntimeState_Name st @ '' to '' @ target @ '' failed for runtime. Error: '' @ api_error_text e"

definition extension_transition_message :: "string \<Rightarrow> string \<Rightarrow> string \<Rightarrow> go_error \<Rightarrow> string" where
  "extension_transition_message st target name e =
    ''State transition from '' @ st @ '' to '' @ target @ '' failed for extension '' @ name @ ''. Error: '' @ api_error_text e"

section \<open>Calls\<close>

definition runtime_call :: "rt_op \<Rightarrow> api_env \<Rightarrow> ref \<Rightarrow> api \<Rightarrow> api \<times> call_result" where
  "runtime_call p env r s =
    (case reg_runtime_call p (av_now env) (av_now' env) r (ap_registrationService s) of
       (reg, c) \<Rightarrow> (s\<lparr>ap_registrationService := reg\<rparr>, c))"

definition ext_call :: "ea_op \<Rightarrow> api_env \<Rightarrow> ref \<Rightarrow> api \<Rightarrow> api \<times> call_result" where
  "ext_call p env a s =
    (case reg_ext_call p (av_now env) (av_now' env) a (ap_registrationService s) of
       (reg, c) \<Rightarrow> (s\<lparr>ap_registrationService := reg\<rparr>, c))"

definition int_call :: "ia_op \<Rightarrow> api_env \<Rightarrow> ref \<Rightarrow> api \<Rightarrow> api \<times> call_result" where
  "int_call p env a s =
    (case reg_int_call p (av_now env) (av_now' env) a (ap_registrationService s) of
       (reg, c) \<Rightarrow> (s\<lparr>ap_registrationService := reg\<rparr>, c))"

definition runtime_refused :: "api_env \<Rightarrow> ref \<Rightarrow> string \<Rightarrow> go_error \<Rightarrow> api \<Rightarrow> api \<times> served" where
  "runtime_refused env r target e s =
    (s, Responded (RenderForbiddenWithTypeMsg (av_render env) ErrorTypeInvalidStateTransition
          (runtime_transition_message (Runtime_GetState (rs_runtimes (ap_registrationService s) ! r)) target e) new_writer))"

text \<open>The runtime of the registration service; a method of a nil runtime panics.\<close>

definition with_runtime :: "api \<Rightarrow> (ref \<Rightarrow> api_point) \<Rightarrow> api \<times> served" where
  "with_runtime s pt =
    (case GetRuntime (ap_registrationService s) of None \<Rightarrow> (s, Aborted ''nil pointer'') | Some r \<Rightarrow> (s, Goes (pt r)))"

text \<open>A server from the application context.\<close>

definition with_server :: "ref option option \<Rightarrow> api \<Rightarrow> (api \<times> served) \<Rightarrow> api \<times> served" where
  "with_server found s k = (case found of Some (Some p) \<Rightarrow> k | _ \<Rightarrow> (s, Aborted ''Invalid state, cannot access interop server''))"

definition store_trace :: "string option \<Rightarrow> api \<Rightarrow> api" where
  "store_trace cause s = s\<lparr>ap_traces := ap_traces s @ [cause],
     ap_appCtx := StoreInvokeErrorTraceData (ap_appCtx s) (length (ap_traces s))\<rparr>"

definition hand_over :: "Server \<Rightarrow> InvokeResponseMetrics option \<Rightarrow> api \<Rightarrow> api" where
  "hand_over sv m s = s\<lparr>ap_server := sv,
     ap_sendResponseChan := ap_sendResponseChan s @ (case m of None \<Rightarrow> [] | Some x \<Rightarrow> [x])\<rparr>"

definition interop_failed :: "api_env \<Rightarrow> go_error \<Rightarrow> api \<Rightarrow> api \<times> served" where
  "interop_failed env e s =
    (case RenderInteropError (av_render env) e new_writer of Ret w \<Rightarrow> (s, Responded w) | Panics m \<Rightarrow> (s, Aborted m)
     | Blocks \<Rightarrow> (s, Aborted []))"

section \<open>Invocation and restore: next\<close>

text \<open>What follows a ready call, at once or when it is resumed.\<close>

definition next_event :: "api_env \<Rightarrow> ref \<Rightarrow> api_point \<Rightarrow> api \<times> call_result \<Rightarrow> api \<times> served" where
  "next_event env r pt x =
    (case x of
       (s, Suspended) \<Rightarrow> (s, Goes pt)
     | (s, Returned (Some e)) \<Rightarrow> runtime_refused env r ''Ready'' e s
     | (s, Returned None) \<Rightarrow>
        (case RenderRuntimeEvent (av_render env) (av_took env) (ap_renderingService s) new_writer of
           Ret (rs, w, None) \<Rightarrow> (s\<lparr>ap_renderingService := rs\<rparr>, Responded w)
         | Ret (rs, w, Some e) \<Rightarrow> (s\<lparr>ap_renderingService := rs\<rparr>, Responded (RenderInternalServerError (av_render env) w))
         | Panics m \<Rightarrow> (s, Aborted m) | Blocks \<Rightarrow> (s, Aborted [])))"

definition invocationNext_ServeHTTP :: "api \<Rightarrow> api \<times> served" where
  "invocationNext_ServeHTTP s = with_runtime s AtNextCall"

definition restoreNext_ServeHTTP :: "api \<Rightarrow> api \<times> served" where
  "restoreNext_ServeHTTP s = with_runtime s AtRestoreNextCall"

section \<open>Invocation: response\<close>

definition StreamingFunctionResponseMode :: string where "StreamingFunctionResponseMode = ''streaming''"

definition invocationResponse_ServeHTTP :: "string \<Rightarrow> api \<Rightarrow> api \<times> served" where
  "invocationResponse_ServeHTTP invokeID s =
    with_server (LoadResponseSender (ap_appCtx s)) s (with_runtime s (\<lambda>r. AtResponseCall r invokeID))"

definition response_call :: "api_env \<Rightarrow> api_request \<Rightarrow> ref \<Rightarrow> string \<Rightarrow> api \<Rightarrow> api \<times> served" where
  "response_call env q r invokeID s =
    (case runtime_call RInvocationResponse env r s of
       (s, Returned (Some e)) \<Rightarrow> runtime_refused env r ''InvocationResponse'' e s
     | (s, _) \<Rightarrow>
        let mode = request_Get q FunctionResponseModeHeader
        in if mode \<noteq> [] \<and> mode \<noteq> StreamingFunctionResponseMode then (s, Goes (AtSendInvalidMode r invokeID))
           else (s, Goes (AtSendResponse r invokeID)))"

definition response_headers :: "api_request \<Rightarrow> (string \<times> string) list" where
  "response_headers q =
    [(ContentTypeHeader, request_Get q ContentTypeHeader)] @
    (if request_Get q FunctionResponseModeHeader \<noteq> []
     then [(FunctionResponseModeHeader, request_Get q FunctionResponseModeHeader)] else [])"

definition send_invalid_mode :: "api_env \<Rightarrow> api_request \<Rightarrow> string \<Rightarrow> api \<Rightarrow> api \<times> served" where
  "send_invalid_mode env q invokeID s =
    (case SendErrorResponse invokeID
            \<lparr>eir_ContentType = request_Get q ContentTypeHeader, eir_FunctionResponseMode = [],
             eir_FunctionError = \<lparr>fe_Type = RuntimeInvalidResponseModeHeader, fe_Message = []\<rparr>, eir_Payload = []\<rparr>
            (av_send env) (ap_server s) of
       (sv, er, m) \<Rightarrow> (hand_over sv m s, Responded (RenderInvalidFunctionResponseMode (av_render env) new_writer)))"

definition send_response :: "api_env \<Rightarrow> api_request \<Rightarrow> ref \<Rightarrow> string \<Rightarrow> api \<Rightarrow> api \<times> served" where
  "send_response env q r invokeID s =
    (case SendResponse invokeID \<lparr>sir_Headers = response_headers q, sir_Payload = rq_Body q, sir_Trailers = rq_Trailer q\<rparr>
            (av_send env) (ap_server s) of
       (sv, er, m) \<Rightarrow>
         let s = hand_over sv m s
         in (case er of
               None \<Rightarrow> (s, Goes (AtResponseSent r None SentAccepted))
             | Some (ErrorResponseTooLarge a b) \<Rightarrow> (s, Goes (AtSendTooLarge r invokeID (ErrorResponseTooLarge a b)))
             | Some (ErrorResponseTooLargeDI a b) \<Rightarrow> (s, Goes (AtResponseSent r None SentTooLarge))
             | Some ErrTruncatedResponse \<Rightarrow> (s, Goes (AtResponseSent r None SentTruncated))
             | Some ErrInternalPlatformError \<Rightarrow> (s, Responded (RenderInternalServerError (av_render env) new_writer))
             | Some e \<Rightarrow> interop_failed env e s))"

fun too_large_text :: "go_error \<Rightarrow> string" where
  "too_large_text (ErrorResponseTooLarge a b) =
    ''Response payload size exceeded maximum allowed payload size ('' @ int_dec a @ '' bytes).''"
| "too_large_text e = api_error_text e"

definition AsErrorResponse :: "(FunctionError \<Rightarrow> string option) \<Rightarrow> go_error \<Rightarrow> ErrorInvokeResponse option" where
  "AsErrorResponse marshal e =
    (let functionError = \<lparr>fe_Type = FunctionOversizedResponse, fe_Message = too_large_text e\<rparr>
     in map_option (\<lambda>j. \<lparr>eir_ContentType = ''application/json'', eir_FunctionResponseMode = [],
          eir_FunctionError = functionError, eir_Payload = j\<rparr>) (marshal functionError))"

definition send_too_large :: "api_env \<Rightarrow> ref \<Rightarrow> string \<Rightarrow> go_error \<Rightarrow> api \<Rightarrow> api \<times> served" where
  "send_too_large env r invokeID e s =
    (case AsErrorResponse (av_marshal env) e of
       None \<Rightarrow> (s, Aborted ''Failed to marshal interop.FunctionError'')
     | Some resp \<Rightarrow>
        (case SendErrorResponse invokeID resp (av_send env) (ap_server s) of
           (sv, Some _, m) \<Rightarrow> interop_failed env e (hand_over sv m s)
         | (sv, None, m) \<Rightarrow> (hand_over sv m s, Goes (AtResponseSent r (Some None) SentTooLarge))))"

text \<open>The end of a reply: trace data is stored when there was an error, then the runtime moves on.\<close>

definition response_sent :: "api_env \<Rightarrow> ref \<Rightarrow> string option option \<Rightarrow> sent \<Rightarrow> api \<Rightarrow> api \<times> served" where
  "response_sent env r trace kind s =
    (case runtime_call RResponseSent env r (case trace of None \<Rightarrow> s | Some cause \<Rightarrow> store_trace cause s) of
       (s, Returned (Some e)) \<Rightarrow> (s, Aborted (api_error_text e))
     | (s, _) \<Rightarrow>
        (s, Responded (case kind of
               SentAccepted \<Rightarrow> RenderAccepted (av_render env) new_writer
             | SentTooLarge \<Rightarrow> RenderRequestEntityTooLarge (av_render env) new_writer
             | SentTruncated \<Rightarrow> RenderTruncatedHTTPRequestError (av_render env) new_writer)))"

section \<open>Invocation: error\<close>

definition getErrorBody :: "api_request \<Rightarrow> string" where
  "getErrorBody q = (if rd_err (rq_Body q) \<noteq> None then [] else body_string q)"

definition getValidatedErrorCause :: "api_env \<Rightarrow> api_request \<Rightarrow> string option" where
  "getValidatedErrorCause env q =
    (let h = request_Get q xrayErrorCauseHeaderName
     in if length h = 0 then None
        else case ValidatedErrorCauseJSON (jc_cause (av_json env)) (jc_cause_out (av_json env)) h of
               Inl _ \<Rightarrow> None | Inr j \<Rightarrow> Some j)"

text \<open>The body, the cause and whether there was an error.\<close>

definition getErrorBodyForErrorCauseContentType :: "api_env \<Rightarrow> api_request \<Rightarrow> string \<times> string option \<times> bool" where
  "getErrorBodyForErrorCauseContentType env q =
    (if rd_err (rq_Body q) \<noteq> None then ([], None, True)
     else case jc_request (av_json env) (body_string q) of
            None \<Rightarrow> ([CHR 0x22] @ ''Invalid error body'' @ [CHR 0x22], None, True)
          | Some p \<Rightarrow>
             (case getInvokeErrorResponse (av_json env) p of
                Inl _ \<Rightarrow> ([], getValidatedXRayCause (av_json env) p, True)
              | Inr b \<Rightarrow> (b, getValidatedXRayCause (av_json env) p, False)))"

definition error_response :: "api_env \<Rightarrow> api_request \<Rightarrow> ErrorInvokeResponse \<times> string option" where
  "error_response env q =
    (let errorType = GetValidRuntimeOrFunctionErrorType (request_Get q ''Lambda-Runtime-Function-Error-Type'');
         (errorBody, errorCause, contentType) =
           (if request_Get q ContentTypeHeader = errorWithCauseContentType
            then (case getErrorBodyForErrorCauseContentType env q of
                    (b, c, failed) \<Rightarrow> (b, c, if failed then ''application/octet-stream'' else ''application/json''))
            else (getErrorBody q, getValidatedErrorCause env q, request_Get q ContentTypeHeader))
     in (\<lparr>eir_ContentType = contentType, eir_FunctionResponseMode = request_Get q FunctionResponseModeHeader,
          eir_FunctionError = \<lparr>fe_Type = errorType, fe_Message = []\<rparr>, eir_Payload = errorBody\<rparr>, errorCause))"

definition invocationError_ServeHTTP :: "string \<Rightarrow> api \<Rightarrow> api \<times> served" where
  "invocationError_ServeHTTP invokeID s =
    with_server (LoadResponseSender (ap_appCtx s)) s (with_runtime s (\<lambda>r. AtErrorCall r invokeID))"

definition error_call :: "api_env \<Rightarrow> api_request \<Rightarrow> ref \<Rightarrow> string \<Rightarrow> api \<Rightarrow> api \<times> served" where
  "error_call env q r invokeID s =
    (case runtime_call RInvocationErrorResponse env r s of
       (s, Returned (Some e)) \<Rightarrow> runtime_refused env r ''InvocationErrorResponse'' e s
     | (s, _) \<Rightarrow> (case error_response env q of (resp, cause) \<Rightarrow> (s, Goes (AtSendError r invokeID resp cause))))"

definition send_error :: "api_env \<Rightarrow> ref \<Rightarrow> string \<Rightarrow> ErrorInvokeResponse \<Rightarrow> string option \<Rightarrow> api \<Rightarrow> api \<times> served" where
  "send_error env r invokeID resp cause s =
    (case SendErrorResponse invokeID resp (av_send env) (ap_server s) of
       (sv, Some e, m) \<Rightarrow> interop_failed env e (hand_over sv m s)
     | (sv, None, m) \<Rightarrow> (hand_over sv m s, Goes (AtResponseSent r (Some cause) SentAccepted)))"

section \<open>Init and restore: error\<close>

definition determineJSONContentType :: "api_env \<Rightarrow> string \<Rightarrow> string" where
  "determineJSONContentType env body = (if av_jsonValid env body then ''application/json'' else ''application/octet-stream'')"

definition restore_error :: "api_env \<Rightarrow> FunctionError \<Rightarrow> ref \<Rightarrow> api \<Rightarrow> api \<times> served" where
  "restore_error env fnError r s =
    (case runtime_call (RRestoreError fnError) env r s of
       (s, Returned (Some e)) \<Rightarrow> runtime_refused env r ''RuntimeRestoreErrorState'' e s
     | (s, _) \<Rightarrow> (store_trace None s, Responded (RenderAccepted (av_render env) new_writer)))"

definition initError_ServeHTTP :: "api_env \<Rightarrow> api_request \<Rightarrow> api \<Rightarrow> api \<times> served" where
  "initError_ServeHTTP env q s =
    with_server (LoadInteropServer (ap_appCtx s)) s
      (let errorType = GetValidRuntimeOrFunctionErrorType (request_Get q ''Lambda-Runtime-Function-Error-Type'');
           fnError = \<lparr>fe_Type = errorType, fe_Message = []\<rparr>;
           errorBody = body_string q;
           response = \<lparr>eir_ContentType = determineJSONContentType env errorBody, eir_FunctionResponseMode = [],
                       eir_FunctionError = fnError, eir_Payload = errorBody\<rparr>
       in with_runtime s (\<lambda>r.
            if Runtime_GetState (rs_runtimes (ap_registrationService s) ! r) = RuntimeRestoringState
            then AtRestoreErrorCall r fnError else AtInitErrorCall r response))"

definition init_error :: "api_env \<Rightarrow> ref \<Rightarrow> ErrorInvokeResponse \<Rightarrow> api \<Rightarrow> api \<times> served" where
  "init_error env r response s =
    (case runtime_call RInitError env r s of
       (s, Returned (Some e)) \<Rightarrow> runtime_refused env r ''InitError'' e s
     | (s, _) \<Rightarrow> (s, Goes (AtSendInitError response)))"

definition send_init_error :: "api_env \<Rightarrow> ErrorInvokeResponse \<Rightarrow> api \<Rightarrow> api \<times> served" where
  "send_init_error env resp s =
    (case SendInitErrorResponse resp (av_send env) (ap_server s) of
       (sv, Some e, m) \<Rightarrow> interop_failed env e (hand_over sv m s)
     | (sv, None, m) \<Rightarrow> (store_trace None (hand_over sv m s), Responded (RenderAccepted (av_render env) new_writer)))"

definition restoreError_ServeHTTP :: "api_request \<Rightarrow> api \<Rightarrow> api \<times> served" where
  "restoreError_ServeHTTP q s =
    with_server (LoadInteropServer (ap_appCtx s)) s
      (with_runtime s (\<lambda>r. AtRestoreErrorCall r
         \<lparr>fe_Type = GetValidRuntimeOrFunctionErrorType (request_Get q ''Lambda-Runtime-Function-Error-Type''), fe_Message = []\<rparr>))"

section \<open>Extensions: registration\<close>

text \<open>A feature is accepted when trimming its white space leaves \<open>accountId\<close>, that is when this is its only
  field; there is no other feature, so the result is whether it is present.\<close>

definition parseRegistrationFeatures :: "api_request \<Rightarrow> bool" where
  "parseRegistrationFeatures q = list_ex (\<lambda>f. Fields f = [''accountId'']) (split_on (CHR '','') (request_Get q featuresHeader))"

definition parseRegister :: "api_env \<Rightarrow> api_request \<Rightarrow> string + Event list" where
  "parseRegister env q =
    (case rd_err (rq_Body q) of
       Some e \<Rightarrow> Inl (api_error_text e)
     | None \<Rightarrow>
        (case av_registerBody env (body_string q) of
           Inl e \<Rightarrow> Inl e
         | Inr (events, configurationKeys) \<Rightarrow>
            if length configurationKeys \<noteq> 0
            then Inl ''configurationKeys are deprecated; use environment variables instead'' else Inr events))"

definition register_response :: "api_env \<Rightarrow> UUID \<Rightarrow> bool \<Rightarrow> api \<Rightarrow> response_writer" where
  "register_response env agentID accountFeature s =
    (let metadata = GetFunctionMetadata (ap_registrationService s);
         resp = \<lparr>xr_AccountID = if accountFeature then fm_AccountID metadata else [],
                 xr_FunctionName = fm_FunctionName metadata, xr_FunctionVersion = fm_FunctionVersion metadata,
                 xr_Handler = fm_Handler metadata\<rparr>
     in render_or_fail (av_render env) 200 (DocRegister resp) (header_set LambdaAgentIdentifier agentID new_writer))"

definition forbidden :: "api_env \<Rightarrow> string \<Rightarrow> string \<Rightarrow> api \<Rightarrow> api \<times> served" where
  "forbidden env errorType message s =
    (s, Responded (RenderForbiddenWithTypeMsg (av_render env) errorType message new_writer))"

definition agentRegister_ServeHTTP :: "api_env \<Rightarrow> api_request \<Rightarrow> api \<Rightarrow> api \<times> served" where
  "agentRegister_ServeHTTP env q s =
    (let agentName = request_Get q LambdaAgentName
     in if agentName = [] then forbidden env errAgentNameInvalid ''Empty extension name'' s
        else case parseRegister env q of
               Inl e \<Rightarrow> forbidden env errInvalidRequestFormat e s
             | Inr events \<Rightarrow>
                (case FindExternalAgentByName agentName (ap_registrationService s) of
                   Some a \<Rightarrow> (s, Goes (AtRegisterExternal a events (parseRegistrationFeatures q)))
                 | None \<Rightarrow> (s, Goes (AtRegisterInternal agentName events (parseRegistrationFeatures q)))))"

text \<open>The first event that does not validate, with its error.\<close>

fun first_invalid :: "(Event \<Rightarrow> go_error option) \<Rightarrow> Event list \<Rightarrow> (Event \<times> go_error) option" where
  "first_invalid validate [] = None"
| "first_invalid validate (e # es) =
    (case validate e of Some er \<Rightarrow> Some (e, er) | None \<Rightarrow> first_invalid validate es)"

definition registerExternalAgent :: "api_env \<Rightarrow> ref \<Rightarrow> Event list \<Rightarrow> bool \<Rightarrow> api \<Rightarrow> api \<times> served" where
  "registerExternalAgent env a events accountFeature s =
    (case first_invalid ValidateExternalAgentEvent events of
       Some (ev, er) \<Rightarrow> forbidden env errInvalidEventType (ev @ '': '' @ api_error_text er) s
     | None \<Rightarrow>
        (case ext_call (EARegister events) env a s of
           (s, Returned (Some e)) \<Rightarrow>
             let ag = rs_extAgents (ap_registrationService s) ! a
             in forbidden env errAgentInvalidState
                  (extension_transition_message (ExternalAgentState_Name (ExternalAgent_GetState ag)) ''Registered'' (ea_Name ag) e) s
         | (s, _) \<Rightarrow>
             (s, Responded (register_response env (ea_ID (rs_extAgents (ap_registrationService s) ! a)) accountFeature s))))"

definition registerInternalAgent :: "api_env \<Rightarrow> string \<Rightarrow> Event list \<Rightarrow> bool \<Rightarrow> api \<Rightarrow> api \<times> served" where
  "registerInternalAgent env agentName events accountFeature s =
    (case first_invalid ValidateInternalAgentEvent events of
       Some (ev, er) \<Rightarrow> forbidden env errInvalidEventType (ev @ '': '' @ api_error_text er) s
     | None \<Rightarrow>
        (case CreateInternalAgent agentName (av_newUUID env) (av_now env) (ap_registrationService s) of
           (reg, Inl er) \<Rightarrow>
             let s = s\<lparr>ap_registrationService := reg\<rparr>
             in (case er of
                   ErrRegistrationServiceOff \<Rightarrow> forbidden env errAgentRegistrationClosed ''Extension registration closed already'' s
                 | ErrAgentNameCollision \<Rightarrow> forbidden env errAgentInvalidState ''Extension with this name already registered'' s
                 | ErrTooManyExtensions \<Rightarrow>
                     forbidden env errTooManyExtensions (''Extension limit ('' @ int_dec MaxAgentsAllowed @ '') reached'') s
                 | _ \<Rightarrow> (s, Responded (RenderInternalServerError (av_render env) new_writer)))
         | (reg, Inr a) \<Rightarrow> (s\<lparr>ap_registrationService := reg\<rparr>, Goes (AtRegisterCreated a events accountFeature))))"

definition register_created :: "api_env \<Rightarrow> ref \<Rightarrow> Event list \<Rightarrow> bool \<Rightarrow> api \<Rightarrow> api \<times> served" where
  "register_created env a events accountFeature s =
    (case int_call (IARegister events) env a s of
       (s, Returned (Some e)) \<Rightarrow>
         let ag = rs_intAgents (ap_registrationService s) ! a
         in forbidden env errAgentInvalidState
              (extension_transition_message (InternalAgentState_Name (InternalAgent_GetState ag)) ''Registered'' (ia_Name ag) e) s
     | (s, _) \<Rightarrow>
         (s, Responded (register_response env (ia_ID (rs_intAgents (ap_registrationService s) ! a)) accountFeature s)))"

section \<open>Extensions: next, init and exit errors\<close>

definition ext_refused :: "api_env \<Rightarrow> ref \<Rightarrow> UUID \<Rightarrow> string \<Rightarrow> go_error \<Rightarrow> api \<Rightarrow> api \<times> served" where
  "ext_refused env a agentID target e s =
    forbidden env errAgentInvalidState (extension_transition_message
      (ExternalAgentState_Name (ExternalAgent_GetState (rs_extAgents (ap_registrationService s) ! a))) target agentID e) s"

definition int_refused :: "api_env \<Rightarrow> ref \<Rightarrow> UUID \<Rightarrow> string \<Rightarrow> go_error \<Rightarrow> api \<Rightarrow> api \<times> served" where
  "int_refused env a agentID target e s =
    forbidden env errAgentInvalidState (extension_transition_message
      (InternalAgentState_Name (InternalAgent_GetState (rs_intAgents (ap_registrationService s) ! a))) target agentID e) s"

definition ext_next :: "api_env \<Rightarrow> ref \<Rightarrow> UUID \<Rightarrow> api \<times> call_result \<Rightarrow> api \<times> served" where
  "ext_next env a agentID x =
    (case x of
       (s, Suspended) \<Rightarrow> (s, Goes (AtExternalSuspended a agentID))
     | (s, Returned (Some e)) \<Rightarrow> ext_refused env a agentID ''Ready'' e s
     | (s, Returned None) \<Rightarrow> (s, Goes AtRenderAgentEvent))"

definition int_next :: "api_env \<Rightarrow> ref \<Rightarrow> UUID \<Rightarrow> api \<times> call_result \<Rightarrow> api \<times> served" where
  "int_next env a agentID x =
    (case x of
       (s, Suspended) \<Rightarrow> (s, Goes (AtInternalSuspended a agentID))
     | (s, Returned (Some e)) \<Rightarrow> int_refused env a agentID ''Ready'' e s
     | (s, Returned None) \<Rightarrow> (s, Goes AtRenderAgentEvent))"

text \<open>The agent with an identifier: external agents are looked for first.  Without an identifier in the context of the
  request the answer is an internal server error.\<close>

definition with_agent :: "api_env \<Rightarrow> UUID option \<Rightarrow> (ref \<Rightarrow> UUID \<Rightarrow> api_point) \<Rightarrow> (ref \<Rightarrow> UUID \<Rightarrow> api_point) \<Rightarrow> (UUID \<Rightarrow> string)
    \<Rightarrow> api \<Rightarrow> api \<times> served" where
  "with_agent env agentID external internal unknown s =
    (case agentID of
       None \<Rightarrow> (s, Responded (RenderInternalServerError (av_render env) new_writer))
     | Some u \<Rightarrow>
        (case FindExternalAgentByID u (ap_registrationService s) of
           Some a \<Rightarrow> (s, Goes (external a u))
         | None \<Rightarrow>
            (case FindInternalAgentByID u (ap_registrationService s) of
               Some a \<Rightarrow> (s, Goes (internal a u))
             | None \<Rightarrow> forbidden env errAgentIdentifierUnknown (unknown u) s)))"

definition agentNext_ServeHTTP :: "api_env \<Rightarrow> UUID option \<Rightarrow> api \<Rightarrow> api \<times> served" where
  "agentNext_ServeHTTP env agentID =
    with_agent env agentID AtExternalReady AtInternalReady (\<lambda>u. ''Unknown extension '' @ u)"

definition render_agent_event :: "api_env \<Rightarrow> api \<Rightarrow> api \<times> served" where
  "render_agent_event env s =
    (case RenderAgentEvent (av_render env) (ap_renderingService s) new_writer of
       (w, None) \<Rightarrow> (s, Responded w)
     | (w, Some e) \<Rightarrow> (s, Responded (RenderInternalServerError (av_render env) w)))"

text \<open>Both error requests need the header with the type of the error.\<close>

definition agent_error :: "api_env \<Rightarrow> api_request \<Rightarrow> UUID option \<Rightarrow> (ref \<Rightarrow> UUID \<Rightarrow> api_point) \<Rightarrow> (ref \<Rightarrow> UUID \<Rightarrow> api_point)
    \<Rightarrow> api \<Rightarrow> api \<times> served" where
  "agent_error env q agentID external internal s =
    (if agentID \<noteq> None \<and> request_Get q LambdaAgentFunctionErrorType = []
     then forbidden env errAgentMissingHeader (LambdaAgentFunctionErrorType @ '' not found'') s
     else with_agent env agentID external internal (\<lambda>u. ''Unknown '' @ LambdaAgentIdentifier) s)"

definition agentInitError_ServeHTTP :: "api_env \<Rightarrow> api_request \<Rightarrow> UUID option \<Rightarrow> api \<Rightarrow> api \<times> served" where
  "agentInitError_ServeHTTP env q agentID = agent_error env q agentID AtExternalInitError AtInternalInitError"

definition agentExitError_ServeHTTP :: "api_env \<Rightarrow> api_request \<Rightarrow> UUID option \<Rightarrow> api \<Rightarrow> api \<times> served" where
  "agentExitError_ServeHTTP env q agentID = agent_error env q agentID AtExternalExitError AtInternalExitError"

definition ext_error :: "api_env \<Rightarrow> ea_op \<Rightarrow> ref \<Rightarrow> UUID \<Rightarrow> string \<Rightarrow> ErrorType \<Rightarrow> api \<Rightarrow> api \<times> served" where
  "ext_error env p a u target fatal s =
    (case ext_call p env a s of
       (s, Returned (Some e)) \<Rightarrow> ext_refused env a u target e s
     | (s, _) \<Rightarrow> (s, Goes (AtStoreFatal fatal)))"

definition int_error :: "api_env \<Rightarrow> ia_op \<Rightarrow> ref \<Rightarrow> UUID \<Rightarrow> string \<Rightarrow> ErrorType \<Rightarrow> api \<Rightarrow> api \<times> served" where
  "int_error env p a u target fatal s =
    (case int_call p env a s of
       (s, Returned (Some e)) \<Rightarrow> int_refused env a u target e s
     | (s, _) \<Rightarrow> (s, Goes (AtStoreFatal fatal)))"

definition store_first_fatal :: "api_env \<Rightarrow> ErrorType \<Rightarrow> api \<Rightarrow> api \<times> served" where
  "store_first_fatal env e s =
    (case StoreFirstFatalError (ap_appCtx s) e of
       None \<Rightarrow> (s, Aborted ''interface conversion'')
     | Some c \<Rightarrow> (s\<lparr>ap_appCtx := c\<rparr>, Responded (RenderAccepted (av_render env) new_writer)))"

section \<open>Telemetry, credentials and ping\<close>

definition SubscribeSuccess :: string where "SubscribeSuccess = ''logs_api_subscribe_success''"
definition SubscribeClientErr :: string where "SubscribeClientErr = ''logs_api_subscribe_client_err''"
definition SubscribeServerErr :: string where "SubscribeServerErr = ''logs_api_subscribe_server_err''"
definition NumSubscribers :: string where "NumSubscribers = ''logs_api_num_subscribers''"
definition ErrTelemetryServiceOff :: go_error where "ErrTelemetryServiceOff = ErrText ''ErrTelemetryServiceOff''"

definition RecordCounterMetric :: "string \<Rightarrow> api \<Rightarrow> api" where
  "RecordCounterMetric name s = s\<lparr>ap_metrics := ap_metrics s @ [name]\<rparr>"

definition getAgentName :: "UUID \<Rightarrow> reg \<Rightarrow> string option" where
  "getAgentName u r =
    (case FindExternalAgentByID u r of
       Some a \<Rightarrow> Some (ea_Name (rs_extAgents r ! a))
     | None \<Rightarrow> map_option (\<lambda>a. ia_Name (rs_intAgents r ! a)) (FindInternalAgentByID u r))"

definition telemetry_metrics :: "byte list \<Rightarrow> nat \<Rightarrow> string list" where
  "telemetry_metrics respBody status =
    (if status div 100 = 2
     then (if str_contains (bytes_string respBody) ''OK'' then [NumSubscribers] else []) @ [SubscribeSuccess]
     else if status div 100 = 4 then [SubscribeClientErr]
     else if status div 100 = 5 then [SubscribeServerErr] else [])"

definition runtimeLogs_ServeHTTP :: "api_env \<Rightarrow> api_request \<Rightarrow> UUID option \<Rightarrow> api \<Rightarrow> api \<times> served" where
  "runtimeLogs_ServeHTTP env q agentID s =
    (case agentID of
       None \<Rightarrow> (RecordCounterMetric SubscribeServerErr s, Responded (RenderInternalServerError (av_render env) new_writer))
     | Some u \<Rightarrow>
        (case getAgentName u (ap_registrationService s) of
           None \<Rightarrow> forbidden env errAgentIdentifierUnknown (''Unknown extension '' @ u) (RecordCounterMetric SubscribeClientErr s)
         | Some agentName \<Rightarrow>
            if rd_err (rq_Body q) \<noteq> None
            then (RecordCounterMetric SubscribeServerErr s, Responded (RenderInternalServerError (av_render env) new_writer))
            else
              (case av_subscribe env agentName (rd_data (rq_Body q)) of
                 Inl e \<Rightarrow>
                   if e = ErrTelemetryServiceOff
                   then forbidden env (av_closedErrorType env) (av_closedErrorMessage env) (RecordCounterMetric SubscribeClientErr s)
                   else (RecordCounterMetric SubscribeServerErr s, Responded (RenderInternalServerError (av_render env) new_writer))
               | Inr (respBody, status, headers) \<Rightarrow>
                   (fold RecordCounterMetric (telemetry_metrics respBody status) s,
                    Responded (fst (RenderRuntimeLogsResponse (av_render env) respBody status headers new_writer))))))"

definition runtimeLogsStub_ServeHTTP :: "api_env \<Rightarrow> api \<Rightarrow> api \<times> served" where
  "runtimeLogsStub_ServeHTTP env s =
    (s, Responded (render_or_fail (av_render env) 202 (error_document ''Logs API is not supported'' ''Logs.NotSupported'') new_writer))"

definition runtimeTelemetryStub_ServeHTTP :: "api_env \<Rightarrow> api \<Rightarrow> api \<times> served" where
  "runtimeTelemetryStub_ServeHTTP env s =
    (s, Responded (render_or_fail (av_render env) 202 (error_document ''Telemetry API is not supported'' ''Telemetry.NotSupported'') new_writer))"

definition credentials_ServeHTTP :: "api_env \<Rightarrow> api_request \<Rightarrow> api \<Rightarrow> api \<times> served" where
  "credentials_ServeHTTP env q s =
    (case GetCredentials (request_Get q ''Authorization'') (ap_credentialsService s) of
       Inl e \<Rightarrow> (s, Responded (http_Error (av_render env) ''cannot get credentials for the provided token'' 404 new_writer))
     | Inr cr \<Rightarrow> (s, Responded (fst (http_Write (av_render env) (string_bytes (av_credentialsJSON env cr)) new_writer))))"

definition ping_ServeHTTP :: "api_env \<Rightarrow> api \<Rightarrow> api \<times> served" where
  "ping_ServeHTTP env s =
    (case http_Write (av_render env) (string_bytes ''pong'') new_writer of
       (w, None) \<Rightarrow> (s, Responded w) | (w, Some e) \<Rightarrow> (s, Exits))"

section \<open>Steps of a request\<close>

fun api_continue :: "api_env \<Rightarrow> api_request \<Rightarrow> api_point \<Rightarrow> api \<Rightarrow> api \<times> served" where
  "api_continue env q AtInvocationNext s = invocationNext_ServeHTTP s"
| "api_continue env q (AtNextCall r) s =
    next_event env r (AtReadySuspended r) (runtime_call (RReady (rq_tid q)) env r s)"
| "api_continue env q AtRestoreNext s = restoreNext_ServeHTTP s"
| "api_continue env q (AtRestoreNextCall r) s =
    next_event env r (AtRestoreSuspended r) (runtime_call (RRestoreReady (rq_tid q)) env r s)"
| "api_continue env q (AtReadySuspended r) s =
    next_event env r (AtReadySuspended r) (runtime_call (RResume (rq_tid q)) env r s)"
| "api_continue env q (AtRestoreSuspended r) s =
    next_event env r (AtRestoreSuspended r) (runtime_call (RResume (rq_tid q)) env r s)"
| "api_continue env q (AtInvocationResponse i) s = invocationResponse_ServeHTTP i s"
| "api_continue env q (AtResponseCall r i) s = response_call env q r i s"
| "api_continue env q (AtSendInvalidMode r i) s = send_invalid_mode env q i s"
| "api_continue env q (AtSendResponse r i) s = send_response env q r i s"
| "api_continue env q (AtSendTooLarge r i e) s = send_too_large env r i e s"
| "api_continue env q (AtResponseSent r trace kind) s = response_sent env r trace kind s"
| "api_continue env q (AtInvocationError i) s = invocationError_ServeHTTP i s"
| "api_continue env q (AtErrorCall r i) s = error_call env q r i s"
| "api_continue env q (AtSendError r i resp cause) s = send_error env r i resp cause s"
| "api_continue env q AtInitError s = initError_ServeHTTP env q s"
| "api_continue env q (AtInitErrorCall r resp) s = init_error env r resp s"
| "api_continue env q (AtSendInitError resp) s = send_init_error env resp s"
| "api_continue env q AtRestoreError s = restoreError_ServeHTTP q s"
| "api_continue env q (AtRestoreErrorCall r u) s = restore_error env u r s"
| "api_continue env q AtRegister s = agentRegister_ServeHTTP env q s"
| "api_continue env q (AtRegisterExternal a es f) s = registerExternalAgent env a es f s"
| "api_continue env q (AtRegisterInternal n es f) s = registerInternalAgent env n es f s"
| "api_continue env q (AtRegisterCreated a es f) s = register_created env a es f s"
| "api_continue env q (AtAgentNext u) s = agentNext_ServeHTTP env u s"
| "api_continue env q (AtExternalReady a u) s = ext_next env a u (ext_call (EAReady (rq_tid q)) env a s)"
| "api_continue env q (AtInternalReady a u) s = int_next env a u (int_call (IAReady (rq_tid q)) env a s)"
| "api_continue env q (AtExternalSuspended a u) s = ext_next env a u (ext_call (EAResume (rq_tid q)) env a s)"
| "api_continue env q (AtInternalSuspended a u) s = int_next env a u (int_call (IAResume (rq_tid q)) env a s)"
| "api_continue env q AtRenderAgentEvent s = render_agent_event env s"
| "api_continue env q (AtAgentInitError u) s = agentInitError_ServeHTTP env q u s"
| "api_continue env q (AtExternalInitError a u) s =
    ext_error env (EAInitError (request_Get q LambdaAgentFunctionErrorType)) a u ''InitError'' AgentInitError s"
| "api_continue env q (AtInternalInitError a u) s =
    int_error env (IAInitError (request_Get q LambdaAgentFunctionErrorType)) a u ''InitError'' AgentInitError s"
| "api_continue env q (AtAgentExitError u) s = agentExitError_ServeHTTP env q u s"
| "api_continue env q (AtExternalExitError a u) s =
    ext_error env (EAExitError (request_Get q LambdaAgentFunctionErrorType)) a u ''Exited'' AgentExitError s"
| "api_continue env q (AtInternalExitError a u) s =
    int_error env (IAExitError (request_Get q LambdaAgentFunctionErrorType)) a u ''Exited'' AgentExitError s"
| "api_continue env q (AtStoreFatal e) s = store_first_fatal env e s"
| "api_continue env q (AtTelemetry u) s = runtimeLogs_ServeHTTP env q u s"
| "api_continue env q AtLogsStub s = runtimeLogsStub_ServeHTTP env s"
| "api_continue env q AtTelemetryStub s = runtimeTelemetryStub_ServeHTTP env s"
| "api_continue env q AtCredentials s = credentials_ServeHTTP env q s"
| "api_continue env q AtPing s = ping_ServeHTTP env s"

section \<open>Middleware and routes\<close>

definition RuntimeReleaseMiddleware :: "api_request \<Rightarrow> (api \<Rightarrow> api \<times> served) \<Rightarrow> api \<Rightarrow> api \<times> served" where
  "RuntimeReleaseMiddleware q nxt s =
    (case UpdateAppCtxWithRuntimeRelease \<lparr>User_Agent = request_Get q ''User-Agent'',
            Lambda_Runtime_Features = request_Get q ''Lambda-Runtime-Features''\<rparr> (ap_appCtx s) of
       None \<Rightarrow> (s, Aborted ''interface conversion'')
     | Some (_, c) \<Rightarrow> nxt (s\<lparr>ap_appCtx := c\<rparr>))"

definition AwsRequestIDValidator :: "api_env \<Rightarrow> string \<Rightarrow> api_point \<Rightarrow> api \<Rightarrow> api \<times> served" where
  "AwsRequestIDValidator env invokeID nxt s =
    with_server (LoadInteropServer (ap_appCtx s)) s
      (if invokeID = [] \<or> invokeID \<noteq> GetCurrentInvokeID (ap_server s)
       then (s, Responded (RenderInvalidRequestID (av_render env) new_writer)) else (s, Goes nxt))"

definition AgentUniqueIdentifierHeaderValidator ::
  "api_env \<Rightarrow> api_request \<Rightarrow> (UUID option \<Rightarrow> api_point) \<Rightarrow> api \<Rightarrow> api \<times> served" where
  "AgentUniqueIdentifierHeaderValidator env q nxt s =
    (let agentIdentifier = request_Get q LambdaAgentIdentifier
     in if length agentIdentifier = 0
        then forbidden env ErrAgentIdentifierMissing ''Missing Lambda-Extension-Identifier header'' s
        else case av_parseUUID env agentIdentifier of
               None \<Rightarrow> forbidden env ErrAgentIdentifierInvalid ''Invalid Lambda-Extension-Identifier'' s
             | Some u \<Rightarrow> (s, Goes (nxt (Some u))))"

definition AllowIfExtensionsEnabled :: "(api \<Rightarrow> api \<times> served) \<Rightarrow> api \<Rightarrow> api \<times> served" where
  "AllowIfExtensionsEnabled nxt s =
    (if \<not> ap_extensionsEnabled s then (s, Responded (WriteHeader 404 new_writer)) else nxt s)"

text \<open>The routes, by method and the segments of the path; what the router package answers to a request without a route
  is the argument \<open>none\<close>.\<close>

definition NewRouter :: "bool \<Rightarrow> response_writer \<Rightarrow> api_env \<Rightarrow> api_request \<Rightarrow> string \<Rightarrow> string list \<Rightarrow> api \<Rightarrow> api \<times> served" where
  "NewRouter initCaching none env q meth path =
    RuntimeReleaseMiddleware q (\<lambda>s.
      if meth = ''GET'' \<and> path = [''ping''] then (s, Goes AtPing)
      else if meth = ''GET'' \<and> path = [''runtime'', ''invocation'', ''next''] then (s, Goes AtInvocationNext)
      else if meth = ''POST'' \<and> length path = 4 \<and> take 2 path = [''runtime'', ''invocation''] \<and> path ! 3 = ''response''
      then AwsRequestIDValidator env (path ! 2) (AtInvocationResponse (path ! 2)) s
      else if meth = ''POST'' \<and> length path = 4 \<and> take 2 path = [''runtime'', ''invocation''] \<and> path ! 3 = ''error''
      then AwsRequestIDValidator env (path ! 2) (AtInvocationError (path ! 2)) s
      else if meth = ''POST'' \<and> path = [''runtime'', ''init'', ''error''] then (s, Goes AtInitError)
      else if initCaching \<and> meth = ''GET'' \<and> path = [''runtime'', ''restore'', ''next''] then (s, Goes AtRestoreNext)
      else if initCaching \<and> meth = ''POST'' \<and> path = [''runtime'', ''restore'', ''error''] then (s, Goes AtRestoreError)
      else (s, Responded none))"

definition ExtensionsRouter :: "response_writer \<Rightarrow> api_env \<Rightarrow> api_request \<Rightarrow> string \<Rightarrow> string list \<Rightarrow> api \<Rightarrow> api \<times> served" where
  "ExtensionsRouter none env q meth path =
    AllowIfExtensionsEnabled (\<lambda>s.
      if meth = ''POST'' \<and> path = [''extension'', ''register''] then (s, Goes AtRegister)
      else if meth = ''GET'' \<and> path = [''extension'', ''event'', ''next'']
      then AgentUniqueIdentifierHeaderValidator env q AtAgentNext s
      else if meth = ''POST'' \<and> path = [''extension'', ''init'', ''error'']
      then AgentUniqueIdentifierHeaderValidator env q AtAgentInitError s
      else if meth = ''POST'' \<and> path = [''extension'', ''exit'', ''error'']
      then AgentUniqueIdentifierHeaderValidator env q AtAgentExitError s
      else (s, Responded none))"

definition LogsAPIRouter :: "string \<Rightarrow> response_writer \<Rightarrow> api_env \<Rightarrow> api_request \<Rightarrow> string \<Rightarrow> string list \<Rightarrow> api \<Rightarrow> api \<times> served" where
  "LogsAPIRouter endpoint none env q meth path =
    AllowIfExtensionsEnabled (\<lambda>s.
      if meth = ''PUT'' \<and> path = [endpoint] then AgentUniqueIdentifierHeaderValidator env q AtTelemetry s else (s, Responded none))"

definition LogsAPIStubRouter :: "string \<Rightarrow> api_point \<Rightarrow> response_writer \<Rightarrow> string \<Rightarrow> string list \<Rightarrow> api \<Rightarrow> api \<times> served" where
  "LogsAPIStubRouter endpoint pt none meth path s = (if meth = ''PUT'' \<and> path = [endpoint] then (s, Goes pt) else (s, Responded none))"

definition CredentialsAPIRouter :: "response_writer \<Rightarrow> string \<Rightarrow> string list \<Rightarrow> api \<Rightarrow> api \<times> served" where
  "CredentialsAPIRouter none meth path s = (if meth = ''GET'' \<and> path = [''credentials''] then (s, Goes AtCredentials) else (s, Responded none))"

text \<open>The server mounts the routers by version.  The metadata service is another package.\<close>

definition serve :: "bool \<Rightarrow> bool \<Rightarrow> response_writer \<Rightarrow> api_env \<Rightarrow> api_request \<Rightarrow> string \<Rightarrow> string list \<Rightarrow> api \<Rightarrow> api \<times> served" where
  "serve initCaching telemetryAPIEnabled none env q meth path s =
    (case path of
       [] \<Rightarrow> (s, Responded none)
     | version # rest \<Rightarrow>
        if version = ''2018-06-01'' then NewRouter initCaching none env q meth rest s
        else if version = ''2020-01-01'' then ExtensionsRouter none env q meth rest s
        else if version = ''2020-08-15''
        then (if telemetryAPIEnabled then LogsAPIRouter ''logs'' none env q meth rest s
              else LogsAPIStubRouter ''logs'' AtLogsStub none meth rest s)
        else if version = ''2022-07-01''
        then (if telemetryAPIEnabled then LogsAPIRouter ''telemetry'' none env q meth rest s
              else LogsAPIStubRouter ''telemetry'' AtTelemetryStub none meth rest s)
        else if initCaching \<and> version = ''2021-04-23'' then CredentialsAPIRouter none meth rest s
        else (s, Responded none))"

end
