(* ===== verification/API_Runs.thy ===== *)
theory API_Runs
  imports Runtime_API Handler_Runs
begin

text \<open>
  Runs of the API server: requests that arrive at any time and whose handlers interleave, at every operation on shared
  state, with each other and with the init, invoke and reset sequences.  Every such run is a run of the core, so
  the invariants of the core hold while requests are served.
\<close>

section \<open>What the steps of a request keep\<close>

text \<open>The pointers a handler holds were handed out by the registration service.\<close>

fun point_ok :: "reg \<Rightarrow> api_point \<Rightarrow> bool" where
  "point_ok g (AtNextCall r) = (r < length (rs_runtimes g))"
| "point_ok g (AtReadySuspended r) = (r < length (rs_runtimes g))"
| "point_ok g (AtRestoreNextCall r) = (r < length (rs_runtimes g))"
| "point_ok g (AtRestoreSuspended r) = (r < length (rs_runtimes g))"
| "point_ok g (AtResponseCall r i) = (r < length (rs_runtimes g))"
| "point_ok g (AtSendInvalidMode r i) = (r < length (rs_runtimes g))"
| "point_ok g (AtSendResponse r i) = (r < length (rs_runtimes g))"
| "point_ok g (AtSendTooLarge r i e) = (r < length (rs_runtimes g))"
| "point_ok g (AtResponseSent r c k) = (r < length (rs_runtimes g))"
| "point_ok g (AtErrorCall r i) = (r < length (rs_runtimes g))"
| "point_ok g (AtSendError r i resp c) = (r < length (rs_runtimes g))"
| "point_ok g (AtInitErrorCall r resp) = (r < length (rs_runtimes g))"
| "point_ok g (AtRestoreErrorCall r u) = (r < length (rs_runtimes g))"
| "point_ok g (AtRegisterExternal a es f) = (a < length (rs_extAgents g))"
| "point_ok g (AtRegisterCreated a es f) = (a < length (rs_intAgents g))"
| "point_ok g (AtExternalReady a u) = (a < length (rs_extAgents g))"
| "point_ok g (AtExternalSuspended a u) = (a < length (rs_extAgents g))"
| "point_ok g (AtExternalInitError a u) = (a < length (rs_extAgents g))"
| "point_ok g (AtExternalExitError a u) = (a < length (rs_extAgents g))"
| "point_ok g (AtInternalReady a u) = (a < length (rs_intAgents g))"
| "point_ok g (AtInternalSuspended a u) = (a < length (rs_intAgents g))"
| "point_ok g (AtInternalInitError a u) = (a < length (rs_intAgents g))"
| "point_ok g (AtInternalExitError a u) = (a < length (rs_intAgents g))"
| "point_ok g pt = True"

text \<open>The step that ends a reply.\<close>

fun ends_reply :: "api_point \<Rightarrow> bool" where
  "ends_reply (AtResponseSent r trace kind) = True"
| "ends_reply pt = False"

definition grows :: "reg \<Rightarrow> reg \<Rightarrow> bool" where
  "grows g g' = (length (rs_runtimes g) \<le> length (rs_runtimes g') \<and> length (rs_extAgents g) \<le> length (rs_extAgents g') \<and>
     length (rs_intAgents g) \<le> length (rs_intAgents g'))"

lemma grows_refl [simp]: "grows g g"
  by (simp add: grows_def)

lemma grows_trans: "grows f g \<Longrightarrow> grows g h \<Longrightarrow> grows f h"
  unfolding grows_def by linarith

lemma point_ok_grows: "point_ok g pt \<Longrightarrow> grows g g' \<Longrightarrow> point_ok g' pt"
  by (cases "(g, pt)" rule: point_ok.cases) (simp_all add: grows_def)

lemma core_exec_grows: "grows g (core_exec k g)"
  by (cases k) (auto simp: grows_def CreateExternalAgent_def CreateInternalAgent_def new_runtime_def PreregisterRuntime_def
      TurnOff_def CancelFlows_def SetFunctionMetadata_def reg_runtime_call_def reg_ext_call_def reg_int_call_def
      core_reset_def reg_Clear_def Let_def split: prod.splits option.splits)

text \<open>What a step may do to the registration service is a relation; the interface asks what every call of a handler keeps of it.
  The call with which a reply ends is the subject of the second interface.\<close>

definition step_ok :: "(reg \<Rightarrow> reg \<Rightarrow> bool) \<Rightarrow> reg \<Rightarrow> api \<times> served \<Rightarrow> bool" where
  "step_ok R g x = (R g (ap_registrationService (fst x)) \<and>
     (\<forall>pt. snd x = Goes pt \<longrightarrow> point_ok (ap_registrationService (fst x)) pt))"

lemma step_ok_plain [simp]:
  "step_ok R g (s, Responded w) \<longleftrightarrow> R g (ap_registrationService s)"
  "step_ok R g (s, Aborted m) \<longleftrightarrow> R g (ap_registrationService s)"
  "step_ok R g (s, Exits) \<longleftrightarrow> R g (ap_registrationService s)"
  "step_ok R g (s, Goes pt) \<longleftrightarrow> R g (ap_registrationService s) \<and> point_ok (ap_registrationService s) pt"
  by (simp_all add: step_ok_def)

lemma refusals_ok [simp]:
  "step_ok R g (runtime_refused env r target e s) \<longleftrightarrow> R g (ap_registrationService s)"
  "step_ok R g (forbidden env t m s) \<longleftrightarrow> R g (ap_registrationService s)"
  "step_ok R g (ext_refused env a u target e s) \<longleftrightarrow> R g (ap_registrationService s)"
  "step_ok R g (int_refused env a u target e s) \<longleftrightarrow> R g (ap_registrationService s)"
  "step_ok R g (interop_failed env e s) \<longleftrightarrow> R g (ap_registrationService s)"
  by (simp_all add: runtime_refused_def forbidden_def ext_refused_def int_refused_def interop_failed_def
      split: outcome.splits)

lemma frames [simp]:
  "ap_registrationService (store_trace c s) = ap_registrationService s"
  "ap_registrationService (hand_over sv m s) = ap_registrationService s"
  "ap_registrationService (RecordCounterMetric n s) = ap_registrationService s"
  "ap_registrationService (fold RecordCounterMetric ns s) = ap_registrationService s"
  by (simp_all add: store_trace_def hand_over_def RecordCounterMetric_def)
    (induction ns arbitrary: s; simp add: RecordCounterMetric_def)

lemma call_lengths:
  "length (rs_runtimes (fst (reg_runtime_call p now now' r g))) = length (rs_runtimes g)"
  "length (rs_extAgents (fst (reg_ext_call q now now' a g))) = length (rs_extAgents g)"
  "length (rs_intAgents (fst (reg_int_call o' now now' a g))) = length (rs_intAgents g)"
  by (simp_all add: reg_runtime_call_def reg_ext_call_def reg_int_call_def split: prod.split)

lemma lookups_ok:
  assumes "reg_ok g"
  shows "GetRuntime g = Some r \<Longrightarrow> r < length (rs_runtimes g)"
    "FindExternalAgentByName n g = Some a \<Longrightarrow> a < length (rs_extAgents g)"
    "FindExternalAgentByID u g = Some a \<Longrightarrow> a < length (rs_extAgents g)"
    "FindInternalAgentByID u g = Some b \<Longrightarrow> b < length (rs_intAgents g)"
  using assms eam.lookup_name_object [of "rs_extAgents g" "rs_externalAgents g" n a]
    eam.lookup_id_object [of "rs_extAgents g" "rs_externalAgents g" u a]
    iam.lookup_id_object [of "rs_intAgents g" "rs_internalAgents g" u b]
  by (auto simp: reg_ok_def GetRuntime_def FindExternalAgentByName_def FindExternalAgentByID_def FindInternalAgentByID_def
      ExternalAgentsMap_FindByName_def ExternalAgentsMap_FindByID_def InternalAgentsMap_FindByID_def)

lemma CreateInternalAgent_ref:
  "CreateInternalAgent n i now g = (g', Inr a) \<Longrightarrow> a < length (rs_intAgents g')"
  by (auto simp: CreateInternalAgent_def Let_def split: if_splits prod.splits option.splits)

locale registry_relation =
  fixes R :: "reg \<Rightarrow> reg \<Rightarrow> bool"
  assumes R_refl: "R g g"
    and R_runtime: "r < length (rs_runtimes g) \<Longrightarrow> p \<noteq> RResponseSent \<Longrightarrow> R g (fst (reg_runtime_call p now now' r g))"
    and R_ext: "a < length (rs_extAgents g) \<Longrightarrow> R g (fst (reg_ext_call q now now' a g))"
    and R_int: "a < length (rs_intAgents g) \<Longrightarrow> R g (fst (reg_int_call o' now now' a g))"
    and R_create: "R g (fst (CreateInternalAgent n u now g))"
begin

declare R_refl [simp]

lemma with_runtime_ok:
  assumes "reg_ok (ap_registrationService s)"
    "\<And>r. r < length (rs_runtimes (ap_registrationService s)) \<Longrightarrow> point_ok (ap_registrationService s) (pt r)"
  shows "step_ok R (ap_registrationService s) (with_runtime s pt)"
  using assms lookups_ok(1) [OF assms(1)] by (auto simp: with_runtime_def split: option.splits)

lemma with_server_ok:
  "step_ok R (ap_registrationService s) k \<Longrightarrow> step_ok R (ap_registrationService s) (with_server found s k)"
  by (auto simp: with_server_def split: option.splits)

lemma with_agent_ok:
  assumes "reg_ok (ap_registrationService s)"
    "\<And>a u. a < length (rs_extAgents (ap_registrationService s)) \<Longrightarrow> point_ok (ap_registrationService s) (x a u)"
    "\<And>a u. a < length (rs_intAgents (ap_registrationService s)) \<Longrightarrow> point_ok (ap_registrationService s) (y a u)"
  shows "step_ok R (ap_registrationService s) (with_agent env u x y m s)"
  using assms lookups_ok(3,4) [OF assms(1)] by (auto simp: with_agent_def split: option.splits)

lemma runtime_call_ok:
  assumes "r < length (rs_runtimes (ap_registrationService s))" "runtime_call p env r s = (s', c)"
  shows "p \<noteq> RResponseSent \<Longrightarrow> R (ap_registrationService s) (ap_registrationService s')"
    "r < length (rs_runtimes (ap_registrationService s'))"
  using assms R_runtime [OF assms(1), of p "av_now env" "av_now' env"] call_lengths(1) [of p "av_now env" "av_now' env" r "ap_registrationService s"]
  by (auto simp: runtime_call_def split: prod.splits)

lemma ext_call_ok:
  assumes "a < length (rs_extAgents (ap_registrationService s))" "ext_call p env a s = (s', c)"
  shows "R (ap_registrationService s) (ap_registrationService s')" "a < length (rs_extAgents (ap_registrationService s'))"
  using assms R_ext [OF assms(1), of p "av_now env" "av_now' env"] call_lengths(2) [of p "av_now env" "av_now' env" a "ap_registrationService s"]
  by (auto simp: ext_call_def split: prod.splits)

lemma int_call_ok:
  assumes "a < length (rs_intAgents (ap_registrationService s))" "int_call p env a s = (s', c)"
  shows "R (ap_registrationService s) (ap_registrationService s')" "a < length (rs_intAgents (ap_registrationService s'))"
  using assms R_int [OF assms(1), of p "av_now env" "av_now' env"] call_lengths(3) [of p "av_now env" "av_now' env" a "ap_registrationService s"]
  by (auto simp: int_call_def split: prod.splits)

lemma next_event_ok:
  assumes "R g (ap_registrationService (fst x))" "point_ok (ap_registrationService (fst x)) pt"
  shows "step_ok R g (next_event env r pt x)"
  using assms by (auto simp: next_event_def split: prod.splits call_result.splits option.splits outcome.splits)

lemma runtime_points_ok:
  assumes "r < length (rs_runtimes (ap_registrationService s))"
  shows "p \<noteq> RResponseSent \<Longrightarrow> step_ok R (ap_registrationService s) (next_event env r (AtReadySuspended r) (runtime_call p env r s))"
    "p \<noteq> RResponseSent \<Longrightarrow> step_ok R (ap_registrationService s) (next_event env r (AtRestoreSuspended r) (runtime_call p env r s))"
    "step_ok R (ap_registrationService s) (response_call env q r i s)"
    "step_ok R (ap_registrationService s) (error_call env q r i s)"
    "step_ok R (ap_registrationService s) (init_error env r resp s)"
    "step_ok R (ap_registrationService s) (restore_error env u r s)"
proof -
  show "step_ok R (ap_registrationService s) (next_event env r (AtReadySuspended r) (runtime_call p env r s))"
    "step_ok R (ap_registrationService s) (next_event env r (AtRestoreSuspended r) (runtime_call p env r s))" if "p \<noteq> RResponseSent"
    using runtime_call_ok [OF assms, of p env] that by (cases "runtime_call p env r s"; simp add: next_event_ok)+
  show "step_ok R (ap_registrationService s) (response_call env q r i s)"
    using runtime_call_ok [OF assms, of RInvocationResponse env]
    by (auto simp: response_call_def Let_def split: prod.splits call_result.splits option.splits)
  show "step_ok R (ap_registrationService s) (error_call env q r i s)"
    using runtime_call_ok [OF assms, of RInvocationErrorResponse env]
    by (auto simp: error_call_def split: prod.splits call_result.splits option.splits)
  show "step_ok R (ap_registrationService s) (init_error env r resp s)"
    using runtime_call_ok [OF assms, of RInitError env]
    by (auto simp: init_error_def split: prod.splits call_result.splits option.splits)
  show "step_ok R (ap_registrationService s) (restore_error env u r s)"
    using runtime_call_ok [OF assms, of "RRestoreError u" env]
    by (auto simp: restore_error_def split: prod.splits call_result.splits option.splits)
qed

lemma send_points_ok:
  assumes "r < length (rs_runtimes (ap_registrationService s))"
  shows "step_ok R (ap_registrationService s) (send_invalid_mode env q i s)"
    "step_ok R (ap_registrationService s) (send_response env q r i s)"
    "step_ok R (ap_registrationService s) (send_too_large env r i e s)"
    "step_ok R (ap_registrationService s) (send_error env r i resp c s)"
proof -
  show "step_ok R (ap_registrationService s) (send_invalid_mode env q i s)"
    by (simp add: send_invalid_mode_def split: prod.splits)
  show "step_ok R (ap_registrationService s) (send_response env q r i s)"
    using assms by (simp add: send_response_def Let_def split: prod.splits option.splits go_error.splits)
  show "step_ok R (ap_registrationService s) (send_too_large env r i e s)"
    using assms by (simp add: send_too_large_def split: prod.splits option.splits)
  show "step_ok R (ap_registrationService s) (send_error env r i resp c s)"
    using assms by (simp add: send_error_def split: prod.splits option.splits)
qed

lemma agent_points_ok:
  "a < length (rs_extAgents (ap_registrationService s)) \<Longrightarrow>
    step_ok R (ap_registrationService s) (ext_next env a u (ext_call p env a s)) \<and>
    step_ok R (ap_registrationService s) (ext_error env p a u target fatal s) \<and>
    step_ok R (ap_registrationService s) (registerExternalAgent env a es acc s)"
  "a < length (rs_intAgents (ap_registrationService s)) \<Longrightarrow>
    step_ok R (ap_registrationService s) (int_next env a u (int_call p' env a s)) \<and>
    step_ok R (ap_registrationService s) (int_error env p' a u target fatal s) \<and>
    step_ok R (ap_registrationService s) (register_created env a es acc s)"
proof -
  assume a: "a < length (rs_extAgents (ap_registrationService s))"
  show "step_ok R (ap_registrationService s) (ext_next env a u (ext_call p env a s)) \<and>
    step_ok R (ap_registrationService s) (ext_error env p a u target fatal s) \<and>
    step_ok R (ap_registrationService s) (registerExternalAgent env a es acc s)"
    using ext_call_ok [OF a, of p env] ext_call_ok [OF a, of "EARegister es" env]
    by (auto simp: ext_next_def ext_error_def registerExternalAgent_def Let_def
        split: prod.splits call_result.splits option.splits)
next
  assume a: "a < length (rs_intAgents (ap_registrationService s))"
  show "step_ok R (ap_registrationService s) (int_next env a u (int_call p' env a s)) \<and>
    step_ok R (ap_registrationService s) (int_error env p' a u target fatal s) \<and>
    step_ok R (ap_registrationService s) (register_created env a es acc s)"
    using int_call_ok [OF a, of p' env] int_call_ok [OF a, of "IARegister es" env]
    by (auto simp: int_next_def int_error_def register_created_def Let_def
        split: prod.splits call_result.splits option.splits)
qed

lemma registerInternalAgent_ok: "step_ok R (ap_registrationService s) (registerInternalAgent env n es acc s)"
  using R_create [of "ap_registrationService s" n "av_newUUID env" "av_now env"]
    CreateInternalAgent_ref [of n "av_newUUID env" "av_now env" "ap_registrationService s"]
  by (auto simp: registerInternalAgent_def Let_def split: option.splits prod.splits sum.splits go_error.splits)

lemma other_points_ok:
  assumes "reg_ok (ap_registrationService s)"
  shows "step_ok R (ap_registrationService s) (send_init_error env resp s)"
    "step_ok R (ap_registrationService s) (agentRegister_ServeHTTP env q s)"
    "step_ok R (ap_registrationService s) (render_agent_event env s)"
    "step_ok R (ap_registrationService s) (store_first_fatal env e s)"
    "step_ok R (ap_registrationService s) (runtimeLogs_ServeHTTP env q u s)"
    "step_ok R (ap_registrationService s) (credentials_ServeHTTP env q s)"
    "step_ok R (ap_registrationService s) (ping_ServeHTTP env s)"
  using lookups_ok(2) [OF assms]
  by (auto simp: send_init_error_def agentRegister_ServeHTTP_def render_agent_event_def store_first_fatal_def
      runtimeLogs_ServeHTTP_def credentials_ServeHTTP_def ping_ServeHTTP_def Let_def
      split: prod.splits option.splits sum.splits)

lemma other_steps_ok:
  assumes "reg_ok (ap_registrationService s)" "point_ok (ap_registrationService s) pt" "\<not> ends_reply pt"
  shows "step_ok R (ap_registrationService s) (api_continue env q pt s)"
  using assms
  by (cases pt) (simp_all add: runtime_points_ok send_points_ok agent_points_ok registerInternalAgent_ok other_points_ok
      invocationNext_ServeHTTP_def restoreNext_ServeHTTP_def invocationResponse_ServeHTTP_def invocationError_ServeHTTP_def
      initError_ServeHTTP_def restoreError_ServeHTTP_def agentNext_ServeHTTP_def agentInitError_ServeHTTP_def
      agentExitError_ServeHTTP_def agent_error_def with_runtime_ok with_server_ok with_agent_ok
      runtimeLogsStub_ServeHTTP_def runtimeTelemetryStub_ServeHTTP_def Let_def)

end

locale registry_relation_all = registry_relation +
  assumes R_response: "r < length (rs_runtimes g) \<Longrightarrow> R g (fst (reg_runtime_call RResponseSent now now' r g))"
begin

lemma response_sent_ok:
  assumes "r < length (rs_runtimes (ap_registrationService s))"
  shows "step_ok R (ap_registrationService s) (response_sent env r c k s)"
proof -
  define s0 where "s0 = (case c of None \<Rightarrow> s | Some cause \<Rightarrow> store_trace cause s)"
  have same: "ap_registrationService s0 = ap_registrationService s" by (simp add: s0_def split: option.splits)
  obtain s' x where x: "runtime_call RResponseSent env r s0 = (s', x)" by (cases "runtime_call RResponseSent env r s0")
  have "response_sent env r c k s = (case (s', x) of (s, Returned (Some e)) \<Rightarrow> (s, Aborted (api_error_text e))
     | (s, _) \<Rightarrow> (s, Responded (case k of SentAccepted \<Rightarrow> RenderAccepted (av_render env) new_writer
             | SentTooLarge \<Rightarrow> RenderRequestEntityTooLarge (av_render env) new_writer
             | SentTruncated \<Rightarrow> RenderTruncatedHTTPRequestError (av_render env) new_writer)))"
    unfolding response_sent_def s0_def [symmetric] x ..
  then show "step_ok R (ap_registrationService s) (response_sent env r c k s)"
    using R_response [of r "ap_registrationService s0" "av_now env" "av_now' env"] x assms same
    by (auto simp: runtime_call_def split: prod.splits call_result.splits option.splits)
qed


lemma api_continue_ok:
  assumes "reg_ok (ap_registrationService s)" "point_ok (ap_registrationService s) pt"
  shows "step_ok R (ap_registrationService s) (api_continue env q pt s)"
proof (cases "ends_reply pt")
  case True
  then show ?thesis using assms(2) response_sent_ok by (cases pt) simp_all
next
  case False
  then show ?thesis using assms other_steps_ok by simp
qed

end

section \<open>Every step is at most one operation of the core\<close>

definition one_party_op :: "reg \<Rightarrow> reg \<Rightarrow> bool" where
  "one_party_op g g' = (g' = g \<or> (\<exists>k. party_op k \<and> core_enabled k g \<and> g' = core_exec k g))"

lemma one_party_op_grows: "one_party_op g g' \<Longrightarrow> grows g g'"
  using core_exec_grows by (auto simp: one_party_op_def)

lemma one_party_opI: "party_op k \<Longrightarrow> core_enabled k g \<Longrightarrow> one_party_op g (core_exec k g)"
  by (auto simp: one_party_op_def)

lemma one_party_op_calls:
  "r < length (rs_runtimes g) \<Longrightarrow> one_party_op g (fst (reg_runtime_call p now now' r g))"
  "a < length (rs_extAgents g) \<Longrightarrow> one_party_op g (fst (reg_ext_call q now now' a g))"
  "a < length (rs_intAgents g) \<Longrightarrow> one_party_op g (fst (reg_int_call o' now now' a g))"
  "one_party_op g (fst (CreateInternalAgent n i now g))"
  using one_party_opI [of "KRuntime p now now' r" g] one_party_opI [of "KExt q now now' a" g]
    one_party_opI [of "KInt o' now now' a" g] one_party_opI [of "KCreateInt n i now" g]
  by simp_all

interpretation party: registry_relation_all one_party_op
  by unfold_locales (simp_all add: one_party_op_calls, simp add: one_party_op_def)

text \<open>Routing and middleware leave everything but the application context alone and hand over to a handler that holds no
  pointer yet.\<close>

definition routed :: "api \<Rightarrow> api \<times> served \<Rightarrow> bool" where
  "routed s x = (ap_registrationService (fst x) = ap_registrationService s \<and> ap_server (fst x) = ap_server s \<and>
     ap_renderingService (fst x) = ap_renderingService s \<and> (\<forall>pt g. snd x = Goes pt \<longrightarrow> point_ok g pt))"

lemma routed_plain [simp]:
  "routed s (s, Responded w)" "routed s (s, Aborted m)" "routed s (s, Goes pt) \<longleftrightarrow> (\<forall>g. point_ok g pt)"
  by (simp_all add: routed_def)

lemma routed_middleware:
  "(\<forall>g. point_ok g pt) \<Longrightarrow> routed s (AwsRequestIDValidator env i pt s)"
  "(\<And>u g. point_ok g (nxt u)) \<Longrightarrow> routed s (AgentUniqueIdentifierHeaderValidator env q nxt s)"
  "routed s (h s) \<Longrightarrow> routed s (AllowIfExtensionsEnabled h s)"
  by (simp_all add: AwsRequestIDValidator_def AgentUniqueIdentifierHeaderValidator_def AllowIfExtensionsEnabled_def with_server_def
      forbidden_def Let_def split: option.splits)

lemma routed_release: "(\<And>c. routed (s\<lparr>ap_appCtx := c\<rparr>) (h (s\<lparr>ap_appCtx := c\<rparr>))) \<Longrightarrow> routed s (RuntimeReleaseMiddleware q h s)"
  by (simp add: RuntimeReleaseMiddleware_def routed_def split: option.splits prod.splits)

lemma routed_routers:
  "routed s (NewRouter initCaching none env q meth path s)"
  "routed s (ExtensionsRouter none env q meth path s)"
  "routed s (LogsAPIRouter endpoint none env q meth path s)"
  "routed s (CredentialsAPIRouter none meth path s)"
  "routed s (LogsAPIStubRouter endpoint AtLogsStub none meth path s)"
  "routed s (LogsAPIStubRouter endpoint AtTelemetryStub none meth path s)"
  unfolding NewRouter_def ExtensionsRouter_def LogsAPIRouter_def CredentialsAPIRouter_def LogsAPIStubRouter_def
  by (rule routed_release | rule routed_middleware(3) | simp add: routed_middleware)+

lemma serve_ok: "routed s (serve initCaching telemetryAPIEnabled none env q meth path s)"
  by (simp add: serve_def routed_routers split: list.split)

section \<open>Runs\<close>

text \<open>The live requests are a list of handlers at their points.  Other goroutines may perform any operation of the core
  and change everything but the registration service at will.\<close>

fun next_point :: "api_request \<Rightarrow> served \<Rightarrow> (api_request \<times> api_point) list" where
  "next_point q (Goes pt) = [(q, pt)]"
| "next_point q res = []"

inductive api_reach :: "api \<Rightarrow> (api_request \<times> api_point) list \<Rightarrow> bool" where
  start: "ap_registrationService s = NewRegistrationService new_flows \<Longrightarrow> api_reach s []"
| arrive: "api_reach s ts \<Longrightarrow> serve initCaching telemetryAPIEnabled none env q meth path s = (s', res)
    \<Longrightarrow> api_reach s' (next_point q res @ ts)"
| step: "api_reach s (us @ (q, pt) # vs) \<Longrightarrow> api_continue env q pt s = (s', res)
    \<Longrightarrow> api_reach s' (us @ next_point q res @ vs)"
| core: "api_reach s ts \<Longrightarrow> core_enabled k (ap_registrationService s)
    \<Longrightarrow> api_reach (s\<lparr>ap_registrationService := core_exec k (ap_registrationService s)\<rparr>) ts"
| other: "api_reach s ts \<Longrightarrow> ap_registrationService s' = ap_registrationService s \<Longrightarrow> api_reach s' ts"

definition points_ok :: "reg \<Rightarrow> (api_request \<times> api_point) list \<Rightarrow> bool" where
  "points_ok g ts = list_all (\<lambda>(q, pt). point_ok g pt) ts"

lemma points_ok_grows: "points_ok g ts \<Longrightarrow> grows g g' \<Longrightarrow> points_ok g' ts"
  using point_ok_grows by (auto simp: points_ok_def list_all_iff)

lemma points_ok_append [simp]: "points_ok g (us @ vs) \<longleftrightarrow> points_ok g us \<and> points_ok g vs"
  by (simp add: points_ok_def)

lemma points_ok_next: "points_ok g (next_point q res) \<longleftrightarrow> (\<forall>pt. res = Goes pt \<longrightarrow> point_ok g pt)"
  by (cases res) (simp_all add: points_ok_def)

lemma core_reach_party: "core_reach g \<Longrightarrow> one_party_op g g' \<Longrightarrow> core_reach g'"
  by (auto simp: one_party_op_def intro: core_reach.step)


end
