(* ===== verification/API_Replies.thy ===== *)
theory API_Replies
  imports API_Runs
begin

text \<open>
  What the API promises its clients: which replies are accepted and what an accepted reply leaves behind, which requests
  are refused without any effect, and what a registration returns.
\<close>

section \<open>Statuses\<close>

lemma render_or_fail_status:
  assumes "render_ok env" "rw_status w = None"
  shows "rw_status (render_or_fail env st d w) = Some st"
proof -
  obtain bs where "rn_encode env d = Inr bs" using assms(1) unfolding render_ok_def by blast
  then show ?thesis using assms
    by (simp add: render_or_fail_def RenderJSON_def http_Write_def render_ok_def body_write_def WriteHeader_def header_set_def)
qed

lemma status_simps [simp]:
  "render_ok env \<Longrightarrow> rw_status (RenderAccepted env new_writer) = Some 202"
  "render_ok env \<Longrightarrow> rw_status (RenderForbiddenWithTypeMsg env t m new_writer) = Some 403"
  "render_ok env \<Longrightarrow> rw_status (RenderInvalidRequestID env new_writer) = Some 400"
  "render_ok env \<Longrightarrow> rw_status (RenderInvalidFunctionResponseMode env new_writer) = Some 400"
  "render_ok env \<Longrightarrow> rw_status (RenderRequestEntityTooLarge env new_writer) = Some 413"
  "render_ok env \<Longrightarrow> rw_status (RenderTruncatedHTTPRequestError env new_writer) = Some 400"
  "render_ok env \<Longrightarrow> rw_status (RenderInternalServerError env new_writer) = Some 500"
  by (simp_all add: RenderAccepted_def RenderForbiddenWithTypeMsg_def RenderInvalidRequestID_def
      RenderInvalidFunctionResponseMode_def RenderRequestEntityTooLarge_def RenderTruncatedHTTPRequestError_def
      RenderInternalServerError_def render_or_fail_status)

section \<open>A reply that is accepted\<close>

text \<open>A request served without interference, for at most \<open>n\<close> steps.\<close>

fun run_request :: "nat \<Rightarrow> api_env \<Rightarrow> api_request \<Rightarrow> api \<times> served \<Rightarrow> api \<times> served" where
  "run_request (Suc n) env q (s, Goes pt) = run_request n env q (api_continue env q pt s)"
| "run_request n env q x = x"

lemma run_request_simps [simp]:
  "run_request n env q (s, Responded w) = (s, Responded w)"
  "run_request (numeral v) env q (s, Goes pt) = run_request (pred_numeral v) env q (api_continue env q pt s)"
  by (cases n; simp) (simp add: numeral_eq_Suc)

abbreviation runtime_at :: "ref \<Rightarrow> api \<Rightarrow> Runtime" where
  "runtime_at r s \<equiv> rs_runtimes (ap_registrationService s) ! r"

abbreviation flow_at :: "api \<Rightarrow> invoke_flow" where
  "flow_at s \<equiv> invokeFlow (rs_flows (ap_registrationService s))"

lemma response_call_running:
  assumes "r < length (rs_runtimes (ap_registrationService s))" "currentState (runtime_at r s) = RuntimeRunningState"
    "request_Get q FunctionResponseModeHeader \<in> {[], StreamingFunctionResponseMode}"
  shows "\<exists>s'. response_call env q r i s = (s', Goes (AtSendResponse r i)) \<and> ap_server s' = ap_server s \<and>
    flow_at s' = flow_at s \<and> ap_sendResponseChan s' = ap_sendResponseChan s \<and>
    r < length (rs_runtimes (ap_registrationService s')) \<and> currentState (runtime_at r s') = RuntimeInvocationResponseState"
  using assms
  by (auto simp: response_call_def runtime_call_def reg_runtime_call_def Runtime_InvocationResponse_def
      RuntimeRunningState_InvocationResponse_def setStateUnsafe_def Let_def)

lemma send_response_accepted:
  assumes "sv_invokeCtx (ap_server s) = Some c" "tk_InvokeID (ic_Token c) = i" "\<not> ReplySent c" "ReplyStream c = Some k" "\<not> Direct c"
    "k < length (sv_streams (ap_server s))" "rd_err (rq_Body q) = None" "int (length (rd_data (rq_Body q))) \<le> MaxPayloadSize"
    "se_wfail (av_send env) = None"
  shows "\<exists>s'. send_response env q r i s = (s', Goes (AtResponseSent r None SentAccepted)) \<and>
    ap_registrationService s' = ap_registrationService s \<and>
    sv_invokeCtx (ap_server s') = Some (c\<lparr>ReplySent := True, Direct := False\<rparr>) \<and>
    rw_body (sv_streams (ap_server s') ! k) = rw_body (sv_streams (ap_server s) ! k) @ rd_data (rq_Body q) \<and>
    ap_sendResponseChan s' = ap_sendResponseChan s @ [buffered_metrics (length (rd_data (rq_Body q))) True (av_send env)]"
proof -
  obtain sv e m where sv: "sendResponseUnsafe i (response_headers q) (rq_Body q) (rq_Trailer q) True (av_send env)
      (setRuntimeState runtimeInvokeResponseSent (ap_server s)) = (sv, e, m)" by (metis prod_cases3)
  have "e = None" "sv_invokeCtx sv = Some (c\<lparr>ReplySent := True, Direct := False\<rparr>)"
    "rw_body (sv_streams sv ! k) = rw_body (sv_streams (ap_server s) ! k) @ rd_data (rq_Body q)"
    "m = Some (buffered_metrics (length (rd_data (rq_Body q))) True (av_send env))"
    using buffered_reply_checked [OF sv] assms by (simp_all add: setRuntimeState_def)
  then show ?thesis by (simp add: send_response_def SendResponse_def sv Let_def hand_over_def)
qed

lemma response_sent_accepted:
  assumes "r < length (rs_runtimes (ap_registrationService s))" "currentState (runtime_at r s) = RuntimeInvocationResponseState"
    "snd (RuntimeResponse (flow_at s)) = None" "render_ok (av_render env)"
  shows "\<exists>s' w. response_sent env r None SentAccepted s = (s', Responded w) \<and> rw_status w = Some 202 \<and>
    ap_server s' = ap_server s \<and> ap_sendResponseChan s' = ap_sendResponseChan s \<and>
    flow_at s' = fst (RuntimeResponse (flow_at s)) \<and> currentState (runtime_at r s') = RuntimeResponseSentState"
  using assms
  by (cases "RuntimeResponse (flow_at s)")
    (auto simp: response_sent_def runtime_call_def reg_runtime_call_def Runtime_ResponseSent_def
      RuntimeInvocationResponseState_ResponseSent_def setStateUnsafe_def)


definition sample_api_env :: api_env where
  "sample_api_env = \<lparr>av_now = 10, av_now' = 11, av_took = 1, av_render = sample_render, av_send = sample_send_env, av_newUUID = ''new'',
     av_parseUUID = Some, av_json = \<lparr>jc_request = (\<lambda>s. None), jc_response = (\<lambda>m t st. Some m), jc_cause = (\<lambda>s. None),
     jc_cause_out = (\<lambda>c. None)\<rparr>, av_jsonValid = (\<lambda>s. True), av_marshal = (\<lambda>e. Some []),
     av_registerBody = (\<lambda>s. Inr ([InvokeEvent], [])), av_credentialsJSON = AwsKey, av_subscribe = (\<lambda>n b. Inl ErrTelemetryServiceOff),
     av_closedErrorType = [], av_closedErrorMessage = []\<rparr>"

definition sample_api_request :: api_request where
  "sample_api_request = \<lparr>rq_header = (\<lambda>k. []), rq_Body = \<lparr>rd_data = [111, 107], rd_err = None\<rparr>, rq_Trailer = (\<lambda>k. []), rq_tid = 1\<rparr>"

definition running_reg :: reg where
  "running_reg = foldl (\<lambda>g k. core_exec k g) (NewRegistrationService new_flows)
     [KNewRuntime 1, KPreregister 0, KRuntime (RReady 7) 2 3 0, KRuntime (RRelease 0) 4 4 0, KRuntime (RResume 7) 5 5 0]"

definition sample_api :: "reg \<Rightarrow> api" where
  "sample_api g = \<lparr>ap_registrationService = g,
     ap_appCtx = StoreResponseSender (StoreInteropServer NewApplicationContext 0) 0, ap_server = sample_server,
     ap_renderingService = Some RsRestore, ap_traces = [], ap_sendResponseChan = [], ap_credentialsService = NewCredentialsService,
     ap_extensionsEnabled = True, ap_metrics = []\<rparr>"

lemma running_reg_reach: "core_reach running_reg"
  unfolding running_reg_def foldl.simps by (intro core_reach.step core_reach.start) code_simp+

lemma running_reg_state:
  "rs_runtime running_reg = Some 0" "length (rs_runtimes running_reg) = 1"
  "currentState (rs_runtimes running_reg ! 0) = RuntimeRunningState"
  "snd (RuntimeResponse (invokeFlow (rs_flows running_reg))) = None"
  by code_simp+

lemma sample_api_servers [simp]:
  "LoadResponseSender (ap_appCtx (sample_api g)) = Some (Some 0)" "LoadInteropServer (ap_appCtx (sample_api g)) = Some (Some 0)"
  by (simp_all add: sample_api_def LoadResponseSender_def LoadInteropServer_def StoreResponseSender_def StoreInteropServer_def ctx_defs)

lemma sample_api_simps [simp]: "ap_registrationService (sample_api g) = g" "ap_server (sample_api g) = sample_server"
  by (simp_all add: sample_api_def)

lemma sample_requests [simp]:
  "request_Get sample_api_request k = []" "rq_Body sample_api_request = \<lparr>rd_data = [111, 107], rd_err = None\<rparr>"
  "av_render sample_api_env = sample_render" "av_send sample_api_env = sample_send_env" "se_wfail sample_send_env = None"
  by (simp_all add: sample_api_request_def request_Get_def sample_api_env_def sample_send_env_def)


section \<open>Replies and their requests\<close>

lemma sendResponseUnsafe_accepted:
  assumes "sendResponseUnsafe i h p t called env s = (s', None, m)"
  shows "\<exists>c. sv_invokeCtx s = Some c \<and> tk_InvokeID (ic_Token c) = i \<and> \<not> ReplySent c \<and>
    sv_invokeCtx s' = Some (c\<lparr>ReplySent := True, Direct := False\<rparr>)"
  using assms by (auto simp: sendResponseUnsafe_def Let_def split: option.splits if_splits prod.splits)

definition no_ack :: "api \<times> served \<Rightarrow> bool" where
  "no_ack x = (\<forall>r trace kind. snd x \<noteq> Goes (AtResponseSent r trace kind))"

lemma no_ack_plain [simp]:
  "no_ack (s, Responded w)" "no_ack (s, Aborted m)" "no_ack (s, Exits)"
  "no_ack (s, Goes pt) \<longleftrightarrow> (\<forall>r trace kind. pt \<noteq> AtResponseSent r trace kind)"
  by (simp_all add: no_ack_def)

lemma no_ack_refused [simp]:
  "no_ack (runtime_refused env r target e s)" "no_ack (forbidden env t m s)" "no_ack (ext_refused env a u target e s)"
  "no_ack (int_refused env a u target e s)" "no_ack (interop_failed env e s)"
  by (simp_all add: runtime_refused_def forbidden_def ext_refused_def int_refused_def interop_failed_def split: outcome.splits)

lemma no_ack_lookups [simp]:
  "(\<And>r. no_ack (s, Goes (pt r))) \<Longrightarrow> no_ack (with_runtime s pt)" "no_ack k \<Longrightarrow> no_ack (with_server found s k)"
  "(\<And>a u. no_ack (s, Goes (x a u))) \<Longrightarrow> (\<And>a u. no_ack (s, Goes (y a u))) \<Longrightarrow> no_ack (with_agent env u x y m s)"
  by (simp_all add: with_runtime_def with_server_def with_agent_def split: option.splits)

lemma no_ack_calls [simp]:
  "(\<And>r trace kind. pt \<noteq> AtResponseSent r trace kind) \<Longrightarrow> no_ack (next_event env r pt x)"
  "no_ack (response_call env q r i s)" "no_ack (error_call env q r i s)" "no_ack (init_error env r resp s)"
  "no_ack (restore_error env f r s)" "no_ack (response_sent env r trace kind s)"
  by (simp_all add: next_event_def response_call_def error_call_def init_error_def restore_error_def response_sent_def Let_def
      split: prod.splits call_result.splits option.splits outcome.splits)

lemma no_ack_agents [simp]:
  "no_ack (ext_next env a u y)" "no_ack (int_next env a u y)" "no_ack (ext_error env p a u target fatal s)"
  "no_ack (int_error env p' a u target fatal s)" "no_ack (registerExternalAgent env a es acc s)"
  "no_ack (register_created env a es acc s)" "no_ack (registerInternalAgent env n es acc s)"
  by (simp_all add: ext_next_def int_next_def ext_error_def int_error_def registerExternalAgent_def register_created_def
      registerInternalAgent_def Let_def split: prod.splits call_result.splits option.splits sum.splits go_error.splits)

lemma no_ack_others [simp]:
  "no_ack (send_init_error env resp s)" "no_ack (agentRegister_ServeHTTP env q s)" "no_ack (render_agent_event env s)"
  "no_ack (store_first_fatal env e s)" "no_ack (runtimeLogs_ServeHTTP env q u s)" "no_ack (credentials_ServeHTTP env q s)"
  "no_ack (ping_ServeHTTP env s)" "no_ack (send_invalid_mode env q i s)"
  by (simp_all add: send_init_error_def agentRegister_ServeHTTP_def render_agent_event_def store_first_fatal_def
      runtimeLogs_ServeHTTP_def credentials_ServeHTTP_def ping_ServeHTTP_def send_invalid_mode_def Let_def
      split: prod.splits option.splits sum.splits)

text \<open>Only the steps that send a reply lead to the point from which the runtime moves on.\<close>

fun sends_reply :: "api_point \<Rightarrow> bool" where
  "sends_reply (AtSendResponse r i) = True"
| "sends_reply (AtSendTooLarge r i e) = True"
| "sends_reply (AtSendError r i resp cause) = True"
| "sends_reply pt = False"

lemma no_ack_other_points: "\<not> sends_reply pt \<Longrightarrow> no_ack (api_continue env q pt s)"
  by (cases pt) (simp_all add: invocationNext_ServeHTTP_def restoreNext_ServeHTTP_def invocationResponse_ServeHTTP_def
      invocationError_ServeHTTP_def initError_ServeHTTP_def restoreError_ServeHTTP_def agentNext_ServeHTTP_def
      agentInitError_ServeHTTP_def agentExitError_ServeHTTP_def agent_error_def runtimeLogsStub_ServeHTTP_def
      runtimeTelemetryStub_ServeHTTP_def Let_def)

lemma send_steps_accepted:
  "send_response env q r' i s = (s', Goes (AtResponseSent r trace SentAccepted)) \<Longrightarrow> r' = r \<and>
    (\<exists>c. sv_invokeCtx (ap_server s) = Some c \<and> tk_InvokeID (ic_Token c) = i \<and> \<not> ReplySent c \<and>
      sv_invokeCtx (ap_server s') = Some (c\<lparr>ReplySent := True, Direct := False\<rparr>))"
  "send_error env r' i resp cause s = (s', Goes (AtResponseSent r trace SentAccepted)) \<Longrightarrow> r' = r \<and>
    (\<exists>c. sv_invokeCtx (ap_server s) = Some c \<and> tk_InvokeID (ic_Token c) = i \<and> \<not> ReplySent c \<and>
      sv_invokeCtx (ap_server s') = Some (c\<lparr>ReplySent := True, Direct := False\<rparr>))"
  "send_too_large env r' i e s \<noteq> (s', Goes (AtResponseSent r trace SentAccepted))"
  by (auto simp: send_response_def send_error_def send_too_large_def SendResponse_def SendErrorResponse_def interop_failed_def
      hand_over_def setRuntimeState_def Let_def split: prod.splits option.splits go_error.splits outcome.splits
      dest!: sendResponseUnsafe_accepted)

text \<open>An error or a response that is acknowledged has answered the invoke it names.  In whatever state a handler is when it
  goes on, and whatever the others do in between: it reaches the point at which it will answer 202 only by a step in which the
  server was reserved for the identifier in the request and had no reply yet, and that step makes the reply; in
  particular of two requests for one invoke at most one is acknowledged.\<close>

theorem acknowledged_means_replied:
  assumes "api_continue env q pt s = (s', Goes (AtResponseSent r trace SentAccepted))"
  shows "\<exists>i c. (pt = AtSendResponse r i \<or> (\<exists>resp cause. pt = AtSendError r i resp cause)) \<and> sv_invokeCtx (ap_server s) = Some c \<and>
    tk_InvokeID (ic_Token c) = i \<and> \<not> ReplySent c \<and>
    sv_invokeCtx (ap_server s') = Some (c\<lparr>ReplySent := True, Direct := False\<rparr>)"
proof (cases "sends_reply pt")
  case False
  from no_ack_other_points [OF this, of env q s] show ?thesis using assms by (simp add: no_ack_def)
next
  case True
  then show ?thesis using assms send_steps_accepted [where env = env and s = s and s' = s' and r = r and trace = trace]
    by (cases pt rule: sends_reply.cases) auto
qed

definition replied_api :: api where
  "replied_api = fst (send_response sample_api_env sample_api_request 0 ''i1'' (sample_api running_reg))"

theorem acknowledged_means_replied_witness:
  "\<not> ReplySent (the (sv_invokeCtx (ap_server (sample_api running_reg)))) \<and> ReplySent (the (sv_invokeCtx (ap_server replied_api)))"
proof -
  have "send_response sample_api_env sample_api_request 0 ''i1'' (sample_api running_reg) = (replied_api, Goes (AtResponseSent 0 None SentAccepted))"
    using send_response_accepted [of "sample_api running_reg" _ "''i1''" 0 sample_api_request sample_api_env 0]
    by (fastforce simp: replied_api_def sample_server_ctx new_token_def MaxPayloadSize_def)
  then show ?thesis
    using acknowledged_means_replied [of sample_api_env sample_api_request "AtSendResponse 0 ''i1''" "sample_api running_reg" replied_api 0 None]
    by (auto simp: sample_server_ctx)
qed

section \<open>Requests that are refused\<close>

lemma release_keeps_server:
  assumes "UpdateAppCtxWithRuntimeRelease h c = Some (b, c')"
  shows "LoadInteropServer c' = LoadInteropServer c"
  using Update_only_release [OF assms] by (auto simp: LoadInteropServer_def ctx_defs)

text \<open>C21: a reply for another invoke than the current one is refused.  A response or an error posted for an identifier that
  is not that of the reserved invoke, for example because the invoke has been reset, is answered with 400 before any
  state machine is touched: the registration service, the server and the current event stay as they are.\<close>

theorem stale_reply_refused:
  assumes "i = [] \<or> i \<noteq> GetCurrentInvokeID (ap_server s)" "what = ''response'' \<or> what = ''error''"
    and "LoadInteropServer (ap_appCtx s) = Some (Some p)" "GetRuntimeRelease (ap_appCtx s) \<noteq> None" "render_ok (av_render env)"
  shows "\<exists>s' w. serve initCaching telemetryAPIEnabled none env q ''POST'' [''2018-06-01'', ''runtime'', ''invocation'', i, what] s = (s', Responded w) \<and>
    rw_status w = Some 400 \<and> ap_registrationService s' = ap_registrationService s \<and> ap_server s' = ap_server s \<and>
    ap_renderingService s' = ap_renderingService s"
proof -
  let ?h = "\<lparr>User_Agent = request_Get q ''User-Agent'', Lambda_Runtime_Features = request_Get q ''Lambda-Runtime-Features''\<rparr>"
  obtain b c' where c': "UpdateAppCtxWithRuntimeRelease ?h (ap_appCtx s) = Some (b, c')"
    using assms(4) by (cases "UpdateAppCtxWithRuntimeRelease ?h (ap_appCtx s)")
      (auto simp: UpdateAppCtxWithRuntimeRelease_def Let_def split: if_splits)
  have "LoadInteropServer c' = Some (Some p)" using release_keeps_server [OF c'] assms(3) by simp
  then have "AwsRequestIDValidator env i pt (s\<lparr>ap_appCtx := c'\<rparr>) =
      (s\<lparr>ap_appCtx := c'\<rparr>, Responded (RenderInvalidRequestID (av_render env) new_writer))" for pt
    using assms(1) by (auto simp: AwsRequestIDValidator_def with_server_def)
  then have "serve initCaching telemetryAPIEnabled none env q ''POST'' [''2018-06-01'', ''runtime'', ''invocation'', i, what] s =
      (s\<lparr>ap_appCtx := c'\<rparr>, Responded (RenderInvalidRequestID (av_render env) new_writer))"
    using assms(2) by (auto simp: serve_def NewRouter_def RuntimeReleaseMiddleware_def c')
  then show ?thesis using assms(5) by simp
qed

theorem stale_reply_refused_witness:
  "\<exists>s' w. serve False False new_writer sample_api_env sample_api_request ''POST''
     [''2018-06-01'', ''runtime'', ''invocation'', ''i0'', ''response''] (sample_api running_reg) = (s', Responded w) \<and> rw_status w = Some 400 \<and>
     ap_registrationService s' = running_reg"
  using stale_reply_refused [of "''i0''" "sample_api running_reg" "''response''" 0 sample_api_env False False new_writer sample_api_request]
  by (auto simp: GetCurrentInvokeID_def sample_server_ctx new_token_def GetRuntimeRelease_def sample_api_def StoreResponseSender_def
      StoreInteropServer_def LoadInteropServer_def ctx_defs)

lemma unknown_extension_refused:
  assumes "FindExternalAgentByID u (ap_registrationService s) = None" "FindInternalAgentByID u (ap_registrationService s) = None"
    "render_ok (av_render env)" "pt \<in> {AtAgentNext (Some u), AtAgentInitError (Some u), AtAgentExitError (Some u)}"
  shows "\<exists>w. api_continue env q pt s = (s, Responded w) \<and> rw_status w = Some 403"
  using assms by (auto simp: agentNext_ServeHTTP_def agentInitError_ServeHTTP_def agentExitError_ServeHTTP_def agent_error_def
      with_agent_def forbidden_def)

text \<open>The requests a runtime can make through its own object.\<close>

fun runtime_request :: "ref \<Rightarrow> api_point \<Rightarrow> bool" where
  "runtime_request r (AtNextCall r') = (r' = r)"
| "runtime_request r (AtRestoreNextCall r') = (r' = r)"
| "runtime_request r (AtResponseCall r' i) = (r' = r)"
| "runtime_request r (AtErrorCall r' i) = (r' = r)"
| "runtime_request r (AtInitErrorCall r' resp) = (r' = r)"
| "runtime_request r (AtRestoreErrorCall r' u) = (r' = r)"
| "runtime_request r pt = False"

lemma runtime_call_disallowed:
  assumes "currentState (runtime_at r s) = RuntimeInvocationResponseState"
    "p = RReady t \<or> p = RRestoreReady t \<or> p = RInvocationResponse \<or> p = RInvocationErrorResponse \<or> p = RInitError \<or> p = RRestoreError u"
  shows "runtime_call p env r s = (s, Returned (Some ErrNotAllowed))"
  using assms by (auto simp: runtime_call_def reg_runtime_call_def Runtime_Ready_def Runtime_RestoreReady_def
      Runtime_InvocationResponse_def Runtime_InvocationErrorResponse_def Runtime_InitError_def Runtime_RestoreError_def
      disallowEveryTransitionByDefault_def)

lemma responding_runtime_refused:
  assumes "currentState (runtime_at r s) = RuntimeInvocationResponseState" "render_ok (av_render env)" "runtime_request r pt"
  shows "\<exists>w. api_continue env q pt s = (s, Responded w) \<and> rw_status w = Some 403"
  using assms(2,3) runtime_call_disallowed [OF assms(1)]
  by (cases pt) (simp_all add: next_event_def response_call_def error_call_def init_error_def restore_error_def runtime_refused_def)

lemma send_invalid_mode_result:
  assumes "render_ok (av_render env)"
  shows "\<exists>s' w. send_invalid_mode env q i s = (s', Responded w) \<and> rw_status w = Some 400 \<and>
    ap_registrationService s' = ap_registrationService s"
  using assms by (simp add: send_invalid_mode_def split: prod.split)

text \<open>C22: a response with an unknown response mode leaves the runtime stuck.  The mode is checked after the state
  machine has moved: the request is answered with 400, but the runtime stays in the state of sending a response, which
  nothing it can request leaves: every later request to poll, to respond or to report an error is refused with 403 and
  changes nothing, and the gate the invoke waits at has not been walked through.\<close>

theorem invalid_response_mode_sticks:
  assumes "LoadResponseSender (ap_appCtx s) = Some (Some p)" "GetRuntime (ap_registrationService s) = Some r"
    "r < length (rs_runtimes (ap_registrationService s))" "currentState (runtime_at r s) = RuntimeRunningState"
    "request_Get q FunctionResponseModeHeader \<notin> {[], StreamingFunctionResponseMode}" "render_ok (av_render env)"
  shows "\<exists>s' w. run_request 3 env q (s, Goes (AtInvocationResponse i)) = (s', Responded w) \<and> rw_status w = Some 400 \<and>
    rs_flows (ap_registrationService s') = rs_flows (ap_registrationService s) \<and>
    (\<forall>env' q' pt. render_ok (av_render env') \<and> runtime_request r pt \<longrightarrow>
       (\<exists>w'. api_continue env' q' pt s' = (s', Responded w') \<and> rw_status w' = Some 403))"
proof -
  have 0: "invocationResponse_ServeHTTP i s = (s, Goes (AtResponseCall r i))"
    using assms(1,2) by (simp add: invocationResponse_ServeHTTP_def with_server_def with_runtime_def)
  obtain s1 where 1: "response_call env q r i s = (s1, Goes (AtSendInvalidMode r i))"
    "currentState (runtime_at r s1) = RuntimeInvocationResponseState"
    "rs_flows (ap_registrationService s1) = rs_flows (ap_registrationService s)"
    using assms(3-5)
    by (auto simp: response_call_def runtime_call_def reg_runtime_call_def Runtime_InvocationResponse_def
        RuntimeRunningState_InvocationResponse_def setStateUnsafe_def Let_def)
  obtain s2 w where 2: "send_invalid_mode env q i s1 = (s2, Responded w)" "rw_status w = Some 400"
    "ap_registrationService s2 = ap_registrationService s1"
    using send_invalid_mode_result [OF assms(6), of q i s1] by blast
  have "run_request 3 env q (s, Goes (AtInvocationResponse i)) = (s2, Responded w)"
    by (simp add: 0 1 2)
  then show ?thesis using 1 2 responding_runtime_refused [of s2 r] by auto
qed

definition odd_mode_request :: api_request where
  "odd_mode_request = sample_api_request\<lparr>rq_header := (\<lambda>k. ''odd'')\<rparr>"

theorem invalid_response_mode_sticks_witness:
  "\<exists>s' w. run_request 3 sample_api_env odd_mode_request (sample_api running_reg, Goes (AtInvocationResponse ''i1'')) = (s', Responded w) \<and>
     rw_status w = Some 400 \<and>
     (\<exists>w'. api_continue sample_api_env sample_api_request (AtNextCall 0) s' = (s', Responded w') \<and> rw_status w' = Some 403)"
proof -
  have "request_Get odd_mode_request FunctionResponseModeHeader \<notin> {[], StreamingFunctionResponseMode}"
    by (simp add: odd_mode_request_def request_Get_def StreamingFunctionResponseMode_def)
  then obtain s' w where "run_request 3 sample_api_env odd_mode_request (sample_api running_reg, Goes (AtInvocationResponse ''i1'')) = (s', Responded w)"
    "rw_status w = Some 400" "\<forall>env' q' pt. render_ok (av_render env') \<and> runtime_request 0 pt \<longrightarrow>
       (\<exists>w'. api_continue env' q' pt s' = (s', Responded w') \<and> rw_status w' = Some 403)"
    using invalid_response_mode_sticks [of "sample_api running_reg" 0 0 odd_mode_request sample_api_env "''i1''"]
    by (auto simp: GetRuntime_def running_reg_state)
  moreover from this(3) have "\<exists>w'. api_continue sample_api_env sample_api_request (AtNextCall 0) s' = (s', Responded w') \<and> rw_status w' = Some 403"
    by (rule allE [of _ sample_api_env], elim allE [of _ sample_api_request] allE [of _ "AtNextCall 0"]) simp
  ultimately show ?thesis by blast
qed

section \<open>Registration\<close>

lemma ea_subscribe_all_valid:
  "first_invalid ValidateExternalAgentEvent es = None \<Longrightarrow> \<exists>a'. ea_subscribe_all es a = (a', None) \<and>
    (\<forall>e. ExternalAgent_IsSubscribed e a' \<longleftrightarrow> e \<in> set es \<or> ExternalAgent_IsSubscribed e a) \<and> ea_ID a' = ea_ID a"
proof (induction es arbitrary: a)
  case (Cons e es)
  have v: "ValidateExternalAgentEvent e = None" "first_invalid ValidateExternalAgentEvent es = None"
    using Cons.prems by (simp_all split: option.splits)
  from Cons.IH [OF v(2), of "a\<lparr>ea_events := go_map_set e () (ea_events a)\<rparr>"] show ?case
    using v(1) by (auto simp: ea_subscribeUnsafe_def ExternalAgent_IsSubscribed_def)
qed simp

lemma ia_subscribe_all_valid:
  "first_invalid ValidateInternalAgentEvent es = None \<Longrightarrow> \<exists>a'. ia_subscribe_all es a = (a', None) \<and>
    (\<forall>e. InternalAgent_IsSubscribed e a' \<longleftrightarrow> e \<in> set es \<or> InternalAgent_IsSubscribed e a) \<and> ia_ID a' = ia_ID a"
proof (induction es arbitrary: a)
  case (Cons e es)
  have v: "ValidateInternalAgentEvent e = None" "first_invalid ValidateInternalAgentEvent es = None"
    using Cons.prems by (simp_all split: option.splits)
  from Cons.IH [OF v(2), of "a\<lparr>ia_events := go_map_set e () (ia_events a)\<rparr>"] show ?case
    using v(1) by (auto simp: ia_subscribeUnsafe_def InternalAgent_IsSubscribed_def)
qed simp

text \<open>An agent is registered under a name with at least the given events, and its identifier is the one in the response.\<close>

definition registered_as :: "string \<Rightarrow> Event list \<Rightarrow> UUID \<Rightarrow> reg \<Rightarrow> bool" where
  "registered_as n es u g =
    ((case FindExternalAgentByName n g of
        Some a \<Rightarrow> (let ag = rs_extAgents g ! a in ea_currentState ag = ExternalAgentRegisteredState \<and> ea_ID ag = u \<and>
          list_all (\<lambda>e. ExternalAgent_IsSubscribed e ag) es)
      | None \<Rightarrow>
        (case FindInternalAgentByName n g of
           Some a \<Rightarrow> (let ag = rs_intAgents g ! a in ia_currentState ag = InternalAgentRegisteredState \<and> ia_ID ag = u \<and>
             list_all (\<lambda>e. InternalAgent_IsSubscribed e ag) es)
         | None \<Rightarrow> False)))"

text \<open>The agents that are registered and the gates, which a refused registration must leave alone.\<close>

definition same_agents :: "reg \<Rightarrow> reg \<Rightarrow> bool" where
  "same_agents g g' = (rs_externalAgents g' = rs_externalAgents g \<and> rs_internalAgents g' = rs_internalAgents g \<and>
     rs_extAgents g' = rs_extAgents g \<and> take (length (rs_intAgents g)) (rs_intAgents g') = rs_intAgents g \<and> rs_flows g' = rs_flows g)"

definition register_result :: "string \<Rightarrow> Event list \<Rightarrow> reg \<Rightarrow> api \<Rightarrow> response_writer \<Rightarrow> bool" where
  "register_result n es g s' w =
    (if rw_status w = Some 200 then registered_as n es (header_get LambdaAgentIdentifier w) (ap_registrationService s')
     else same_agents g (ap_registrationService s'))"

lemma header_frame:
  "header_get k (WriteHeader st w) = header_get k w" "header_get k (body_write bs w) = header_get k w"
  "k \<noteq> k' \<Longrightarrow> header_get k (header_set k' v w) = header_get k w" "header_get k (header_set k v w) = v"
  by (simp_all add: header_get_def WriteHeader_def body_write_def header_set_def)

lemma register_response_result:
  assumes "render_ok (av_render env)"
  shows "rw_status (register_response env u acc s) = Some 200 \<and> header_get LambdaAgentIdentifier (register_response env u acc s) = u"
proof -
  have "\<exists>bs. rn_encode (av_render env) d = Inr bs" for d using assms by (simp add: render_ok_def)
  then obtain f where f: "\<And>d. rn_encode (av_render env) d = Inr (f d)" by metis
  have "rn_wfail (av_render env) = None" using assms by (simp add: render_ok_def)
  then have "header_get LambdaAgentIdentifier (register_response env u acc s) = u"
    by (simp add: register_response_def Let_def render_or_fail_def RenderJSON_def http_Write_def header_frame f
        LambdaAgentIdentifier_def)
  moreover have "rw_status (register_response env u acc s) = Some 200"
    using assms by (simp add: register_response_def Let_def render_or_fail_status header_set_def)
  ultimately show ?thesis by simp
qed

lemma same_agents_refl [simp]: "same_agents g g"
  by (simp add: same_agents_def)

lemma registerExternalAgent_result:
  assumes "reg_ok (ap_registrationService s)" "render_ok (av_render env)" "FindExternalAgentByName n (ap_registrationService s) = Some a"
    "registerExternalAgent env a es acc s = (s', Responded w)"
  shows "register_result n es (ap_registrationService s) s' w"
proof (cases "first_invalid ValidateExternalAgentEvent es")
  case (Some p)
  then show ?thesis using assms(2,4)
    by (cases p) (auto simp: registerExternalAgent_def forbidden_def register_result_def)
next
  case None
  define ag where "ag = rs_extAgents (ap_registrationService s) ! a"
  have a: "a < length (rs_extAgents (ap_registrationService s))" using lookups_ok(2) [OF assms(1,3)] .
  obtain ag' where ag': "ea_subscribe_all es ag = (ag', None)"
    "\<And>e. ExternalAgent_IsSubscribed e ag' \<longleftrightarrow> e \<in> set es \<or> ExternalAgent_IsSubscribed e ag" "ea_ID ag' = ea_ID ag"
    using ea_subscribe_all_valid [OF None, of ag] by blast
  show ?thesis
  proof (cases "ea_currentState ag = ExternalAgentStartedState")
    case True
    then have "ext_call (EARegister es) env a s = (s\<lparr>ap_registrationService := (ap_registrationService s)\<lparr>
        rs_flows := (rs_flows (ap_registrationService s))\<lparr>initFlow :=
          fst (ExternalAgentRegistered (initFlow (rs_flows (ap_registrationService s))))\<rparr>,
        rs_extAgents := (rs_extAgents (ap_registrationService s))[a := ea_setStateUnsafe ExternalAgentRegisteredState (av_now env) ag']\<rparr>\<rparr>,
        Returned None)"
      using ag' by (simp add: ext_call_def reg_ext_call_def ExternalAgent_Register_def ExternalAgentStartedState_Register_def
          ag_def [symmetric])
    then show ?thesis using assms(2,3,4) a ag' None register_response_result [OF assms(2)]
      by (auto simp: registerExternalAgent_def register_result_def registered_as_def FindExternalAgentByName_def
          ea_setStateUnsafe_def ExternalAgent_IsSubscribed_def list_all_iff Let_def)
  next
    case False
    then have "ext_call (EARegister es) env a s = (s, Returned (Some ErrNotAllowed))"
      by (simp add: ext_call_def reg_ext_call_def ExternalAgent_Register_def disallowEverything_def ag_def
          split: ExternalAgentState.splits)
    then show ?thesis using assms(2,4) None
      by (auto simp: registerExternalAgent_def forbidden_def register_result_def Let_def)
  qed
qed

lemma CreateInternalAgent_refused:
  "CreateInternalAgent n u now g = (g', Inl e) \<Longrightarrow> same_agents g g'"
  using iam.insert_cases [of "rs_intAgents g @ [NewInternalAgent n u now]" "length (rs_intAgents g)" "rs_internalAgents g"]
  by (auto simp: CreateInternalAgent_def same_agents_def Let_def split: if_splits prod.splits option.splits)

lemma CreateInternalAgent_created:
  assumes "CreateInternalAgent n u now g = (g', Inr a)"
  shows "a < length (rs_intAgents g') \<and> rs_intAgents g' ! a = NewInternalAgent n u now \<and>
    FindInternalAgentByName n g' = Some a \<and> FindExternalAgentByName n g' = None"
  using assms iam.lookup_after_insert [of "rs_intAgents g @ [NewInternalAgent n u now]" "length (rs_intAgents g)" "rs_internalAgents g" n u]
  by (auto simp: CreateInternalAgent_def FindInternalAgentByName_def InternalAgentsMap_FindByName_def FindExternalAgentByName_def
      Let_def split: if_splits prod.splits option.splits)

lemma register_created_result:
  assumes "CreateInternalAgent n u now g = (ap_registrationService s, Inr a)" "first_invalid ValidateInternalAgentEvent es = None"
    "render_ok (av_render env)"
  shows "\<exists>s' w. register_created env a es acc s = (s', Responded w) \<and> rw_status w = Some 200 \<and>
    registered_as n es (header_get LambdaAgentIdentifier w) (ap_registrationService s')"
proof -
  note created = CreateInternalAgent_created [OF assms(1)]
  obtain ag' where ag': "ia_subscribe_all es (NewInternalAgent n u now) = (ag', None)"
    "\<And>e. e \<in> set es \<Longrightarrow> InternalAgent_IsSubscribed e ag'" "ia_ID ag' = u"
    using ia_subscribe_all_valid [OF assms(2), of "NewInternalAgent n u now"] by auto
  have "ia_currentState (NewInternalAgent n u now) = InternalAgentStartedState"
    by (simp add: NewInternalAgent_def ia_setStateUnsafe_def)
  then have "int_call (IARegister es) env a s = (s\<lparr>ap_registrationService := (ap_registrationService s)\<lparr>
      rs_flows := rs_flows (ap_registrationService s),
      rs_intAgents := (rs_intAgents (ap_registrationService s))[a := ia_setStateUnsafe InternalAgentRegisteredState (av_now env) ag']\<rparr>\<rparr>,
      Returned None)"
    using ag' created by (simp add: int_call_def reg_int_call_def InternalAgent_Register_def InternalAgentStartedState_Register_def)
  then show ?thesis using created ag' register_response_result [OF assms(3)]
    by (auto simp: register_created_def registered_as_def FindInternalAgentByName_def FindExternalAgentByName_def
        ia_setStateUnsafe_def InternalAgent_IsSubscribed_def list_all_iff Let_def)
qed

lemma registerInternalAgent_result:
  assumes "render_ok (av_render env)" "run_request 2 env q (s, Goes (AtRegisterInternal n es acc)) = (s', Responded w)"
  shows "register_result n es (ap_registrationService s) s' w"
proof (cases "first_invalid ValidateInternalAgentEvent es")
  case (Some p)
  then show ?thesis using assms
    by (cases p) (auto simp: registerInternalAgent_def forbidden_def register_result_def)
next
  case None
  obtain g res where c: "CreateInternalAgent n (av_newUUID env) (av_now env) (ap_registrationService s) = (g, res)" by fastforce
  show ?thesis
  proof (cases res)
    case (Inl e)
    have "\<exists>v. registerInternalAgent env n es acc s = (s\<lparr>ap_registrationService := g\<rparr>, Responded v) \<and> rw_status v \<noteq> Some 200"
      using assms(1) None c Inl by (simp add: registerInternalAgent_def forbidden_def Let_def split: go_error.split)
    then show ?thesis using assms(2) CreateInternalAgent_refused c Inl
      by (auto simp: register_result_def)
  next
    case (Inr a)
    have "registerInternalAgent env n es acc s = (s\<lparr>ap_registrationService := g\<rparr>, Goes (AtRegisterCreated a es acc))"
      using None c Inr by (simp add: registerInternalAgent_def)
    then show ?thesis using assms register_created_result [of n "av_newUUID env" "av_now env" "ap_registrationService s"
        "s\<lparr>ap_registrationService := g\<rparr>" a es env acc] None c Inr
      by (auto simp: register_result_def)
  qed
qed

text \<open>C20: registration is all or nothing.  A request to register that is answered with 200 has left an agent of the requested
  name, external when the name is that of a launched extension and internal otherwise, in the registered state and
  subscribed to every requested event, and the identifier in the answer is its own; any other answer leaves the
  registered agents, their states and the gates as they were.\<close>

theorem registration_all_or_nothing:
  assumes "reg_ok (ap_registrationService s)" "render_ok (av_render env)"
    and "run_request 3 env q (s, Goes AtRegister) = (s', Responded w)"
  shows "if rw_status w = Some 200
    then \<exists>es. parseRegister env q = Inr es \<and>
      registered_as (request_Get q LambdaAgentName) es (header_get LambdaAgentIdentifier w) (ap_registrationService s')
    else same_agents (ap_registrationService s) (ap_registrationService s')"
proof (cases "request_Get q LambdaAgentName = [] \<or> (\<exists>e. parseRegister env q = Inl e)")
  case True
  then have "\<exists>v. agentRegister_ServeHTTP env q s = (s, Responded v) \<and> rw_status v = Some 403"
    using assms(2) by (auto simp: agentRegister_ServeHTTP_def forbidden_def Let_def)
  then show ?thesis using assms(3) by auto
next
  case False
  let ?n = "request_Get q LambdaAgentName" and ?acc = "parseRegistrationFeatures q"
  obtain es where es: "parseRegister env q = Inr es" using False by (cases "parseRegister env q") auto
  have "register_result ?n es (ap_registrationService s) s' w"
  proof (cases "FindExternalAgentByName ?n (ap_registrationService s)")
    case None
    then have "run_request 2 env q (s, Goes (AtRegisterInternal ?n es ?acc)) = (s', Responded w)"
      using assms(3) False es by (simp add: agentRegister_ServeHTTP_def Let_def)
    from registerInternalAgent_result [OF assms(2) this] show ?thesis .
  next
    case (Some a)
    have "\<exists>x v. registerExternalAgent env a es ?acc s = (x, Responded v)"
      by (auto simp: registerExternalAgent_def forbidden_def Let_def split: option.split prod.split call_result.split)
    then have "registerExternalAgent env a es ?acc s = (s', Responded w)"
      using assms(3) False es Some by (auto simp: agentRegister_ServeHTTP_def Let_def)
    from registerExternalAgent_result [OF assms(1,2) Some this] show ?thesis .
  qed
  then show ?thesis using es by (simp add: register_result_def)
qed

definition named_request :: api_request where
  "named_request = sample_api_request\<lparr>rq_header := (\<lambda>k. if k = LambdaAgentName then ''ext'' else [])\<rparr>"

theorem registration_all_or_nothing_witness:
  "let (s', res) = run_request 3 sample_api_env named_request (sample_api running_reg, Goes AtRegister)
   in case res of Responded w \<Rightarrow> registered_as ''ext'' [InvokeEvent] (header_get LambdaAgentIdentifier w) (ap_registrationService s')
      | _ \<Rightarrow> False"
proof -
  let ?s = "sample_api running_reg"
  have "snd (CreateInternalAgent ''ext'' ''new'' 10 running_reg) = Inr 0" by code_simp
  then obtain g where c: "CreateInternalAgent ''ext'' ''new'' 10 running_reg = (g, Inr 0)"
    by (cases "CreateInternalAgent ''ext'' ''new'' 10 running_reg") simp
  have f: "FindExternalAgentByName ''ext'' running_reg = None" by code_simp
  have n: "request_Get named_request LambdaAgentName = ''ext''" "parseRegister sample_api_env named_request = Inr [InvokeEvent]"
    by (simp_all add: named_request_def request_Get_def parseRegister_def sample_api_env_def sample_api_request_def)
  have v: "first_invalid ValidateInternalAgentEvent [InvokeEvent] = None" by (simp add: ValidateInternalAgentEvent_def)
  obtain s' w where r: "register_created sample_api_env 0 [InvokeEvent] (parseRegistrationFeatures named_request)
      (?s\<lparr>ap_registrationService := g\<rparr>) = (s', Responded w)" "rw_status w = Some 200"
    using register_created_result [of "''ext''" "''new''" 10 running_reg "?s\<lparr>ap_registrationService := g\<rparr>" 0 "[InvokeEvent]" sample_api_env
        "parseRegistrationFeatures named_request"] c v
    by (auto simp del: first_invalid.simps)
  have "run_request 3 sample_api_env named_request (?s, Goes AtRegister) = (s', Responded w)"
    using c f n v r by (simp del: first_invalid.simps add: agentRegister_ServeHTTP_def registerInternalAgent_def sample_api_env_def [THEN arg_cong, of av_newUUID]
        sample_api_env_def [THEN arg_cong, of av_now])
  then show ?thesis
    using registration_all_or_nothing [of ?s sample_api_env named_request s' w] r n core_reach_ok [OF running_reg_reach] by simp
qed

end
