(* ===== verification/Served_Invokes.thy ===== *)
theory Served_Invokes
  imports API_Replies
begin

text \<open>
  The invoke handler, the API server and the interop server together: a run of \<open>doInvoke\<close> in which the runtime and the
  extensions act through requests that are served step by step.  Such a run is a run of the handler in the sense of
  \<open>Handler_Runs\<close>, and it can only succeed after the invoke has been replied to.
\<close>

section \<open>Arrivals of the response\<close>

definition resp_arrived :: "reg \<Rightarrow> 16 word" where
  "resp_arrived g = arrived (runtimeResponseGate (invokeFlow (rs_flows g)))"

definition same_response :: "reg \<Rightarrow> reg \<Rightarrow> bool" where
  "same_response g g' = (resp_arrived g' = resp_arrived g)"

lemma rt_exec_response:
  assumes "rt_exec p now now' f r = ((f', r'), c)" "p \<noteq> RResponseSent"
  shows "runtimeResponseGate (invokeFlow f') = runtimeResponseGate (invokeFlow f)"
proof (cases p)
  case (RReady t)
  then show ?thesis using assms
    by (auto simp: Runtime_Ready_def runtime_state_method_defs invoke_RuntimeReady_def Let_def
        split: RuntimeState.splits prod.splits option.splits dest!: runtime_suspend_flows)
next
  case (RRestoreReady t)
  then show ?thesis using assms
    by (auto simp: Runtime_RestoreReady_def runtime_state_method_defs Let_def
        split: RuntimeState.splits prod.splits option.splits dest!: runtime_suspend_flows)
qed (use assms in \<open>auto simp: runtime_method_defs runtime_state_method_defs split: RuntimeState.splits prod.splits option.splits\<close>)

lemma ea_exec_response:
  assumes "ea_exec p now now' f a = ((f', a'), c)"
  shows "runtimeResponseGate (invokeFlow f') = runtimeResponseGate (invokeFlow f)"
proof (cases p)
  case (EAResume t)
  then show ?thesis using assms ea_resume_cases by fastforce
qed (use assms in \<open>auto simp: ea_method_defs invoke_AgentReady_def split: ExternalAgentState.splits prod.splits option.splits
      dest!: ea_suspend_cases\<close>)

lemma ia_exec_response:
  assumes "ia_exec p now now' f a = ((f', a'), c)"
  shows "runtimeResponseGate (invokeFlow f') = runtimeResponseGate (invokeFlow f)"
proof (cases p)
  case (IAResume t)
  then show ?thesis using assms ia_resume_cases by fastforce
qed (use assms in \<open>auto simp: ia_method_defs invoke_AgentReady_def split: InternalAgentState.splits prod.splits option.splits
      dest!: ia_suspend_cases\<close>)

lemma same_response_calls:
  "p \<noteq> RResponseSent \<Longrightarrow> same_response g (fst (reg_runtime_call p now now' r g))"
  "same_response g (fst (reg_ext_call q now now' a g))" "same_response g (fst (reg_int_call o' now now' a g))"
  "same_response g (fst (CreateInternalAgent n u now g))" "same_response g (fst (CreateExternalAgent n u now g))"
  using rt_exec_response [of p now now' "rs_flows g" "rs_runtimes g ! r"] ea_exec_response [of q now now' "rs_flows g" "rs_extAgents g ! a"]
    ia_exec_response [of o' now now' "rs_flows g" "rs_intAgents g ! a"]
  by (auto simp: same_response_def resp_arrived_def reg_runtime_call_def reg_ext_call_def reg_int_call_def CreateInternalAgent_def
      CreateExternalAgent_def Let_def split: prod.splits option.splits)

interpretation response: registry_relation same_response
  by unfold_locales (simp_all add: same_response_calls, simp add: same_response_def)

text \<open>The operation of the core that counts a response, which only the end of a reply performs.\<close>

fun responds :: "core_op \<Rightarrow> bool" where
  "responds (KRuntime p now now' r) = (p = RResponseSent)"
| "responds k = False"

lemma quiet_party_op: "party_op k \<Longrightarrow> \<not> responds k \<Longrightarrow> same_response g (core_exec k g)"
  by (cases k) (simp_all add: same_response_calls, simp_all add: same_response_def resp_arrived_def new_runtime_def
      PreregisterRuntime_def TurnOff_def CancelFlows_def SetFunctionMetadata_def invoke_CancelWithError_def CancelWithError_def)

section \<open>A reply before every end of a reply\<close>

lemma sendResponseUnsafe_answers:
  assumes "sendResponseUnsafe i h p t called env s = (s', er, m)"
    "er = None \<or> er = Some ErrTruncatedResponse \<or> (\<exists>a b. er = Some (ErrorResponseTooLargeDI a b))"
  shows "unanswered s \<and> \<not> unanswered s'"
  using assms by (auto simp: sendResponseUnsafe_def unanswered_def send_buffered_def Let_def
      split: option.splits if_splits prod.splits)

lemma unanswered_state [simp]: "unanswered (setRuntimeState st s) = unanswered s"
  by (simp add: unanswered_def setRuntimeState_def)

lemma send_steps_answer:
  "send_response env q r i s = (s', Goes (AtResponseSent r' trace kind)) \<Longrightarrow> unanswered (ap_server s) \<and> \<not> unanswered (ap_server s')"
  "send_error env r i resp cause s = (s', Goes (AtResponseSent r' trace kind)) \<Longrightarrow> unanswered (ap_server s) \<and> \<not> unanswered (ap_server s')"
  "send_too_large env r i e s = (s', Goes (AtResponseSent r' trace kind)) \<Longrightarrow> unanswered (ap_server s) \<and> \<not> unanswered (ap_server s')"
  using sendResponseUnsafe_answers [where s = "setRuntimeState runtimeInvokeResponseSent (ap_server s)"]
    sendResponseUnsafe_answers [where s = "setRuntimeState runtimeInvokeError (ap_server s)"]
  by (auto simp: send_response_def send_error_def send_too_large_def SendResponse_def SendErrorResponse_def interop_failed_def
      hand_over_def Let_def split: prod.splits option.splits go_error.splits outcome.splits)

lemma end_of_reply_answers:
  assumes "api_continue env q pt s = (s', Goes (AtResponseSent r trace kind))"
  shows "unanswered (ap_server s) \<and> \<not> unanswered (ap_server s')"
proof (cases "sends_reply pt")
  case False
  from no_ack_other_points [OF this, of env q s] show ?thesis using assms by (simp add: no_ack_def)
next
  case True
  then show ?thesis using assms send_steps_answer [where env = env and s = s and s' = s' and r' = r and trace = trace and kind = kind]
    by (cases pt rule: sends_reply.cases) simp_all
qed

lemma ends_reply_over: "ends_reply pt \<Longrightarrow> api_continue env q pt s = (s', res) \<Longrightarrow> next_point q res = []"
  by (cases pt) (auto simp: response_sent_def split: prod.splits call_result.splits option.splits)

section \<open>Runs of an invoke that is served\<close>

text \<open>The number counts the steps of requests in which the reserved invoke turned from unanswered to answered.  Other
  goroutines may do anything to the server and the rendering service, and every operation of a party to the registration
  service except counting a response.\<close>

inductive served_invoke :: "rapidContext \<Rightarrow> rapidContext \<Rightarrow> invoke_pc \<Rightarrow> api \<Rightarrow> (api_request \<times> api_point) list \<Rightarrow> nat \<Rightarrow> bool" for c0 where
  start: "ap_registrationService s = rc_registrationService c0 \<Longrightarrow> points_ok (ap_registrationService s) ts
    \<Longrightarrow> list_all (\<lambda>(q, pt). \<not> ends_reply pt) ts \<Longrightarrow> served_invoke c0 c0 VAwaitResponse s ts 0"
| arrive: "served_invoke c0 c pc s ts n \<Longrightarrow> serve initCaching telemetryAPIEnabled none env q meth path s = (s', res)
    \<Longrightarrow> served_invoke c0 c pc s' (next_point q res @ ts) n"
| request: "served_invoke c0 c pc s (us @ (q, pt) # vs) n \<Longrightarrow> api_continue env q pt s = (s', res)
    \<Longrightarrow> served_invoke c0 (c\<lparr>rc_registrationService := ap_registrationService s'\<rparr>) pc s' (us @ next_point q res @ vs)
          (n + (if unanswered (ap_server s) \<and> \<not> unanswered (ap_server s') then 1 else 0))"
| party: "served_invoke c0 c pc s ts n \<Longrightarrow> party_op k \<Longrightarrow> \<not> responds k \<Longrightarrow> core_enabled k (rc_registrationService c)
    \<Longrightarrow> served_invoke c0 (with_reg (core_exec k) c) pc (s\<lparr>ap_registrationService := core_exec k (rc_registrationService c)\<rparr>) ts n"
| other: "served_invoke c0 c pc s ts n \<Longrightarrow> ap_registrationService s' = ap_registrationService s \<Longrightarrow> served_invoke c0 c pc s' ts n"
| handler: "served_invoke c0 c pc s ts n \<Longrightarrow> invoke_step now pc c = Ret (c', pc') \<Longrightarrow> served_invoke c0 c' pc' s ts n"

lemma invoke_step_registry: "invoke_step now pc c = Ret (c', pc') \<Longrightarrow> rc_registrationService c' = rc_registrationService c"
  by (auto simp: invoke_step_def Let_def split: invoke_pc.splits await_result.splits option.splits if_splits)

lemma invoke_reach_one_party:
  assumes "invoke_reach c0 pc0 c pc" "one_party_op (rc_registrationService c) g"
  shows "invoke_reach c0 pc0 (c\<lparr>rc_registrationService := g\<rparr>) pc"
proof -
  have "c\<lparr>rc_registrationService := rc_registrationService c\<rparr> = c" by simp
  then show ?thesis using assms invoke_reach.party [OF assms(1)] by (auto simp: one_party_op_def)
qed

lemma one_party_reg_ok: "reg_ok g \<Longrightarrow> one_party_op g g' \<Longrightarrow> reg_ok g'"
  by (auto simp: one_party_op_def reg_ok_exec)

lemma served_invoke_simulation:
  assumes "reg_ok (rc_registrationService c0)" "served_invoke c0 c pc s ts n"
  shows "invoke_reach c0 VAwaitResponse c pc \<and> ap_registrationService s = rc_registrationService c \<and>
    reg_ok (rc_registrationService c) \<and> points_ok (rc_registrationService c) ts"
  using assms(2)
proof (induction rule: served_invoke.induct)
  case (start s ts)
  then show ?case using assms(1) by (auto intro: invoke_reach.start)
next
  case (arrive c pc s ts n initCaching telemetryAPIEnabled none env q meth path s' res)
  then show ?case using serve_ok [of s initCaching telemetryAPIEnabled none env q meth path]
    by (simp add: points_ok_next routed_def)
next
  case (request c pc s us q pt vs n env s' res)
  have pt: "point_ok (ap_registrationService s) pt" using request.IH by (simp add: points_ok_def)
  have ok: "step_ok one_party_op (ap_registrationService s) (s', res)"
    using party.api_continue_ok [OF _ pt, of env q] request by metis
  then have "one_party_op (rc_registrationService c) (ap_registrationService s')" using request.IH by (simp add: step_ok_def)
  moreover from this have "grows (rc_registrationService c) (ap_registrationService s')" by (rule one_party_op_grows)
  ultimately show ?case
    using request.IH ok invoke_reach_one_party [of c0 VAwaitResponse c pc] one_party_reg_ok points_ok_append [of _ "[(q, pt)]" vs]
      points_ok_grows [of "rc_registrationService c" _ "ap_registrationService s'"]
    by (auto simp: points_ok_next step_ok_def)
next
  case (party c pc s ts n k)
  then show ?case using invoke_reach.party [of c0 VAwaitResponse c pc k] reg_ok_exec points_ok_grows [OF _ core_exec_grows]
    by auto
next
  case (other c pc s ts n s')
  then show ?case by simp
next
  case (handler c pc s ts n now c' pc')
  then show ?case using invoke_reach.handler [of c0 VAwaitResponse c pc now c' pc'] invoke_step_registry by simp
qed

text \<open>Serving requests refines the invoke handler.  A run of \<open>doInvoke\<close> during which the runtime and the extensions act only
  through requests, each handler interleaved at every operation, is a run in which parties perform single operations of
  the core between the waits of the handler; so whatever holds of those runs holds of the handler behind the API.\<close>

theorem served_invoke_refines:
  assumes "reg_ok (rc_registrationService c0)" "served_invoke c0 c pc s ts n"
  shows "invoke_reach c0 VAwaitResponse c pc \<and> points_ok (rc_registrationService c) ts"
  using served_invoke_simulation [OF assms] by simp

definition open_replies :: "(api_request \<times> api_point) list \<Rightarrow> nat" where
  "open_replies ts = length (filter (\<lambda>(q, pt). ends_reply pt) ts)"

lemma open_replies_simps [simp]:
  "open_replies (us @ vs) = open_replies us + open_replies vs" "open_replies [] = 0"
  "open_replies ((q, pt) # ts) = (if ends_reply pt then 1 else 0) + open_replies ts"
  by (simp_all add: open_replies_def)

text \<open>Responses counted and replies about to be counted are at most the replies made.\<close>

definition replies_bound :: "reg \<Rightarrow> (api_request \<times> api_point) list \<Rightarrow> nat \<Rightarrow> bool" where
  "replies_bound g ts n = ((if resp_arrived g = 0 then 0 else 1) + open_replies ts \<le> n)"

lemma request_bound:
  assumes "replies_bound (ap_registrationService s) (us @ (q, pt) # vs) n" "reg_ok (ap_registrationService s)"
    "point_ok (ap_registrationService s) pt" "api_continue env q pt s = (s', res)"
  shows "replies_bound (ap_registrationService s') (us @ next_point q res @ vs)
    (n + (if unanswered (ap_server s) \<and> \<not> unanswered (ap_server s') then 1 else 0))"
proof (cases "ends_reply pt")
  case True
  then show ?thesis using assms(1) ends_reply_over [OF True assms(4)] by (auto simp: replies_bound_def split: if_splits)
next
  case False
  have same: "resp_arrived (ap_registrationService s') = resp_arrived (ap_registrationService s)"
    using response.other_steps_ok [OF assms(2,3) False, of env q] assms(4) by (simp add: step_ok_def same_response_def)
  have "open_replies (next_point q res) \<le> (if unanswered (ap_server s) \<and> \<not> unanswered (ap_server s') then 1 else 0)"
  proof (cases "\<exists>r trace kind. res = Goes (AtResponseSent r trace kind)")
    case True
    then show ?thesis using end_of_reply_answers assms(4) by auto
  next
    case False
    then have "open_replies (next_point q res) = 0" by (cases res) (auto elim: ends_reply.elims)
    then show ?thesis by simp
  qed
  then show ?thesis using assms(1) same False by (auto simp: replies_bound_def)
qed

lemma served_invoke_bound:
  assumes "reg_ok (rc_registrationService c0)" "resp_arrived (rc_registrationService c0) = 0" "served_invoke c0 c pc s ts n"
  shows "replies_bound (rc_registrationService c) ts n"
  using assms(3)
proof (induction rule: served_invoke.induct)
  case (start s ts)
  have "open_replies ts = 0" using start(3) by (auto simp: open_replies_def list_all_iff filter_empty_conv)
  then show ?case using assms(2) by (simp add: replies_bound_def)
next
  case (arrive c pc s ts n initCaching telemetryAPIEnabled none env q meth path s' res)
  have "\<forall>g pt. res = Goes pt \<longrightarrow> point_ok g pt"
    using serve_ok [of s initCaching telemetryAPIEnabled none env q meth path] arrive.hyps(2) by (simp add: routed_def)
  then have "\<forall>pt. res = Goes pt \<longrightarrow> point_ok (NewRegistrationService new_flows) pt" by blast
  then have "open_replies (next_point q res) = 0"
    by (cases res) (auto elim!: ends_reply.elims simp: NewRegistrationService_def)
  then show ?case using arrive.IH by (simp add: replies_bound_def)
next
  case (request c pc s us q pt vs n env s' res)
  have "ap_registrationService s = rc_registrationService c" "reg_ok (rc_registrationService c)" "point_ok (rc_registrationService c) pt"
    using served_invoke_simulation [OF assms(1) request.hyps(1)] by (simp_all add: points_ok_def)
  then show ?case using request_bound [of s us q pt vs n env s' res] request.IH request.hyps(2) by simp
next
  case (party c pc s ts n k)
  then show ?case using quiet_party_op [of k "rc_registrationService c"] by (simp add: replies_bound_def same_response_def)
next
  case (other c pc s ts n s')
  then show ?case by simp
next
  case (handler c pc s ts n now c' pc')
  then show ?case using invoke_step_registry by simp
qed


text \<open>A run given by its schedule: the index of the request to go on with, or a step of the handler.\<close>

type_synonym served_state = "rapidContext \<times> invoke_pc \<times> api \<times> (api_request \<times> api_point) list \<times> nat"

fun served_schedule :: "api_env \<Rightarrow> (nat + ns) list \<Rightarrow> served_state \<Rightarrow> served_state option" where
  "served_schedule env [] x = Some x"
| "served_schedule env (Inl i # ks) (c, pc, s, ts, n) =
    (if i < length ts
     then (case ts ! i of (q, pt) \<Rightarrow>
       (case api_continue env q pt s of (s', res) \<Rightarrow>
         served_schedule env ks (c\<lparr>rc_registrationService := ap_registrationService s'\<rparr>, pc, s', take i ts @ next_point q res @ drop (Suc i) ts,
           n + (if unanswered (ap_server s) \<and> \<not> unanswered (ap_server s') then 1 else 0))))
     else None)"
| "served_schedule env (Inr now # ks) (c, pc, s, ts, n) =
    (case invoke_step now pc c of Ret (c', pc') \<Rightarrow> served_schedule env ks (c', pc', s, ts, n) | _ \<Rightarrow> None)"

lemma served_schedule_run:
  "served_invoke c0 c pc s ts n \<Longrightarrow> served_schedule env ks (c, pc, s, ts, n) = Some (c', pc', s', ts', n') \<Longrightarrow>
    served_invoke c0 c' pc' s' ts' n'"
proof (induction ks arbitrary: c pc s ts n)
  case (Cons k ks)
  show ?case
  proof (cases k)
    case (Inl i)
    obtain q pt where q: "ts ! i = (q, pt)" by fastforce
    obtain x res where x: "api_continue env q pt s = (x, res)" by fastforce
    have i: "i < length ts" using Cons.prems(2) Inl by (simp split: if_splits)
    have "ts = take i ts @ (q, pt) # drop (Suc i) ts" using id_take_nth_drop [OF i] q by simp
    with Cons.prems(1) have "served_invoke c0 c pc s (take i ts @ (q, pt) # drop (Suc i) ts) n" by simp
    from Cons.IH [OF served_invoke.request [OF this x]] show ?thesis using Cons.prems(2) Inl i q x by simp
  next
    case (Inr now)
    then show ?thesis using Cons.prems Cons.IH [OF served_invoke.handler [OF Cons.prems(1)]]
      by (auto split: outcome.splits)
  qed
qed simp

definition thread_request :: "tid \<Rightarrow> api_request" where
  "thread_request t = sample_api_request\<lparr>rq_tid := t\<rparr>"

definition sample_threads :: "(api_request \<times> api_point) list" where
  "sample_threads = [(thread_request 7, AtReadySuspended 0), (thread_request 8, AtInternalSuspended 0 ''id''),
     (thread_request 9, AtInvocationResponse ''i1''), (thread_request 10, AtInvocationNext), (thread_request 11, AtAgentNext (Some ''id''))]"

text \<open>Both parties are released, the response is sent in four steps, the handler goes on, the runtime and then the extension
  poll again.\<close>

definition served_sample_schedule :: "(nat + ns) list" where
  "served_sample_schedule = [Inl 0, Inl 0, Inl 0, Inl 0, Inl 0, Inl 0, Inl 0, Inr 6, Inl 0, Inl 0, Inr 7, Inl 1, Inl 1, Inr 8]"

definition served_sample_end :: "served_state option" where
  "served_sample_end = served_schedule sample_api_env served_sample_schedule
     (begun_context, VAwaitResponse, sample_api (rc_registrationService begun_context), sample_threads, 0)"

lemma served_sample_result: "map_option (\<lambda>(c, pc, s, ts, n). (pc, n)) served_sample_end = Some (VReturned None, 1)"
  by code_simp

lemma begun_context_facts:
  "invoke_flow_ok (invoke_flow_of ready_context)" "rs_state (rc_registrationService ready_context) = registrationServiceOff"
  "doInvoke_begin sample_invoke 0 5 ready_context = Ret (begun_context, VAwaitResponse)"
  "points_ok (rc_registrationService begun_context) sample_threads"
  by code_simp+

definition begun_ops :: "core_op list" where
  "begun_ops = [KCreateInt ''i'' ''id'' 1, KInt (IARegister [InvokeEvent]) 1 1 0, KNewRuntime 1, KPreregister 0,
     KInt (IAReady 8) 2 2 0, KRuntime (RReady 7) 2 2 0, KTurnOff, KInvokeOp VOpInitializeBarriers, KInvokeOp (VOpSetAgentsCount 1),
     KInt (IARelease 0) 0 0 0, KRuntime (RRelease 0) 5 5 0]"

fun enabled_along :: "core_op list \<Rightarrow> reg \<Rightarrow> bool" where
  "enabled_along [] g = True"
| "enabled_along (k # ks) g = (core_enabled k g \<and> enabled_along ks (core_exec k g))"

lemma core_reach_along: "core_reach g \<Longrightarrow> enabled_along ks g \<Longrightarrow> core_reach (core_run ks g)"
  by (induction ks arbitrary: g) (simp_all add: core_reach.step)

lemma begun_context_ok: "reg_ok (rc_registrationService begun_context)"
proof -
  have "rc_registrationService begun_context = core_run begun_ops (NewRegistrationService new_flows)" by code_simp
  moreover have "enabled_along begun_ops (NewRegistrationService new_flows)" by code_simp
  ultimately show ?thesis using core_reach_ok [OF core_reach_along [OF core_reach.start]] by simp
qed

lemma served_sample_run: "\<exists>c s ts. served_invoke begun_context c (VReturned None) s ts 1"
proof -
  obtain c pc s ts n where x: "served_sample_end = Some (c, pc, s, ts, n)" "pc = VReturned None" "n = 1"
    using served_sample_result by (cases served_sample_end) auto
  have "served_invoke begun_context begun_context VAwaitResponse (sample_api (rc_registrationService begun_context)) sample_threads 0"
    using begun_context_facts(4) by (intro served_invoke.start) (simp_all add: sample_threads_def)
  from served_schedule_run [OF this, of sample_api_env served_sample_schedule] x show ?thesis
    by (auto simp: served_sample_end_def)
qed

theorem served_invoke_refines_witness:
  "\<exists>c s ts. served_invoke begun_context c (VReturned None) s ts 1 \<and> invoke_reach begun_context VAwaitResponse c (VReturned None)"
  using served_sample_run served_invoke_refines [OF begun_context_ok] by blast


definition sample_poll :: "(api_request \<times> api_point) list" where
  "sample_poll = [(sample_api_request, AtNextCall 0)]"

text \<open>A poll that arrives and finds the runtime.\<close>

lemma sample_api_reach: "core_reach g \<Longrightarrow> api_reach (sample_api g) []"
proof (induction rule: core_reach.induct)
  case start
  then show ?case by (intro api_reach.start) simp
next
  case (step g k)
  have "sample_api (core_exec k g) = (sample_api g)\<lparr>ap_registrationService := core_exec k (ap_registrationService (sample_api g))\<rparr>"
    by (simp add: sample_api_def)
  then show ?case using api_reach.core [OF step.IH, of k] step.hyps by simp
qed

lemma sample_poll_reach: "api_reach (sample_api running_reg) sample_poll"
proof -
  have "GetRuntimeRelease (ap_appCtx (sample_api running_reg)) = Some []"
    by (simp add: sample_api_def GetRuntimeRelease_def StoreResponseSender_def StoreInteropServer_def ctx_defs)
  moreover have "CreateRuntimeReleaseFromRequest \<lparr>User_Agent = [], Lambda_Runtime_Features = []\<rparr>
      (GetUserAgentFromRequest \<lparr>User_Agent = [], Lambda_Runtime_Features = []\<rparr>) = []"
    by code_simp
  ultimately have "serve False False new_writer sample_api_env sample_api_request ''GET'' [''2018-06-01'', ''runtime'', ''invocation'', ''next'']
      (sample_api running_reg) = (sample_api running_reg, Goes AtInvocationNext)"
    by (simp add: serve_def NewRouter_def RuntimeReleaseMiddleware_def UpdateAppCtxWithRuntimeRelease_def Let_def)
  from api_reach.arrive [OF sample_api_reach [OF running_reg_reach] this]
  have "api_reach (sample_api running_reg) ([] @ (sample_api_request, AtInvocationNext) # [])" by simp
  moreover have "api_continue sample_api_env sample_api_request AtInvocationNext (sample_api running_reg) =
      (sample_api running_reg, Goes (AtNextCall 0))"
    by (simp add: invocationNext_ServeHTTP_def with_runtime_def GetRuntime_def running_reg_state)
  ultimately show ?thesis using api_reach.step by (fastforce simp: sample_poll_def)
qed


end
