(* ===== verification/Running_Invoke.thy ===== *)
theory Running_Invoke
  imports App_Errors
begin

text \<open>
  One invoke of the managed-instances runtime
  (\<open>internal/lambda-managed-instances/invoke/running_invoke.go\<close>).  Three kinds of goroutines share
  a \<open>runningInvokeImpl\<close>: the one of \<open>RunInvokeAndSendResult\<close>, which sends the event to the runtime,
  waits and answers the invoker, and those of the runtime's calls \<open>RuntimeResponse\<close> and
  \<open>RuntimeError\<close>.  They meet on one atomic word and four channels of capacity one.  The model
  gives every goroutine a program counter and lets \<open>ri_step\<close> perform one atomic action (a
  compare-and-swap, a channel operation, a branch of a \<open>select\<close>) of one of them, named by an
  event; \<^const>\<open>None\<close> is an action that is not enabled, so that a goroutine none of whose actions is
  enabled blocks.  What the environment decides (the outcome of sending the event or the body, the
  expiry of the context) is an argument of the event.  Metrics, telemetry and logging are left out.
\<close>

section \<open>State\<close>

datatype response_state = stateNoResponse | stateGotResponse | stateGotError

datatype InvokeBodyResponseStatus =
    InvokeBodyResponseComplete | InvokeBodyResponseTruncated | invokeBodyResponseOversized | invokeBodyResponseTimeout

record RuntimeResponseRequest =
  rr_ParsingError :: "AppError option"
  rr_ContentType :: string
  rr_ResponseMode :: string
  rr_TrailerError :: "string option"
  rr_InvocationID :: string

record RuntimeErrorRequest =
  er_ErrorType :: string
  er_InvocationID :: string

definition GetError :: "RuntimeErrorRequest \<Rightarrow> AppError" where
  "GetError r = NewCustomerError (er_ErrorType r)"

definition IsRuntimeError :: "RuntimeErrorRequest \<Rightarrow> AppError \<Rightarrow> bool" where
  "IsRuntimeError r err =
    (if er_ErrorType r \<noteq> ae_errorType err then False
     else if ae_severity err \<noteq> ErrorSeverityError then False
     else True)"

text \<open>What \<open>InvokeResponseSender\<close> sends to the invoker.\<close>

datatype invoker_msg =
    SendRuntimeResponseHeaders string string
  | SendRuntimeResponseTrailers
  | SendError AppError
  | SendErrorTrailers string InvokeBodyResponseStatus

text \<open>Program counter of \<open>RunInvokeAndSendResult\<close>.  \<open>RunFailed\<close> and \<open>RunReturned\<close> are its two
  returns: after a failed send, and at the end.\<close>

datatype run_pc =
    RunIdle | RunSending | RunWaiting | RunBody RuntimeResponseRequest | RunDrain RuntimeErrorRequest
  | RunNotifyResponse "AppError option" | RunNotifyError "AppError option"
  | RunFailed AppError | RunReturned "AppError option"

text \<open>Program counters of a call of \<open>RuntimeResponse\<close> and of \<open>RuntimeError\<close>.\<close>

datatype resp_pc =
    RespIdle | RespCheckId RuntimeResponseRequest | RespSend RuntimeResponseRequest | RespAwait
  | RespAnswered "AppError option" | RespRejected AppError

datatype err_pc =
    ErrIdle | ErrSwap RuntimeErrorRequest | ErrSend RuntimeErrorRequest | ErrAwait RuntimeErrorRequest
  | ErrAnswered "AppError option" | ErrRejected AppError

record running_invoke =
  ri_responseState :: response_state
  ri_invokeSentChan :: bool
  ri_responseSentChan :: "AppError option option"
  ri_errorSentChan :: "AppError option option"
  ri_runtimeResponseChan :: "RuntimeResponseRequest option"
  ri_runtimeErrorChan :: "RuntimeErrorRequest option"
  ri_cancelAsync :: "ctx_cause option"
  ri_internalInvocationID :: string
  ri_timeouts :: nat
  ri_sent :: "invoker_msg list"
  ri_run :: run_pc
  ri_resp :: "tid \<Rightarrow> resp_pc"
  ri_err :: "tid \<Rightarrow> err_pc"

definition newRunningInvoke :: running_invoke where
  "newRunningInvoke =
    \<lparr>ri_responseState = stateNoResponse, ri_invokeSentChan = False, ri_responseSentChan = None,
     ri_errorSentChan = None, ri_runtimeResponseChan = None, ri_runtimeErrorChan = None,
     ri_cancelAsync = None, ri_internalInvocationID = [], ri_timeouts = 0, ri_sent = [],
     ri_run = RunIdle, ri_resp = (\<lambda>_. RespIdle), ri_err = (\<lambda>_. ErrIdle)\<rparr>"

section \<open>Actions\<close>

text \<open>A context keeps the cause of its first cancellation; a nil cause is \<open>context.Canceled\<close>.\<close>

definition cancelAsyncCtxCancel :: "ctx_cause \<Rightarrow> running_invoke \<Rightarrow> running_invoke" where
  "cancelAsyncCtxCancel c s = (if ri_cancelAsync s = None then s\<lparr>ri_cancelAsync := Some c\<rparr> else s)"

definition CancelAsync :: "AppError \<Rightarrow> running_invoke \<Rightarrow> running_invoke" where
  "CancelAsync err s = cancelAsyncCtxCancel (CauseApp err) s"

text \<open>The context of \<open>getInvokeCtx\<close> ends with the cause of the asynchronous cancellation, with the
  deadline, or with its parent.\<close>

fun invoke_ctx_done :: "ctx_cause \<Rightarrow> running_invoke \<Rightarrow> bool" where
  "invoke_ctx_done (CauseApp e) s = (ri_cancelAsync s = Some (CauseApp e))"
| "invoke_ctx_done CauseDeadline s = True"
| "invoke_ctx_done CauseOther s = True"

definition send_msgs :: "invoker_msg list \<Rightarrow> running_invoke \<Rightarrow> running_invoke" where
  "send_msgs ms s = s\<lparr>ri_sent := ri_sent s @ ms\<rparr>"

definition buildEndOfResponse :: "AppError option \<Rightarrow> InvokeBodyResponseStatus" where
  "buildEndOfResponse err =
    (case err of
       None \<Rightarrow> InvokeBodyResponseComplete
     | Some e \<Rightarrow>
         if ae_errorType e = ErrorSandboxTimedout then invokeBodyResponseTimeout
         else if ae_errorType e = ErrorRuntimeTruncatedResponse then InvokeBodyResponseTruncated
         else if ae_errorType e = ErrorFunctionOversizedResponse then invokeBodyResponseOversized
         else InvokeBodyResponseTruncated)"

definition register_timeout :: "AppError \<Rightarrow> running_invoke \<Rightarrow> running_invoke" where
  "register_timeout e s =
    (if ae_errorType e = ErrorSandboxTimedout then s\<lparr>ri_timeouts := Suc (ri_timeouts s)\<rparr> else s)"

text \<open>Beginning of \<open>RunInvokeAndSendResult\<close>, up to the call of \<open>sendInvokeToRuntime\<close>.\<close>

definition run_start :: "string \<Rightarrow> running_invoke \<Rightarrow> running_invoke option" where
  "run_start internalID s =
    (if ri_run s = RunIdle then Some (s\<lparr>ri_internalInvocationID := internalID, ri_run := RunSending\<rparr>) else None)"

text \<open>The outcome of \<open>sendInvokeToRuntime\<close>: on an error the invoker is told and the function
  returns; the deferred cancellation finds the context already cancelled.\<close>

definition run_send :: "AppError option \<Rightarrow> running_invoke \<Rightarrow> running_invoke option" where
  "run_send res s =
    (if ri_run s = RunSending then
       (case res of
          Some err \<Rightarrow>
            Some ((send_msgs [SendError err] (register_timeout err (cancelAsyncCtxCancel (CauseApp err) s)))
                    \<lparr>ri_run := RunFailed err\<rparr>)
        | None \<Rightarrow> Some (s\<lparr>ri_invokeSentChan := True, ri_run := RunWaiting\<rparr>))
     else None)"

text \<open>The three branches of the first \<open>select\<close>.\<close>

definition run_select_response :: "running_invoke \<Rightarrow> running_invoke option" where
  "run_select_response s =
    (case (ri_run s, ri_runtimeResponseChan s) of
       (RunWaiting, Some resp) \<Rightarrow>
         (let s = s\<lparr>ri_runtimeResponseChan := None\<rparr>
          in case rr_ParsingError resp of
               Some err \<Rightarrow>
                 Some ((send_msgs [SendError err] (s\<lparr>ri_responseState := stateGotError\<rparr>))
                         \<lparr>ri_run := RunNotifyResponse (Some err)\<rparr>)
             | None \<Rightarrow>
                 Some ((send_msgs [SendRuntimeResponseHeaders (rr_ContentType resp) (rr_ResponseMode resp)] s)
                         \<lparr>ri_run := RunBody resp\<rparr>))
     | _ \<Rightarrow> None)"

definition sendRuntimeError :: "RuntimeErrorRequest \<Rightarrow> running_invoke \<Rightarrow> running_invoke" where
  "sendRuntimeError e s =
    send_msgs [SendRuntimeResponseHeaders [] [], SendErrorTrailers (er_ErrorType e) InvokeBodyResponseComplete] s"

definition run_select_error :: "running_invoke \<Rightarrow> running_invoke option" where
  "run_select_error s =
    (case (ri_run s, ri_runtimeErrorChan s) of
       (RunWaiting, Some e) \<Rightarrow>
         Some ((sendRuntimeError e (s\<lparr>ri_runtimeErrorChan := None\<rparr>))
                 \<lparr>ri_run := RunNotifyResponse (Some (GetError e))\<rparr>)
     | _ \<Rightarrow> None)"

definition run_select_ctx :: "ctx_cause \<Rightarrow> string \<Rightarrow> running_invoke \<Rightarrow> running_invoke option" where
  "run_select_ctx cause msg s =
    (if ri_run s = RunWaiting \<and> invoke_ctx_done cause s then
       (let err = BuildInvokeAppError cause msg
        in Some ((send_msgs [SendError err] (register_timeout err (s\<lparr>ri_responseState := stateGotError\<rparr>)))
                   \<lparr>ri_run := RunNotifyResponse (Some err)\<rparr>))
     else None)"

text \<open>\<open>sendRuntimeResponse\<close>: the body was sent, with the given result, or an error of the runtime
  arrived meanwhile; then the sending is cancelled and drained.\<close>

definition body_done :: "AppError option \<Rightarrow> running_invoke \<Rightarrow> running_invoke option" where
  "body_done res s =
    (case ri_run s of
       RunBody resp \<Rightarrow>
         (case res of
            Some err \<Rightarrow>
              Some ((send_msgs [SendErrorTrailers (ae_errorType err) (buildEndOfResponse (Some err))] s)
                      \<lparr>ri_run := RunNotifyResponse (Some err)\<rparr>)
          | None \<Rightarrow>
              (case rr_TrailerError resp of
                 Some t \<Rightarrow>
                   Some ((send_msgs [SendErrorTrailers t InvokeBodyResponseComplete] s)
                           \<lparr>ri_run := RunNotifyResponse (Some (NewCustomerError t))\<rparr>)
               | None \<Rightarrow>
                   Some ((send_msgs [SendRuntimeResponseTrailers] s)\<lparr>ri_run := RunNotifyResponse None\<rparr>)))
     | _ \<Rightarrow> None)"

definition body_interrupted :: "running_invoke \<Rightarrow> running_invoke option" where
  "body_interrupted s =
    (case (ri_run s, ri_runtimeErrorChan s) of
       (RunBody _, Some e) \<Rightarrow> Some (s\<lparr>ri_runtimeErrorChan := None, ri_run := RunDrain e\<rparr>)
     | _ \<Rightarrow> None)"

definition body_drained :: "running_invoke \<Rightarrow> running_invoke option" where
  "body_drained s =
    (case ri_run s of
       RunDrain e \<Rightarrow>
         Some ((send_msgs [SendErrorTrailers (er_ErrorType e) InvokeBodyResponseTruncated] s)
                 \<lparr>ri_run := RunNotifyResponse (Some (GetError e))\<rparr>)
     | _ \<Rightarrow> None)"

text \<open>The two notifications at the end, each a send on a channel of capacity one, and the return
  with its deferred cancellation.\<close>

definition run_notify_response :: "running_invoke \<Rightarrow> running_invoke option" where
  "run_notify_response s =
    (case (ri_run s, ri_responseSentChan s) of
       (RunNotifyResponse err, None) \<Rightarrow> Some (s\<lparr>ri_responseSentChan := Some err, ri_run := RunNotifyError err\<rparr>)
     | _ \<Rightarrow> None)"

definition run_notify_error :: "running_invoke \<Rightarrow> running_invoke option" where
  "run_notify_error s =
    (case (ri_run s, ri_errorSentChan s) of
       (RunNotifyError err, None) \<Rightarrow>
         Some (cancelAsyncCtxCancel CauseOther (s\<lparr>ri_errorSentChan := Some err, ri_run := RunReturned err\<rparr>))
     | _ \<Rightarrow> None)"

text \<open>\<open>RuntimeResponse\<close>: compare-and-swap, check of the echoed id, send, receive.\<close>

definition resp_call :: "tid \<Rightarrow> RuntimeResponseRequest \<Rightarrow> running_invoke \<Rightarrow> running_invoke option" where
  "resp_call c req s =
    (if ri_resp s c \<noteq> RespIdle then None
     else if ri_responseState s = stateNoResponse
       then Some (s\<lparr>ri_responseState := stateGotResponse, ri_resp := (ri_resp s)(c := RespCheckId req)\<rparr>)
       else Some (s\<lparr>ri_resp := (ri_resp s)(c := RespRejected (NewCustomerError ErrorRuntimeInvokeResponseInProgress))\<rparr>))"

definition id_mismatch :: "string \<Rightarrow> running_invoke \<Rightarrow> bool" where
  "id_mismatch echoedID s =
    (echoedID \<noteq> [] \<and> ri_internalInvocationID s \<noteq> [] \<and> echoedID \<noteq> ri_internalInvocationID s)"

definition resp_check :: "tid \<Rightarrow> running_invoke \<Rightarrow> running_invoke option" where
  "resp_check c s =
    (case ri_resp s c of
       RespCheckId req \<Rightarrow>
         if id_mismatch (rr_InvocationID req) s
         then Some (s\<lparr>ri_responseState := (if ri_responseState s = stateGotResponse then stateNoResponse else ri_responseState s),
                      ri_resp := (ri_resp s)(c := RespRejected (NewCustomerError ErrorRuntimeInvokeTimeout))\<rparr>)
         else Some (s\<lparr>ri_resp := (ri_resp s)(c := RespSend req)\<rparr>)
     | _ \<Rightarrow> None)"

definition resp_send :: "tid \<Rightarrow> running_invoke \<Rightarrow> running_invoke option" where
  "resp_send c s =
    (case (ri_resp s c, ri_runtimeResponseChan s) of
       (RespSend req, None) \<Rightarrow> Some (s\<lparr>ri_runtimeResponseChan := Some req, ri_resp := (ri_resp s)(c := RespAwait)\<rparr>)
     | _ \<Rightarrow> None)"

definition resp_receive :: "tid \<Rightarrow> running_invoke \<Rightarrow> running_invoke option" where
  "resp_receive c s =
    (case (ri_resp s c, ri_responseSentChan s) of
       (RespAwait, Some err) \<Rightarrow> Some (s\<lparr>ri_responseSentChan := None, ri_resp := (ri_resp s)(c := RespAnswered err)\<rparr>)
     | _ \<Rightarrow> None)"

text \<open>\<open>RuntimeError\<close>: check of the echoed id, swap, send, receive.\<close>

definition err_call :: "tid \<Rightarrow> RuntimeErrorRequest \<Rightarrow> running_invoke \<Rightarrow> running_invoke option" where
  "err_call c req s =
    (if ri_err s c \<noteq> ErrIdle then None
     else if id_mismatch (er_InvocationID req) s
       then Some (s\<lparr>ri_err := (ri_err s)(c := ErrRejected (NewCustomerError ErrorRuntimeInvokeTimeout))\<rparr>)
       else Some (s\<lparr>ri_err := (ri_err s)(c := ErrSwap req)\<rparr>))"

definition err_swap :: "tid \<Rightarrow> running_invoke \<Rightarrow> running_invoke option" where
  "err_swap c s =
    (case ri_err s c of
       ErrSwap req \<Rightarrow>
         (let s' = s\<lparr>ri_responseState := stateGotError\<rparr>
          in if ri_responseState s = stateGotError
             then Some (s'\<lparr>ri_err := (ri_err s)(c := ErrRejected (NewCustomerError ErrorRuntimeInvokeErrorInProgress))\<rparr>)
             else Some (s'\<lparr>ri_err := (ri_err s)(c := ErrSend req)\<rparr>))
     | _ \<Rightarrow> None)"

definition err_send :: "tid \<Rightarrow> running_invoke \<Rightarrow> running_invoke option" where
  "err_send c s =
    (case (ri_err s c, ri_runtimeErrorChan s) of
       (ErrSend req, None) \<Rightarrow> Some (s\<lparr>ri_runtimeErrorChan := Some req, ri_err := (ri_err s)(c := ErrAwait req)\<rparr>)
     | _ \<Rightarrow> None)"

text \<open>The answer of \<open>RuntimeError\<close> to the runtime, given what was sent to the invoker.\<close>

definition error_reply :: "RuntimeErrorRequest \<Rightarrow> AppError option \<Rightarrow> AppError option" where
  "error_reply req sent =
    (case sent of
       None \<Rightarrow> Some (NewCustomerError ErrorRuntimeInvokeResponseWasSent)
     | Some err \<Rightarrow> if IsRuntimeError req err then None else Some err)"

definition err_receive :: "tid \<Rightarrow> running_invoke \<Rightarrow> running_invoke option" where
  "err_receive c s =
    (case (ri_err s c, ri_errorSentChan s) of
       (ErrAwait req, Some err) \<Rightarrow>
         Some (s\<lparr>ri_errorSentChan := None, ri_err := (ri_err s)(c := ErrAnswered (error_reply req err))\<rparr>)
     | _ \<Rightarrow> None)"

text \<open>\<open>RuntimeNextWait\<close>: the outcomes its \<open>select\<close> may take, none when it blocks.\<close>

definition RuntimeNextWait :: "bool \<Rightarrow> running_invoke \<Rightarrow> AppError option list" where
  "RuntimeNextWait ctx_done s =
    (if ri_invokeSentChan s then [None] else []) @
    (if ctx_done then [Some (NewCustomerError ErrorRuntimeUnknown)] else []) @
    (if ri_cancelAsync s \<noteq> None then [Some (NewCustomerError ErrorRuntimeUnknown)] else [])"

section \<open>Interleavings\<close>

datatype ri_event =
    RunStart string | RunSend "AppError option" | SelectResponse | SelectError | SelectCtx ctx_cause string
  | BodyDone "AppError option" | BodyInterrupted | BodyDrained | NotifyResponse | NotifyError
  | RespCall tid RuntimeResponseRequest | RespCheck tid | RespPut tid | RespGet tid
  | ErrCall tid RuntimeErrorRequest | ErrSwapState tid | ErrPut tid | ErrGet tid
  | Cancel AppError

fun ri_step :: "ri_event \<Rightarrow> running_invoke \<Rightarrow> running_invoke option" where
  "ri_step (RunStart i) s = run_start i s"
| "ri_step (RunSend r) s = run_send r s"
| "ri_step SelectResponse s = run_select_response s"
| "ri_step SelectError s = run_select_error s"
| "ri_step (SelectCtx c m) s = run_select_ctx c m s"
| "ri_step (BodyDone r) s = body_done r s"
| "ri_step BodyInterrupted s = body_interrupted s"
| "ri_step BodyDrained s = body_drained s"
| "ri_step NotifyResponse s = run_notify_response s"
| "ri_step NotifyError s = run_notify_error s"
| "ri_step (RespCall c q) s = resp_call c q s"
| "ri_step (RespCheck c) s = resp_check c s"
| "ri_step (RespPut c) s = resp_send c s"
| "ri_step (RespGet c) s = resp_receive c s"
| "ri_step (ErrCall c q) s = err_call c q s"
| "ri_step (ErrSwapState c) s = err_swap c s"
| "ri_step (ErrPut c) s = err_send c s"
| "ri_step (ErrGet c) s = err_receive c s"
| "ri_step (Cancel e) s = Some (CancelAsync e s)"

inductive ri_reach :: "running_invoke \<Rightarrow> bool" where
  ri_init: "ri_reach newRunningInvoke"
| ri_next: "ri_reach s \<Longrightarrow> ri_step e s = Some s' \<Longrightarrow> ri_reach s'"

inductive_cases ri_reachE: "ri_reach s"

fun ri_exec :: "ri_event list \<Rightarrow> running_invoke \<Rightarrow> running_invoke option" where
  "ri_exec [] s = Some s"
| "ri_exec (e # es) s = (case ri_step e s of None \<Rightarrow> None | Some s' \<Rightarrow> ri_exec es s')"

lemma ri_reach_exec: "ri_reach s \<Longrightarrow> ri_exec es s = Some s' \<Longrightarrow> ri_reach s'"
  by (induction es arbitrary: s) (auto split: option.splits intro: ri_next)

lemmas ri_run_defs = run_start_def run_send_def run_select_response_def run_select_error_def
  run_select_ctx_def body_done_def body_interrupted_def body_drained_def run_notify_response_def
  run_notify_error_def sendRuntimeError_def send_msgs_def register_timeout_def
  cancelAsyncCtxCancel_def CancelAsync_def

lemmas ri_call_defs = resp_call_def resp_check_def resp_send_def resp_receive_def
  err_call_def err_swap_def err_send_def err_receive_def

section \<open>Invariants\<close>

text \<open>A call of \<open>RuntimeResponse\<close> holds the response slot from its successful compare-and-swap on,
  unless it is rejected; a call of \<open>RuntimeError\<close> holds the error slot from its successful swap.\<close>

fun resp_holds :: "resp_pc \<Rightarrow> bool" where
  "resp_holds RespIdle = False"
| "resp_holds (RespRejected _) = False"
| "resp_holds _ = True"

fun err_holds :: "err_pc \<Rightarrow> bool" where
  "err_holds (ErrSend _) = True"
| "err_holds (ErrAwait _) = True"
| "err_holds (ErrAnswered _) = True"
| "err_holds _ = False"

definition slots_inv :: "running_invoke \<Rightarrow> bool" where
  "slots_inv s \<longleftrightarrow>
    (\<forall>c d. resp_holds (ri_resp s c) \<longrightarrow> resp_holds (ri_resp s d) \<longrightarrow> c = d) \<and>
    (\<forall>c. ri_responseState s = stateNoResponse \<longrightarrow> \<not> resp_holds (ri_resp s c)) \<and>
    (\<forall>c d. err_holds (ri_err s c) \<longrightarrow> err_holds (ri_err s d) \<longrightarrow> c = d) \<and>
    (\<forall>c. ri_responseState s \<noteq> stateGotError \<longrightarrow> \<not> err_holds (ri_err s c))"

lemma slots_inv_mono:
  assumes "slots_inv s"
    and "\<And>c. resp_holds (ri_resp s' c) \<Longrightarrow> resp_holds (ri_resp s c)"
    and "\<And>c. err_holds (ri_err s' c) \<Longrightarrow> err_holds (ri_err s c)"
    and "ri_responseState s' = ri_responseState s \<or> ri_responseState s' = stateGotError"
  shows "slots_inv s'"
  using assms unfolding slots_inv_def by (metis response_state.distinct(3))

lemma slots_inv_step:
  assumes "slots_inv s" "ri_step e s = Some s'"
  shows "slots_inv s'"
proof (cases e)
  case (RespCall c q)
  then show ?thesis using assms
    by (auto simp: resp_call_def slots_inv_def split: if_splits)
next
  case (RespCheck c)
  then obtain q where q: "ri_resp s c = RespCheckId q"
    using assms(2) by (auto simp: resp_check_def split: resp_pc.splits)
  have "resp_holds (ri_resp s d) \<longleftrightarrow> d = c" for d
    using assms(1) q unfolding slots_inv_def by (metis resp_holds.simps(3))
  then show ?thesis using assms RespCheck q
    by (auto simp: resp_check_def slots_inv_def split: if_splits)
next
  case (ErrSwapState c)
  then show ?thesis using assms
    by (auto simp: err_swap_def slots_inv_def Let_def split: if_splits err_pc.splits)
qed (use assms in \<open>auto elim!: slots_inv_mono simp: ri_run_defs Let_def resp_send_def resp_receive_def err_call_def
       err_send_def err_receive_def split: if_splits option.splits run_pc.splits resp_pc.splits err_pc.splits\<close>)

fun notified :: "run_pc \<Rightarrow> AppError option option" where
  "notified (RunNotifyError e) = Some e"
| "notified (RunReturned e) = Some e"
| "notified _ = None"

fun returned :: "run_pc \<Rightarrow> AppError option option" where
  "returned (RunReturned e) = Some e"
| "returned _ = None"

text \<open>The two answer channels carry the result of the run, which is either still in the channel or
  with the call that received it; a request channel is only filled by a call that now waits.\<close>

definition response_chan_inv :: "running_invoke \<Rightarrow> bool" where
  "response_chan_inv s \<longleftrightarrow>
    (\<forall>x. ri_responseSentChan s = Some x \<longrightarrow> notified (ri_run s) = Some x) \<and>
    (\<forall>c x. ri_resp s c = RespAnswered x \<longrightarrow> notified (ri_run s) = Some x) \<and>
    (notified (ri_run s) \<noteq> None \<longrightarrow> ri_responseSentChan s \<noteq> None \<or> (\<exists>c x. ri_resp s c = RespAnswered x)) \<and>
    (ri_runtimeResponseChan s \<noteq> None \<longrightarrow> (\<exists>c. ri_resp s c = RespAwait \<or> (\<exists>x. ri_resp s c = RespAnswered x)))"

definition error_chan_inv :: "running_invoke \<Rightarrow> bool" where
  "error_chan_inv s \<longleftrightarrow>
    (\<forall>x. ri_errorSentChan s = Some x \<longrightarrow> returned (ri_run s) = Some x) \<and>
    (\<forall>c y. ri_err s c = ErrAnswered y \<longrightarrow> returned (ri_run s) \<noteq> None) \<and>
    (returned (ri_run s) \<noteq> None \<longrightarrow> ri_errorSentChan s \<noteq> None \<or> (\<exists>c y. ri_err s c = ErrAnswered y)) \<and>
    (ri_runtimeErrorChan s \<noteq> None \<longrightarrow> (\<exists>c q. ri_err s c = ErrAwait q \<or> (\<exists>x. ri_err s c = ErrAnswered x)))"

lemma response_chan_inv_run:
  assumes "response_chan_inv s" "ri_resp s' = ri_resp s" "ri_responseSentChan s' = ri_responseSentChan s"
    "ri_runtimeResponseChan s' = None \<or> ri_runtimeResponseChan s' = ri_runtimeResponseChan s"
    "notified (ri_run s') = notified (ri_run s)"
  shows "response_chan_inv s'"
  using assms unfolding response_chan_inv_def by auto

lemma response_chan_inv_move:
  assumes "response_chan_inv s" "ri_resp s' = (ri_resp s)(c := p)" "ri_responseSentChan s' = ri_responseSentChan s"
    "ri_runtimeResponseChan s' = ri_runtimeResponseChan s \<or> p = RespAwait" "ri_run s' = ri_run s"
    "\<And>x. ri_resp s c \<noteq> RespAnswered x \<and> p \<noteq> RespAnswered x" "ri_resp s c \<noteq> RespAwait"
  shows "response_chan_inv s'"
  using assms unfolding response_chan_inv_def by (auto; metis)

lemma response_chan_inv_step:
  assumes "response_chan_inv s" "ri_step e s = Some s'"
  shows "response_chan_inv s'"
proof (cases e)
  case NotifyResponse
  then show ?thesis using assms
    by (auto simp: run_notify_response_def response_chan_inv_def split: run_pc.splits option.splits)
next
  case (RespGet c)
  then show ?thesis using assms
    by (auto simp: resp_receive_def response_chan_inv_def split: resp_pc.splits option.splits if_splits) metis+
next
  case (RespCall c q)
  then show ?thesis using assms
    by (auto simp: resp_call_def split: if_splits elim!: response_chan_inv_move)
next
  case (RespCheck c)
  then show ?thesis using assms
    by (auto simp: resp_check_def split: resp_pc.splits if_splits elim!: response_chan_inv_move)
next
  case (RespPut c)
  then show ?thesis using assms
    by (auto simp: resp_send_def split: resp_pc.splits option.splits elim!: response_chan_inv_move)
qed (use assms in \<open>auto elim!: response_chan_inv_run simp: ri_run_defs Let_def err_call_def err_swap_def err_send_def err_receive_def
       split: if_splits option.splits run_pc.splits err_pc.splits\<close>)

lemma error_chan_inv_run:
  assumes "error_chan_inv s" "ri_err s' = ri_err s" "ri_errorSentChan s' = ri_errorSentChan s"
    "ri_runtimeErrorChan s' = None \<or> ri_runtimeErrorChan s' = ri_runtimeErrorChan s"
    "returned (ri_run s') = returned (ri_run s)"
  shows "error_chan_inv s'"
  using assms unfolding error_chan_inv_def by auto

lemma error_chan_inv_move:
  assumes "error_chan_inv s" "ri_err s' = (ri_err s)(c := p)" "ri_errorSentChan s' = ri_errorSentChan s"
    "ri_runtimeErrorChan s' = ri_runtimeErrorChan s \<or> (\<exists>q. p = ErrAwait q)" "ri_run s' = ri_run s"
    "\<And>x. ri_err s c \<noteq> ErrAnswered x \<and> p \<noteq> ErrAnswered x" "\<And>q. ri_err s c \<noteq> ErrAwait q"
  shows "error_chan_inv s'"
  using assms unfolding error_chan_inv_def by (auto; metis)

lemma error_chan_inv_step:
  assumes "error_chan_inv s" "ri_step e s = Some s'"
  shows "error_chan_inv s'"
proof (cases e)
  case NotifyError
  then show ?thesis using assms
    by (auto simp: run_notify_error_def cancelAsyncCtxCancel_def error_chan_inv_def split: run_pc.splits option.splits) blast+
next
  case (ErrGet c)
  then show ?thesis using assms
    by (auto simp: err_receive_def error_chan_inv_def split: err_pc.splits option.splits if_splits)
next
  case (ErrCall c q)
  then show ?thesis using assms
    by (auto simp: err_call_def split: if_splits elim!: error_chan_inv_move)
next
  case (ErrSwapState c)
  then show ?thesis using assms
    by (auto simp: err_swap_def Let_def split: err_pc.splits if_splits elim!: error_chan_inv_move)
next
  case (ErrPut c)
  then show ?thesis using assms
    by (auto simp: err_send_def split: err_pc.splits option.splits elim!: error_chan_inv_move)
qed (use assms in \<open>auto elim!: error_chan_inv_run simp: ri_run_defs Let_def resp_call_def resp_check_def resp_send_def resp_receive_def
       split: if_splits option.splits run_pc.splits resp_pc.splits\<close>)

text \<open>A complete answer to the invoker: an error, a response with its trailers, or a response (or an
  empty one) that ends with error trailers; \<open>err\<close> is what the run reports.\<close>

fun complete_answer :: "invoker_msg list \<Rightarrow> AppError option \<Rightarrow> bool" where
  "complete_answer [SendError e] err = (err = Some e)"
| "complete_answer [SendRuntimeResponseHeaders _ _, SendRuntimeResponseTrailers] err = (err = None)"
| "complete_answer [SendRuntimeResponseHeaders _ _, SendErrorTrailers t _] err =
    (case err of Some e \<Rightarrow> ae_errorType e = t | None \<Rightarrow> False)"
| "complete_answer _ _ = False"

fun headers_only :: "invoker_msg list \<Rightarrow> bool" where
  "headers_only [SendRuntimeResponseHeaders _ _] = True"
| "headers_only _ = False"

fun answer_for :: "run_pc \<Rightarrow> invoker_msg list \<Rightarrow> bool" where
  "answer_for (RunBody _) ms = headers_only ms"
| "answer_for (RunDrain _) ms = headers_only ms"
| "answer_for (RunNotifyResponse err) ms = complete_answer ms err"
| "answer_for (RunNotifyError err) ms = complete_answer ms err"
| "answer_for (RunReturned err) ms = complete_answer ms err"
| "answer_for (RunFailed e) ms = (ms = [SendError e])"
| "answer_for _ ms = (ms = [])"

definition answer_ok :: "running_invoke \<Rightarrow> bool" where
  "answer_ok s = answer_for (ri_run s) (ri_sent s)"

lemma headers_only_iff: "headers_only ms \<longleftrightarrow> (\<exists>a b. ms = [SendRuntimeResponseHeaders a b])"
  by (cases ms rule: headers_only.cases) auto

definition call_event :: "ri_event \<Rightarrow> bool" where
  "call_event e = (case e of RespCall _ _ \<Rightarrow> True | RespCheck _ \<Rightarrow> True | RespPut _ \<Rightarrow> True | RespGet _ \<Rightarrow> True
     | ErrCall _ _ \<Rightarrow> True | ErrSwapState _ \<Rightarrow> True | ErrPut _ \<Rightarrow> True | ErrGet _ \<Rightarrow> True | Cancel _ \<Rightarrow> True | _ \<Rightarrow> False)"

lemma call_event_run:
  assumes "call_event e" "ri_step e s = Some s'"
  shows "ri_run s' = ri_run s \<and> ri_sent s' = ri_sent s"
  using assms
  by (cases e) (auto simp: call_event_def ri_call_defs CancelAsync_def cancelAsyncCtxCancel_def Let_def
      split: if_splits option.splits resp_pc.splits err_pc.splits)

lemma answer_ok_step:
  assumes "answer_ok s" "ri_step e s = Some s'"
  shows "answer_ok s'"
proof (cases "call_event e")
  case True
  then show ?thesis using assms call_event_run [OF True assms(2)] by (simp add: answer_ok_def)
next
  case False
  then show ?thesis using assms unfolding answer_ok_def
    by (cases e) (auto simp: call_event_def ri_run_defs Let_def headers_only_iff GetError_def NewCustomerError_def
        split: if_splits option.splits run_pc.splits)
qed

lemma ri_invariants:
  assumes "ri_reach s"
  shows "slots_inv s" "response_chan_inv s" "error_chan_inv s" "answer_ok s"
proof -
  have "slots_inv s \<and> response_chan_inv s \<and> error_chan_inv s \<and> answer_ok s"
    using assms
  proof (induction rule: ri_reach.induct)
    case ri_init
    show ?case by (simp add: newRunningInvoke_def slots_inv_def response_chan_inv_def error_chan_inv_def answer_ok_def)
  next
    case (ri_next s e s')
    then show ?case
      using slots_inv_step response_chan_inv_step error_chan_inv_step answer_ok_step by blast
  qed
  then show "slots_inv s" "response_chan_inv s" "error_chan_inv s" "answer_ok s" by auto
qed

section \<open>What the invoker and the runtime are told\<close>

text \<open>C27: an invoke is answered exactly once.  In every interleaving of the run with any
  number of responses, errors and cancellations, at most one response and one error of the runtime
  are accepted; nothing is sent before the runtime answered or the context ended; and when the run
  has returned, the invoker was sent exactly one complete answer, which agrees with the error the
  run reports: an error, a response with its trailers, or headers with error trailers.\<close>

theorem invoke_answered_exactly_once:
  assumes "ri_reach s"
  shows "(case ri_run s of
            RunReturned err \<Rightarrow> complete_answer (ri_sent s) err
          | RunFailed e \<Rightarrow> ri_sent s = [SendError e]
          | RunWaiting \<Rightarrow> ri_sent s = [] | RunSending \<Rightarrow> ri_sent s = [] | RunIdle \<Rightarrow> ri_sent s = []
          | _ \<Rightarrow> True) \<and>
         (\<forall>c d. resp_holds (ri_resp s c) \<longrightarrow> resp_holds (ri_resp s d) \<longrightarrow> c = d) \<and>
         (\<forall>c d. err_holds (ri_err s c) \<longrightarrow> err_holds (ri_err s d) \<longrightarrow> c = d)"
proof -
  note inv = ri_invariants [OF assms]
  have "case ri_run s of RunReturned err \<Rightarrow> complete_answer (ri_sent s) err
          | RunFailed e \<Rightarrow> ri_sent s = [SendError e]
          | RunWaiting \<Rightarrow> ri_sent s = [] | RunSending \<Rightarrow> ri_sent s = [] | RunIdle \<Rightarrow> ri_sent s = []
          | _ \<Rightarrow> True"
    using inv(4) by (cases "ri_run s") (simp_all add: answer_ok_def)
  then show ?thesis using inv(1) by (simp add: slots_inv_def)
qed

definition sample_response :: RuntimeResponseRequest where
  "sample_response = \<lparr>rr_ParsingError = None, rr_ContentType = ''json'', rr_ResponseMode = [], rr_TrailerError = None, rr_InvocationID = ''x''\<rparr>"

definition sample_run :: "ri_event list" where
  "sample_run = [RunStart ''x'', RespCall 0 sample_response, RunSend None, RespCall 1 sample_response, RespCheck 0, RespPut 0,
     SelectResponse, ErrCall 0 \<lparr>er_ErrorType = ''Function.E'', er_InvocationID = ''y''\<rparr>, BodyDone None, NotifyResponse, NotifyError]"

lemma sample_run_reaches:
  "\<exists>s. ri_exec sample_run newRunningInvoke = Some s \<and> ri_run s = RunReturned None \<and> ri_resp s 0 = RespAwait"
  by (simp add: sample_run_def newRunningInvoke_def ri_run_defs ri_call_defs Let_def sample_response_def id_mismatch_def)

theorem invoke_answered_exactly_once_witness:
  "\<exists>s. ri_exec sample_run newRunningInvoke = Some s \<and> ri_run s = RunReturned None \<and> complete_answer (ri_sent s) None \<and>
       (\<forall>c d. resp_holds (ri_resp s c) \<longrightarrow> resp_holds (ri_resp s d) \<longrightarrow> c = d)"
proof -
  obtain s where s: "ri_exec sample_run newRunningInvoke = Some s" "ri_run s = RunReturned None"
    using sample_run_reaches by blast
  have "ri_reach s" using ri_reach_exec [OF ri_init s(1)] .
  from invoke_answered_exactly_once [OF this] s show ?thesis by (intro exI [of _ s]) simp
qed

text \<open>C33: the calls of the runtime do not deadlock with the run.  In every reachable state the
  sends on the channels of capacity one find room, the run's two notifications included, and once
  the run has returned at its end every accepted call that still waits can receive: the response
  call gets the error of the run, and the error call is told that its error was sent, that another
  error was, or that a response was.\<close>

theorem running_invoke_calls_never_stuck:
  assumes "ri_reach s"
  shows "(\<forall>c q. ri_resp s c = RespSend q \<longrightarrow> resp_send c s \<noteq> None) \<and>
         (\<forall>c q. ri_err s c = ErrSend q \<longrightarrow> err_send c s \<noteq> None) \<and>
         (\<forall>x. ri_run s = RunNotifyResponse x \<longrightarrow> run_notify_response s \<noteq> None) \<and>
         (\<forall>x. ri_run s = RunNotifyError x \<longrightarrow> run_notify_error s \<noteq> None) \<and>
         (\<forall>c x. ri_resp s c = RespAwait \<longrightarrow> ri_run s = RunReturned x \<longrightarrow>
            (\<exists>s'. resp_receive c s = Some s' \<and> ri_resp s' c = RespAnswered x)) \<and>
         (\<forall>c q x. ri_err s c = ErrAwait q \<longrightarrow> ri_run s = RunReturned x \<longrightarrow>
            (\<exists>s'. err_receive c s = Some s' \<and> ri_err s' c = ErrAnswered (error_reply q x)))"
proof (intro conjI allI impI)
  note inv = ri_invariants [OF assms]
  have one: "d = c" if "resp_holds (ri_resp s c)" "ri_resp s d = RespAwait \<or> (\<exists>x. ri_resp s d = RespAnswered x)" for c d
    using inv(1) that unfolding slots_inv_def by (metis resp_holds.simps(5,6))
  have one_err: "d = c" if "err_holds (ri_err s c)" "(\<exists>q. ri_err s d = ErrAwait q) \<or> (\<exists>x. ri_err s d = ErrAnswered x)" for c d
    using inv(1) that unfolding slots_inv_def by (metis err_holds.simps(2,3))
  show "resp_send c s \<noteq> None" if p: "ri_resp s c = RespSend q" for c q
  proof -
    have "ri_runtimeResponseChan s = None"
      using inv(2) one [of c] p unfolding response_chan_inv_def
      by (metis resp_holds.simps(4) resp_pc.distinct(19,21))
    then show ?thesis using p by (simp add: resp_send_def)
  qed
  show "err_send c s \<noteq> None" if p: "ri_err s c = ErrSend q" for c q
  proof -
    have "ri_runtimeErrorChan s = None"
      using inv(3) one_err [of c] p unfolding error_chan_inv_def
      by (metis err_holds.simps(1) err_pc.distinct(19,21))
    then show ?thesis using p by (simp add: err_send_def)
  qed
  show "run_notify_response s \<noteq> None" if "ri_run s = RunNotifyResponse x" for x
    using inv(2) that by (auto simp: response_chan_inv_def run_notify_response_def split: option.splits)
  show "run_notify_error s \<noteq> None" if "ri_run s = RunNotifyError x" for x
    using inv(3) that by (auto simp: error_chan_inv_def run_notify_error_def split: option.splits)
  show "\<exists>s'. resp_receive c s = Some s' \<and> ri_resp s' c = RespAnswered x"
    if p: "ri_resp s c = RespAwait" "ri_run s = RunReturned x" for c x
  proof -
    have "ri_resp s d \<noteq> RespAnswered y" for d y using one [of c d] p(1) by (cases "d = c") auto
    then have "ri_responseSentChan s = Some x" using inv(2) p(2) unfolding response_chan_inv_def
      by (metis notified.simps(2) option.exhaust option.distinct(1))
    then show ?thesis using p by (simp add: resp_receive_def)
  qed
  show "\<exists>s'. err_receive c s = Some s' \<and> ri_err s' c = ErrAnswered (error_reply q x)"
    if p: "ri_err s c = ErrAwait q" "ri_run s = RunReturned x" for c q x
  proof -
    have "ri_err s d \<noteq> ErrAnswered y" for d y using one_err [of c d] p(1) by (cases "d = c") auto
    then have "ri_errorSentChan s = Some x" using inv(3) p(2) unfolding error_chan_inv_def
      by (metis returned.simps(1) option.exhaust option.distinct(1))
    then show ?thesis using p by (simp add: err_receive_def)
  qed
qed

theorem running_invoke_calls_never_stuck_witness:
  "\<exists>s s'. ri_exec sample_run newRunningInvoke = Some s \<and> resp_receive 0 s = Some s' \<and> ri_resp s' 0 = RespAnswered None"
proof -
  obtain s where s: "ri_exec sample_run newRunningInvoke = Some s" "ri_run s = RunReturned None" "ri_resp s 0 = RespAwait"
    using sample_run_reaches by blast
  have "ri_reach s" using ri_reach_exec [OF ri_init s(1)] .
  from running_invoke_calls_never_stuck [OF this] s show ?thesis by blast
qed

text \<open>After the failed return the run is over, and nobody else writes the answer channel.\<close>

lemma failed_run_step:
  assumes "ri_run s = RunFailed e" "ri_responseSentChan s = None" "ri_resp s c = RespAwait" "ri_step ev s = Some s'"
  shows "ri_run s' = RunFailed e \<and> ri_responseSentChan s' = None \<and> ri_resp s' c = RespAwait"
  using assms
  by (cases ev) (auto simp: ri_run_defs ri_call_defs Let_def
      split: if_splits option.splits resp_pc.splits err_pc.splits)

lemma failed_run_exec:
  assumes "ri_run s = RunFailed e" "ri_responseSentChan s = None" "ri_resp s c = RespAwait" "ri_exec es s = Some s'"
  shows "ri_run s' = RunFailed e \<and> ri_responseSentChan s' = None \<and> ri_resp s' c = RespAwait"
  using assms
proof (induction es arbitrary: s)
  case (Cons ev es)
  obtain s1 where s1: "ri_step ev s = Some s1" "ri_exec es s1 = Some s'"
    using Cons.prems(4) by (auto split: option.splits)
  then show ?case using failed_run_step [OF Cons.prems(1-3) s1(1)] Cons.IH [of s1] by simp
qed simp

text \<open>A response accepted before sending the event failed is never answered.  The runtime may
  answer as soon as it has the headers; when the event's payload then cannot be sent to the end (a
  timeout, or a reset by the client) the run returns without writing the answer channel, and the
  runtime's call waits for ever, whatever happens afterwards.\<close>

theorem failed_send_strands_response:
  assumes "ri_reach s" and "ri_run s = RunFailed e" and "ri_resp s c = RespAwait"
    and "ri_exec es s = Some s'"
  shows "ri_resp s' c = RespAwait \<and> resp_receive c s' = None"
proof -
  have "ri_responseSentChan s = None"
    using ri_invariants(2) [OF assms(1)] assms(2)
    by (cases "ri_responseSentChan s") (auto simp: response_chan_inv_def)
  from failed_run_exec [OF assms(2) this assms(3,4)] show ?thesis by (simp add: resp_receive_def)
qed

theorem failed_send_strands_response_witness:
  "\<exists>s s'. ri_exec [RunStart ''x'', RespCall 0 sample_response, RespCheck 0, RespPut 0,
       RunSend (Some (NewCustomerError ErrorSandboxTimedout))] newRunningInvoke = Some s \<and>
     ri_exec [Cancel (NewCustomerError ErrorRuntimeUnknown)] s = Some s' \<and>
     ri_resp s' 0 = RespAwait \<and> resp_receive 0 s' = None"
proof -
  obtain s where s: "ri_exec [RunStart ''x'', RespCall 0 sample_response, RespCheck 0, RespPut 0,
       RunSend (Some (NewCustomerError ErrorSandboxTimedout))] newRunningInvoke = Some s"
     "ri_run s = RunFailed (NewCustomerError ErrorSandboxTimedout)" "ri_resp s 0 = RespAwait"
    by (simp add: newRunningInvoke_def ri_run_defs ri_call_defs Let_def sample_response_def id_mismatch_def)
  obtain s' where s': "ri_exec [Cancel (NewCustomerError ErrorRuntimeUnknown)] s = Some s'" by simp
  from failed_send_strands_response [OF ri_reach_exec [OF ri_init s(1)] s(2,3) s'] s(1) s' show ?thesis by blast
qed

end
