(* ===== verification/Raptor_App.thy ===== *)
theory Raptor_App
  imports App_Errors
begin

text \<open>
  The life cycle of the managed-instances process
  (\<open>internal/lambda-managed-instances/raptor/app.go\<close> and \<open>raptor/internal/raptor_state.go\<close>): the
  state guard with its transition table, and the \<open>App\<close> whose \<open>Init\<close>, \<open>Invoke\<close>, \<open>ReserveIdleRuntime\<close>,
  \<open>Shutdown\<close> and health check consult it.  \<open>Status\<close> is an integer as in the code.  \<open>Init\<close> and the
  body of \<open>Shutdown\<close>, which \<open>sync.Once\<close> runs at most once, are split at their blocking calls; the
  outcomes of the sandbox (\<open>HandleInit\<close>, \<open>HandleShutdown\<close>) are arguments of the actions.  Closing a
  closed channel panics, which the flag \<open>app_panicked\<close> records.
\<close>

section \<open>State guard\<close>

type_synonym Status = int

definition Idle :: Status where "Idle = 0"
definition Initializing :: Status where "Initializing = 1"
definition Initialized :: Status where "Initialized = 2"
definition ShuttingDown :: Status where "ShuttingDown = 3"
definition Shutdown :: Status where "Shutdown = 4"

lemmas status_defs = Idle_def Initializing_def Initialized_def ShuttingDown_def Shutdown_def

definition Status_String :: "Status \<Rightarrow> string" where
  "Status_String s =
    (if s = Idle then ''Idle'' else if s = Initializing then ''Initializing''
     else if s = Initialized then ''Initialized'' else if s = ShuttingDown then ''ShuttingDown''
     else if s = Shutdown then ''Shutdown'' else ''Status('' @ int_dec s @ '')'')"

definition NewInvalidTransitionError :: "Status \<Rightarrow> Status \<Rightarrow> string" where
  "NewInvalidTransitionError from_state to_state =
    ''invalid state transition: from '' @ Status_String from_state @ '' to '' @ Status_String to_state"

definition isValidTransition :: "Status \<Rightarrow> Status \<Rightarrow> bool" where
  "isValidTransition from_state to_state =
    (if to_state = Idle then True
     else if from_state = Idle then to_state = Initializing \<or> to_state = ShuttingDown
     else if from_state = Initializing then to_state = Initialized \<or> to_state = ShuttingDown
     else if from_state = Initialized then to_state = ShuttingDown
     else if from_state = ShuttingDown then to_state = Shutdown
     else if from_state = Shutdown then False
     else False)"

record StateGuard =
  sg_current :: Status

definition NewStateGuard :: StateGuard where
  "NewStateGuard = \<lparr>sg_current = 0\<rparr>"

definition sg_GetState :: "StateGuard \<Rightarrow> Status" where
  "sg_GetState sm = sg_current sm"

definition sg_SetState :: "Status \<Rightarrow> StateGuard \<Rightarrow> string option \<times> StateGuard" where
  "sg_SetState state sm =
    (if \<not> isValidTransition (sg_current sm) state
     then (Some (NewInvalidTransitionError (sg_current sm) state), sm)
     else (None, sm\<lparr>sg_current := state\<rparr>))"

lemma status_distinct [simp]:
  "Idle \<noteq> Initializing" "Idle \<noteq> Initialized" "Idle \<noteq> ShuttingDown" "Idle \<noteq> Shutdown"
  "Initializing \<noteq> Idle" "Initializing \<noteq> Initialized" "Initializing \<noteq> ShuttingDown" "Initializing \<noteq> Shutdown"
  "Initialized \<noteq> Idle" "Initialized \<noteq> Initializing" "Initialized \<noteq> ShuttingDown" "Initialized \<noteq> Shutdown"
  "ShuttingDown \<noteq> Idle" "ShuttingDown \<noteq> Initializing" "ShuttingDown \<noteq> Initialized" "ShuttingDown \<noteq> Shutdown"
  "Shutdown \<noteq> Idle" "Shutdown \<noteq> Initializing" "Shutdown \<noteq> Initialized" "Shutdown \<noteq> ShuttingDown"
  by (simp_all add: status_defs)

lemma sg_SetState_cases:
  "sg_SetState Initializing sm =
    (if sg_current sm = Idle then (None, \<lparr>sg_current = Initializing\<rparr>)
     else (Some (NewInvalidTransitionError (sg_current sm) Initializing), sm))"
  "sg_SetState Initialized sm =
    (if sg_current sm = Initializing then (None, \<lparr>sg_current = Initialized\<rparr>)
     else (Some (NewInvalidTransitionError (sg_current sm) Initialized), sm))"
  "sg_SetState ShuttingDown sm =
    (if sg_current sm = Idle \<or> sg_current sm = Initializing \<or> sg_current sm = Initialized
     then (None, \<lparr>sg_current = ShuttingDown\<rparr>)
     else (Some (NewInvalidTransitionError (sg_current sm) ShuttingDown), sm))"
  "sg_SetState Shutdown sm =
    (if sg_current sm = ShuttingDown then (None, \<lparr>sg_current = Shutdown\<rparr>)
     else (Some (NewInvalidTransitionError (sg_current sm) Shutdown), sm))"
  by (simp_all add: sg_SetState_def isValidTransition_def)

section \<open>The application\<close>

datatype init_pc =
    InitIdle | InitHandle | InitWaitShutdown AppError | InitReturned "AppError option"

datatype shutdown_pc = ShutdownIdle | ShutdownBegun "AppError option" | ShutdownHandle | ShutdownDone

record App =
  app_state :: StateGuard
  app_err :: "AppError option"
  app_done :: bool
  app_started :: bool
  app_panicked :: bool
  app_once :: shutdown_pc
  app_init :: "tid \<Rightarrow> init_pc"

definition StartApp :: App where
  "StartApp = \<lparr>app_state = NewStateGuard, app_err = None, app_done = False, app_started = False,
     app_panicked = False, app_once = ShutdownIdle, app_init = (\<lambda>_. InitIdle)\<rparr>"

text \<open>\<open>Init\<close>: up to \<open>HandleInit\<close>, after its result, and the wait for the shutdown it has started.\<close>

definition Init_call :: "tid \<Rightarrow> App \<Rightarrow> App option" where
  "Init_call c a =
    (if app_init a c \<noteq> InitIdle then None
     else case sg_SetState Initializing (app_state a) of
            (Some _, sm) \<Rightarrow>
              Some (a\<lparr>app_state := sm,
                      app_init := (app_init a)(c := InitReturned (Some (NewClientError ErrorSeverityFatal ErrorInvalidRequest)))\<rparr>)
          | (None, sm) \<Rightarrow> Some (a\<lparr>app_state := sm, app_init := (app_init a)(c := InitHandle)\<rparr>))"

definition Init_handled :: "tid \<Rightarrow> AppError option \<Rightarrow> App \<Rightarrow> App option" where
  "Init_handled c initErr a =
    (if app_init a c \<noteq> InitHandle then None
     else case initErr of
            Some e \<Rightarrow> Some (a\<lparr>app_init := (app_init a)(c := InitWaitShutdown e)\<rparr>)
          | None \<Rightarrow>
              (case sg_SetState Initialized (app_state a) of
                 (Some _, sm) \<Rightarrow>
                   Some (a\<lparr>app_state := sm,
                           app_init := (app_init a)(c := InitReturned (Some (NewClientError ErrorSeverityFatal ErrorInvalidRequest)))\<rparr>)
               | (None, sm) \<Rightarrow> Some (a\<lparr>app_state := sm, app_init := (app_init a)(c := InitReturned None)\<rparr>)))"

definition Init_wait :: "tid \<Rightarrow> App \<Rightarrow> App option" where
  "Init_wait c a =
    (case app_init a c of
       InitWaitShutdown e \<Rightarrow>
         if app_started a then Some (a\<lparr>app_init := (app_init a)(c := InitReturned (Some e))\<rparr>) else None
     | _ \<Rightarrow> None)"

text \<open>\<open>Shutdown\<close>: the function given to \<open>Once.Do\<close> sets the state, stores the reason and closes the
  first channel, and after \<open>HandleShutdown\<close> sets the state again and closes the second.  Any later
  call only waits for the first.\<close>

definition Shutdown_call :: "AppError option \<Rightarrow> App \<Rightarrow> App option" where
  "Shutdown_call reason a =
    (if app_once a \<noteq> ShutdownIdle then Some a
     else case sg_SetState ShuttingDown (app_state a) of
            (Some _, sm) \<Rightarrow> Some (a\<lparr>app_state := sm, app_once := ShutdownDone\<rparr>)
          | (None, sm) \<Rightarrow> Some (a\<lparr>app_state := sm, app_once := ShutdownBegun reason\<rparr>))"

definition close_started :: "App \<Rightarrow> App" where
  "close_started a = (if app_started a then a\<lparr>app_panicked := True\<rparr> else a\<lparr>app_started := True\<rparr>)"

definition close_done :: "App \<Rightarrow> App" where
  "close_done a = (if app_done a then a\<lparr>app_panicked := True\<rparr> else a\<lparr>app_done := True\<rparr>)"

definition Shutdown_store :: "App \<Rightarrow> App option" where
  "Shutdown_store a =
    (case app_once a of
       ShutdownBegun reason \<Rightarrow>
         Some ((close_started (if reason \<noteq> None then a\<lparr>app_err := reason\<rparr> else a))\<lparr>app_once := ShutdownHandle\<rparr>)
     | _ \<Rightarrow> None)"

definition Shutdown_finish :: "App \<Rightarrow> App option" where
  "Shutdown_finish a =
    (case app_once a of
       ShutdownHandle \<Rightarrow>
         Some ((close_done (a\<lparr>app_state := snd (sg_SetState Shutdown (app_state a))\<rparr>))\<lparr>app_once := ShutdownDone\<rparr>)
     | _ \<Rightarrow> None)"

text \<open>The requests gated by the state: \<open>Proceed\<close> hands over to the sandbox or the invoke router,
  and an unknown state panics.\<close>

datatype gate_result = Proceed | Refused AppError | GatePanic

definition App_Invoke :: "App \<Rightarrow> gate_result" where
  "App_Invoke a =
    (let currState = sg_GetState (app_state a)
     in if currState = Initialized then Proceed
        else if currState = Idle \<or> currState = Initializing
          then Refused (NewClientError ErrorSeverityError ErrorInitIncomplete)
        else if currState = ShuttingDown \<or> currState = Shutdown
          then Refused (NewClientError ErrorSeverityFatal ErrorEnvironmentUnhealthy)
        else GatePanic)"

definition App_ReserveIdleRuntime :: "bool \<Rightarrow> App \<Rightarrow> gate_result" where
  "App_ReserveIdleRuntime has_router a =
    (let currState = sg_GetState (app_state a)
     in if currState = Initialized
          then (if \<not> has_router then Refused (NewClientError ErrorSeverityError ErrorInitIncomplete) else Proceed)
        else if currState = Idle \<or> currState = Initializing
          then Refused (NewClientError ErrorSeverityError ErrorInitIncomplete)
        else if currState = ShuttingDown \<or> currState = Shutdown
          then Refused (NewClientError ErrorSeverityFatal ErrorEnvironmentUnhealthy)
        else GatePanic)"

datatype HealthCheckResponse = HealthyContainerResponse | UnhealthyContainerResponse string | HealthPanic

definition HandleHealthCheck :: "App \<Rightarrow> HealthCheckResponse" where
  "HandleHealthCheck a =
    (let currState = sg_GetState (app_state a)
     in if currState = Idle \<or> currState = Initializing \<or> currState = Initialized then HealthyContainerResponse
        else if currState = ShuttingDown \<or> currState = Shutdown
          then UnhealthyContainerResponse (case app_err a of Some e \<Rightarrow> ae_errorType e | None \<Rightarrow> [])
        else HealthPanic)"

section \<open>Interleavings\<close>

datatype app_event =
    AInit tid | AInitHandled tid "AppError option" | AInitWait tid
  | AShutdown "AppError option" | AShutdownStore | AShutdownFinish

fun app_step :: "app_event \<Rightarrow> App \<Rightarrow> App option" where
  "app_step (AInit c) a = Init_call c a"
| "app_step (AInitHandled c r) a = Init_handled c r a"
| "app_step (AInitWait c) a = Init_wait c a"
| "app_step (AShutdown r) a = Shutdown_call r a"
| "app_step AShutdownStore a = Shutdown_store a"
| "app_step AShutdownFinish a = Shutdown_finish a"

fun app_exec :: "app_event list \<Rightarrow> App \<Rightarrow> App option" where
  "app_exec [] a = Some a"
| "app_exec (e # es) a = (case app_step e a of None \<Rightarrow> None | Some a' \<Rightarrow> app_exec es a')"

inductive app_reach :: "App \<Rightarrow> bool" where
  app_start: "app_reach StartApp"
| app_next: "app_reach a \<Longrightarrow> app_step e a = Some a' \<Longrightarrow> app_reach a'"

lemmas app_defs = Init_call_def Init_handled_def Init_wait_def Shutdown_call_def Shutdown_store_def
  Shutdown_finish_def close_started_def close_done_def sg_SetState_cases

lemma app_reach_exec: "app_reach a \<Longrightarrow> app_exec es a = Some a' \<Longrightarrow> app_reach a'"
  by (induction es arbitrary: a) (auto split: option.splits intro: app_next)

text \<open>The state says how far the shutdown is; before it, the state says how far the single
  initialization is.\<close>

fun accepted_init :: "init_pc \<Rightarrow> bool" where
  "accepted_init InitHandle = True"
| "accepted_init (InitWaitShutdown _) = True"
| "accepted_init (InitReturned None) = True"
| "accepted_init _ = False"

definition shutdown_inv :: "App \<Rightarrow> bool" where
  "shutdown_inv a =
    (\<not> app_panicked a \<and>
     (case app_once a of
        ShutdownIdle \<Rightarrow> sg_current (app_state a) \<in> {Idle, Initializing, Initialized} \<and> \<not> app_started a \<and> \<not> app_done a
      | ShutdownBegun _ \<Rightarrow> sg_current (app_state a) = ShuttingDown \<and> \<not> app_started a \<and> \<not> app_done a
      | ShutdownHandle \<Rightarrow> sg_current (app_state a) = ShuttingDown \<and> app_started a \<and> \<not> app_done a
      | ShutdownDone \<Rightarrow> sg_current (app_state a) = Shutdown \<and> app_started a \<and> app_done a))"

definition init_inv :: "App \<Rightarrow> bool" where
  "init_inv a \<longleftrightarrow>
    (\<forall>c d. accepted_init (app_init a c) \<longrightarrow> accepted_init (app_init a d) \<longrightarrow> c = d) \<and>
    (sg_current (app_state a) = Idle \<longrightarrow> (\<forall>c. \<not> accepted_init (app_init a c))) \<and>
    (sg_current (app_state a) = Initialized \<longrightarrow> (\<exists>c. app_init a c = InitReturned None))"

lemma shutdown_inv_step:
  assumes "shutdown_inv a" "app_step e a = Some a'"
  shows "shutdown_inv a'"
proof (cases e)
  case (AShutdown r)
  then show ?thesis using assms
    by (auto simp: shutdown_inv_def Shutdown_call_def sg_SetState_cases split: if_splits shutdown_pc.splits)
next
  case AShutdownStore
  then show ?thesis using assms
    by (auto simp: shutdown_inv_def Shutdown_store_def close_started_def split: if_splits shutdown_pc.splits)
next
  case AShutdownFinish
  then show ?thesis using assms
    by (auto simp: shutdown_inv_def Shutdown_finish_def close_done_def sg_SetState_cases split: if_splits shutdown_pc.splits)
qed (use assms in \<open>auto simp: shutdown_inv_def Init_call_def Init_handled_def Init_wait_def sg_SetState_cases
      split: if_splits shutdown_pc.splits option.splits init_pc.splits\<close>)

lemma init_inv_step:
  assumes "init_inv a" "shutdown_inv a" "app_step e a = Some a'"
  shows "init_inv a'"
proof (cases e)
  case (AInit c)
  then show ?thesis using assms
    by (auto simp: init_inv_def Init_call_def sg_SetState_cases split: if_splits) force
next
  case (AInitHandled c r)
  then have ih: "app_init a c = InitHandle" using assms(3) by (auto simp: Init_handled_def split: if_splits)
  have one: "accepted_init (app_init a d) \<longleftrightarrow> d = c" for d
    using assms(1) ih unfolding init_inv_def by (metis accepted_init.simps(1))
  have "app_init a d \<noteq> InitReturned None" for d using one [of d] ih by auto
  then have "sg_current (app_state a) \<noteq> Idle" "sg_current (app_state a) \<noteq> Initialized"
    using assms(1) one unfolding init_inv_def by blast+
  then show ?thesis using assms(3) AInitHandled ih one
    by (auto simp: init_inv_def Init_handled_def sg_SetState_cases split: if_splits option.splits)
next
  case (AInitWait c)
  then show ?thesis using assms
    by (auto simp: init_inv_def Init_wait_def shutdown_inv_def split: if_splits init_pc.splits shutdown_pc.splits)
qed (use assms in \<open>auto simp: init_inv_def shutdown_inv_def Shutdown_call_def Shutdown_store_def Shutdown_finish_def
      close_started_def close_done_def sg_SetState_cases split: if_splits shutdown_pc.splits\<close>)

lemma app_invariants:
  assumes "app_reach a"
  shows "shutdown_inv a" "init_inv a"
proof -
  have "shutdown_inv a \<and> init_inv a"
    using assms
  proof (induction rule: app_reach.induct)
    case app_start
    show ?case by (simp add: StartApp_def NewStateGuard_def shutdown_inv_def init_inv_def status_defs)
  next
    case (app_next a e a')
    then show ?case using shutdown_inv_step init_inv_step by blast
  qed
  then show "shutdown_inv a" "init_inv a" by auto
qed

lemma once_stays: "app_once a \<noteq> ShutdownIdle \<Longrightarrow> app_step e a = Some a' \<Longrightarrow> app_once a' \<noteq> ShutdownIdle"
  by (cases e) (auto simp: Init_call_def Init_handled_def Init_wait_def Shutdown_call_def Shutdown_store_def
      Shutdown_finish_def split: if_splits option.splits init_pc.splits shutdown_pc.splits prod.splits)

lemma once_stays_exec: "app_once a \<noteq> ShutdownIdle \<Longrightarrow> app_exec es a = Some a' \<Longrightarrow> app_once a' \<noteq> ShutdownIdle"
  by (induction es arbitrary: a) (auto split: option.splits dest: once_stays)


text \<open>Shutdown is final.  From the moment a \<open>Shutdown\<close> has begun, in every continuation
  invokes and reservations are refused as unhealthy, the health check reports an unhealthy container,
  and when the end of the shutdown is signalled the state is Shutdown.\<close>

theorem app_shutdown_is_final:
  assumes "app_reach a" and "app_once a \<noteq> ShutdownIdle" and "app_exec es a = Some a'"
  shows "App_Invoke a' = Refused (NewClientError ErrorSeverityFatal ErrorEnvironmentUnhealthy) \<and>
         App_ReserveIdleRuntime r a' = Refused (NewClientError ErrorSeverityFatal ErrorEnvironmentUnhealthy) \<and>
         HandleHealthCheck a' = UnhealthyContainerResponse (case app_err a' of Some e \<Rightarrow> ae_errorType e | None \<Rightarrow> []) \<and>
         (app_done a' \<longrightarrow> sg_GetState (app_state a') = Shutdown)"
proof -
  have "shutdown_inv a'" using app_invariants(1) [OF app_reach_exec [OF assms(1,3)]] .
  moreover have "app_once a' \<noteq> ShutdownIdle" using once_stays_exec [OF assms(2,3)] .
  ultimately have "sg_current (app_state a') = (if app_done a' then Shutdown else ShuttingDown)"
    by (auto simp: shutdown_inv_def split: shutdown_pc.splits)
  then show ?thesis
    by (simp add: App_Invoke_def App_ReserveIdleRuntime_def HandleHealthCheck_def sg_GetState_def Let_def)
qed

lemma sample_app_run:
  "\<exists>a. app_exec [AInit 0, AInitHandled 0 None, AInit 1] StartApp = Some a \<and> App_Invoke a = Proceed"
  by (simp add: StartApp_def NewStateGuard_def Init_call_def Init_handled_def sg_SetState_def isValidTransition_def
      status_defs App_Invoke_def sg_GetState_def)


theorem app_shutdown_is_final_witness:
  "\<exists>a a'. app_exec [AInit 0, AShutdown None] StartApp = Some a \<and>
     app_exec [AInitHandled 0 None, AShutdownStore, AShutdownFinish] a = Some a' \<and>
     App_Invoke a' = Refused (NewClientError ErrorSeverityFatal ErrorEnvironmentUnhealthy) \<and>
     sg_GetState (app_state a') = Shutdown"
proof -
  obtain a where a: "app_exec [AInit 0, AShutdown None] StartApp = Some a" "app_once a \<noteq> ShutdownIdle"
    "\<exists>a'. app_exec [AInitHandled 0 None, AShutdownStore, AShutdownFinish] a = Some a' \<and> app_done a'"
    by (simp add: StartApp_def NewStateGuard_def Init_call_def Init_handled_def Shutdown_call_def
        Shutdown_store_def Shutdown_finish_def close_started_def close_done_def sg_SetState_def
        isValidTransition_def status_defs)
  then obtain a' where a': "app_exec [AInitHandled 0 None, AShutdownStore, AShutdownFinish] a = Some a'" "app_done a'" by blast
  from app_shutdown_is_final [OF app_reach_exec [OF app_start a(1)] a(2) a'(1), of True] a(1) a' show ?thesis by blast
qed

end
