(* ===== verification/Server_Invoke.thy ===== *)
theory Server_Invoke
  imports Rapid_Server
begin

text \<open>
  \<open>Invoke\<close> of the server (\<open>internal/lambda/rapidcore/server.go\<close>) as the interleaved steps of its goroutines: the caller, the
  timer, the goroutine that reserves the server and waits for its release, the one that waits for the initialization and calls
  \<open>FastInvoke\<close>, the one in which \<open>FastInvoke\<close> waits for the sandbox, and the goroutines of resets, whose results come over one
  shared channel.  The runtime's calls and resets from elsewhere are steps of the environment.  A panic ends the process.
\<close>

section \<open>State\<close>

datatype caller_pc = CSelect | CReset | CDrain | CReturned "go_error option"
datatype timer_pc = TArmed | TFired | TOver
datatype release_pc = RNever | RReserve | RAwait | RReset go_error | RErr go_error | ROk | RDone
datatype fast_pc = FIdle | FAwait | FShutdown | FBegin | FWait | FOver
datatype result_pc = QIdle | QWait | QSend DoneWithState | QOver

record serve_invoke =
  si_server :: Server
  si_invoke :: Invoke
  si_writer :: ref
  si_main :: caller_pc
  si_timer :: timer_pc
  si_release :: release_pc
  si_fast :: fast_pc
  si_result :: result_pc
  si_resets :: nat
  si_resetDone :: "Done list"
  si_external :: nat
  si_crashed :: bool

definition Invoke_start :: "ref \<Rightarrow> Invoke \<Rightarrow> Server \<Rightarrow> serve_invoke" where
  "Invoke_start responseWriter invoke s =
    (let started = (getInitFailuresChan s \<noteq> None)
     in \<lparr>si_server = s, si_invoke = invoke, si_writer = responseWriter,
         si_main = (if started then CSelect else CReturned (Some ErrInitNotStarted)), si_timer = TArmed,
         si_release = (if started then RReserve else RNever), si_fast = FIdle, si_result = QIdle,
         si_resets = 0, si_resetDone = [], si_external = 0, si_crashed = False\<rparr>)"

definition crash :: "serve_invoke \<Rightarrow> serve_invoke" where
  "crash t = t\<lparr>si_crashed := True\<rparr>"

section \<open>Steps\<close>

text \<open>The caller.  A reset is started, its goroutine runs, and its end is received from the channel.\<close>

definition main_timeout :: "serve_invoke \<Rightarrow> serve_invoke option" where
  "main_timeout t =
    (if si_main t = CSelect \<and> si_timer t = TFired
     then Some (t\<lparr>si_main := CReset, si_timer := TOver, si_resets := si_resets t + 1\<rparr>) else None)"

definition main_reset_end :: "serve_invoke \<Rightarrow> serve_invoke option" where
  "main_reset_end t =
    (case (si_main t, si_resetDone t) of
       (CReset, d # ds) \<Rightarrow> Some (t\<lparr>si_server := fst (reset_end d (si_server t)), si_resetDone := ds, si_main := CDrain\<rparr>)
     | _ \<Rightarrow> None)"

definition main_release :: "serve_invoke \<Rightarrow> serve_invoke option" where
  "main_release t =
    (case (si_main t, si_release t) of
       (CSelect, RErr e) \<Rightarrow> Some (t\<lparr>si_main := CReturned (Some e), si_release := RDone\<rparr>)
     | (CSelect, ROk) \<Rightarrow> Some (t\<lparr>si_server := fst (server_Release (si_server t)), si_main := CReturned None, si_release := RDone\<rparr>)
     | (CDrain, RErr e) \<Rightarrow> Some (t\<lparr>si_main := CReturned (Some ErrInvokeTimeout), si_release := RDone\<rparr>)
     | (CDrain, ROk) \<Rightarrow> Some (t\<lparr>si_main := CReturned (Some ErrInvokeTimeout), si_release := RDone\<rparr>)
     | _ \<Rightarrow> None)"

fun is_returned :: "caller_pc \<Rightarrow> bool" where
  "is_returned (CReturned r) = True"
| "is_returned _ = False"

definition timer_fires :: "serve_invoke \<Rightarrow> serve_invoke option" where
  "timer_fires t = (if si_timer t = TArmed \<and> \<not> is_returned (si_main t) then Some (t\<lparr>si_timer := TFired\<rparr>) else None)"

text \<open>The goroutine that reserves the server; a reservation that fails has no response, which is then dereferenced.\<close>

definition release_reserve :: "string \<Rightarrow> string \<Rightarrow> int \<Rightarrow> serve_invoke \<Rightarrow> serve_invoke option" where
  "release_reserve uuid1 uuid2 now t =
    (if si_release t \<noteq> RReserve then None
     else case Reserve uuid1 uuid2 (iv_ID (si_invoke t)) (iv_TraceID (si_invoke t)) (iv_LambdaSegmentID (si_invoke t)) (si_server t) of
            (s, None, er) \<Rightarrow> Some (crash t)
          | (s, Some token, er) \<Rightarrow>
              Some (t\<lparr>si_server := s, si_invoke := (si_invoke t)\<lparr>iv_DeadlineNs := int_dec (wrap64 (now + tk_FunctionTimeout token))\<rparr>,
                      si_release := RAwait, si_fast := FAwait\<rparr>))"

definition release_await :: "bool \<Rightarrow> serve_invoke \<Rightarrow> serve_invoke option" where
  "release_await takeDone t =
    (if si_release t \<noteq> RAwait then None
     else case AwaitRelease takeDone (si_server t) of
            Blocks \<Rightarrow> None
          | Panics m \<Rightarrow> Some (crash t)
          | Ret (s, r) \<Rightarrow>
              let t = t\<lparr>si_server := s\<rparr>
              in Some (case r of
                         Inr _ \<Rightarrow> t\<lparr>si_release := ROk\<rparr>
                       | Inl e \<Rightarrow>
                           if e = ErrReleaseReservationDone then t\<lparr>si_release := ROk\<rparr>
                           else if e = ErrInitDoneFailed \<or> e = ErrInvokeDoneFailed
                           then t\<lparr>si_release := RReset e, si_resets := si_resets t + 1\<rparr>
                           else t\<lparr>si_release := RErr e\<rparr>))"

definition release_reset_end :: "serve_invoke \<Rightarrow> serve_invoke option" where
  "release_reset_end t =
    (case (si_release t, si_resetDone t) of
       (RReset e, d # ds) \<Rightarrow> Some (t\<lparr>si_server := fst (reset_end d (si_server t)), si_resetDone := ds, si_release := RErr e\<rparr>)
     | _ \<Rightarrow> None)"

text \<open>The goroutine of the fast path; \<open>text\<close> is the text of an error.\<close>

definition fast_await :: "(go_error \<Rightarrow> string) \<Rightarrow> serve_invoke \<Rightarrow> serve_invoke option" where
  "fast_await text t =
    (if si_fast t \<noteq> FAwait then None
     else case awaitInitialized (si_server t) of
            Ret (s, Some (errType, errMsg), Some er) \<Rightarrow>
              let resp = \<lparr>eir_ContentType = [], eir_FunctionResponseMode = [],
                          eir_FunctionError = \<lparr>fe_Type = errType, fe_Message = text errMsg\<rparr>, eir_Payload = []\<rparr>;
                  s = (if sv_cachedInitErrorResponse s = None then setCachedInitErrorResponse resp s else s)
              in Some (t\<lparr>si_server := s, si_fast := FShutdown\<rparr>)
          | Ret (s, _) \<Rightarrow> Some (t\<lparr>si_server := s, si_fast := FBegin\<rparr>)
          | _ \<Rightarrow> None)"

definition fast_shutdown :: "serve_invoke \<Rightarrow> serve_invoke option" where
  "fast_shutdown t =
    (if si_fast t = FShutdown then Some (t\<lparr>si_server := server_Shutdown (si_server t), si_fast := FBegin\<rparr>) else None)"

definition fast_begin :: "bool \<Rightarrow> serve_invoke \<Rightarrow> serve_invoke option" where
  "fast_begin alreadySent t =
    (if si_fast t \<noteq> FBegin then None
     else case FastInvoke_begin (si_writer t) False alreadySent (si_invoke t) (si_server t) of
            (s, Inl er) \<Rightarrow> Some (t\<lparr>si_server := s, si_fast := FOver\<rparr>)
          | (s, Inr i) \<Rightarrow> Some (t\<lparr>si_server := s, si_invoke := i, si_fast := FWait, si_result := QWait\<rparr>))"

definition fast_end :: "InvokeResponseMetrics option \<Rightarrow> serve_invoke \<Rightarrow> serve_invoke option" where
  "fast_end received t =
    (if si_fast t \<noteq> FWait then None
     else case FastInvoke_end received (si_invoke t) (si_server t) of
            Ret (s, i, er) \<Rightarrow> Some (t\<lparr>si_server := s, si_invoke := i, si_fast := FOver\<rparr>) | _ \<Rightarrow> None)"

text \<open>Its inner goroutine, with the result of the sandbox: the default error response is sent, then the message.\<close>

definition result_received :: "InternalStateDescription \<Rightarrow> send_env \<Rightarrow> InvokeFailure + InvokeSuccess \<Rightarrow> serve_invoke \<Rightarrow> serve_invoke option" where
  "result_received st env r t =
    (if si_result t \<noteq> QWait then None
     else if \<not> sv_invoker (si_server t) then Some (t\<lparr>si_result := QSend \<lparr>dws_Done = None, dws_State = st\<rparr>\<rparr>)
     else case r of
            Inr success \<Rightarrow> Some (t\<lparr>si_result := QSend \<lparr>dws_Done = Some (doneFromInvokeSuccess success), dws_State = st\<rparr>\<rparr>)
          | Inl f \<Rightarrow>
              if vf_ResetReceived f then Some (t\<lparr>si_result := QOver\<rparr>)
              else (case vf_DefaultErrorResponse f of
                      None \<Rightarrow> Some (crash t)
                    | Some dflt \<Rightarrow>
                       (case trySendDefaultErrorResponse
                               (case sv_cachedInitErrorResponse (si_server t) of Some cached \<Rightarrow> cached | None \<Rightarrow> dflt) env (si_server t) of
                          Ret (s, m) \<Rightarrow>
                            Some (t\<lparr>si_server := s, si_result := QSend
                              \<lparr>dws_Done = Some \<lparr>dn_WaitForExit = False, dn_ErrorType = df_ErrorType (doneFailFromInvokeFailure f),
                                               dn_Meta = df_Meta (doneFailFromInvokeFailure f)\<rparr>, dws_State = st\<rparr>\<rparr>)
                        | _ \<Rightarrow> Some (crash t))))"

definition result_send :: "serve_invoke \<Rightarrow> serve_invoke option" where
  "result_send t =
    (case si_result t of
       QSend dws \<Rightarrow>
         (case send_InvokeDone dws (si_server t) of
            Ret s \<Rightarrow> Some (t\<lparr>si_server := (if dws_Done dws = None then setRuntimeState runtimeInvokeComplete s else s), si_result := QOver\<rparr>)
          | _ \<Rightarrow> None)
     | _ \<Rightarrow> None)"

text \<open>The goroutine of a reset, and a reset from elsewhere.\<close>

definition reset_runs :: "Reset_msg \<Rightarrow> ResetResult \<Rightarrow> serve_invoke \<Rightarrow> serve_invoke option" where
  "reset_runs reset result t =
    (if si_resets t = 0 then None
     else case reset_goroutine reset result (si_server t) of
            Ret (s, d) \<Rightarrow> Some (t\<lparr>si_server := s, si_resets := si_resets t - 1, si_resetDone := si_resetDone t @ [d]\<rparr>)
          | Panics m \<Rightarrow> Some (crash t) | Blocks \<Rightarrow> None)"

definition external_reset :: "serve_invoke \<Rightarrow> serve_invoke option" where
  "external_reset t = Some (t\<lparr>si_resets := si_resets t + 1, si_external := si_external t + 1\<rparr>)"

definition external_reset_end :: "serve_invoke \<Rightarrow> serve_invoke option" where
  "external_reset_end t =
    (case si_resetDone t of
       d # ds \<Rightarrow> if si_external t > 0
                then Some (t\<lparr>si_server := fst (reset_end d (si_server t)), si_resetDone := ds, si_external := si_external t - 1\<rparr>) else None
     | [] \<Rightarrow> None)"

datatype serve_op =
    VTimer | VTimeout | VResetEnd | VRelease | VReserve string string int | VAwait bool | VReleaseReset
  | VFastAwait "go_error \<Rightarrow> string" | VFastShutdown | VFastBegin bool | VFastEnd "InvokeResponseMetrics option"
  | VResult InternalStateDescription send_env "InvokeFailure + InvokeSuccess" | VResultSend
  | VResetRuns Reset_msg ResetResult | VExternal | VExternalEnd | VCall server_op

fun is_reserve :: "server_op \<Rightarrow> bool" where
  "is_reserve (SoReserve _ _ _ _ _) = True"
| "is_reserve _ = False"

fun serve_exec :: "serve_op \<Rightarrow> serve_invoke \<Rightarrow> serve_invoke option" where
  "serve_exec VTimer t = timer_fires t"
| "serve_exec VTimeout t = main_timeout t"
| "serve_exec VResetEnd t = main_reset_end t"
| "serve_exec VRelease t = main_release t"
| "serve_exec (VReserve u1 u2 now) t = release_reserve u1 u2 now t"
| "serve_exec (VAwait b) t = release_await b t"
| "serve_exec VReleaseReset t = release_reset_end t"
| "serve_exec (VFastAwait f) t = fast_await f t"
| "serve_exec VFastShutdown t = fast_shutdown t"
| "serve_exec (VFastBegin b) t = fast_begin b t"
| "serve_exec (VFastEnd m) t = fast_end m t"
| "serve_exec (VResult st env r) t = result_received st env r t"
| "serve_exec VResultSend t = result_send t"
| "serve_exec (VResetRuns m r) t = reset_runs m r t"
| "serve_exec VExternal t = external_reset t"
| "serve_exec VExternalEnd t = external_reset_end t"
| "serve_exec (VCall op) t = (if is_reserve op then None else Some (t\<lparr>si_server := server_exec op (si_server t)\<rparr>))"

text \<open>The runs of one invocation: no other one is made meanwhile.\<close>

inductive serve_reach :: "serve_invoke \<Rightarrow> serve_invoke \<Rightarrow> bool" for t0 where
  start: "serve_reach t0 t0"
| step: "serve_reach t0 t \<Longrightarrow> \<not> si_crashed t \<Longrightarrow> serve_exec k t = Some t' \<Longrightarrow> serve_reach t0 t'"

section \<open>What the operations of the server keep\<close>

text \<open>A cancelled reservation is gone, and no operation but \<open>Reserve\<close> makes one.\<close>

definition reservation_ok :: "Server \<Rightarrow> bool" where
  "reservation_ok s = (sv_reservationCancelled s = Some True \<longrightarrow> sv_invokeCtx s = None)"

definition makes_no_reservation :: "Server \<Rightarrow> Server \<Rightarrow> bool" where
  "makes_no_reservation s s' = ((sv_invokeCtx s = None \<longrightarrow> sv_invokeCtx s' = None) \<and> (reservation_ok s \<longrightarrow> reservation_ok s'))"

lemma no_reservation_trans: "makes_no_reservation a b \<Longrightarrow> makes_no_reservation b c \<Longrightarrow> makes_no_reservation a c"
  by (auto simp: makes_no_reservation_def)

lemma no_reservation_frame:
  "sv_invokeCtx s' = sv_invokeCtx s \<Longrightarrow> sv_reservationCancelled s' = sv_reservationCancelled s \<Longrightarrow> makes_no_reservation s s'"
  by (simp add: makes_no_reservation_def reservation_ok_def)

lemma Release_frees: "sv_invokeCtx (fst (server_Release s)) = None" "makes_no_reservation s (fst (server_Release s))"
  by (auto simp: server_Release_def makes_no_reservation_def reservation_ok_def split: option.splits)

lemma sendResponseUnsafe_no_reservation: "makes_no_reservation s (fst (sendResponseUnsafe i h p t c env s))"
proof -
  have "sv_reservationCancelled (fst (sendResponseUnsafe i h p t c env s)) = sv_reservationCancelled s"
    by (auto simp: sendResponseUnsafe_def Let_def split: option.splits prod.splits)
  then show ?thesis using sendResponseUnsafe_ctx [of i h p t c env s] by (auto simp: makes_no_reservation_def reservation_ok_def)
qed

lemma setReplyStream_no_reservation: "makes_no_reservation s (fst (setReplyStream w d s))"
  by (auto simp: setReplyStream_def makes_no_reservation_def reservation_ok_def split: option.splits)

lemma server_exec_no_reservation: "\<not> is_reserve op \<Longrightarrow> makes_no_reservation s (server_exec op s)"
  by (cases op) (simp_all add: setReplyStream_no_reservation Release_frees sendResponseUnsafe_no_reservation,
      auto intro!: no_reservation_frame simp: server_op_defs Let_def split: option.splits outcome.splits if_splits)

lemma reset_end_frees: "sv_invokeCtx (fst (reset_end d s)) = None" "makes_no_reservation s (fst (reset_end d s))"
  using Release_frees by (simp_all add: reset_end_def Let_def)

lemma reset_goroutine_no_reservation: "reset_goroutine m r s = Ret (s', d) \<Longrightarrow> makes_no_reservation s s'"
  using Release_frees(2) [of "s\<lparr>sv_InvokeDoneChan := []\<rparr>"]
  by (auto simp: reset_goroutine_def server_Clear_def drainChannel_def makes_no_reservation_def reservation_ok_def setRuntimeState_def
      setRapidPhase_def split: outcome.splits)

lemma AwaitRelease_result:
  assumes "AwaitRelease b s = Ret (s', r)" "reservation_ok s"
  shows "makes_no_reservation s s'" "r \<in> {Inl ErrInitDoneFailed, Inl ErrInvokeDoneFailed} \<or> sv_invokeCtx s' = None \<and>
    (r = Inl ErrReleaseReservationDone \<or> (\<exists>x. r = Inr x))"
  using assms Release_frees
  by (auto simp: AwaitRelease_def release_result_def setRuntimeState_def setRapidPhase_def makes_no_reservation_def reservation_ok_def
      split: option.splits list.splits if_splits prod.splits)

lemma drain_all_not_Blocks: "drain_all ds \<noteq> Blocks"
  by (induction ds) auto

lemma AwaitRelease_Blocks: "AwaitRelease b s = Blocks \<Longrightarrow> sv_reservationCancelled s = Some False \<and> sv_InvokeDoneChan s = []"
  by (auto simp: AwaitRelease_def split: option.splits list.splits if_splits prod.splits)

lemma awaitInitialized_no_reservation: "awaitInitialized s = Ret (s', r) \<Longrightarrow> makes_no_reservation s s'"
  by (auto intro!: no_reservation_frame simp: awaitInitialized_def setRuntimeState_def Let_def split: option.splits if_splits)

lemma FastInvoke_begin_no_reservation: "makes_no_reservation s (fst (FastInvoke_begin w d a i s))"
  using setReplyStream_no_reservation [of s w d]
  by (auto simp: FastInvoke_begin_def setRapidPhase_def makes_no_reservation_def reservation_ok_def Let_def split: prod.splits sum.splits)

lemma trySend_no_reservation: "trySendDefaultErrorResponse resp env s = Ret (s', m) \<Longrightarrow> makes_no_reservation s s'"
proof -
  assume a: "trySendDefaultErrorResponse resp env s = Ret (s', m)"
  have "s' = fst (SendErrorResponse (GetCurrentInvokeID s) resp env s)"
    using a by (auto simp: trySendDefaultErrorResponse_def split: prod.splits option.splits if_splits)
  then show ?thesis
    using no_reservation_trans [OF no_reservation_frame sendResponseUnsafe_no_reservation, of "setRuntimeState runtimeInvokeError s" s]
    by (simp add: SendErrorResponse_def setRuntimeState_def)
qed

section \<open>Results of an invocation\<close>

definition release_failures :: "go_error set" where
  "release_failures = {ErrInitDoneFailed, ErrInvokeDoneFailed}"

fun release_pc_ok :: "bool \<Rightarrow> release_pc \<Rightarrow> bool" where
  "release_pc_ok free RNever = False"
| "release_pc_ok free (RReset e) = (e \<in> release_failures)"
| "release_pc_ok free (RErr e) = (e \<in> release_failures \<and> free)"
| "release_pc_ok free ROk = free"
| "release_pc_ok free RDone = free"
| "release_pc_ok free _ = True"

fun main_pc_ok :: "timer_pc \<Rightarrow> release_pc \<Rightarrow> caller_pc \<Rightarrow> bool" where
  "main_pc_ok tm rel (CReturned r) = (rel = RDone \<and> r \<in> {None, Some ErrInvokeTimeout} \<union> Some ` release_failures)"
| "main_pc_ok tm rel CSelect = (rel \<noteq> RDone \<and> tm \<noteq> TOver)"
| "main_pc_ok tm rel _ = (rel \<noteq> RDone)"

fun resetting :: "release_pc \<Rightarrow> bool" where
  "resetting (RReset e) = True"
| "resetting _ = False"

definition waiters :: "serve_invoke \<Rightarrow> nat" where
  "waiters t = of_bool (si_main t = CReset) + of_bool (resetting (si_release t)) + si_external t"

definition serve_ok :: "serve_invoke \<Rightarrow> bool" where
  "serve_ok t =
    (reservation_ok (si_server t) \<and> release_pc_ok (sv_invokeCtx (si_server t) = None) (si_release t) \<and>
     main_pc_ok (si_timer t) (si_release t) (si_main t) \<and> waiters t = si_resets t + length (si_resetDone t))"

text \<open>A step that changes only the server, without making a reservation, keeps the invariant.\<close>

lemma serve_ok_server: "serve_ok t \<Longrightarrow> makes_no_reservation (si_server t) s \<Longrightarrow> serve_ok (t\<lparr>si_server := s\<rparr>)"
  by (cases "si_release t") (simp_all add: serve_ok_def makes_no_reservation_def waiters_def)

lemma serve_ok_cong:
  "serve_ok t \<Longrightarrow> si_server t' = si_server t \<Longrightarrow> si_release t' = si_release t \<Longrightarrow> si_main t' = si_main t \<Longrightarrow> si_timer t' = si_timer t \<Longrightarrow>
    si_resets t' = si_resets t \<Longrightarrow> si_resetDone t' = si_resetDone t \<Longrightarrow> si_external t' = si_external t \<Longrightarrow> serve_ok t'"
  by (simp add: serve_ok_def waiters_def)

lemma serve_ok_quiet:
  assumes "serve_ok t" "makes_no_reservation (si_server t) (si_server t')" "si_release t' = si_release t" "si_main t' = si_main t"
    "si_timer t' = si_timer t" "si_resets t' = si_resets t" "si_resetDone t' = si_resetDone t" "si_external t' = si_external t"
  shows "serve_ok t'"
  using serve_ok_cong [OF serve_ok_server [OF assms(1,2)], of t'] assms(3-) by simp

lemma serve_ok_main:
  assumes "serve_ok t"
  shows "pred_option serve_ok (main_timeout t)" "pred_option serve_ok (timer_fires t)" "pred_option serve_ok (external_reset t)"
proof -
  show "pred_option serve_ok (main_timeout t)" using assms by (cases "si_main t") (auto simp: main_timeout_def serve_ok_def waiters_def)
  show "pred_option serve_ok (timer_fires t)" using assms by (cases "si_main t") (simp_all add: timer_fires_def serve_ok_def waiters_def)
  show "pred_option serve_ok (external_reset t)" using assms by (simp add: external_reset_def serve_ok_def waiters_def)
qed

lemma serve_ok_main_release: "serve_ok t \<Longrightarrow> pred_option serve_ok (main_release t)"
  using Release_frees [of "si_server t"]
  by (cases "si_main t"; cases "si_release t") (simp_all add: main_release_def serve_ok_def waiters_def makes_no_reservation_def)

lemma serve_ok_reset_ends:
  assumes "serve_ok t"
  shows "pred_option serve_ok (main_reset_end t)" "pred_option serve_ok (release_reset_end t)" "pred_option serve_ok (external_reset_end t)"
proof -
  have s: "serve_ok (t\<lparr>si_server := fst (reset_end d (si_server t))\<rparr>)" "sv_invokeCtx (fst (reset_end d (si_server t))) = None" for d
    using serve_ok_server [OF assms reset_end_frees(2)] reset_end_frees(1) by simp_all
  show "pred_option serve_ok (main_reset_end t)" using s
    by (cases "si_main t"; cases "si_resetDone t") (simp_all add: main_reset_end_def serve_ok_def waiters_def)
  show "pred_option serve_ok (release_reset_end t)" using s
    by (cases "si_release t"; cases "si_resetDone t"; cases "si_main t") (simp_all add: release_reset_end_def serve_ok_def waiters_def)
  show "pred_option serve_ok (external_reset_end t)" using s
    by (cases "si_resetDone t") (simp_all add: external_reset_end_def serve_ok_def waiters_def)
qed

lemma serve_ok_crash: "serve_ok t \<Longrightarrow> serve_ok (crash t)"
  by (simp add: crash_def serve_ok_def waiters_def)

lemma serve_ok_reserve: "serve_ok t \<Longrightarrow> pred_option serve_ok (release_reserve u1 u2 now t)"
proof (cases "si_release t = RReserve \<and> sv_invokeCtx (si_server t) = None")
  case True
  assume "serve_ok t"
  then show ?thesis using True
    by (cases "si_main t") (simp_all add: release_reserve_def Reserve_def setNewInvokeContext_def Let_def serve_ok_def waiters_def reservation_ok_def)
next
  case False
  assume "serve_ok t"
  then show ?thesis using False
    by (auto simp: release_reserve_def Reserve_def setNewInvokeContext_def Let_def serve_ok_crash)
qed

lemma serve_ok_await: "serve_ok t \<Longrightarrow> pred_option serve_ok (release_await b t)"
proof (cases "si_release t = RAwait")
  case True
  assume ok: "serve_ok t"
  show ?thesis
  proof (cases "AwaitRelease b (si_server t)")
    case (Ret p)
    obtain s r where p: "p = (s, r)" by force
    have res: "reservation_ok (si_server t)" using ok by (simp add: serve_ok_def)
    note a = AwaitRelease_result [OF Ret [unfolded p] res]
    have s: "serve_ok (t\<lparr>si_server := s\<rparr>)" using serve_ok_server [OF ok a(1)] .
    have ne: "ErrInitDoneFailed \<noteq> ErrReleaseReservationDone" "ErrInvokeDoneFailed \<noteq> ErrReleaseReservationDone"
      by (simp_all add: ErrInitDoneFailed_def ErrInvokeDoneFailed_def ErrReleaseReservationDone_def)
    show ?thesis using a(2) s True ne
      by (cases "si_main t") (auto simp: release_await_def Ret p Let_def serve_ok_def waiters_def release_failures_def)
  qed (simp_all add: release_await_def serve_ok_crash ok)
qed (simp add: release_await_def)

lemma serve_ok_fast:
  assumes "serve_ok t"
  shows "pred_option serve_ok (fast_await f t)" "pred_option serve_ok (fast_shutdown t)" "pred_option serve_ok (fast_begin b t)"
    "pred_option serve_ok (fast_end m t)"
proof -
  show "pred_option serve_ok (fast_await f t)"
  proof (cases "awaitInitialized (si_server t)")
    case (Ret p)
    obtain s resp er where p: "p = (s, resp, er)" using prod_cases3 by blast
    have s: "makes_no_reservation (si_server t) s" using awaitInitialized_no_reservation Ret p by blast
    have c: "makes_no_reservation (si_server t) (setCachedInitErrorResponse r s)" for r
      using no_reservation_trans [OF s no_reservation_frame] by (simp add: setCachedInitErrorResponse_def)
    show ?thesis
      by (cases resp; cases er)
        (auto intro!: serve_ok_quiet [OF assms] s c simp: fast_await_def Ret p Let_def)
  qed (simp_all add: fast_await_def)
  show "pred_option serve_ok (fast_shutdown t)"
    by (auto intro!: serve_ok_quiet [OF assms] no_reservation_frame simp: fast_shutdown_def server_Shutdown_def setRuntimeState_def setRapidPhase_def)
  show "pred_option serve_ok (fast_begin b t)"
    using FastInvoke_begin_no_reservation [of "si_server t" "si_writer t" False b "si_invoke t"]
    by (auto intro!: serve_ok_quiet [OF assms] simp: fast_begin_def split: prod.splits sum.splits)
  show "pred_option serve_ok (fast_end m t)"
    by (auto intro!: serve_ok_quiet [OF assms] no_reservation_frame simp: fast_end_def FastInvoke_end_def split: outcome.splits option.splits if_splits)
qed

lemma serve_ok_results:
  assumes "serve_ok t"
  shows "pred_option serve_ok (result_received st env r t)" "pred_option serve_ok (result_send t)" "pred_option serve_ok (reset_runs m x t)"
proof -
  have q: "serve_ok (t\<lparr>si_result := x\<rparr>)" for x by (rule serve_ok_cong [OF assms]) simp_all
  show "pred_option serve_ok (result_received st env r t)"
  proof (cases r)
    case (Inl f)
    show ?thesis
    proof (cases "vf_DefaultErrorResponse f")
      case None
      then show ?thesis using q [of QOver] q [of "QSend \<lparr>dws_Done = None, dws_State = st\<rparr>"]
        by (simp add: result_received_def Inl serve_ok_crash assms)
    next
      case (Some dflt)
      let ?reply = "trySendDefaultErrorResponse (case sv_cachedInitErrorResponse (si_server t) of Some cached \<Rightarrow> cached | None \<Rightarrow> dflt)
        env (si_server t)"
      show ?thesis
      proof (cases ?reply)
        case (Ret p)
        obtain s m where p: "p = (s, m)" by force
        have "serve_ok (t\<lparr>si_server := s, si_result := x\<rparr>)" for x
          using serve_ok_quiet [OF assms, of "t\<lparr>si_server := s, si_result := x\<rparr>"] trySend_no_reservation [OF Ret [unfolded p]] by simp
        then show ?thesis using q Ret by (simp add: result_received_def Inl Some p)
      qed (use q in \<open>simp_all add: result_received_def Inl Some serve_ok_crash assms\<close>)
    qed
  qed (use q in \<open>simp add: result_received_def\<close>)
  show "pred_option serve_ok (result_send t)"
    by (auto intro!: serve_ok_quiet [OF assms] no_reservation_frame simp: result_send_def send_InvokeDone_def setRuntimeState_def
        split: result_pc.splits outcome.splits if_splits)
  show "pred_option serve_ok (reset_runs m x t)"
  proof (cases "reset_goroutine m x (si_server t)")
    case (Ret p)
    obtain s d where p: "p = (s, d)" by force
    have "serve_ok (t\<lparr>si_server := s\<rparr>)" using serve_ok_server [OF assms reset_goroutine_no_reservation] Ret p by blast
    then show ?thesis by (auto simp: reset_runs_def Ret p serve_ok_def waiters_def)
  qed (simp_all add: reset_runs_def serve_ok_crash assms)
qed

lemma serve_ok_step: "serve_ok t \<Longrightarrow> pred_option serve_ok (serve_exec k t)"
  by (cases k) (simp_all add: serve_ok_main serve_ok_main_release serve_ok_reset_ends serve_ok_reserve serve_ok_await serve_ok_fast
      serve_ok_results serve_ok_server server_exec_no_reservation)

lemma serve_reach_ok:
  assumes "serve_reach (Invoke_start w ivk s) t" "getInitFailuresChan s \<noteq> None" "reservation_ok s"
  shows "serve_ok t"
  using assms(1)
proof induction
  case start
  then show ?case using assms(2,3) by (simp add: Invoke_start_def Let_def serve_ok_def waiters_def)
next
  case (step t k t')
  then show ?case using serve_ok_step [of t k] by simp
qed

lemma Reserve_reservation_ok: "reservation_ok s \<Longrightarrow> reservation_ok (fst (Reserve u1 u2 i t l s))"
  by (simp add: reservation_ok_def Reserve_def setNewInvokeContext_def Let_def)

lemma server_run_reservation_ok: "reservation_ok (server_run ops NewServer)"
proof -
  have step: "reservation_ok s \<Longrightarrow> reservation_ok (server_exec op s)" for op s
    using server_exec_no_reservation [of op s] by (cases op) (simp_all add: Reserve_reservation_ok makes_no_reservation_def)
  have "reservation_ok s \<Longrightarrow> reservation_ok (fold server_exec ops s)" for s
    by (induction ops arbitrary: s) (simp_all add: step)
  then show ?thesis by (simp add: server_run_def reservation_ok_def NewServer_def)
qed

text \<open>C6: an invocation leaves the server free.  Whatever the interleaving of its goroutines with the runtime's calls and with resets,
  when \<open>Invoke\<close> has returned, its reservation is gone, the next reservation is granted, and the result is success, the timeout
  of the invocation, or the failure of the invocation or of the initialization.\<close>

theorem invoke_leaves_server_free:
  assumes "serve_reach (Invoke_start w ivk (server_run ops NewServer)) t" "getInitFailuresChan (server_run ops NewServer) \<noteq> None"
    and "si_main t = CReturned r"
  shows "sv_invokeCtx (si_server t) = None \<and> fst (snd (Reserve u1 u2 i tr l (si_server t))) \<noteq> None \<and>
    r \<in> {None, Some ErrInvokeTimeout, Some ErrInvokeDoneFailed, Some ErrInitDoneFailed}"
  using serve_reach_ok [OF assms(1,2) server_run_reservation_ok] assms(3)
  by (auto simp: serve_ok_def release_failures_def Reserve_def setNewInvokeContext_def Let_def)

text \<open>C7: \<open>Invoke\<close> is never stuck.  Until it returns, its caller, its timer, the goroutine that waits for the release or a running reset
  can take a step.  The only other case is a timeout that was handled before the server was reserved, where the reservation
  then lasts until the sandbox reports a result.\<close>

theorem invoke_not_stuck:
  assumes "serve_reach (Invoke_start w ivk (server_run ops NewServer)) t" "getInitFailuresChan (server_run ops NewServer) \<noteq> None"
    and "\<not> is_returned (si_main t)"
  shows "(\<exists>k \<in> {VTimer, VTimeout, VResetEnd, VRelease, VReserve u1 u2 now, VAwait b, VReleaseReset, VResetRuns m x}. serve_exec k t \<noteq> None) \<or>
    si_main t = CDrain \<and> si_release t = RAwait \<and> sv_reservationCancelled (si_server t) = Some False \<and> sv_InvokeDoneChan (si_server t) = []"
proof -
  have ok: "serve_ok t" using serve_reach_ok [OF assms(1,2) server_run_reservation_ok] .
  have reset: "serve_exec (VResetRuns m x) t \<noteq> None" if "si_resets t > 0"
    using that drain_all_not_Blocks by (auto simp: reset_runs_def reset_goroutine_def server_Clear_def drainChannel_def split: outcome.splits)
  show ?thesis
  proof (cases "si_main t")
    case CSelect
    then have "serve_exec VTimer t \<noteq> None \<or> serve_exec VTimeout t \<noteq> None" using ok
      by (cases "si_timer t") (simp_all add: timer_fires_def main_timeout_def serve_ok_def)
    then show ?thesis by blast
  next
    case CReset
    then have "si_resetDone t \<noteq> [] \<or> si_resets t > 0" using ok by (cases "si_resetDone t") (simp_all add: serve_ok_def waiters_def)
    then have "serve_exec VResetEnd t \<noteq> None \<or> serve_exec (VResetRuns m x) t \<noteq> None"
      using CReset reset by (cases "si_resetDone t") (auto simp: main_reset_end_def)
    then show ?thesis by blast
  next
    case CDrain
    show ?thesis
    proof (cases "si_release t")
      case RReserve
      then have "serve_exec (VReserve u1 u2 now) t \<noteq> None" by (simp add: release_reserve_def split: prod.splits option.splits)
      then show ?thesis by blast
    next
      case RAwait
      then show ?thesis using CDrain AwaitRelease_Blocks [of b "si_server t"]
        by (cases "AwaitRelease b (si_server t)") (auto simp: release_await_def Let_def)
    next
      case (RReset e)
      then have "si_resetDone t \<noteq> [] \<or> si_resets t > 0" using ok by (cases "si_resetDone t") (simp_all add: serve_ok_def waiters_def)
      then have "serve_exec VReleaseReset t \<noteq> None \<or> serve_exec (VResetRuns m x) t \<noteq> None"
        using RReset reset by (cases "si_resetDone t") (auto simp: release_reset_end_def)
      then show ?thesis by blast
    qed (use CDrain ok in \<open>simp_all add: main_release_def serve_ok_def\<close>)
  qed (use assms(3) in simp)
qed

fun serve_run :: "serve_op list \<Rightarrow> serve_invoke \<Rightarrow> serve_invoke option" where
  "serve_run [] t = Some t"
| "serve_run (k # ks) t = (if si_crashed t then None else Option.bind (serve_exec k t) (serve_run ks))"

lemma serve_run_reach: "serve_run ks t = Some t' \<Longrightarrow> serve_reach t0 t \<Longrightarrow> serve_reach t0 t'"
proof (induction ks arbitrary: t)
  case (Cons k ks)
  then obtain u where "serve_exec k t = Some u" "serve_run ks u = Some t'" "\<not> si_crashed t"
    by (auto simp: bind_eq_Some_conv split: if_splits)
  then show ?case using Cons.IH Cons.prems(2) serve_reach.step by blast
qed simp

text \<open>An invocation that times out, on a server whose initialization succeeded.\<close>

definition started_server :: "server_op list" where
  "started_server = [SoNewStream new_writer, SoInitChan, SoInitResult None]"

definition reset_of :: "string \<Rightarrow> Reset_msg" where
  "reset_of reason = \<lparr>rm_Reason = reason, rm_DeadlineNs = 0, rm_InvokeResponseMetrics = None, rm_InvokeResponseMode = ResponseModeBuffered\<rparr>"

definition reset_result :: ResetResult where
  "reset_result = \<lparr>re_ExtensionsResetMs = 1, re_ErrorType = [], re_ResponseMetrics = zero_response_metrics,
     re_InvokeResponseMode = ResponseModeBuffered\<rparr>"

definition timeout_steps :: "serve_op list" where
  "timeout_steps = [VReserve ''u1'' ''u2'' 5, VTimer, VTimeout, VResetRuns (reset_of ''Timeout'') reset_result, VResetEnd, VAwait False, VRelease]"

lemmas serve_run_defs = timeout_steps_def started_server_def server_run_def Invoke_start_def getInitFailuresChan_def Let_def
  timer_fires_def main_timeout_def main_reset_end_def main_release_def release_reserve_def release_await_def reset_runs_def
  reset_goroutine_def server_Clear_def drainChannel_def reset_end_def AwaitRelease_def server_op_defs NewServer_def

lemma timeout_run:
  "\<exists>t. serve_run timeout_steps (Invoke_start 0 ivk (server_run started_server NewServer)) = Some t \<and>
    si_main t = CReturned (Some ErrInvokeTimeout)"
  by (simp add: serve_run_defs)

lemma started_server_init: "getInitFailuresChan (server_run started_server NewServer) \<noteq> None"
  by (simp add: serve_run_defs)

theorem invoke_leaves_server_free_witness:
  "\<exists>t. serve_reach (Invoke_start 0 sample_invoke (server_run started_server NewServer)) t \<and>
    si_main t = CReturned (Some ErrInvokeTimeout) \<and> fst (snd (Reserve ''a'' ''b'' ''i2'' [] [] (si_server t))) \<noteq> None"
proof -
  obtain t where t: "serve_run timeout_steps (Invoke_start 0 sample_invoke (server_run started_server NewServer)) = Some t"
    "si_main t = CReturned (Some ErrInvokeTimeout)" using timeout_run by blast
  have r: "serve_reach (Invoke_start 0 sample_invoke (server_run started_server NewServer)) t"
    using serve_run_reach [OF t(1) serve_reach.start] .
  show ?thesis using invoke_leaves_server_free [OF r started_server_init t(2)] r t(2) by blast
qed

theorem invoke_not_stuck_witness:
  "\<exists>t k. serve_reach (Invoke_start 0 sample_invoke (server_run started_server NewServer)) t \<and> si_main t = CReset \<and>
    serve_exec k t \<noteq> None"
proof -
  obtain t where t: "serve_run (take 3 timeout_steps) (Invoke_start 0 sample_invoke (server_run started_server NewServer)) = Some t" "si_main t = CReset"
    by (simp add: serve_run_defs)
  have r: "serve_reach (Invoke_start 0 sample_invoke (server_run started_server NewServer)) t"
    using serve_run_reach [OF t(1) serve_reach.start] .
  have n: "\<not> is_returned (si_main t)" using t(2) by simp
  show ?thesis using invoke_not_stuck [OF r started_server_init n, of "''a''" "''b''" 0 True "reset_of ''Timeout''" reset_result] r t(2)
    by (metis caller_pc.distinct(7))
qed

text \<open>A reset from elsewhere during an invocation: \<open>AwaitRelease\<close> reports the end of the reservation, which \<open>Invoke\<close> takes for
  success, although nothing was written to the caller.  The branch that would report a failed initialization for this error
  is never taken.\<close>

definition reset_steps :: "serve_op list" where
  "reset_steps = [VReserve ''u1'' ''u2'' 5, VFastAwait (\<lambda>_. []), VFastBegin False, VExternal, VResetRuns (reset_of ''HotReload'') reset_result,
     VExternalEnd, VAwait False, VRelease]"

lemma reset_reported_as_success:
  "\<exists>t. serve_run reset_steps (Invoke_start 0 (i\<lparr>iv_ID := ''i1''\<rparr>) (server_run started_server NewServer)) = Some t \<and>
    si_main t = CReturned None \<and> rw_body (sv_streams (si_server t) ! 0) = []"
  by (simp add: reset_steps_def serve_run_defs fast_await_def fast_begin_def external_reset_def external_reset_end_def
      FastInvoke_begin_def new_writer_def new_token_def)

text \<open>An invocation of a server that is reserved already ends the process.\<close>

lemma second_invoke_crashes:
  "sv_invokeCtx (si_server t) \<noteq> None \<Longrightarrow> si_release t = RReserve \<Longrightarrow> serve_exec (VReserve u1 u2 now) t = Some (crash t)"
  by (simp add: release_reserve_def Reserve_def setNewInvokeContext_def Let_def)

end
