(* ===== verification/LocalStack_Logs.thy ===== *)
theory LocalStack_Logs
  imports Handler_Runs "HOL-Library.Sublist"
begin

text \<open>
  The log of an invocation in the LocalStack command: the collector (\<open>cmd/localstack/logs.go\<close>), the lines that
  \<open>LocalStackEventsAPI\<close> (\<open>events.go\<close>) writes for the events of the handlers, and the closing lines of an invocation
  (\<open>PrintEndReports\<close> of \<open>awsutil.go\<close>).  Durations are integers in microseconds; how a duration is printed with two
  decimals depends on its binary representation, so that text is the argument \<open>f2\<close>.
\<close>

section \<open>The collector\<close>

record LogCollector =
  RuntimeLogs :: "string list"

definition NewLogCollector :: LogCollector where
  "NewLogCollector = \<lparr>RuntimeLogs = []\<rparr>"

definition lc_Put :: "string \<Rightarrow> LogCollector \<Rightarrow> LogCollector" where
  "lc_Put line lc = lc\<lparr>RuntimeLogs := RuntimeLogs lc @ [line]\<rparr>"

definition lc_Write :: "string \<Rightarrow> LogCollector \<Rightarrow> LogCollector \<times> nat \<times> go_error option" where
  "lc_Write p lc = (lc_Put p lc, length p, None)"

definition lc_reset :: "LogCollector \<Rightarrow> LogCollector" where
  "lc_reset lc = lc\<lparr>RuntimeLogs := []\<rparr>"

definition lc_getLogs :: "LogCollector \<Rightarrow> LogCollector \<times> string" where
  "lc_getLogs lc = (lc\<lparr>RuntimeLogs := []\<rparr>, concat (RuntimeLogs lc))"

section \<open>Events\<close>

record LocalStackEventsAPI =
  le_onDemand :: bool
  lastInitStatus :: string
  lastInitErrorType :: string
  initErrorType :: string
  initTimedOut :: bool
  coldStartInitDuration :: int
  hasColdStartInitDuration :: bool

definition NewLocalStackEventsAPI :: "bool \<Rightarrow> LocalStackEventsAPI" where
  "NewLocalStackEventsAPI onDemand =
    \<lparr>le_onDemand = onDemand, lastInitStatus = [], lastInitErrorType = [], initErrorType = [], initTimedOut = False,
     coldStartInitDuration = 0, hasColdStartInitDuration = False\<rparr>"

definition InitInsideInitPhase :: string where "InitInsideInitPhase = ''init''"

definition SendInitStart :: "LocalStackEventsAPI \<Rightarrow> LocalStackEventsAPI" where
  "SendInitStart e = e\<lparr>lastInitStatus := [], lastInitErrorType := [], initErrorType := []\<rparr>"

definition SendInitRuntimeDone :: "string \<Rightarrow> ErrorType option \<Rightarrow> LocalStackEventsAPI \<Rightarrow> LocalStackEventsAPI" where
  "SendInitRuntimeDone status errorType e =
    e\<lparr>lastInitStatus := status, lastInitErrorType := (case errorType of None \<Rightarrow> [] | Some t \<Rightarrow> t)\<rparr>"

text \<open>The critical section of \<open>SendInitReport\<close>; it returns the line that is written after it.\<close>

definition SendInitReport :: "(int \<Rightarrow> string) \<Rightarrow> int \<Rightarrow> string \<Rightarrow> LocalStackEventsAPI \<Rightarrow> LocalStackEventsAPI \<times> string" where
  "SendInitReport f2 duration phase e =
    (let status = (if lastInitStatus e = [] then RuntimeDoneError else lastInitStatus e);
         errorType = lastInitErrorType e;
         head = ''INIT_REPORT Init Duration: '' @ f2 duration @ '' ms''
     in if initTimedOut e \<and> phase = InitInsideInitPhase
        then (e\<lparr>initTimedOut := False\<rparr>, head @ [CHR 0x09] @ ''Phase: '' @ phase @ [CHR 0x09] @ ''Status: timeout'' @ [CHR 0x0A])
        else if status \<noteq> RuntimeDoneSuccess
        then let errorType = (if errorType = [] then RuntimeExit else errorType)
             in (e\<lparr>initErrorType := errorType\<rparr>,
                 head @ [CHR 0x09] @ ''Phase: '' @ phase @ [CHR 0x09] @ ''Status: '' @ status @ [CHR 0x09] @ ''Error Type: '' @ errorType @ [CHR 0x0A])
        else if phase = InitInsideInitPhase \<and> le_onDemand e
        then (e\<lparr>coldStartInitDuration := duration, hasColdStartInitDuration := True\<rparr>, [])
        else if phase = InitInsideInitPhase then (e, head @ [CHR 0x0A])
        else (e, []))"

definition SendInvokeStart :: "string \<Rightarrow> string \<Rightarrow> string" where
  "SendInvokeStart requestID version = ''START RequestId: '' @ requestID @ '' Version: '' @ version @ [CHR 0x0A]"

definition SetInitPhaseTimedOut :: "LocalStackEventsAPI \<Rightarrow> LocalStackEventsAPI" where
  "SetInitPhaseTimedOut e = e\<lparr>initTimedOut := True, hasColdStartInitDuration := False\<rparr>"

definition TakeColdStartInitDuration :: "LocalStackEventsAPI \<Rightarrow> LocalStackEventsAPI \<times> int \<times> bool" where
  "TakeColdStartInitDuration e =
    (e\<lparr>hasColdStartInitDuration := False\<rparr>, coldStartInitDuration e, hasColdStartInitDuration e)"

definition InitErrorType :: "LocalStackEventsAPI \<Rightarrow> string" where
  "InitErrorType e = initErrorType e"

text \<open>The events interface: what happens when the handlers send an event; \<open>duration\<close> is the one measured for a report
  and \<open>version\<close> that of the function.  Every other event is handled by \<open>NoOpEventsAPI\<close>.\<close>

fun events_send :: "(int \<Rightarrow> string) \<Rightarrow> int \<Rightarrow> string \<Rightarrow> platform_event \<Rightarrow> LocalStackEventsAPI \<times> LogCollector
    \<Rightarrow> LocalStackEventsAPI \<times> LogCollector" where
  "events_send f2 duration version (EvInitStart ty ph) (e, lc) = (SendInitStart e, lc)"
| "events_send f2 duration version (EvInitRuntimeDone st ph er) (e, lc) = (SendInitRuntimeDone st er e, lc)"
| "events_send f2 duration version (EvInitReport ty ph) (e, lc) =
    (case SendInitReport f2 duration ph e of (e, line) \<Rightarrow> (e, if line \<noteq> [] then fst (lc_Write line lc) else lc))"
| "events_send f2 duration version (EvInvokeStart i) (e, lc) = (e, fst (lc_Write (SendInvokeStart i version) lc))"
| "events_send f2 duration version ev x = x"

section \<open>The end of an invocation\<close>

definition invoke_duration :: "ns \<Rightarrow> ns \<Rightarrow> ns" where
  "invoke_duration elapsed timeoutDuration = min elapsed timeoutDuration"

text \<open>Whole milliseconds, rounded up.\<close>

definition billed_ms :: "ns \<Rightarrow> int" where
  "billed_ms d = (d + 999999) div 1000000"

definition end_line :: "string \<Rightarrow> string" where
  "end_line invokeId = ''END RequestId: '' @ invokeId @ [CHR 0x0A]"

definition report_line :: "(ns \<Rightarrow> string) \<Rightarrow> (int \<Rightarrow> string) \<Rightarrow> string \<Rightarrow> int \<Rightarrow> bool \<Rightarrow> string \<Rightarrow> string \<Rightarrow> string \<Rightarrow> ns \<Rightarrow> ns \<Rightarrow> string" where
  "report_line d2 f2 invokeId initDurationMS hasInitDuration status errorType memorySize elapsed timeoutDuration =
    (let d = invoke_duration elapsed timeoutDuration
     in ''REPORT RequestId: '' @ invokeId @ [CHR 0x09] @ ''Duration: '' @ d2 d @ '' ms'' @ [CHR 0x09] @
        ''Billed Duration: '' @ int_dec (billed_ms d) @ '' ms'' @ [CHR 0x09] @
        ''Memory Size: '' @ memorySize @ '' MB'' @ [CHR 0x09] @ ''Max Memory Used: '' @ memorySize @ '' MB'' @ [CHR 0x09] @
        (if hasInitDuration then ''Init Duration: '' @ f2 initDurationMS @ '' ms'' @ [CHR 0x09] else []) @
        (if status \<noteq> [] then ''Status: '' @ status @ (if errorType \<noteq> [] then [CHR 0x09] @ ''Error Type: '' @ errorType else []) else []) @
        [CHR 0x0A])"

definition PrintEndReports :: "(ns \<Rightarrow> string) \<Rightarrow> (int \<Rightarrow> string) \<Rightarrow> string \<Rightarrow> int \<Rightarrow> bool \<Rightarrow> string \<Rightarrow> string \<Rightarrow> string \<Rightarrow> ns \<Rightarrow> ns
    \<Rightarrow> LogCollector \<Rightarrow> LogCollector" where
  "PrintEndReports d2 f2 invokeId initDurationMS hasInitDuration status errorType memorySize elapsed timeoutDuration lc =
    fst (lc_Write (report_line d2 f2 invokeId initDurationMS hasInitDuration status errorType memorySize elapsed timeoutDuration)
      (fst (lc_Write (end_line invokeId) lc)))"

section \<open>No log line is lost\<close>

datatype log_op = LogWrite string | LogSend

text \<open>Writes of the runtime, the extensions and the events interface interleaved with the ends of invocations, each of
  which sends what was collected.\<close>

fun log_run :: "log_op list \<Rightarrow> LogCollector \<Rightarrow> LogCollector \<times> string list" where
  "log_run [] lc = (lc, [])"
| "log_run (LogWrite p # ops) lc = log_run ops (fst (lc_Write p lc))"
| "log_run (LogSend # ops) lc =
    (case lc_getLogs lc of (lc, logs) \<Rightarrow> (case log_run ops lc of (lc, sent) \<Rightarrow> (lc, logs # sent)))"

fun written :: "log_op list \<Rightarrow> string" where
  "written [] = []"
| "written (LogWrite p # ops) = p @ written ops"
| "written (LogSend # ops) = written ops"

lemma log_run_conserves:
  "concat (snd (log_run ops lc)) @ concat (RuntimeLogs (fst (log_run ops lc))) = concat (RuntimeLogs lc) @ written ops"
  by (induction ops lc rule: log_run.induct) (simp_all add: lc_Write_def lc_Put_def lc_getLogs_def case_prod_unfold)

text \<open>logs are neither lost nor duplicated nor reordered by the collector.  In every interleaving of writes and ends of
  invocations, the logs sent with the invocations followed by those still collected are the bytes written, in
  the order of the writes.\<close>

theorem logs_conserved:
  "concat (snd (log_run ops NewLogCollector)) @ concat (RuntimeLogs (fst (log_run ops NewLogCollector))) = written ops"
  using log_run_conserves [of ops NewLogCollector] by (simp add: NewLogCollector_def)

section \<open>The events of an initialization\<close>

text \<open>The events that the interface does not ignore, and those a piece of a handler emits.\<close>

fun visible :: "platform_event \<Rightarrow> bool" where
  "visible (EvInitStart ty ph) = True"
| "visible (EvInitRuntimeDone st ph er) = True"
| "visible (EvInitReport ty ph) = True"
| "visible (EvInvokeStart i) = True"
| "visible ev = False"

definition emitted :: "platform_event list \<Rightarrow> rapidContext \<Rightarrow> rapidContext \<Rightarrow> bool" where
  "emitted vs c c' = ((\<exists>evs. rc_events c' = rc_events c @ evs \<and> filter visible evs = vs) \<and>
     rc_initCachingEnabled c' = rc_initCachingEnabled c)"

lemma emitted_same [intro]:
  "rc_events c' = rc_events c \<Longrightarrow> rc_initCachingEnabled c' = rc_initCachingEnabled c \<Longrightarrow> emitted [] c c'"
  by (auto simp: emitted_def)

lemma emitted_reg [simp]: "emitted [] c (c\<lparr>rc_registrationService := r\<rparr>)"
  by auto

lemma emitted_trans [trans]: "emitted vs c c' \<Longrightarrow> emitted ws c' c'' \<Longrightarrow> emitted (vs @ ws) c c''"
  by (fastforce simp: emitted_def)

lemma emitted_then:
  "emitted vs c c' \<Longrightarrow> rc_events c' = rc_events d \<Longrightarrow> rc_initCachingEnabled c' = rc_initCachingEnabled d \<Longrightarrow> emitted vs c d"
  by (simp add: emitted_def)

lemma emitted_after:
  "emitted vs d c' \<Longrightarrow> rc_events d = rc_events c \<Longrightarrow> rc_initCachingEnabled d = rc_initCachingEnabled c \<Longrightarrow> emitted vs c c'"
  by (simp add: emitted_def)

lemma emitted_emit:
  "visible ev \<Longrightarrow> emitted [ev] c (emit ev c)"
  "\<not> visible ev \<Longrightarrow> emitted [] c (emit ev c)"
  by (auto simp: emitted_def emit_def)

lemma emitted_fold: "(\<And>x c. emitted [] c (f x c)) \<Longrightarrow> emitted [] c (fold f xs c)"
proof (induction xs arbitrary: c)
  case (Cons x xs)
  then show ?case using emitted_trans [of "[]" c "f x c" "[]" "fold f xs (f x c)"] by simp
qed auto

lemma store_fatal_emits: "emitted [] c (store_fatal e c)"
  by (auto simp: store_fatal_def split: option.splits)

lemma store_bootstrap_error_emits: "emitted [] c (store_bootstrap_error b e d c)"
  using emitted_trans [OF store_fatal_emits emitted_emit(2)]
  by (auto simp: store_bootstrap_error_def store_fatal_emits split: option.splits)

lemma agentLaunchError_emits: "emitted [] c (agentLaunchError a e now c)"
  unfolding agentLaunchError_def using emitted_trans [OF emitted_same store_fatal_emits] by fastforce

lemma launch_agent_emits: "launch_agent env p le c = Ret (c', e) \<Longrightarrow> emitted [] c c'"
  using emitted_trans [OF emitted_same agentLaunchError_emits]
  by (fastforce simp: launch_agent_def Let_def request_def
      split: prod.splits sum.splits if_splits option.splits outcome.splits)

lemma launch_agents_emits: "launch_agents env ps c = Ret (c', e) \<Longrightarrow> emitted [] c c'"
proof (induction env ps c rule: launch_agents.induct)
  case (2 env p le ps c)
  show ?case
  proof (cases "launch_agent env p le c")
    case (Ret x)
    obtain c1 r where x: "x = (c1, r)" by (cases x)
    have first: "emitted [] c c1" using launch_agent_emits Ret x by simp
    show ?thesis
    proof (cases r)
      case None
      have "emitted [] c1 c'" using "2.IH" [OF Ret x [symmetric] None] "2.prems" Ret x None by simp
      then show ?thesis using emitted_trans [OF first] by simp
    qed (use "2.prems" Ret x first in simp)
  qed (use "2.prems" in simp_all)
qed auto

lemma doInitExtensions_emits: "doInitExtensions env ps c = Ret (c', e) \<Longrightarrow> emitted [] c c'"
  by (auto simp: doInitExtensions_def split: prod.splits option.splits
      dest!: launch_agents_emits intro: emitted_after)

lemma doRuntimeBootstrap_emits: "doRuntimeBootstrap sb c = Ret (c', b) \<Longrightarrow> emitted [] c c'"
  using store_bootstrap_error_emits
  by (auto simp: doRuntimeBootstrap_def Let_def split: sum.splits)

text \<open>How an initialization ends: with or without an event for the end of the runtime's part, and always with a report.\<close>

definition init_ending :: "SandboxInfoFromInit \<Rightarrow> LifecyclePhase \<Rightarrow> rapidContext \<Rightarrow> (string \<times> ErrorType option) option \<Rightarrow> platform_event list" where
  "init_ending sb phase c done =
    (case done of None \<Rightarrow> [] | Some (st, er) \<Rightarrow> [EvInitRuntimeDone st (InitPhaseFromLifecyclePhase phase) er]) @
    [EvInitReport (InferInitType (rc_initCachingEnabled c) (sb_SandboxType sb)) (InitPhaseFromLifecyclePhase phase)]"

text \<open>What a return value says about that event.\<close>

definition done_fits :: "go_error option \<Rightarrow> (string \<times> ErrorType option) option \<Rightarrow> bool" where
  "done_fits e done =
    (case e of
       None \<Rightarrow> done = Some (RuntimeDoneSuccess, None)
     | Some x \<Rightarrow> (\<forall>st er. done = Some (st, er) \<longrightarrow> st = RuntimeDoneError \<or> x = ErrGateIntegrity))"

definition init_ended :: "SandboxInfoFromInit \<Rightarrow> LifecyclePhase \<Rightarrow> rapidContext \<Rightarrow> rapidContext \<times> init_pc \<Rightarrow> bool" where
  "init_ended sb phase c x =
    (case x of
       (c', IReturned e) \<Rightarrow> (\<exists>done. done_fits e done \<and> emitted (init_ending sb phase c done) c c')
     | (c', _) \<Rightarrow> emitted [] c c')"

lemma init_return_ended:
  assumes "case status of None \<Rightarrow> e \<noteq> None | Some st \<Rightarrow> if e = None then st = RuntimeDoneSuccess else st = RuntimeDoneError \<or> e = Some ErrGateIntegrity"
  shows "init_ended sb phase c (init_return sb phase status e c)"
proof -
  let ?done = "map_option (\<lambda>st. (st, getFirstFatalError st c)) status"
  let ?c1 = "case status of Some st \<Rightarrow> sendInitRuntimeDoneLogEvent st phase c | None \<Rightarrow> c"
  let ?c2 = "if rc_extensionsEnabled ?c1 then logAgentsInitStatus ?c1 else ?c1"
  have "emitted (case ?done of None \<Rightarrow> [] | Some (st, er) \<Rightarrow> [EvInitRuntimeDone st (InitPhaseFromLifecyclePhase phase) er]) c ?c1"
    by (cases status) (auto simp: sendInitRuntimeDoneLogEvent_def intro: emitted_emit)
  also have "emitted [] ?c1 ?c2"
    by (auto simp: logAgentsInitStatus_def intro!: emitted_fold emitted_emit(2))
  finally have pre: "emitted (case ?done of None \<Rightarrow> [] | Some (st, er) \<Rightarrow> [EvInitRuntimeDone st (InitPhaseFromLifecyclePhase phase) er]) c ?c2"
    by simp
  then have "rc_initCachingEnabled ?c2 = rc_initCachingEnabled c" by (simp add: emitted_def)
  then have "emitted (init_ending sb phase c ?done) c (sendInitReportLogEvent (sb_SandboxType sb) phase ?c2)"
    using emitted_trans [OF pre emitted_emit(1)] by (simp add: init_ending_def sendInitReportLogEvent_def)
  moreover have "done_fits e ?done"
    using assms by (auto simp: done_fits_def getFirstFatalError_def split: option.splits if_splits)
  ultimately show ?thesis by (auto simp: init_ended_def init_return_def Let_def)
qed

lemma init_ended_after:
  assumes "emitted [] c c1" "init_ended sb phase c1 x"
  shows "init_ended sb phase c x"
proof -
  have "rc_initCachingEnabled c1 = rc_initCachingEnabled c" using assms(1) by (simp add: emitted_def)
  then show ?thesis using assms(2) emitted_trans [OF assms(1)]
    by (fastforce simp: init_ended_def init_ending_def split: prod.splits init_pc.splits)
qed

lemma init_return_ended_after:
  assumes "emitted [] c c1"
    and "case status of None \<Rightarrow> e \<noteq> None | Some st \<Rightarrow> if e = None then st = RuntimeDoneSuccess else st = RuntimeDoneError \<or> e = Some ErrGateIntegrity"
  shows "init_ended sb phase c (init_return sb phase status e c1)"
  by (rule init_ended_after [OF assms(1) init_return_ended [OF assms(2)]])

lemma init_start_runtime_ended:
  assumes "init_start_runtime sb phase re c = Ret x"
  shows "init_ended sb phase c x"
proof -
  let ?c = "c\<lparr>rc_appCtx := StoreSandboxType (rc_appCtx c) (sb_SandboxType sb)\<rparr>"
  obtain r rt where rt: "new_runtime (re_now re) (rc_registrationService c) = (r, rt)" by fastforce
  obtain r' er where pre: "PreregisterRuntime rt r = (r', er)" by fastforce
  show ?thesis
  proof (cases er)
    case (Some e)
    then show ?thesis using assms
      by (auto simp: init_start_runtime_def Let_def rt pre intro!: init_return_ended_after)
  next
    case None
    show ?thesis
    proof (cases "doRuntimeBootstrap sb (?c\<lparr>rc_registrationService := r'\<rparr>)")
      case (Ret y)
      obtain c1 b where y: "y = (c1, b)" by (cases y)
      have c1: "emitted [] c c1" using doRuntimeBootstrap_emits [OF Ret [unfolded y]] by (rule emitted_after) simp_all
      have boot: "emitted [] c (store_bootstrap_error (sb_RuntimeBootstrap sb) e d (request q c1))" for e d q
        using emitted_trans [OF c1 emitted_trans [OF emitted_same store_bootstrap_error_emits]] by (simp add: request_def)
      have wait: "init_ended sb phase c ((request q c1)\<lparr>rc_shutdownContext := s\<rparr>, IAwaitRestoreReady)" for q s
        using c1 by (simp add: init_ended_def request_def emitted_def)
      show ?thesis using assms None Ret y c1
        by (auto simp: init_start_runtime_def Let_def rt pre outcome_bind_Ret split: prod.splits
            sum.splits option.splits list.splits outcome.splits intro!: init_return_ended_after boot wait)
    qed (use assms None in \<open>simp_all add: init_start_runtime_def Let_def rt pre\<close>)
  qed
qed

lemma doRuntimeDomainInit_begin_ended:
  assumes "doRuntimeDomainInit_begin sb phase ps re c = Ret x"
  shows "init_ended sb phase (sendInitStartLogEvent (sb_SandboxType sb) phase c) x"
proof -
  let ?c1 = "sendInitStartLogEvent (sb_SandboxType sb) phase c"
  let ?c2 = "?c1\<lparr>rc_runtimeDomainGeneration := rc_runtimeDomainGeneration ?c1 + 1\<rparr>"
  have c2: "emitted [] ?c1 ?c2" by auto
  show ?thesis
  proof (cases "rc_extensionsEnabled ?c2")
    case False
    then show ?thesis using assms init_ended_after [OF c2 init_start_runtime_ended]
      by (simp add: doRuntimeDomainInit_begin_def Let_def)
  next
    case True
    show ?thesis
    proof (cases "doInitExtensions (sb_EnvironmentVariables sb) ps ?c2")
      case (Ret y)
      obtain c3 e where y: "y = (c3, e)" by (cases y)
      have c3: "emitted [] ?c1 c3" using emitted_trans [OF c2 doInitExtensions_emits [OF Ret [unfolded y]]] by simp
      show ?thesis using assms True Ret y c3
        by (auto simp: doRuntimeDomainInit_begin_def Let_def init_ended_def [where x = "(c3, IAwaitRegistered)"]
            split: option.splits intro!: init_return_ended_after)
    qed (use assms True in \<open>simp_all add: doRuntimeDomainInit_begin_def Let_def\<close>)
  qed
qed

lemma SetAgentsCount_error:
  "reg_init_op (IOpSetAgentsCount n) r = (r', Some e) \<Longrightarrow> e = ErrGateIntegrity"
  by (auto simp: reg_init_op_def init_SetAgentsReadyCount_def SetCount_def split: if_splits)

lemma init_finish_ended: "init_ended sb phase c (init_finish sb phase c)"
  unfolding init_finish_def Let_def by (rule init_return_ended_after) auto

lemma init_step_ended:
  assumes "init_step sb phase re pc c = Ret x" "\<And>e. pc \<noteq> IReturned e"
  shows "init_ended sb phase c x"
proof (cases pc)
  case IAwaitRegistered
  then show ?thesis using assms(1)
    by (auto simp: init_step_def Let_def split: await_result.splits option.splits
        intro!: init_return_ended_after dest: init_start_runtime_ended)
next
  case IAwaitRestoreReady
  have fin: "init_ended sb phase c (init_finish sb phase (c\<lparr>rc_registrationService := r\<rparr>))" for r
    by (rule init_ended_after [OF _ init_finish_ended]) auto
  show ?thesis using assms(1) IAwaitRestoreReady
    by (auto simp: init_step_def Let_def init_ended_def [where x = "(c\<lparr>rc_registrationService := r\<rparr>, IAwaitAgentsReady)" for r]
        split: await_result.splits option.splits if_splits prod.splits
        dest!: SetAgentsCount_error intro!: init_return_ended_after fin)
next
  case IAwaitAgentsReady
  then show ?thesis using assms(1)
    by (auto simp: init_step_def Let_def split: await_result.splits option.splits
        intro!: init_return_ended_after init_finish_ended)
next
  case (IReturned e)
  then show ?thesis using assms(2) by simp
qed

lemma init_run_ended:
  assumes "doRuntimeDomainInit_begin sb phase ps re c = Ret (c0, pc0)" "init_reach sb phase re c0 pc0 c' pc'"
  shows "init_ended sb phase (sendInitStartLogEvent (sb_SandboxType sb) phase c) (c', pc')"
  using assms(2)
proof (induction rule: init_reach.induct)
  case start
  then show ?case using doRuntimeDomainInit_begin_ended [OF assms(1)] .
next
  case (party d pc k)
  then show ?case by (auto simp: init_ended_def emitted_def split: init_pc.splits)
next
  case (handler d pc d' pc')
  show ?case
  proof (cases "\<exists>e. pc = IReturned e")
    case True
    then show ?thesis using handler by (auto simp: init_step_def)
  next
    case False
    then have d: "emitted [] (sendInitStartLogEvent (sb_SandboxType sb) phase c) d"
      using handler.IH by (auto simp: init_ended_def split: init_pc.splits)
    show ?thesis using init_ended_after [OF d init_step_ended [OF handler.hyps(2)]] False by blast
  qed
qed

section \<open>What is recorded about an initialization\<close>

lemma events_send_invisible: "\<not> visible ev \<Longrightarrow> events_send f2 d v ev x = x"
  by (cases x; cases ev) simp_all

lemma events_send_visible: "fold (events_send f2 d v) evs x = fold (events_send f2 d v) (filter visible evs) x"
  by (induction evs arbitrary: x) (simp_all add: events_send_invisible)

text \<open>the LocalStack interface records the outcome of every initialization, whatever the runtime and the extensions do
  meanwhile.  After a run of \<open>doRuntimeDomainInit\<close> that was not timed out, feeding its events to the interface gives:
  for a success no error type, and in the init phase of an on-demand function the measured duration is
  available for the first invocation and no line was written; for a failure a non-empty error type and exactly one
  line, unless the count of the agents could not be set, when the event of the runtime says success.\<close>

theorem init_outcome_recorded:
  assumes "doRuntimeDomainInit_begin sb phase ps re c = Ret (c0, pc0)" "init_reach sb phase re c0 pc0 c' (IReturned r)"
    and "\<not> initTimedOut api"
  shows "\<exists>evs. rc_events c' = rc_events c @ evs \<and>
    (case fold (events_send f2 duration version) evs (api, lc) of (api', lc') \<Rightarrow>
      (r = None \<longrightarrow> InitErrorType api' = [] \<and>
         (phase = LifecyclePhaseInit \<and> le_onDemand api \<longrightarrow> snd (TakeColdStartInitDuration api') = (duration, True) \<and> lc' = lc)) \<and>
      (r \<noteq> None \<and> r \<noteq> Some ErrGateIntegrity \<longrightarrow> InitErrorType api' \<noteq> [] \<and>
         hasColdStartInitDuration api' = hasColdStartInitDuration api \<and> (\<exists>line. RuntimeLogs lc' = RuntimeLogs lc @ [line])))"
proof -
  let ?c = "sendInitStartLogEvent (sb_SandboxType sb) phase c"
  let ?p = "InitPhaseFromLifecyclePhase phase"
  let ?ty = "InferInitType (rc_initCachingEnabled ?c) (sb_SandboxType sb)"
  obtain done' evs where d: "done_fits r done'" "rc_events c' = rc_events ?c @ evs" "filter visible evs = init_ending sb phase ?c done'"
    using init_run_ended [OF assms(1,2)] by (auto simp: init_ended_def emitted_def)
  define start where "start = EvInitStart (InferInitType (rc_initCachingEnabled c) (sb_SandboxType sb)) ?p"
  have ev: "rc_events c' = rc_events c @ (start # evs)"
    using d(2) by (simp add: sendInitStartLogEvent_def emit_def start_def)
  have vis: "filter visible (start # evs) = start # init_ending sb phase ?c done'" using d(3) by (simp add: start_def)
  show ?thesis
    by (rule exI [of _ "start # evs"], subst events_send_visible, unfold vis)
      (use d(1) ev assms(3) in \<open>auto simp: start_def init_ending_def done_fits_def SendInitStart_def SendInitRuntimeDone_def SendInitReport_def
        Let_def InitErrorType_def TakeColdStartInitDuration_def InitInsideInitPhase_def RuntimeDoneSuccess_def RuntimeDoneError_def
        RuntimeExit_def lc_Write_def lc_Put_def split: option.splits LifecyclePhase.splits\<close>)
qed

definition sample_duration_text :: "int \<Rightarrow> string" where
  "sample_duration_text d = int_dec (d div 1000)"

theorem init_outcome_recorded_witness:
  "\<exists>c' evs. sample_init_end = Some (c', IReturned None) \<and> rc_events c' = evs \<and>
     (case fold (events_send sample_duration_text 1234 ''1'') evs (NewLocalStackEventsAPI True, NewLogCollector) of
        (api', lc') \<Rightarrow> InitErrorType api' = [] \<and> snd (TakeColdStartInitDuration api') = (1234, True) \<and> lc' = NewLogCollector)"
proof -
  have fin: "map_option snd sample_init_end = Some (IReturned None)" by code_simp
  then obtain c' where c': "sample_init_end = Some (c', IReturned None)" by auto
  obtain c0 pc0 where c0: "sample_init = Ret (c0, pc0)"
    using c' by (auto simp: sample_init_end_def split: outcome.splits)
  have "init_reach sample_sandbox LifecyclePhaseInit sample_runtime_env c0 pc0 c' (IReturned None)"
    using c' unfolding sample_init_end_def c0 outcome.case by (rule init_schedule_reach [OF init_reach.start])
  from init_outcome_recorded [OF c0 [unfolded sample_init_def] this, of "NewLocalStackEventsAPI True" 1234 NewLogCollector sample_duration_text "''1''"]
  show ?thesis using c'
    by (auto simp: NewLocalStackEventsAPI_def rapid_Start_def split: prod.splits)
qed

section \<open>The duration of the cold start\<close>

datatype le_op = LeStart | LeDone string "ErrorType option" | LeReport int string | LeTimedOut | LeTake

fun le_run :: "(int \<Rightarrow> string) \<Rightarrow> le_op list \<Rightarrow> LocalStackEventsAPI \<Rightarrow> LocalStackEventsAPI \<times> int list" where
  "le_run f2 [] e = (e, [])"
| "le_run f2 (LeStart # ops) e = le_run f2 ops (SendInitStart e)"
| "le_run f2 (LeDone st er # ops) e = le_run f2 ops (SendInitRuntimeDone st er e)"
| "le_run f2 (LeReport d ph # ops) e = le_run f2 ops (fst (SendInitReport f2 d ph e))"
| "le_run f2 (LeTimedOut # ops) e = le_run f2 ops (SetInitPhaseTimedOut e)"
| "le_run f2 (LeTake # ops) e =
    (case TakeColdStartInitDuration e of (e, d, ok) \<Rightarrow>
       (case le_run f2 ops e of (e, ds) \<Rightarrow> (e, if ok then d # ds else ds)))"

text \<open>The durations of the successful initializations in the init phase; \<open>st\<close> is the last reported status.\<close>

fun cold_starts :: "string \<Rightarrow> le_op list \<Rightarrow> int list" where
  "cold_starts st [] = []"
| "cold_starts st (LeStart # ops) = cold_starts [] ops"
| "cold_starts st (LeDone st' er # ops) = cold_starts st' ops"
| "cold_starts st (LeReport d ph # ops) =
    (if ph = InitInsideInitPhase \<and> st = RuntimeDoneSuccess then [d] else []) @ cold_starts st ops"
| "cold_starts st (LeTimedOut # ops) = cold_starts st ops"
| "cold_starts st (LeTake # ops) = cold_starts st ops"

lemma SendInitReport_cold:
  assumes "fst (SendInitReport f2 d ph e) = e'"
  shows "lastInitStatus e' = lastInitStatus e \<and>
    (hasColdStartInitDuration e' = hasColdStartInitDuration e \<and> coldStartInitDuration e' = coldStartInitDuration e \<or>
     coldStartInitDuration e' = d \<and> ph = InitInsideInitPhase \<and> lastInitStatus e = RuntimeDoneSuccess)"
  using assms by (auto simp: SendInitReport_def Let_def RuntimeDoneSuccess_def RuntimeDoneError_def split: if_splits)

lemma subseq_insert: "subseq xs (ys @ zs) \<Longrightarrow> subseq xs (ys @ us @ zs)"
  using list_emb_append_mono [OF subseq_order.refl [of ys] list_emb_append2 [OF subseq_order.refl, of zs us]] subseq_order.trans by blast

lemma le_run_takes:
  "subseq (snd (le_run f2 ops e)) ((if hasColdStartInitDuration e then [coldStartInitDuration e] else []) @ cold_starts (lastInitStatus e) ops)"
proof (induction f2 ops e rule: le_run.induct)
  case (4 f2 d ph ops e)
  obtain e' where e': "fst (SendInitReport f2 d ph e) = e'" by blast
  let ?cold = "if hasColdStartInitDuration e then [coldStartInitDuration e] else []"
  let ?new = "if ph = InitInsideInitPhase \<and> lastInitStatus e = RuntimeDoneSuccess then [d] else []"
  have "subseq (snd (le_run f2 ops e')) (?cold @ ?new @ cold_starts (lastInitStatus e) ops)"
    using SendInitReport_cold [OF e'] 4 [unfolded e']
      subseq_insert [of "snd (le_run f2 ops e')" ?cold "cold_starts (lastInitStatus e) ops" ?new]
      list_emb_append2 [of "(=)" "snd (le_run f2 ops e')" "?new @ cold_starts (lastInitStatus e) ops" ?cold]
      list_emb_append2 [of "(=)" "snd (le_run f2 ops e')" "cold_starts (lastInitStatus e) ops" "[d]"]
    by (auto split: if_splits)
  then show ?case using e' by simp
next
  case (5 f2 ops e)
  then show ?case using list_emb_append2 by (auto simp: SetInitPhaseTimedOut_def)
next
  case (6 f2 ops e)
  then show ?case by (auto simp: TakeColdStartInitDuration_def split: prod.splits)
qed (auto simp: SendInitStart_def SendInitRuntimeDone_def split: if_splits)

lemma le_run_provisioned:
  "\<not> le_onDemand e \<Longrightarrow> \<not> hasColdStartInitDuration e \<Longrightarrow> snd (le_run f2 ops e) = []"
  by (induction f2 ops e rule: le_run.induct)
    (auto simp: SendInitStart_def SendInitRuntimeDone_def SendInitReport_def SetInitPhaseTimedOut_def TakeColdStartInitDuration_def
      Let_def split: prod.splits)

text \<open>A cold start is reported once.  Whatever the order of the events, the timeouts and the invocations, the
  durations that invocations report as \<open>Init Duration\<close> are durations of successful initializations in the init
  phase, each reported at most once and in their order; for functions that are not on-demand there are none.\<close>

theorem cold_start_reported_once:
  "subseq (snd (le_run f2 ops (NewLocalStackEventsAPI onDemand))) (if onDemand then cold_starts [] ops else [])"
  using le_run_takes [of f2 ops "NewLocalStackEventsAPI True"] le_run_provisioned [of "NewLocalStackEventsAPI False" f2 ops]
  by (cases onDemand) (simp_all add: NewLocalStackEventsAPI_def)

text \<open>An initialization that ended just before it was marked as timed out leaves the mark behind, and its duration
  is not reported.\<close>

lemma late_timeout_mark_stays:
  "case le_run f2 [LeStart, LeDone RuntimeDoneSuccess None, LeReport d InitInsideInitPhase, LeTimedOut, LeTake]
     (NewLocalStackEventsAPI True) of (e, takes) \<Rightarrow> initTimedOut e \<and> takes = []"
  by (simp add: NewLocalStackEventsAPI_def SendInitStart_def SendInitRuntimeDone_def SendInitReport_def SetInitPhaseTimedOut_def
      TakeColdStartInitDuration_def RuntimeDoneSuccess_def RuntimeDoneError_def)

section \<open>Billing\<close>

lemma billed_duration:
  assumes "0 \<le> elapsed" "0 \<le> timeoutDuration"
  shows "invoke_duration elapsed timeoutDuration \<le> billed_ms (invoke_duration elapsed timeoutDuration) * 1000000 \<and>
    billed_ms (invoke_duration elapsed timeoutDuration) \<le> billed_ms timeoutDuration"
proof -
  let ?d = "invoke_duration elapsed timeoutDuration"
  have "?d \<le> timeoutDuration" by (simp add: invoke_duration_def)
  then have "billed_ms ?d \<le> billed_ms timeoutDuration" by (simp add: billed_ms_def zdiv_mono1)
  moreover have "?d \<le> billed_ms ?d * 1000000" unfolding billed_ms_def by linarith
  ultimately show ?thesis by simp
qed

end
