(* ===== verification/LocalStack_Interop.thy ===== *)
theory LocalStack_Interop
  imports LocalStack_Logs Rendering
begin

text \<open>
  The interop server of the LocalStack command (\<open>cmd/localstack/custom_interop.go\<close>): it receives invocations over HTTP,
  passes them to the server of \<open>rapidcore\<close>, and reports status, logs and results to LocalStack.  JSON and base64 are
  parameters (\<open>ls_json\<close>); a JSON object is the list of its fields with encoded values.  \<open>log.Fatal\<close> and a panic in the
  goroutine of an invocation both end the process and are \<open>Panics\<close>.  \<open>Invoke\<close> of the delegate runs between
  \<open>dispatch_begin\<close> and \<open>dispatch_end\<close>; its error and its duration are arguments of the latter.
\<close>

section \<open>State\<close>

record LocalStackAdapter =
  UpstreamEndpoint :: string
  RuntimeId :: string

datatype LocalStackStatus = Ready | Error

fun status_text :: "LocalStackStatus \<Rightarrow> string" where
  "status_text Ready = ''ready''"
| "status_text Error = ''error''"

record InvokeRequest =
  iq_InvokeId :: string
  iq_InvokedFunctionArn :: string
  iq_Payload :: string
  iq_TraceId :: string
  iq_ClientContext :: string

text \<open>The fields of the synthesized error responses that are set.\<close>

record ls_ErrorResponse =
  ls_ErrorMessage :: string
  ls_ErrorType :: string

text \<open>Decoding to a map fails, gives no map for \<open>null\<close>, or gives the fields.\<close>

record ls_json =
  lj_request :: "string \<Rightarrow> go_error + InvokeRequest option"
  lj_base64 :: "string \<Rightarrow> go_error + string"
  lj_fields :: "string \<Rightarrow> (string \<times> string) list option option"
  lj_object :: "(string \<times> string) list \<Rightarrow> string option"
  lj_string :: "string \<Rightarrow> string"
  lj_error :: "ls_ErrorResponse \<Rightarrow> string option"
  lj_logs :: "string \<Rightarrow> string option"

text \<open>The state: the delegate, the shared collector, the requests sent to LocalStack, and whether the buffered channel
  \<open>resetDone\<close> holds a message.\<close>

record CustomInteropServer =
  cs_delegate :: Server
  cs_localStackAdapter :: LocalStackAdapter
  cs_port :: string
  cs_upstreamEndpoint :: string
  cs_eventsAPI :: LocalStackEventsAPI
  cs_initErrorPayload :: "string option"
  cs_resetDone :: bool
  cs_logCollector :: LogCollector
  cs_posts :: "(string \<times> string) list"

definition NewCustomInteropServer :: "string \<Rightarrow> string \<Rightarrow> string \<Rightarrow> Server \<Rightarrow> LogCollector \<Rightarrow> LocalStackEventsAPI \<Rightarrow> CustomInteropServer" where
  "NewCustomInteropServer interopPort runtimeEndpoint runtimeId delegate logCollector eventsAPI =
    \<lparr>cs_delegate = delegate, cs_localStackAdapter = \<lparr>UpstreamEndpoint = runtimeEndpoint, RuntimeId = runtimeId\<rparr>,
     cs_port = interopPort, cs_upstreamEndpoint = runtimeEndpoint, cs_eventsAPI = eventsAPI, cs_initErrorPayload = None,
     cs_resetDone = False, cs_logCollector = logCollector, cs_posts = []\<rparr>"

section \<open>Requests to LocalStack\<close>

text \<open>The answer is an error of the transport or a status.\<close>

definition adapter_post :: "go_error + int \<Rightarrow> string \<Rightarrow> string \<Rightarrow> CustomInteropServer \<Rightarrow> CustomInteropServer \<times> go_error option" where
  "adapter_post answer path payload s =
    (s\<lparr>cs_posts := cs_posts s @ [(UpstreamEndpoint (cs_localStackAdapter s) @ path, payload)]\<rparr>,
     case answer of
       Inl e \<Rightarrow> Some e
     | Inr status \<Rightarrow> if status < 200 \<or> status \<ge> 300 then Some (ErrText (''POST '' @ path @ '' returned status '' @ int_dec status)) else None)"

definition SendStatus :: "go_error + int \<Rightarrow> LocalStackStatus \<Rightarrow> string \<Rightarrow> CustomInteropServer \<Rightarrow> CustomInteropServer \<times> go_error option" where
  "SendStatus answer status payload s =
    adapter_post answer (''/status/'' @ RuntimeId (cs_localStackAdapter s) @ ''/'' @ status_text status) payload s"

definition SendLogs :: "ls_json \<Rightarrow> go_error + int \<Rightarrow> string \<Rightarrow> string \<Rightarrow> CustomInteropServer \<Rightarrow> CustomInteropServer \<times> go_error option" where
  "SendLogs js answer invokeId logs s =
    (case lj_logs js logs of
       None \<Rightarrow> (s, Some (ErrText ''json''))
     | Some serialized \<Rightarrow> adapter_post answer (''/invocations/'' @ invokeId @ ''/logs'') serialized s)"

definition has_error_type :: "ls_json \<Rightarrow> string \<Rightarrow> bool" where
  "has_error_type js body =
    (case lj_fields js body of Some (Some fs) \<Rightarrow> map_of fs ''errorType'' \<noteq> None | _ \<Rightarrow> False)"

definition SendResult :: "ls_json \<Rightarrow> go_error + int \<Rightarrow> string \<Rightarrow> string \<Rightarrow> bool \<Rightarrow> CustomInteropServer \<Rightarrow> CustomInteropServer \<times> go_error option" where
  "SendResult js answer invokeId body isError s =
    (let isError = (if \<not> isError then has_error_type js body else isError)
     in adapter_post answer (''/invocations/'' @ invokeId @ (if isError then ''/error'' else ''/response'')) body s)"

section \<open>Invocations\<close>

text \<open>A request with no field set; an empty response mode counts as buffered.\<close>

definition zero_Invoke :: Invoke where
  "zero_Invoke = \<lparr>iv_TraceID = [], iv_LambdaSegmentID = [], iv_ID = [], iv_TenantID = [], iv_InvokedFunctionArn = [],
     iv_CognitoIdentityID = [], iv_CognitoIdentityPoolID = [], iv_DeadlineNs = [], iv_ClientContext = [],
     iv_ContentType = [], iv_Payload = [], iv_NeedDebugLogs = False, iv_ReservationToken = [], iv_VersionID = [],
     iv_InvokeReceivedTime = 0, iv_InvokeResponseMetrics = None, iv_InvokeResponseMode = ResponseModeBuffered,
     iv_RestoreDurationNs = 0, iv_RestoreStartTimeMonotime = 0\<rparr>"

definition decodeInvokeRequest :: "ls_json \<Rightarrow> string \<Rightarrow> go_error + Invoke" where
  "decodeInvokeRequest js body =
    (case lj_request js body of
       Inl e \<Rightarrow> Inl e
     | Inr None \<Rightarrow> Inl (ErrText ''invocation request must be an object'')
     | Inr (Some rq) \<Rightarrow>
        (case lj_base64 js (iq_ClientContext rq) of
           Inl e \<Rightarrow> Inl e
         | Inr clientContext \<Rightarrow>
             Inr (zero_Invoke\<lparr>iv_ID := iq_InvokeId rq, iv_InvokedFunctionArn := iq_InvokedFunctionArn rq,
               iv_Payload := string_bytes (iq_Payload rq), iv_NeedDebugLogs := True, iv_TraceID := iq_TraceId rq,
               iv_ClientContext := clientContext\<rparr>)))"

text \<open>The response to a request and the invocation that is dispatched, if any.\<close>

definition newInvokeHandler :: "ls_json \<Rightarrow> render_env \<Rightarrow> reader \<Rightarrow> response_writer \<times> Invoke option" where
  "newInvokeHandler js env body =
    (if rd_err body \<noteq> None then (http_Error env ''Failed to read invocation request'' 500 new_writer, None)
     else case decodeInvokeRequest js (bytes_string (rd_data body)) of
            Inl e \<Rightarrow> (http_Error env ''Invalid invocation request'' 400 new_writer, None)
          | Inr ivk \<Rightarrow> (fst (http_Write env (string_bytes ''OK'') (WriteHeader 200 new_writer)), Some ivk))"

text \<open>\<open>ResponseWriterProxy\<close>: a write replaces the body.\<close>

record ResponseWriterProxy =
  rp_Body :: string
  rp_StatusCode :: int

definition rp_Write :: "string \<Rightarrow> ResponseWriterProxy \<Rightarrow> ResponseWriterProxy \<times> int \<times> go_error option" where
  "rp_Write b w = (w\<lparr>rp_Body := b\<rparr>, 0, None)"

definition rp_WriteHeader :: "int \<Rightarrow> ResponseWriterProxy \<Rightarrow> ResponseWriterProxy" where
  "rp_WriteHeader statusCode w = w\<lparr>rp_StatusCode := statusCode\<rparr>"

definition dispatch_begin :: "CustomInteropServer \<Rightarrow> CustomInteropServer \<times> int \<times> bool" where
  "dispatch_begin s =
    (case TakeColdStartInitDuration (cs_eventsAPI s) of (e, d, ok) \<Rightarrow> (s\<lparr>cs_eventsAPI := e\<rparr>, d, ok))"

record dispatch_env =
  de_json :: ls_json
  de_f2 :: "int \<Rightarrow> string"
  de_d2 :: "ns \<Rightarrow> string"
  de_elapsed :: ns
  de_PostInvokeWaitMS :: string
  de_memorySize :: "string option"
  de_logsAnswer :: "go_error + int"
  de_resultAnswer :: "go_error + int"

definition timeout_seconds :: "CustomInteropServer \<Rightarrow> int" where
  "timeout_seconds s = go_quot (GetInvokeTimeout (cs_delegate s)) 1000000000"

text \<open>What the error of \<open>Invoke\<close> makes of the response: the body, whether it is an error, the status and the error type.\<close>

definition invoke_outcome :: "dispatch_env \<Rightarrow> Invoke \<Rightarrow> go_error option \<Rightarrow> ResponseWriterProxy \<Rightarrow> CustomInteropServer
    \<Rightarrow> (ResponseWriterProxy \<times> bool \<times> string \<times> string) outcome" where
  "invoke_outcome env ivk er w s =
    (case er of
       None \<Rightarrow> Ret (w, False, [], [])
     | Some e \<Rightarrow>
        if e = ErrInvokeTimeout
        then (case lj_error (de_json env) \<lparr>ls_ErrorMessage = ''RequestId: '' @ iv_ID ivk @ '' Error: Task timed out after '' @
                  int_dec (timeout_seconds s) @ ''.00 seconds'', ls_ErrorType = ''Sandbox.Timedout''\<rparr> of
                None \<Rightarrow> Panics ''unable to marshall json timeout response''
              | Some body \<Rightarrow> Ret (fst (rp_Write body w), True, ''timeout'', []))
        else if e = ErrInvokeDoneFailed
        then (let errType = InitErrorType (cs_eventsAPI s)
              in if errType \<noteq> [] then Ret (w, True, ''error'', errType) else Ret (w, False, [], []))
        else Panics ''fatal'')"

definition dispatch_end :: "dispatch_env \<Rightarrow> Invoke \<Rightarrow> int \<Rightarrow> bool \<Rightarrow> go_error option \<Rightarrow> ResponseWriterProxy \<Rightarrow> CustomInteropServer
    \<Rightarrow> CustomInteropServer outcome" where
  "dispatch_end env ivk initDurationMS hasInitDuration er w s =
    outcome_bind (invoke_outcome env ivk er w s) (\<lambda>(w, isErr, status, errorType).
      if de_PostInvokeWaitMS env \<noteq> [] \<and> parse_int64 (de_PostInvokeWaitMS env) = None then Panics ''fatal''
      else case de_memorySize env of
             None \<Rightarrow> Panics ''Could not find environment variable''
           | Some memorySize \<Rightarrow>
              let s = s\<lparr>cs_logCollector := PrintEndReports (de_d2 env) (de_f2 env) (iv_ID ivk) initDurationMS hasInitDuration status errorType
                          memorySize (de_elapsed env) (timeout_seconds s * 1000000000) (cs_logCollector s)\<rparr>;
                  (lc, logs) = lc_getLogs (cs_logCollector s);
                  (s, er1) = SendLogs (de_json env) (de_logsAnswer env) (iv_ID ivk) logs (s\<lparr>cs_logCollector := lc\<rparr>);
                  (s, er2) = SendResult (de_json env) (de_resultAnswer env) (iv_ID ivk) (rp_Body w) isErr s
              in Ret s)"

section \<open>Methods that wrap the delegate\<close>

definition cs_SendResponse :: "string \<Rightarrow> StreamableInvokeResponse \<Rightarrow> send_env \<Rightarrow> CustomInteropServer
    \<Rightarrow> CustomInteropServer \<times> go_error option \<times> InvokeResponseMetrics option" where
  "cs_SendResponse invokeID resp env s =
    (case SendResponse invokeID resp env (cs_delegate s) of (d, er, m) \<Rightarrow> (s\<lparr>cs_delegate := d\<rparr>, er, m))"

definition cs_SendErrorResponse :: "string \<Rightarrow> ErrorInvokeResponse \<Rightarrow> send_env \<Rightarrow> CustomInteropServer
    \<Rightarrow> CustomInteropServer \<times> go_error option \<times> InvokeResponseMetrics option" where
  "cs_SendErrorResponse invokeID resp env s =
    (case SendErrorResponse invokeID resp env (cs_delegate s) of (d, er, m) \<Rightarrow> (s\<lparr>cs_delegate := d\<rparr>, er, m))"

definition cs_SendInitErrorResponse :: "ErrorInvokeResponse \<Rightarrow> send_env \<Rightarrow> CustomInteropServer
    \<Rightarrow> CustomInteropServer \<times> go_error option \<times> InvokeResponseMetrics option" where
  "cs_SendInitErrorResponse resp env s =
    (let s = s\<lparr>cs_initErrorPayload := Some (eir_Payload resp)\<rparr>
     in case SendInitErrorResponse resp env (cs_delegate s) of (d, er, m) \<Rightarrow> (s\<lparr>cs_delegate := d\<rparr>, er, m))"

definition cs_GetCurrentInvokeID :: "CustomInteropServer \<Rightarrow> string" where
  "cs_GetCurrentInvokeID s = GetCurrentInvokeID (cs_delegate s)"

text \<open>The end of \<open>Reset\<close>: the delegate returned, and a message is left for a waiter unless there is one.\<close>

definition cs_Reset_end :: "Done \<Rightarrow> CustomInteropServer \<Rightarrow> CustomInteropServer \<times> (go_error + ResetDescription)" where
  "cs_Reset_end d s =
    (case reset_end d (cs_delegate s) of (dl, r) \<Rightarrow> (s\<lparr>cs_delegate := dl, cs_resetDone := True\<rparr>, r))"

text \<open>Writing a field of the map that \<open>null\<close> decodes to panics.\<close>

definition adaptInitErrorPayload :: "ls_json \<Rightarrow> string \<Rightarrow> string \<Rightarrow> string option outcome" where
  "adaptInitErrorPayload js payload requestID =
    (case lj_fields js payload of
       None \<Rightarrow> Ret None
     | Some None \<Rightarrow> Panics ''assignment to entry in nil map''
     | Some (Some fs) \<Rightarrow> Ret (lj_object js (go_map_set ''requestId'' (lj_string js requestID) fs)))"

definition ReportInitFailure :: "ls_json \<Rightarrow> go_error + int \<Rightarrow> ErrorType \<Rightarrow> string \<Rightarrow> CustomInteropServer \<Rightarrow> CustomInteropServer outcome" where
  "ReportInitFailure js answer errType message s =
    (case cs_initErrorPayload s of
       None \<Rightarrow>
         (case lj_error js \<lparr>ls_ErrorMessage = ''RequestId: '' @ cs_GetCurrentInvokeID s @ '' Error: '' @ message, ls_ErrorType = errType\<rparr> of
            None \<Rightarrow> Ret s
          | Some body \<Rightarrow> Ret (fst (SendStatus answer Error body s)))
     | Some payload \<Rightarrow>
         outcome_bind (adaptInitErrorPayload js payload (cs_GetCurrentInvokeID s)) (\<lambda>adapted.
           Ret (fst (SendStatus answer Error (case adapted of Some a \<Rightarrow> a | None \<Rightarrow> payload) s))))"

section \<open>What LocalStack is told\<close>

lemma adapter_post_posts [simp]:
  "cs_posts (fst (adapter_post a p b s)) = cs_posts s @ [(UpstreamEndpoint (cs_localStackAdapter s) @ p, b)]"
  "cs_localStackAdapter (fst (adapter_post a p b s)) = cs_localStackAdapter s"
  "cs_logCollector (fst (adapter_post a p b s)) = cs_logCollector s"
  by (simp_all add: adapter_post_def)

text \<open>The invocation counts as failed for the platform: it timed out, or an initialization folded into it failed.\<close>

definition platform_failure :: "go_error option \<Rightarrow> CustomInteropServer \<Rightarrow> bool" where
  "platform_failure er s = (er = Some ErrInvokeTimeout \<or> er = Some ErrInvokeDoneFailed \<and> InitErrorType (cs_eventsAPI s) \<noteq> [])"

text \<open>The two requests at the end of an invocation, for the body of its response.\<close>

definition reported :: "dispatch_env \<Rightarrow> Invoke \<Rightarrow> string \<Rightarrow> string \<Rightarrow> bool \<Rightarrow> CustomInteropServer \<Rightarrow> CustomInteropServer \<Rightarrow> bool" where
  "reported env ivk logs body isErr s s' =
    (\<exists>serialized. lj_logs (de_json env) logs = Some serialized \<and> RuntimeLogs (cs_logCollector s') = [] \<and>
       cs_posts s' = cs_posts s @
         [(UpstreamEndpoint (cs_localStackAdapter s) @ ''/invocations/'' @ iv_ID ivk @ ''/logs'', serialized),
          (UpstreamEndpoint (cs_localStackAdapter s) @ ''/invocations/'' @ iv_ID ivk @ (if isErr then ''/error'' else ''/response''), body)])"

definition timeout_response :: "Invoke \<Rightarrow> CustomInteropServer \<Rightarrow> ls_ErrorResponse" where
  "timeout_response ivk s = \<lparr>ls_ErrorMessage = ''RequestId: '' @ iv_ID ivk @ '' Error: Task timed out after '' @
     int_dec (timeout_seconds s) @ ''.00 seconds'', ls_ErrorType = ''Sandbox.Timedout''\<rparr>"

definition final_body :: "dispatch_env \<Rightarrow> Invoke \<Rightarrow> go_error option \<Rightarrow> ResponseWriterProxy \<Rightarrow> CustomInteropServer \<Rightarrow> string" where
  "final_body env ivk er w s =
    (if er = Some ErrInvokeTimeout then the (lj_error (de_json env) (timeout_response ivk s)) else rp_Body w)"

definition final_logs :: "dispatch_env \<Rightarrow> Invoke \<Rightarrow> int \<Rightarrow> bool \<Rightarrow> go_error option \<Rightarrow> CustomInteropServer \<Rightarrow> string" where
  "final_logs env ivk d h er s =
    concat (RuntimeLogs (cs_logCollector s)) @ end_line (iv_ID ivk) @
    report_line (de_d2 env) (de_f2 env) (iv_ID ivk) d h
      (if er = Some ErrInvokeTimeout then ''timeout'' else if platform_failure er s then ''error'' else [])
      (if er = Some ErrInvokeTimeout then [] else if platform_failure er s then InitErrorType (cs_eventsAPI s) else [])
      (the (de_memorySize env)) (de_elapsed env) (timeout_seconds s * 1000000000)"

lemma errors_distinct [simp]: "ErrInvokeTimeout \<noteq> ErrInvokeDoneFailed" "ErrInvokeDoneFailed \<noteq> ErrInvokeTimeout"
  by (simp_all add: ErrInvokeTimeout_def ErrInvokeDoneFailed_def)

lemma invoke_outcome_Ret:
  assumes "\<forall>e. lj_error (de_json env) e \<noteq> None" "er \<in> {None, Some ErrInvokeTimeout, Some ErrInvokeDoneFailed}"
  shows "\<exists>w'. rp_Body w' = final_body env ivk er w s \<and> invoke_outcome env ivk er w s = Ret (w', platform_failure er s,
    (if er = Some ErrInvokeTimeout then ''timeout'' else if platform_failure er s then ''error'' else []),
    (if er = Some ErrInvokeTimeout then [] else if platform_failure er s then InitErrorType (cs_eventsAPI s) else []))"
proof -
  obtain body where "lj_error (de_json env) (timeout_response ivk s) = Some body" using assms(1) by blast
  then show ?thesis using assms(2)
    by (auto simp: invoke_outcome_def platform_failure_def final_body_def rp_Write_def timeout_response_def)
qed

lemma dispatch_end_delegate: "dispatch_end env ivk d h er w s = Ret s' \<Longrightarrow> cs_delegate s' = cs_delegate s"
  by (auto simp: dispatch_end_def outcome_bind_Ret Let_def lc_getLogs_def SendLogs_def SendResult_def adapter_post_def
      split: if_splits option.splits prod.splits)

lemma dispatch_end_tail:
  assumes "invoke_outcome env ivk er w s = Ret (w', isErr, st, ty)" "de_memorySize env = Some mem"
    and "\<not> (de_PostInvokeWaitMS env \<noteq> [] \<and> parse_int64 (de_PostInvokeWaitMS env) = None)"
    and "lj_logs (de_json env) (concat (RuntimeLogs (cs_logCollector s)) @ end_line (iv_ID ivk) @
      report_line (de_d2 env) (de_f2 env) (iv_ID ivk) d h st ty mem (de_elapsed env) (timeout_seconds s * 1000000000)) = Some serialized"
  shows "\<exists>s'. dispatch_end env ivk d h er w s = Ret s' \<and>
    reported env ivk (concat (RuntimeLogs (cs_logCollector s)) @ end_line (iv_ID ivk) @
      report_line (de_d2 env) (de_f2 env) (iv_ID ivk) d h st ty mem (de_elapsed env) (timeout_seconds s * 1000000000))
      (rp_Body w') (isErr \<or> has_error_type (de_json env) (rp_Body w')) s s'"
proof -
  let ?lc = "PrintEndReports (de_d2 env) (de_f2 env) (iv_ID ivk) d h st ty mem (de_elapsed env) (timeout_seconds s * 1000000000) (cs_logCollector s)"
  have logs: "concat (RuntimeLogs ?lc) = concat (RuntimeLogs (cs_logCollector s)) @ end_line (iv_ID ivk) @
      report_line (de_d2 env) (de_f2 env) (iv_ID ivk) d h st ty mem (de_elapsed env) (timeout_seconds s * 1000000000)"
    by (simp add: PrintEndReports_def lc_Write_def lc_Put_def)
  show ?thesis using assms(3)
    by (simp add: dispatch_end_def assms(1,2) outcome_bind_Ret Let_def lc_getLogs_def logs SendLogs_def assms(4) SendResult_def
        case_prod_unfold reported_def del: de_Morgan_conj)
qed

text \<open>C16: every invocation is reported to LocalStack exactly once.  When \<open>Invoke\<close> returned without an error, with a timeout or
  with a failure, and the settings are sound, LocalStack is sent the logs, which end with the \<open>END\<close> and \<open>REPORT\<close> lines of
  the invocation and leave nothing behind, and then the result.  The result is an error exactly when the invocation
  timed out, when a failed initialization was folded into it, or when the body is an object with an \<open>errorType\<close>;
  after a timeout the body is the timeout error, otherwise what the runtime wrote.  In all other cases the
  process ends.\<close>

theorem invocation_reported:
  assumes "\<forall>l. lj_logs (de_json env) l \<noteq> None" "\<forall>e. lj_error (de_json env) e \<noteq> None"
  shows "case dispatch_end env ivk d h er w s of
      Ret s' \<Rightarrow> reported env ivk (final_logs env ivk d h er s) (final_body env ivk er w s)
        (platform_failure er s \<or> has_error_type (de_json env) (final_body env ivk er w s)) s s'
    | Panics m \<Rightarrow> er \<notin> {None, Some ErrInvokeTimeout, Some ErrInvokeDoneFailed} \<or> de_memorySize env = None \<or>
        de_PostInvokeWaitMS env \<noteq> [] \<and> parse_int64 (de_PostInvokeWaitMS env) = None
    | Blocks \<Rightarrow> False"
proof (cases "er \<in> {None, Some ErrInvokeTimeout, Some ErrInvokeDoneFailed}")
  case True
  obtain w' where w': "rp_Body w' = final_body env ivk er w s"
    "invoke_outcome env ivk er w s = Ret (w', platform_failure er s,
      (if er = Some ErrInvokeTimeout then ''timeout'' else if platform_failure er s then ''error'' else []),
      (if er = Some ErrInvokeTimeout then [] else if platform_failure er s then InitErrorType (cs_eventsAPI s) else []))"
    using invoke_outcome_Ret [OF assms(2) True] by blast
  show ?thesis
  proof (cases "de_memorySize env = None \<or> de_PostInvokeWaitMS env \<noteq> [] \<and> parse_int64 (de_PostInvokeWaitMS env) = None")
    case bad: True
    then show ?thesis by (auto simp: dispatch_end_def w'(2) outcome_bind_Ret)
  next
    case ok: False
    then obtain mem where mem: "de_memorySize env = Some mem" by auto
    obtain serialized where l: "lj_logs (de_json env) (final_logs env ivk d h er s) = Some serialized" using assms(1) by blast
    have ok': "\<not> (de_PostInvokeWaitMS env \<noteq> [] \<and> parse_int64 (de_PostInvokeWaitMS env) = None)" using ok by blast
    show ?thesis using dispatch_end_tail [OF w'(2) mem ok' l [unfolded final_logs_def mem option.sel]]
      by (auto simp: w'(1) final_logs_def mem)
  qed
next
  case False
  then show ?thesis by (auto simp: dispatch_end_def invoke_outcome_def split: option.splits)
qed

definition sample_json :: ls_json where
  "sample_json = \<lparr>lj_request = (\<lambda>b. Inr None), lj_base64 = Inr,
     lj_fields = (\<lambda>b. if b = ''{E}'' then Some (Some [(''errorType'', ''X'')])
       else if b = ''{ER}'' then Some (Some [(''errorType'', ''X''), (''requestId'', ''i1'')]) else if b = ''null'' then Some None else None),
     lj_object = (\<lambda>fs. if fs = [(''errorType'', ''X''), (''requestId'', ''i1'')] then Some ''{ER}'' else None),
     lj_string = id, lj_error = (\<lambda>e. Some (ls_ErrorMessage e)), lj_logs = Some\<rparr>"

definition sample_dispatch :: dispatch_env where
  "sample_dispatch = \<lparr>de_json = sample_json, de_f2 = sample_duration_text, de_d2 = sample_duration_text, de_elapsed = 5000000,
     de_PostInvokeWaitMS = [], de_memorySize = Some ''128'', de_logsAnswer = Inr 200, de_resultAnswer = Inr 200\<rparr>"

definition sample_interop :: CustomInteropServer where
  "sample_interop = NewCustomInteropServer ''9563'' ''http://h'' ''r1'' sample_server NewLogCollector (NewLocalStackEventsAPI True)"

theorem invocation_reported_witness:
  "case dispatch_end sample_dispatch (zero_Invoke\<lparr>iv_ID := ''i1''\<rparr>) 0 False None \<lparr>rp_Body = ''{E}'', rp_StatusCode = 0\<rparr> sample_interop of
     Ret s' \<Rightarrow> map fst (cs_posts s') = [''http://h/invocations/i1/logs'', ''http://h/invocations/i1/error'']
   | _ \<Rightarrow> False"
proof -
  have m: "de_memorySize sample_dispatch \<noteq> None" "de_PostInvokeWaitMS sample_dispatch = []" by (simp_all add: sample_dispatch_def)
  have e: "has_error_type (de_json sample_dispatch) ''{E}''" by (simp add: has_error_type_def sample_dispatch_def sample_json_def)
  have s: "cs_posts sample_interop = []" "UpstreamEndpoint (cs_localStackAdapter sample_interop) = ''http://h''"
    by (simp_all add: sample_interop_def NewCustomInteropServer_def)
  show ?thesis
    using invocation_reported [where env = sample_dispatch and ivk = "zero_Invoke\<lparr>iv_ID := ''i1''\<rparr>" and d = 0 and h = False
        and er = None and w = "\<lparr>rp_Body = ''{E}'', rp_StatusCode = 0\<rparr>" and s = sample_interop]
      m e s by (auto simp: reported_def final_body_def sample_dispatch_def sample_json_def split: outcome.splits)
qed

text \<open>what LocalStack learns about a failed initialization.  \<open>ReportInitFailure\<close> sends one error status.  Without an error
  reported by the runtime it carries the given type and message under the current request id; an object that the runtime
  reported is sent with all its fields and the request id added; a payload that is not JSON is sent as it is.
  The payload \<open>null\<close> is valid JSON and makes it panic.  The hypotheses are that encoding the platform's own
  error succeeds and that decoding inverts encoding.\<close>

theorem init_failure_reported:
  assumes "\<forall>e. lj_error js e \<noteq> None" "\<forall>fs t. lj_object js fs = Some t \<longrightarrow> lj_fields js t = Some (Some fs)"
  shows "case ReportInitFailure js answer errType message s of
      Ret s' \<Rightarrow> \<exists>body. cs_posts s' = cs_posts s @ [(UpstreamEndpoint (cs_localStackAdapter s) @ ''/status/'' @
          RuntimeId (cs_localStackAdapter s) @ ''/error'', body)] \<and>
        (case cs_initErrorPayload s of
           None \<Rightarrow> lj_error js \<lparr>ls_ErrorMessage = ''RequestId: '' @ GetCurrentInvokeID (cs_delegate s) @ '' Error: '' @ message,
             ls_ErrorType = errType\<rparr> = Some body
         | Some payload \<Rightarrow> body = payload \<or>
             (\<exists>fs fs'. lj_fields js payload = Some (Some fs) \<and> lj_fields js body = Some (Some fs') \<and>
               map_of fs' = (map_of fs)(''requestId'' \<mapsto> lj_string js (GetCurrentInvokeID (cs_delegate s)))))
    | Panics m \<Rightarrow> \<exists>payload. cs_initErrorPayload s = Some payload \<and> lj_fields js payload = Some None
    | Blocks \<Rightarrow> False"
proof (cases "cs_initErrorPayload s")
  case None
  obtain body where "lj_error js \<lparr>ls_ErrorMessage = ''RequestId: '' @ GetCurrentInvokeID (cs_delegate s) @ '' Error: '' @ message,
      ls_ErrorType = errType\<rparr> = Some body" using assms(1) by blast
  then show ?thesis using None by (simp add: ReportInitFailure_def cs_GetCurrentInvokeID_def SendStatus_def)
next
  case (Some payload)
  show ?thesis
  proof (cases "lj_fields js payload")
    case None
    then show ?thesis using Some by (simp add: ReportInitFailure_def adaptInitErrorPayload_def outcome_bind_Ret SendStatus_def)
  next
    case (Some o')
    show ?thesis
    proof (cases o')
      case None
      then show ?thesis using \<open>cs_initErrorPayload s = Some payload\<close> Some by (simp add: ReportInitFailure_def adaptInitErrorPayload_def)
    next
      case fs: (Some fs)
      let ?fs' = "go_map_set ''requestId'' (lj_string js (GetCurrentInvokeID (cs_delegate s))) fs"
      show ?thesis using \<open>cs_initErrorPayload s = Some payload\<close> Some fs assms(2)
        by (cases "lj_object js ?fs'") (auto simp: ReportInitFailure_def adaptInitErrorPayload_def outcome_bind_Ret SendStatus_def
            cs_GetCurrentInvokeID_def map_of_go_map_set)
    qed
  qed
qed

theorem init_failure_reported_witness:
  "case ReportInitFailure sample_json (Inr 202) RuntimeExit ''Runtime exited'' (sample_interop\<lparr>cs_initErrorPayload := Some ''{E}''\<rparr>) of
     Ret s' \<Rightarrow> map fst (cs_posts s') = [''http://h/status/r1/error''] | _ \<Rightarrow> False"
proof -
  have laws: "\<forall>e. lj_error sample_json e \<noteq> None"
    "\<forall>fs t. lj_object sample_json fs = Some t \<longrightarrow> lj_fields sample_json t = Some (Some fs)"
    by (simp_all add: sample_json_def)
  have "lj_fields sample_json ''{E}'' \<noteq> Some None" by (simp add: sample_json_def)
  then show ?thesis
    using init_failure_reported [OF laws, where answer = "Inr 202" and errType = RuntimeExit and message = "''Runtime exited''"
        and s = "sample_interop\<lparr>cs_initErrorPayload := Some ''{E}''\<rparr>"]
    by (auto simp: sample_interop_def NewCustomInteropServer_def split: outcome.splits)
qed

lemma null_init_error_panics:
  "cs_initErrorPayload s = Some ''null'' \<Longrightarrow> lj_fields js ''null'' = Some None \<Longrightarrow>
    \<exists>m. ReportInitFailure js answer errType message s = Panics m"
  by (simp add: ReportInitFailure_def adaptInitErrorPayload_def)

text \<open>A request is acknowledged exactly when an invocation is dispatched, which carries its fields.\<close>

lemma acknowledged_iff_dispatched:
  assumes "newInvokeHandler js env body = (w, ivk)"
  shows "(rw_status w = Some 200) = (ivk \<noteq> None)"
    and "ivk = Some i \<Longrightarrow> \<exists>rq. lj_request js (bytes_string (rd_data body)) = Inr (Some rq) \<and> iv_ID i = iq_InvokeId rq \<and>
      iv_InvokedFunctionArn i = iq_InvokedFunctionArn rq \<and> iv_Payload i = string_bytes (iq_Payload rq) \<and> iv_TraceID i = iq_TraceId rq"
  using assms by (auto simp: newInvokeHandler_def decodeInvokeRequest_def http_Error_def http_Write_def WriteHeader_def header_set_def
      header_del_def body_write_def new_writer_def split: if_splits sum.splits option.splits)

end
