(* ===== verification/LocalStack_Startup.thy ===== *)
theory LocalStack_Startup
  imports Rapid_Handlers
begin

text \<open>
  The start of the LocalStack command: its options and the variables it hides (\<open>main.go\<close>), the choice of the bootstrap
  and the init request (\<open>awsutil.go\<close>, \<open>simple_bootstrap.go\<close>), the user it runs as (\<open>user.go\<close>), and the part of
  \<open>SandboxContext.Init\<close> (\<open>rapidcore/sandbox_api.go\<close>) that prepares the variables.  The environment of the process is
  the list of its entries; the file system, the user database and the answers of system calls are arguments.
\<close>

section \<open>The environment of the process\<close>

definition os_Getenv :: "string list \<Rightarrow> string \<Rightarrow> string" where
  "os_Getenv env key = (case os_LookupEnv env key of Some v \<Rightarrow> v | None \<Rightarrow> [])"

definition os_Unsetenv :: "string \<Rightarrow> string list \<Rightarrow> string list" where
  "os_Unsetenv key env = filter (\<lambda>s. case SplitEnvironmentVariable s of Some (k, v) \<Rightarrow> k \<noteq> key | None \<Rightarrow> True) env"

definition os_Setenv :: "string \<Rightarrow> string \<Rightarrow> string list \<Rightarrow> string list" where
  "os_Setenv key val env = os_Unsetenv key env @ [key @ CHR ''='' # val]"

definition GetEnvOrDie :: "string list \<Rightarrow> string \<Rightarrow> string outcome" where
  "GetEnvOrDie env key =
    (case os_LookupEnv env key of Some v \<Rightarrow> Ret v | None \<Rightarrow> Panics (''Could not find environment variable for: '' @ key))"

definition GetenvWithDefault :: "string list \<Rightarrow> string \<Rightarrow> string \<Rightarrow> string" where
  "GetenvWithDefault env key defaultValue = (case os_LookupEnv env key of Some v \<Rightarrow> v | None \<Rightarrow> defaultValue)"

record LsOpts =
  InteropPort :: string
  RuntimeEndpoint :: string
  lo_RuntimeId :: string
  AccountId :: string
  InitTracingPort :: string
  User :: string
  CodeArchives :: string
  HotReloadingPaths :: "string list"
  FileWatcherStrategy :: string
  ChmodPaths :: string
  LocalstackIP :: string
  InitLogLevel :: string
  EdgePort :: string
  EnableXRayTelemetry :: string
  PostInvokeWaitMS :: string
  lo_MaxPayloadSize :: string
  InitPhaseTimeout :: string

definition InitLsOpts :: "string list \<Rightarrow> LsOpts outcome" where
  "InitLsOpts env =
    outcome_bind (GetEnvOrDie env ''LOCALSTACK_RUNTIME_ENDPOINT'') (\<lambda>endpoint.
    outcome_bind (GetEnvOrDie env ''LOCALSTACK_RUNTIME_ID'') (\<lambda>runtimeId.
      Ret \<lparr>InteropPort = GetenvWithDefault env ''LOCALSTACK_INTEROP_PORT'' ''9563'',
           RuntimeEndpoint = endpoint, lo_RuntimeId = runtimeId,
           AccountId = GetenvWithDefault env ''LOCALSTACK_FUNCTION_ACCOUNT_ID'' ''000000000000'',
           InitTracingPort = GetenvWithDefault env ''LOCALSTACK_RUNTIME_TRACING_PORT'' ''9564'',
           User = GetenvWithDefault env ''LOCALSTACK_USER'' ''sbx_user1051'',
           CodeArchives = os_Getenv env ''LOCALSTACK_CODE_ARCHIVES'',
           HotReloadingPaths = split_on (CHR '','') (GetenvWithDefault env ''LOCALSTACK_HOT_RELOADING_PATHS'' []),
           FileWatcherStrategy = os_Getenv env ''LOCALSTACK_FILE_WATCHER_STRATEGY'',
           ChmodPaths = GetenvWithDefault env ''LOCALSTACK_CHMOD_PATHS'' ''[]'',
           LocalstackIP = os_Getenv env ''LOCALSTACK_HOSTNAME'',
           InitLogLevel = GetenvWithDefault env ''LOCALSTACK_INIT_LOG_LEVEL'' ''warn'',
           EdgePort = GetenvWithDefault env ''EDGE_PORT'' ''4566'',
           EnableXRayTelemetry = os_Getenv env ''LOCALSTACK_ENABLE_XRAY_TELEMETRY'',
           PostInvokeWaitMS = os_Getenv env ''LOCALSTACK_POST_INVOKE_WAIT_MS'',
           lo_MaxPayloadSize = GetenvWithDefault env ''LOCALSTACK_MAX_PAYLOAD_SIZE'' ''6291556'',
           InitPhaseTimeout = os_Getenv env ''LOCALSTACK_INIT_PHASE_TIMEOUT''\<rparr>))"

definition unsetList :: "string list" where
  "unsetList =
    [''LOCALSTACK_RUNTIME_ENDPOINT'', ''LOCALSTACK_RUNTIME_ID'', ''LOCALSTACK_INTEROP_PORT'', ''LOCALSTACK_RUNTIME_TRACING_PORT'',
     ''LOCALSTACK_USER'', ''LOCALSTACK_CODE_ARCHIVES'', ''LOCALSTACK_HOT_RELOADING_PATHS'', ''LOCALSTACK_ENABLE_XRAY_TELEMETRY'',
     ''LOCALSTACK_INIT_LOG_LEVEL'', ''LOCALSTACK_POST_INVOKE_WAIT_MS'', ''LOCALSTACK_FUNCTION_ACCOUNT_ID'',
     ''LOCALSTACK_MAX_PAYLOAD_SIZE'', ''LOCALSTACK_INIT_PHASE_TIMEOUT'', ''LOCALSTACK_CHMOD_PATHS'', ''HOSTNAME'', ''HOME'']"

definition UnsetLsEnvs :: "string list \<Rightarrow> string list" where
  "UnsetLsEnvs env = fold os_Unsetenv unsetList env"

text \<open>\<open>EnsureHome\<close>; \<open>unknown\<close> says that the current user has no entry.\<close>

definition EnsureHome :: "bool \<Rightarrow> string list \<Rightarrow> string list" where
  "EnsureHome unknown env = (if unknown then os_Setenv ''HOME'' ''/tmp'' env else env)"

definition isHotReloadingEnabled :: "string list \<Rightarrow> bool" where
  "isHotReloadingEnabled targetPaths = (\<not> (length targetPaths = 1 \<and> targetPaths ! 0 = []))"

definition defaultInitPhaseTimeoutSeconds :: int where "defaultInitPhaseTimeoutSeconds = 10"

definition init_phase_timeout :: "LsOpts \<Rightarrow> int" where
  "init_phase_timeout o' =
    (if InitPhaseTimeout o' \<noteq> []
     then (case parse_int64 (InitPhaseTimeout o') of Some n \<Rightarrow> if n > 0 then n else defaultInitPhaseTimeoutSeconds
           | None \<Rightarrow> defaultInitPhaseTimeoutSeconds)
     else defaultInitPhaseTimeoutSeconds)"

text \<open>The levels of the log and of the X-Ray daemon; any other value ends the process.\<close>

definition xray_log_level :: "string \<Rightarrow> string outcome" where
  "xray_log_level level =
    (if level = ''trace'' \<or> level = ''debug'' then Ret ''debug''
     else if level = ''info'' then Ret ''info''
     else if level = ''warn'' then Ret ''warn''
     else if level = ''error'' \<or> level = ''fatal'' \<or> level = ''panic'' then Ret ''error''
     else Panics ''Invalid value for LOCALSTACK_INIT_LOG_LEVEL'')"

section \<open>Bootstrap\<close>

datatype file_stat = StatNotExist | StatFails | StatFile bool

text \<open>Only the error that the file does not exist is looked at; after any other there is no file to ask.\<close>

definition isBootstrapFileExist :: "(string \<Rightarrow> file_stat) \<Rightarrow> string \<Rightarrow> bool outcome" where
  "isBootstrapFileExist stat filePath =
    (case stat filePath of StatNotExist \<Rightarrow> Ret False | StatFails \<Rightarrow> Panics ''nil pointer'' | StatFile isDir \<Rightarrow> Ret (\<not> isDir))"

fun first_existing :: "(string \<Rightarrow> file_stat) \<Rightarrow> string list \<Rightarrow> string list \<Rightarrow> string list outcome" where
  "first_existing stat [] cmd = Ret cmd"
| "first_existing stat (p # ps) cmd =
    outcome_bind (isBootstrapFileExist stat p) (\<lambda>ok. if ok then Ret [p] else first_existing stat ps cmd)"

record simpleBootstrap =
  sbs_cmd :: "string list"
  sbs_workingDir :: string

definition NewSimpleBootstrap :: "string list \<Rightarrow> string \<Rightarrow> simpleBootstrap" where
  "NewSimpleBootstrap cmd currentWorkingDir =
    \<lparr>sbs_cmd = cmd, sbs_workingDir = if currentWorkingDir = [] then ''/'' else currentWorkingDir\<rparr>"

definition simple_Cwd :: "(string \<Rightarrow> file_stat) \<Rightarrow> simpleBootstrap \<Rightarrow> go_error + string" where
  "simple_Cwd stat b =
    (if \<not> hasPrefix (sbs_workingDir b) ''/'' then Inl (ErrText (''the working directory '' @ [CHR 0x27] @ sbs_workingDir b @ [CHR 0x27] @ '' is invalid, it needs to be an absolute path''))
     else if stat (sbs_workingDir b) = StatNotExist then Inl (ErrText (''the working directory doesn't exist: '' @ sbs_workingDir b))
     else Inr (sbs_workingDir b))"

text \<open>The interface of the init request.\<close>

definition simple_bootstrap :: "(string \<Rightarrow> file_stat) \<Rightarrow> simpleBootstrap \<Rightarrow> Bootstrap" where
  "simple_bootstrap stat b =
    \<lparr>bs_Cmd = Inr (sbs_cmd b), bs_Env = RuntimeExecEnv, bs_Cwd = simple_Cwd stat b, bs_CachedFatalError = (\<lambda>e. None)\<rparr>"

text \<open>The bootstrap, the handler, and the file made executable, if any.  \<open>cwd\<close> is the working directory, if it is known.\<close>

definition getBootstrap :: "(string \<Rightarrow> file_stat) \<Rightarrow> (string \<Rightarrow> bool) \<Rightarrow> string option \<Rightarrow> string list
    \<Rightarrow> (simpleBootstrap \<times> string \<times> string option) outcome" where
  "getBootstrap stat executable cwd args =
    (let finish = (\<lambda>cmd dir handler.
           Ret (NewSimpleBootstrap cmd dir, handler, if executable (hd cmd) then None else Some (hd cmd)))
     in if length args \<le> 1
        then outcome_bind (isBootstrapFileExist stat ''/var/task/bootstrap'') (\<lambda>ok.
               if ok then finish [''/var/task/bootstrap''] ''/var/task'' []
               else outcome_bind (first_existing stat [''/opt/bootstrap'', ''/var/runtime/bootstrap''] [''/var/task/bootstrap''])
                      (\<lambda>cmd. finish cmd ''/var/task'' []))
        else finish (drop 1 args) (case cwd of Some d \<Rightarrow> d | None \<Rightarrow> ''/var/task'') (if length args > 2 then last args else []))"

section \<open>The init request\<close>

definition default_function_vars :: env_map where
  "default_function_vars =
    [(''AWS_LAMBDA_LOG_GROUP_NAME'', ''/aws/lambda/Functions''), (''AWS_LAMBDA_LOG_STREAM_NAME'', ''$LATEST''),
     (''AWS_LAMBDA_FUNCTION_VERSION'', ''$LATEST''), (''AWS_LAMBDA_FUNCTION_MEMORY_SIZE'', ''3008''),
     (''AWS_LAMBDA_FUNCTION_NAME'', ''test_function'')]"

text \<open>An entry without a separator has no second part.\<close>

fun forward_env :: "string list \<Rightarrow> env_map \<Rightarrow> env_map outcome" where
  "forward_env [] m = Ret m"
| "forward_env (s # ss) m =
    (case SplitN2 s of [k, v] \<Rightarrow> forward_env ss (go_map_set k v m) | _ \<Rightarrow> Panics ''index out of range'')"

definition InitHandler :: "string list \<Rightarrow> string \<Rightarrow> string \<Rightarrow> Init_msg outcome" where
  "InitHandler env functionVersion accountId =
    outcome_bind (forward_env (os_Environ env) default_function_vars) (\<lambda>vars.
      Ret \<lparr>in_Handler = GetenvWithDefault env ''AWS_LAMBDA_FUNCTION_HANDLER'' (os_Getenv env ''_HANDLER''),
           in_AccountID = accountId, in_AwsKey = os_Getenv env ''AWS_ACCESS_KEY_ID'',
           in_AwsSecret = os_Getenv env ''AWS_SECRET_ACCESS_KEY'', in_AwsSession = os_Getenv env ''AWS_SESSION_TOKEN'',
           in_CredentialsExpiry = 0, in_SuppressInit = False,
           in_FunctionName = GetenvWithDefault env ''AWS_LAMBDA_FUNCTION_NAME'' ''test_function'',
           in_FunctionVersion = functionVersion, in_CustomerEnvironmentVariables = vars, in_LogStreamName = [],
           in_InstanceMaxMemory = 0, in_RuntimeInfo = \<lparr>ri_ImageJSON = ''{}'', ri_Arn = [], ri_Version = []\<rparr>,
           in_EnvironmentVariables = NewEnvironment env\<rparr>)"

text \<open>The variables \<open>SandboxContext.Init\<close> stores before it passes the request on.\<close>

definition SandboxContext_Init :: "string \<Rightarrow> string \<Rightarrow> string \<Rightarrow> Init_msg \<Rightarrow> Init_msg" where
  "SandboxContext_Init handler runtimeAPIAddress metadataToken i =
    (let e = in_EnvironmentVariables i;
         e = (if length handler > 0 then SetHandler handler e else e)
     in i\<lparr>in_EnvironmentVariables :=
          StoreMetadataAPIEnvironmentVariables runtimeAPIAddress metadataToken (StoreRuntimeAPIEnvironmentVariable runtimeAPIAddress e)\<rparr>)"

section \<open>Users\<close>

definition passwd_entry :: "string \<Rightarrow> int \<Rightarrow> int \<Rightarrow> string" where
  "passwd_entry user uid gid = user @ '':x:'' @ int_dec uid @ '':'' @ int_dec gid @ ''::/home/'' @ user @ '':/sbin/nologin''"

definition shadow_entry :: "string \<Rightarrow> string" where
  "shadow_entry user = user @ '':*:18313:0:99999:7:::''"

text \<open>A file that cannot be read counts as not containing the entry, and an entry that cannot be added is only logged.\<close>

definition doesFileContainEntry :: "string option \<Rightarrow> string \<Rightarrow> bool" where
  "doesFileContainEntry file entry = (case file of None \<Rightarrow> False | Some content \<Rightarrow> str_contains content entry)"

definition addEntry :: "string \<Rightarrow> string option \<Rightarrow> string option" where
  "addEntry entry file = map_option (\<lambda>content. content @ entry) file"

definition add_missing :: "string \<Rightarrow> string option \<Rightarrow> string option" where
  "add_missing entry file = (if \<not> doesFileContainEntry file entry then addEntry entry file else file)"

definition AddUser :: "string \<Rightarrow> int \<Rightarrow> int \<Rightarrow> string option \<times> string option \<Rightarrow> string option \<times> string option" where
  "AddUser user uid gid files =
    (case files of (passwd, shadow) \<Rightarrow> (add_missing (passwd_entry user uid gid) passwd, add_missing (shadow_entry user) shadow))"

datatype ids = Ids int int

text \<open>\<open>DropPrivileges\<close>: the ids of the process, the entry of the user with both ids as text, and the errors of the two calls.\<close>

definition DropPrivileges :: "(string \<times> string) option \<Rightarrow> go_error option \<Rightarrow> go_error option \<Rightarrow> ids \<Rightarrow> ids \<times> go_error option" where
  "DropPrivileges userInfo setgidErr setuidErr p =
    (case p of Ids uid0 gid0 \<Rightarrow>
      (case userInfo of
         None \<Rightarrow> (p, Some (ErrText ''unknown user''))
       | Some (uidText, gidText) \<Rightarrow>
          (case parse_int64 gidText of
             None \<Rightarrow> (p, Some (ErrText ''invalid syntax''))
           | Some gid \<Rightarrow>
              (case parse_int64 uidText of
                 None \<Rightarrow> (p, Some (ErrText ''invalid syntax''))
               | Some uid \<Rightarrow>
                  (case setgidErr of
                     Some e \<Rightarrow> (p, Some e)
                   | None \<Rightarrow> (case setuidErr of Some e \<Rightarrow> (Ids uid0 gid, Some e) | None \<Rightarrow> (Ids uid gid, None)))))))"

section \<open>What the function sees\<close>

lemma LookupEnv_Unsetenv: "os_LookupEnv (os_Unsetenv key env) k = (if k = key then None else os_LookupEnv env k)"
proof (induction env)
  case (Cons s ss)
  then show ?case by (cases "SplitEnvironmentVariable s") (auto simp: os_Unsetenv_def)
qed (simp add: os_Unsetenv_def)

lemma LookupEnv_Unset_all: "os_LookupEnv (fold os_Unsetenv keys env) k = (if k \<in> set keys then None else os_LookupEnv env k)"
  by (induction keys arbitrary: env) (auto simp: LookupEnv_Unsetenv)

lemma LookupEnv_append:
  "os_LookupEnv (env @ env') k = (case os_LookupEnv env k of Some v \<Rightarrow> Some v | None \<Rightarrow> os_LookupEnv env' k)"
proof (induction env)
  case (Cons s ss)
  then show ?case by (cases "SplitEnvironmentVariable s") auto
qed simp

lemma LookupEnv_Setenv:
  assumes "CHR ''='' \<notin> set key" "key \<noteq> []"
  shows "os_LookupEnv (os_Setenv key val env) k = (if k = key then Some val else os_LookupEnv env k)"
  using assms SplitEnvironmentVariable_Some [of "key @ CHR ''='' # val" key val]
  by (auto simp: os_Setenv_def LookupEnv_append LookupEnv_Unsetenv split: option.splits)

definition entries_ok :: "string list \<Rightarrow> bool" where
  "entries_ok env = (\<forall>s \<in> set env. SplitEnvironmentVariable s \<noteq> None)"

lemma SplitN2_Some: "SplitEnvironmentVariable s = Some (k, v) \<Longrightarrow> SplitN2 s = [k, v]"
  by (auto simp: SplitEnvironmentVariable_Some SplitN2_join)

lemma forward_env_values:
  assumes "entries_ok env" "k \<noteq> []" "go_map_ok m"
  shows "\<exists>m'. forward_env (os_Environ_from seen env) m = Ret m' \<and> go_map_ok m' \<and>
    map_of m' k = (if k \<in> set seen then map_of m k else case os_LookupEnv env k of Some v \<Rightarrow> Some v | None \<Rightarrow> map_of m k)"
  using assms
proof (induction env arbitrary: seen m)
  case (Cons s ss)
  then obtain k' v' where s: "SplitEnvironmentVariable s = Some (k', v')" by (auto simp: entries_ok_def)
  have ss: "entries_ok ss" using Cons.prems by (simp add: entries_ok_def)
  show ?case
  proof (cases "k' \<in> set seen")
    case True
    then show ?thesis using Cons.IH [OF ss Cons.prems(2,3), of seen] s by auto
  next
    case False
    then show ?thesis using Cons.IH [OF ss Cons.prems(2), of "go_map_set k' v' m" "k' # seen"] Cons.prems s
      by (auto simp: SplitN2_Some split: option.splits)
  qed
qed simp

text \<open>The environment of the process when the init request is made, and the variables of the runtime process
  that come of it.\<close>

definition function_os_env :: "bool \<Rightarrow> string list \<Rightarrow> string list" where
  "function_os_env unknownUser env = EnsureHome unknownUser (UnsetLsEnvs env)"

definition runtime_vars :: "string \<Rightarrow> string \<Rightarrow> string \<Rightarrow> string \<Rightarrow> int \<Rightarrow> string \<Rightarrow> rapidContext \<Rightarrow> Init_msg \<Rightarrow> (env_fatal + env_map) option" where
  "runtime_vars handler addr metadataToken host port token c i =
    (case snd (acceptInitRequestForInitCaching (Some token) host port (SandboxContext_Init handler addr metadataToken i) c) of
       Inl e \<Rightarrow> None
     | Inr i' \<Rightarrow> Some (RuntimeExecEnv (in_EnvironmentVariables i')))"

lemma entries_ok_Unsetenv: "entries_ok env \<Longrightarrow> entries_ok (os_Unsetenv k env)"
  by (auto simp: entries_ok_def os_Unsetenv_def)

lemma entries_ok_UnsetLsEnvs:
  assumes "entries_ok env"
  shows "entries_ok (UnsetLsEnvs env)"
proof -
  have "entries_ok (fold os_Unsetenv ks env)" for ks
    using assms by (induction ks arbitrary: env) (simp_all add: entries_ok_Unsetenv)
  then show ?thesis by (simp add: UnsetLsEnvs_def)
qed

lemma entries_ok_function_os_env:
  assumes "entries_ok env"
  shows "entries_ok (function_os_env u env)"
proof -
  have "SplitEnvironmentVariable ''HOME=/tmp'' \<noteq> None" unfolding SplitEnvironmentVariable_None by simp
  then have "entries_ok (os_Setenv ''HOME'' ''/tmp'' e)" if "entries_ok e" for e
    using entries_ok_Unsetenv [OF that, of "''HOME''"] by (simp add: os_Setenv_def entries_ok_def)
  then show ?thesis using entries_ok_UnsetLsEnvs [OF assms] by (simp add: function_os_env_def EnsureHome_def)
qed

lemma LookupEnv_function_os_env:
  "os_LookupEnv (function_os_env u env) k =
    (if k = ''HOME'' \<and> u then Some ''/tmp'' else if k \<in> set unsetList then None else os_LookupEnv env k)"
  by (simp add: function_os_env_def EnsureHome_def UnsetLsEnvs_def LookupEnv_Unset_all LookupEnv_Setenv)

lemma defaults_reserved: "k \<notin> reserved_keys \<Longrightarrow> map_of default_function_vars k = None"
  by (auto simp: default_function_vars_def reserved_keys_def env_key_defs split: if_splits)

lemma InitHandler_vars:
  assumes "entries_ok env" "k \<noteq> []"
  shows "\<exists>i. InitHandler env ver acc = Ret i \<and> in_EnvironmentVariables i = NewEnvironment env \<and>
    go_map_ok (in_CustomerEnvironmentVariables i) \<and>
    map_of (in_CustomerEnvironmentVariables i) k = (case os_LookupEnv env k of Some v \<Rightarrow> Some v | None \<Rightarrow> map_of default_function_vars k)"
proof -
  have "go_map_ok default_function_vars" by (simp add: go_map_ok_def default_function_vars_def)
  then obtain m where "forward_env (os_Environ env) default_function_vars = Ret m" "go_map_ok m"
    "map_of m k = (case os_LookupEnv env k of Some v \<Rightarrow> Some v | None \<Rightarrow> map_of default_function_vars k)"
    using forward_env_values [OF assms, of default_function_vars "[]"] by (auto simp: os_Environ_def)
  then show ?thesis by (simp add: InitHandler_def outcome_bind_Ret)
qed

lemma init_request_fields:
  "initEnvVarsSet (storeNonCredentialEnvironmentVariablesFromInit cust h n v e)"
  "runtimeAPISet (storeNonCredentialEnvironmentVariablesFromInit cust h n v e) = runtimeAPISet e"
  "Customer (storeNonCredentialEnvironmentVariablesFromInit cust h n v e) = mapUnion [Customer e, cust]"
  "map_of (platform (storeNonCredentialEnvironmentVariablesFromInit cust h n v e)) ''AWS_LAMBDA_RUNTIME_API'' =
    map_of (platform e) ''AWS_LAMBDA_RUNTIME_API''"
  by (simp_all add: storeNonCredentialEnvironmentVariablesFromInit_def mergeCustomerEnvironmentVariables_def SetHandler_def Let_def)

lemma init_caching_env:
  assumes "env_wf e1" "Customer e1 = []" "go_map_ok cust"
    and "e = StoreEnvironmentVariablesFromInitForInitCaching host port cust h n v token
      (StoreMetadataAPIEnvironmentVariables addr mt (StoreRuntimeAPIEnvironmentVariable addr e1))"
  shows "env_wf e" "\<exists>m. RuntimeExecEnv e = Inr m" "map_of (Customer e) = map_of cust"
    "map_of (platform e) ''AWS_LAMBDA_RUNTIME_API'' = Some addr"
proof -
  show "env_wf e"
    using env_wf_fold [OF assms(1), of "[OpRuntimeAPI addr, OpMetadataAPI addr mt, OpInitCaching host port cust h n v token]"] assms(4)
    by simp
  show "\<exists>m. RuntimeExecEnv e = Inr m" 
    unfolding exec_env_ready assms(4) StoreEnvironmentVariablesFromInitForInitCaching_def
    by (simp add: init_request_fields StoreMetadataAPIEnvironmentVariables_def StoreRuntimeAPIEnvironmentVariable_def)
  show "map_of (Customer e) = map_of cust" 
    unfolding assms(4) StoreEnvironmentVariablesFromInitForInitCaching_def init_request_fields
    using assms(2,3) by (simp add: StoreMetadataAPIEnvironmentVariables_def StoreRuntimeAPIEnvironmentVariable_def map_of_mapUnion)
  show "map_of (platform e) ''AWS_LAMBDA_RUNTIME_API'' = Some addr"
    unfolding assms(4) StoreEnvironmentVariablesFromInitForInitCaching_def init_request_fields
    by (simp add: StoreMetadataAPIEnvironmentVariables_def StoreRuntimeAPIEnvironmentVariable_def)
qed



section \<open>Bootstrap and user\<close>

text \<open>With a command in the arguments it is run as given and its last argument is the handler; without, the first existing
  of three files is run, or the first when none exists.  A file whose status cannot be read ends the process.\<close>

lemma getBootstrap_command:
  "length args > 2 \<Longrightarrow> getBootstrap stat x (Some dir) args = Ret (b, handler, chmod) \<Longrightarrow>
    sbs_cmd b = tl args \<and> handler = last args \<and> sbs_workingDir b = (if dir = [] then ''/'' else dir)"
  by (auto simp: getBootstrap_def Let_def NewSimpleBootstrap_def drop_Suc)

lemma getBootstrap_search:
  assumes "length args \<le> 1" "\<And>p. stat p \<noteq> StatFails"
  shows "\<exists>b. getBootstrap stat x cwd args = Ret b \<and> sbs_workingDir (fst b) = ''/var/task'' \<and> fst (snd b) = [] \<and>
    sbs_cmd (fst b) = [if stat ''/var/task/bootstrap'' = StatFile False then ''/var/task/bootstrap''
      else if stat ''/opt/bootstrap'' = StatFile False then ''/opt/bootstrap''
      else if stat ''/var/runtime/bootstrap'' = StatFile False then ''/var/runtime/bootstrap'' else ''/var/task/bootstrap'']"
proof -
  have exist: "isBootstrapFileExist stat p = Ret (stat p = StatFile False)" for p
    using assms(2) [of p] by (cases "stat p") (simp_all add: isBootstrapFileExist_def)
  show ?thesis using assms(1)
    by (simp add: getBootstrap_def exist NewSimpleBootstrap_def outcome_bind_Ret)
qed

lemma unreadable_bootstrap_panics:
  "length args \<le> 1 \<Longrightarrow> stat ''/var/task/bootstrap'' = StatFails \<Longrightarrow> \<exists>m. getBootstrap stat x cwd args = Panics m"
  by (simp add: getBootstrap_def isBootstrapFileExist_def)

lemma str_contains_append: "str_contains (s @ p) p"
proof (induction s)
  case Nil
  then show ?case by (cases p) (simp_all add: hasPrefix_iff)
qed simp

text \<open>Adding a user twice adds it once.\<close>

lemma AddUser_idempotent: "AddUser user uid gid (AddUser user uid gid files) = AddUser user uid gid files"
proof -
  have "add_missing e (add_missing e content) = add_missing e content" for e content
    by (cases content) (auto simp: add_missing_def addEntry_def doesFileContainEntry_def str_contains_append)
  then show ?thesis by (simp add: AddUser_def split: prod.splits)
qed

text \<open>The search for the entry is not anchored: a user whose name is a suffix of a known one gets no shadow entry.\<close>

lemma shadow_entry_not_anchored:
  "snd (AddUser ''user1'' uid gid (passwd, Some (shadow_entry ''sbx_user1''))) = Some (shadow_entry ''sbx_user1'')"
proof -
  have "str_contains (shadow_entry ''sbx_user1'') (shadow_entry ''user1'')" by (simp add: shadow_entry_def hasPrefix_iff)
  then show ?thesis by (simp add: AddUser_def add_missing_def doesFileContainEntry_def)
qed

text \<open>The user is only changed after the group, and an error never leaves the process with a changed user.\<close>

lemma drop_privileges_order:
  "DropPrivileges info ge ue (Ids uid0 gid0) = (Ids uid gid, e) \<Longrightarrow>
    (uid \<noteq> uid0 \<longrightarrow> e = None \<and> ge = None \<and> (\<exists>u g. info = Some (u, g) \<and> parse_int64 u = Some uid \<and> parse_int64 g = Some gid)) \<and>
    (e = None \<longrightarrow> (\<exists>u g. info = Some (u, g) \<and> parse_int64 u = Some uid \<and> parse_int64 g = Some gid))"
  by (auto simp: DropPrivileges_def split: option.splits)

end
