(* ===== verification/LocalStack_Main.thy ===== *)
theory LocalStack_Main
  imports LocalStack_Interop LocalStack_Startup
begin

text \<open>
  The init phase of the LocalStack command (\<open>main\<close> of \<open>cmd/localstack/main.go\<close> from the start of the runtime's
  initialization to the status sent to LocalStack), interleaved with the goroutine that waits for the end of the
  initialization, with the initialization itself, and with the resets of hot reloading (\<open>resetListener\<close> of \<open>awsutil.go\<close>).
  A reset starts a goroutine, which clears the server and sends its result over one channel that all resets share; \<open>Reset\<close> receives
  a result there and releases the reservation.
\<close>

section \<open>State\<close>

datatype main_pc =
    MStart | MSelect | MReset | MAwaitDone | MDecide "go_error option" | MAwaitReset | MSendReady
  | MReady | MExited

text \<open>The goroutine that resets for hot reloading waits for a change, or for a reset.\<close>

datatype hot_pc = HIdle | HReset

record main_state =
  ms_server :: CustomInteropServer
  ms_onDemand :: bool
  ms_hotReloadEnabled :: bool
  ms_initPhaseTimeoutSeconds :: int
  ms_pc :: main_pc
  ms_awaiting :: bool
  ms_initDone :: "go_error option option"
  ms_hot :: hot_pc
  ms_resets :: nat
  ms_resetDone :: "Done list"

definition main_start :: "CustomInteropServer \<Rightarrow> bool \<Rightarrow> bool \<Rightarrow> int \<Rightarrow> main_state" where
  "main_start cs onDemand hot seconds =
    \<lparr>ms_server = cs, ms_onDemand = onDemand, ms_hotReloadEnabled = hot, ms_initPhaseTimeoutSeconds = seconds, ms_pc = MStart,
     ms_awaiting = False, ms_initDone = None, ms_hot = HIdle, ms_resets = 0, ms_resetDone = []\<rparr>"

definition with_delegate :: "Server \<Rightarrow> main_state \<Rightarrow> main_state" where
  "with_delegate d s = s\<lparr>ms_server := (ms_server s)\<lparr>cs_delegate := d\<rparr>\<rparr>"

abbreviation delegate_of :: "main_state \<Rightarrow> Server" where
  "delegate_of s \<equiv> cs_delegate (ms_server s)"

section \<open>Steps\<close>

text \<open>The process ends after a failure was reported, by a return of \<open>main\<close> or by a panic.\<close>

definition report_and_exit :: "ls_json \<Rightarrow> go_error + int \<Rightarrow> ErrorType \<Rightarrow> string \<Rightarrow> main_state \<Rightarrow> main_state" where
  "report_and_exit js answer errType message s =
    (case ReportInitFailure js answer errType message (ms_server s) of
       Ret cs \<Rightarrow> s\<lparr>ms_server := cs, ms_pc := MExited\<rparr> | _ \<Rightarrow> s\<lparr>ms_pc := MExited\<rparr>)"

text \<open>\<open>InitHandler\<close> starts the initialization, then the goroutine is started.\<close>

definition main_init :: "int \<Rightarrow> main_state \<Rightarrow> main_state option" where
  "main_init timeoutMs s =
    (if ms_pc s = MStart
     then Some ((with_delegate (server_Init timeoutMs (delegate_of s)) s)\<lparr>ms_pc := MSelect, ms_awaiting := True\<rparr>) else None)"

definition await_goroutine :: "main_state \<Rightarrow> main_state option" where
  "await_goroutine s =
    (if ms_awaiting s
     then (case AwaitInitialized (delegate_of s) of
             Ret (d, er) \<Rightarrow> Some ((with_delegate d s)\<lparr>ms_awaiting := False, ms_initDone := Some er\<rparr>) | _ \<Rightarrow> None)
     else None)"

definition main_receive :: "main_state \<Rightarrow> main_state option" where
  "main_receive s =
    (case (ms_pc s, ms_initDone s) of
       (MSelect, Some er) \<Rightarrow> Some (s\<lparr>ms_pc := MDecide er, ms_initDone := None\<rparr>)
     | (MAwaitDone, Some er) \<Rightarrow> Some (s\<lparr>ms_pc := MDecide None, ms_initDone := None\<rparr>)
     | _ \<Rightarrow> None)"

definition main_timer :: "ls_json \<Rightarrow> go_error + int \<Rightarrow> main_state \<Rightarrow> main_state option" where
  "main_timer js answer s =
    (if ms_pc s \<noteq> MSelect then None
     else if \<not> ms_onDemand s
     then Some (report_and_exit js answer SandboxTimeout
            (''Init phase timed out after '' @ int_dec (ms_initPhaseTimeoutSeconds s) @ '' seconds'') s)
     else Some (s\<lparr>ms_server := (ms_server s)\<lparr>cs_eventsAPI := SetInitPhaseTimedOut (cs_eventsAPI (ms_server s))\<rparr>, ms_pc := MReset,
                   ms_resets := ms_resets s + 1\<rparr>))"

text \<open>The goroutine of a reset.  The reset of \<open>main\<close> goes to the delegate directly.\<close>

definition reset_goroutine_runs :: "Reset_msg \<Rightarrow> ResetResult \<Rightarrow> main_state \<Rightarrow> main_state option" where
  "reset_goroutine_runs reset result s =
    (if ms_resets s = 0 then None
     else case reset_goroutine reset result (delegate_of s) of
            Ret (d, dn) \<Rightarrow> Some ((with_delegate d s)\<lparr>ms_resets := ms_resets s - 1, ms_resetDone := ms_resetDone s @ [dn]\<rparr>) | _ \<Rightarrow> None)"

definition main_reset_end_init :: "main_state \<Rightarrow> main_state option" where
  "main_reset_end_init s =
    (case ms_resetDone s of
       dn # dns \<Rightarrow> if ms_pc s = MReset
         then Some ((with_delegate (fst (reset_end dn (delegate_of s))) s)\<lparr>ms_pc := MAwaitDone, ms_resetDone := dns\<rparr>) else None
     | [] \<Rightarrow> None)"

definition main_decide :: "ls_json \<Rightarrow> go_error + int \<Rightarrow> main_state \<Rightarrow> main_state option" where
  "main_decide js answer s =
    (case ms_pc s of
       MDecide None \<Rightarrow> Some (s\<lparr>ms_pc := MSendReady\<rparr>)
     | MDecide (Some e) \<Rightarrow>
         Some (if ms_onDemand s \<and> e = ErrInitDoneFailed then s\<lparr>ms_pc := MSendReady\<rparr>
               else if e = ErrInitResetReceived
               then (if \<not> ms_hotReloadEnabled s then s\<lparr>ms_pc := MExited\<rparr> else s\<lparr>ms_pc := MAwaitReset\<rparr>)
               else report_and_exit js answer
                      (if InitErrorType (cs_eventsAPI (ms_server s)) = [] then RuntimeExit else InitErrorType (cs_eventsAPI (ms_server s)))
                      ''Runtime exited during initialization'' s)
     | _ \<Rightarrow> None)"

definition main_reset_done :: "main_state \<Rightarrow> main_state option" where
  "main_reset_done s =
    (if ms_pc s = MAwaitReset \<and> cs_resetDone (ms_server s)
     then Some (s\<lparr>ms_server := (ms_server s)\<lparr>cs_resetDone := False\<rparr>, ms_pc := MSendReady\<rparr>) else None)"

definition main_ready :: "go_error + int \<Rightarrow> main_state \<Rightarrow> main_state option" where
  "main_ready answer s =
    (if ms_pc s = MSendReady
     then (case SendStatus answer Ready [] (ms_server s) of
             (cs, None) \<Rightarrow> Some (s\<lparr>ms_server := cs, ms_pc := MReady\<rparr>)
           | (cs, Some e) \<Rightarrow> Some (s\<lparr>ms_server := cs, ms_pc := MExited\<rparr>))
     else None)"

text \<open>One reset after the other.\<close>

definition hot_step :: "main_state \<Rightarrow> main_state option" where
  "hot_step s =
    (case ms_hot s of
       HIdle \<Rightarrow> if ms_hotReloadEnabled s then Some (s\<lparr>ms_hot := HReset, ms_resets := ms_resets s + 1\<rparr>) else None
     | HReset \<Rightarrow>
         (case ms_resetDone s of
            dn # dns \<Rightarrow> Some (s\<lparr>ms_server := fst (cs_Reset_end dn (ms_server s)), ms_hot := HIdle, ms_resetDone := dns\<rparr>)
          | [] \<Rightarrow> None))"

text \<open>What the sandbox and the runtime do: the initialization ends, and the runtime reports an error of it.  Once LocalStack was
  told that the environment is ready, invocations reach the delegate (\<open>OServer\<close>).\<close>

definition init_completes :: "InitFailure option \<Rightarrow> main_state \<Rightarrow> main_state" where
  "init_completes f s = with_delegate (awaitInitCompletion f (delegate_of s)) s"

definition init_error_reported :: "ErrorInvokeResponse \<Rightarrow> send_env \<Rightarrow> main_state \<Rightarrow> main_state" where
  "init_error_reported resp env s = s\<lparr>ms_server := fst (cs_SendInitErrorResponse resp env (ms_server s))\<rparr>"

datatype main_op =
    OInit int | OAwait | OReceive | OTimer ls_json "go_error + int" | OResetRuns Reset_msg ResetResult | OResetEnd
  | ODecide ls_json "go_error + int" | OResetDone | OReady "go_error + int" | OHot
  | OInitCompletes "InitFailure option" | OInitError ErrorInvokeResponse send_env | OServer server_op

fun main_exec :: "main_op \<Rightarrow> main_state \<Rightarrow> main_state option" where
  "main_exec (OInit t) s = main_init t s"
| "main_exec OAwait s = await_goroutine s"
| "main_exec OReceive s = main_receive s"
| "main_exec (OTimer js a) s = main_timer js a s"
| "main_exec (OResetRuns m r) s = reset_goroutine_runs m r s"
| "main_exec OResetEnd s = main_reset_end_init s"
| "main_exec (ODecide js a) s = main_decide js a s"
| "main_exec OResetDone s = main_reset_done s"
| "main_exec (OReady a) s = main_ready a s"
| "main_exec OHot s = hot_step s"
| "main_exec (OInitCompletes f) s = Some (init_completes f s)"
| "main_exec (OInitError resp env) s = Some (init_error_reported resp env s)"
| "main_exec (OServer k) s = (if ms_pc s = MReady then Some (with_delegate (server_exec k (delegate_of s)) s) else None)"

inductive main_reach :: "main_state \<Rightarrow> main_state \<Rightarrow> bool" for s0 where
  start: "main_reach s0 s0"
| step: "main_reach s0 s \<Longrightarrow> ms_pc s \<noteq> MExited \<Longrightarrow> main_exec k s = Some s' \<Longrightarrow> main_reach s0 s'"

section \<open>Status\<close>

abbreviation status_url :: "CustomInteropServer \<Rightarrow> LocalStackStatus \<Rightarrow> string" where
  "status_url cs k \<equiv> UpstreamEndpoint (cs_localStackAdapter cs) @ ''/status/'' @ RuntimeId (cs_localStackAdapter cs) @ ''/'' @ status_text k"

text \<open>The errors of \<open>AwaitInitialized\<close>, and the points of \<open>main\<close> after the goroutine has delivered its result.\<close>

definition init_result_ok :: "go_error option \<Rightarrow> bool" where
  "init_result_ok er = (er \<in> {None, Some ErrInitDoneFailed, Some ErrInitResetReceived})"

fun main_settled :: "main_pc \<Rightarrow> bool" where
  "main_settled (MDecide _) = True"
| "main_settled MAwaitReset = True"
| "main_settled MSendReady = True"
| "main_settled MReady = True"
| "main_settled _ = False"

definition goroutine_ok :: "main_state \<Rightarrow> bool" where
  "goroutine_ok s =
    ((ms_pc s = MStart \<or> main_settled (ms_pc s) \<longrightarrow> \<not> ms_awaiting s \<and> ms_initDone s = None) \<and>
     (ms_awaiting s \<longrightarrow> ms_initDone s = None) \<and>
     (\<forall>er. ms_initDone s = Some er \<or> ms_pc s = MDecide er \<longrightarrow> init_result_ok er))"

definition posts_ok :: "main_state \<Rightarrow> bool" where
  "posts_ok s =
    (case ms_pc s of
       MReady \<Rightarrow> map fst (cs_posts (ms_server s)) = [status_url (ms_server s) Ready]
     | MExited \<Rightarrow> cs_posts (ms_server s) = [] \<or> map fst (cs_posts (ms_server s)) = [status_url (ms_server s) Ready] \<or>
         \<not> ms_onDemand s \<and> map fst (cs_posts (ms_server s)) = [status_url (ms_server s) Error]
     | _ \<Rightarrow> cs_posts (ms_server s) = [])"

lemma AwaitInitialized_result: "AwaitInitialized d = Ret (d', er) \<Longrightarrow> init_result_ok er"
  by (auto simp: AwaitInitialized_def awaitInitialized_def init_result_ok_def Let_def split: option.splits if_splits)

lemma init_result_ok_None: "init_result_ok None" by (simp add: init_result_ok_def)

lemma with_delegate_fields [simp]:
  "cs_posts (ms_server (with_delegate d s)) = cs_posts (ms_server s)"
  "cs_localStackAdapter (ms_server (with_delegate d s)) = cs_localStackAdapter (ms_server s)"
  "cs_resetDone (ms_server (with_delegate d s)) = cs_resetDone (ms_server s)"
  "delegate_of (with_delegate d s) = d" "ms_pc (with_delegate d s) = ms_pc s" "ms_awaiting (with_delegate d s) = ms_awaiting s"
  "ms_initDone (with_delegate d s) = ms_initDone s" "ms_onDemand (with_delegate d s) = ms_onDemand s"
  "ms_hotReloadEnabled (with_delegate d s) = ms_hotReloadEnabled s" "ms_hot (with_delegate d s) = ms_hot s"
  by (simp_all add: with_delegate_def)

lemma cs_Reset_end_fields [simp]:
  "cs_posts (fst (cs_Reset_end d cs)) = cs_posts cs" "cs_localStackAdapter (fst (cs_Reset_end d cs)) = cs_localStackAdapter cs"
  by (simp_all add: cs_Reset_end_def split: prod.splits)

lemma cs_SendInitErrorResponse_fields [simp]:
  "cs_posts (fst (cs_SendInitErrorResponse r env cs)) = cs_posts cs"
  "cs_localStackAdapter (fst (cs_SendInitErrorResponse r env cs)) = cs_localStackAdapter cs"
  by (simp_all add: cs_SendInitErrorResponse_def Let_def split: prod.splits)

lemma report_and_exit_fields [simp]:
  "ms_pc (report_and_exit js a t m s) = MExited" "ms_awaiting (report_and_exit js a t m s) = ms_awaiting s"
  "ms_initDone (report_and_exit js a t m s) = ms_initDone s" "ms_onDemand (report_and_exit js a t m s) = ms_onDemand s"
  "ms_hotReloadEnabled (report_and_exit js a t m s) = ms_hotReloadEnabled s"
  "cs_localStackAdapter (ms_server (report_and_exit js a t m s)) = cs_localStackAdapter (ms_server s)"
  by (auto simp: report_and_exit_def ReportInitFailure_def SendStatus_def adaptInitErrorPayload_def
      split: outcome.splits option.splits)

lemma report_and_exit_posts:
  "cs_posts (ms_server s) = [] \<Longrightarrow> cs_posts (ms_server (report_and_exit js a t m s)) = [] \<or>
    map fst (cs_posts (ms_server (report_and_exit js a t m s))) = [status_url (ms_server s) Error]"
  by (auto simp: report_and_exit_def ReportInitFailure_def SendStatus_def adaptInitErrorPayload_def
      split: outcome.splits option.splits)

lemmas main_step_defs = main_init_def await_goroutine_def main_receive_def main_timer_def reset_goroutine_runs_def main_reset_end_init_def main_decide_def
  main_reset_done_def main_ready_def hot_step_def init_completes_def init_error_reported_def

lemma main_exec_frame:
  assumes "main_exec k s = Some s'"
  shows "ms_onDemand s' = ms_onDemand s" "ms_hotReloadEnabled s' = ms_hotReloadEnabled s"
    "cs_localStackAdapter (ms_server s') = cs_localStackAdapter (ms_server s)"
  using assms by (cases k; auto simp: main_step_defs SendStatus_def adapter_post_def
      split: if_splits outcome.splits main_pc.splits hot_pc.splits option.splits prod.splits list.splits)+

text \<open>The invariants of one step, stated of the optional next state.\<close>

lemma goroutine_ok_await: "goroutine_ok s \<Longrightarrow> pred_option goroutine_ok (await_goroutine s)"
  by (auto simp: await_goroutine_def goroutine_ok_def dest: AwaitInitialized_result split: outcome.splits)

lemma goroutine_ok_receive: "goroutine_ok s \<Longrightarrow> pred_option goroutine_ok (main_receive s)"
  by (cases "ms_pc s"; cases "ms_initDone s"; simp add: main_receive_def goroutine_ok_def init_result_ok_None)

lemma goroutine_ok_timer: "goroutine_ok s \<Longrightarrow> pred_option goroutine_ok (main_timer js a s)"
  by (simp add: main_timer_def goroutine_ok_def)

lemma goroutine_ok_reset:
  assumes "goroutine_ok s"
  shows "pred_option goroutine_ok (reset_goroutine_runs m r s)" "pred_option goroutine_ok (main_reset_end_init s)"
  using assms by (simp_all add: reset_goroutine_runs_def main_reset_end_init_def goroutine_ok_def split: outcome.splits list.split)

lemma goroutine_ok_decide: "goroutine_ok s \<Longrightarrow> pred_option goroutine_ok (main_decide js a s)"
  by (cases "ms_pc s") (simp_all add: main_decide_def goroutine_ok_def split: option.splits)

lemma goroutine_ok_ready: "goroutine_ok s \<Longrightarrow> pred_option goroutine_ok (main_ready a s)"
  by (simp add: main_ready_def goroutine_ok_def split: prod.splits option.splits)

lemma goroutine_ok_hot: "goroutine_ok s \<Longrightarrow> pred_option goroutine_ok (hot_step s)"
  by (cases "ms_hot s") (simp_all add: hot_step_def goroutine_ok_def split: list.split)

lemma goroutine_ok_step: "goroutine_ok s \<Longrightarrow> pred_option goroutine_ok (main_exec k s)"
  by (cases k) (simp_all add: goroutine_ok_await goroutine_ok_receive goroutine_ok_timer goroutine_ok_reset goroutine_ok_decide
      goroutine_ok_ready goroutine_ok_hot, simp_all add: goroutine_ok_def main_init_def main_reset_done_def init_completes_def
      init_error_reported_def)

text \<open>LocalStack is told at most once, and an on-demand environment is never reported as failed.\<close>

lemma posts_ok_report: "cs_posts (ms_server s) = [] \<Longrightarrow> \<not> ms_onDemand s \<Longrightarrow> posts_ok (report_and_exit js a t m s)"
  using report_and_exit_posts [of s js a t m] by (auto simp: posts_ok_def)

lemma posts_ok_timer: "posts_ok s \<Longrightarrow> pred_option posts_ok (main_timer js a s)"
proof (cases "ms_pc s = MSelect")
  case True
  assume "posts_ok s"
  then have p: "cs_posts (ms_server s) = []" using True by (simp add: posts_ok_def)
  show ?thesis
  proof (cases "ms_onDemand s")
    case True
    then show ?thesis using p by (simp add: main_timer_def posts_ok_def)
  qed (simp add: main_timer_def posts_ok_report p)
qed (simp add: main_timer_def)

lemma posts_ok_reset:
  assumes "posts_ok s"
  shows "pred_option posts_ok (reset_goroutine_runs m r s)" "pred_option posts_ok (main_reset_end_init s)"
  using assms by (simp_all add: reset_goroutine_runs_def main_reset_end_init_def posts_ok_def split: outcome.splits list.split main_pc.splits)

lemma posts_ok_decide: "goroutine_ok s \<Longrightarrow> posts_ok s \<Longrightarrow> pred_option posts_ok (main_decide js a s)"
proof (cases "ms_pc s")
  case (MDecide er)
  assume "goroutine_ok s" "posts_ok s"
  then have "cs_posts (ms_server s) = []" "er \<in> {None, Some ErrInitDoneFailed, Some ErrInitResetReceived}"
    using MDecide by (simp_all add: posts_ok_def goroutine_ok_def init_result_ok_def)
  moreover have "ErrInitResetReceived \<noteq> ErrInitDoneFailed" by (simp add: ErrInitResetReceived_def ErrInitDoneFailed_def)
  moreover have "posts_ok (s\<lparr>ms_pc := pc\<rparr>)" if "cs_posts (ms_server s) = []" "pc \<noteq> MReady" for pc
    using that by (cases pc) (simp_all add: posts_ok_def)
  ultimately show ?thesis using MDecide by (auto simp: main_decide_def posts_ok_report)
qed (simp_all add: main_decide_def)

lemma SendStatus_posts:
  assumes "SendStatus a k p cs = (cs', er)"
  shows "map fst (cs_posts cs') = map fst (cs_posts cs) @ [status_url cs k]" "cs_localStackAdapter cs' = cs_localStackAdapter cs"
  using assms by (auto simp: SendStatus_def adapter_post_def)

lemma posts_ok_ready: "posts_ok s \<Longrightarrow> pred_option posts_ok (main_ready a s)"
proof (cases "ms_pc s = MSendReady")
  case True
  obtain cs er where cs: "SendStatus a Ready [] (ms_server s) = (cs, er)" by force
  assume "posts_ok s"
  then show ?thesis using True cs SendStatus_posts [OF cs] by (cases er) (simp_all add: main_ready_def posts_ok_def)
qed (simp add: main_ready_def)

lemma posts_ok_hot: "posts_ok s \<Longrightarrow> pred_option posts_ok (hot_step s)"
  by (cases "ms_hot s") (simp_all add: hot_step_def posts_ok_def split: list.split main_pc.splits)

lemma posts_ok_step: "goroutine_ok s \<Longrightarrow> posts_ok s \<Longrightarrow> pred_option posts_ok (main_exec k s)"
  by (cases k) (simp_all add: posts_ok_timer posts_ok_reset posts_ok_decide posts_ok_ready posts_ok_hot,
      simp_all add: posts_ok_def main_init_def await_goroutine_def main_receive_def main_reset_done_def init_completes_def
      init_error_reported_def split: outcome.splits main_pc.splits option.splits)

lemma main_reach_invariant:
  assumes "main_reach (main_start cs onDemand hot seconds) s" "cs_posts cs = []"
  shows "goroutine_ok s \<and> posts_ok s \<and> ms_onDemand s = onDemand \<and> ms_hotReloadEnabled s = hot \<and>
    cs_localStackAdapter (ms_server s) = cs_localStackAdapter cs"
  using assms(1)
proof induction
  case start
  show ?case by (simp add: main_start_def goroutine_ok_def posts_ok_def assms(2))
next
  case (step s k s')
  then show ?case using goroutine_ok_step [of s k] posts_ok_step [of s k] main_exec_frame [OF step.hyps(3)] by simp
qed

fun main_run :: "main_op list \<Rightarrow> main_state \<Rightarrow> main_state option" where
  "main_run [] s = Some s"
| "main_run (k # ks) s = (if ms_pc s = MExited then None else Option.bind (main_exec k s) (main_run ks))"

lemma main_run_reach: "main_run ks s = Some s' \<Longrightarrow> main_reach s0 s \<Longrightarrow> main_reach s0 s'"
proof (induction ks arbitrary: s)
  case (Cons k ks)
  then obtain t where "main_exec k s = Some t" "main_run ks t = Some s'" "ms_pc s \<noteq> MExited"
    by (auto simp: bind_eq_Some_conv split: if_splits)
  then show ?case using Cons.IH Cons.prems(2) main_reach.step by blast
qed simp

text \<open>C8: LocalStack hears about an environment at most once.  Whatever the interleaving of \<open>main\<close>, of the goroutine that waits for
  the initialization, of the timer, of the runtime and of hot reloading, no status is sent before the outcome is settled;
  the environment that waits for invocations has sent \<open>ready\<close> once and nothing else; a process that ends has sent at most one
  status, and it is never \<open>error\<close> for an on-demand function, whose failed initialization is left to the first
  invocation.\<close>

theorem status_reported_once:
  assumes "main_reach (main_start cs onDemand hot seconds) s" "cs_posts cs = []"
  shows "map fst (cs_posts (ms_server s)) \<in>
    (case ms_pc s of
       MReady \<Rightarrow> {[status_url cs Ready]}
     | MExited \<Rightarrow> {[], [status_url cs Ready]} \<union> (if onDemand then {} else {[status_url cs Error]})
     | _ \<Rightarrow> {[]})"
  using main_reach_invariant [OF assms] by (cases "ms_pc s") (auto simp: posts_ok_def)

text \<open>Concrete runs start with a fresh delegate.\<close>

definition sample_cs :: CustomInteropServer where
  "sample_cs = NewCustomInteropServer ''9563'' ''http://h'' ''r1'' NewServer NewLogCollector (NewLocalStackEventsAPI True)"

definition sample_reset :: Reset_msg where
  "sample_reset = \<lparr>rm_Reason = ''HotReload'', rm_DeadlineNs = 0, rm_InvokeResponseMetrics = None, rm_InvokeResponseMode = ResponseModeBuffered\<rparr>"

definition sample_reset_result :: ResetResult where
  "sample_reset_result = \<lparr>re_ExtensionsResetMs = 1, re_ErrorType = [], re_ResponseMetrics = zero_response_metrics,
     re_InvokeResponseMode = ResponseModeBuffered\<rparr>"

definition sample_init_reset :: InitFailure where
  "sample_init_reset = \<lparr>if_ResetReceived = True, if_RequestReset = False, if_ErrorType = [], if_ErrorMessage = ErrText [],
     if_NumActiveExtensions = 0, if_RuntimeRelease = [], if_LogsAPIMetrics = []\<rparr>"

definition sample_timeout_run :: "main_op list" where
  "sample_timeout_run = [OInit 3000, OTimer sample_json (Inr 202), OResetRuns sample_reset sample_reset_result,
     OResetEnd, OInitCompletes (Some sample_init_reset), OAwait, OReceive, ODecide sample_json (Inr 202),
     OReady (Inr 202)]"

lemmas sample_run_defs = sample_timeout_run_def sample_cs_def sample_reset_def sample_reset_result_def sample_init_reset_def
  main_start_def main_step_defs NewCustomInteropServer_def with_delegate_def server_Init_def setInitFailuresChan_def setRapidPhase_def
  SetInvokeTimeout_def NewServer_def SendStatus_def adapter_post_def awaitInitCompletion_def AwaitInitialized_def awaitInitialized_def
  setRuntimeState_def server_Release_def reset_goroutine_def server_Clear_def drainChannel_def reset_end_def

lemma sample_timeout_ready:
  "\<exists>s. main_run sample_timeout_run (main_start sample_cs True False 10) = Some s \<and> ms_pc s = MReady"
  by (simp add: sample_run_defs Let_def)

theorem status_reported_once_witness:
  "\<exists>s. main_reach (main_start sample_cs True False 10) s \<and> ms_pc s = MReady \<and>
    map fst (cs_posts (ms_server s)) = [''http://h/status/r1/ready'']"
proof -
  obtain s where s: "main_run sample_timeout_run (main_start sample_cs True False 10) = Some s" "ms_pc s = MReady"
    using sample_timeout_ready by blast
  have r: "main_reach (main_start sample_cs True False 10) s" using main_run_reach [OF s(1) main_reach.start] .
  have "cs_posts sample_cs = []" "status_url sample_cs Ready = ''http://h/status/r1/ready''"
    by (simp_all add: sample_cs_def NewCustomInteropServer_def)
  then show ?thesis using status_reported_once [OF r] r s(2) by (intro exI [of _ s]) simp
qed

section \<open>The reservation of the first invocation\<close>

lemma sendResponseUnsafe_cancelled: "sv_reservationCancelled (fst (sendResponseUnsafe i h p t c env s)) = sv_reservationCancelled s"
  by (auto simp: sendResponseUnsafe_def Let_def split: option.splits prod.splits)

lemma SendInitErrorResponse_keeps:
  assumes "sv_invokeCtx d = Some c"
  shows "\<exists>c'. sv_invokeCtx (fst (SendInitErrorResponse resp env d)) = Some c' \<and> ic_Token c' = ic_Token c"
    and "sv_reservationCancelled (fst (SendInitErrorResponse resp env d)) = sv_reservationCancelled d"
proof -
  have "\<exists>c'. sv_invokeCtx (fst (sendResponseUnsafe i h p t b env (d\<lparr>sv_runtimeState := runtimeInvokeError\<rparr>))) = Some c' \<and>
      ic_Token c' = ic_Token c" for i h p t b
    using sendResponseUnsafe_ctx [of i h p t b env "d\<lparr>sv_runtimeState := runtimeInvokeError\<rparr>"] assms by auto
  then show "\<exists>c'. sv_invokeCtx (fst (SendInitErrorResponse resp env d)) = Some c' \<and> ic_Token c' = ic_Token c"
    using assms by (auto simp: SendInitErrorResponse_def SendErrorResponse_def setRuntimeState_def setCachedInitErrorResponse_def
        split: prod.splits option.splits)
  show "sv_reservationCancelled (fst (SendInitErrorResponse resp env d)) = sv_reservationCancelled d"
    by (auto simp: sendResponseUnsafe_cancelled SendInitErrorResponse_def SendErrorResponse_def setRuntimeState_def setCachedInitErrorResponse_def
        split: prod.splits option.splits)
qed

text \<open>Without hot reloading only \<open>main\<close> resets, and only while it waits for that.\<close>

definition only_main_resets :: "main_state \<Rightarrow> bool" where
  "only_main_resets s = (ms_hot s = HIdle \<and> ms_resets s + length (ms_resetDone s) = of_bool (ms_pc s = MReset))"

lemma report_and_exit_resets [simp]:
  "ms_hot (report_and_exit js a t m s) = ms_hot s" "ms_resets (report_and_exit js a t m s) = ms_resets s"
  "ms_resetDone (report_and_exit js a t m s) = ms_resetDone s"
  by (simp_all add: report_and_exit_def split: outcome.splits)

lemma with_delegate_resets [simp]: "ms_resets (with_delegate d s) = ms_resets s" "ms_resetDone (with_delegate d s) = ms_resetDone s"
  by (simp_all add: with_delegate_def)

lemma only_main_resets_decide: "only_main_resets s \<Longrightarrow> pred_option only_main_resets (main_decide js a s)"
  by (cases "ms_pc s") (simp_all add: main_decide_def only_main_resets_def split: option.split)

lemma only_main_resets_receive: "only_main_resets s \<Longrightarrow> pred_option only_main_resets (main_receive s)"
  by (cases "ms_pc s"; cases "ms_initDone s") (simp_all add: main_receive_def only_main_resets_def)

lemma only_main_resets_step:
  assumes "\<not> ms_hotReloadEnabled s" "only_main_resets s"
  shows "pred_option only_main_resets (main_exec k s)"
proof (cases k)
  case (OResetRuns m r)
  then show ?thesis using assms by (auto simp: reset_goroutine_runs_def only_main_resets_def split: outcome.splits)
next
  case OResetEnd
  then show ?thesis using assms by (auto simp: main_reset_end_init_def only_main_resets_def split: list.split)
qed (use assms only_main_resets_decide only_main_resets_receive in \<open>simp_all add: main_init_def await_goroutine_def main_timer_def
    main_reset_done_def main_ready_def hot_step_def init_completes_def init_error_reported_def only_main_resets_def
    split: outcome.splits prod.splits option.splits\<close>)

lemma main_reach_no_hot:
  assumes "main_reach (main_start cs onDemand False seconds) s"
  shows "only_main_resets s"
proof -
  have "only_main_resets s \<and> \<not> ms_hotReloadEnabled s" using assms
  proof induction
    case (step s k s')
    then show ?case using only_main_resets_step [of s k] main_exec_frame(2) [OF step.hyps(3)] by simp
  qed (simp add: main_start_def only_main_resets_def)
  then show ?thesis by simp
qed

text \<open>the start-up cannot cancel an invocation.  When hot reloading is off, once LocalStack was told that the environment is
  ready, the goroutine that waited for the initialization and the reset after an init timeout are over: whatever step is taken
  other than a call of the invocation itself, a reservation keeps its token and its cancellation state.\<close>

theorem start_up_keeps_reservation:
  assumes "main_reach (main_start cs onDemand False seconds) s" "cs_posts cs = []" "ms_pc s = MReady"
    and "sv_invokeCtx (delegate_of s) = Some c" "main_exec k s = Some s'" "\<forall>op. k \<noteq> OServer op"
  shows "\<exists>c'. sv_invokeCtx (delegate_of s') = Some c' \<and> ic_Token c' = ic_Token c \<and>
    sv_reservationCancelled (delegate_of s') = sv_reservationCancelled (delegate_of s)"
proof -
  have "\<not> ms_awaiting s" "\<not> ms_hotReloadEnabled s" "ms_initDone s = None"
    using main_reach_invariant [OF assms(1,2)] assms(3) by (simp_all add: goroutine_ok_def)
  moreover have "ms_hot s = HIdle" "ms_resets s = 0" using main_reach_no_hot [OF assms(1)] assms(3) by (simp_all add: only_main_resets_def)
  moreover have "delegate_of (init_error_reported resp env s) = fst (SendInitErrorResponse resp env (delegate_of s))" for resp env
    by (simp add: init_error_reported_def cs_SendInitErrorResponse_def Let_def split: prod.splits)
  ultimately show ?thesis using assms(3-6) SendInitErrorResponse_keeps [OF assms(4)]
    by (cases k) (auto simp: main_step_defs(1-11) awaitInitCompletion_def split: list.splits)
qed

text \<open>The run after an init timeout, then the reservation of an invocation.\<close>

definition sample_reserved_run :: "main_op list" where
  "sample_reserved_run = sample_timeout_run @ [OServer (SoReserve ''u1'' ''u2'' ''i1'' [] [])]"

lemma sample_reserved:
  "\<exists>s c. main_run sample_reserved_run (main_start sample_cs True False 10) = Some s \<and> ms_pc s = MReady \<and>
    sv_invokeCtx (delegate_of s) = Some c \<and> sv_reservationCancelled (delegate_of s) = Some False"
  by (simp add: sample_reserved_run_def sample_run_defs server_op_defs Let_def)

theorem start_up_keeps_reservation_witness:
  "\<exists>s s' c'. main_reach (main_start sample_cs True False 10) s \<and> main_exec (OInitCompletes None) s = Some s' \<and>
    sv_invokeCtx (delegate_of s') = Some c' \<and> sv_reservationCancelled (delegate_of s') = Some False"
proof -
  obtain s c where s: "main_run sample_reserved_run (main_start sample_cs True False 10) = Some s" "ms_pc s = MReady"
    "sv_invokeCtx (delegate_of s) = Some c" "sv_reservationCancelled (delegate_of s) = Some False" using sample_reserved by blast
  have r: "main_reach (main_start sample_cs True False 10) s" using main_run_reach [OF s(1) main_reach.start] .
  have p: "cs_posts sample_cs = []" by (simp add: sample_cs_def NewCustomInteropServer_def)
  obtain s' where s': "main_exec (OInitCompletes None) s = Some s'" by simp
  show ?thesis using start_up_keeps_reservation [OF r p s(2,3) s'] r s' s(4) by auto
qed

text \<open>With hot reloading on, \<open>main\<close> waits for a message of \<open>resetDone\<close>.  A reset that ended before the initialization started has left
  one, so the wait for the reset that aborted the initialization is over at once, LocalStack is told that the environment is
  ready, and that reset then releases the reservation of the first invocation.\<close>

definition stale_reset_run :: "main_op list" where
  "stale_reset_run =
    (let reset = OResetRuns sample_reset sample_reset_result
     in [OHot, reset, OHot, OInit 3000, OHot, reset, OInitCompletes (Some sample_init_reset), OAwait, OReceive, ODecide sample_json (Inr 202),
         OResetDone, OReady (Inr 202), OServer (SoReserve ''u1'' ''u2'' ''i1'' [] [])])"

lemma stale_reset_cancels_first_invoke:
  "\<exists>s c s'. main_run stale_reset_run (main_start sample_cs True True 10) = Some s \<and> ms_pc s = MReady \<and>
    sv_invokeCtx (delegate_of s) = Some c \<and> sv_reservationCancelled (delegate_of s) = Some False \<and>
    main_exec OHot s = Some s' \<and>
    sv_invokeCtx (delegate_of s') = None \<and> sv_reservationCancelled (delegate_of s') = Some True"
  by (simp add: stale_reset_run_def sample_run_defs server_op_defs cs_Reset_end_def Let_def ErrInitResetReceived_def ErrInitDoneFailed_def)

end
