(* ===== verification/File_Poller.thy ===== *)
theory File_Poller
  imports Prelude
begin

text \<open>
  The polling file watcher behind hot reloading (\<open>cmd/localstack/filenotify/poller.go\<close>).  The file
  system is what one poll sees of it: the result of \<open>os.Stat\<close> on the watched name and of reading
  the directory, given as arguments.  A poll records a snapshot, compares it with the previous one
  and swaps the two; the events it publishes name the watched item itself (\<open>OnItem\<close>) or an entry of
  the watched directory (\<open>OnEntry\<close>, whose path is the join of both names).  The watcher's goroutines
  are counted by name, so that what \<open>Remove\<close> and \<open>Close\<close> leave running can be stated.
\<close>

section \<open>Snapshots\<close>

record FileInfo =
  fi_IsDir :: bool
  fi_Mode :: int
  fi_ModTime :: int
  fi_Size :: int

record recording =
  rec_info :: "FileInfo option"
  rec_entries :: "(string \<times> FileInfo) list"

datatype stat_result = StatError | StatNotExist | StatOk FileInfo
datatype dir_result = DirError | DirNotExist | DirEntries "(string \<times> FileInfo) list"

definition rec_clear :: "recording \<Rightarrow> recording" where
  "rec_clear r = r\<lparr>rec_info := None, rec_entries := []\<rparr>"

text \<open>\<open>record\<close>: the recording and whether an error is returned.\<close>

definition rec_record :: "stat_result \<Rightarrow> dir_result \<Rightarrow> recording \<Rightarrow> recording \<times> bool" where
  "rec_record st dir r0 =
    (let r = rec_clear r0
     in case st of
          StatError \<Rightarrow> (r, True)
        | StatNotExist \<Rightarrow> (r, False)
        | StatOk fi \<Rightarrow>
            (let r = r\<lparr>rec_info := Some fi\<rparr>
             in if fi_IsDir fi
                then (case dir of
                        DirError \<Rightarrow> (r, True)
                      | DirNotExist \<Rightarrow> (r, False)
                      | DirEntries fis \<Rightarrow>
                          (r\<lparr>rec_entries := foldl (\<lambda>m (n, fi). go_map_set n fi m) (rec_entries r) fis\<rparr>, False))
                else (r, False)))"

datatype fs_op = OpNone | OpCreate | OpRemove | OpChmod | OpWrite

definition checkChange :: "FileInfo option \<Rightarrow> FileInfo option \<Rightarrow> fs_op" where
  "checkChange fi1 fi2 =
    (case (fi1, fi2) of
       (None, Some _) \<Rightarrow> OpCreate
     | (Some _, None) \<Rightarrow> OpRemove
     | (None, None) \<Rightarrow> OpNone
     | (Some a, Some b) \<Rightarrow>
         if fi_IsDir a \<or> fi_IsDir b then OpNone
         else if fi_Mode a \<noteq> fi_Mode b then OpChmod
         else if fi_ModTime a \<noteq> fi_ModTime b \<or> fi_Size a \<noteq> fi_Size b then OpWrite
         else OpNone)"

datatype fs_event = OnItem fs_op | OnEntry fs_op string

record itemToWatch =
  it_left :: recording
  it_right :: "recording option"

definition empty_recording :: recording where
  "empty_recording = \<lparr>rec_info = None, rec_entries = []\<rparr>"

definition newItemToWatch :: "stat_result \<Rightarrow> dir_result \<Rightarrow> itemToWatch option" where
  "newItemToWatch st dir =
    (case rec_record st dir empty_recording of
       (_, True) \<Rightarrow> None
     | (r, False) \<Rightarrow> Some \<lparr>it_left = r, it_right = None\<rparr>)"

text \<open>The comparison of two directories: the larger of the two maps is iterated, in the order of
  the list, and the roles are restored for each entry.\<close>

definition entry_events :: "(string \<times> FileInfo) list \<Rightarrow> (string \<times> FileInfo) list \<Rightarrow> fs_event list" where
  "entry_events l r =
    (let leftIsIn = length r > length l;
         left = (if leftIsIn then r else l); right = (if leftIsIn then l else r)
     in concat (map (\<lambda>(name, fi1).
          let fi2 = map_of right name;
              fil = (if leftIsIn then fi2 else Some fi1); fir = (if leftIsIn then Some fi1 else fi2);
              op = checkChange fil fir
          in if op \<noteq> OpNone then [OnEntry op name] else []) left))"

text \<open>\<open>checkForChanges\<close>: the events (\<^const>\<open>None\<close> for an error) and the item with its new snapshot.
  An error of \<open>record\<close> is never a missing file, which \<open>record\<close> itself absorbs.\<close>

definition checkForChanges :: "stat_result \<Rightarrow> dir_result \<Rightarrow> itemToWatch \<Rightarrow> fs_event list option \<times> itemToWatch" where
  "checkForChanges st dir item =
    (case rec_record st dir (case it_right item of None \<Rightarrow> empty_recording | Some r \<Rightarrow> r) of
       (r, True) \<Rightarrow> (None, item\<lparr>it_right := Some r\<rparr>)
     | (r, False) \<Rightarrow>
         (let item = item\<lparr>it_right := Some r\<rparr>;
              dirOp = checkChange (rec_info (it_left item)) (rec_info r)
          in if dirOp \<noteq> OpNone then (Some [OnItem dirOp], item)
             else if (case rec_info (it_left item) of None \<Rightarrow> True | Some fi \<Rightarrow> \<not> fi_IsDir fi) then (Some [], item)
             else (Some (entry_events (rec_entries (it_left item)) (rec_entries r)), item)))"

text \<open>One turn of the loop of \<open>watch\<close>: check, report, swap.\<close>

definition watch_tick :: "stat_result \<Rightarrow> dir_result \<Rightarrow> itemToWatch \<Rightarrow> fs_event list option \<times> itemToWatch" where
  "watch_tick st dir item =
    (case checkForChanges st dir item of
       (evs, item) \<Rightarrow>
         (evs, \<lparr>it_left = (case it_right item of None \<Rightarrow> empty_recording | Some r \<Rightarrow> r), it_right = Some (it_left item)\<rparr>))"

section \<open>The set of watches\<close>

datatype poller_error = errPollerClosed | errNoSuchWatch | ErrNotExist | ErrWatchExists | ErrStat

record filePoller =
  fp_watches :: "string list"
  fp_done :: bool
  fp_closed :: bool
  fp_goroutines :: "string list"

definition poller_Add :: "stat_result \<Rightarrow> dir_result \<Rightarrow> string \<Rightarrow> filePoller \<Rightarrow> filePoller \<times> poller_error option" where
  "poller_Add st dir name w =
    (if fp_closed w then (w, Some errPollerClosed)
     else case newItemToWatch st dir of
            None \<Rightarrow> (w, Some ErrStat)
          | Some item \<Rightarrow>
              if rec_info (it_left item) = None then (w, Some ErrNotExist)
              else if name \<in> set (fp_watches w) then (w, Some ErrWatchExists)
              else (w\<lparr>fp_watches := name # fp_watches w, fp_goroutines := name # fp_goroutines w\<rparr>, None))"

definition poller_remove :: "string \<Rightarrow> filePoller \<Rightarrow> filePoller \<times> poller_error option" where
  "poller_remove name w =
    (if fp_closed w then (w, Some errPollerClosed)
     else if name \<notin> set (fp_watches w) then (w, Some errNoSuchWatch)
     else (w\<lparr>fp_watches := filter (\<lambda>n. n \<noteq> name) (fp_watches w)\<rparr>, None))"

definition poller_Remove :: "string \<Rightarrow> filePoller \<Rightarrow> filePoller \<times> poller_error option" where
  "poller_Remove name w = poller_remove name w"

definition poller_Close :: "filePoller \<Rightarrow> filePoller" where
  "poller_Close w =
    (if fp_closed w then w
     else foldl (\<lambda>w name. fst (poller_remove name w)) (w\<lparr>fp_closed := True, fp_done := True\<rparr>) (fp_watches w))"

section \<open>What a poll reports\<close>

lemma entry_events_iff:
  assumes "go_map_ok l" "go_map_ok r"
  shows "OnEntry op n \<in> set (entry_events l r) \<longleftrightarrow>
    op \<noteq> OpNone \<and> op = checkChange (map_of l n) (map_of r n) \<and>
    n \<in> fst ` set (if length r > length l then r else l)"
proof (cases "length r > length l")
  case True
  have "OnEntry op n \<in> set (entry_events l r) \<longleftrightarrow>
      (\<exists>fi. (n, fi) \<in> set r \<and> op \<noteq> OpNone \<and> op = checkChange (map_of l n) (Some fi))"
    using True by (auto simp: entry_events_def Let_def)
  also have "\<dots> \<longleftrightarrow> op \<noteq> OpNone \<and> op = checkChange (map_of l n) (map_of r n) \<and> n \<in> fst ` set r"
    using assms(2) by (auto simp: map_of_Some_iff_mem [symmetric]) (force dest: map_of_SomeD)
  finally show ?thesis using True by simp
next
  case False
  have "OnEntry op n \<in> set (entry_events l r) \<longleftrightarrow>
      (\<exists>fi. (n, fi) \<in> set l \<and> op \<noteq> OpNone \<and> op = checkChange (Some fi) (map_of r n))"
    using False by (auto simp: entry_events_def Let_def)
  also have "\<dots> \<longleftrightarrow> op \<noteq> OpNone \<and> op = checkChange (map_of l n) (map_of r n) \<and> n \<in> fst ` set l"
    using assms(1) by (auto simp: map_of_Some_iff_mem [symmetric]) (force dest: map_of_SomeD)
  finally show ?thesis using False by simp
qed

lemma checkChange_Create: "OpCreate = checkChange x y \<longleftrightarrow> x = None \<and> y \<noteq> None"
  by (cases x; cases y) (auto simp: checkChange_def)

lemma checkChange_Remove: "OpRemove = checkChange x y \<longleftrightarrow> x \<noteq> None \<and> y = None"
  by (cases x; cases y) (auto simp: checkChange_def)

lemma foldl_map_set_fresh:
  "distinct (map fst (m @ fis)) \<Longrightarrow> foldl (\<lambda>m (n, fi). go_map_set n fi m) m fis = m @ fis"
proof (induction fis arbitrary: m)
  case (Cons p fis)
  obtain n fi where p: "p = (n, fi)" by (cases p)
  have "go_map_set n fi m = m @ [(n, fi)]" using Cons.prems p by (intro go_map_set_fresh) auto
  then show ?case using Cons.IH [of "m @ [p]"] Cons.prems p by simp
qed simp

lemma watch_tick_dir:
  assumes "rec_info (it_left item) = Some d" "fi_IsDir d" "fi_IsDir d'" "distinct (map fst fis)"
  shows "watch_tick (StatOk d') (DirEntries fis) item =
    (Some (entry_events (rec_entries (it_left item)) fis),
     \<lparr>it_left = \<lparr>rec_info = Some d', rec_entries = fis\<rparr>, it_right = Some (it_left item)\<rparr>)"
proof -
  have rr: "rec_record (StatOk d') (DirEntries fis) r = (\<lparr>rec_info = Some d', rec_entries = fis\<rparr>, False)" for r
    using assms(3) foldl_map_set_fresh [of "[]" fis] assms(4)
    by (simp add: rec_record_def rec_clear_def Let_def)
  show ?thesis using assms(1-3) by (simp add: watch_tick_def checkForChanges_def rr Let_def checkChange_def)
qed

text \<open>C40: what one poll of a directory reports.  A change of a file that is in both snapshots is always
  reported, as a change of its mode or of its contents; but new files are reported only when the
  directory has more entries than before, and removed files only when it has not: replacing a file by
  one of another name between two polls reports the removal and never the creation.  The next poll
  compares with the new snapshot, so what is missed once is missed for good.\<close>

theorem poll_reports_exactly:
  assumes "rec_info (it_left item) = Some d" and "fi_IsDir d" and "go_map_ok (rec_entries (it_left item))"
    and "fi_IsDir d'" and "go_map_ok fis"
  shows "\<exists>evs item'. watch_tick (StatOk d') (DirEntries fis) item = (Some evs, item') \<and>
           rec_entries (it_left item') = fis \<and>
           (\<forall>n. OnEntry OpCreate n \<in> set evs \<longleftrightarrow>
              map_of (rec_entries (it_left item)) n = None \<and> map_of fis n \<noteq> None \<and>
              length (rec_entries (it_left item)) < length fis) \<and>
           (\<forall>n. OnEntry OpRemove n \<in> set evs \<longleftrightarrow>
              map_of (rec_entries (it_left item)) n \<noteq> None \<and> map_of fis n = None \<and>
              length fis \<le> length (rec_entries (it_left item))) \<and>
           (\<forall>n a b op. map_of (rec_entries (it_left item)) n = Some a \<longrightarrow> map_of fis n = Some b \<longrightarrow>
              (OnEntry op n \<in> set evs \<longleftrightarrow> op \<noteq> OpNone \<and> op = checkChange (Some a) (Some b)))"
proof -
  let ?old = "rec_entries (it_left item)"
  note ev = entry_events_iff [OF assms(3,5)]
  have "OnEntry OpCreate n \<in> set (entry_events ?old fis) \<longleftrightarrow>
      map_of ?old n = None \<and> map_of fis n \<noteq> None \<and> length ?old < length fis" for n
    using map_of_None_iff_mem [of ?old n] map_of_None_iff_mem [of fis n] by (auto simp: ev checkChange_Create)
  moreover have "OnEntry OpRemove n \<in> set (entry_events ?old fis) \<longleftrightarrow>
      map_of ?old n \<noteq> None \<and> map_of fis n = None \<and> length fis \<le> length ?old" for n
    using map_of_None_iff_mem [of ?old n] map_of_None_iff_mem [of fis n] by (auto simp: ev checkChange_Remove)
  moreover have "OnEntry op n \<in> set (entry_events ?old fis) \<longleftrightarrow> op \<noteq> OpNone \<and> op = checkChange (Some a) (Some b)"
    if "map_of ?old n = Some a" "map_of fis n = Some b" for n a b op
    using that by (auto simp: ev dest: map_of_SomeD intro: rev_image_eqI)
  ultimately show ?thesis
    using watch_tick_dir [OF assms(1,2,4)] assms(5) by (auto simp: go_map_ok_def)
qed

definition sample_dir :: FileInfo where
  "sample_dir = \<lparr>fi_IsDir = True, fi_Mode = 0, fi_ModTime = 0, fi_Size = 0\<rparr>"

definition sample_file :: FileInfo where
  "sample_file = \<lparr>fi_IsDir = False, fi_Mode = 0, fi_ModTime = 1, fi_Size = 2\<rparr>"

definition sample_item :: itemToWatch where
  "sample_item = \<lparr>it_left = \<lparr>rec_info = Some sample_dir, rec_entries = [(''a'', sample_file)]\<rparr>, it_right = None\<rparr>"

theorem poll_reports_exactly_witness:
  "\<exists>evs item'. watch_tick (StatOk sample_dir) (DirEntries [(''b'', sample_file)]) sample_item = (Some evs, item') \<and>
     rec_entries (it_left item') = [(''b'', sample_file)] \<and>
     OnEntry OpRemove ''a'' \<in> set evs \<and> OnEntry OpCreate ''b'' \<notin> set evs"
  using poll_reports_exactly [of sample_item sample_dir sample_dir "[(''b'', sample_file)]"]
  by (auto simp: sample_item_def sample_dir_def go_map_ok_def)

text \<open>
  \<open>Close\<close> marks the poller closed before it removes the watches, so each removal is refused and the
  set stays as it was; \<open>Remove\<close> forgets the name and leaves the goroutine running, so that adding the
  name again watches it twice.
\<close>

lemma poller_Close_keeps_watches: "fp_watches (poller_Close w) = fp_watches w"
proof -
  have "foldl (\<lambda>w name. fst (poller_remove name w)) u ns = u" if "fp_closed u" for u ns
    using that by (induction ns) (simp_all add: poller_remove_def)
  then show ?thesis by (simp add: poller_Close_def)
qed

lemma poller_readd_watches_twice:
  assumes "\<not> fp_closed w" "name \<notin> set (fp_watches w)" "poller_Add st dir name w = (w1, None)"
  shows "\<exists>w2 w3. poller_Remove name w1 = (w2, None) \<and> poller_Add st dir name w2 = (w3, None) \<and>
           count_list (fp_goroutines w3) name = count_list (fp_goroutines w) name + 2"
  using assms
  by (auto simp: poller_Add_def poller_Remove_def poller_remove_def split: option.splits if_splits)

text \<open>A poll that fails leaves an empty snapshot, which the swap makes the one the next poll compares
  with: the next poll that succeeds reports the watched item as created.\<close>

lemma poll_error_then_create:
  assumes "watch_tick StatError dir item = (evs, item1)"
  shows "evs = None \<and> fst (watch_tick (StatOk fi) dir' item1) \<in> {None, Some [OnItem OpCreate]}"
  using assms
  by (auto simp: watch_tick_def checkForChanges_def rec_record_def rec_clear_def Let_def checkChange_def
      split: dir_result.splits option.splits if_splits)

end
