(* ===== verification/Hot_Reloading.thy ===== *)
theory Hot_Reloading
  imports File_Poller "HOL-Library.Sublist"
begin

text \<open>
  Hot reloading of the LocalStack command: the change listener of \<open>cmd/localstack/hotreloading.go\<close>, which keeps a list of folders
  and debounces changes, and the goroutine that resets the environment (\<open>resetListener\<close> of \<open>awsutil.go\<close>).  The file watcher is
  an interface (\<open>FileWatcher\<close>): its operations are parameters of the definitions, their contract is a locale, and the
  polling watcher is an interpretation of it.  The listener, the debouncer and the resetting goroutine take interleaved
  steps; the channels between them hold ten messages each.
\<close>

section \<open>Folders\<close>

definition getSubFoldersInList :: "string \<Rightarrow> string list \<Rightarrow> string list \<times> string list" where
  "getSubFoldersInList p pathList = (filter (prefix p) pathList, filter (\<lambda>item. \<not> prefix p item) pathList)"

datatype fsnotify_op = Create | Write | Remove | Rename | Chmod

record fsnotify_event =
  ev_Name :: string
  ev_Op :: "fsnotify_op list"

definition ev_Has :: "fsnotify_event \<Rightarrow> fsnotify_op \<Rightarrow> bool" where
  "ev_Has e k = (k \<in> set (ev_Op e))"

record 'w ChangeListener =
  cl_watcher :: 'w
  cl_watchedFolders :: "string list"
  cl_changeChannel :: "string list"
  cl_changeClosed :: bool
  cl_timer :: bool
  cl_firing :: bool
  cl_debouncedChannel :: nat
  cl_debouncedClosed :: bool
  cl_watching :: bool
  cl_sending :: "string option"
  cl_resetting :: bool

definition NewChangeListener :: "'w \<Rightarrow> 'w ChangeListener" where
  "NewChangeListener watcher =
    \<lparr>cl_watcher = watcher, cl_watchedFolders = [], cl_changeChannel = [], cl_changeClosed = False, cl_timer = False, cl_firing = False,
     cl_debouncedChannel = 0, cl_debouncedClosed = False, cl_watching = True, cl_sending = None, cl_resetting = False\<rparr>"

type_synonym ('w, 'e) watcher_call = "string \<Rightarrow> 'w \<Rightarrow> 'w \<times> 'e option"

text \<open>A failed call is logged.\<close>

fun call_each :: "('w, 'e) watcher_call \<Rightarrow> string list \<Rightarrow> 'w \<Rightarrow> 'w" where
  "call_each f [] w = w"
| "call_each f (d # ds) w = call_each f ds (fst (f d w))"

text \<open>\<open>AddTargetPaths\<close> ends the process at the first folder that cannot be watched; the folders below each path are an argument.\<close>

fun AddTargetPaths :: "('w, 'e) watcher_call \<Rightarrow> (string \<Rightarrow> string list) \<Rightarrow> string list \<Rightarrow> 'w \<Rightarrow> 'w outcome" where
  "AddTargetPaths add sub [] w = Ret w"
| "AddTargetPaths add sub (p # ps) w =
    outcome_bind (foldl (\<lambda>r t. outcome_bind r (\<lambda>w. case add t w of (w, None) \<Rightarrow> Ret w | (w, Some e) \<Rightarrow> Panics ''fatal'')) (Ret w) (sub p))
      (AddTargetPaths add sub ps)"

text \<open>What \<open>Watch\<close> does with the folders for one event; \<open>dirs\<close> are the folders below the created path, if it is a directory
  that can be examined.\<close>

definition Watch_folders :: "('w, 'e) watcher_call \<Rightarrow> ('w, 'e) watcher_call \<Rightarrow> fsnotify_event \<Rightarrow> string list option
    \<Rightarrow> 'w ChangeListener \<Rightarrow> 'w ChangeListener" where
  "Watch_folders add rm ev dirs c =
    (if ev_Has ev Create
     then (case dirs of
             None \<Rightarrow> c
           | Some subfolders \<Rightarrow> c\<lparr>cl_watcher := call_each add subfolders (cl_watcher c),
                                cl_watchedFolders := cl_watchedFolders c @ subfolders\<rparr>)
     else if ev_Has ev Remove \<or> ev_Has ev Rename
     then (case getSubFoldersInList (ev_Name ev) (cl_watchedFolders c) of
             (old, new) \<Rightarrow> c\<lparr>cl_watchedFolders := new, cl_watcher := call_each rm old (cl_watcher c)\<rparr>)
     else c)"

section \<open>Steps\<close>

datatype listener_op =
    LEvent fsnotify_event "string list option" | LSend | LEventsClosed | LErrorsClosed
  | LChange | LChangesClosed | LTimer | LDebounced | LReset | LResetDone

definition Watch_receive :: "('w, 'e) watcher_call \<Rightarrow> ('w, 'e) watcher_call \<Rightarrow> fsnotify_event \<Rightarrow> string list option
    \<Rightarrow> 'w ChangeListener \<Rightarrow> 'w ChangeListener option" where
  "Watch_receive add rm ev dirs c =
    (if cl_watching c \<and> cl_sending c = None then Some ((Watch_folders add rm ev dirs c)\<lparr>cl_sending := Some (ev_Name ev)\<rparr>) else None)"

definition Watch_send :: "'w ChangeListener \<Rightarrow> 'w ChangeListener option" where
  "Watch_send c =
    (case cl_sending c of
       Some n \<Rightarrow> if length (cl_changeChannel c) < 10
                then Some (c\<lparr>cl_changeChannel := cl_changeChannel c @ [n], cl_sending := None\<rparr>) else None
     | None \<Rightarrow> None)"

text \<open>The end of the events closes the channel of changes; the end of the errors does not.\<close>

definition Watch_end :: "bool \<Rightarrow> 'w ChangeListener \<Rightarrow> 'w ChangeListener option" where
  "Watch_end events c =
    (if cl_watching c \<and> cl_sending c = None
     then Some (c\<lparr>cl_watching := False, cl_changeClosed := cl_changeClosed c \<or> events\<rparr>) else None)"

text \<open>The debouncer: a change restarts the timer, and an elapsed timer sends one message, which may have to wait for room.\<close>

definition debounce_change :: "'w ChangeListener \<Rightarrow> 'w ChangeListener option" where
  "debounce_change c =
    (if cl_firing c \<or> cl_debouncedClosed c then None
     else case cl_changeChannel c of n # ns \<Rightarrow> Some (c\<lparr>cl_changeChannel := ns, cl_timer := True\<rparr>) | [] \<Rightarrow> None)"

definition debounce_closed :: "'w ChangeListener \<Rightarrow> 'w ChangeListener option" where
  "debounce_closed c =
    (if \<not> cl_firing c \<and> \<not> cl_debouncedClosed c \<and> cl_changeChannel c = [] \<and> cl_changeClosed c
     then Some (c\<lparr>cl_timer := False, cl_debouncedClosed := True\<rparr>) else None)"

definition debounce_timer :: "'w ChangeListener \<Rightarrow> 'w ChangeListener option" where
  "debounce_timer c = (if cl_timer c \<and> \<not> cl_firing c then Some (c\<lparr>cl_timer := False, cl_firing := True\<rparr>) else None)"

definition debounce_send :: "'w ChangeListener \<Rightarrow> 'w ChangeListener option" where
  "debounce_send c =
    (if cl_firing c \<and> cl_debouncedChannel c < 10
     then Some (c\<lparr>cl_firing := False, cl_debouncedChannel := cl_debouncedChannel c + 1\<rparr>) else None)"

definition resetListener_begin :: "'w ChangeListener \<Rightarrow> 'w ChangeListener option" where
  "resetListener_begin c =
    (if \<not> cl_resetting c \<and> cl_debouncedChannel c > 0
     then Some (c\<lparr>cl_debouncedChannel := cl_debouncedChannel c - 1, cl_resetting := True\<rparr>) else None)"

definition resetListener_end :: "'w ChangeListener \<Rightarrow> 'w ChangeListener option" where
  "resetListener_end c = (if cl_resetting c then Some (c\<lparr>cl_resetting := False\<rparr>) else None)"

fun listener_exec :: "('w, 'e) watcher_call \<Rightarrow> ('w, 'e) watcher_call \<Rightarrow> listener_op \<Rightarrow> 'w ChangeListener \<Rightarrow> 'w ChangeListener option" where
  "listener_exec add rm (LEvent ev dirs) c = Watch_receive add rm ev dirs c"
| "listener_exec add rm LSend c = Watch_send c"
| "listener_exec add rm LEventsClosed c = Watch_end True c"
| "listener_exec add rm LErrorsClosed c = Watch_end False c"
| "listener_exec add rm LChange c = debounce_change c"
| "listener_exec add rm LChangesClosed c = debounce_closed c"
| "listener_exec add rm LTimer c = debounce_timer c"
| "listener_exec add rm LDebounced c = debounce_send c"
| "listener_exec add rm LReset c = resetListener_begin c"
| "listener_exec add rm LResetDone c = resetListener_end c"

fun listener_run :: "('w, 'e) watcher_call \<Rightarrow> ('w, 'e) watcher_call \<Rightarrow> listener_op list \<Rightarrow> 'w ChangeListener \<Rightarrow> 'w ChangeListener option" where
  "listener_run add rm [] c = Some c"
| "listener_run add rm (k # ks) c = Option.bind (listener_exec add rm k c) (listener_run add rm ks)"

section \<open>The interface of the watcher\<close>

text \<open>A successful call changes the watched paths by its argument and a failed one changes nothing; while the watcher is open,
  removing fails only for a path that is not watched.\<close>

locale file_watcher =
  fixes add rm :: "('w, 'e) watcher_call"
    and watched :: "'w \<Rightarrow> string set"
    and open_watcher :: "'w \<Rightarrow> bool"
  assumes add_ok: "add n w = (w', None) \<Longrightarrow> watched w' = insert n (watched w)"
    and add_failed: "add n w = (w', Some e) \<Longrightarrow> w' = w"
    and rm_ok: "rm n w = (w', None) \<Longrightarrow> watched w' = watched w - {n}"
    and rm_failed: "rm n w = (w', Some e) \<Longrightarrow> w' = w \<and> (open_watcher w \<longrightarrow> n \<notin> watched w)"
    and stays_open: "open_watcher w \<Longrightarrow> open_watcher (fst (add n w)) \<and> open_watcher (fst (rm n w))"
begin

lemma rm_watched: "open_watcher w \<Longrightarrow> watched (fst (rm n w)) = watched w - {n}"
  using rm_ok [of n w] rm_failed [of n w] by (cases "rm n w"; cases "snd (rm n w)") auto

lemma add_watched: "watched w \<subseteq> watched (fst (add n w)) \<and> watched (fst (add n w)) \<subseteq> insert n (watched w)"
  using add_ok [of n w] add_failed [of n w] by (cases "add n w"; cases "snd (add n w)") auto

lemma call_each_rm: "open_watcher w \<Longrightarrow> open_watcher (call_each rm ds w) \<and> watched (call_each rm ds w) = watched w - set ds"
  by (induction ds arbitrary: w) (auto simp: rm_watched stays_open)

lemma call_each_add:
  "open_watcher w \<Longrightarrow> open_watcher (call_each add ds w)"
  "watched w \<subseteq> watched (call_each add ds w)" "watched (call_each add ds w) \<subseteq> watched w \<union> set ds"
proof (induction ds arbitrary: w)
  case (Cons d ds)
  { case 1 then show ?case using Cons(1) stays_open by simp }
  { case 2 then show ?case using Cons(2) [of "fst (add d w)"] add_watched [of w d] by auto }
  { case 3 then show ?case using Cons(3) [of "fst (add d w)"] add_watched [of w d] by auto }
qed auto

lemma removed_event:
  assumes "open_watcher (cl_watcher c)" "\<not> ev_Has ev Create" "ev_Has ev Remove \<or> ev_Has ev Rename"
  shows "watched (cl_watcher (Watch_folders add rm ev dirs c)) =
      watched (cl_watcher c) - {d \<in> set (cl_watchedFolders c). prefix (ev_Name ev) d}"
    and "cl_watchedFolders (Watch_folders add rm ev dirs c) = filter (\<lambda>d. \<not> prefix (ev_Name ev) d) (cl_watchedFolders c)"
  using assms call_each_rm by (auto simp: Watch_folders_def getSubFoldersInList_def)

text \<open>The watcher watches no folder but the ones it watched at the start and the ones of the list.\<close>

lemma folders_step:
  assumes "open_watcher (cl_watcher c)" "watched (cl_watcher c) \<subseteq> T \<union> set (cl_watchedFolders c)"
  shows "open_watcher (cl_watcher (Watch_folders add rm ev dirs c)) \<and>
    watched (cl_watcher (Watch_folders add rm ev dirs c)) \<subseteq> T \<union> set (cl_watchedFolders (Watch_folders add rm ev dirs c))"
proof (cases "ev_Has ev Create")
  case True
  show ?thesis
  proof (cases dirs)
    case (Some ds)
    then show ?thesis using True assms call_each_add [where w = "cl_watcher c" and ds = ds] by (auto simp: Watch_folders_def)
  qed (use True assms in \<open>simp add: Watch_folders_def\<close>)
next
  case False
  then show ?thesis using assms removed_event [OF assms(1) False] call_each_rm
    by (cases "ev_Has ev Remove \<or> ev_Has ev Rename") (auto simp: Watch_folders_def getSubFoldersInList_def)
qed

lemma exec_folders:
  assumes "listener_exec add rm k c = Some c'" "open_watcher (cl_watcher c)" "watched (cl_watcher c) \<subseteq> T \<union> set (cl_watchedFolders c)"
  shows "open_watcher (cl_watcher c') \<and> watched (cl_watcher c') \<subseteq> T \<union> set (cl_watchedFolders c')"
proof (cases k)
  case (LEvent ev dirs)
  then have "c' = (Watch_folders add rm ev dirs c)\<lparr>cl_sending := Some (ev_Name ev)\<rparr>"
    using assms(1) by (simp add: Watch_receive_def split: if_splits)
  then show ?thesis using folders_step [OF assms(2,3), of ev dirs] by simp
qed (use assms in \<open>auto simp: Watch_send_def Watch_end_def debounce_change_def debounce_closed_def debounce_timer_def debounce_send_def
    resetListener_begin_def resetListener_end_def split: if_splits option.splits list.splits\<close>)

lemma run_folders:
  "listener_run add rm ks c = Some c' \<Longrightarrow> open_watcher (cl_watcher c) \<Longrightarrow> watched (cl_watcher c) \<subseteq> T \<union> set (cl_watchedFolders c) \<Longrightarrow>
    open_watcher (cl_watcher c') \<and> watched (cl_watcher c') \<subseteq> T \<union> set (cl_watchedFolders c')"
proof (induction ks arbitrary: c)
  case (Cons k ks)
  then obtain d where "listener_exec add rm k c = Some d" "listener_run add rm ks d = Some c'" by (auto simp: bind_eq_Some_conv)
  then show ?case using exec_folders [of k c d T] Cons.prems(2,3) Cons.IH [of d] by simp
qed simp

end

text \<open>The polling watcher; what it sees of a path when it is added is an argument.\<close>

definition poller_add_call :: "(string \<Rightarrow> stat_result) \<Rightarrow> (string \<Rightarrow> dir_result) \<Rightarrow> (filePoller, poller_error) watcher_call" where
  "poller_add_call stat dir n w = poller_Add (stat n) (dir n) n w"

interpretation poller: file_watcher "poller_add_call stat dir" poller_Remove "\<lambda>w. set (fp_watches w)" "\<lambda>w. \<not> fp_closed w"
  by unfold_locales (auto simp: poller_add_call_def poller_Add_def poller_Remove_def poller_remove_def split: if_splits option.splits)

text \<open>A removed path takes its folders out of the watch.  When a path is removed or renamed, the polling watcher stops watching
  exactly the folders of the listener's list whose name starts with that path, and the list keeps the others.  A folder
  that only shares the beginning of its name is dropped as well.\<close>

theorem removed_folders_unwatched:
  assumes "\<not> fp_closed (cl_watcher c)" "\<not> ev_Has ev Create" "ev_Has ev Remove \<or> ev_Has ev Rename"
    and "c' = Watch_folders (poller_add_call stat dir) poller_Remove ev dirs c"
  shows "set (fp_watches (cl_watcher c')) = set (fp_watches (cl_watcher c)) - {d \<in> set (cl_watchedFolders c). prefix (ev_Name ev) d} \<and>
    cl_watchedFolders c' = filter (\<lambda>d. \<not> prefix (ev_Name ev) d) (cl_watchedFolders c)"
  using poller.removed_event [OF assms(1-3), of stat dir dirs] unfolding assms(4) by simp

definition sample_listener :: "filePoller ChangeListener" where
  "sample_listener = (NewChangeListener \<lparr>fp_watches = [''/c'', ''/c/b'', ''/c/bc''], fp_done = False, fp_closed = False,
      fp_goroutines = [''/c'', ''/c/b'', ''/c/bc'']\<rparr>)\<lparr>cl_watchedFolders := [''/c/b'', ''/c/bc'']\<rparr>"

theorem removed_folders_unwatched_witness:
  "set (fp_watches (cl_watcher (Watch_folders (poller_add_call (\<lambda>_. StatNotExist) (\<lambda>_. DirNotExist)) poller_Remove
     \<lparr>ev_Name = ''/c/b'', ev_Op = [Remove]\<rparr> None sample_listener))) = {''/c''}"
proof -
  have c: "\<not> fp_closed (cl_watcher sample_listener)" "\<not> ev_Has \<lparr>ev_Name = ''/c/b'', ev_Op = [Remove]\<rparr> Create"
    "ev_Has \<lparr>ev_Name = ''/c/b'', ev_Op = [Remove]\<rparr> Remove \<or> ev_Has \<lparr>ev_Name = ''/c/b'', ev_Op = [Remove]\<rparr> Rename"
    by (simp_all add: sample_listener_def NewChangeListener_def ev_Has_def)
  have w: "cl_watchedFolders sample_listener = [''/c/b'', ''/c/bc'']" "fp_watches (cl_watcher sample_listener) = [''/c'', ''/c/b'', ''/c/bc'']"
    by (simp_all add: sample_listener_def NewChangeListener_def)
  have f: "{d. (d = ''/c/b'' \<or> d = ''/c/bc'') \<and> prefix ''/c/b'' d} = {''/c/b'', ''/c/bc''}"
    by (intro set_eqI iffI) (simp_all, elim disjE, simp_all)
  show ?thesis using removed_folders_unwatched [OF c refl, where stat = "\<lambda>_. StatNotExist" and dir = "\<lambda>_. DirNotExist" and dirs = None]
      f by (simp add: w insert_Diff_if)
qed

section \<open>No change is lost\<close>

text \<open>A step of the goroutines between a change and the reset.  The channels are open, and a change is on its way.\<close>

definition internal_ops :: "listener_op list" where
  "internal_ops = [LSend, LChange, LTimer, LDebounced, LReset, LResetDone]"

definition listener_open :: "'w ChangeListener \<Rightarrow> bool" where
  "listener_open c = (\<not> cl_changeClosed c \<and> \<not> cl_debouncedClosed c)"

definition change_pending :: "'w ChangeListener \<Rightarrow> bool" where
  "change_pending c = (cl_sending c \<noteq> None \<or> cl_changeChannel c \<noteq> [] \<or> cl_timer c \<or> cl_firing c \<or> cl_debouncedChannel c > 0)"

definition listener_work :: "'w ChangeListener \<Rightarrow> nat" where
  "listener_work c = (case cl_sending c of Some _ \<Rightarrow> 6 | None \<Rightarrow> 0) + 5 * length (cl_changeChannel c) + of_bool (cl_timer c) * 4 +
     of_bool (cl_firing c) * 3 + 2 * cl_debouncedChannel c + of_bool (cl_resetting c)"

lemmas listener_step_defs = Watch_send_def debounce_change_def debounce_closed_def debounce_timer_def debounce_send_def resetListener_begin_def
  resetListener_end_def

lemma internal_work_each:
  assumes "k \<in> set internal_ops"
  shows "pred_option (\<lambda>c'. listener_work c' < listener_work c \<and> listener_open c' = listener_open c \<and>
    (change_pending c \<longrightarrow> change_pending c' \<or> k = LReset)) (listener_exec add rm k c)"
proof -
  consider "k = LSend" | "k = LChange" | "k = LTimer" | "k = LDebounced" | "k = LReset" | "k = LResetDone"
    using assms by (auto simp: internal_ops_def)
  then show ?thesis
    by cases (simp_all add: listener_step_defs listener_work_def listener_open_def change_pending_def split: option.split list.split, arith)
qed

lemma internal_work:
  assumes "k \<in> set internal_ops" "listener_exec add rm k c = Some c'"
  shows "listener_work c' < listener_work c" "listener_open c' = listener_open c" "change_pending c \<Longrightarrow> change_pending c' \<or> k = LReset"
  using internal_work_each [OF assms(1), of c add rm] assms(2) by simp_all

lemma internal_enabled:
  assumes "change_pending c" "listener_open c"
  shows "\<exists>k \<in> set internal_ops. listener_exec add rm k c \<noteq> None"
proof (cases "cl_debouncedChannel c > 0")
  case True
  then have "listener_exec add rm LReset c \<noteq> None \<or> listener_exec add rm LResetDone c \<noteq> None" by (simp add: listener_step_defs)
  then show ?thesis by (auto simp: internal_ops_def)
next
  case False
  then have "listener_exec add rm LDebounced c \<noteq> None \<or> listener_exec add rm LTimer c \<noteq> None \<or>
      listener_exec add rm LChange c \<noteq> None \<or> listener_exec add rm LSend c \<noteq> None"
    using assms by (auto simp: listener_step_defs change_pending_def listener_open_def split: list.splits option.splits)
  then show ?thesis by (auto simp: internal_ops_def)
qed

text \<open>C18: no change is lost.  Whenever a change was noticed and the listener is not shut down, the debouncer and the resetting
  goroutine are not stuck, every run of them is bounded, and a run that goes on until nothing is left to do resets the
  environment.\<close>

theorem change_leads_to_reset:
  assumes "change_pending c" "listener_open c" "set ks \<subseteq> set internal_ops" "listener_run add rm ks c = Some c'"
  shows "length ks \<le> listener_work c \<and> (LReset \<in> set ks \<or> (\<exists>k. k \<in> set internal_ops \<and> listener_exec add rm k c' \<noteq> None))"
proof -
  have len: "length ks \<le> listener_work c"
    using assms(3,4)
  proof (induction ks arbitrary: c)
    case (Cons k ks)
    then obtain d where "listener_exec add rm k c = Some d" "listener_run add rm ks d = Some c'" by (auto simp: bind_eq_Some_conv)
    then show ?case using internal_work(1) [of k add rm c d] Cons.IH [of d] Cons.prems(1) by simp
  qed simp
  have "LReset \<in> set ks \<or> change_pending c' \<and> listener_open c'"
    using assms
  proof (induction ks arbitrary: c)
    case (Cons k ks)
    then obtain d where d: "listener_exec add rm k c = Some d" "listener_run add rm ks d = Some c'" by (auto simp: bind_eq_Some_conv)
    then show ?case using internal_work(2,3) [of k add rm c d] Cons.IH [of d] Cons.prems by auto
  qed simp
  then show ?thesis using len internal_enabled by blast
qed

lemma event_pending: "listener_exec add rm (LEvent ev dirs) c = Some c' \<Longrightarrow> change_pending c' \<and> listener_open c' = listener_open c"
  by (auto simp: Watch_receive_def change_pending_def listener_open_def Watch_folders_def getSubFoldersInList_def
      split: if_splits option.splits)

text \<open>The change of one file, and the run until the environment is reset.\<close>

definition sample_change :: "filePoller ChangeListener" where
  "sample_change = sample_listener\<lparr>cl_sending := Some ''/c/f''\<rparr>"

theorem change_leads_to_reset_witness:
  "\<exists>c'. listener_run (poller_add_call (\<lambda>_. StatNotExist) (\<lambda>_. DirNotExist)) poller_Remove [LSend, LChange, LTimer] sample_change = Some c' \<and>
    listener_exec (poller_add_call (\<lambda>_. StatNotExist) (\<lambda>_. DirNotExist)) poller_Remove LDebounced c' \<noteq> None"
proof -
  let ?a = "poller_add_call (\<lambda>_. StatNotExist) (\<lambda>_. DirNotExist)"
  have p: "change_pending sample_change" "listener_open sample_change" "set [LSend, LChange, LTimer] \<subseteq> set internal_ops"
    by (simp_all add: sample_change_def sample_listener_def NewChangeListener_def change_pending_def listener_open_def internal_ops_def)
  obtain c' where c': "listener_run ?a poller_Remove [LSend, LChange, LTimer] sample_change = Some c'"
    "\<not> cl_resetting c'" "cl_debouncedChannel c' = 0" "cl_changeChannel c' = []" "cl_sending c' = None" "\<not> cl_timer c'"
    by (simp add: sample_change_def sample_listener_def NewChangeListener_def listener_step_defs)
  obtain k where k: "k \<in> set internal_ops" "listener_exec ?a poller_Remove k c' \<noteq> None"
    using change_leads_to_reset [OF p c'(1)] by auto
  have "k = LDebounced" using k c'(2-6) by (auto simp: internal_ops_def listener_step_defs split: if_splits)
  then show ?thesis using c'(1) k(2) by blast
qed

text \<open>The environment is not reset more often than changes were noticed.\<close>

definition tokens :: "'w ChangeListener \<Rightarrow> nat" where
  "tokens c = (case cl_sending c of Some _ \<Rightarrow> 1 | None \<Rightarrow> 0) + length (cl_changeChannel c) + of_bool (cl_timer c) + of_bool (cl_firing c) +
     cl_debouncedChannel c"

fun is_event :: "listener_op \<Rightarrow> bool" where
  "is_event (LEvent ev dirs) = True"
| "is_event _ = False"

lemma tokens_each: "pred_option (\<lambda>c'. tokens c' + of_bool (k = LReset) \<le> tokens c + of_bool (is_event k)) (listener_exec add rm k c)"
  by (cases k) (simp_all add: Watch_receive_def Watch_end_def Watch_folders_def getSubFoldersInList_def listener_step_defs tokens_def
      split: option.split list.split)

lemma tokens_step:
  "listener_exec add rm k c = Some c' \<Longrightarrow> tokens c' + of_bool (k = LReset) \<le> tokens c + of_bool (is_event k)"
  using tokens_each [of k c add rm] by simp

lemma resets_bounded:
  "listener_run add rm ks c = Some c' \<Longrightarrow> count_list ks LReset + tokens c' \<le> length (filter is_event ks) + tokens c"
proof (induction ks arbitrary: c)
  case (Cons k ks)
  then obtain d where "listener_exec add rm k c = Some d" "listener_run add rm ks d = Some c'" by (auto simp: bind_eq_Some_conv)
  then show ?case using tokens_step [of add rm k c d] Cons.IH [of d] by (cases "k = LReset"; cases "is_event k") auto
qed simp

lemma no_reset_without_change: "listener_run add rm ks (NewChangeListener w) = Some c' \<Longrightarrow> count_list ks LReset \<le> length (filter is_event ks)"
  using resets_bounded [of add rm ks "NewChangeListener w" c'] by (simp add: tokens_def NewChangeListener_def)

text \<open>When the channel of errors is closed first, the channel of changes stays open and the debouncer never ends.\<close>

lemma errors_closed_first:
  "listener_run add rm (LErrorsClosed # ks) (NewChangeListener w) = Some c' \<Longrightarrow> \<not> cl_changeClosed c' \<and> \<not> cl_debouncedClosed c'"
proof -
  have inv: "\<not> cl_watching c' \<and> \<not> cl_changeClosed c' \<and> \<not> cl_debouncedClosed c'"
    if "listener_run add rm ks c = Some c'" "\<not> cl_watching c \<and> \<not> cl_changeClosed c \<and> \<not> cl_debouncedClosed c" for c
    using that
  proof (induction ks arbitrary: c)
    case (Cons k ks)
    then obtain d where d: "listener_exec add rm k c = Some d" "listener_run add rm ks d = Some c'" by (auto simp: bind_eq_Some_conv)
    have "\<not> cl_watching d \<and> \<not> cl_changeClosed d \<and> \<not> cl_debouncedClosed d" using d(1) Cons.prems(2)
      by (cases k) (auto simp: Watch_receive_def Watch_end_def listener_step_defs split: if_splits option.splits list.splits)
    then show ?case using Cons.IH d(2) by blast
  qed simp
  assume "listener_run add rm (LErrorsClosed # ks) (NewChangeListener w) = Some c'"
  then show ?thesis using inv [of "(NewChangeListener w)\<lparr>cl_watching := False\<rparr>"] by (simp add: Watch_end_def NewChangeListener_def)
qed

end
