(* ===== verification/Spec2Isabelle.thy ===== *)
theory Spec2Isabelle
  imports
    Instance_Init Gate_Waiters Core_System Credentials Direct_Invoke App_Context
    Environment Messages Rapid_Server Rapid_Context Rapid_Handlers Handler_Runs
    Served_Invokes Running_Invoke Invoke_Router Raptor_App
    Server_Invoke LocalStack_Main Hot_Reloading
begin

text \<open>
  Verification of the LocalStack Lambda runtime init process.

  \<^bold>\<open>The program.\<close>  The process runs as the init of a Lambda container.  It starts the language
  runtime and the extensions of a function, serves them the Lambda Runtime API, and passes invokes
  and their results between them and the platform.  Its core (\<open>src/internal/lambda/core\<close>) is a set of
  state machines around shared barriers: the runtime and every extension ("agent") ask for the next
  event and are suspended until the platform releases them; the platform waits for all of them at
  counting gates, which an error cancels.  A registry (\<open>registrations.go\<close>) owns the machines and the
  two flows of gates.  A direct-invoke path checks the headers of an invoke against its reservation
  and copies the response to the caller, limited in size and bandwidth.  The handlers of
  \<open>src/internal/lambda/rapid\<close> drive the core through init, invoke, reset, shutdown and restore and start
  and stop the processes through a supervisor; the server of \<open>src/internal/lambda/rapidcore\<close> reserves
  the sandbox for one invoke at a time and writes its reply.  The API of
  \<open>src/internal/lambda/rapi\<close> turns the HTTP requests of the runtime and the extensions into operations of
  both.  The managed-instances variant
  (\<open>src/internal/lambda-managed-instances\<close>) serves many concurrent invokes: an application with a
  life cycle, a router that matches invokes, idle runtimes and answers, and one running invoke per
  event; it has a core of its own, in which gates carry values and waits end with a context, and
  goroutines that start and stop the processes.  The LocalStack command (\<open>src/cmd/localstack\<close>) is the program around the core: it reads its
  options, prepares the environment of the function, waits for the initialization, tells LocalStack the
  outcome, serves its invocations over HTTP and reports logs and results, and resets the environment
  when the code changes (hot reloading).

  \<^bold>\<open>Conventions.\<close>  A method of the code is a definition of the same name where names allow it (a
  prefix tells apart methods of the same name); it takes the object and returns it updated.  A Go
  error is an \<open>option\<close>, a result or an error a sum, a panic is a value of its own (\<open>None\<close>, a
  constructor, or \<open>Panics\<close> of the type \<open>outcome\<close>, whose \<open>Blocks\<close> says that a wait does not return).  Machine integers are words where their width matters (the 16-bit counters of the
  gates) and integers with explicit wrap-around for \<open>int64\<close> (\<open>wrap64\<close>).  A Go map is an association
  list whose order is the order of iteration, so that theorems hold for every order.  A method that
  blocks on a condition variable or a channel is split there; interleavings are sequences of steps,
  each one critical section or channel operation, and the theorems quantify over all of them.  Clocks,
  fresh identifiers, what the operating system returns, and the outcome of sending bytes are arguments.

  \<^bold>\<open>The theories.\<close>
  \<^item> \<open>Prelude\<close>: Go maps, integers, decimal notation.  \<open>Errors\<close>: error values and types
    (\<open>fatalerror.go\<close>, sentinels of \<open>interop\<close>) and the scrubbing of reported types.  \<open>Interop\<close>: the parts
    of \<open>interop/model.go\<close> others use.
  \<^item> \<open>Gates\<close> (\<open>gates.go\<close>) with the locale \<open>gate_interface\<close>: a gate opens exactly at its count and
    rejects more arrivals.  \<open>Gate_Waiters\<close>: the waiting threads; no wake-up is lost.
  \<^item> \<open>Flow\<close> (\<open>flow.go\<close>) with the locale \<open>cancellable_flow\<close>, interpreted on the init and the invoke
    flow: cancelling releases every waiter, one response per invoke, and the barrier of the agents.
  \<^item> \<open>Managed_Thread\<close> and \<open>Runtime_States\<close> (\<open>states.go\<close>): suspension loses and invents no release; the
    runtime refines its protocol and answers at most once per release.
  \<^item> \<open>Agents\<close> and \<open>Agent_Machines\<close> (external and internal agents), the latter with the locale
    \<open>agent_machine\<close> interpreted on both kinds: error states are final and keep the first error.
  \<^item> \<open>Agents_Map\<close> (\<open>agentsmap.go\<close>) with the locale \<open>agent_index\<close>, \<open>Registrations\<close>
    (\<open>registrations.go\<close>), and \<open>Core_System\<close>, which composes the core into one system with all
    operations as steps: the registry stays consistent, registration is frozen once turned off, the
    first cancellation wins, the limit of agents.
  \<^item> \<open>Credentials\<close> (\<open>credentials.go\<close>), \<open>App_Context\<close> (\<open>appctx\<close>): the first fatal error is kept, the
    runtime release is bounded.
  \<^item> \<open>Bandwidth_Limiter\<close> (\<open>core/bandwidthlimiter\<close>) and \<open>Direct_Invoke\<close> (\<open>core/directinvoke\<close>):
    tokens stay in bounds, a throttled write is complete and within the rate, responses are
    classified by size, invokes are checked.
  \<^item> \<open>Environment\<close> (\<open>rapidcore/env\<close>): which process sees which variable, the classification of the
    customer's variables, the parsed configuration.  \<open>Messages\<close> (\<open>interop/sandbox_model.go\<close>,
    \<open>metering\<close>, \<open>telemetry/events_api.go\<close>): the answers of the handlers and the durations in them.
  \<^item> \<open>Rapid_Server\<close> (\<open>rapidcore/server.go\<close>): reservations, replies, releases, resets and the fast
    path as critical sections; at most one reply per reservation in every interleaving.
    \<open>Server_Invoke\<close>: \<open>Invoke\<close> as the interleaving of its goroutines, which share one channel of reset
    results; it leaves the server free and is not stuck.
  \<^item> \<open>Rapid_Context\<close> (\<open>rapid/sandbox.go\<close>, \<open>shutdown.go\<close>): the state of the handlers, the watcher of
    process exits, and the shutdown with the exact requests it makes.  \<open>Rapid_Handlers\<close>
    (\<open>handlers.go\<close>, \<open>exit.go\<close>): init, invoke, reset and restore cut at their waits.
    \<open>Handler_Runs\<close>: these interleaved with the requests of runtime and extensions; success means
    that all parties are ready and the work is done, and a reset interrupts every wait.
  \<^item> \<open>Error_Cause\<close> (\<open>rapi/model/error_cause*.go\<close>): the size of a validated error cause.  \<open>Rendering\<close>
    (\<open>rapi/rendering\<close>, \<open>rapi/model\<close>): what is written to a response, and that every poll is served the
    same payload.  \<open>Runtime_API\<close> (\<open>rapi/handler\<close>, \<open>middleware\<close>, \<open>router.go\<close>): every request as a sequence
    of steps, each with at most one operation on shared state.
  \<^item> \<open>API_Runs\<close>: interleaved requests.  The locale \<open>registry_relation\<close> states what a relation between
    registries needs for every step of a request to stay in it; interpreted on "one operation of a
    party" it gives the refinement of the API to the core.  \<open>API_Replies\<close>: what an answer says about
    the runtime, the server and the agents.  \<open>Served_Invokes\<close>: the invoke handler under interleaved
    requests; the same locale, interpreted on "no arrival at the response gate", shows end to end that
    a successful invoke had its reply accepted.
  \<^item> \<open>App_Errors\<close>, \<open>Runtime_Pool\<close>, \<open>Timeout_Cache\<close> (with the locale \<open>timeout_cache_interface\<close>),
    \<open>Running_Invoke\<close>, \<open>Invoke_Router\<close> and \<open>Raptor_App\<close>: the managed-instances invoke path.  The pool
    loses no runtime, invokes are isolated, each is answered exactly once, accepted calls of the
    runtime do not deadlock, initialization happens once and shutdown is final.
  \<^item> \<open>Instance_Core\<close> (\<open>lambda-managed-instances/core\<close>): the gates with values and contexts, a second
    interpretation of \<open>gate_interface\<close>; the generic maps of agents, which interpret \<open>agent_index\<close>; the
    machines and the registration service.  The external agents of both copies of the core agree.
    \<open>Instance_Shutdown\<close> (\<open>rapid/shutdown.go\<close>, \<open>sandbox.go\<close>): the shutdown as interleaved goroutines; it
    returns, a graceful one makes exactly the requests it must, and the server is closed only after all
    processes have exited.  \<open>Instance_Init\<close> (\<open>rapid/handlers.go\<close>, \<open>rapi/handler\<close>): the init goroutine
    interleaved with the requests of runtime and extensions, exits and the end of the context; success
    means that all are ready, a crash fails the initialization with the first fatal error, and the
    initialization returns.
  \<^item> \<open>File_Poller\<close> (\<open>cmd/localstack/filenotify\<close>): what a poll reports.  \<open>Hot_Reloading\<close>
    (\<open>hotreloading.go\<close>) with the locale \<open>file_watcher\<close>, interpreted on the poller: which folders are
    watched, and that no change is lost between the watcher and the reset.
  \<^item> \<open>LocalStack_Logs\<close> (\<open>logs.go\<close>, \<open>events.go\<close>): no log line is lost, and the recorded outcome of an
    initialization is that of the handler.  \<open>LocalStack_Interop\<close> (\<open>custom_interop.go\<close>): what LocalStack is
    told about an invocation and about a failed initialization.  \<open>LocalStack_Startup\<close> (\<open>main.go\<close>,
    \<open>awsutil.go\<close>, \<open>user.go\<close>): the environment of the function.  \<open>LocalStack_Main\<close>: the init phase of
    \<open>main\<close> interleaved with the initialization and with hot reloading; one status is sent, and the
    start-up cannot cancel an invocation.
  \<^item> This theory composes the last two groups: an invocation that the server has served is reported.

  \<^bold>\<open>Schedules and termination.\<close>  The throttled write takes the list of refills that arrive; its
  theorem shows that two attempts per byte are always enough, so the write returns.  The other loops
  are structural or have a measure.  Reachable states are defined inductively over steps and have no
  bound on their number.

  \<^bold>\<open>Parameters.\<close>  JSON, UUID and base64 decoding and encoding, and the third-party concurrent map of the router, are
  parameters; the laws of the latter are those of its documentation (\<open>cmap_laws\<close>) and hold for
  association lists.

  \<^bold>\<open>What the theorems found.\<close>  Clearing a gate keeps its count, so agents of the next phase can be
  dropped (\<open>agents_barrier_stale_after_clear\<close>); a failed send strands an accepted answer
  (\<open>failed_send_strands_response\<close>); an early answer makes the router panic
  (\<open>router_panics_on_early_answer\<close>); the largest payload limit overflows
  (\<open>max_payload_size_overflow\<close>); the streaming mode is sticky (\<open>streaming_mode_is_sticky\<close>); the
  poller misses files (\<open>poll_reports_exactly\<close>); a late failure or a late fast path of one invoke
  disturbs the next (\<open>late_failure_answers_next_invoke\<close>, \<open>late_fast_invoke_takes_next_reply\<close>); a cached
  init error is never cleared (\<open>cached_init_error_answers_later_failures\<close>); waiting twice for a failed
  init forgets the failure (\<open>await_initialized_forgets_failure\<close>); a bad response mode leaves the runtime
  unable to go on (\<open>invalid_response_mode_sticks\<close>); a failed read of the payload is followed by an event
  with half of it (\<open>truncated_payload_served\<close>); an error cause with escapes exceeds its limit
  (\<open>escaped_cause_exceeds_limit\<close>); a stale message lets a reset of hot reloading cancel the first
  invocation (\<open>stale_reset_cancels_first_invoke\<close>); an invocation that is reset counts as successful
  (\<open>reset_reported_as_success\<close>); a removed path takes folders out of the watch that only share the
  beginning of its name (\<open>removed_folders_unwatched\<close>); the JSON value null as init error panics
  (\<open>null_init_error_panics\<close>); a shutdown that reports an error leaves the server of a managed instance
  open (\<open>server_closed_after_all_exits\<close>); some variables of LocalStack reach the function (\<open>function_environment\<close>).

  \<^bold>\<open>Not modelled.\<close>  The sockets of the Runtime API, the supervisors (operating-system processes), telemetry
  and logging beyond durations (formatting), metrics, the downloads and the X-Ray daemon of the LocalStack
  command (network and third-party code), and, of the managed instances, the bodies and headers of the
  Runtime API, its requests outside the init phase and the local emulator are left out.
\<close>

section \<open>An invocation of LocalStack, served and reported\<close>

text \<open>C5: every invocation that the server has served is reported to LocalStack, after which the server is free.  Whenever \<open>Invoke\<close> has
  returned anything but the failure of the initialization, in any interleaving, and the settings are sound, the interop
  server does not end the process: it sends the logs and then the result, which is an error when the invocation timed out,
  and the next reservation is granted.  The hypotheses on JSON are that the platform's own values can be encoded.\<close>

theorem served_invocation_reported:
  assumes "serve_reach (Invoke_start wr ivk0 (server_run ops NewServer)) t" "getInitFailuresChan (server_run ops NewServer) \<noteq> None"
    and "si_main t = CReturned r" "r \<noteq> Some ErrInitDoneFailed" "cs_delegate cs = si_server t"
    and "\<forall>l. lj_logs (de_json env) l \<noteq> None" "\<forall>e. lj_error (de_json env) e \<noteq> None"
    and "de_memorySize env = Some mem" "de_PostInvokeWaitMS env = []"
  shows "\<exists>cs' isErr logs body. dispatch_end env ivk d h r w cs = Ret cs' \<and>
    cs_posts cs' = cs_posts cs @
      [(UpstreamEndpoint (cs_localStackAdapter cs) @ ''/invocations/'' @ iv_ID ivk @ ''/logs'', logs),
       (UpstreamEndpoint (cs_localStackAdapter cs) @ ''/invocations/'' @ iv_ID ivk @ (if isErr then ''/error'' else ''/response''), body)] \<and>
    (r = Some ErrInvokeTimeout \<longrightarrow> isErr) \<and> fst (snd (Reserve u1 u2 i tr l (cs_delegate cs'))) \<noteq> None"
proof -
  have free: "sv_invokeCtx (cs_delegate cs) = None" and r: "r \<in> {None, Some ErrInvokeTimeout, Some ErrInvokeDoneFailed}"
    using serve_reach_ok [OF assms(1,2) server_run_reservation_ok] assms(3-5) by (auto simp: serve_ok_def release_failures_def)
  obtain w' st ty where out: "invoke_outcome env ivk r w cs = Ret (w', platform_failure r cs, st, ty)"
    using invoke_outcome_Ret [OF assms(7) r] by blast
  obtain serialized where logs: "lj_logs (de_json env) (concat (RuntimeLogs (cs_logCollector cs)) @ end_line (iv_ID ivk) @
      report_line (de_d2 env) (de_f2 env) (iv_ID ivk) d h st ty mem (de_elapsed env) (timeout_seconds cs * 1000000000)) = Some serialized"
    using assms(6) by blast
  have wait: "\<not> (de_PostInvokeWaitMS env \<noteq> [] \<and> parse_int64 (de_PostInvokeWaitMS env) = None)" using assms(9) by simp
  obtain cs' where cs': "dispatch_end env ivk d h r w cs = Ret cs'"
    and rep: "reported env ivk (concat (RuntimeLogs (cs_logCollector cs)) @ end_line (iv_ID ivk) @
      report_line (de_d2 env) (de_f2 env) (iv_ID ivk) d h st ty mem (de_elapsed env) (timeout_seconds cs * 1000000000))
      (rp_Body w') (platform_failure r cs \<or> has_error_type (de_json env) (rp_Body w')) cs cs'"
    using dispatch_end_tail [OF out assms(8) wait logs] by blast
  have "fst (snd (Reserve u1 u2 i tr l (cs_delegate cs'))) \<noteq> None"
    using free dispatch_end_delegate [OF cs'] by (simp add: Reserve_def setNewInvokeContext_def Let_def)
  moreover have "r = Some ErrInvokeTimeout \<longrightarrow> platform_failure r cs" by (simp add: platform_failure_def)
  ultimately show ?thesis using cs' rep unfolding reported_def by blast
qed

theorem served_invocation_reported_witness:
  "\<exists>t cs' logs body. serve_reach (Invoke_start 0 Rapid_Server.sample_invoke (server_run started_server NewServer)) t \<and>
    dispatch_end sample_dispatch Rapid_Server.sample_invoke 0 False (Some ErrInvokeTimeout) \<lparr>rp_Body = [], rp_StatusCode = 0\<rparr>
      (sample_interop\<lparr>cs_delegate := si_server t\<rparr>) = Ret cs' \<and>
    map fst (cs_posts cs') = [''http://h/invocations/'' @ iv_ID Rapid_Server.sample_invoke @ ''/logs'', ''http://h/invocations/'' @ iv_ID Rapid_Server.sample_invoke @ ''/error'']"
proof -
  obtain t where t: "serve_run timeout_steps (Invoke_start 0 Rapid_Server.sample_invoke (server_run started_server NewServer)) = Some t"
    "si_main t = CReturned (Some ErrInvokeTimeout)" using timeout_run by blast
  let ?cs = "sample_interop\<lparr>cs_delegate := si_server t\<rparr>"
  have r: "serve_reach (Invoke_start 0 Rapid_Server.sample_invoke (server_run started_server NewServer)) t"
    using serve_run_reach [OF t(1) serve_reach.start] .
  have e: "Some ErrInvokeTimeout \<noteq> Some ErrInitDoneFailed" by (simp add: ErrInvokeTimeout_def ErrInitDoneFailed_def)
  have d: "cs_delegate ?cs = si_server t" by simp
  have j: "\<forall>l. lj_logs (de_json sample_dispatch) l \<noteq> None" "\<forall>e. lj_error (de_json sample_dispatch) e \<noteq> None"
    "de_memorySize sample_dispatch = Some ''128''" "de_PostInvokeWaitMS sample_dispatch = []"
    by (simp_all add: sample_dispatch_def sample_json_def)
  have s: "cs_posts ?cs = []" "UpstreamEndpoint (cs_localStackAdapter ?cs) = ''http://h''"
    by (simp_all add: sample_interop_def NewCustomInteropServer_def)
  obtain cs' isErr logs body where out: "dispatch_end sample_dispatch Rapid_Server.sample_invoke 0 False (Some ErrInvokeTimeout)
      \<lparr>rp_Body = [], rp_StatusCode = 0\<rparr> ?cs = Ret cs'" "isErr"
    "cs_posts cs' = [(''http://h'' @ ''/invocations/'' @ iv_ID Rapid_Server.sample_invoke @ ''/logs'', logs),
       (''http://h'' @ ''/invocations/'' @ iv_ID Rapid_Server.sample_invoke @ (if isErr then ''/error'' else ''/response''), body)]"
    using served_invocation_reported [OF r started_server_init t(2) e d j, where ivk = Rapid_Server.sample_invoke and d = 0 and h = False
        and w = "\<lparr>rp_Body = [], rp_StatusCode = 0\<rparr>" and ?u1.0 = "[]" and ?u2.0 = "[]" and i = "[]" and tr = "[]" and l = "[]"]
    unfolding s by auto
  then show ?thesis using r by (intro exI [of _ t] exI [of _ cs']) simp
qed

end
